(* ===== verification/Prelude.thy ===== *)
theory Prelude
  imports Main "HOL-Library.State_Monad" "HOL-Library.Word" "HOL-Library.Multiset" "HOL-Library.Product_Lexorder"
begin

text \<open>
  Shared vocabulary of the development: the state monad in which the operator's methods are
  written, the compositional reasoning rules for it, the result conventions of Go code, the
  string functions of the Go standard library that the sources use, and the stable sort of the
  package \<open>slices\<close>.
\<close>

named_theorems io_intros \<open>structural rules for state relations of monadic code\<close>
named_theorems go_defs \<open>definitions unfolded when a monadic program is run\<close>

subsection \<open>Machine integers and errors\<close>

type_synonym int16 = "16 word"
type_synonym int32 = "32 word"
type_synonym int64 = "64 word"

text \<open>A Go \<open>error\<close> is nil (\<open>None\<close>) or a value that prints as a message.\<close>

type_synonym error = "string option"

text \<open>A Go map with string keys; a nil map reads like an empty one.\<close>

type_synonym 'v gomap = "string \<rightharpoonup> 'v"

subsection \<open>Monadic programs\<close>

abbreviation ret :: "'a \<Rightarrow> ('s, 'a) state" where
  "ret \<equiv> State_Monad.return"

definition gets :: "('s \<Rightarrow> 'a) \<Rightarrow> ('s, 'a) state" where
  "gets f = State (\<lambda>s. (f s, s))"

definition modify :: "('s \<Rightarrow> 's) \<Rightarrow> ('s, unit) state" where
  "modify f = State (\<lambda>s. ((), f s))"

definition whenM :: "bool \<Rightarrow> ('s, unit) state \<Rightarrow> ('s, unit) state" where
  "whenM b m = (if b then m else State_Monad.return ())"

lemma run_gets [simp]: "run_state (gets f) s = (f s, s)"
  by (simp add: gets_def)

lemma run_modify [simp]: "run_state (modify f) s = ((), f s)"
  by (simp add: modify_def)

lemma run_when [simp]: "run_state (whenM b m) s = (if b then run_state m s else ((), s))"
  by (simp add: whenM_def)

text \<open>
  \<open>state_io_rel R m\<close> (of the library) says that every run of \<open>m\<close> relates its
  initial to its final state by \<open>R\<close>. For a reflexive and transitive \<open>R\<close> the relation
  is compositional; the locale below gives the rules once, for every such \<open>R\<close>.
\<close>

locale io_relation =
  fixes R :: "'s \<Rightarrow> 's \<Rightarrow> bool"
  assumes R_refl: "R s s"
    and R_trans: "R s t \<Longrightarrow> R t u \<Longrightarrow> R s u"
begin

lemma rel_return: "state_io_rel R (State_Monad.return x)"
  by (auto simp: state_io_rel_def R_refl)

lemma rel_gets: "state_io_rel R (gets f)"
  by (auto simp: state_io_rel_def R_refl)

lemma rel_get: "state_io_rel R State_Monad.get"
  by (auto simp: state_io_rel_def R_refl)

lemma rel_bind:
  assumes "state_io_rel R m" and "\<And>x. state_io_rel R (f x)"
  shows "state_io_rel R (State_Monad.bind m f)"
proof (rule state_io_relI)
  fix a s s'
  assume run: "run_state (State_Monad.bind m f) s = (a, s')"
  obtain x t where t: "run_state m s = (x, t)" by fastforce
  with run have "run_state (f x) t = (a, s')" by simp
  with assms t show "R s s'" by (meson R_trans state_io_relD)
qed

lemma rel_when: "(b \<Longrightarrow> state_io_rel R m) \<Longrightarrow> state_io_rel R (whenM b m)"
  by (auto simp: whenM_def rel_return)

lemma rel_modify: "(\<And>s. R s (f s)) \<Longrightarrow> state_io_rel R (modify f)"
  by (simp add: state_io_rel_def)

lemmas rel_intros = rel_return rel_gets rel_get rel_bind rel_when

end

lemma io_if [io_intros]:
  "(b \<Longrightarrow> state_io_rel R m) \<Longrightarrow> (\<not> b \<Longrightarrow> state_io_rel R n) \<Longrightarrow> state_io_rel R (if b then m else n)"
  by simp

lemma io_case_option [io_intros]:
  "(x = None \<Longrightarrow> state_io_rel R m) \<Longrightarrow> (\<And>y. x = Some y \<Longrightarrow> state_io_rel R (f y)) \<Longrightarrow>
   state_io_rel R (case x of None \<Rightarrow> m | Some y \<Rightarrow> f y)"
  by (cases x) auto

lemma io_case_prod [io_intros]:
  "(\<And>a b. x = (a, b) \<Longrightarrow> state_io_rel R (f a b)) \<Longrightarrow> state_io_rel R (case x of (a, b) \<Rightarrow> f a b)"
  by (cases x) auto

lemma io_case_sum [io_intros]:
  "(\<And>y. x = Inl y \<Longrightarrow> state_io_rel R (f y)) \<Longrightarrow> (\<And>y. x = Inr y \<Longrightarrow> state_io_rel R (g y)) \<Longrightarrow>
   state_io_rel R (case x of Inl y \<Rightarrow> f y | Inr y \<Rightarrow> g y)"
  by (cases x) auto

text \<open>\<open>keeps f m\<close>: no run of \<open>m\<close> changes the part \<open>f\<close> of the state.\<close>

definition keeps :: "('s \<Rightarrow> 'x) \<Rightarrow> ('s, 'a) state \<Rightarrow> bool" where
  "keeps f m \<longleftrightarrow> (\<forall>s. f (snd (run_state m s)) = f s)"

lemma keeps_io_rel: "keeps f m \<longleftrightarrow> state_io_rel (\<lambda>s s'. f s' = f s) m"
  by (simp add: keeps_def state_io_rel_def)

interpretation kp: io_relation "\<lambda>s s'. f s' = f s" for f
  by unfold_locales simp_all

lemma keepsD: "keeps f m \<Longrightarrow> run_state m s = (a, s') \<Longrightarrow> f s' = f s"
  unfolding keeps_def by (metis snd_conv)

lemma keeps_return [io_intros]: "keeps f (State_Monad.return x)"
  by (simp add: keeps_io_rel kp.rel_return)

lemma keeps_gets [io_intros]: "keeps f (gets g)"
  by (simp add: keeps_io_rel kp.rel_gets)

lemma keeps_get [io_intros]: "keeps f State_Monad.get"
  by (simp add: keeps_io_rel kp.rel_get)

lemma keeps_bind [io_intros]:
  "keeps f m \<Longrightarrow> (\<And>x. keeps f (g x)) \<Longrightarrow> keeps f (State_Monad.bind m g)"
  by (simp add: keeps_io_rel kp.rel_bind)

lemma keeps_when [io_intros]: "(b \<Longrightarrow> keeps f m) \<Longrightarrow> keeps f (whenM b m)"
  by (simp add: keeps_io_rel kp.rel_when)

lemma keeps_modify: "(\<And>s. f (g s) = f s) \<Longrightarrow> keeps f (modify g)"
  by (simp add: keeps_io_rel kp.rel_modify)

lemma keeps_if [io_intros]:
  "(b \<Longrightarrow> keeps f m) \<Longrightarrow> (\<not> b \<Longrightarrow> keeps f n) \<Longrightarrow> keeps f (if b then m else n)"
  by simp

lemma keeps_case_option [io_intros]:
  "(x = None \<Longrightarrow> keeps f m) \<Longrightarrow> (\<And>y. x = Some y \<Longrightarrow> keeps f (g y)) \<Longrightarrow>
   keeps f (case x of None \<Rightarrow> m | Some y \<Rightarrow> g y)"
  by (cases x) auto

lemma keeps_case_prod [io_intros]:
  "(\<And>a b. x = (a, b) \<Longrightarrow> keeps f (g a b)) \<Longrightarrow> keeps f (case x of (a, b) \<Rightarrow> g a b)"
  by (cases x) auto

lemma keeps_case_sum [io_intros]:
  "(\<And>y. x = Inl y \<Longrightarrow> keeps f (g y)) \<Longrightarrow> (\<And>y. x = Inr y \<Longrightarrow> keeps f (h y)) \<Longrightarrow>
   keeps f (case x of Inl y \<Rightarrow> g y | Inr y \<Rightarrow> h y)"
  by (cases x) auto

text \<open>A program that keeps a whole state keeps every function of it.\<close>

lemma keeps_comp: "keeps f m \<Longrightarrow> keeps (\<lambda>s. g (f s)) m"
  by (simp add: keeps_def)

lemma keeps_id_run: "keeps (\<lambda>s. s) m \<Longrightarrow> run_state m s = (fst (run_state m s), s)"
  by (simp add: keeps_def prod_eq_iff)

subsection \<open>Strings\<close>

text \<open>\<open>strings.Join\<close> with a separator.\<close>

fun join :: "string \<Rightarrow> string list \<Rightarrow> string" where
  "join sep [] = []"
| "join sep [x] = x"
| "join sep (x # y # xs) = x @ sep @ join sep (y # xs)"

text \<open>\<open>strings.ToLower\<close> on ASCII text.\<close>

definition to_lower_char :: "char \<Rightarrow> char" where
  "to_lower_char c = (let n = of_char c :: nat in if 65 \<le> n \<and> n \<le> 90 then char_of (n + 32) else c)"

definition to_lower :: "string \<Rightarrow> string" where
  "to_lower = map to_lower_char"

text \<open>\<open>strings.HasPrefix s prefix\<close>.\<close>

fun HasPrefix :: "string \<Rightarrow> string \<Rightarrow> bool" where
  "HasPrefix s [] = True"
| "HasPrefix [] (p # ps) = False"
| "HasPrefix (c # s) (p # ps) = (c = p \<and> HasPrefix s ps)"

lemma HasPrefix_iff: "HasPrefix s p \<longleftrightarrow> (\<exists>t. s = p @ t)"
  by (induction s p rule: HasPrefix.induct) auto

text \<open>\<open>strings.Split\<close> at a single character.\<close>

fun split_char :: "char \<Rightarrow> string \<Rightarrow> string list" where
  "split_char d [] = [[]]"
| "split_char d (c # s) = (if c = d then [] # split_char d s
     else (case split_char d s of [] \<Rightarrow> [[c]] | w # ws \<Rightarrow> (c # w) # ws))"

text \<open>
  \<open>path.Clean\<close>: empty and \<open>.\<close> elements are dropped, \<open>..\<close> removes the element before it (and is
  dropped at the root). The elements seen so far are kept in reverse.
\<close>

fun clean_elems :: "bool \<Rightarrow> string list \<Rightarrow> string list \<Rightarrow> string list" where
  "clean_elems rooted acc [] = rev acc"
| "clean_elems rooted acc (e # es) =
     (if e = [] \<or> e = ''.'' then clean_elems rooted acc es
      else if e = ''..'' then
        (case acc of
           [] \<Rightarrow> clean_elems rooted (if rooted then [] else [e]) es
         | a # as \<Rightarrow> if a = ''..'' then clean_elems rooted (e # acc) es else clean_elems rooted as es)
      else clean_elems rooted (e # acc) es)"

definition path_Clean :: "string \<Rightarrow> string" where
  "path_Clean p =
     (let rooted = HasPrefix p ''/'';
          s = join ''/'' (clean_elems rooted [] (split_char (CHR ''/'') p))
      in if rooted then CHR ''/'' # s else if s = [] then ''.'' else s)"

text \<open>\<open>path.Join\<close> of two elements: empty elements are ignored, the result is cleaned.\<close>

definition path_join :: "string \<Rightarrow> string \<Rightarrow> string" where
  "path_join d f =
     (let es = filter (\<lambda>e. e \<noteq> []) [d, f] in if es = [] then [] else path_Clean (join ''/'' es))"

text \<open>Decimal printing (\<open>%d\<close>) of a non-negative number.\<close>

fun show_nat :: "nat \<Rightarrow> string" where
  "show_nat n = (if n < 10 then [char_of (48 + n)] else show_nat (n div 10) @ [char_of (48 + n mod 10)])"

declare show_nat.simps [simp del]

text \<open>Different numbers print differently: the digits are read back from the end.\<close>

lemma show_nat_last: "show_nat n \<noteq> [] \<and> last (show_nat n) = char_of (48 + n mod 10) \<and>
    butlast (show_nat n) = (if n < 10 then [] else show_nat (n div 10))"
  by (subst show_nat.simps) (simp add: show_nat.simps)

lemma digit_inject: "(char_of (48 + a) :: char) = char_of (48 + b) \<longleftrightarrow> a = b" if "a < 10" "b < 10" for a b :: nat
proof -
  have "of_char (char_of (48 + a) :: char) = 48 + a" "of_char (char_of (48 + b) :: char) = 48 + b"
    using that by (simp_all add: of_char_of)
  then show ?thesis by (metis add_left_cancel)
qed

lemma show_nat_inject: "show_nat m = show_nat n \<longleftrightarrow> m = n"
proof (induction m arbitrary: n rule: less_induct)
  case (less m)
  show ?case
  proof
    assume eq: "show_nat m = show_nat n"
    then have d: "m mod 10 = n mod 10"
      using show_nat_last [of m] show_nat_last [of n] by (metis digit_inject mod_less_divisor zero_less_numeral)
    have b: "(if m < 10 then [] else show_nat (m div 10)) = (if n < 10 then [] else show_nat (n div 10))"
      using eq show_nat_last [of m] show_nat_last [of n] by metis
    have ne: "show_nat k \<noteq> []" for k using show_nat_last by blast
    show "m = n"
    proof (cases "m < 10")
      case True
      with b ne have "n < 10" by (metis (full_types))
      with True d show ?thesis by simp
    next
      case False
      with b ne have "\<not> n < 10" "show_nat (m div 10) = show_nat (n div 10)" by (auto split: if_splits)
      with less.IH [of "m div 10" "n div 10"] False have "m div 10 = n div 10" by simp
      with d show ?thesis by (metis div_mult_mod_eq)
    qed
  qed simp
qed

definition newline :: string where
  "newline = [CHR 0x0A]"

text \<open>Texts in single and in double quotes.\<close>

definition squoted :: "string \<Rightarrow> string" where
  "squoted s = [CHR 0x27] @ s @ [CHR 0x27]"

definition dquoted :: "string \<Rightarrow> string" where
  "dquoted s = [CHR 0x22] @ s @ [CHR 0x22]"

subsection \<open>Stable sorting\<close>

text \<open>
  \<open>slices.SortStableFunc\<close>: a stable sort by a three-way comparison. The result of a stable
  sort by a strict weak order is unique, so insertion sort from the right models it.
\<close>

fun insort_cmp :: "('a \<Rightarrow> 'a \<Rightarrow> int) \<Rightarrow> 'a \<Rightarrow> 'a list \<Rightarrow> 'a list" where
  "insort_cmp cmp x [] = [x]"
| "insort_cmp cmp x (y # ys) = (if cmp x y \<le> 0 then x # y # ys else y # insort_cmp cmp x ys)"

definition SortStableFunc :: "('a \<Rightarrow> 'a \<Rightarrow> int) \<Rightarrow> 'a list \<Rightarrow> 'a list" where
  "SortStableFunc cmp xs = foldr (insort_cmp cmp) xs []"

lemma mset_insort_cmp [simp]: "mset (insort_cmp cmp x xs) = {#x#} + mset xs"
  by (induction xs) auto

lemma mset_SortStableFunc [simp]: "mset (SortStableFunc cmp xs) = mset xs"
  unfolding SortStableFunc_def by (induction xs) auto

lemma set_SortStableFunc [simp]: "set (SortStableFunc cmp xs) = set xs"
  by (metis mset_SortStableFunc set_mset_mset)

lemma distinct_map_SortStableFunc [simp]:
  "distinct (map f (SortStableFunc cmp xs)) \<longleftrightarrow> distinct (map f xs)"
  by (metis distinct_count_atmost_1 mset_SortStableFunc mset_map mset_eq_imp_distinct_iff)

text \<open>A comparison that agrees with a key in a linear order sorts like the library's \<open>sort_key\<close>.\<close>

lemma insort_cmp_key:
  assumes "\<And>a b. cmp a b \<le> 0 \<longleftrightarrow> k a \<le> (k b :: 'k :: linorder)"
  shows "insort_cmp cmp x xs = insort_key k x xs"
  by (induction xs) (auto simp: assms)

lemma SortStableFunc_sort_key:
  assumes "\<And>a b. cmp a b \<le> 0 \<longleftrightarrow> k a \<le> (k b :: 'k :: linorder)"
  shows "SortStableFunc cmp xs = sort_key k xs"
proof -
  have "insort_cmp cmp = insort_key k"
    by (intro ext insort_cmp_key assms)
  then show ?thesis by (simp add: SortStableFunc_def sort_key_def)
qed

subsection \<open>Finding by key\<close>

lemma find_unique:
  assumes "distinct (map k xs)" and "x \<in> set xs"
  shows "find (\<lambda>y. k y = k x) xs = Some x"
  using assms by (induction xs) auto

lemma find_perm:
  assumes "distinct (map k xs)" and "mset ys = mset xs"
  shows "find (\<lambda>y. k y = a) ys = find (\<lambda>y. k y = a) xs"
proof (cases "\<exists>x \<in> set xs. k x = a")
  case True
  then obtain x where x: "x \<in> set xs" and kx: "k x = a" by blast
  have "distinct (map k ys)"
    using assms by (metis mset_eq_imp_distinct_iff mset_map)
  moreover have "x \<in> set ys" using x assms(2) by (metis set_mset_mset)
  ultimately show ?thesis using find_unique x assms(1) kx by metis
next
  case False
  moreover have "set ys = set xs" using assms(2) by (metis set_mset_mset)
  ultimately have "find (\<lambda>y. k y = a) ys = None" "find (\<lambda>y. k y = a) xs = None"
    by (auto simp: find_None_iff)
  then show ?thesis by simp
qed

end
