(* ===== verification/Consts.thy ===== *)
theory Consts
  imports Main
begin

text \<open>
  The constants of \<open>pkg/consts/\<close> that the code uses, by file. The names of condition types and of component
  types are with the types they belong to (theory Ytv1). A port is a number of whatever type it is used at.
\<close>

subsection \<open>Ports\<close>

abbreviation YTRPCPortName :: string where "YTRPCPortName \<equiv> ''rpc''"
abbreviation YTMonitoringContainerPortName :: string where "YTMonitoringContainerPortName \<equiv> ''metrics''"
abbreviation YTMonitoringServicePortName :: string where "YTMonitoringServicePortName \<equiv> ''ytsaurus-metrics''"
abbreviation YTMonitoringPort :: "'a::numeral" where "YTMonitoringPort \<equiv> 10000"
abbreviation DiscoveryRPCPort :: "'a::numeral" where "DiscoveryRPCPort \<equiv> 9020"
abbreviation DiscoveryMonitoringPort :: "'a::numeral" where "DiscoveryMonitoringPort \<equiv> 10020"
abbreviation MasterRPCPort :: "'a::numeral" where "MasterRPCPort \<equiv> 9010"
abbreviation MasterMonitoringPort :: "'a::numeral" where "MasterMonitoringPort \<equiv> 10010"
abbreviation SchedulerRPCPort :: "'a::numeral" where "SchedulerRPCPort \<equiv> 9011"
abbreviation SchedulerMonitoringPort :: "'a::numeral" where "SchedulerMonitoringPort \<equiv> 10011"
abbreviation ControllerAgentRPCPort :: "'a::numeral" where "ControllerAgentRPCPort \<equiv> 9014"
abbreviation ControllerAgentMonitoringPort :: "'a::numeral" where "ControllerAgentMonitoringPort \<equiv> 10014"
abbreviation DataNodeRPCPort :: "'a::numeral" where "DataNodeRPCPort \<equiv> 9012"
abbreviation DataNodeMonitoringPort :: "'a::numeral" where "DataNodeMonitoringPort \<equiv> 10012"
abbreviation TabletNodeRPCPort :: "'a::numeral" where "TabletNodeRPCPort \<equiv> 9022"
abbreviation TabletNodeMonitoringPort :: "'a::numeral" where "TabletNodeMonitoringPort \<equiv> 10022"
abbreviation ExecNodeRPCPort :: "'a::numeral" where "ExecNodeRPCPort \<equiv> 9029"
abbreviation ExecNodeMonitoringPort :: "'a::numeral" where "ExecNodeMonitoringPort \<equiv> 10029"
abbreviation DataNodeSkynetPort :: "'a::numeral" where "DataNodeSkynetPort \<equiv> 11012"
abbreviation TabletNodeSkynetPort :: "'a::numeral" where "TabletNodeSkynetPort \<equiv> 11022"
abbreviation ExecNodeSkynetPort :: "'a::numeral" where "ExecNodeSkynetPort \<equiv> 11029"
abbreviation RPCProxyRPCPort :: "'a::numeral" where "RPCProxyRPCPort \<equiv> 9013"
abbreviation RPCProxyMonitoringPort :: "'a::numeral" where "RPCProxyMonitoringPort \<equiv> 10013"
abbreviation HTTPProxyRPCPort :: "'a::numeral" where "HTTPProxyRPCPort \<equiv> 9016"
abbreviation HTTPProxyMonitoringPort :: "'a::numeral" where "HTTPProxyMonitoringPort \<equiv> 10016"
abbreviation HTTPProxyHTTPPort :: "'a::numeral" where "HTTPProxyHTTPPort \<equiv> 80"
abbreviation HTTPProxyHTTPSPort :: "'a::numeral" where "HTTPProxyHTTPSPort \<equiv> 443"
abbreviation TCPProxyMonitoringPort :: "'a::numeral" where "TCPProxyMonitoringPort \<equiv> 10017"
abbreviation QueryTrackerRPCPort :: "'a::numeral" where "QueryTrackerRPCPort \<equiv> 9028"
abbreviation QueryTrackerMonitoringPort :: "'a::numeral" where "QueryTrackerMonitoringPort \<equiv> 10028"
abbreviation YQLAgentRPCPort :: "'a::numeral" where "YQLAgentRPCPort \<equiv> 9019"
abbreviation YQLAgentMonitoringPort :: "'a::numeral" where "YQLAgentMonitoringPort \<equiv> 10019"
abbreviation QueueAgentRPCPort :: "'a::numeral" where "QueueAgentRPCPort \<equiv> 9030"
abbreviation QueueAgentMonitoringPort :: "'a::numeral" where "QueueAgentMonitoringPort \<equiv> 10030"
abbreviation UIHTTPPort :: "'a::numeral" where "UIHTTPPort \<equiv> 80"
abbreviation StrawberryHTTPAPIPort :: "'a::numeral" where "StrawberryHTTPAPIPort \<equiv> 80"
abbreviation MasterCachesRPCPort :: "'a::numeral" where "MasterCachesRPCPort \<equiv> 9018"
abbreviation MasterCachesMonitoringPort :: "'a::numeral" where "MasterCachesMonitoringPort \<equiv> 10018"

subsection \<open>Mount points, containers, files and volumes\<close>

abbreviation ConfigMountPoint :: string where "ConfigMountPoint \<equiv> ''/config''"
abbreviation ConfigTemplateMountPoint :: string where "ConfigTemplateMountPoint \<equiv> ''/config_template''"
abbreviation HTTPSSecretMountPoint :: string where "HTTPSSecretMountPoint \<equiv> ''/config/https_secret''"
abbreviation RPCSecretMountPoint :: string where "RPCSecretMountPoint \<equiv> ''/config/rpc_secret''"
abbreviation BusSecretMountPoint :: string where "BusSecretMountPoint \<equiv> ''/config/bus_secret''"
abbreviation CABundleMountPoint :: string where "CABundleMountPoint \<equiv> ''/config/ca_bundle''"
abbreviation UIClustersConfigMountPoint :: string where "UIClustersConfigMountPoint \<equiv> ''/opt/app''"
abbreviation UICustomConfigMountPoint :: string where "UICustomConfigMountPoint \<equiv> ''/opt/app/dist/server/configs/custom''"
abbreviation UISecretsMountPoint :: string where "UISecretsMountPoint \<equiv> ''/opt/app/secrets''"
abbreviation UIVaultMountPoint :: string where "UIVaultMountPoint \<equiv> ''/vault''"
abbreviation YTServerContainerName :: string where "YTServerContainerName \<equiv> ''ytserver''"
abbreviation PostprocessConfigContainerName :: string where "PostprocessConfigContainerName \<equiv> ''postprocess-config''"
abbreviation PrepareLocationsContainerName :: string where "PrepareLocationsContainerName \<equiv> ''prepare-locations''"
abbreviation PrepareSecretContainerName :: string where "PrepareSecretContainerName \<equiv> ''prepare-secret''"
abbreviation UIContainerName :: string where "UIContainerName \<equiv> ''yt-ui''"
abbreviation ClientConfigFileName :: string where "ClientConfigFileName \<equiv> ''client.yson''"
abbreviation InitClusterScriptFileName :: string where "InitClusterScriptFileName \<equiv> ''init-cluster.sh''"
abbreviation PostprocessConfigScriptFileName :: string where "PostprocessConfigScriptFileName \<equiv> ''postprocess-config.sh''"
abbreviation UISecretFileName :: string where "UISecretFileName \<equiv> ''yt-interface-secret.json''"
abbreviation CABundleFileName :: string where "CABundleFileName \<equiv> ''ca.crt''"
abbreviation TokenSecretKey :: string where "TokenSecretKey \<equiv> ''YT_TOKEN''"
abbreviation JobsContainerName :: string where "JobsContainerName \<equiv> ''jobs''"
abbreviation ContainerdConfigVolumeName :: string where "ContainerdConfigVolumeName \<equiv> ''config-containerd''"
abbreviation ContainerdConfigMountPoint :: string where "ContainerdConfigMountPoint \<equiv> ''/config/containerd''"
abbreviation ContainerdSocketName :: string where "ContainerdSocketName \<equiv> ''containerd.sock''"
abbreviation ContainerdConfigFileName :: string where "ContainerdConfigFileName \<equiv> ''containerd.toml''"
abbreviation CRINamespace :: string where "CRINamespace \<equiv> ''yt''"
abbreviation CRIBaseCgroup :: string where "CRIBaseCgroup \<equiv> ''/yt''"
abbreviation ConfigTemplateVolumeName :: string where "ConfigTemplateVolumeName \<equiv> ''config-template''"
abbreviation ConfigVolumeName :: string where "ConfigVolumeName \<equiv> ''config''"
abbreviation HTTPSSecretVolumeName :: string where "HTTPSSecretVolumeName \<equiv> ''https-secret''"
abbreviation RPCSecretVolumeName :: string where "RPCSecretVolumeName \<equiv> ''rpc-secret''"
abbreviation BusSecretVolumeName :: string where "BusSecretVolumeName \<equiv> ''bus-secret''"
abbreviation CABundleVolumeName :: string where "CABundleVolumeName \<equiv> ''ca-bundle''"
abbreviation UIVaultVolumeName :: string where "UIVaultVolumeName \<equiv> ''vault''"
abbreviation UISecretsVolumeName :: string where "UISecretsVolumeName \<equiv> ''secrets''"
abbreviation HTTPSSecretUpdatePeriod :: "'a::numeral" where "HTTPSSecretUpdatePeriod \<equiv> 60000000000"

subsection \<open>Defaults\<close>

abbreviation DefaultAdminLogin :: string where "DefaultAdminLogin \<equiv> ''admin''"
abbreviation DefaultAdminPassword :: string where "DefaultAdminPassword \<equiv> ''password''"
abbreviation AdminLoginSecret :: string where "AdminLoginSecret \<equiv> ''login''"
abbreviation AdminPasswordSecret :: string where "AdminPasswordSecret \<equiv> ''password''"
abbreviation AdminTokenSecret :: string where "AdminTokenSecret \<equiv> ''token''"
abbreviation DefaultCABundlePath :: string where "DefaultCABundlePath \<equiv> ''/etc/ssl/certs/ca-certificates.crt''"
abbreviation UIUserName :: string where "UIUserName \<equiv> ''robot-ui''"
abbreviation StrawberryControllerUserName :: string where "StrawberryControllerUserName \<equiv> ''robot-strawberry-controller''"
abbreviation YtsaurusOperatorUserName :: string where "YtsaurusOperatorUserName \<equiv> ''robot-ytsaurus-k8s-operator''"
abbreviation YqlUserName :: string where "YqlUserName \<equiv> ''yql_agent''"
abbreviation DefaultYqlTokenPath :: string where "DefaultYqlTokenPath \<equiv> ''/usr/yql_agent_token''"
abbreviation StartUID :: "'a::numeral" where "StartUID \<equiv> 19500"
abbreviation DefaultHTTPProxyRole :: string where "DefaultHTTPProxyRole \<equiv> ''default''"
abbreviation DefaultMedium :: string where "DefaultMedium \<equiv> ''default''"
abbreviation MaxSlotLocationReserve :: "'a::numeral" where "MaxSlotLocationReserve \<equiv> 10737418240"

subsection \<open>Labels\<close>

abbreviation YTComponentLabelName :: string where "YTComponentLabelName \<equiv> ''yt_component''"
abbreviation YTMetricsLabelName :: string where "YTMetricsLabelName \<equiv> ''yt_metrics''"
abbreviation YTComponentLabelDiscovery :: string where "YTComponentLabelDiscovery \<equiv> ''yt-discovery''"
abbreviation YTComponentLabelMaster :: string where "YTComponentLabelMaster \<equiv> ''yt-master''"
abbreviation YTComponentLabelScheduler :: string where "YTComponentLabelScheduler \<equiv> ''yt-scheduler''"
abbreviation YTComponentLabelControllerAgent :: string where "YTComponentLabelControllerAgent \<equiv> ''yt-controller-agent''"
abbreviation YTComponentLabelDataNode :: string where "YTComponentLabelDataNode \<equiv> ''yt-data-node''"
abbreviation YTComponentLabelExecNode :: string where "YTComponentLabelExecNode \<equiv> ''yt-exec-node''"
abbreviation YTComponentLabelTabletNode :: string where "YTComponentLabelTabletNode \<equiv> ''yt-tablet-node''"
abbreviation YTComponentLabelHTTPProxy :: string where "YTComponentLabelHTTPProxy \<equiv> ''yt-http-proxy''"
abbreviation YTComponentLabelRPCProxy :: string where "YTComponentLabelRPCProxy \<equiv> ''yt-rpc-proxy''"
abbreviation YTComponentLabelTCPProxy :: string where "YTComponentLabelTCPProxy \<equiv> ''yt-tcp-proxy''"
abbreviation YTComponentLabelUI :: string where "YTComponentLabelUI \<equiv> ''yt-ui''"
abbreviation YTComponentLabelYqlAgent :: string where "YTComponentLabelYqlAgent \<equiv> ''yt-yql-agent''"
abbreviation YTComponentLabelClient :: string where "YTComponentLabelClient \<equiv> ''yt-client''"
abbreviation YTComponentLabelMasterCache :: string where "YTComponentLabelMasterCache \<equiv> ''yt-master-cache''"

end
