(* ===== verification/Kube.thy ===== *)
theory Kube
  imports Prelude Consts
begin

text \<open>
  The Kubernetes objects the operator reads and writes, restricted to the fields the sources
  use. The packages \<open>k8s.io/api\<close> and \<open>k8s.io/apimachinery\<close> are not part of the
  repository: their data types are declared here, their functions are parameters of the model
  (record \<open>meta_api\<close> below and \<open>ext\<close> in the theory ApiProxy).
\<close>

subsection \<open>Status conditions\<close>

datatype ConditionStatus = ConditionTrue | ConditionFalse | ConditionUnknown | ConditionOther string

record Condition =
  cond_Type :: string
  cond_Status :: ConditionStatus
  cond_Reason :: string
  cond_Message :: string
  cond_LastTransitionTime :: int

text \<open>
  The functions of \<open>k8s.io/apimachinery/pkg/api/meta\<close> on condition lists, with the wall
  clock an argument of the setter.
\<close>

record meta_api =
  meta_SetStatusCondition :: "int \<Rightarrow> Condition list \<Rightarrow> Condition \<Rightarrow> Condition list"
  meta_IsStatusConditionTrue :: "Condition list \<Rightarrow> string \<Rightarrow> bool"
  meta_IsStatusConditionFalse :: "Condition list \<Rightarrow> string \<Rightarrow> bool"

text \<open>The status recorded for a condition type.\<close>

definition status_of :: "Condition list \<Rightarrow> string \<Rightarrow> ConditionStatus option" where
  "status_of cs t = map_option cond_Status (find (\<lambda>c. cond_Type c = t) cs)"

text \<open>A condition list holds at most one entry per type.\<close>

definition wf_conditions :: "Condition list \<Rightarrow> bool" where
  "wf_conditions cs \<longleftrightarrow> distinct (map cond_Type cs)"

text \<open>
  Documented behaviour of the package: setting a condition replaces the entry of its type or
  appends one, other entries keep their status, and the two queries report whether the type is
  present with that status. This is the hypothesis under which condition properties hold.
\<close>

definition meta_ok :: "meta_api \<Rightarrow> bool" where
  "meta_ok M \<longleftrightarrow>
     (\<forall>now cs c. wf_conditions cs \<longrightarrow> wf_conditions (meta_SetStatusCondition M now cs c)) \<and>
     (\<forall>now cs c t. wf_conditions cs \<longrightarrow>
        status_of (meta_SetStatusCondition M now cs c) t =
          (if t = cond_Type c then Some (cond_Status c) else status_of cs t)) \<and>
     (\<forall>cs t. wf_conditions cs \<longrightarrow>
        meta_IsStatusConditionTrue M cs t = (status_of cs t = Some ConditionTrue)) \<and>
     (\<forall>cs t. wf_conditions cs \<longrightarrow>
        meta_IsStatusConditionFalse M cs t = (status_of cs t = Some ConditionFalse))"

text \<open>
  An instance of the package's behaviour for evaluation: an entry of the type is replaced in
  place (its transition time kept when the status does not change), a new one is appended.
\<close>

fun meta_set_ref :: "int \<Rightarrow> Condition list \<Rightarrow> Condition \<Rightarrow> Condition list" where
  "meta_set_ref now [] c = [c\<lparr>cond_LastTransitionTime := now\<rparr>]"
| "meta_set_ref now (d # cs) c =
     (if cond_Type d = cond_Type c
      then c\<lparr>cond_LastTransitionTime :=
             (if cond_Status d = cond_Status c then cond_LastTransitionTime d else now)\<rparr> # cs
      else d # meta_set_ref now cs c)"

definition meta_ref :: meta_api where
  "meta_ref = \<lparr>meta_SetStatusCondition = meta_set_ref,
     meta_IsStatusConditionTrue = (\<lambda>cs t. status_of cs t = Some ConditionTrue),
     meta_IsStatusConditionFalse = (\<lambda>cs t. status_of cs t = Some ConditionFalse)\<rparr>"

subsection \<open>Pods\<close>

record EnvVar =
  ev_Name :: string
  ev_Value :: string
  ev_FieldPath :: "string option"

record ContainerPort =
  cp_Name :: string
  cp_ContainerPort :: int32
  cp_Protocol :: string

datatype IntOrString = FromInt int32 | FromString string

record HealthcheckProbeParams =
  hp_InitialDelaySeconds :: int32
  hp_TimeoutSeconds :: int32
  hp_PeriodSeconds :: int32
  hp_SuccessThreshold :: int32
  hp_FailureThreshold :: int32

text \<open>A probe gets a path over HTTP or opens a TCP connection.\<close>

record Probe =
  pr_Port :: IntOrString
  pr_Path :: string
  pr_TCPSocket :: bool
  pr_Params :: HealthcheckProbeParams

record VolumeMount =
  vm_Name :: string
  vm_MountPath :: string
  vm_SubPath :: string
  vm_ReadOnly :: bool
  vm_MountPropagation :: "string option"

text \<open>
  A \<open>resource.Quantity\<close> is an exact amount, here in billionths, the resolution of the package. Sums
  and the test for zero are those of the amount; the package's conversions to integers and floats are
  parameters (\<open>f_quantity_value\<close> and \<open>f_quantity_float\<close> in the theory ApiProxy).
\<close>

type_synonym Quantity = int

datatype VolumeSource =
    ConfigMapSource string "int32 option"
  | EmptyDirSource "Quantity option"
  | SecretSource string
  | OtherSource string

record Volume =
  vol_Name :: string
  vol_Source :: VolumeSource

type_synonym ResourceList = "Quantity gomap"

record ResourceRequirements =
  rr_Requests :: ResourceList
  rr_Limits :: ResourceList

record SecurityContext =
  sc_Privileged :: "bool option"

record Container =
  ct_Name :: string
  ct_Image :: string
  ct_Command :: "string list"
  ct_Args :: "string list"
  ct_Env :: "EnvVar list"
  ct_EnvFromSecrets :: "string list"
  ct_Ports :: "ContainerPort list"
  ct_VolumeMounts :: "VolumeMount list"
  ct_Resources :: ResourceRequirements
  ct_ReadinessProbe :: "Probe option"
  ct_SecurityContext :: "SecurityContext option"

record NodeSelectorRequirement =
  ns_Key :: string
  ns_Operator :: string
  ns_Values :: "string list"

text \<open>
  Node affinity: \<open>na_Required\<close> is the optional selector, a list of terms each a list of
  requirements; the rest of an affinity is carried along unread.
\<close>

record NodeAffinity =
  na_Required :: "NodeSelectorRequirement list list option"
  na_Rest :: string

record Affinity =
  af_NodeAffinity :: "NodeAffinity option"
  af_PodAntiAffinity :: "string option"
  af_Rest :: string

record PodSpec =
  ps_RuntimeClassName :: "string option"
  ps_ImagePullSecrets :: "string list"
  ps_SetHostnameAsFQDN :: "bool option"
  ps_EnableServiceLinks :: "bool option"
  ps_TerminationGracePeriodSeconds :: "int64 option"
  ps_Containers :: "Container list"
  ps_InitContainers :: "Container list"
  ps_Volumes :: "Volume list"
  ps_Affinity :: "Affinity option"
  ps_NodeSelector :: "string gomap"
  ps_Tolerations :: "string list"
  ps_HostNetwork :: bool
  ps_DNSPolicy :: string
  ps_RestartPolicy :: string

definition zero_resources :: ResourceRequirements where
  "zero_resources = \<lparr>rr_Requests = Map.empty, rr_Limits = Map.empty\<rparr>"

definition zero_container :: Container where
  "zero_container = \<lparr>ct_Name = [], ct_Image = [], ct_Command = [], ct_Args = [], ct_Env = [],
     ct_EnvFromSecrets = [], ct_Ports = [], ct_VolumeMounts = [], ct_Resources = zero_resources,
     ct_ReadinessProbe = None, ct_SecurityContext = None\<rparr>"

definition zero_podspec :: PodSpec where
  "zero_podspec = \<lparr>ps_RuntimeClassName = None, ps_ImagePullSecrets = [], ps_SetHostnameAsFQDN = None,
     ps_EnableServiceLinks = None, ps_TerminationGracePeriodSeconds = None, ps_Containers = [],
     ps_InitContainers = [], ps_Volumes = [], ps_Affinity = None, ps_NodeSelector = Map.empty,
     ps_Tolerations = [], ps_HostNetwork = False, ps_DNSPolicy = [], ps_RestartPolicy = []\<rparr>"

record Pod =
  pod_Name :: string
  pod_Phase :: string

subsection \<open>Objects\<close>

record ObjectMeta =
  om_Name :: string
  om_Namespace :: string
  om_Labels :: "string gomap"
  om_Annotations :: "string gomap"
  om_ResourceVersion :: string

definition zero_meta :: ObjectMeta where
  "zero_meta = \<lparr>om_Name = [], om_Namespace = [], om_Labels = Map.empty, om_Annotations = Map.empty,
     om_ResourceVersion = []\<rparr>"

record 'b kobj =
  o_Meta :: ObjectMeta
  o_Body :: 'b

record PersistentVolumeClaim =
  pvc_Name :: string
  pvc_Labels :: "string gomap"
  pvc_Annotations :: "string gomap"
  pvc_Requests :: ResourceList
  pvc_Spec :: string

record StatefulSetBody =
  ss_Replicas :: "int32 option"
  ss_ServiceName :: string
  ss_PodManagementPolicy :: string
  ss_Selector :: "string gomap"
  ss_TemplateLabels :: "string gomap"
  ss_TemplateAnnotations :: "string gomap"
  ss_PodSpec :: PodSpec
  ss_VolumeClaimTemplates :: "PersistentVolumeClaim list"

record DeploymentBody =
  dp_Replicas :: "int32 option"
  dp_Selector :: "string gomap"
  dp_TemplateLabels :: "string gomap"
  dp_TemplateAnnotations :: "string gomap"
  dp_PodSpec :: PodSpec
  dp_StatusReplicas :: int32
  dp_StatusAvailableReplicas :: int32

record ConfigMapBody =
  cm_Data :: "string gomap"

record SecretBody =
  sec_Data :: "string gomap"
  sec_StringData :: "string gomap"
  sec_Type :: string

record ServicePort =
  sp_Name :: string
  sp_Port :: int32
  sp_TargetPort :: int32
  sp_NodePort :: int32

record ServiceBody =
  svc_Type :: string
  svc_ClusterIP :: string
  svc_Selector :: "string gomap"
  svc_Ports :: "ServicePort list"

record JobBody =
  job_TTLSecondsAfterFinished :: "int32 option"
  job_BackoffLimit :: "int32 option"
  job_TemplateMeta :: ObjectMeta
  job_PodSpec :: PodSpec
  job_Succeeded :: int32

type_synonym StatefulSetObj = "StatefulSetBody kobj"
type_synonym DeploymentObj = "DeploymentBody kobj"
type_synonym ConfigMapObj = "ConfigMapBody kobj"
type_synonym SecretObj = "SecretBody kobj"
type_synonym ServiceObj = "ServiceBody kobj"
type_synonym JobObj = "JobBody kobj"

text \<open>An object of any kind, as the generic client takes it.\<close>

datatype clientObject =
    AStatefulSet StatefulSetObj
  | ADeployment DeploymentObj
  | AConfigMap ConfigMapObj
  | ASecret SecretObj
  | AService ServiceObj
  | AJob JobObj

definition zero_statefulset :: StatefulSetObj where
  "zero_statefulset = \<lparr>o_Meta = zero_meta, o_Body = \<lparr>ss_Replicas = None, ss_ServiceName = [],
     ss_PodManagementPolicy = [], ss_Selector = Map.empty, ss_TemplateLabels = Map.empty,
     ss_TemplateAnnotations = Map.empty, ss_PodSpec = zero_podspec, ss_VolumeClaimTemplates = []\<rparr>\<rparr>"

definition zero_deployment :: DeploymentObj where
  "zero_deployment = \<lparr>o_Meta = zero_meta, o_Body = \<lparr>dp_Replicas = None, dp_Selector = Map.empty,
     dp_TemplateLabels = Map.empty, dp_TemplateAnnotations = Map.empty, dp_PodSpec = zero_podspec,
     dp_StatusReplicas = 0, dp_StatusAvailableReplicas = 0\<rparr>\<rparr>"

definition zero_configmap :: ConfigMapObj where
  "zero_configmap = \<lparr>o_Meta = zero_meta, o_Body = \<lparr>cm_Data = Map.empty\<rparr>\<rparr>"

definition zero_secret :: SecretObj where
  "zero_secret = \<lparr>o_Meta = zero_meta, o_Body = \<lparr>sec_Data = Map.empty, sec_StringData = Map.empty, sec_Type = []\<rparr>\<rparr>"

definition zero_service :: ServiceObj where
  "zero_service = \<lparr>o_Meta = zero_meta, o_Body = \<lparr>svc_Type = [], svc_ClusterIP = [], svc_Selector = Map.empty, svc_Ports = []\<rparr>\<rparr>"

definition zero_job :: JobObj where
  "zero_job = \<lparr>o_Meta = zero_meta, o_Body = \<lparr>job_TTLSecondsAfterFinished = None, job_BackoffLimit = None,
     job_TemplateMeta = zero_meta, job_PodSpec = zero_podspec, job_Succeeded = 0\<rparr>\<rparr>"

subsection \<open>Facts about condition lists\<close>

lemma meta_okD:
  assumes "meta_ok M"
  shows meta_ok_wf: "wf_conditions cs \<Longrightarrow> wf_conditions (meta_SetStatusCondition M now cs c)"
    and meta_ok_set: "wf_conditions cs \<Longrightarrow> status_of (meta_SetStatusCondition M now cs c) t =
          (if t = cond_Type c then Some (cond_Status c) else status_of cs t)"
    and meta_ok_true: "wf_conditions cs \<Longrightarrow>
          meta_IsStatusConditionTrue M cs t \<longleftrightarrow> status_of cs t = Some ConditionTrue"
    and meta_ok_false: "wf_conditions cs \<Longrightarrow>
          meta_IsStatusConditionFalse M cs t \<longleftrightarrow> status_of cs t = Some ConditionFalse"
  using assms by (auto simp: meta_ok_def)

lemma types_meta_set_ref:
  "cond_Type ` set (meta_set_ref now cs c) = insert (cond_Type c) (cond_Type ` set cs)"
  by (induction now cs c rule: meta_set_ref.induct) auto

lemma wf_meta_set_ref: "wf_conditions cs \<Longrightarrow> wf_conditions (meta_set_ref now cs c)"
  unfolding wf_conditions_def
proof (induction now cs c rule: meta_set_ref.induct)
  case (2 now d cs c)
  then show ?case using types_meta_set_ref [of now cs c] by (auto simp flip: set_map)
qed auto

lemma status_of_meta_set_ref:
  "status_of (meta_set_ref now cs c) t = (if t = cond_Type c then Some (cond_Status c) else status_of cs t)"
  by (induction now cs c rule: meta_set_ref.induct) (auto simp: status_of_def)

lemma meta_ok_ref: "meta_ok meta_ref"
  by (simp add: meta_ok_def meta_ref_def wf_meta_set_ref status_of_meta_set_ref)

lemma status_of_perm:
  assumes "wf_conditions cs" and "mset ds = mset cs"
  shows "status_of ds t = status_of cs t"
  using assms find_perm [of cond_Type cs ds t] by (simp add: status_of_def wf_conditions_def)

end
