(* ===== verification/Ytv1.thy ===== *)
theory Ytv1
  imports Kube
begin

text \<open>
  The API types of \<open>api/v1/ytsaurus_types.go\<close>: the specification and status of the Ytsaurus
  resource and the enumerations that drive the controller. A Go string type with named constants
  is a datatype of these constants and one constructor for any other value; an inlined struct is a
  field of the record that inlines it; a pointer is an option; a slice whose nil value matters is
  an option of a list.
\<close>

subsection \<open>States and selectors\<close>

datatype ClusterState =
    ClusterStateCreated
  | ClusterStateInitializing
  | ClusterStateRunning
  | ClusterStateReconfiguration
  | ClusterStateUpdating
  | ClusterStateUpdateFinishing
  | ClusterStateCancelUpdate
  | ClusterStateOther string

definition IsReadyToUpdateClusterState :: "ClusterState \<Rightarrow> bool" where
  "IsReadyToUpdateClusterState s \<longleftrightarrow> s = ClusterStateRunning"

datatype UpdateState =
    UpdateStateNone
  | UpdateStatePossibilityCheck
  | UpdateStateImpossibleToStart
  | UpdateStateWaitingForSafeModeEnabled
  | UpdateStateWaitingForTabletCellsSaving
  | UpdateStateWaitingForTabletCellsRemovingStart
  | UpdateStateWaitingForTabletCellsRemoved
  | UpdateStateWaitingForSnapshots
  | UpdateStateWaitingForPodsRemoval
  | UpdateStateWaitingForPodsCreation
  | UpdateStateWaitingForMasterExitReadOnly
  | UpdateStateWaitingForTabletCellsRecovery
  | UpdateStateWaitingForOpArchiveUpdatingPrepare
  | UpdateStateWaitingForOpArchiveUpdate
  | UpdateStateWaitingForQTStateUpdatingPrepare
  | UpdateStateWaitingForQTStateUpdate
  | UpdateStateWaitingForSafeModeDisabled
  | UpdateStateOther string

datatype UpdateSelector =
    UpdateSelectorUnspecified
  | UpdateSelectorNothing
  | UpdateSelectorStatelessOnly
  | UpdateSelectorMasterOnly
  | UpdateSelectorTabletNodesOnly
  | UpdateSelectorExecNodesOnly
  | UpdateSelectorEverything
  | UpdateSelectorOther string

datatype UpdateFlow =
    UpdateFlowNone
  | UpdateFlowStateless
  | UpdateFlowMaster
  | UpdateFlowTabletNodes
  | UpdateFlowFull
  | UpdateFlowOther string

datatype ComponentType =
    ControllerAgentType | DataNodeType | DiscoveryType | ExecNodeType | HttpProxyType
  | MasterCacheType | MasterType | QueryTrackerType | QueueAgentType | RpcProxyType
  | SchedulerType | StrawberryControllerType | TabletNodeType | TcpProxyType | UIType
  | YqlAgentType | YtsaurusClientType

text \<open>The string value of a component type constant.\<close>

fun type_string :: "ComponentType \<Rightarrow> string" where
  "type_string ControllerAgentType = ''ControllerAgent''"
| "type_string DataNodeType = ''DataNode''"
| "type_string DiscoveryType = ''Discovery''"
| "type_string ExecNodeType = ''ExecNode''"
| "type_string HttpProxyType = ''HttpProxy''"
| "type_string MasterCacheType = ''MasterCache''"
| "type_string MasterType = ''Master''"
| "type_string QueryTrackerType = ''QueryTracker''"
| "type_string QueueAgentType = ''QueueAgent''"
| "type_string RpcProxyType = ''RpcProxy''"
| "type_string SchedulerType = ''Scheduler''"
| "type_string StrawberryControllerType = ''StrawberryController''"
| "type_string TabletNodeType = ''TabletNode''"
| "type_string TcpProxyType = ''TcpProxy''"
| "type_string UIType = ''UI''"
| "type_string YqlAgentType = ''YqlAgent''"
| "type_string YtsaurusClientType = ''YtsaurusClient''"

subsection \<open>Update conditions (pkg/consts/conditions.go)\<close>

abbreviation ConditionHasPossibility :: string where
  "ConditionHasPossibility \<equiv> ''HasPossibility''"
abbreviation ConditionNoPossibility :: string where
  "ConditionNoPossibility \<equiv> ''NoPossibility''"
abbreviation ConditionSafeModeEnabled :: string where
  "ConditionSafeModeEnabled \<equiv> ''SafeModeEnabled''"
abbreviation ConditionTabletCellsSaved :: string where
  "ConditionTabletCellsSaved \<equiv> ''TabletCellsSaved''"
abbreviation ConditionTabletCellsRemovingStarted :: string where
  "ConditionTabletCellsRemovingStarted \<equiv> ''TabletCellsRemovingStarted''"
abbreviation ConditionTabletCellsRemoved :: string where
  "ConditionTabletCellsRemoved \<equiv> ''TabletCellsRemoved''"
abbreviation ConditionSnapshotsBuildingStarted :: string where
  "ConditionSnapshotsBuildingStarted \<equiv> ''SnapshotsBuildingStarted''"
abbreviation ConditionSnapshotsMonitoringInfoSaved :: string where
  "ConditionSnapshotsMonitoringInfoSaved \<equiv> ''SnapshotsMonitoringInfoSaved''"
abbreviation ConditionSnaphotsSaved :: string where
  "ConditionSnaphotsSaved \<equiv> ''SnaphotsSaved''"
abbreviation ConditionTabletCellsRecovered :: string where
  "ConditionTabletCellsRecovered \<equiv> ''TabletCellsRecovered''"
abbreviation ConditionOpArchiveUpdated :: string where
  "ConditionOpArchiveUpdated \<equiv> ''OpArchiveUpdated''"
abbreviation ConditionOpArchivePreparedForUpdating :: string where
  "ConditionOpArchivePreparedForUpdating \<equiv> ''OpArchivePreparedForUpdating''"
abbreviation ConditionNotNecessaryToUpdateOpArchive :: string where
  "ConditionNotNecessaryToUpdateOpArchive \<equiv> ''NotNecessaryToUpdateOpArchive''"
abbreviation ConditionQTStateUpdated :: string where
  "ConditionQTStateUpdated \<equiv> ''QTStateUpdated''"
abbreviation ConditionQTStatePreparedForUpdating :: string where
  "ConditionQTStatePreparedForUpdating \<equiv> ''QTStatePreparedForUpdating''"
abbreviation ConditionMasterExitReadOnlyPrepared :: string where
  "ConditionMasterExitReadOnlyPrepared \<equiv> ''MasterExitReadOnlyPrepared''"
abbreviation ConditionMasterExitedReadOnly :: string where
  "ConditionMasterExitedReadOnly \<equiv> ''MasterExitedReadOnly''"
abbreviation ConditionSafeModeDisabled :: string where
  "ConditionSafeModeDisabled \<equiv> ''SafeModeDisabled''"

subsection \<open>Specification\<close>

datatype LocationType =
    LocationTypeChunkStore | LocationTypeChunkCache | LocationTypeSlots | LocationTypeLogs
  | LocationTypeMasterChangelogs | LocationTypeMasterSnapshots | LocationTypeImageCache
  | LocationTypeOther string

record LocationSpec =
  loc_LocationType :: LocationType
  loc_Path :: string
  loc_Medium :: string
  loc_Quota :: "Quantity option"
  loc_LowWatermark :: "Quantity option"
  loc_MaxTrashMilliseconds :: "int64 option"

text \<open>\<open>FindFirstLocation\<close> and \<open>FindAllLocations\<close> of api/v1/helpers.go.\<close>

fun FindFirstLocation :: "LocationSpec list \<Rightarrow> LocationType \<Rightarrow> LocationSpec option" where
  "FindFirstLocation [] t = None"
| "FindFirstLocation (l # ls) t = (if loc_LocationType l = t then Some l else FindFirstLocation ls t)"

fun FindAllLocations :: "LocationSpec list \<Rightarrow> LocationType \<Rightarrow> LocationSpec list" where
  "FindAllLocations [] t = []"
| "FindAllLocations (l # ls) t =
     (if loc_LocationType l = t then l # FindAllLocations ls t else FindAllLocations ls t)"

datatype LogLevel =
    LogLevelTrace | LogLevelDebug | LogLevelInfo | LogLevelWarning | LogLevelError | LogLevelOther string

datatype LogWriterType = LogWriterTypeFile | LogWriterTypeStderr | LogWriterTypeOther string

datatype LogFormat = LogFormatPlainText | LogFormatYson | LogFormatJson | LogFormatOther string

datatype LogCompression = LogCompressionNone | LogCompressionGzip | LogCompressionZstd | LogCompressionOther string

datatype CategoriesFilterType = CategoriesFilterTypeExclude | CategoriesFilterTypeInclude | CategoriesFilterTypeOther string

record CategoriesFilter =
  cf_Type :: CategoriesFilterType
  cf_Values :: "string list"

record LogRotationPolicy =
  lrp_RotationPeriodMilliseconds :: "int64 option"
  lrp_MaxSegmentSize :: "Quantity option"
  lrp_MaxTotalSizeToKeep :: "Quantity option"
  lrp_MaxSegmentCountToKeep :: "int64 option"

record BaseLoggerSpec =
  bls_Name :: string
  bls_Format :: LogFormat
  bls_MinLogLevel :: LogLevel
  bls_Compression :: LogCompression
  bls_UseTimestampSuffix :: bool
  bls_RotationPolicy :: "LogRotationPolicy option"

record TextLoggerSpec = BaseLoggerSpec +
  tls_WriterType :: LogWriterType
  tls_CategoriesFilter :: "CategoriesFilter option"

record StructuredLoggerSpec = BaseLoggerSpec +
  sls_Category :: string

record RPCTransportSpec =
  rt_TLSSecret :: "string option"
  rt_TLSRequired :: bool
  rt_TLSInsecure :: bool
  rt_TLSPeerAlternativeHostName :: string

record HTTPTransportSpec =
  ht_HTTPSSecret :: "string option"
  ht_DisableHTTP :: bool

record InstanceSpec =
  is_Image :: "string option"
  is_EntrypointWrapper :: "string list"
  is_Volumes :: "Volume list"
  is_VolumeMounts :: "VolumeMount list"
  is_ReadinessProbeParams :: "HealthcheckProbeParams option"
  is_Resources :: ResourceRequirements
  is_InstanceCount :: int32
  is_MinReadyInstanceCount :: "int option"
  is_Locations :: "LocationSpec list"
  is_VolumeClaimTemplates :: "PersistentVolumeClaim list"
  is_RuntimeClassName :: "string option"
  is_EnableAntiAffinity :: "bool option"
  is_HostNetwork :: "bool option"
  is_MonitoringPort :: "int32 option"
  is_Loggers :: "TextLoggerSpec list"
  is_StructuredLoggers :: "StructuredLoggerSpec list"
  is_Affinity :: "Affinity option"
  is_NodeSelector :: "string gomap"
  is_Tolerations :: "string list"
  is_PodLabels :: "string gomap"
  is_PodAnnotations :: "string gomap"
  is_SetHostnameAsFQDN :: "bool option"
  is_TerminationGracePeriodSeconds :: "int64 option"
  is_NativeTransport :: "RPCTransportSpec option"

record MasterConnectionSpec =
  mcs_CellTag :: int16
  mcs_HostAddresses :: "string list"

record MastersSpec =
  ms_Instance :: InstanceSpec
  ms_Connection :: MasterConnectionSpec
  ms_HostAddressLabel :: string
  ms_MaxSnapshotCountToKeep :: "int option"
  ms_MaxChangelogCountToKeep :: "int option"
  ms_Sidecars :: "string list"

record MasterCachesSpec =
  mc_Instance :: InstanceSpec
  mc_CellTag :: int16
  mc_HostAddresses :: "string list"
  mc_HostAddressLabel :: string

record HTTPProxiesSpec =
  hps_Instance :: InstanceSpec
  hps_ServiceType :: string
  hps_HttpNodePort :: "int32 option"
  hps_HttpsNodePort :: "int32 option"
  hps_Role :: string
  hps_Transport :: HTTPTransportSpec

record RPCProxiesSpec =
  rps_Instance :: InstanceSpec
  rps_ServiceType :: "string option"
  rps_NodePort :: "int32 option"
  rps_Role :: string
  rps_Transport :: RPCTransportSpec

record TCPProxiesSpec =
  tps_Instance :: InstanceSpec
  tps_ServiceType :: "string option"
  tps_MinPort :: int32
  tps_PortCount :: int32
  tps_Role :: string

record DataNodesSpec =
  dns_Instance :: InstanceSpec
  dns_Tags :: "string list"
  dns_Rack :: string
  dns_Name :: string

record CRIJobEnvironmentSpec =
  cri_EntrypointWrapper :: "string list"
  cri_SandboxImage :: "string option"
  cri_APIRetryTimeoutSeconds :: "int32 option"
  cri_CRINamespace :: "string option"
  cri_BaseCgroup :: "string option"
  cri_RegistryConfigPath :: "string option"
  cri_ImageSizeEstimation :: "int64 option"
  cri_ImageCompressionRatioEstimation :: "int32 option"
  cri_AlwaysPullLatestImage :: "bool option"
  cri_ImagePullPeriodSeconds :: "int32 option"

record JobEnvironmentSpec =
  je_Isolated :: "bool option"
  je_UserSlots :: "int option"
  je_CRI :: "CRIJobEnvironmentSpec option"
  je_UseArtifactBinds :: "bool option"
  je_DoNotSetUserId :: "bool option"

record ExecNodesSpec =
  ens_Instance :: InstanceSpec
  ens_Tags :: "string list"
  ens_Rack :: string
  ens_Name :: string
  ens_InitContainers :: "string list"
  ens_Sidecars :: "string list"
  ens_Privileged :: bool
  ens_JobProxyLoggers :: "TextLoggerSpec list"
  ens_JobResources :: "ResourceRequirements option"
  ens_JobEnvironment :: "JobEnvironmentSpec option"

record TabletNodesSpec =
  tns_Instance :: InstanceSpec
  tns_Tags :: "string list"
  tns_Rack :: string
  tns_Name :: string

record BundleBootstrapSpec =
  bb_SnapshotPrimaryMedium :: "string option"
  bb_ChangelogPrimaryMedium :: "string option"
  bb_TabletCellCount :: int

record BundlesBootstrapSpec =
  bbs_Sys :: "BundleBootstrapSpec option"
  bbs_Default :: "BundleBootstrapSpec option"

record UISpec =
  ui_Image :: "string option"
  ui_ServiceType :: string
  ui_HttpNodePort :: "int32 option"
  ui_UseInsecureCookies :: bool
  ui_Secure :: bool
  ui_Resources :: ResourceRequirements
  ui_InstanceCount :: int32
  ui_ExternalProxy :: "string option"
  ui_OdinBaseUrl :: "string option"
  ui_ExtraEnvVariables :: "EnvVar list"
  ui_Environment :: string
  ui_Theme :: string
  ui_Description :: "string option"
  ui_Group :: "string option"
  ui_DirectDownload :: "bool option"

record StrawberryControllerSpec =
  sbc_Resources :: ResourceRequirements
  sbc_Image :: "string option"

record OauthUserInfoHandlerSpec =
  ouh_Endpoint :: string
  ouh_LoginField :: string
  ouh_ErrorField :: "string option"

record OauthServiceSpec =
  oa_Host :: string
  oa_Port :: int
  oa_Secure :: bool
  oa_UserInfo :: OauthUserInfoHandlerSpec

record DeprecatedSpytSpec =
  dss_SparkVersion :: string
  dss_SpytVersion :: string

record CommonSpec =
  cs_CoreImage :: string
  cs_JobImage :: "string option"
  cs_CABundle :: "string option"
  cs_NativeTransport :: "RPCTransportSpec option"
  cs_EphemeralCluster :: bool
  cs_UseIPv6 :: bool
  cs_UseIPv4 :: bool
  cs_KeepSocket :: "bool option"
  cs_ForceTCP :: "bool option"
  cs_UseShortNames :: bool
  cs_HostNetwork :: bool
  cs_UsePorto :: bool
  cs_ExtraPodAnnotations :: "string gomap"
  cs_ConfigOverrides :: "string option"
  cs_ImagePullSecrets :: "string list"

text \<open>
  \<open>Bootstrap\<close> is a pointer to a struct with the single pointer \<open>TabletCellBundles\<close>; the
  two are one option here (the code never tells them apart). \<open>SchedulersSpec\<close> and its
  siblings only inline an \<open>InstanceSpec\<close>.
\<close>

record YtsaurusSpec =
  ys_Common :: CommonSpec
  ys_UIImage :: string
  ys_AdminCredentials :: "string option"
  ys_OauthService :: "OauthServiceSpec option"
  ys_IsManaged :: bool
  ys_EnableFullUpdate :: bool
  ys_UpdateSelector :: UpdateSelector
  ys_Bootstrap :: "BundlesBootstrapSpec option"
  ys_Discovery :: InstanceSpec
  ys_PrimaryMasters :: MastersSpec
  ys_SecondaryMasters :: "MastersSpec list"
  ys_MasterCaches :: "MasterCachesSpec option"
  ys_HTTPProxies :: "HTTPProxiesSpec list"
  ys_RPCProxies :: "RPCProxiesSpec list"
  ys_TCPProxies :: "TCPProxiesSpec list"
  ys_DataNodes :: "DataNodesSpec list"
  ys_ExecNodes :: "ExecNodesSpec list"
  ys_Schedulers :: "InstanceSpec option"
  ys_ControllerAgents :: "InstanceSpec option"
  ys_TabletNodes :: "TabletNodesSpec list"
  ys_StrawberryController :: "StrawberryControllerSpec option"
  ys_DeprecatedChytController :: "StrawberryControllerSpec option"
  ys_QueryTrackers :: "InstanceSpec option"
  ys_Spyt :: "DeprecatedSpytSpec option"
  ys_YQLAgents :: "InstanceSpec option"
  ys_QueueAgents :: "InstanceSpec option"
  ys_UI :: "UISpec option"

subsection \<open>Status\<close>

record TabletCellBundleInfo =
  tcb_Name :: string
  tcb_TabletCellCount :: int

record UpdateStatus =
  us_State :: UpdateState
  us_Components :: "string list option"
  us_Flow :: UpdateFlow
  us_Conditions :: "Condition list"
  us_TabletCellBundles :: "TabletCellBundleInfo list"
  us_MasterMonitoringPaths :: "string list"

record YtsaurusStatus =
  st_State :: ClusterState
  st_Conditions :: "Condition list"
  st_UpdateStatus :: UpdateStatus

record YtsaurusResource =
  yr_Meta :: ObjectMeta
  yr_Spec :: YtsaurusSpec
  yr_Status :: YtsaurusStatus

subsection \<open>Facts\<close>

lemma FindAllLocations_filter: "FindAllLocations ls t = filter (\<lambda>l. loc_LocationType l = t) ls"
  by (induction ls) auto

lemma FindFirstLocation_hd:
  "FindFirstLocation ls t = (case FindAllLocations ls t of [] \<Rightarrow> None | l # _ \<Rightarrow> Some l)"
  by (induction ls) auto

lemma type_string_inject: "type_string a = type_string b \<longleftrightarrow> a = b"
  by (cases a; cases b) simp_all

end
