(* ===== verification/GoArith.thy ===== *)
theory GoArith
  imports Prelude "HOL-Library.Signed_Division"
begin

text \<open>
  The arithmetic of Go that the configuration documents use: division of 64-bit integers and
  finite floating point numbers.
\<close>

subsection \<open>Integers\<close>

text \<open>Division truncates towards zero; the quotient by a positive constant never overflows.\<close>

definition int64_quot :: "int64 \<Rightarrow> int \<Rightarrow> int64" where
  "int64_quot x d = word_of_int (sint x sdiv d)"

subsection \<open>Floating point numbers\<close>

text \<open>
  \<open>Flt m e\<close> is the number \<open>m * 2 ^ e\<close>. A value of type \<open>float32\<close> or \<open>float64\<close> has a mantissa of at
  most 24 or 53 bits. The amounts that the sources compute with are zero or lie between a billionth
  and \<open>2 ^ 63\<close>, far inside of the range of the exponents, so the exponent is an integer: the
  operations below round, and never reach infinity or a subnormal number.
\<close>

datatype flt = Flt (mantissa: int) (exponent: int)

function bits :: "int \<Rightarrow> nat" where
  "bits n = (if n \<le> 0 then 0 else Suc (bits (n div 2)))"
  by pat_completeness auto
termination
  by (relation "measure nat") auto

declare bits.simps [simp del]

text \<open>A number rounded to \<open>p\<close> significant bits, ties to even; the sign is kept.\<close>

definition round_pos :: "nat \<Rightarrow> int \<Rightarrow> int" where
  "round_pos p n =
     (let s = bits n - p; q = n div 2 ^ s; r = n mod 2 ^ s
      in (if 2 * r > 2 ^ s \<or> 2 * r = 2 ^ s \<and> odd q then q + 1 else q) * 2 ^ s)"

definition round_int :: "nat \<Rightarrow> int \<Rightarrow> int" where
  "round_int p m = sgn m * round_pos p \<bar>m\<bar>"

abbreviation float32 :: nat where
  "float32 \<equiv> 24"

abbreviation float64 :: nat where
  "float64 \<equiv> 53"

definition flt_round :: "nat \<Rightarrow> flt \<Rightarrow> flt" where
  "flt_round p x = Flt (round_int p (mantissa x)) (exponent x)"

definition flt_of_int :: "nat \<Rightarrow> int \<Rightarrow> flt" where
  "flt_of_int p n = flt_round p (Flt n 0)"

definition flt_mult :: "nat \<Rightarrow> flt \<Rightarrow> flt \<Rightarrow> flt" where
  "flt_mult p x y = flt_round p (Flt (mantissa x * mantissa y) (exponent x + exponent y))"

text \<open>Two numbers at their smaller exponent.\<close>

definition flt_align :: "flt \<Rightarrow> flt \<Rightarrow> int \<times> int \<times> int" where
  "flt_align x y =
     (let e = min (exponent x) (exponent y)
      in (mantissa x * 2 ^ nat (exponent x - e), mantissa y * 2 ^ nat (exponent y - e), e))"

definition flt_minus :: "nat \<Rightarrow> flt \<Rightarrow> flt \<Rightarrow> flt" where
  "flt_minus p x y = (case flt_align x y of (a, b, e) \<Rightarrow> flt_round p (Flt (a - b) e))"

definition flt_less :: "flt \<Rightarrow> flt \<Rightarrow> bool" where
  "flt_less x y = (case flt_align x y of (a, b, e) \<Rightarrow> a < b)"

definition flt_min :: "flt \<Rightarrow> flt \<Rightarrow> flt" where
  "flt_min x y = (if flt_less x y then x else y)"

text \<open>The conversion to an integer drops the fraction.\<close>

definition flt_trunc :: "flt \<Rightarrow> int" where
  "flt_trunc x = (if 0 \<le> exponent x then mantissa x * 2 ^ nat (exponent x)
     else mantissa x sdiv (2 ^ nat (- exponent x)))"

subsection \<open>Bounds\<close>

lemma bits_le: "0 < n \<Longrightarrow> 2 ^ (bits n - 1) \<le> n"
proof (induction n rule: bits.induct)
  case (1 n)
  show ?case
  proof (cases "n = 1")
    case False
    with 1 have "2 ^ (bits (n div 2) - 1) \<le> n div 2" by simp
    moreover have "0 < bits (n div 2)" using False 1 by (subst bits.simps) simp
    ultimately have "2 ^ bits (n div 2) \<le> 2 * (n div 2)"
      by (cases "bits (n div 2)") simp_all
    also have "\<dots> \<le> n" by simp
    finally show ?thesis using 1(2) by (subst bits.simps) simp
  qed (simp add: bits.simps)
qed

text \<open>Rounding to at least one bit at most doubles a number.\<close>

lemma round_pos_bounds:
  assumes "0 \<le> n" and "0 < p"
  shows "0 \<le> round_pos p n" and "round_pos p n \<le> 2 * n"
proof -
  let ?s = "bits n - p"
  have q: "0 \<le> n div 2 ^ ?s" using assms(1) by (simp add: pos_imp_zdiv_nonneg_iff)
  then show "0 \<le> round_pos p n" by (simp add: round_pos_def Let_def)
  show "round_pos p n \<le> 2 * n"
  proof (cases "?s = 0")
    case False
    then have "0 < n" using bits.simps [of n] by (cases "0 < n") auto
    have "2 ^ ?s \<le> (2 :: int) ^ (bits n - 1)" using assms(2) by (intro power_increasing) simp_all
    also have "\<dots> \<le> n" using \<open>0 < n\<close> by (rule bits_le)
    finally have "1 \<le> n div 2 ^ ?s" using zdiv_mono1 [of "2 ^ ?s" n "2 ^ ?s"] by simp
    then have "(n div 2 ^ ?s + 1) * 2 ^ ?s \<le> 2 * (n div 2 ^ ?s) * 2 ^ ?s"
      by (intro mult_right_mono) simp_all
    moreover have "n div 2 ^ ?s * 2 ^ ?s \<le> n" by (simp add: minus_mod_eq_div_mult [symmetric])
    moreover have "round_pos p n \<le> (n div 2 ^ ?s + 1) * 2 ^ ?s"
      unfolding round_pos_def Let_def by (intro mult_right_mono) simp_all
    ultimately show ?thesis by linarith
  qed (use assms(1) in \<open>simp add: round_pos_def\<close>)
qed

lemma round_int_bounds:
  assumes "0 \<le> m" and "0 < p"
  shows "0 \<le> round_int p m" and "round_int p m \<le> 2 * m"
  using round_pos_bounds [OF assms] assms by (auto simp: round_int_def sgn_if round_pos_def)

lemma sdiv_nonneg: "0 \<le> a \<Longrightarrow> 0 < d \<Longrightarrow> a sdiv d = a div d" for a d :: int
  by (simp add: signed_divide_int_def sgn_if)

lemma flt_trunc_nonneg: "0 \<le> mantissa x \<Longrightarrow> 0 \<le> flt_trunc x"
  by (simp add: flt_trunc_def sdiv_nonneg pos_imp_zdiv_nonneg_iff)

lemma sint_word_of_int_eq: "0 \<le> k \<Longrightarrow> k < 2 ^ 63 \<Longrightarrow> sint (word_of_int k :: int64) = k"
  by (simp add: sint_sbintrunc' signed_take_bit_int_eq_self)

lemma int64_quot_nonneg:
  assumes "0 \<le> sint x" and "0 < d"
  shows "sint (int64_quot x d) = sint x div d"
proof -
  have "sint x div d \<le> sint x" using assms zdiv_mono2 [of "sint x" 1 d] by simp
  moreover have "0 \<le> sint x div d" using assms by (simp add: pos_imp_zdiv_nonneg_iff)
  moreover have "sint x < 2 ^ 63" using sint_lt [of x] by simp
  ultimately show ?thesis
    using assms by (simp add: int64_quot_def sdiv_nonneg sint_word_of_int_eq)
qed

end
