(* ===== verification/ApiProxy.thy ===== *)
theory ApiProxy
  imports Ytv1 GoArith
begin

text \<open>
  \<open>pkg/apiproxy\<close>: access to the API server and to the status of the Ytsaurus resource.
  Everything outside the repository is an argument of the definitions: the record \<open>ext\<close>
  holds the functions of the Kubernetes client, of the YTsaurus client, of the condition helpers
  and of the serialisers, over an abstract world \<open>'w\<close>. Reads are functions of the world;
  writes return an error and the next world. Within one reconciliation the world changes by the
  operator's own writes only; between reconciliations it changes arbitrarily.
\<close>

subsection \<open>The outside world\<close>

datatype 'o getResult = Found 'o | NotFound | GetError string

record 'w k8s_api =
  k_now :: "'w \<Rightarrow> int"
  k_get_ytsaurus :: "'w \<Rightarrow> YtsaurusResource getResult"
  k_get_statefulset :: "string \<Rightarrow> 'w \<Rightarrow> StatefulSetObj getResult"
  k_get_deployment :: "string \<Rightarrow> 'w \<Rightarrow> DeploymentObj getResult"
  k_get_configmap :: "string \<Rightarrow> 'w \<Rightarrow> ConfigMapObj getResult"
  k_get_secret :: "string \<Rightarrow> 'w \<Rightarrow> SecretObj getResult"
  k_get_service :: "string \<Rightarrow> 'w \<Rightarrow> ServiceObj getResult"
  k_get_job :: "string \<Rightarrow> 'w \<Rightarrow> JobObj getResult"
  k_list_pods :: "string gomap \<Rightarrow> 'w \<Rightarrow> string + Pod list"
  k_set_controller_reference :: "clientObject \<Rightarrow> error"
  k_create :: "clientObject \<Rightarrow> 'w \<Rightarrow> error \<times> 'w"
  k_update :: "clientObject \<Rightarrow> 'w \<Rightarrow> error \<times> 'w"
  k_delete :: "clientObject \<Rightarrow> string option \<Rightarrow> 'w \<Rightarrow> error \<times> 'w"
  k_status_update :: "YtsaurusResource \<Rightarrow> 'w \<Rightarrow> error \<times> 'w"

text \<open>Values read from and written to Cypress, and configuration documents.\<close>

datatype yval =
    YString string
  | YInt int
  | YDouble flt
  | YBool bool
  | YEntity
  | YList "yval list"
  | YMap "(string \<times> yval) list"

abbreviation MasterStateLeading :: string where "MasterStateLeading \<equiv> ''leading''"
abbreviation MasterStateFollowing :: string where "MasterStateFollowing \<equiv> ''following''"

record MasterHydra =
  mh_ReadOnly :: bool
  mh_LastSnapshotReadOnly :: bool
  mh_Active :: bool
  mh_State :: string

record MasterInfo =
  mi_CellID :: string
  mi_Addresses :: "string list"

record TabletCellBundleHealth =
  tbh_Name :: string
  tbh_Health :: string

record 'w yt_api =
  y_new_client :: "string \<Rightarrow> string \<Rightarrow> bool \<Rightarrow> error"
  y_get_int :: "string \<Rightarrow> 'w \<Rightarrow> string + int"
  y_get_hydra :: "string \<Rightarrow> 'w \<Rightarrow> string + MasterHydra"
  y_get_master :: "string \<Rightarrow> 'w \<Rightarrow> string + MasterInfo"
  y_get_masters :: "string \<Rightarrow> 'w \<Rightarrow> string + MasterInfo list"
  y_get_map :: "string \<Rightarrow> 'w \<Rightarrow> string + (string \<times> yval) list"
  y_exists :: "string \<Rightarrow> 'w \<Rightarrow> string + bool"
  y_list :: "string \<Rightarrow> 'w \<Rightarrow> string + string list"
  y_list_health :: "string \<Rightarrow> 'w \<Rightarrow> string + TabletCellBundleHealth list"
  y_list_cell_count :: "string \<Rightarrow> 'w \<Rightarrow> string + TabletCellBundleInfo list"
  y_set :: "string \<Rightarrow> yval \<Rightarrow> 'w \<Rightarrow> error \<times> 'w"
  y_remove :: "string \<Rightarrow> 'w \<Rightarrow> error \<times> 'w"
  y_create_object :: "string \<Rightarrow> (string \<times> yval) list \<Rightarrow> bool \<Rightarrow> 'w \<Rightarrow> error \<times> 'w"
  y_create_node :: "string \<Rightarrow> string \<Rightarrow> (string \<times> yval) list \<Rightarrow> bool \<Rightarrow> bool \<Rightarrow> 'w \<Rightarrow> error \<times> 'w"
  y_add_member :: "string \<Rightarrow> string \<Rightarrow> 'w \<Rightarrow> error \<times> 'w"
  y_build_master_snapshots :: "'w \<Rightarrow> error \<times> 'w"

text \<open>
  An entry of an access control list; the package \<open>yson\<close> prints lists of them. \<open>f_map_order\<close> is the
  order in which a range statement visits the keys of a map. \<open>f_quantity_value\<close> and
  \<open>f_quantity_float\<close> are the methods \<open>Value\<close> and \<open>AsApproximateFloat64\<close> of a quantity.
\<close>

record ACE =
  ace_Action :: string
  ace_Subjects :: "string list"
  ace_Permissions :: "string list"

record fmt_api =
  f_yson_unmarshal :: "string \<Rightarrow> string + yval"
  f_yson_unmarshal_map :: "string \<Rightarrow> string + (string \<times> yval) list"
  f_yson_marshal :: "yval \<Rightarrow> string + string"
  f_json_marshal :: "yval \<Rightarrow> string + string"
  f_toml_encode :: "yval \<Rightarrow> string + string"
  f_yaml_container :: "string \<Rightarrow> string + Container"
  f_sha256 :: "string \<Rightarrow> string"
  f_uuid :: "string \<Rightarrow> 8 word list"
  f_lookup_env :: "string \<Rightarrow> string option"
  f_lookup_cname :: "string \<Rightarrow> string + string"
  f_yson_text :: "yval \<Rightarrow> string + string"
  f_yson_acl :: "ACE list \<Rightarrow> string + string"
  f_map_order :: "string list \<Rightarrow> string list"
  f_quantity_value :: "Quantity \<Rightarrow> int64"
  f_quantity_float :: "Quantity \<Rightarrow> flt"

text \<open>\<open>x_rand\<close> is the system's random source: so many bytes, read in this world.\<close>

record 'w ext =
  x_meta :: meta_api
  x_k8s :: "'w k8s_api"
  x_yt :: "'w yt_api"
  x_fmt :: fmt_api
  x_rand :: "nat \<Rightarrow> 'w \<Rightarrow> 8 word list"

text \<open>
  The part of the operator's memory that every component shares: the resource under
  reconciliation (all components hold the same pointer), the world and the recorded events
  (type, reason, message), newest first. Theories below extend it with the components' objects.
\<close>

record 'w mem =
  h_yts :: YtsaurusResource
  h_world :: 'w
  h_events :: "(string \<times> string \<times> string) list"

abbreviation h_status :: "('w, 'z) mem_scheme \<Rightarrow> YtsaurusStatus" where
  "h_status h \<equiv> yr_Status (h_yts h)"

abbreviation h_update :: "('w, 'z) mem_scheme \<Rightarrow> UpdateStatus" where
  "h_update h \<equiv> st_UpdateStatus (yr_Status (h_yts h))"

definition map_status :: "(YtsaurusStatus \<Rightarrow> YtsaurusStatus) \<Rightarrow> ('w, 'z) mem_scheme \<Rightarrow> ('w, 'z) mem_scheme" where
  "map_status f h = h\<lparr>h_yts := (h_yts h)\<lparr>yr_Status := f (yr_Status (h_yts h))\<rparr>\<rparr>"

definition map_update :: "(UpdateStatus \<Rightarrow> UpdateStatus) \<Rightarrow> ('w, 'z) mem_scheme \<Rightarrow> ('w, 'z) mem_scheme" where
  "map_update f = map_status (\<lambda>s. s\<lparr>st_UpdateStatus := f (st_UpdateStatus s)\<rparr>)"

text \<open>A write to the outside: the error is returned, the world is replaced.\<close>

definition ext_write :: "('w \<Rightarrow> error \<times> 'w) \<Rightarrow> (('w, 'z) mem_scheme, error) state" where
  "ext_write op = State (\<lambda>h. case op (h_world h) of (e, w) \<Rightarrow> (e, h\<lparr>h_world := w\<rparr>))"

subsection \<open>proxy.go: the generic object operations\<close>

definition RecordWarning :: "string \<Rightarrow> string \<Rightarrow> (('w, 'z) mem_scheme, unit) state" where
  "RecordWarning reason message = modify (\<lambda>h. h\<lparr>h_events := (''Warning'', reason, message) # h_events h\<rparr>)"

definition RecordNormal :: "string \<Rightarrow> string \<Rightarrow> (('w, 'z) mem_scheme, unit) state" where
  "RecordNormal reason message = modify (\<lambda>h. h\<lparr>h_events := (''Normal'', reason, message) # h_events h\<rparr>)"

text \<open>
  \<open>FetchObject\<close>: a missing object is not an error and leaves the target as it is. The getter
  is the client's \<open>Get\<close> at the kind of the target.
\<close>

definition FetchObject :: "(string \<Rightarrow> 'w \<Rightarrow> 'o getResult) \<Rightarrow> string \<Rightarrow> 'o \<Rightarrow> (('w, 'z) mem_scheme, error \<times> 'o) state" where
  "FetchObject getter name obj = gets (\<lambda>h. case getter name (h_world h) of
       Found o' \<Rightarrow> (None, o')
     | NotFound \<Rightarrow> (None, obj)
     | GetError e \<Rightarrow> (Some e, obj))"

text \<open>The dynamic type of an object as \<open>%T\<close> prints it.\<close>

fun go_type_name :: "clientObject \<Rightarrow> string" where
  "go_type_name (AStatefulSet _) = ''*v1.StatefulSet''"
| "go_type_name (ADeployment _) = ''*v1.Deployment''"
| "go_type_name (AConfigMap _) = ''*v1.ConfigMap''"
| "go_type_name (ASecret _) = ''*v1.Secret''"
| "go_type_name (AService _) = ''*v1.Service''"
| "go_type_name (AJob _) = ''*v1.Job''"

definition updateObject :: "'w ext \<Rightarrow> ('b kobj \<Rightarrow> clientObject) \<Rightarrow> 'b kobj \<Rightarrow> (('w, 'z) mem_scheme, error) state" where
  "updateObject E wrap obj = (case k_set_controller_reference (x_k8s E) (wrap obj) of
       Some e \<Rightarrow> ret (Some e)
     | None \<Rightarrow> do {
         err \<leftarrow> ext_write (k_update (x_k8s E) (wrap obj));
         (case err of
            Some e \<Rightarrow> do {
              RecordWarning ''Reconciliation'' (''Failed to update YT object '' @ om_Name (o_Meta obj) @ '': '' @ e);
              ret (Some e)
            }
          | None \<Rightarrow> do {
              RecordNormal ''Reconciliation'' (''Updated YT object '' @ om_Name (o_Meta obj));
              ret None
            })
       })"

definition createAndReferenceObject :: "'w ext \<Rightarrow> ('b kobj \<Rightarrow> clientObject) \<Rightarrow> 'b kobj \<Rightarrow> (('w, 'z) mem_scheme, error) state" where
  "createAndReferenceObject E wrap obj = (case k_set_controller_reference (x_k8s E) (wrap obj) of
       Some e \<Rightarrow> ret (Some e)
     | None \<Rightarrow> do {
         err \<leftarrow> ext_write (k_create (x_k8s E) (wrap obj));
         (case err of
            Some e \<Rightarrow> do {
              RecordWarning ''Reconciliation'' (''Failed to create YT object '' @ om_Name (o_Meta obj) @ '': '' @ e);
              ret (Some e)
            }
          | None \<Rightarrow> do {
              RecordNormal ''Reconciliation'' (''Created YT object '' @ om_Name (o_Meta obj) @
                '' ('' @ go_type_name (wrap obj) @ '')'');
              ret None
            })
       })"

definition SyncObject :: "'w ext \<Rightarrow> ('b kobj \<Rightarrow> clientObject) \<Rightarrow> 'b kobj \<Rightarrow> 'b kobj \<Rightarrow> (('w, 'z) mem_scheme, error) state" where
  "SyncObject E wrap oldObj newObj =
     (if om_Name (o_Meta newObj) = [] then ret (Some (''cannot sync uninitialized object, object type '' @ go_type_name (wrap oldObj)))
      else if om_ResourceVersion (o_Meta oldObj) = [] then createAndReferenceObject E wrap newObj
      else updateObject E wrap
             (newObj\<lparr>o_Meta := (o_Meta newObj)\<lparr>om_ResourceVersion := om_ResourceVersion (o_Meta oldObj)\<rparr>\<rparr>))"

definition DeleteObject :: "'w ext \<Rightarrow> ('b kobj \<Rightarrow> clientObject) \<Rightarrow> 'b kobj \<Rightarrow> string option \<Rightarrow> (('w, 'z) mem_scheme, error) state" where
  "DeleteObject E wrap obj propagation = do {
     err \<leftarrow> ext_write (k_delete (x_k8s E) (wrap obj) propagation);
     (case err of
        Some e \<Rightarrow> do {
          RecordWarning ''Reconciliation'' (''Failed to delete YT object '' @ om_Name (o_Meta obj) @ '': '' @ e);
          ret (Some e)
        }
      | None \<Rightarrow> do {
          RecordNormal ''Reconciliation'' (''Deleted YT object '' @ om_Name (o_Meta obj));
          ret None
        })
   }"

definition UpdateStatus :: "'w ext \<Rightarrow> (('w, 'z) mem_scheme, error) state" where
  "UpdateStatus E = State (\<lambda>h. case k_status_update (x_k8s E) (h_yts h) (h_world h) of
     (e, w) \<Rightarrow> (e, h\<lparr>h_world := w\<rparr>))"

subsection \<open>ytsaurus.go: the Ytsaurus resource\<close>

definition GetClusterState :: "('w, 'z) mem_scheme \<Rightarrow> ClusterState" where
  "GetClusterState h = st_State (h_status h)"

definition IsUpdating :: "('w, 'z) mem_scheme \<Rightarrow> bool" where
  "IsUpdating h \<longleftrightarrow> GetClusterState h = ClusterStateUpdating"

definition GetUpdateState :: "('w, 'z) mem_scheme \<Rightarrow> UpdateState" where
  "GetUpdateState h = us_State (h_update h)"

definition GetLocalUpdatingComponents :: "('w, 'z) mem_scheme \<Rightarrow> string list option" where
  "GetLocalUpdatingComponents h = us_Components (h_update h)"

definition GetUpdateFlow :: "('w, 'z) mem_scheme \<Rightarrow> UpdateFlow" where
  "GetUpdateFlow h = us_Flow (h_update h)"

definition IsUpdateStatusConditionTrue :: "'w ext \<Rightarrow> string \<Rightarrow> ('w, 'z) mem_scheme \<Rightarrow> bool" where
  "IsUpdateStatusConditionTrue E t h = meta_IsStatusConditionTrue (x_meta E) (us_Conditions (h_update h)) t"

text \<open>
  \<open>sortConditions\<close>: stable, by the position of the status in \<open>statusOrder\<close> (a status that is
  not listed has index -1), then by transition time.
\<close>

definition statusOrder :: "ConditionStatus list" where
  "statusOrder = [ConditionTrue, ConditionFalse, ConditionUnknown]"

fun slices_Index :: "'a list \<Rightarrow> 'a \<Rightarrow> int" where
  "slices_Index [] a = -1"
| "slices_Index (x # xs) a =
     (if x = a then 0 else (let i = slices_Index xs a in if i = -1 then -1 else i + 1))"

definition cmp_Compare :: "int \<Rightarrow> int \<Rightarrow> int" where
  "cmp_Compare a b = (if a < b then -1 else if a > b then 1 else 0)"

definition compareConditions :: "Condition \<Rightarrow> Condition \<Rightarrow> int" where
  "compareConditions a b =
     (let diff = cmp_Compare (slices_Index statusOrder (cond_Status a)) (slices_Index statusOrder (cond_Status b))
      in if diff \<noteq> 0 then diff
         else cmp_Compare (cond_LastTransitionTime a) (cond_LastTransitionTime b))"

definition sortConditions :: "Condition list \<Rightarrow> Condition list" where
  "sortConditions = SortStableFunc compareConditions"

definition SetUpdateStatusCondition :: "'w ext \<Rightarrow> Condition \<Rightarrow> (('w, 'z) mem_scheme, unit) state" where
  "SetUpdateStatusCondition E c = modify (\<lambda>h. map_update (\<lambda>u. u\<lparr>us_Conditions :=
     sortConditions (meta_SetStatusCondition (x_meta E) (k_now (x_k8s E) (h_world h)) (us_Conditions u) c)\<rparr>) h)"

definition ClearUpdateStatus :: "'w ext \<Rightarrow> (('w, 'z) mem_scheme, error) state" where
  "ClearUpdateStatus E = do {
     modify (map_update (\<lambda>u. u\<lparr>us_Conditions := [], us_TabletCellBundles := [], us_MasterMonitoringPaths := [],
       us_Components := None, us_Flow := UpdateFlowNone\<rparr>));
     UpdateStatus E
   }"

definition LogUpdate :: "string \<Rightarrow> (('w, 'z) mem_scheme, unit) state" where
  "LogUpdate message = RecordNormal ''Update'' message"

definition SaveUpdatingClusterState :: "'w ext \<Rightarrow> UpdateFlow \<Rightarrow> string list option \<Rightarrow> (('w, 'z) mem_scheme, error) state" where
  "SaveUpdatingClusterState E flow components = do {
     modify (map_status (\<lambda>s. s\<lparr>st_State := ClusterStateUpdating\<rparr>));
     modify (map_update (\<lambda>u. u\<lparr>us_Flow := flow\<rparr>));
     modify (map_update (\<lambda>u. u\<lparr>us_Components := components\<rparr>));
     UpdateStatus E
   }"

definition SaveClusterState :: "'w ext \<Rightarrow> ClusterState \<Rightarrow> (('w, 'z) mem_scheme, error) state" where
  "SaveClusterState E s' = do {
     modify (map_status (\<lambda>s. s\<lparr>st_State := s'\<rparr>));
     UpdateStatus E
   }"

definition SaveUpdateState :: "'w ext \<Rightarrow> UpdateState \<Rightarrow> (('w, 'z) mem_scheme, error) state" where
  "SaveUpdateState E s' = do {
     modify (map_update (\<lambda>u. u\<lparr>us_State := s'\<rparr>));
     UpdateStatus E
   }"

definition SetStatusCondition :: "'w ext \<Rightarrow> Condition \<Rightarrow> (('w, 'z) mem_scheme, unit) state" where
  "SetStatusCondition E c = modify (\<lambda>h. map_status (\<lambda>s. s\<lparr>st_Conditions :=
     sortConditions (meta_SetStatusCondition (x_meta E) (k_now (x_k8s E) (h_world h)) (st_Conditions s) c)\<rparr>) h)"

definition IsStatusConditionTrue :: "'w ext \<Rightarrow> string \<Rightarrow> ('w, 'z) mem_scheme \<Rightarrow> bool" where
  "IsStatusConditionTrue E t h = meta_IsStatusConditionTrue (x_meta E) (st_Conditions (h_status h)) t"

definition IsStatusConditionFalse :: "'w ext \<Rightarrow> string \<Rightarrow> ('w, 'z) mem_scheme \<Rightarrow> bool" where
  "IsStatusConditionFalse E t h = meta_IsStatusConditionFalse (x_meta E) (st_Conditions (h_status h)) t"

text \<open>
  The interface through which init jobs record their completion: the resource that owns a job
  implements it.
\<close>

record 'm ConditionManager =
  cmg_SetStatusCondition :: "Condition \<Rightarrow> ('m, unit) state"
  cmg_IsStatusConditionTrue :: "string \<Rightarrow> 'm \<Rightarrow> bool"
  cmg_IsStatusConditionFalse :: "string \<Rightarrow> 'm \<Rightarrow> bool"

definition ytsaurusConditions :: "'w ext \<Rightarrow> ('w, 'z) mem_scheme ConditionManager" where
  "ytsaurusConditions E = \<lparr>cmg_SetStatusCondition = SetStatusCondition E, cmg_IsStatusConditionTrue = IsStatusConditionTrue E,
     cmg_IsStatusConditionFalse = IsStatusConditionFalse E\<rparr>"

lemma ytsaurusConditions_simps [simp]:
  "cmg_SetStatusCondition (ytsaurusConditions E) = SetStatusCondition E"
  "cmg_IsStatusConditionTrue (ytsaurusConditions E) = IsStatusConditionTrue E"
  "cmg_IsStatusConditionFalse (ytsaurusConditions E) = IsStatusConditionFalse E"
  by (simp_all add: ytsaurusConditions_def)

text \<open>The condition literal the components write; the setter fills in the transition time.\<close>

definition mkCondition :: "string \<Rightarrow> ConditionStatus \<Rightarrow> string \<Rightarrow> string \<Rightarrow> Condition" where
  "mkCondition t s r m = \<lparr>cond_Type = t, cond_Status = s, cond_Reason = r, cond_Message = m, cond_LastTransitionTime = 0\<rparr>"

subsection \<open>Running the primitive operations\<close>

lemma run_ext_write:
  "run_state (ext_write op) h = (fst (op (h_world h)), h\<lparr>h_world := snd (op (h_world h))\<rparr>)"
  by (simp add: ext_write_def split: prod.splits)

lemma run_UpdateStatus:
  "run_state (UpdateStatus E) h =
     (fst (k_status_update (x_k8s E) (h_yts h) (h_world h)),
      h\<lparr>h_world := snd (k_status_update (x_k8s E) (h_yts h) (h_world h))\<rparr>)"
  by (simp add: UpdateStatus_def split: prod.splits)

lemma h_yts_map_status [simp]:
  "h_yts (map_status f h) = (h_yts h)\<lparr>yr_Status := f (yr_Status (h_yts h))\<rparr>"
  by (simp add: map_status_def)

lemma h_world_map_status [simp]: "h_world (map_status f h) = h_world h"
  by (simp add: map_status_def)

lemma h_events_map_status [simp]: "h_events (map_status f h) = h_events h"
  by (simp add: map_status_def)

lemma more_map_status [simp]: "mem.more (map_status f h) = mem.more h"
  by (simp add: map_status_def)

lemma h_yts_map_update [simp]:
  "h_yts (map_update f h) = (h_yts h)\<lparr>yr_Status := (yr_Status (h_yts h))\<lparr>st_UpdateStatus := f (st_UpdateStatus (yr_Status (h_yts h)))\<rparr>\<rparr>"
  by (simp add: map_update_def)

lemma h_world_map_update [simp]: "h_world (map_update f h) = h_world h"
  by (simp add: map_update_def)

lemma h_events_map_update [simp]: "h_events (map_update f h) = h_events h"
  by (simp add: map_update_def)

lemma more_map_update [simp]: "mem.more (map_update f h) = mem.more h"
  by (simp add: map_update_def)

lemmas getter_defs = GetClusterState_def IsUpdating_def GetUpdateState_def GetLocalUpdatingComponents_def
  GetUpdateFlow_def

lemmas api_defs [go_defs] = RecordNormal_def RecordWarning_def LogUpdate_def SaveUpdateState_def
  SaveClusterState_def SaveUpdatingClusterState_def ClearUpdateStatus_def SetUpdateStatusCondition_def
  SetStatusCondition_def run_ext_write run_UpdateStatus

text \<open>The events of the recorder are no part of any decision; the generic operations keep the resource.\<close>

lemma keeps_yts_ext_write [io_intros]: "keeps h_yts (ext_write op)"
  by (simp add: keeps_def run_ext_write)

lemma keeps_yts_Record [io_intros]: "keeps h_yts (RecordNormal r m)" "keeps h_yts (RecordWarning r m)"
  by (simp_all add: keeps_def go_defs)

lemma keeps_world_Record [io_intros]: "keeps h_world (RecordNormal r m)" "keeps h_world (RecordWarning r m)"
  by (simp_all add: keeps_def go_defs)

lemma keeps_yts_SyncObject [io_intros]: "keeps h_yts (SyncObject E wrap old new)"
  by (simp add: SyncObject_def updateObject_def createAndReferenceObject_def)
    (intro conjI impI io_intros)

lemma keeps_yts_DeleteObject [io_intros]: "keeps h_yts (DeleteObject E wrap obj p)"
  unfolding DeleteObject_def by (intro io_intros)

lemma keeps_yts_UpdateStatus [io_intros]: "keeps h_yts (UpdateStatus E)"
  by (simp add: keeps_def run_UpdateStatus)

lemma keeps_FetchObject [io_intros]: "keeps f (FetchObject g n obj)"
  unfolding FetchObject_def by (rule io_intros)

subsection \<open>sortConditions\<close>

definition condition_key :: "Condition \<Rightarrow> int \<times> int" where
  "condition_key c = (slices_Index statusOrder (cond_Status c), cond_LastTransitionTime c)"

lemma compareConditions_key: "compareConditions a b \<le> 0 \<longleftrightarrow> condition_key a \<le> condition_key b"
  by (auto simp: compareConditions_def condition_key_def cmp_Compare_def Let_def less_eq_prod_def)

lemma sortConditions_sort_key: "sortConditions cs = sort_key condition_key cs"
  unfolding sortConditions_def by (rule SortStableFunc_sort_key) (rule compareConditions_key)

lemma mset_sortConditions [simp]: "mset (sortConditions cs) = mset cs"
  by (simp add: sortConditions_def)

lemma set_sortConditions [simp]: "set (sortConditions cs) = set cs"
  by (simp add: sortConditions_def)

lemma wf_sortConditions [simp]: "wf_conditions (sortConditions cs) = wf_conditions cs"
  by (simp add: sortConditions_def wf_conditions_def)

lemma status_of_sortConditions: "wf_conditions cs \<Longrightarrow> status_of (sortConditions cs) t = status_of cs t"
  by (rule status_of_perm) simp_all

subsection \<open>The condition stores\<close>

text \<open>
  What the components rely on when they record their progress: a store of conditions in which the
  last written status of a type is the one that is read. The resource holds two such stores, the
  update conditions and the status conditions.
\<close>

locale condition_store =
  fixes inv :: "'s \<Rightarrow> bool"
    and set_cond :: "Condition \<Rightarrow> 's \<Rightarrow> 's"
    and stored :: "'s \<Rightarrow> string \<Rightarrow> ConditionStatus option"
  assumes inv_set: "inv s \<Longrightarrow> inv (set_cond c s)"
    and stored_set: "inv s \<Longrightarrow>
          stored (set_cond c s) t = (if t = cond_Type c then Some (cond_Status c) else stored s t)"
begin

lemma stored_same: "inv s \<Longrightarrow> stored (set_cond c s) (cond_Type c) = Some (cond_Status c)"
  by (simp add: stored_set)

lemma stored_other: "inv s \<Longrightarrow> t \<noteq> cond_Type c \<Longrightarrow> stored (set_cond c s) t = stored s t"
  by (simp add: stored_set)

lemma stored_overwrite:
  "inv s \<Longrightarrow> cond_Type c = cond_Type d \<Longrightarrow> stored (set_cond d (set_cond c s)) t = stored (set_cond d s) t"
  by (simp add: stored_set inv_set)

lemma stored_commute:
  "inv s \<Longrightarrow> cond_Type c \<noteq> cond_Type d \<Longrightarrow>
   stored (set_cond d (set_cond c s)) t = stored (set_cond c (set_cond d s)) t"
  by (simp add: stored_set inv_set)

lemma inv_fold: "inv s \<Longrightarrow> inv (fold set_cond cs s)"
  by (induction cs arbitrary: s) (simp_all add: inv_set)

lemma stored_fold:
  "inv s \<Longrightarrow> stored (fold set_cond cs s) t =
     (case find (\<lambda>c. cond_Type c = t) (rev cs) of Some c \<Rightarrow> Some (cond_Status c) | None \<Rightarrow> stored s t)"
proof (induction cs arbitrary: s)
  case (Cons c cs)
  have "find P (xs @ [x]) = (case find P xs of None \<Rightarrow> if P x then Some x else None | r \<Rightarrow> r)"
    for P :: "Condition \<Rightarrow> bool" and xs x
    by (induction xs) auto
  with Cons show ?case
    by (auto simp: stored_set inv_set split: option.splits)
qed simp

end

definition cond_inv :: "'w ext \<Rightarrow> ('w, 'z) mem_scheme \<Rightarrow> bool" where
  "cond_inv E h \<longleftrightarrow> meta_ok (x_meta E) \<and> wf_conditions (us_Conditions (h_update h)) \<and>
     wf_conditions (st_Conditions (h_status h))"

definition update_stored :: "('w, 'z) mem_scheme \<Rightarrow> string \<Rightarrow> ConditionStatus option" where
  "update_stored h t = status_of (us_Conditions (h_update h)) t"

definition status_stored :: "('w, 'z) mem_scheme \<Rightarrow> string \<Rightarrow> ConditionStatus option" where
  "status_stored h t = status_of (st_Conditions (h_status h)) t"

interpretation upd: condition_store "cond_inv E"
  "\<lambda>c h. snd (run_state (SetUpdateStatusCondition E c) h)" update_stored for E :: "'w ext"
  by unfold_locales
    (simp_all add: SetUpdateStatusCondition_def cond_inv_def update_stored_def meta_ok_wf
      status_of_sortConditions meta_ok_set)

interpretation sta: condition_store "cond_inv E"
  "\<lambda>c h. snd (run_state (SetStatusCondition E c) h)" status_stored for E :: "'w ext"
  by unfold_locales
    (simp_all add: SetStatusCondition_def cond_inv_def status_stored_def meta_ok_wf
      status_of_sortConditions meta_ok_set)

lemma IsUpdateStatusConditionTrue_stored:
  "cond_inv E h \<Longrightarrow> IsUpdateStatusConditionTrue E t h \<longleftrightarrow> update_stored h t = Some ConditionTrue"
  by (simp add: IsUpdateStatusConditionTrue_def update_stored_def cond_inv_def meta_ok_true)

lemma IsStatusConditionTrue_stored:
  "cond_inv E h \<Longrightarrow> IsStatusConditionTrue E t h \<longleftrightarrow> status_stored h t = Some ConditionTrue"
  by (simp add: IsStatusConditionTrue_def status_stored_def cond_inv_def meta_ok_true)

lemma IsStatusConditionFalse_stored:
  "cond_inv E h \<Longrightarrow> IsStatusConditionFalse E t h \<longleftrightarrow> status_stored h t = Some ConditionFalse"
  by (simp add: IsStatusConditionFalse_def status_stored_def cond_inv_def meta_ok_false)

end
