(* ===== verification/Resources.thy ===== *)
theory Resources
  imports ApiProxy
begin

text \<open>
  \<open>pkg/labeller\<close> and \<open>pkg/resources\<close>: the names and labels of a component's objects, and
  the wrappers that hold the fetched (old) and the built (new) version of one object each.
\<close>

subsection \<open>labeller.go\<close>

record Labeller =
  lb_ClusterName :: string
  lb_Namespace :: string
  lb_ComponentLabel :: string
  lb_ComponentName :: string
  lb_Annotations :: "string gomap"

definition GetClusterName :: "Labeller \<Rightarrow> string" where
  "GetClusterName l = lb_ClusterName l"

definition GetSecretName :: "Labeller \<Rightarrow> string" where
  "GetSecretName l = lb_ComponentLabel l @ ''-secret''"

definition GetMainConfigMapName :: "Labeller \<Rightarrow> string" where
  "GetMainConfigMapName l = lb_ComponentLabel l @ ''-config''"

definition GetSidecarConfigMapName :: "Labeller \<Rightarrow> string \<Rightarrow> string" where
  "GetSidecarConfigMapName l name = lb_ComponentLabel l @ ''-'' @ name @ ''-config''"

definition GetInitJobName :: "Labeller \<Rightarrow> string \<Rightarrow> string" where
  "GetInitJobName l name = lb_ComponentLabel l @ ''-init-job-'' @ to_lower name"

definition GetPodsRemovingStartedCondition :: "Labeller \<Rightarrow> string" where
  "GetPodsRemovingStartedCondition l = lb_ComponentName l @ ''PodsRemovingStarted''"

definition GetPodsRemovedCondition :: "string \<Rightarrow> string" where
  "GetPodsRemovedCondition componentName = componentName @ ''PodsRemoved''"

definition GetYTLabelValue :: "Labeller \<Rightarrow> bool \<Rightarrow> string" where
  "GetYTLabelValue l isInitJob =
     (let result = lb_ClusterName l @ ''-'' @ lb_ComponentLabel l
      in if isInitJob then result @ ''-'' @ ''init-job'' else result)"

definition GetSelectorLabelMap :: "Labeller \<Rightarrow> string gomap" where
  "GetSelectorLabelMap l = [YTComponentLabelName \<mapsto> GetYTLabelValue l False]"

definition GetMetaLabelMap :: "Labeller \<Rightarrow> bool \<Rightarrow> string gomap" where
  "GetMetaLabelMap l isInitJob =
     [''app.kubernetes.io/name'' \<mapsto> ''Ytsaurus'',
      ''app.kubernetes.io/instance'' \<mapsto> lb_ClusterName l,
      ''app.kubernetes.io/component'' \<mapsto> lb_ComponentLabel l,
      ''app.kubernetes.io/managed-by'' \<mapsto> ''Ytsaurus-k8s-operator'',
      YTComponentLabelName \<mapsto> GetYTLabelValue l isInitJob]"

definition GetMonitoringMetaLabelMap :: "Labeller \<Rightarrow> string gomap" where
  "GetMonitoringMetaLabelMap l = (GetMetaLabelMap l False)(YTMetricsLabelName \<mapsto> ''true'')"

definition GetObjectMeta :: "Labeller \<Rightarrow> string \<Rightarrow> ObjectMeta" where
  "GetObjectMeta l name = \<lparr>om_Name = name, om_Namespace = lb_Namespace l, om_Labels = GetMetaLabelMap l False,
     om_Annotations = lb_Annotations l, om_ResourceVersion = []\<rparr>"

definition GetInitJobObjectMeta :: "Labeller \<Rightarrow> ObjectMeta" where
  "GetInitJobObjectMeta l = \<lparr>om_Name = ''ytsaurus-init'', om_Namespace = lb_Namespace l,
     om_Labels = GetMetaLabelMap l True, om_Annotations = lb_Annotations l, om_ResourceVersion = []\<rparr>"

subsection \<open>resource.go\<close>

record 'b res =
  r_name :: string
  r_labeller :: Labeller
  r_old :: "'b kobj"
  r_new :: "'b kobj"
  r_built :: bool

definition Exists :: "('b, 'z) res_scheme \<Rightarrow> bool" where
  "Exists r \<longleftrightarrow> om_ResourceVersion (o_Meta (r_old r)) \<noteq> []"

text \<open>
  \<open>Fetch\<close> and \<open>Sync\<close> over several objects: nil objects are skipped, the first error stops
  the loop.
\<close>

fun first_error :: "(('s, error) state) option list \<Rightarrow> ('s, error) state" where
  "first_error [] = ret None"
| "first_error (None # objs) = first_error objs"
| "first_error (Some m # objs) = do {
     err \<leftarrow> m;
     if err \<noteq> None then ret err else first_error objs
   }"

definition resources_Fetch :: "(('s, error) state) option list \<Rightarrow> ('s, error) state" where
  "resources_Fetch = first_error"

definition resources_Sync :: "(('s, error) state) option list \<Rightarrow> ('s, error) state" where
  "resources_Sync = first_error"

text \<open>The \<open>Fetch\<close> and \<open>Sync\<close> methods every wrapper has, at its kind of object.\<close>

definition res_Fetch :: "(string \<Rightarrow> 'w \<Rightarrow> 'b kobj getResult) \<Rightarrow> ('b, 'y) res_scheme \<Rightarrow>
    (('w, 'z) mem_scheme, error \<times> ('b, 'y) res_scheme) state" where
  "res_Fetch getter r = do {
     (err, o') \<leftarrow> FetchObject getter (r_name r) (r_old r);
     ret (err, r\<lparr>r_old := o'\<rparr>)
   }"

definition res_Sync :: "'w ext \<Rightarrow> ('b kobj \<Rightarrow> clientObject) \<Rightarrow> ('b, 'y) res_scheme \<Rightarrow> (('w, 'z) mem_scheme, error) state" where
  "res_Sync E wrap r = SyncObject E wrap (r_old r) (r_new r)"

subsection \<open>statefulset.go\<close>

type_synonym StatefulSet = "StatefulSetBody res"

definition NewStatefulSet :: "string \<Rightarrow> Labeller \<Rightarrow> StatefulSet" where
  "NewStatefulSet name l = \<lparr>r_name = name, r_labeller = l, r_old = zero_statefulset, r_new = zero_statefulset, r_built = False\<rparr>"

definition StatefulSet_Build :: "CommonSpec \<Rightarrow> StatefulSet \<Rightarrow> StatefulSet" where
  "StatefulSet_Build commonSpec s =
     (if r_built s then s
      else s\<lparr>r_new := \<lparr>o_Meta = GetObjectMeta (r_labeller s) (r_name s),
                o_Body = \<lparr>ss_Replicas = None, ss_ServiceName = [], ss_PodManagementPolicy = ''Parallel'',
                  ss_Selector = GetSelectorLabelMap (r_labeller s),
                  ss_TemplateLabels = GetMetaLabelMap (r_labeller s) False,
                  ss_TemplateAnnotations = cs_ExtraPodAnnotations commonSpec,
                  ss_PodSpec = zero_podspec, ss_VolumeClaimTemplates = []\<rparr>\<rparr>,
             r_built := True\<rparr>)"

abbreviation StatefulSet_Fetch :: "'w ext \<Rightarrow> StatefulSet \<Rightarrow> (('w, 'z) mem_scheme, error \<times> StatefulSet) state" where
  "StatefulSet_Fetch E \<equiv> res_Fetch (k_get_statefulset (x_k8s E))"

abbreviation StatefulSet_Sync :: "'w ext \<Rightarrow> StatefulSet \<Rightarrow> (('w, 'z) mem_scheme, error) state" where
  "StatefulSet_Sync E \<equiv> res_Sync E AStatefulSet"

definition StatefulSet_getPods :: "'w ext \<Rightarrow> StatefulSet \<Rightarrow> 'w \<Rightarrow> Pod list option" where
  "StatefulSet_getPods E s w = (case k_list_pods (x_k8s E) (GetSelectorLabelMap (r_labeller s)) w of
       Inl _ \<Rightarrow> None
     | Inr pods \<Rightarrow> Some pods)"

definition StatefulSet_ArePodsRemoved :: "'w ext \<Rightarrow> StatefulSet \<Rightarrow> 'w \<Rightarrow> bool" where
  "StatefulSet_ArePodsRemoved E s w = (case StatefulSet_getPods E s w of
       None \<Rightarrow> False
     | Some pods \<Rightarrow> length pods = 0)"

definition StatefulSet_ArePodsReady :: "'w ext \<Rightarrow> StatefulSet \<Rightarrow> int option \<Rightarrow> 'w \<Rightarrow> bool" where
  "StatefulSet_ArePodsReady E s minReadyInstanceCount w = (case StatefulSet_getPods E s w of
       None \<Rightarrow> False
     | Some pods \<Rightarrow>
         (let effectiveMinReadyInstanceCount =
                (case minReadyInstanceCount of
                   Some m \<Rightarrow> if m < int (length pods) then m else int (length pods)
                 | None \<Rightarrow> int (length pods));
              readyInstanceCount = int (length (filter (\<lambda>p. pod_Phase p = ''Running'') pods))
          in \<not> (readyInstanceCount < effectiveMinReadyInstanceCount)))"

definition StatefulSet_NeedSync :: "StatefulSet \<Rightarrow> int32 \<Rightarrow> bool" where
  "StatefulSet_NeedSync s replicas =
     (case ss_Replicas (o_Body (r_old s)) of None \<Rightarrow> True | Some n \<Rightarrow> n \<noteq> replicas)"

subsection \<open>deployment.go\<close>

type_synonym Deployment = "DeploymentBody res"

definition NewDeployment :: "string \<Rightarrow> Labeller \<Rightarrow> Deployment" where
  "NewDeployment name l = \<lparr>r_name = name, r_labeller = l, r_old = zero_deployment, r_new = zero_deployment, r_built = False\<rparr>"

definition Deployment_Build :: "CommonSpec \<Rightarrow> Deployment \<Rightarrow> Deployment" where
  "Deployment_Build commonSpec d =
     (if r_built d then d
      else d\<lparr>r_new := \<lparr>o_Meta = GetObjectMeta (r_labeller d) (r_name d),
                o_Body = (o_Body (r_new d))\<lparr>dp_Replicas := None,
                  dp_Selector := GetSelectorLabelMap (r_labeller d),
                  dp_TemplateLabels := GetMetaLabelMap (r_labeller d) False,
                  dp_TemplateAnnotations := cs_ExtraPodAnnotations commonSpec,
                  dp_PodSpec := zero_podspec\<lparr>ps_ImagePullSecrets := cs_ImagePullSecrets commonSpec\<rparr>\<rparr>\<rparr>,
             r_built := True\<rparr>)"

abbreviation Deployment_Fetch :: "'w ext \<Rightarrow> Deployment \<Rightarrow> (('w, 'z) mem_scheme, error \<times> Deployment) state" where
  "Deployment_Fetch E \<equiv> res_Fetch (k_get_deployment (x_k8s E))"

abbreviation Deployment_Sync :: "'w ext \<Rightarrow> Deployment \<Rightarrow> (('w, 'z) mem_scheme, error) state" where
  "Deployment_Sync E \<equiv> res_Sync E ADeployment"

definition Deployment_NeedSync :: "Deployment \<Rightarrow> int32 \<Rightarrow> bool" where
  "Deployment_NeedSync d replicas =
     ((case dp_Replicas (o_Body (r_old d)) of None \<Rightarrow> True | Some n \<Rightarrow> n \<noteq> replicas) \<or>
      length (ps_Containers (dp_PodSpec (o_Body (r_old d)))) \<noteq> 1)"

definition Deployment_ArePodsRemoved :: "Deployment \<Rightarrow> bool" where
  "Deployment_ArePodsRemoved d \<longleftrightarrow>
     dp_StatusAvailableReplicas (o_Body (r_old d)) = 0 \<and> dp_StatusReplicas (o_Body (r_old d)) = 0"

definition Deployment_ArePodsReady :: "Deployment \<Rightarrow> bool" where
  "Deployment_ArePodsReady d = (case dp_Replicas (o_Body (r_old d)) of
       None \<Rightarrow> False
     | Some n \<Rightarrow> n = dp_StatusReplicas (o_Body (r_old d)) \<and>
                 dp_StatusAvailableReplicas (o_Body (r_old d)) = dp_StatusReplicas (o_Body (r_old d)))"

subsection \<open>configmap.go, string_secret.go, job.go\<close>

type_synonym ConfigMap = "ConfigMapBody res"

definition NewConfigMap :: "string \<Rightarrow> Labeller \<Rightarrow> ConfigMap" where
  "NewConfigMap name l = \<lparr>r_name = name, r_labeller = l, r_old = zero_configmap, r_new = zero_configmap, r_built = False\<rparr>"

definition ConfigMap_Build :: "ConfigMap \<Rightarrow> ConfigMap" where
  "ConfigMap_Build s = s\<lparr>r_new := \<lparr>o_Meta = GetObjectMeta (r_labeller s) (r_name s), o_Body = \<lparr>cm_Data = Map.empty\<rparr>\<rparr>\<rparr>"

abbreviation ConfigMap_Fetch :: "'w ext \<Rightarrow> ConfigMap \<Rightarrow> (('w, 'z) mem_scheme, error \<times> ConfigMap) state" where
  "ConfigMap_Fetch E \<equiv> res_Fetch (k_get_configmap (x_k8s E))"

abbreviation ConfigMap_Sync :: "'w ext \<Rightarrow> ConfigMap \<Rightarrow> (('w, 'z) mem_scheme, error) state" where
  "ConfigMap_Sync E \<equiv> res_Sync E AConfigMap"

type_synonym StringSecret = "SecretBody res"

definition NewStringSecret :: "string \<Rightarrow> Labeller \<Rightarrow> StringSecret" where
  "NewStringSecret name l = \<lparr>r_name = name, r_labeller = l, r_old = zero_secret, r_new = zero_secret, r_built = False\<rparr>"

definition StringSecret_GetValue :: "StringSecret \<Rightarrow> string \<Rightarrow> string \<times> bool" where
  "StringSecret_GetValue s key = (case sec_Data (o_Body (r_old s)) key of None \<Rightarrow> ([], False) | Some v \<Rightarrow> (v, True))"

definition StringSecret_GetEnvSource :: "StringSecret \<Rightarrow> string" where
  "StringSecret_GetEnvSource s = r_name s"

definition StringSecret_Build :: "StringSecret \<Rightarrow> StringSecret" where
  "StringSecret_Build s = s\<lparr>r_new := (r_new s)\<lparr>o_Meta := GetObjectMeta (r_labeller s) (r_name s),
     o_Body := (o_Body (r_new s))\<lparr>sec_Type := ''Opaque''\<rparr>\<rparr>\<rparr>"

definition StringSecret_NeedSync :: "StringSecret \<Rightarrow> string \<Rightarrow> string \<Rightarrow> bool" where
  "StringSecret_NeedSync s key val =
     (if \<not> Exists s then True
      else (case StringSecret_GetValue s key of
              (v, ok) \<Rightarrow> if \<not> ok then True else if val = [] then False else val \<noteq> v))"

abbreviation StringSecret_Fetch :: "'w ext \<Rightarrow> StringSecret \<Rightarrow> (('w, 'z) mem_scheme, error \<times> StringSecret) state" where
  "StringSecret_Fetch E \<equiv> res_Fetch (k_get_secret (x_k8s E))"

abbreviation StringSecret_Sync :: "'w ext \<Rightarrow> StringSecret \<Rightarrow> (('w, 'z) mem_scheme, error) state" where
  "StringSecret_Sync E \<equiv> res_Sync E ASecret"

type_synonym Job = "JobBody res"

definition NewJob :: "string \<Rightarrow> Labeller \<Rightarrow> Job" where
  "NewJob name l = \<lparr>r_name = name, r_labeller = l, r_old = zero_job, r_new = zero_job, r_built = False\<rparr>"

definition Job_Completed :: "Job \<Rightarrow> bool" where
  "Job_Completed j \<longleftrightarrow> 0 <s job_Succeeded (o_Body (r_old j))"

definition Job_Build :: "Job \<Rightarrow> Job" where
  "Job_Build j = j\<lparr>r_new := \<lparr>o_Meta = GetObjectMeta (r_labeller j) (r_name j),
     o_Body = (o_Body (r_new j))\<lparr>job_TTLSecondsAfterFinished := Some 600, job_BackoffLimit := Some 15,
       job_TemplateMeta := zero_meta, job_PodSpec := zero_podspec\<rparr>\<rparr>\<rparr>"

abbreviation Job_Fetch :: "'w ext \<Rightarrow> Job \<Rightarrow> (('w, 'z) mem_scheme, error \<times> Job) state" where
  "Job_Fetch E \<equiv> res_Fetch (k_get_job (x_k8s E))"

abbreviation Job_Sync :: "'w ext \<Rightarrow> Job \<Rightarrow> (('w, 'z) mem_scheme, error) state" where
  "Job_Sync E \<equiv> res_Sync E AJob"

subsection \<open>Services\<close>

type_synonym HeadlessService = "ServiceBody res"

definition NewHeadlessService :: "string \<Rightarrow> Labeller \<Rightarrow> HeadlessService" where
  "NewHeadlessService name l = \<lparr>r_name = name, r_labeller = l, r_old = zero_service, r_new = zero_service, r_built = False\<rparr>"

definition HeadlessService_Build :: "HeadlessService \<Rightarrow> HeadlessService" where
  "HeadlessService_Build s = s\<lparr>r_new := \<lparr>o_Meta = GetObjectMeta (r_labeller s) (r_name s),
     o_Body = \<lparr>svc_Type = [], svc_ClusterIP = ''None'', svc_Selector = GetSelectorLabelMap (r_labeller s), svc_Ports = []\<rparr>\<rparr>\<rparr>"

abbreviation HeadlessService_Fetch :: "'w ext \<Rightarrow> HeadlessService \<Rightarrow> (('w, 'z) mem_scheme, error \<times> HeadlessService) state" where
  "HeadlessService_Fetch E \<equiv> res_Fetch (k_get_service (x_k8s E))"

abbreviation HeadlessService_Sync :: "'w ext \<Rightarrow> HeadlessService \<Rightarrow> (('w, 'z) mem_scheme, error) state" where
  "HeadlessService_Sync E \<equiv> res_Sync E AService"

record MonitoringService = "ServiceBody res" +
  mon_TargetPort :: int32

definition NewMonitoringService :: "int32 \<Rightarrow> Labeller \<Rightarrow> MonitoringService" where
  "NewMonitoringService port l = \<lparr>r_name = lb_ComponentLabel l @ ''-monitoring'', r_labeller = l,
     r_old = zero_service, r_new = zero_service, r_built = False, mon_TargetPort = port\<rparr>"

definition MonitoringService_GetServiceMeta :: "MonitoringService \<Rightarrow> string \<Rightarrow> ObjectMeta" where
  "MonitoringService_GetServiceMeta s name = \<lparr>om_Name = name, om_Namespace = lb_Namespace (r_labeller s),
     om_Labels = GetMonitoringMetaLabelMap (r_labeller s), om_Annotations = Map.empty, om_ResourceVersion = []\<rparr>"

definition MonitoringService_Build :: "MonitoringService \<Rightarrow> MonitoringService" where
  "MonitoringService_Build s = s\<lparr>r_new := \<lparr>o_Meta = MonitoringService_GetServiceMeta s (r_name s),
     o_Body = \<lparr>svc_Type = [], svc_ClusterIP = [], svc_Selector = GetSelectorLabelMap (r_labeller s),
       svc_Ports = [\<lparr>sp_Name = YTMonitoringServicePortName, sp_Port = YTMonitoringPort, sp_TargetPort = mon_TargetPort s, sp_NodePort = 0\<rparr>]\<rparr>\<rparr>\<rparr>"

abbreviation MonitoringService_Fetch :: "'w ext \<Rightarrow> MonitoringService \<Rightarrow> (('w, 'z) mem_scheme, error \<times> MonitoringService) state" where
  "MonitoringService_Fetch E \<equiv> res_Fetch (k_get_service (x_k8s E))"

abbreviation MonitoringService_Sync :: "'w ext \<Rightarrow> MonitoringService \<Rightarrow> (('w, 'z) mem_scheme, error) state" where
  "MonitoringService_Sync E \<equiv> res_Sync E AService"

record HTTPService = "ServiceBody res" +
  hs_transport :: HTTPTransportSpec
  hs_httpNodePort :: "int32 option"
  hs_httpsNodePort :: "int32 option"

definition NewHTTPService :: "string \<Rightarrow> HTTPTransportSpec option \<Rightarrow> Labeller \<Rightarrow> HTTPService" where
  "NewHTTPService name transport l = \<lparr>r_name = name, r_labeller = l, r_old = zero_service, r_new = zero_service,
     r_built = False,
     hs_transport = (case transport of Some t \<Rightarrow> t | None \<Rightarrow> \<lparr>ht_HTTPSSecret = None, ht_DisableHTTP = False\<rparr>),
     hs_httpNodePort = None, hs_httpsNodePort = None\<rparr>"

abbreviation SetHttpNodePort :: "int32 option \<Rightarrow> HTTPService \<Rightarrow> HTTPService" where
  "SetHttpNodePort port s \<equiv> s\<lparr>hs_httpNodePort := port\<rparr>"

abbreviation SetHttpsNodePort :: "int32 option \<Rightarrow> HTTPService \<Rightarrow> HTTPService" where
  "SetHttpsNodePort port s \<equiv> s\<lparr>hs_httpsNodePort := port\<rparr>"

definition HTTPService_ports :: "HTTPService \<Rightarrow> ServicePort list" where
  "HTTPService_ports s =
     (if ht_DisableHTTP (hs_transport s) then []
      else [\<lparr>sp_Name = ''http'', sp_Port = HTTPProxyHTTPPort, sp_TargetPort = HTTPProxyHTTPPort,
             sp_NodePort = (case hs_httpNodePort s of Some p \<Rightarrow> p | None \<Rightarrow> 0)\<rparr>]) @
     (case ht_HTTPSSecret (hs_transport s) of
        None \<Rightarrow> []
      | Some _ \<Rightarrow> [\<lparr>sp_Name = ''https'', sp_Port = HTTPProxyHTTPSPort, sp_TargetPort = HTTPProxyHTTPSPort,
             sp_NodePort = (case hs_httpsNodePort s of Some p \<Rightarrow> p | None \<Rightarrow> 0)\<rparr>])"

definition HTTPService_Build :: "HTTPService \<Rightarrow> HTTPService" where
  "HTTPService_Build s = s\<lparr>r_new := \<lparr>o_Meta = GetObjectMeta (r_labeller s) (r_name s),
     o_Body = \<lparr>svc_Type = [], svc_ClusterIP = [], svc_Selector = GetSelectorLabelMap (r_labeller s),
       svc_Ports = HTTPService_ports s\<rparr>\<rparr>\<rparr>"

abbreviation HTTPService_Fetch :: "'w ext \<Rightarrow> HTTPService \<Rightarrow> (('w, 'z) mem_scheme, error \<times> HTTPService) state" where
  "HTTPService_Fetch E \<equiv> res_Fetch (k_get_service (x_k8s E))"

abbreviation HTTPService_Sync :: "'w ext \<Rightarrow> HTTPService \<Rightarrow> (('w, 'z) mem_scheme, error) state" where
  "HTTPService_Sync E \<equiv> res_Sync E AService"

record RPCService = "ServiceBody res" +
  rs_nodePort :: "int32 option"

definition NewRPCService :: "string \<Rightarrow> Labeller \<Rightarrow> RPCService" where
  "NewRPCService name l = \<lparr>r_name = name, r_labeller = l, r_old = zero_service, r_new = zero_service,
     r_built = False, rs_nodePort = None\<rparr>"

abbreviation SetNodePort :: "int32 option \<Rightarrow> RPCService \<Rightarrow> RPCService" where
  "SetNodePort port s \<equiv> s\<lparr>rs_nodePort := port\<rparr>"

definition RPCService_Build :: "RPCService \<Rightarrow> RPCService" where
  "RPCService_Build s = s\<lparr>r_new := \<lparr>o_Meta = GetObjectMeta (r_labeller s) (r_name s),
     o_Body = \<lparr>svc_Type = [], svc_ClusterIP = [], svc_Selector = GetSelectorLabelMap (r_labeller s),
       svc_Ports = [\<lparr>sp_Name = ''rpc'', sp_Port = RPCProxyRPCPort, sp_TargetPort = RPCProxyRPCPort,
         sp_NodePort = (case rs_nodePort s of Some p \<Rightarrow> p | None \<Rightarrow> 0)\<rparr>]\<rparr>\<rparr>\<rparr>"

abbreviation RPCService_Fetch :: "'w ext \<Rightarrow> RPCService \<Rightarrow> (('w, 'z) mem_scheme, error \<times> RPCService) state" where
  "RPCService_Fetch E \<equiv> res_Fetch (k_get_service (x_k8s E))"

abbreviation RPCService_Sync :: "'w ext \<Rightarrow> RPCService \<Rightarrow> (('w, 'z) mem_scheme, error) state" where
  "RPCService_Sync E \<equiv> res_Sync E AService"

record TCPService = "ServiceBody res" +
  ts_serviceType :: string
  ts_portCount :: int32
  ts_minPort :: int32

definition NewTCPService :: "string \<Rightarrow> string \<Rightarrow> int32 \<Rightarrow> int32 \<Rightarrow> Labeller \<Rightarrow> TCPService" where
  "NewTCPService name serviceType portCount minPort l = \<lparr>r_name = name, r_labeller = l, r_old = zero_service,
     r_new = zero_service, r_built = False, ts_serviceType = serviceType, ts_portCount = portCount, ts_minPort = minPort\<rparr>"

abbreviation TCPService_Fetch :: "'w ext \<Rightarrow> TCPService \<Rightarrow> (('w, 'z) mem_scheme, error \<times> TCPService) state" where
  "TCPService_Fetch E \<equiv> res_Fetch (k_get_service (x_k8s E))"

abbreviation TCPService_Sync :: "'w ext \<Rightarrow> TCPService \<Rightarrow> (('w, 'z) mem_scheme, error) state" where
  "TCPService_Sync E \<equiv> res_Sync E AService"

text \<open>Decimal printing of a signed 32-bit integer.\<close>

definition show_int32 :: "int32 \<Rightarrow> string" where
  "show_int32 n = (let i = sint n in if i < 0 then ''-'' @ show_nat (nat (- i)) else show_nat (nat i))"

text \<open>The loop \<open>for port := minPort; port < minPort+portCount; port++\<close> on 32-bit integers.\<close>

function tcp_ports :: "string \<Rightarrow> int32 \<Rightarrow> int32 \<Rightarrow> ServicePort list" where
  "tcp_ports serviceType port limit =
     (if port <s limit
      then \<lparr>sp_Name = ''tcp-'' @ show_int32 port, sp_Port = port, sp_TargetPort = port,
            sp_NodePort = (if serviceType = ''NodePort'' then port else 0)\<rparr> # tcp_ports serviceType (port + 1) limit
      else [])"
  by pat_completeness auto

text \<open>The counter stays below the limit, so its increment does not wrap around.\<close>

lemma sint_Suc_less:
  fixes p q :: int32
  assumes "p <s q"
  shows "sint (p + 1) = sint p + 1"
proof -
  have "sint p < sint q" using assms by (simp add: word_sless_alt)
  moreover have "sint q < 2 ^ 31" using sint_lt [of q] by simp
  moreover have "- (2 ^ 31) \<le> sint p" using sint_ge [of p] by simp
  moreover have "sint (p + 1) = signed_take_bit 31 (sint p + 1)"
    by (simp add: sint_word_ariths)
  ultimately show ?thesis by (simp add: signed_take_bit_int_eq_self)
qed

termination tcp_ports
proof (relation "measure (\<lambda>(t, p, l). nat (sint l - sint p))")
  fix t and p q :: int32
  assume "p <s q"
  then show "((t, p + 1, q), (t, p, q)) \<in> measure (\<lambda>(t, p, l). nat (sint l - sint p))"
    using sint_Suc_less [of p q] by (simp add: word_sless_alt)
qed simp

declare tcp_ports.simps [simp del]

definition TCPService_Build :: "TCPService \<Rightarrow> TCPService" where
  "TCPService_Build s = s\<lparr>r_new := \<lparr>o_Meta = GetObjectMeta (r_labeller s) (r_name s),
     o_Body = \<lparr>svc_Type = ts_serviceType s, svc_ClusterIP = [], svc_Selector = GetSelectorLabelMap (r_labeller s),
       svc_Ports = tcp_ports (ts_serviceType s) (ts_minPort s) (ts_minPort s + ts_portCount s)\<rparr>\<rparr>\<rparr>"

subsection \<open>ca_bundle.go, tls_secret.go\<close>

record CABundle =
  ca_ConfigMapName :: string
  ca_VolumeName :: string
  ca_MountPath :: string

definition NewCABundle :: "string \<Rightarrow> string \<Rightarrow> string \<Rightarrow> CABundle" where
  "NewCABundle configMapName volumeName mountPath =
     \<lparr>ca_ConfigMapName = configMapName, ca_VolumeName = volumeName, ca_MountPath = mountPath\<rparr>"

definition CABundle_AddVolume :: "CABundle \<Rightarrow> PodSpec \<Rightarrow> PodSpec" where
  "CABundle_AddVolume t ps = ps\<lparr>ps_Volumes := ps_Volumes ps @
     [\<lparr>vol_Name = ca_VolumeName t, vol_Source = ConfigMapSource (ca_ConfigMapName t) None\<rparr>]\<rparr>"

definition CABundle_AddVolumeMount :: "CABundle \<Rightarrow> Container \<Rightarrow> Container" where
  "CABundle_AddVolumeMount t c = c\<lparr>ct_VolumeMounts := ct_VolumeMounts c @
     [\<lparr>vm_Name = ca_VolumeName t, vm_MountPath = ca_MountPath t, vm_SubPath = [], vm_ReadOnly = True, vm_MountPropagation = None\<rparr>]\<rparr>"

record TLSSecret =
  tls_SecretName :: string
  tls_VolumeName :: string
  tls_MountPath :: string

definition NewTLSSecret :: "string \<Rightarrow> string \<Rightarrow> string \<Rightarrow> TLSSecret" where
  "NewTLSSecret secretName volumeName mountPath =
     \<lparr>tls_SecretName = secretName, tls_VolumeName = volumeName, tls_MountPath = mountPath\<rparr>"

definition TLSSecret_AddVolume :: "TLSSecret \<Rightarrow> PodSpec \<Rightarrow> PodSpec" where
  "TLSSecret_AddVolume t ps = ps\<lparr>ps_Volumes := ps_Volumes ps @
     [\<lparr>vol_Name = tls_VolumeName t, vol_Source = SecretSource (tls_SecretName t)\<rparr>]\<rparr>"

definition TLSSecret_AddVolumeMount :: "TLSSecret \<Rightarrow> Container \<Rightarrow> Container" where
  "TLSSecret_AddVolumeMount t c = c\<lparr>ct_VolumeMounts := ct_VolumeMounts c @
     [\<lparr>vm_Name = tls_VolumeName t, vm_MountPath = tls_MountPath t, vm_SubPath = [], vm_ReadOnly = True, vm_MountPropagation = None\<rparr>]\<rparr>"

subsection \<open>Facts\<close>

lemma keeps_first_error [io_intros]:
  "(\<And>m. Some m \<in> set ms \<Longrightarrow> keeps f m) \<Longrightarrow> keeps f (first_error ms)"
proof (induction ms rule: first_error.induct)
  case (3 m objs)
  then show ?case by (auto intro!: io_intros)
qed (auto intro: io_intros)

lemma io_first_error:
  assumes "reflp R" and "transp R" and "\<And>m. Some m \<in> set ms \<Longrightarrow> state_io_rel R m"
  shows "state_io_rel R (first_error ms)"
proof -
  have rel: "io_relation R"
    using assms(1,2) by unfold_locales (auto dest: reflpD transpD)
  show ?thesis using assms(3)
  proof (induction ms rule: first_error.induct)
    case (3 m objs)
    then show ?case
      by (auto intro!: io_relation.rel_bind [OF rel] io_relation.rel_return [OF rel] io_intros)
  qed (auto intro: io_relation.rel_return [OF rel])
qed

lemma keeps_resources [io_intros]:
  "(\<And>m. Some m \<in> set ms \<Longrightarrow> keeps f m) \<Longrightarrow> keeps f (resources_Fetch ms)"
  "(\<And>m. Some m \<in> set ms \<Longrightarrow> keeps f m) \<Longrightarrow> keeps f (resources_Sync ms)"
  by (simp_all add: resources_Fetch_def resources_Sync_def keeps_first_error)

lemma keeps_res_Fetch [io_intros]: "keeps f (res_Fetch g r)"
  unfolding res_Fetch_def by (intro io_intros)

lemma keeps_yts_res_Sync [io_intros]: "keeps h_yts (res_Sync E wrap r)"
  unfolding res_Sync_def by (intro io_intros)

text \<open>An error is returned exactly by the first object that fails; the objects after it are not touched.\<close>

lemma first_error_append:
  "first_error (xs @ ys) = do { err \<leftarrow> first_error xs; if err \<noteq> None then ret err else first_error ys }"
proof (induction xs rule: first_error.induct)
  case (3 m objs)
  then show ?case by (auto intro!: state_ext split: prod.splits)
qed simp_all

text \<open>Ready pods: all of them, or at least the configured minimum.\<close>

lemma ArePodsReady_default:
  "StatefulSet_ArePodsReady E s None w \<longleftrightarrow>
     (\<exists>pods. StatefulSet_getPods E s w = Some pods \<and> (\<forall>p \<in> set pods. pod_Phase p = ''Running''))"
proof -
  have "length (filter P xs) < length xs \<longleftrightarrow> \<not> (\<forall>x \<in> set xs. P x)" for P :: "Pod \<Rightarrow> bool" and xs
    by (induction xs) (auto simp: less_Suc_eq_le intro: le_imp_less_Suc)
  then show ?thesis
    by (auto simp: StatefulSet_ArePodsReady_def split: option.splits)
qed

lemma tcp_ports_upto: "map (\<lambda>p. sint (sp_Port p)) (tcp_ports t p q) = [sint p..sint q - 1]"
proof (induction t p q rule: tcp_ports.induct)
  case (1 t p q)
  show ?case
  proof (cases "p <s q")
    case True
    then have "sint p \<le> sint q - 1" by (simp add: word_sless_alt)
    then have "[sint p..sint q - 1] = sint p # [sint p + 1..sint q - 1]" by (simp add: upto.simps)
    with True 1 show ?thesis by (simp add: tcp_ports.simps [of t p q] sint_Suc_less)
  next
    case False
    then show ?thesis by (simp add: tcp_ports.simps [of t p q] word_sless_alt)
  qed
qed

end
