(* ===== verification/ConfigHelper.thy ===== *)
theory ConfigHelper
  imports Resources "HOL-Library.AList"
begin

text \<open>
  \<open>pkg/components/config_helper.go\<close>: the configuration files of a component, kept in a config
  map: generation, user overrides, change detection, synchronisation.
\<close>

datatype ConfigFormat =
  ConfigFormatYson | ConfigFormatJson | ConfigFormatJsonWithJsPrologue | ConfigFormatToml

text \<open>
  A generator is a closure over the specification; the specification does not change during a
  reconciliation, so the model holds the closure's result: an error or the serialised config.
\<close>

record GeneratorDescriptor =
  gd_F :: "string + string"
  gd_Fmt :: ConfigFormat

text \<open>\<open>ch_generators\<close> lists the entries of the Go map in the order the range loop visits them.\<close>

record ConfigHelper =
  ch_generators :: "(string \<times> GeneratorDescriptor) list"
  ch_configOverrides :: "string option"
  ch_overridesMap :: ConfigMapObj
  ch_configMap :: ConfigMap

definition NewConfigHelper :: "Labeller \<Rightarrow> string \<Rightarrow> string option \<Rightarrow> (string \<times> GeneratorDescriptor) list \<Rightarrow> ConfigHelper" where
  "NewConfigHelper l name configOverrides generators =
     \<lparr>ch_generators = generators, ch_configOverrides = configOverrides, ch_overridesMap = zero_configmap,
      ch_configMap = NewConfigMap name l\<rparr>"

subsection \<open>Overrides\<close>

fun mapify :: "yval \<Rightarrow> (string \<times> yval) list \<times> bool" where
  "mapify (YMap m) = (m, True)"
| "mapify _ = ([], False)"

text \<open>
  \<open>mergeMapsRecursively dst src\<close>: every key of \<open>src\<close> is stored in \<open>dst\<close>; where both
  sides hold maps, the stored value is their merge. The list is the order in which the range loop
  visits the keys of \<open>src\<close>.
\<close>

function (sequential) mergeMapsRecursively :: "(string \<times> yval) list \<Rightarrow> (string \<times> yval) list \<Rightarrow> (string \<times> yval) list" where
  "mergeMapsRecursively dst [] = dst"
| "mergeMapsRecursively dst ((key, srcVal) # src) =
     (let srcVal' =
            (case map_of dst key of
               None \<Rightarrow> srcVal
             | Some dstVal \<Rightarrow>
                 if snd (mapify srcVal) \<and> snd (mapify dstVal)
                 then YMap (mergeMapsRecursively (fst (mapify dstVal)) (fst (mapify srcVal)))
                 else srcVal)
      in mergeMapsRecursively (AList.update key srcVal' dst) src)"
  by pat_completeness auto

lemma size_mapify: "snd (mapify v) \<Longrightarrow> size_list (\<lambda>p. size (snd p)) (fst (mapify v)) < size v"
proof -
  assume "snd (mapify v)"
  then obtain m where m: "v = YMap m" by (cases v) auto
  have "size_list (\<lambda>p. size (snd p)) m \<le> size_list (size_prod (\<lambda>x. 0) size) m"
    by (rule size_list_pointwise) (auto simp: case_prod_unfold)
  with m show ?thesis by (simp add: case_prod_unfold)
qed

termination mergeMapsRecursively
proof (relation "measure (\<lambda>(d, s). size_list (\<lambda>p. size (snd p)) s)", goal_cases)
  case (2 dst key srcVal src dstVal)
  then show ?case using size_mapify [of srcVal] by simp
qed auto

definition overrideYsonConfigs :: "'w ext \<Rightarrow> string \<Rightarrow> string \<Rightarrow> string + string" where
  "overrideYsonConfigs E base overrides = (case f_yson_unmarshal_map (x_fmt E) base of
       Inl e \<Rightarrow> Inl e
     | Inr b \<Rightarrow>
         (case f_yson_unmarshal_map (x_fmt E) overrides of
            Inl e \<Rightarrow> Inl e
          | Inr ov \<Rightarrow> f_yson_marshal (x_fmt E) (YMap (mergeMapsRecursively b ov))))"

subsection \<open>Generation\<close>

definition GetFileNames :: "ConfigHelper \<Rightarrow> string list" where
  "GetFileNames ch = map fst (ch_generators ch)"

definition GetConfigMapName :: "ConfigHelper \<Rightarrow> string" where
  "GetConfigMapName ch = r_name (ch_configMap ch)"

text \<open>The loop over the two override names: a failing override is reported and skipped.\<close>

fun applyOverrides :: "'w ext \<Rightarrow> ConfigHelper \<Rightarrow> string \<Rightarrow> string list \<Rightarrow> string \<Rightarrow> (('w, 'z) mem_scheme, string) state" where
  "applyOverrides E ch fileName [] serializedConfig = ret serializedConfig"
| "applyOverrides E ch fileName (overrideName # names) serializedConfig =
     (case cm_Data (o_Body (ch_overridesMap ch)) overrideName of
        None \<Rightarrow> applyOverrides E ch fileName names serializedConfig
      | Some v \<Rightarrow>
          (case overrideYsonConfigs E serializedConfig v of
             Inr configWithOverrides \<Rightarrow> applyOverrides E ch fileName names configWithOverrides
           | Inl e \<Rightarrow> do {
               RecordWarning ''Reconciling'' (''Failed to apply config override '' @ overrideName @ '' for '' @
                 fileName @ '', skipping: '' @ e);
               applyOverrides E ch fileName names serializedConfig
             }))"

definition JsPrologue :: string where
  "JsPrologue = ''module.exports = ''"

definition formatConfig :: "'w ext \<Rightarrow> ConfigFormat \<Rightarrow> string \<Rightarrow> string + string" where
  "formatConfig E fmt serializedConfig = (case fmt of
       ConfigFormatYson \<Rightarrow> Inr serializedConfig
     | ConfigFormatToml \<Rightarrow>
         (case f_yson_unmarshal (x_fmt E) serializedConfig of
            Inl e \<Rightarrow> Inl e
          | Inr config \<Rightarrow> f_toml_encode (x_fmt E) config)
     | _ \<Rightarrow>
         (case f_yson_unmarshal (x_fmt E) serializedConfig of
            Inl e \<Rightarrow> Inl e
          | Inr config \<Rightarrow>
              (case f_json_marshal (x_fmt E) config of
                 Inl e \<Rightarrow> Inl e
               | Inr s \<Rightarrow> Inr (if fmt = ConfigFormatJsonWithJsPrologue then JsPrologue @ s else s))))"

text \<open>The result is a possibly nil byte slice and an error.\<close>

definition getConfig :: "'w ext \<Rightarrow> ConfigHelper \<Rightarrow> string \<Rightarrow> (('w, 'z) mem_scheme, string option \<times> error) state" where
  "getConfig E ch fileName = (case map_of (ch_generators ch) fileName of
       None \<Rightarrow> ret (None, None)
     | Some descriptor \<Rightarrow>
         (case gd_F descriptor of
            Inl e \<Rightarrow> do {
              RecordWarning ''Reconciling'' (''Failed to build config '' @ fileName @ '': '' @ e);
              ret (None, Some e)
            }
          | Inr serialized \<Rightarrow> do {
              serializedConfig \<leftarrow>
                (if om_ResourceVersion (o_Meta (ch_overridesMap ch)) \<noteq> []
                 then applyOverrides E ch fileName [fileName, GetConfigMapName ch @ ''--'' @ fileName] serialized
                 else ret serialized);
              (case formatConfig E (gd_Fmt descriptor) serializedConfig of
                 Inl e \<Rightarrow> ret (None, Some e)
               | Inr s \<Rightarrow> ret (Some s, None))
            }))"

definition getCurrentConfigValue :: "ConfigHelper \<Rightarrow> string \<Rightarrow> string option" where
  "getCurrentConfigValue ch fileName =
     (if \<not> Exists (ch_configMap ch) then None
      else cm_Data (o_Body (r_old (ch_configMap ch))) fileName)"

fun needReloadLoop :: "'w ext \<Rightarrow> ConfigHelper \<Rightarrow> string list \<Rightarrow> (('w, 'z) mem_scheme, bool \<times> error) state" where
  "needReloadLoop E ch [] = ret (False, None)"
| "needReloadLoop E ch (fileName # fs) = do {
     (newConfig, err) \<leftarrow> getConfig E ch fileName;
     if err \<noteq> None then ret (False, err)
     else if getCurrentConfigValue ch fileName \<noteq> newConfig then do {
       RecordNormal ''Reconciliation'' (''Config '' @ fileName @ '' needs reload'');
       ret (True, None)
     }
     else needReloadLoop E ch fs
   }"

definition NeedReload :: "'w ext \<Rightarrow> ConfigHelper \<Rightarrow> (('w, 'z) mem_scheme, bool \<times> error) state" where
  "NeedReload E ch = needReloadLoop E ch (map fst (ch_generators ch))"

definition NeedInit :: "ConfigHelper \<Rightarrow> bool" where
  "NeedInit ch \<longleftrightarrow> \<not> Exists (ch_configMap ch)"

subsection \<open>Building and synchronising\<close>

definition setData :: "string \<Rightarrow> string \<Rightarrow> ConfigHelper \<Rightarrow> ConfigHelper" where
  "setData fileName d ch = ch\<lparr>ch_configMap := (ch_configMap ch)\<lparr>r_new := (r_new (ch_configMap ch))\<lparr>o_Body :=
     \<lparr>cm_Data = (cm_Data (o_Body (r_new (ch_configMap ch))))(fileName \<mapsto> d)\<rparr>\<rparr>\<rparr>\<rparr>"

text \<open>
  \<open>Build\<close> returns nil when a generator fails; the boolean says whether a config map was returned.
\<close>

fun buildLoop :: "'w ext \<Rightarrow> string list \<Rightarrow> ConfigHelper \<Rightarrow> (('w, 'z) mem_scheme, ConfigHelper \<times> bool) state" where
  "buildLoop E [] ch = ret (ch, True)"
| "buildLoop E (fileName # fs) ch = do {
     (config, err) \<leftarrow> getConfig E ch fileName;
     if err \<noteq> None then ret (ch, False)
     else (case config of
             None \<Rightarrow> buildLoop E fs ch
           | Some d \<Rightarrow> buildLoop E fs (setData fileName d ch))
   }"

definition ConfigHelper_Build :: "'w ext \<Rightarrow> ConfigHelper \<Rightarrow> (('w, 'z) mem_scheme, ConfigHelper \<times> bool) state" where
  "ConfigHelper_Build E ch =
     buildLoop E (map fst (ch_generators ch)) (ch\<lparr>ch_configMap := ConfigMap_Build (ch_configMap ch)\<rparr>)"

definition ConfigHelper_Sync :: "'w ext \<Rightarrow> ConfigHelper \<Rightarrow> (('w, 'z) mem_scheme, error) state" where
  "ConfigHelper_Sync E ch = do {
     (needReload, err) \<leftarrow> NeedReload E ch;
     let needReload' = (if err \<noteq> None then False else needReload);
     if \<not> NeedInit ch \<and> \<not> needReload' then ret None
     else ConfigMap_Sync E (ch_configMap ch)
   }"

definition ConfigHelper_Fetch :: "'w ext \<Rightarrow> ConfigHelper \<Rightarrow> (('w, 'z) mem_scheme, error \<times> ConfigHelper) state" where
  "ConfigHelper_Fetch E ch = do {
     (err, ch1) \<leftarrow> (case ch_configOverrides ch of
         None \<Rightarrow> ret (None, ch)
       | Some name \<Rightarrow> do {
           (err, om) \<leftarrow> FetchObject (k_get_configmap (x_k8s E)) name (ch_overridesMap ch);
           ret (err, ch\<lparr>ch_overridesMap := om\<rparr>)
         });
     if err \<noteq> None then ret (err, ch1)
     else do {
       (err, cm) \<leftarrow> ConfigMap_Fetch E (ch_configMap ch1);
       ret (err, ch1\<lparr>ch_configMap := cm\<rparr>)
     }
   }"

definition RemoveIfExists :: "'w ext \<Rightarrow> ConfigHelper \<Rightarrow> (('w, 'z) mem_scheme, error) state" where
  "RemoveIfExists E ch =
     (if \<not> Exists (ch_configMap ch) then ret None
      else DeleteObject E AConfigMap (r_old (ch_configMap ch)) None)"

definition ConfigHelper_Exists :: "ConfigHelper \<Rightarrow> bool" where
  "ConfigHelper_Exists ch = Exists (ch_configMap ch)"

subsection \<open>Merging\<close>

definition merged_value :: "yval option \<Rightarrow> yval \<Rightarrow> yval" where
  "merged_value old new = (case old of
       Some (YMap d) \<Rightarrow> (case new of YMap s \<Rightarrow> YMap (mergeMapsRecursively d s) | _ \<Rightarrow> new)
     | _ \<Rightarrow> new)"

lemma merge_Cons:
  "mergeMapsRecursively dst ((k, v) # src) =
     mergeMapsRecursively (AList.update k (merged_value (map_of dst k) v) dst) src"
  by (auto simp: merged_value_def Let_def split: option.splits yval.splits)

declare mergeMapsRecursively.simps(2) [simp del]
declare merge_Cons [simp]

text \<open>What a lookup finds after a merge: the override where there is one, merged with the base value.\<close>

lemma mergeMapsRecursively_lookup:
  assumes "distinct (map fst src)"
  shows "map_of (mergeMapsRecursively dst src) k =
     (case map_of src k of None \<Rightarrow> map_of dst k | Some v \<Rightarrow> Some (merged_value (map_of dst k) v))"
  using assms
proof (induction src arbitrary: dst)
  case (Cons p src)
  obtain k' v' where p: "p = (k', v')" by fastforce
  from Cons.prems p have "map_of src k' = None" by (auto simp: map_of_eq_None_iff)
  with Cons p show ?case by (auto simp: update_conv' split: option.splits)
qed simp

subsection \<open>The configuration as a value\<close>

text \<open>
  The content of a configuration file depends on the generators and the overrides only; generation
  adds events and changes nothing else.
\<close>

fun override_value :: "'w ext \<Rightarrow> ConfigHelper \<Rightarrow> string list \<Rightarrow> string \<Rightarrow> string" where
  "override_value E ch [] s = s"
| "override_value E ch (n # ns) s = override_value E ch ns
     (case cm_Data (o_Body (ch_overridesMap ch)) n of
        None \<Rightarrow> s
      | Some v \<Rightarrow> (case overrideYsonConfigs E s v of Inr s' \<Rightarrow> s' | Inl _ \<Rightarrow> s))"

definition config_value :: "'w ext \<Rightarrow> ConfigHelper \<Rightarrow> string \<Rightarrow> string option \<times> error" where
  "config_value E ch f = (case map_of (ch_generators ch) f of
       None \<Rightarrow> (None, None)
     | Some d \<Rightarrow> (case gd_F d of
         Inl e \<Rightarrow> (None, Some e)
       | Inr s \<Rightarrow> (case formatConfig E (gd_Fmt d)
                     (if om_ResourceVersion (o_Meta (ch_overridesMap ch)) \<noteq> []
                      then override_value E ch [f, GetConfigMapName ch @ ''--'' @ f] s else s) of
                   Inl e \<Rightarrow> (None, Some e)
                 | Inr r \<Rightarrow> (Some r, None))))"

lemma applyOverrides_value: "fst (run_state (applyOverrides E ch f ns s) h) = override_value E ch ns s"
  by (induction E ch f ns s arbitrary: h rule: applyOverrides.induct)
    (auto split: option.splits sum.splits simp: RecordWarning_def)

lemma getConfig_value: "fst (run_state (getConfig E ch f) h) = config_value E ch f"
  using applyOverrides_value [of E ch f "[f, GetConfigMapName ch @ ''--'' @ f]"]
  by (auto simp: getConfig_def config_value_def RecordWarning_def split: option.splits sum.splits prod.splits)

text \<open>The memory without its events.\<close>

definition no_events :: "('w, 'z) mem_scheme \<Rightarrow> ('w, 'z) mem_scheme" where
  "no_events h = h\<lparr>h_events := []\<rparr>"

lemma no_events_same:
  assumes "no_events g = no_events h"
  shows "h_yts g = h_yts h" and "h_world g = h_world h" and "mem.more g = mem.more h"
  using assms by (cases g, cases h, simp add: no_events_def)+

lemma keeps_no_events_Record [io_intros]: "keeps no_events (RecordNormal r m)" "keeps no_events (RecordWarning r m)"
  by (simp_all add: keeps_def no_events_def RecordNormal_def RecordWarning_def)

lemma keeps_no_events_applyOverrides [io_intros]: "keeps no_events (applyOverrides E ch f ns s)"
  by (induction E ch f ns s rule: applyOverrides.induct) (auto intro!: io_intros)

lemma keeps_no_events_getConfig [io_intros]: "keeps no_events (getConfig E ch f)"
  unfolding getConfig_def by (intro io_intros)

lemma keeps_no_events_needReloadLoop [io_intros]: "keeps no_events (needReloadLoop E ch fs)"
  by (induction E ch fs rule: needReloadLoop.induct) (auto intro!: io_intros)

lemma keeps_no_events_NeedReload [io_intros]: "keeps no_events (NeedReload E ch)"
  unfolding NeedReload_def by (rule io_intros)

lemma keeps_no_events_buildLoop [io_intros]: "keeps no_events (buildLoop E fs ch)"
  by (induction E fs ch rule: buildLoop.induct) (auto intro!: io_intros)

lemma keeps_no_events_ConfigHelper_Build [io_intros]: "keeps no_events (ConfigHelper_Build E ch)"
  unfolding ConfigHelper_Build_def by (rule io_intros)

lemma keeps_from_no_events: "keeps no_events m \<Longrightarrow> keeps h_yts m" "keeps no_events m \<Longrightarrow> keeps h_world m"
    "keeps no_events m \<Longrightarrow> keeps mem.more m"
  unfolding keeps_def by (metis no_events_same(1), metis no_events_same(2), metis no_events_same(3))

lemma keeps_yts_ConfigHelper [io_intros]:
  "keeps h_yts (NeedReload E ch)" "keeps h_yts (ConfigHelper_Build E ch)" "keeps h_yts (ConfigHelper_Fetch E ch)"
  by (auto simp: ConfigHelper_Fetch_def intro!: keeps_from_no_events(1) io_intros)

lemma keeps_yts_ConfigHelper_Sync [io_intros]: "keeps h_yts (ConfigHelper_Sync E ch)"
  by (auto simp: ConfigHelper_Sync_def Let_def intro!: io_intros)

lemma keeps_yts_RemoveIfExists [io_intros]: "keeps h_yts (RemoveIfExists E ch)"
  unfolding RemoveIfExists_def by (intro io_intros)

subsection \<open>Detecting changes\<close>

fun reload_value :: "'w ext \<Rightarrow> ConfigHelper \<Rightarrow> string list \<Rightarrow> bool \<times> error" where
  "reload_value E ch [] = (False, None)"
| "reload_value E ch (f # fs) =
     (if snd (config_value E ch f) \<noteq> None then (False, snd (config_value E ch f))
      else if getCurrentConfigValue ch f \<noteq> fst (config_value E ch f) then (True, None)
      else reload_value E ch fs)"

lemma needReloadLoop_value: "fst (run_state (needReloadLoop E ch fs) h) = reload_value E ch fs"
proof (induction fs arbitrary: h)
  case (Cons f fs)
  obtain c e h' where run: "run_state (getConfig E ch f) h = ((c, e), h')" by (metis prod.exhaust)
  then have "config_value E ch f = (c, e)" using getConfig_value [of E ch f h] by simp
  with run Cons show ?case by (simp add: RecordNormal_def)
qed simp

lemma NeedReload_value: "fst (run_state (NeedReload E ch) h) = reload_value E ch (map fst (ch_generators ch))"
  by (simp add: NeedReload_def needReloadLoop_value)

lemma reload_value_False_iff:
  "reload_value E ch fs = (False, None) \<longleftrightarrow> (\<forall>f \<in> set fs. config_value E ch f = (getCurrentConfigValue ch f, None))"
  by (induction fs) (auto simp: prod_eq_iff)

subsection \<open>A stored build needs no reload\<close>

text \<open>Building fills the new config map; the fields that determine the configuration stay.\<close>

lemma config_value_cong:
  assumes "ch_generators ch' = ch_generators ch" and "ch_overridesMap ch' = ch_overridesMap ch"
    and "r_name (ch_configMap ch') = r_name (ch_configMap ch)"
  shows "config_value E ch' f = config_value E ch f"
proof -
  have "override_value E ch' ns s = override_value E ch ns s" for ns s
    by (induction ns arbitrary: s) (simp_all add: assms)
  with assms show ?thesis
    by (simp add: config_value_def GetConfigMapName_def cong: option.case_cong sum.case_cong if_cong)
qed

lemma setData_simps [simp]:
  "ch_generators (setData f d ch) = ch_generators ch"
  "ch_overridesMap (setData f d ch) = ch_overridesMap ch"
  "r_name (ch_configMap (setData f d ch)) = r_name (ch_configMap ch)"
  "cm_Data (o_Body (r_new (ch_configMap (setData f d ch)))) =
     (cm_Data (o_Body (r_new (ch_configMap ch))))(f \<mapsto> d)"
  by (simp_all add: setData_def)

lemma config_value_setData [simp]: "config_value E (setData f d ch) g = config_value E ch g"
  by (rule config_value_cong) simp_all

lemma buildLoop_data:
  assumes "run_state (buildLoop E fs ch) h = ((ch', True), h')"
  shows "(\<forall>f. cm_Data (o_Body (r_new (ch_configMap ch'))) f =
           (if f \<in> set fs \<and> fst (config_value E ch f) \<noteq> None then fst (config_value E ch f)
            else cm_Data (o_Body (r_new (ch_configMap ch))) f)) \<and>
         (\<forall>f \<in> set fs. snd (config_value E ch f) = None) \<and>
         ch_generators ch' = ch_generators ch \<and> ch_overridesMap ch' = ch_overridesMap ch \<and>
         r_name (ch_configMap ch') = r_name (ch_configMap ch)"
  using assms
proof (induction fs arbitrary: ch h)
  case (Cons f fs)
  obtain c e h1 where run: "run_state (getConfig E ch f) h = ((c, e), h1)" by (metis prod.exhaust)
  then have cv: "config_value E ch f = (c, e)" using getConfig_value [of E ch f h] by simp
  with Cons.prems run have e: "e = None" by (auto split: if_splits)
  show ?case
  proof (cases c)
    case None
    with Cons.prems run e have "run_state (buildLoop E fs ch) h1 = ((ch', True), h')" by simp
    from Cons.IH [OF this] None cv e show ?thesis by auto
  next
    case (Some d)
    with Cons.prems run e have "run_state (buildLoop E fs (setData f d ch)) h1 = ((ch', True), h')" by simp
    from Cons.IH [OF this] Some cv e show ?thesis by auto
  qed
qed simp

text \<open>The config map as the API server returns it once the built object is stored.\<close>

definition stored_build :: "string \<Rightarrow> ConfigHelper \<Rightarrow> ConfigHelper" where
  "stored_build rv ch = ch\<lparr>ch_configMap := (ch_configMap ch)\<lparr>r_old := (r_new (ch_configMap ch))
     \<lparr>o_Meta := (o_Meta (r_new (ch_configMap ch)))\<lparr>om_ResourceVersion := rv\<rparr>\<rparr>\<rparr>\<rparr>"

lemma config_value_stored_build [simp]: "config_value E (stored_build rv ch) f = config_value E ch f"
  by (rule config_value_cong) (auto simp: stored_build_def)

lemma config_value_Some:
  "f \<in> fst ` set (ch_generators ch) \<Longrightarrow> snd (config_value E ch f) = None \<Longrightarrow> fst (config_value E ch f) \<noteq> None"
  by (force simp: config_value_def map_of_eq_None_iff split: option.splits sum.splits)

lemma stored_build_current:
  assumes "run_state (ConfigHelper_Build E ch) h = ((ch', True), h')" and "rv \<noteq> []"
    and "f \<in> fst ` set (ch_generators ch)"
  shows "config_value E (stored_build rv ch') f = (getCurrentConfigValue (stored_build rv ch') f, None)"
proof -
  let ?c0 = "ch\<lparr>ch_configMap := ConfigMap_Build (ch_configMap ch)\<rparr>"
  let ?fs = "map fst (ch_generators ch)"
  have run: "run_state (buildLoop E ?fs ?c0) h = ((ch', True), h')"
    using assms(1) by (simp add: ConfigHelper_Build_def)
  note b = buildLoop_data [OF this]
  have cv: "config_value E ch' f = config_value E ?c0 f"
    using b by (intro config_value_cong) auto
  have "snd (config_value E ?c0 f) = None" and "fst (config_value E ?c0 f) \<noteq> None"
    using b assms(3) config_value_Some [of f ?c0 E] by auto
  moreover have "cm_Data (o_Body (r_new (ch_configMap ch'))) f = fst (config_value E ?c0 f)"
    using b assms(3) calculation by auto
  moreover have "getCurrentConfigValue (stored_build rv ch') f = cm_Data (o_Body (r_new (ch_configMap ch'))) f"
    using assms(2) by (simp add: getCurrentConfigValue_def stored_build_def Exists_def)
  ultimately show ?thesis using cv by (simp add: prod_eq_iff)
qed

lemma buildLoop_generators:
  "run_state (buildLoop E fs ch) h = ((ch', ok), h') \<Longrightarrow> ch_generators ch' = ch_generators ch"
proof (induction fs arbitrary: ch h)
  case (Cons f fs)
  then show ?case by (auto split: prod.splits option.splits if_splits)
qed simp

lemma stored_build_no_reload:
  assumes "run_state (ConfigHelper_Build E ch) h = ((ch', True), h')" and "rv \<noteq> []"
  shows "fst (run_state (NeedReload E (stored_build rv ch')) g) = (False, None)"
proof -
  have "ch_generators (stored_build rv ch') = ch_generators ch"
    using buildLoop_generators [of E _ "ch\<lparr>ch_configMap := ConfigMap_Build (ch_configMap ch)\<rparr>" h ch' True h'] assms(1)
    by (simp add: ConfigHelper_Build_def stored_build_def)
  then show ?thesis
    using stored_build_current [OF assms] by (simp add: NeedReload_value reload_value_False_iff)
qed

end
