(* ===== verification/Component.thy ===== *)
theory Component
  imports Resources
begin

text \<open>
  \<open>pkg/components/component.go\<close>: the interface every component of a cluster implements, and
  the contract the controller relies on when it drives the components.
\<close>

datatype SyncStatus =
    SyncStatusBlocked
  | SyncStatusNeedLocalUpdate
  | SyncStatusPending
  | SyncStatusReady
  | SyncStatusUpdating

fun sync_string :: "SyncStatus \<Rightarrow> string" where
  "sync_string SyncStatusBlocked = ''Blocked''"
| "sync_string SyncStatusNeedLocalUpdate = ''NeedLocalUpdate''"
| "sync_string SyncStatusPending = ''Pending''"
| "sync_string SyncStatusReady = ''Ready''"
| "sync_string SyncStatusUpdating = ''Updating''"

definition IsRunningStatus :: "SyncStatus \<Rightarrow> bool" where
  "IsRunningStatus s \<longleftrightarrow> s = SyncStatusReady \<or> s = SyncStatusNeedLocalUpdate"

record ComponentStatus =
  cst_SyncStatus :: SyncStatus
  cst_Message :: string

definition NewComponentStatus :: "SyncStatus \<Rightarrow> string \<Rightarrow> ComponentStatus" where
  "NewComponentStatus s message = \<lparr>cst_SyncStatus = s, cst_Message = message\<rparr>"

definition WaitingStatus :: "SyncStatus \<Rightarrow> string \<Rightarrow> ComponentStatus" where
  "WaitingStatus s event = \<lparr>cst_SyncStatus = s, cst_Message = ''Wait for '' @ event\<rparr>"

definition SimpleStatus :: "SyncStatus \<Rightarrow> ComponentStatus" where
  "SimpleStatus s = \<lparr>cst_SyncStatus = s, cst_Message = sync_string s\<rparr>"

text \<open>
  A value of the interface: its pure methods as values, its effectful methods as programs over
  the operator's memory.
\<close>

record 's component =
  c_GetName :: string
  c_GetType :: ComponentType
  c_IsUpdatable :: bool
  c_Fetch :: "('s, error) state"
  c_Sync :: "('s, error) state"
  c_Status :: "('s, ComponentStatus \<times> error) state"
  c_SetReadyCondition :: "ComponentStatus \<Rightarrow> ('s, unit) state"

definition SetReadyCondition :: "'w ext \<Rightarrow> Labeller \<Rightarrow> ComponentStatus \<Rightarrow> (('w, 'z) mem_scheme, unit) state" where
  "SetReadyCondition E l s =
     (let ready = (if cst_SyncStatus s = SyncStatusReady then ConditionTrue else ConditionFalse)
      in SetStatusCondition E (mkCondition (lb_ComponentName l @ ''Ready'') ready
           (sync_string (cst_SyncStatus s)) (cst_Message s)))"

text \<open>
  \<open>IsUpdatingComponent\<close> (helpers.go): a nil list of names selects the updatable components. It
  reads the name of the component and whether it is updatable.
\<close>

definition isUpdatingNamed :: "string \<Rightarrow> bool \<Rightarrow> ('w, 'z) mem_scheme \<Rightarrow> bool" where
  "isUpdatingNamed name updatable h = (case GetLocalUpdatingComponents h of
       None \<Rightarrow> updatable
     | Some names \<Rightarrow> name \<in> set names)"

definition IsUpdatingComponent :: "'s component \<Rightarrow> ('w, 'z) mem_scheme \<Rightarrow> bool" where
  "IsUpdatingComponent c = isUpdatingNamed (c_GetName c) (c_IsUpdatable c)"

subsection \<open>What a component may do to the resource\<close>

text \<open>
  The part of the resource that steers the controller: components read it and never write it.
\<close>

record control =
  ctl_State :: ClusterState
  ctl_UpdateState :: UpdateState
  ctl_Flow :: UpdateFlow
  ctl_Components :: "string list option"

definition control_of :: "('w, 'z) mem_scheme \<Rightarrow> control" where
  "control_of h = \<lparr>ctl_State = GetClusterState h, ctl_UpdateState = GetUpdateState h,
     ctl_Flow = GetUpdateFlow h, ctl_Components = GetLocalUpdatingComponents h\<rparr>"

text \<open>
  Behaviour of the API server that the controller relies on: writing any object but the status of
  the resource leaves the stored resource as it is; writing the status stores it, or fails and
  stores nothing. The clients of other systems do not write the resource.
\<close>

definition preserves_stored :: "'w ext \<Rightarrow> ('w \<Rightarrow> error \<times> 'w) \<Rightarrow> bool" where
  "preserves_stored E op \<longleftrightarrow> (\<forall>w. k_get_ytsaurus (x_k8s E) (snd (op w)) = k_get_ytsaurus (x_k8s E) w)"

definition k8s_ok :: "'w ext \<Rightarrow> bool" where
  "k8s_ok E \<longleftrightarrow>
     (\<forall>obj. preserves_stored E (k_create (x_k8s E) obj)) \<and>
     (\<forall>obj. preserves_stored E (k_update (x_k8s E) obj)) \<and>
     (\<forall>obj p. preserves_stored E (k_delete (x_k8s E) obj p)) \<and>
     (\<forall>y w r. k_get_ytsaurus (x_k8s E) w = Found r \<longrightarrow>
        k_get_ytsaurus (x_k8s E) (snd (k_status_update (x_k8s E) y w)) =
          Found (if fst (k_status_update (x_k8s E) y w) = None then r\<lparr>yr_Status := yr_Status y\<rparr> else r))"

definition yt_ok :: "'w ext \<Rightarrow> bool" where
  "yt_ok E \<longleftrightarrow>
     (\<forall>p v. preserves_stored E (y_set (x_yt E) p v)) \<and>
     (\<forall>p. preserves_stored E (y_remove (x_yt E) p)) \<and>
     (\<forall>t a i. preserves_stored E (y_create_object (x_yt E) t a i)) \<and>
     (\<forall>p t a r i. preserves_stored E (y_create_node (x_yt E) p t a r i)) \<and>
     (\<forall>g u. preserves_stored E (y_add_member (x_yt E) g u)) \<and>
     preserves_stored E (y_build_master_snapshots (x_yt E))"

definition ext_ok :: "'w ext \<Rightarrow> bool" where
  "ext_ok E \<longleftrightarrow> k8s_ok E \<and> yt_ok E"

text \<open>
  \<open>comp_rel E u h h'\<close>: from a memory with well-formed conditions, the step kept the control part,
  the specification and the stored resource, kept the conditions well-formed and withdrew no update
  condition but the one that the master uses as a flag of its own. Unless \<open>u\<close> allows it, the
  step changed the update status only while the cluster was updating.
\<close>

definition comp_rel :: "'w ext \<Rightarrow> bool \<Rightarrow> ('w, 'z) mem_scheme \<Rightarrow> ('w, 'z) mem_scheme \<Rightarrow> bool" where
  "comp_rel E u h h' \<longleftrightarrow> (ext_ok E \<and> cond_inv E h \<longrightarrow>
     cond_inv E h' \<and> control_of h' = control_of h \<and> yr_Spec (h_yts h') = yr_Spec (h_yts h) \<and>
     yr_Meta (h_yts h') = yr_Meta (h_yts h) \<and>
     k_get_ytsaurus (x_k8s E) (h_world h') = k_get_ytsaurus (x_k8s E) (h_world h) \<and>
     (\<forall>t. t \<noteq> ConditionMasterExitReadOnlyPrepared \<longrightarrow>
        update_stored h t = Some ConditionTrue \<longrightarrow> update_stored h' t = Some ConditionTrue) \<and>
     (u \<or> IsUpdating h \<or> h_update h' = h_update h))"

interpretation cr: io_relation "comp_rel E u" for E u
proof (unfold_locales, goal_cases)
  case (2 s t v)
  then have "IsUpdating t \<longleftrightarrow> IsUpdating s" if "ext_ok E" "cond_inv E s"
    using that by (auto simp: comp_rel_def control_of_def IsUpdating_def)
  with 2 show ?case by (auto simp: comp_rel_def)
qed (simp add: comp_rel_def)

lemmas cr_rules [io_intros] = cr.rel_intros

text \<open>The contract of a component.\<close>

definition component_ok :: "'w ext \<Rightarrow> ('w, 'z) mem_scheme component \<Rightarrow> bool" where
  "component_ok E c \<longleftrightarrow> state_io_rel (comp_rel E False) (c_Fetch c) \<and> state_io_rel (comp_rel E False) (c_Sync c) \<and>
     state_io_rel (comp_rel E False) (c_Status c) \<and> (\<forall>s. state_io_rel (comp_rel E False) (c_SetReadyCondition c s))"

subsection \<open>Steps that respect the contract\<close>

lemma cr_keeps:
  assumes "keeps h_yts m" and "keeps h_world m"
  shows "state_io_rel (comp_rel E u) m"
proof (rule state_io_relI)
  fix a h h'
  assume run: "run_state m h = (a, h')"
  have "h_yts h' = h_yts h" "h_world h' = h_world h"
    using assms run by (auto dest: keepsD)
  then show "comp_rel E u h h'"
    by (simp add: comp_rel_def cond_inv_def control_of_def getter_defs update_stored_def)
qed

lemma cr_ext_write:
  assumes "ext_ok E \<Longrightarrow> preserves_stored E op"
  shows "state_io_rel (comp_rel E u) (ext_write op)"
  using assms
  by (auto simp: state_io_rel_def run_ext_write comp_rel_def cond_inv_def control_of_def getter_defs
      update_stored_def preserves_stored_def)

lemma ext_okD:
  assumes "ext_ok E"
  shows "preserves_stored E (k_create (x_k8s E) obj)" "preserves_stored E (k_update (x_k8s E) obj)"
    "preserves_stored E (k_delete (x_k8s E) obj p)" "preserves_stored E (y_set (x_yt E) q v)"
    "preserves_stored E (y_remove (x_yt E) q)" "preserves_stored E (y_create_object (x_yt E) t a i)"
    "preserves_stored E (y_create_node (x_yt E) q t a r i)" "preserves_stored E (y_add_member (x_yt E) g u)"
    "preserves_stored E (y_build_master_snapshots (x_yt E))"
  using assms by (auto simp: ext_ok_def k8s_ok_def yt_ok_def)

lemmas cr_writes [io_intros] = ext_okD [THEN cr_ext_write, simplified]

lemma cr_Record [io_intros]:
  "state_io_rel (comp_rel E u) (RecordNormal r m)" "state_io_rel (comp_rel E u) (RecordWarning r m)"
  by (intro cr_keeps io_intros)+

lemma cr_SetStatusCondition [io_intros]: "state_io_rel (comp_rel E u) (SetStatusCondition E c)"
proof (rule state_io_relI)
  fix a h h'
  assume run: "run_state (SetStatusCondition E c) h = (a, h')"
  then have "h' = snd (run_state (SetStatusCondition E c) h)" by simp
  moreover from run have "h_update h' = h_update h" "h_world h' = h_world h"
      "yr_Spec (h_yts h') = yr_Spec (h_yts h)" "yr_Meta (h_yts h') = yr_Meta (h_yts h)"
      "GetClusterState h' = GetClusterState h"
    by (auto simp: SetStatusCondition_def GetClusterState_def)
  ultimately show "comp_rel E u h h'"
    using sta.inv_set by (auto simp: comp_rel_def control_of_def getter_defs update_stored_def)
qed

text \<open>Update conditions are written as true, or the master's own flag is written, and only while updating.\<close>

lemma cr_SetUpdateStatusCondition [io_intros]:
  assumes "cond_Status c = ConditionTrue \<or> cond_Type c = ConditionMasterExitReadOnlyPrepared"
  shows "state_io_rel (comp_rel E True) (SetUpdateStatusCondition E c)"
proof (rule state_io_relI)
  fix a h h'
  assume run: "run_state (SetUpdateStatusCondition E c) h = (a, h')"
  then have h': "h' = snd (run_state (SetUpdateStatusCondition E c) h)" by simp
  from run have "control_of h' = control_of h" "h_world h' = h_world h"
      "yr_Spec (h_yts h') = yr_Spec (h_yts h)" "yr_Meta (h_yts h') = yr_Meta (h_yts h)"
    by (auto simp: SetUpdateStatusCondition_def control_of_def getter_defs)
  then show "comp_rel E True h h'"
    using upd.inv_set [of E h c] upd.stored_set [of E h c] assms unfolding h' by (auto simp: comp_rel_def)
qed

lemma cr_updating:
  assumes "\<And>h. run_state m h = run_state (if IsUpdating h then m1 else m2) h"
    and "state_io_rel (comp_rel E True) m1" and "state_io_rel (comp_rel E u) m2"
  shows "state_io_rel (comp_rel E u) m"
proof (rule state_io_relI)
  fix a h h'
  assume "run_state m h = (a, h')"
  then have run: "run_state (if IsUpdating h then m1 else m2) h = (a, h')" using assms(1) by simp
  show "comp_rel E u h h'"
  proof (cases "IsUpdating h")
    case True
    then have "comp_rel E True h h'" using run assms(2) by (auto dest: state_io_relD)
    with True show ?thesis by (auto simp: comp_rel_def)
  qed (use run assms(3) in \<open>auto dest: state_io_relD\<close>)
qed

text \<open>The form in which the components test the cluster state before they touch the update status.\<close>

lemma cr_if_updating [io_intros]:
  assumes "state_io_rel (comp_rel E True) m1" and "state_io_rel (comp_rel E u) m2"
  shows "state_io_rel (comp_rel E u) (do { s \<leftarrow> gets GetClusterState; if s = ClusterStateUpdating then m1 else m2 })"
  by (rule cr_updating [OF _ assms]) (simp add: IsUpdating_def)

lemma cr_SetReadyCondition [io_intros]: "state_io_rel (comp_rel E u) (SetReadyCondition E l s)"
  unfolding SetReadyCondition_def Let_def by (rule cr_SetStatusCondition)

lemma cr_SyncObject [io_intros]: "state_io_rel (comp_rel E u) (SyncObject E wrap old new)"
  unfolding SyncObject_def updateObject_def createAndReferenceObject_def by (intro io_intros)

lemma cr_DeleteObject [io_intros]: "state_io_rel (comp_rel E u) (DeleteObject E wrap obj p)"
  unfolding DeleteObject_def by (intro io_intros)

lemma cr_FetchObject [io_intros]: "state_io_rel (comp_rel E u) (FetchObject g n obj)"
  by (intro cr_keeps io_intros)

lemma cr_res [io_intros]:
  "state_io_rel (comp_rel E u) (res_Fetch g r)" "state_io_rel (comp_rel E u) (res_Sync E wrap r)"
  unfolding res_Sync_def by (intro cr_keeps io_intros, intro io_intros)

lemma cr_first_error [io_intros]:
  "(\<And>m. Some m \<in> set ms \<Longrightarrow> state_io_rel (comp_rel E u) m) \<Longrightarrow> state_io_rel (comp_rel E u) (first_error ms)"
  by (rule io_first_error) (auto intro: reflpI transpI cr.R_refl cr.R_trans)

lemma comp_relD:
  assumes "comp_rel E u h h'" and "ext_ok E" and "cond_inv E h"
  shows "cond_inv E h'" and "control_of h' = control_of h" and "yr_Spec (h_yts h') = yr_Spec (h_yts h)"
    and "k_get_ytsaurus (x_k8s E) (h_world h') = k_get_ytsaurus (x_k8s E) (h_world h)"
    and "t \<noteq> ConditionMasterExitReadOnlyPrepared \<Longrightarrow> update_stored h t = Some ConditionTrue \<Longrightarrow> update_stored h' t = Some ConditionTrue"
    and "yr_Meta (h_yts h') = yr_Meta (h_yts h)"
    and "\<not> u \<Longrightarrow> \<not> IsUpdating h \<Longrightarrow> h_update h' = h_update h"
  using assms by (auto simp: comp_rel_def)

lemma IsRunningStatus_iff: "IsRunningStatus s \<longleftrightarrow> s \<in> {SyncStatusReady, SyncStatusNeedLocalUpdate}"
  by (auto simp: IsRunningStatus_def)

end
