(* ===== verification/Server.thy ===== *)
theory Server
  imports ConfigHelper Component
begin

text \<open>
  \<open>volume.go\<close>, \<open>serveroptions.go\<close> and \<open>server.go\<close> of \<open>pkg/components\<close>: a YTsaurus
  server is a stateful set, a headless service, a monitoring service and one configuration file.
  The methods take the server and return it changed; the theory Heap places servers in the memory.
\<close>

subsection \<open>volume.go\<close>

text \<open>A claim template of the specification and a claim of the API hold the same data here.\<close>

definition createVolumeClaims :: "PersistentVolumeClaim list \<Rightarrow> PersistentVolumeClaim list" where
  "createVolumeClaims templates = map (\<lambda>v. \<lparr>pvc_Name = pvc_Name v, pvc_Labels = pvc_Labels v,
     pvc_Annotations = pvc_Annotations v, pvc_Requests = pvc_Requests v, pvc_Spec = pvc_Spec v\<rparr>) templates"

definition createConfigTemplateVolumeMount :: VolumeMount where
  "createConfigTemplateVolumeMount = \<lparr>vm_Name = ConfigTemplateVolumeName, vm_MountPath = ConfigTemplateMountPoint,
     vm_SubPath = [], vm_ReadOnly = True, vm_MountPropagation = None\<rparr>"

definition createConfigVolumeMount :: VolumeMount where
  "createConfigVolumeMount = \<lparr>vm_Name = ConfigVolumeName, vm_MountPath = ConfigMountPoint,
     vm_SubPath = [], vm_ReadOnly = False, vm_MountPropagation = None\<rparr>"

definition createVolumeMounts :: "VolumeMount list \<Rightarrow> VolumeMount list" where
  "createVolumeMounts specVolumeMounts =
     specVolumeMounts @ [createConfigTemplateVolumeMount] @ [createConfigVolumeMount]"

definition createConfigVolume :: "string \<Rightarrow> string \<Rightarrow> int32 option \<Rightarrow> Volume" where
  "createConfigVolume volumeName configMapName mode =
     \<lparr>vol_Name = volumeName, vol_Source = ConfigMapSource configMapName mode\<rparr>"

definition createConfigEmptyDir :: Volume where
  "createConfigEmptyDir = \<lparr>vol_Name = ConfigVolumeName, vol_Source = EmptyDirSource None\<rparr>"

definition createServerVolumes :: "Volume list \<Rightarrow> string \<Rightarrow> Volume list" where
  "createServerVolumes specVolumes configMapName =
     specVolumes @ [createConfigVolume ConfigTemplateVolumeName configMapName None] @ [createConfigEmptyDir]"

definition getLocationInitCommand :: "LocationSpec list \<Rightarrow> string" where
  "getLocationInitCommand locations =
     foldl (\<lambda>command l. command @ ''mkdir -p '' @ loc_Path l @ ''; '') ''echo 'Init locations'; '' locations"

definition fieldEnv :: "string \<Rightarrow> string \<Rightarrow> EnvVar" where
  "fieldEnv name path = \<lparr>ev_Name = name, ev_Value = [], ev_FieldPath = Some path\<rparr>"

definition getConfigPostprocessEnv :: "EnvVar list" where
  "getConfigPostprocessEnv = [fieldEnv ''K8S_POD_NAME'' ''metadata.name'',
     fieldEnv ''K8S_POD_NAMESPACE'' ''metadata.namespace'', fieldEnv ''K8S_NODE_NAME'' ''spec.nodeName'']"

definition getConfigPostprocessingCommand :: "string \<Rightarrow> string" where
  "getConfigPostprocessingCommand configFileName =
     (let configTemplatePath = path_join ConfigTemplateMountPoint configFileName;
          configPath = path_join ConfigMountPoint configFileName;
          postprocessScriptPath = path_join ConfigMountPoint PostprocessConfigScriptFileName;
          substituteEnvCommand = (\<lambda>envVar.
            ''sed -i -s '' @ dquoted (''s/{'' @ envVar @ ''}/${'' @ envVar @ ''}/g'') @ '' '' @ configPath @ ''; '');
          substitutePlaceholderWithCommand = (\<lambda>placeholder command.
            ''sed -i -s '' @ dquoted (''s/{'' @ placeholder @ ''}/$('' @ command @ '')/g'') @ '' '' @ configPath @ ''; '');
          postprocessScript = ''cp '' @ configTemplatePath @ '' '' @ configPath @ ''; '' @
            concat (map (\<lambda>e. substituteEnvCommand (ev_Name e)) getConfigPostprocessEnv) @
            substitutePlaceholderWithCommand ''POD_FQDN'' ''hostname -f'' @
            substitutePlaceholderWithCommand ''POD_SHORT_HOSTNAME'' ''hostname -s''
      in ''echo '' @ squoted (''Postprocess config '' @ configFileName) @ '';'' @
         ''echo '' @ squoted postprocessScript @ '' > '' @ postprocessScriptPath @ ''; '' @
         ''chmod +x '' @ squoted postprocessScriptPath @ ''; '' @
         ''source '' @ postprocessScriptPath @ ''; '' @
         ''cat '' @ configPath @ ''; '')"

subsection \<open>serveroptions.go\<close>

record options =
  op_containerPorts :: "ContainerPort list"
  op_readinessProbeEndpointPort :: IntOrString
  op_readinessProbeEndpointPath :: string

definition WithCustomReadinessProbeEndpointPort :: "int32 \<Rightarrow> options \<Rightarrow> options" where
  "WithCustomReadinessProbeEndpointPort port opts = opts\<lparr>op_readinessProbeEndpointPort := FromInt port\<rparr>"

definition WithCustomReadinessProbeEndpointPath :: "string \<Rightarrow> options \<Rightarrow> options" where
  "WithCustomReadinessProbeEndpointPath path opts = opts\<lparr>op_readinessProbeEndpointPath := path\<rparr>"

definition WithContainerPorts :: "ContainerPort list \<Rightarrow> options \<Rightarrow> options" where
  "WithContainerPorts ports opts = opts\<lparr>op_containerPorts := op_containerPorts opts @ ports\<rparr>"

definition tcpPort :: "string \<Rightarrow> int32 \<Rightarrow> ContainerPort" where
  "tcpPort name port = \<lparr>cp_Name = name, cp_ContainerPort = port, cp_Protocol = ''TCP''\<rparr>"

subsection \<open>server.go\<close>

text \<open>
  \<open>builtStatefulSet\<close> is a pointer to the new object of the stateful set or nil; the flag
  \<open>srv_built\<close> says which.
\<close>

record serverImpl =
  srv_image :: string
  srv_labeller :: Labeller
  srv_commonSpec :: CommonSpec
  srv_binaryPath :: string
  srv_instanceSpec :: InstanceSpec
  srv_statefulSet :: StatefulSet
  srv_headlessService :: HeadlessService
  srv_monitoringService :: MonitoringService
  srv_caBundle :: "CABundle option"
  srv_tlsSecret :: "TLSSecret option"
  srv_configHelper :: ConfigHelper
  srv_built :: bool
  srv_componentContainerPorts :: "ContainerPort list"
  srv_readinessProbePort :: IntOrString
  srv_readinessProbeHTTPPath :: string

text \<open>
  The monitoring port is dereferenced: every caller sets it before (a nil port panics; the model
  reads port 0 there).
\<close>

definition monitoringPort :: "InstanceSpec \<Rightarrow> int32" where
  "monitoringPort i = (case is_MonitoringPort i of Some p \<Rightarrow> p | None \<Rightarrow> 0)"

definition newServerConfigured :: "Labeller \<Rightarrow> CommonSpec \<Rightarrow> InstanceSpec \<Rightarrow> string \<Rightarrow> string \<Rightarrow> string \<Rightarrow> string \<Rightarrow>
    (string + string) \<Rightarrow> (options \<Rightarrow> options) list \<Rightarrow> serverImpl" where
  "newServerConfigured l commonSpec instanceSpec binaryPath configFileName statefulSetName serviceName generator optFuncs =
     (let image = (case is_Image instanceSpec of Some i \<Rightarrow> i | None \<Rightarrow> cs_CoreImage commonSpec);
          caBundle = map_option (\<lambda>name. NewCABundle name CABundleVolumeName CABundleMountPoint) (cs_CABundle commonSpec);
          transportSpec = (case is_NativeTransport instanceSpec of Some t \<Rightarrow> Some t | None \<Rightarrow> cs_NativeTransport commonSpec);
          tlsSecret = (case transportSpec of
              Some t \<Rightarrow> map_option (\<lambda>name. NewTLSSecret name BusSecretVolumeName BusSecretMountPoint) (rt_TLSSecret t)
            | None \<Rightarrow> None);
          opts0 = \<lparr>op_containerPorts = [tcpPort YTMonitoringContainerPortName (monitoringPort instanceSpec)],
                   op_readinessProbeEndpointPort = FromString YTMonitoringContainerPortName,
                   op_readinessProbeEndpointPath = ''/orchid/service''\<rparr>;
          opts = foldl (\<lambda>o' fn. fn o') opts0 optFuncs
      in \<lparr>srv_image = image, srv_labeller = l, srv_commonSpec = commonSpec, srv_binaryPath = binaryPath,
          srv_instanceSpec = instanceSpec, srv_statefulSet = NewStatefulSet statefulSetName l,
          srv_headlessService = NewHeadlessService serviceName l,
          srv_monitoringService = NewMonitoringService (monitoringPort instanceSpec) l,
          srv_caBundle = caBundle, srv_tlsSecret = tlsSecret,
          srv_configHelper = NewConfigHelper l (GetMainConfigMapName l) (cs_ConfigOverrides commonSpec)
            [(configFileName, \<lparr>gd_F = generator, gd_Fmt = ConfigFormatYson\<rparr>)],
          srv_built = False, srv_componentContainerPorts = op_containerPorts opts,
          srv_readinessProbePort = op_readinessProbeEndpointPort opts,
          srv_readinessProbeHTTPPath = op_readinessProbeEndpointPath opts\<rparr>)"

definition newServer :: "Labeller \<Rightarrow> YtsaurusResource \<Rightarrow> InstanceSpec \<Rightarrow> string \<Rightarrow> string \<Rightarrow> string \<Rightarrow> string \<Rightarrow>
    (string + string) \<Rightarrow> (options \<Rightarrow> options) list \<Rightarrow> serverImpl" where
  "newServer l r = newServerConfigured l (ys_Common (yr_Spec r))"

text \<open>\<open>resources.Fetch\<close> over parts of one object: each step fetches a part, the first error stops.\<close>

fun fetch_parts :: "('o \<Rightarrow> ('s, error \<times> 'o) state) list \<Rightarrow> 'o \<Rightarrow> ('s, error \<times> 'o) state" where
  "fetch_parts [] x = ret (None, x)"
| "fetch_parts (f # fs) x = do {
     (err, x') \<leftarrow> f x;
     if err \<noteq> None then ret (err, x') else fetch_parts fs x'
   }"

definition serverImpl_Fetch :: "'w ext \<Rightarrow> serverImpl \<Rightarrow> (('w, 'z) mem_scheme, error \<times> serverImpl) state" where
  "serverImpl_Fetch E = fetch_parts
     [\<lambda>s. do { (e, r) \<leftarrow> StatefulSet_Fetch E (srv_statefulSet s); ret (e, s\<lparr>srv_statefulSet := r\<rparr>) },
      \<lambda>s. do { (e, r) \<leftarrow> ConfigHelper_Fetch E (srv_configHelper s); ret (e, s\<lparr>srv_configHelper := r\<rparr>) },
      \<lambda>s. do { (e, r) \<leftarrow> HeadlessService_Fetch E (srv_headlessService s); ret (e, s\<lparr>srv_headlessService := r\<rparr>) },
      \<lambda>s. do { (e, r) \<leftarrow> MonitoringService_Fetch E (srv_monitoringService s); ret (e, s\<lparr>srv_monitoringService := r\<rparr>) }]"

definition serverImpl_exists :: "serverImpl \<Rightarrow> bool" where
  "serverImpl_exists s \<longleftrightarrow> Exists (srv_statefulSet s) \<and> Exists (srv_headlessService s) \<and> Exists (srv_monitoringService s)"

definition configNeedsReload :: "'w ext \<Rightarrow> serverImpl \<Rightarrow> (('w, 'z) mem_scheme, bool) state" where
  "configNeedsReload E s = do {
     (needReload, err) \<leftarrow> NeedReload E (srv_configHelper s);
     ret (if err \<noteq> None then False else needReload)
   }"

definition needBuild :: "serverImpl \<Rightarrow> bool" where
  "needBuild s \<longleftrightarrow> NeedInit (srv_configHelper s) \<or> \<not> serverImpl_exists s \<or>
     StatefulSet_NeedSync (srv_statefulSet s) (is_InstanceCount (srv_instanceSpec s))"

definition serverImpl_needSync :: "'w ext \<Rightarrow> serverImpl \<Rightarrow> (('w, 'z) mem_scheme, bool) state" where
  "serverImpl_needSync E s = do {
     reload \<leftarrow> configNeedsReload E s;
     ret (reload \<or> needBuild s)
   }"

definition serverImpl_arePodsRemoved :: "'w ext \<Rightarrow> serverImpl \<Rightarrow> 'w \<Rightarrow> bool" where
  "serverImpl_arePodsRemoved E s w =
     (if \<not> Exists (srv_statefulSet s) then True else StatefulSet_ArePodsRemoved E (srv_statefulSet s) w)"

text \<open>
  The image of container 0 of the fetched pod template. The API server accepts no template without
  containers; the index would panic there, the model reads such a template as a mismatch.
\<close>

definition podsImageCorrespondsToSpec :: "serverImpl \<Rightarrow> bool" where
  "podsImageCorrespondsToSpec s = (case ps_Containers (ss_PodSpec (o_Body (r_old (srv_statefulSet s)))) of
       [] \<Rightarrow> False
     | c # _ \<Rightarrow> ct_Image c = srv_image s)"

definition serverImpl_needUpdate :: "'w ext \<Rightarrow> serverImpl \<Rightarrow> (('w, 'z) mem_scheme, bool) state" where
  "serverImpl_needUpdate E s =
     (if \<not> serverImpl_exists s then ret False
      else if \<not> podsImageCorrespondsToSpec s then ret True
      else do {
        (needReload, err) \<leftarrow> NeedReload E (srv_configHelper s);
        ret (if err \<noteq> None then False else needReload)
      })"

definition serverImpl_arePodsReady :: "'w ext \<Rightarrow> serverImpl \<Rightarrow> 'w \<Rightarrow> bool" where
  "serverImpl_arePodsReady E s w =
     StatefulSet_ArePodsReady E (srv_statefulSet s) (is_MinReadyInstanceCount (srv_instanceSpec s)) w"

text \<open>The file name of the single configuration of a server.\<close>

definition serverConfigFileName :: "serverImpl \<Rightarrow> string" where
  "serverConfigFileName s = hd (GetFileNames (srv_configHelper s))"

definition zero_probeParams :: HealthcheckProbeParams where
  "zero_probeParams = \<lparr>hp_InitialDelaySeconds = 0, hp_TimeoutSeconds = 0, hp_PeriodSeconds = 0,
     hp_SuccessThreshold = 0, hp_FailureThreshold = 0\<rparr>"

definition serverPodSpec :: "serverImpl \<Rightarrow> PodSpec" where
  "serverPodSpec s =
     (let i = srv_instanceSpec s;
          volumes = createServerVolumes (is_Volumes i) (GetMainConfigMapName (srv_labeller s));
          volumeMounts = createVolumeMounts (is_VolumeMounts i);
          command = is_EntrypointWrapper i @ [srv_binaryPath s, ''--config'', path_join ConfigMountPoint (serverConfigFileName s)]
      in zero_podspec\<lparr>
          ps_RuntimeClassName := is_RuntimeClassName i,
          ps_ImagePullSecrets := cs_ImagePullSecrets (srv_commonSpec s),
          ps_SetHostnameAsFQDN := is_SetHostnameAsFQDN i,
          ps_EnableServiceLinks := Some False,
          ps_TerminationGracePeriodSeconds := is_TerminationGracePeriodSeconds i,
          ps_Containers := [zero_container\<lparr>ct_Image := srv_image s, ct_Name := YTServerContainerName, ct_Command := command,
             ct_VolumeMounts := volumeMounts, ct_Ports := srv_componentContainerPorts s, ct_Resources := is_Resources i,
             ct_ReadinessProbe := Some \<lparr>pr_Port = srv_readinessProbePort s, pr_Path = srv_readinessProbeHTTPPath s, pr_TCPSocket = False,
               pr_Params = (case is_ReadinessProbeParams i of Some p \<Rightarrow> p | None \<Rightarrow> zero_probeParams)\<rparr>\<rparr>],
          ps_InitContainers :=
            [zero_container\<lparr>ct_Image := srv_image s, ct_Name := PrepareLocationsContainerName,
               ct_Command := [''bash'', ''-xc'', getLocationInitCommand (is_Locations i)], ct_VolumeMounts := volumeMounts\<rparr>,
             zero_container\<lparr>ct_Image := srv_image s, ct_Name := PostprocessConfigContainerName,
               ct_Command := [''bash'', ''-xc'', getConfigPostprocessingCommand (serverConfigFileName s)],
               ct_Env := getConfigPostprocessEnv, ct_VolumeMounts := volumeMounts\<rparr>],
          ps_Volumes := volumes,
          ps_Affinity := is_Affinity i,
          ps_NodeSelector := is_NodeSelector i,
          ps_Tolerations := is_Tolerations i\<rparr>)"

definition addHostNetwork :: "serverImpl \<Rightarrow> PodSpec \<Rightarrow> PodSpec" where
  "addHostNetwork s ps =
     (if (case is_HostNetwork (srv_instanceSpec s) of Some b \<Rightarrow> b | None \<Rightarrow> cs_HostNetwork (srv_commonSpec s))
      then ps\<lparr>ps_HostNetwork := True, ps_DNSPolicy := ''ClusterFirstWithHostNet''\<rparr> else ps)"

definition addCABundle :: "serverImpl \<Rightarrow> PodSpec \<Rightarrow> PodSpec" where
  "addCABundle s ps = (case srv_caBundle s of
       None \<Rightarrow> ps
     | Some ca \<Rightarrow>
         (let ps' = CABundle_AddVolume ca ps
          in ps'\<lparr>ps_Containers := map (CABundle_AddVolumeMount ca) (ps_Containers ps'),
                 ps_InitContainers := map (CABundle_AddVolumeMount ca) (ps_InitContainers ps')\<rparr>))"

text \<open>A change of container 0 of a pod.\<close>

definition onContainer0 :: "(Container \<Rightarrow> Container) \<Rightarrow> PodSpec \<Rightarrow> PodSpec" where
  "onContainer0 f ps = ps\<lparr>ps_Containers := (case ps_Containers ps of [] \<Rightarrow> [] | c # cs \<Rightarrow> f c # cs)\<rparr>"

definition addTLSSecret :: "TLSSecret option \<Rightarrow> PodSpec \<Rightarrow> PodSpec" where
  "addTLSSecret secret ps = (case secret of
       None \<Rightarrow> ps
     | Some t \<Rightarrow> onContainer0 (TLSSecret_AddVolumeMount t) (TLSSecret_AddVolume t ps))"

text \<open>
  \<open>rebuildStatefulSet\<close>. A server has exactly one configuration file (\<open>newServerConfigured\<close>), so
  its panic on another number of files cannot happen. Maps are values here: the annotations of the
  pod template are a copy of the common annotations.
\<close>

definition rebuildStatefulSet :: "serverImpl \<Rightarrow> serverImpl" where
  "rebuildStatefulSet s =
     (let i = srv_instanceSpec s;
          ss = StatefulSet_Build (srv_commonSpec s) (srv_statefulSet s);
          body = o_Body (r_new ss);
          body' = body\<lparr>ss_TemplateLabels := ss_TemplateLabels body ++ is_PodLabels i,
                       ss_TemplateAnnotations := ss_TemplateAnnotations body ++ is_PodAnnotations i,
                       ss_Replicas := Some (is_InstanceCount i),
                       ss_ServiceName := r_name (srv_headlessService s),
                       ss_VolumeClaimTemplates := createVolumeClaims (is_VolumeClaimTemplates i),
                       ss_PodSpec := addTLSSecret (srv_tlsSecret s) (addCABundle s (addHostNetwork s (serverPodSpec s)))\<rparr>
      in s\<lparr>srv_statefulSet := ss\<lparr>r_new := (r_new ss)\<lparr>o_Body := body'\<rparr>\<rparr>, srv_built := True\<rparr>)"

definition buildStatefulSet :: "serverImpl \<Rightarrow> serverImpl" where
  "buildStatefulSet s = (if srv_built s then s else rebuildStatefulSet s)"

text \<open>A change of the built stateful set, through the pointer that \<open>buildStatefulSet\<close> returns.\<close>

definition onStatefulSet :: "(StatefulSetBody \<Rightarrow> StatefulSetBody) \<Rightarrow> serverImpl \<Rightarrow> serverImpl" where
  "onStatefulSet f s = s\<lparr>srv_statefulSet := (srv_statefulSet s)\<lparr>r_new :=
     (r_new (srv_statefulSet s))\<lparr>o_Body := f (o_Body (r_new (srv_statefulSet s)))\<rparr>\<rparr>\<rparr>"

definition onPodSpec :: "(PodSpec \<Rightarrow> PodSpec) \<Rightarrow> serverImpl \<Rightarrow> serverImpl" where
  "onPodSpec f = onStatefulSet (\<lambda>b. b\<lparr>ss_PodSpec := f (ss_PodSpec b)\<rparr>)"

definition serverImpl_Sync :: "'w ext \<Rightarrow> serverImpl \<Rightarrow> (('w, 'z) mem_scheme, error \<times> serverImpl) state" where
  "serverImpl_Sync E s = do {
     (ch, _) \<leftarrow> ConfigHelper_Build E (srv_configHelper s);
     let s' = buildStatefulSet (s\<lparr>srv_configHelper := ch,
                srv_headlessService := HeadlessService_Build (srv_headlessService s),
                srv_monitoringService := MonitoringService_Build (srv_monitoringService s)\<rparr>);
     err \<leftarrow> resources_Sync [Some (StatefulSet_Sync E (srv_statefulSet s')),
       Some (ConfigHelper_Sync E (srv_configHelper s')),
       Some (HeadlessService_Sync E (srv_headlessService s')),
       Some (MonitoringService_Sync E (srv_monitoringService s'))];
     ret (err, s')
   }"

definition serverImpl_removePods :: "'w ext \<Rightarrow> serverImpl \<Rightarrow> (('w, 'z) mem_scheme, error \<times> serverImpl) state" where
  "serverImpl_removePods E s =
     serverImpl_Sync E (onStatefulSet (\<lambda>b. b\<lparr>ss_Replicas := Some 0\<rparr>) (rebuildStatefulSet s))"

subsection \<open>Effects\<close>

lemma keeps_fetch_parts [io_intros]:
  "(\<And>f x. f \<in> set fs \<Longrightarrow> keeps g (f x)) \<Longrightarrow> keeps g (fetch_parts fs x)"
  by (induction fs arbitrary: x) (auto intro!: io_intros)

lemma cr_ConfigHelper [io_intros]:
  "state_io_rel (comp_rel E u) (NeedReload E ch)" "state_io_rel (comp_rel E u) (ConfigHelper_Build E ch)"
  by (auto intro!: cr_keeps keeps_from_no_events io_intros)

lemma keeps_ConfigHelper_Fetch [io_intros]: "keeps f (ConfigHelper_Fetch E ch)"
  unfolding ConfigHelper_Fetch_def by (intro io_intros)

lemma cr_ConfigHelper_Sync [io_intros]: "state_io_rel (comp_rel E u) (ConfigHelper_Sync E ch)"
  unfolding ConfigHelper_Sync_def Let_def by (intro io_intros)

lemma cr_RemoveIfExists [io_intros]: "state_io_rel (comp_rel E u) (RemoveIfExists E ch)"
  unfolding RemoveIfExists_def by (intro io_intros)

lemma keeps_serverImpl_Fetch [io_intros]: "keeps f (serverImpl_Fetch E s)"
  unfolding serverImpl_Fetch_def by (rule keeps_fetch_parts) (auto intro!: io_intros)

lemma keeps_no_events_server [io_intros]:
  "keeps no_events (configNeedsReload E s)" "keeps no_events (serverImpl_needSync E s)"
  "keeps no_events (serverImpl_needUpdate E s)"
  unfolding configNeedsReload_def serverImpl_needSync_def serverImpl_needUpdate_def by (intro io_intros)+

lemma cr_resources_Sync [io_intros]:
  "(\<And>m. Some m \<in> set ms \<Longrightarrow> state_io_rel (comp_rel E u) m) \<Longrightarrow> state_io_rel (comp_rel E u) (resources_Sync ms)"
  "(\<And>m. Some m \<in> set ms \<Longrightarrow> state_io_rel (comp_rel E u) m) \<Longrightarrow> state_io_rel (comp_rel E u) (resources_Fetch ms)"
  by (simp_all add: resources_Sync_def resources_Fetch_def cr_first_error)

lemma cr_serverImpl_Sync [io_intros]: "state_io_rel (comp_rel E u) (serverImpl_Sync E s)"
  unfolding serverImpl_Sync_def Let_def by (intro io_intros) (auto intro!: io_intros)

lemma keeps_yts_serverImpl [io_intros]:
  "keeps h_yts (serverImpl_Sync E s)" "keeps h_yts (serverImpl_removePods E s)"
  unfolding serverImpl_removePods_def serverImpl_Sync_def Let_def by (intro io_intros; auto intro!: io_intros)+

lemma cr_serverImpl_removePods [io_intros]: "state_io_rel (comp_rel E u) (serverImpl_removePods E s)"
  unfolding serverImpl_removePods_def by (rule io_intros)

subsection \<open>What the server's tests say\<close>

lemma configNeedsReload_value:
  "fst (run_state (configNeedsReload E s) h) \<longleftrightarrow>
     reload_value E (srv_configHelper s) (map fst (ch_generators (srv_configHelper s))) = (True, None)"
  using NeedReload_value [of E "srv_configHelper s" h]
  by (auto simp: configNeedsReload_def prod_eq_iff split: prod.splits)

lemma serverImpl_needUpdate_value:
  "fst (run_state (serverImpl_needUpdate E s) h) \<longleftrightarrow> serverImpl_exists s \<and>
     (\<not> podsImageCorrespondsToSpec s \<or>
      reload_value E (srv_configHelper s) (map fst (ch_generators (srv_configHelper s))) = (True, None))"
  using NeedReload_value [of E "srv_configHelper s" h]
  by (auto simp: serverImpl_needUpdate_def prod_eq_iff split: prod.splits)

subsection \<open>What is built\<close>

lemma StatefulSet_Build_idem [simp]: "StatefulSet_Build c (StatefulSet_Build c s) = StatefulSet_Build c s"
  by (simp add: StatefulSet_Build_def)

lemma StatefulSet_Build_built [simp]: "r_built (StatefulSet_Build c s)"
  by (simp add: StatefulSet_Build_def)

lemma StatefulSet_Build_id: "r_built s \<Longrightarrow> StatefulSet_Build c s = s"
  by (simp add: StatefulSet_Build_def)

lemma map_add_same [simp]: "m ++ n ++ n = m ++ n"
  by (auto simp: map_add_def split: option.splits)

lemma podspec_cong:
  assumes "srv_instanceSpec t = srv_instanceSpec s" "srv_labeller t = srv_labeller s" "srv_image t = srv_image s"
    "srv_commonSpec t = srv_commonSpec s" "srv_binaryPath t = srv_binaryPath s" "srv_caBundle t = srv_caBundle s"
    "srv_configHelper t = srv_configHelper s" "srv_componentContainerPorts t = srv_componentContainerPorts s"
    "srv_readinessProbePort t = srv_readinessProbePort s" "srv_readinessProbeHTTPPath t = srv_readinessProbeHTTPPath s"
  shows "serverPodSpec t = serverPodSpec s" "addCABundle t = addCABundle s" "addHostNetwork t = addHostNetwork s"
  by (simp_all add: serverPodSpec_def addCABundle_def addHostNetwork_def serverConfigFileName_def assms fun_eq_iff
      split: option.splits)

lemma rebuild_fields [simp]:
  "srv_instanceSpec (rebuildStatefulSet s) = srv_instanceSpec s" "srv_labeller (rebuildStatefulSet s) = srv_labeller s"
  "srv_image (rebuildStatefulSet s) = srv_image s" "srv_commonSpec (rebuildStatefulSet s) = srv_commonSpec s"
  "srv_binaryPath (rebuildStatefulSet s) = srv_binaryPath s" "srv_caBundle (rebuildStatefulSet s) = srv_caBundle s"
  "srv_tlsSecret (rebuildStatefulSet s) = srv_tlsSecret s" "srv_configHelper (rebuildStatefulSet s) = srv_configHelper s"
  "srv_headlessService (rebuildStatefulSet s) = srv_headlessService s"
  "srv_monitoringService (rebuildStatefulSet s) = srv_monitoringService s"
  "srv_componentContainerPorts (rebuildStatefulSet s) = srv_componentContainerPorts s"
  "srv_readinessProbePort (rebuildStatefulSet s) = srv_readinessProbePort s"
  "srv_readinessProbeHTTPPath (rebuildStatefulSet s) = srv_readinessProbeHTTPPath s"
  "srv_built (rebuildStatefulSet s)"
  by (simp_all add: rebuildStatefulSet_def Let_def)

lemma rebuild_podspec [simp]:
  "serverPodSpec (rebuildStatefulSet s) = serverPodSpec s" "addCABundle (rebuildStatefulSet s) = addCABundle s"
  "addHostNetwork (rebuildStatefulSet s) = addHostNetwork s"
  by (rule podspec_cong; simp)+

lemma rebuild_statefulSet:
  "srv_statefulSet (rebuildStatefulSet s) =
     (let i = srv_instanceSpec s; ss = StatefulSet_Build (srv_commonSpec s) (srv_statefulSet s); body = o_Body (r_new ss)
      in ss\<lparr>r_new := (r_new ss)\<lparr>o_Body := body\<lparr>ss_TemplateLabels := ss_TemplateLabels body ++ is_PodLabels i,
           ss_TemplateAnnotations := ss_TemplateAnnotations body ++ is_PodAnnotations i,
           ss_Replicas := Some (is_InstanceCount i), ss_ServiceName := r_name (srv_headlessService s),
           ss_VolumeClaimTemplates := createVolumeClaims (is_VolumeClaimTemplates i),
           ss_PodSpec := addTLSSecret (srv_tlsSecret s) (addCABundle s (addHostNetwork s (serverPodSpec s)))\<rparr>\<rparr>\<rparr>)"
  by (simp add: rebuildStatefulSet_def Let_def)

text \<open>Rebuilding twice is rebuilding once.\<close>

lemma rebuild_idem: "rebuildStatefulSet (rebuildStatefulSet s) = rebuildStatefulSet s"
proof -
  have "srv_statefulSet (rebuildStatefulSet (rebuildStatefulSet s)) = srv_statefulSet (rebuildStatefulSet s)"
    by (simp add: rebuild_statefulSet [of "rebuildStatefulSet s"])
      (simp add: rebuild_statefulSet Let_def StatefulSet_Build_id)
  then show ?thesis by (intro serverImpl.equality) simp_all
qed

lemma serverImpl_Sync_built:
  assumes "run_state (serverImpl_Sync E s) h = ((e, s'), h')" and "srv_built s"
  shows "srv_statefulSet s' = srv_statefulSet s"
  using assms by (auto simp: serverImpl_Sync_def buildStatefulSet_def Let_def split: prod.splits)

text \<open>\<open>removePods\<close> asks for no replicas although \<open>Sync\<close> builds the stateful set again.\<close>

lemma removePods_replicas:
  assumes "run_state (serverImpl_removePods E s) h = ((e, s'), h')"
  shows "ss_Replicas (o_Body (r_new (srv_statefulSet s'))) = Some 0"
proof -
  let ?t = "onStatefulSet (\<lambda>b. b\<lparr>ss_Replicas := Some 0\<rparr>) (rebuildStatefulSet s)"
  have "srv_statefulSet s' = srv_statefulSet ?t"
    using assms serverImpl_Sync_built [of E ?t h e s' h'] by (simp add: serverImpl_removePods_def onStatefulSet_def)
  then show ?thesis by (simp add: onStatefulSet_def)
qed

text \<open>
  Mounts refer to volumes of the pod or to claim templates of its stateful set, which Kubernetes turns into volumes of
  the same name.
\<close>

definition mounts_ok :: "string set \<Rightarrow> PodSpec \<Rightarrow> bool" where
  "mounts_ok claims ps \<longleftrightarrow> (\<forall>c \<in> set (ps_Containers ps) \<union> set (ps_InitContainers ps).
     \<forall>m \<in> set (ct_VolumeMounts c). vm_Name m \<in> vol_Name ` set (ps_Volumes ps) \<union> claims)"

lemma mounts_ok_serverPodSpec:
  assumes "\<forall>m \<in> set (is_VolumeMounts (srv_instanceSpec s)). vm_Name m \<in> vol_Name ` set (is_Volumes (srv_instanceSpec s)) \<union> claims"
  shows "mounts_ok claims (serverPodSpec s)"
  using assms
  by (auto simp: mounts_ok_def serverPodSpec_def Let_def createVolumeMounts_def createServerVolumes_def
      createConfigTemplateVolumeMount_def createConfigVolumeMount_def createConfigVolume_def createConfigEmptyDir_def
      zero_podspec_def)

lemma mounts_ok_add:
  assumes "mounts_ok claims ps" and "vol_Name ` set (ps_Volumes ps) \<subseteq> vol_Name ` set (ps_Volumes ps')"
    and "\<And>c m. c \<in> set (ps_Containers ps') \<union> set (ps_InitContainers ps') \<Longrightarrow> m \<in> set (ct_VolumeMounts c) \<Longrightarrow>
      vm_Name m \<in> vol_Name ` set (ps_Volumes ps') \<or>
      (\<exists>d \<in> set (ps_Containers ps) \<union> set (ps_InitContainers ps). m \<in> set (ct_VolumeMounts d))"
  shows "mounts_ok claims ps'"
proof -
  have old: "vm_Name m \<in> vol_Name ` set (ps_Volumes ps') \<union> claims"
    if "d \<in> set (ps_Containers ps) \<union> set (ps_InitContainers ps)" "m \<in> set (ct_VolumeMounts d)" for d m
    using that assms(1,2) unfolding mounts_ok_def by (blast dest: subsetD)
  show ?thesis unfolding mounts_ok_def using assms(3) old by blast
qed

lemma mounts_ok_adders:
  assumes "mounts_ok claims ps"
  shows "mounts_ok claims (addHostNetwork s ps)" "mounts_ok claims (addCABundle s ps)" "mounts_ok claims (addTLSSecret t ps)"
proof -
  show "mounts_ok claims (addHostNetwork s ps)"
    using assms by (simp add: mounts_ok_def addHostNetwork_def)
  show "mounts_ok claims (addCABundle s ps)"
    using assms
    by (rule mounts_ok_add)
      (auto simp: addCABundle_def CABundle_AddVolume_def CABundle_AddVolumeMount_def Let_def split: option.splits)
  show "mounts_ok claims (addTLSSecret t ps)"
    using assms
    by (cases "ps_Containers ps"; rule mounts_ok_add)
      (auto simp: addTLSSecret_def onContainer0_def TLSSecret_AddVolume_def TLSSecret_AddVolumeMount_def
        split: option.splits)
qed

lemma claims_names [simp]: "pvc_Name ` set (createVolumeClaims ts) = pvc_Name ` set ts"
  by (force simp: createVolumeClaims_def)

subsection \<open>What a server that was fetched knows\<close>

text \<open>An object that the API server has: one with a resource version.\<close>

definition stored_object :: "(string \<Rightarrow> 'w \<Rightarrow> 'b kobj getResult) \<Rightarrow> string \<Rightarrow> 'w \<Rightarrow> 'b kobj option" where
  "stored_object getter name w = (case getter name w of
       Found o' \<Rightarrow> if om_ResourceVersion (o_Meta o') \<noteq> [] then Some o' else None
     | _ \<Rightarrow> None)"

text \<open>
  The text that the configuration file of a server should have: the generated one, merged with the entries of the
  override map of the specification, first the one for the file, then the one for the file of this map. An override
  that cannot be merged is left out.
\<close>

definition wanted_config :: "'w ext \<Rightarrow> 'w \<Rightarrow> string option \<Rightarrow> string \<Rightarrow> string \<Rightarrow> string + string \<Rightarrow> string option" where
  "wanted_config E w overrides cm file gen = (case gen of
       Inl _ \<Rightarrow> None
     | Inr plain \<Rightarrow> Some (case Option.bind overrides (\<lambda>name. stored_object (k_get_configmap (x_k8s E)) name w) of
           None \<Rightarrow> plain
         | Some ov \<Rightarrow> fold (\<lambda>key base. case Option.bind (cm_Data (o_Body ov) key) (\<lambda>v. case overrideYsonConfigs E base v of Inl _ \<Rightarrow> None | Inr merged \<Rightarrow> Some merged) of
               None \<Rightarrow> base
             | Some merged \<Rightarrow> merged) [file, cm @ ''--'' @ file] plain))"

definition stored_config :: "'w ext \<Rightarrow> 'w \<Rightarrow> string \<Rightarrow> string \<Rightarrow> string option" where
  "stored_config E w cm file =
     Option.bind (stored_object (k_get_configmap (x_k8s E)) cm w) (\<lambda>c. cm_Data (o_Body c) file)"

text \<open>What a wrapper holds after a fetch that reported no error.\<close>

definition fetched :: "(string \<Rightarrow> 'w \<Rightarrow> 'o getResult) \<Rightarrow> string \<Rightarrow> 'w \<Rightarrow> 'o \<Rightarrow> 'o" where
  "fetched getter name w old = (case getter name w of Found o' \<Rightarrow> o' | _ \<Rightarrow> old)"

lemma res_Fetch_fetched:
  assumes "run_state (res_Fetch getter r) h = ((None, r'), h')"
  shows "h' = h \<and> r' = r\<lparr>r_old := fetched getter (r_name r) (h_world h) (r_old r)\<rparr>"
  using assms by (auto simp: res_Fetch_def FetchObject_def fetched_def split: getResult.splits)

definition fetched_helper :: "'w ext \<Rightarrow> 'w \<Rightarrow> ConfigHelper \<Rightarrow> ConfigHelper" where
  "fetched_helper E w ch = ch\<lparr>
    ch_overridesMap := (case ch_configOverrides ch of
        None \<Rightarrow> ch_overridesMap ch
      | Some n \<Rightarrow> fetched (k_get_configmap (x_k8s E)) n w (ch_overridesMap ch)),
    ch_configMap := (ch_configMap ch)\<lparr>r_old :=
      fetched (k_get_configmap (x_k8s E)) (r_name (ch_configMap ch)) w (r_old (ch_configMap ch))\<rparr>\<rparr>"

definition fetched_server :: "'w ext \<Rightarrow> 'w \<Rightarrow> serverImpl \<Rightarrow> serverImpl" where
  "fetched_server E w s = s\<lparr>
    srv_statefulSet := (srv_statefulSet s)\<lparr>r_old :=
      fetched (k_get_statefulset (x_k8s E)) (r_name (srv_statefulSet s)) w (r_old (srv_statefulSet s))\<rparr>,
    srv_configHelper := fetched_helper E w (srv_configHelper s),
    srv_headlessService := (srv_headlessService s)\<lparr>r_old :=
      fetched (k_get_service (x_k8s E)) (r_name (srv_headlessService s)) w (r_old (srv_headlessService s))\<rparr>,
    srv_monitoringService := (srv_monitoringService s)\<lparr>r_old :=
      fetched (k_get_service (x_k8s E)) (r_name (srv_monitoringService s)) w (r_old (srv_monitoringService s))\<rparr>\<rparr>"

lemma ConfigHelper_Fetch_fetched:
  assumes "run_state (ConfigHelper_Fetch E ch) h = ((None, ch'), h')"
  shows "h' = h \<and> ch' = fetched_helper E (h_world h) ch"
  using assms
  by (auto simp: ConfigHelper_Fetch_def FetchObject_def res_Fetch_def fetched_def fetched_helper_def
      split: option.splits getResult.splits prod.splits if_splits)

lemma serverImpl_Fetch_fetched:
  assumes "run_state (serverImpl_Fetch E s) h = ((None, s'), h')"
  shows "h' = h \<and> s' = fetched_server E (h_world h) s"
  using assms
  by (auto simp: serverImpl_Fetch_def fetched_server_def dest!: res_Fetch_fetched ConfigHelper_Fetch_fetched
      split: prod.splits if_splits)

lemma stored_fetched:
  "om_ResourceVersion (o_Meta old) = [] \<Longrightarrow>
     om_ResourceVersion (o_Meta (fetched getter name w old)) \<noteq> [] \<longleftrightarrow> stored_object getter name w \<noteq> None"
  "stored_object getter name w = Some o' \<Longrightarrow> fetched getter name w old = o'"
  "stored_object getter name w = Some o' \<Longrightarrow> om_ResourceVersion (o_Meta o') \<noteq> []"
  by (auto simp: fetched_def stored_object_def split: getResult.splits if_splits)

lemma override_value_fold:
  "override_value E ch ks plain = fold (\<lambda>key base.
     case Option.bind (cm_Data (o_Body (ch_overridesMap ch)) key) (\<lambda>v. case overrideYsonConfigs E base v of Inl _ \<Rightarrow> None | Inr merged \<Rightarrow> Some merged) of
       None \<Rightarrow> base
     | Some merged \<Rightarrow> merged) ks plain"
  by (induction ks arbitrary: plain) (auto split: option.splits sum.splits)

lemma new_server_config:
  assumes s: "s = fetched_server E w (newServerConfigured l c i bin file ssn svn gen opts)"
  shows "config_value E (srv_configHelper s) file = (wanted_config E w (cs_ConfigOverrides c) (GetMainConfigMapName l) file gen,
      case gen of Inl e \<Rightarrow> Some e | Inr _ \<Rightarrow> None)"
    and "getCurrentConfigValue (srv_configHelper s) file = stored_config E w (GetMainConfigMapName l) file"
proof -
  let ?get = "k_get_configmap (x_k8s E)"
  have z: "om_ResourceVersion (o_Meta zero_configmap) = []" by (simp add: zero_configmap_def zero_meta_def)
  note new = s fetched_server_def fetched_helper_def newServerConfigured_def Let_def NewConfigHelper_def NewConfigMap_def
  show "config_value E (srv_configHelper s) file = (wanted_config E w (cs_ConfigOverrides c) (GetMainConfigMapName l) file gen,
      case gen of Inl e \<Rightarrow> Some e | Inr _ \<Rightarrow> None)"
    using z stored_fetched(2,3) [of ?get]
    by (auto simp: config_value_def wanted_config_def formatConfig_def new override_value_fold GetConfigMapName_def
        stored_fetched(1) [OF z] split: sum.splits option.splits)
  show "getCurrentConfigValue (srv_configHelper s) file = stored_config E w (GetMainConfigMapName l) file"
    using z stored_fetched(2) [of ?get]
    by (auto simp: getCurrentConfigValue_def stored_config_def new Exists_def stored_fetched(1) [OF z] split: Option.bind_splits)
qed

text \<open>
  When a server that has just been built and fetched asks for an update: all three objects are stored, and the pods of
  the stored stateful set run another image than the specification asks for, or the stored configuration is not the
  wanted one. A configuration that cannot be generated asks for nothing.
\<close>

lemma new_server_needUpdate:
  assumes f: "run_state (serverImpl_Fetch E (newServerConfigured l c i bin file ssn svn gen opts)) h = ((None, s'), h')"
    and ct: "\<And>ss. stored_object (k_get_statefulset (x_k8s E)) ssn (h_world h) = Some ss \<Longrightarrow>
      ps_Containers (ss_PodSpec (o_Body ss)) \<noteq> []"
  shows "fst (run_state (serverImpl_needUpdate E s') h') \<longleftrightarrow>
    (\<exists>ss. stored_object (k_get_statefulset (x_k8s E)) ssn (h_world h) = Some ss \<and>
       stored_object (k_get_service (x_k8s E)) svn (h_world h) \<noteq> None \<and>
       stored_object (k_get_service (x_k8s E)) (lb_ComponentLabel l @ ''-monitoring'') (h_world h) \<noteq> None \<and>
       (ct_Image (hd (ps_Containers (ss_PodSpec (o_Body ss)))) \<noteq> (case is_Image i of Some img \<Rightarrow> img | None \<Rightarrow> cs_CoreImage c) \<or>
        (\<exists>t. wanted_config E (h_world h) (cs_ConfigOverrides c) (GetMainConfigMapName l) file gen = Some t \<and>
           stored_config E (h_world h) (GetMainConfigMapName l) file \<noteq> Some t)))"
proof -
  let ?s = "newServerConfigured l c i bin file ssn svn gen opts"
  have s: "s' = fetched_server E (h_world h) ?s" using serverImpl_Fetch_fetched [OF f] by simp
  have zs: "om_ResourceVersion (o_Meta zero_statefulset) = []" "om_ResourceVersion (o_Meta zero_service) = []"
    by (simp_all add: zero_statefulset_def zero_service_def zero_meta_def)
  have ex: "serverImpl_exists s' \<longleftrightarrow> stored_object (k_get_statefulset (x_k8s E)) ssn (h_world h) \<noteq> None \<and>
      stored_object (k_get_service (x_k8s E)) svn (h_world h) \<noteq> None \<and>
      stored_object (k_get_service (x_k8s E)) (lb_ComponentLabel l @ ''-monitoring'') (h_world h) \<noteq> None"
    by (simp add: s serverImpl_exists_def fetched_server_def newServerConfigured_def Let_def Exists_def NewStatefulSet_def
        NewHeadlessService_def NewMonitoringService_def stored_fetched(1) zs)
  have im: "podsImageCorrespondsToSpec s' \<longleftrightarrow>
      ct_Image (hd (ps_Containers (ss_PodSpec (o_Body ss)))) = (case is_Image i of Some img \<Rightarrow> img | None \<Rightarrow> cs_CoreImage c)"
    if "stored_object (k_get_statefulset (x_k8s E)) ssn (h_world h) = Some ss" for ss
    using ct [OF that] stored_fetched(2) [OF that]
    by (auto simp: s podsImageCorrespondsToSpec_def fetched_server_def newServerConfigured_def Let_def NewStatefulSet_def
        split: list.splits)
  have re: "reload_value E (srv_configHelper s') (map fst (ch_generators (srv_configHelper s'))) = (True, None) \<longleftrightarrow>
      (\<exists>t. wanted_config E (h_world h) (cs_ConfigOverrides c) (GetMainConfigMapName l) file gen = Some t \<and>
         stored_config E (h_world h) (GetMainConfigMapName l) file \<noteq> Some t)"
  proof -
    have "map fst (ch_generators (srv_configHelper s')) = [file]"
      by (simp add: s fetched_server_def fetched_helper_def newServerConfigured_def Let_def NewConfigHelper_def)
    then show ?thesis
      by (auto simp: new_server_config [OF s] wanted_config_def split: sum.splits)
  qed
  show ?thesis unfolding serverImpl_needUpdate_value ex re using im by auto
qed

end
