(* ===== verification/InitJob.thy ===== *)
theory InitJob
  imports Server
begin

text \<open>
  \<open>init_job.go\<close>, \<open>user.go\<close> and the script helpers of \<open>helpers.go\<close>: one-shot jobs that
  run a script in the cluster, their completion recorded as a status condition.
\<close>

subsection \<open>Scripts\<close>

definition lines_join :: "string list \<Rightarrow> string" where
  "lines_join = join newline"

definition initJobPrologue :: string where
  "initJobPrologue = newline @ ''set -e'' @ newline @ ''set -x'' @ newline"

definition initJobWithNativeDriverPrologue :: string where
  "initJobWithNativeDriverPrologue = lines_join
     [initJobPrologue,
      ''export YT_DRIVER_CONFIG_PATH='' @ path_join ConfigMountPoint ClientConfigFileName,
      ''export YTSAURUS_VERSION='' @ dquoted ''$(/usr/bin/ytserver-all --version | head -c4)'']"

definition RunIfCondition :: "string \<Rightarrow> string list \<Rightarrow> string" where
  "RunIfCondition condition commands = lines_join ([''if [ '' @ condition @ '' ]; then''] @ commands @ [''fi''])"

definition RunIfNonexistent :: "string \<Rightarrow> string list \<Rightarrow> string" where
  "RunIfNonexistent path commands = RunIfCondition (''$(/usr/bin/yt exists '' @ path @ '') = '' @ squoted ''false'') commands"

definition RunIfExists :: "string \<Rightarrow> string list \<Rightarrow> string" where
  "RunIfExists path commands = RunIfCondition (''$(/usr/bin/yt exists '' @ path @ '') = '' @ squoted ''true'') commands"

definition SetWithIgnoreExisting :: "string \<Rightarrow> string \<Rightarrow> string" where
  "SetWithIgnoreExisting path value' = RunIfNonexistent path [''/usr/bin/yt set '' @ path @ '' '' @ value']"

definition createUserCommand :: "'w ext \<Rightarrow> string \<Rightarrow> string \<Rightarrow> string \<Rightarrow> bool \<Rightarrow> string list" where
  "createUserCommand E userName password token isSuperuser =
     [''/usr/bin/yt create user --attributes '' @ squoted (''{name='' @ dquoted userName @ ''}'') @ '' --ignore-existing''] @
     (if password \<noteq> []
      then [''/usr/bin/yt execute set_user_password '' @
              squoted (''{user='' @ userName @ '';new_password_sha256='' @ dquoted (f_sha256 (x_fmt E) password) @ ''}'')]
      else []) @
     (if token \<noteq> []
      then (let tokenHash = f_sha256 (x_fmt E) token
            in [''/usr/bin/yt create map_node '' @ squoted (''//sys/cypress_tokens/'' @ tokenHash) @ '' --ignore-existing'',
                ''/usr/bin/yt set '' @ squoted (''//sys/cypress_tokens/'' @ tokenHash @ ''/@user'') @ '' '' @ squoted userName])
      else []) @
     (if isSuperuser then [''/usr/bin/yt add-member '' @ userName @ '' superusers || true''] else [])"

subsection \<open>The job\<close>

text \<open>As for a server, \<open>builtJob\<close> points to the job's new object or is nil.\<close>

record InitJob =
  ij_labeller :: Labeller
  ij_imagePullSecrets :: "string list"
  ij_initJob :: Job
  ij_configHelper :: ConfigHelper
  ij_initCompletedCondition :: string
  ij_image :: string
  ij_built :: bool

definition NewInitJob :: "Labeller \<Rightarrow> string list \<Rightarrow> string \<Rightarrow> string \<Rightarrow> string \<Rightarrow> (string + string) \<Rightarrow> InitJob" where
  "NewInitJob l imagePullSecrets name configFileName img generator =
     \<lparr>ij_labeller = l, ij_imagePullSecrets = imagePullSecrets, ij_initJob = NewJob (GetInitJobName l name) l,
      ij_configHelper = NewConfigHelper l (to_lower name @ ''-'' @ lb_ComponentLabel l @ ''-init-job-config'') None
        [(configFileName, \<lparr>gd_F = generator, gd_Fmt = ConfigFormatYson\<rparr>)],
      ij_initCompletedCondition = name @ lb_ComponentName l @ ''InitJobCompleted'', ij_image = img, ij_built = False\<rparr>"

definition InitJob_IsCompleted :: "'w ext \<Rightarrow> InitJob \<Rightarrow> ('w, 'z) mem_scheme \<Rightarrow> bool" where
  "InitJob_IsCompleted E j h = IsStatusConditionTrue E (ij_initCompletedCondition j) h"

text \<open>
  \<open>SetInitScript\<close>. When a generator fails, \<open>Build\<close> returns nil and the assignment panics; the
  model leaves the script out in that case.
\<close>

definition SetInitScript :: "'w ext \<Rightarrow> string \<Rightarrow> InitJob \<Rightarrow> (('w, 'z) mem_scheme, InitJob) state" where
  "SetInitScript E script j = do {
     (ch, ok) \<leftarrow> ConfigHelper_Build E (ij_configHelper j);
     ret (j\<lparr>ij_configHelper := (if ok then setData InitClusterScriptFileName script ch else ch)\<rparr>)
   }"

definition initJobPodSpec :: "InitJob \<Rightarrow> PodSpec" where
  "initJobPodSpec j = zero_podspec\<lparr>ps_ImagePullSecrets := ij_imagePullSecrets j,
     ps_Containers := [zero_container\<lparr>ct_Image := ij_image j, ct_Name := ''ytsaurus-init'',
        ct_Command := [''bash'', ''-c'', path_join ConfigMountPoint InitClusterScriptFileName],
        ct_VolumeMounts := [createConfigVolumeMount]\<rparr>],
     ps_Volumes := [createConfigVolume ConfigVolumeName (GetConfigMapName (ij_configHelper j)) (Some 0x140)],
     ps_RestartPolicy := ''OnFailure''\<rparr>"

definition InitJob_Build :: "InitJob \<Rightarrow> InitJob" where
  "InitJob_Build j =
     (if ij_built j then j
      else (let job = Job_Build (ij_initJob j)
            in j\<lparr>ij_initJob := job\<lparr>r_new := (r_new job)\<lparr>o_Body := (o_Body (r_new job))
                   \<lparr>job_TemplateMeta := GetInitJobObjectMeta (ij_labeller j), job_PodSpec := initJobPodSpec j\<rparr>\<rparr>\<rparr>,
                 ij_built := True\<rparr>))"

text \<open>A change of container 0 of the built job.\<close>

definition onJobContainer0 :: "(Container \<Rightarrow> Container) \<Rightarrow> InitJob \<Rightarrow> InitJob" where
  "onJobContainer0 f j = j\<lparr>ij_initJob := (ij_initJob j)\<lparr>r_new := (r_new (ij_initJob j))\<lparr>o_Body :=
     (o_Body (r_new (ij_initJob j)))\<lparr>job_PodSpec := onContainer0 f (job_PodSpec (o_Body (r_new (ij_initJob j))))\<rparr>\<rparr>\<rparr>\<rparr>"

definition InitJob_Fetch :: "'w ext \<Rightarrow> InitJob \<Rightarrow> (('w, 'z) mem_scheme, error \<times> InitJob) state" where
  "InitJob_Fetch E = fetch_parts
     [\<lambda>j. do { (e, r) \<leftarrow> Job_Fetch E (ij_initJob j); ret (e, j\<lparr>ij_initJob := r\<rparr>) },
      \<lambda>j. do { (e, r) \<leftarrow> ConfigHelper_Fetch E (ij_configHelper j); ret (e, j\<lparr>ij_configHelper := r\<rparr>) }]"

text \<open>\<open>Sync\<close>, with the condition manager of the job; most jobs belong to the Ytsaurus resource.\<close>

definition InitJob_SyncWith :: "('w, 'z) mem_scheme ConditionManager \<Rightarrow> 'w ext \<Rightarrow> bool \<Rightarrow> InitJob \<Rightarrow> (('w, 'z) mem_scheme, (ComponentStatus \<times> error) \<times> InitJob) state" where
  "InitJob_SyncWith m E dry j = do {
     completed \<leftarrow> gets (cmg_IsStatusConditionTrue m (ij_initCompletedCondition j));
     if completed then
       ret ((\<lparr>cst_SyncStatus = SyncStatusReady, cst_Message = r_name (ij_initJob j) @ '' completed''\<rparr>, None), j)
     else if \<not> Exists (ij_initJob j) then
       (if \<not> dry then do {
          let j' = InitJob_Build j;
          err \<leftarrow> resources_Sync [Some (ConfigHelper_Sync E (ij_configHelper j')), Some (Job_Sync E (ij_initJob j'))];
          ret ((WaitingStatus SyncStatusPending (r_name (ij_initJob j') @ '' creation''), err), j')
        }
        else ret ((WaitingStatus SyncStatusPending (r_name (ij_initJob j) @ '' creation''), None), j))
     else if \<not> Job_Completed (ij_initJob j) then
       ret ((WaitingStatus SyncStatusBlocked (r_name (ij_initJob j) @ '' completion''), None), j)
     else do {
       whenM (\<not> dry) (cmg_SetStatusCondition m (mkCondition (ij_initCompletedCondition j) ConditionTrue
         ''InitJobCompleted'' ''Init job successfully completed''));
       ret ((WaitingStatus SyncStatusPending (''setting '' @ ij_initCompletedCondition j @ '' condition''), None), j)
     }
   }"

definition InitJob_Sync :: "'w ext \<Rightarrow> bool \<Rightarrow> InitJob \<Rightarrow> (('w, 'z) mem_scheme, (ComponentStatus \<times> error) \<times> InitJob) state" where
  "InitJob_Sync E = InitJob_SyncWith (ytsaurusConditions E) E"

definition InitJob_removeIfExists :: "'w ext \<Rightarrow> InitJob \<Rightarrow> (('w, 'z) mem_scheme, error) state" where
  "InitJob_removeIfExists E j =
     (if \<not> Exists (ij_initJob j) then ret None
      else DeleteObject E AJob (r_old (ij_initJob j)) (Some ''Foreground''))"

definition prepareRestart :: "'w ext \<Rightarrow> bool \<Rightarrow> InitJob \<Rightarrow> (('w, 'z) mem_scheme, error) state" where
  "prepareRestart E dry j =
     (if dry then ret None
      else do {
        err \<leftarrow> RemoveIfExists E (ij_configHelper j);
        if err \<noteq> None then ret err
        else do {
          err \<leftarrow> InitJob_removeIfExists E j;
          if err \<noteq> None then ret err
          else do {
            SetStatusCondition E (mkCondition (ij_initCompletedCondition j) ConditionFalse
              ''InitJobNeedRestart'' ''Init job needs restart'');
            ret None
          }
        }
      })"

definition isRestartPrepared :: "'w ext \<Rightarrow> InitJob \<Rightarrow> ('w, 'z) mem_scheme \<Rightarrow> bool" where
  "isRestartPrepared E j h \<longleftrightarrow> \<not> Exists (ij_initJob j) \<and> \<not> ConfigHelper_Exists (ij_configHelper j) \<and>
     IsStatusConditionFalse E (ij_initCompletedCondition j) h"

definition isRestartCompleted :: "'w ext \<Rightarrow> InitJob \<Rightarrow> ('w, 'z) mem_scheme \<Rightarrow> bool" where
  "isRestartCompleted E j h = IsStatusConditionTrue E (ij_initCompletedCondition j) h"

subsection \<open>Effects\<close>

lemma keeps_InitJob_Fetch [io_intros]: "keeps f (InitJob_Fetch E j)"
  unfolding InitJob_Fetch_def by (rule keeps_fetch_parts) (auto intro!: io_intros)

lemma cr_SetInitScript [io_intros]: "state_io_rel (comp_rel E u) (SetInitScript E s j)"
  unfolding SetInitScript_def by (intro io_intros)

lemma cr_InitJob_Sync [io_intros]: "state_io_rel (comp_rel E u) (InitJob_Sync E dry j)"
  unfolding InitJob_Sync_def InitJob_SyncWith_def ytsaurusConditions_simps Let_def by (intro io_intros) (auto intro!: io_intros)

lemma cr_prepareRestart [io_intros]: "state_io_rel (comp_rel E u) (prepareRestart E dry j)"
  unfolding prepareRestart_def InitJob_removeIfExists_def by (intro io_intros)

text \<open>A dry run of a job's synchronisation changes nothing.\<close>

lemma InitJob_SyncWith_dry [simp]:
  "snd (run_state (InitJob_SyncWith m E True j) h) = h" "snd (fst (run_state (InitJob_SyncWith m E True j) h)) = j"
  "snd (fst (fst (run_state (InitJob_SyncWith m E True j) h))) = None"
  by (simp_all add: InitJob_SyncWith_def)

lemma InitJob_Sync_dry_state [simp]: "snd (run_state (InitJob_Sync E True j) h) = h"
  by (simp add: InitJob_Sync_def)

lemma InitJob_Sync_dry_job [simp]: "snd (fst (run_state (InitJob_Sync E True j) h)) = j"
  by (simp add: InitJob_Sync_def)

lemma keeps_InitJob_Sync_dry [io_intros]: "keeps f (InitJob_Sync E True j)"
  by (simp add: keeps_def)

lemma keeps_prepareRestart_dry [io_intros]: "keeps f (prepareRestart E True j)"
  by (simp add: prepareRestart_def io_intros)

subsection \<open>The life of a job\<close>

text \<open>
  The status a dry run reports, as a function of what is stored: the completion condition, the
  existence of the job and its success.
\<close>

lemma InitJob_SyncWith_status:
  "cst_SyncStatus (fst (fst (fst (run_state (InitJob_SyncWith m E dry j) h)))) =
     (if cmg_IsStatusConditionTrue m (ij_initCompletedCondition j) h then SyncStatusReady
      else if \<not> Exists (ij_initJob j) then SyncStatusPending
      else if \<not> Job_Completed (ij_initJob j) then SyncStatusBlocked
      else SyncStatusPending)"
  by (simp add: InitJob_SyncWith_def WaitingStatus_def Let_def case_prod_unfold)

lemma InitJob_Sync_status:
  "cst_SyncStatus (fst (fst (fst (run_state (InitJob_Sync E dry j) h)))) =
     (if IsStatusConditionTrue E (ij_initCompletedCondition j) h then SyncStatusReady
      else if \<not> Exists (ij_initJob j) then SyncStatusPending
      else if \<not> Job_Completed (ij_initJob j) then SyncStatusBlocked
      else SyncStatusPending)"
  by (simp add: InitJob_Sync_def InitJob_SyncWith_status)

text \<open>A run that sees a finished job records the completion; the next run is ready.\<close>

lemma InitJob_Sync_completes:
  assumes "cond_inv E h" and "Exists (ij_initJob j)" and "Job_Completed (ij_initJob j)"
    and "run_state (InitJob_Sync E False j) h = (r, h')"
  shows "IsStatusConditionTrue E (ij_initCompletedCondition j) h'"
proof (cases "IsStatusConditionTrue E (ij_initCompletedCondition j) h")
  case True
  with assms(4) show ?thesis by (simp add: InitJob_Sync_def InitJob_SyncWith_def)
next
  case False
  let ?c = "mkCondition (ij_initCompletedCondition j) ConditionTrue ''InitJobCompleted'' ''Init job successfully completed''"
  have "h' = snd (run_state (SetStatusCondition E ?c) h)"
    using assms(2-4) False by (simp add: InitJob_Sync_def InitJob_SyncWith_def case_prod_unfold)
  moreover have "cond_inv E (snd (run_state (SetStatusCondition E ?c) h))"
    "status_stored (snd (run_state (SetStatusCondition E ?c) h)) (ij_initCompletedCondition j) = Some ConditionTrue"
    using assms(1) sta.inv_set [of E h ?c] sta.stored_same [of E h ?c] by (simp_all add: mkCondition_def)
  ultimately show ?thesis by (simp add: IsStatusConditionTrue_stored)
qed

text \<open>A prepared restart withdraws the completion.\<close>

lemma prepareRestart_withdraws:
  assumes "cond_inv E h" and "run_state (prepareRestart E False j) h = (None, h')"
  shows "IsStatusConditionFalse E (ij_initCompletedCondition j) h' \<and> cond_inv E h'"
proof -
  let ?c = "mkCondition (ij_initCompletedCondition j) ConditionFalse ''InitJobNeedRestart'' ''Init job needs restart''"
  obtain e1 h1 where r1: "run_state (RemoveIfExists E (ij_configHelper j)) h = (e1, h1)" by fastforce
  obtain e2 h2 where r2: "run_state (InitJob_removeIfExists E j) h1 = (e2, h2)" by fastforce
  have "h_yts h1 = h_yts h" using r1 by (rule keepsD [rotated]) (intro io_intros)
  moreover have "h_yts h2 = h_yts h1"
    using r2 by (rule keepsD [rotated]) (simp add: InitJob_removeIfExists_def io_intros)
  ultimately have inv: "cond_inv E h2" using assms(1) by (simp add: cond_inv_def)
  from assms(2) r1 r2 have "h' = snd (run_state (SetStatusCondition E ?c) h2)"
    by (auto simp: prepareRestart_def case_prod_unfold split: if_splits)
  then show ?thesis
    using inv sta.inv_set [of E h2 ?c] sta.stored_same [of E h2 ?c]
    by (simp add: IsStatusConditionFalse_stored mkCondition_def)
qed

end
