(* ===== verification/Ytconfig.thy ===== *)
theory Ytconfig
  imports Resources
begin

text \<open>
  \<open>pkg/ytconfig\<close>: the names and addresses of a cluster's objects (names.go, base_generator.go,
  generator.go) and its identifiers (cell_id.go).
\<close>

record BaseGenerator =
  bg_Namespace :: string
  bg_Name :: string
  bg_clusterDomain :: string
  bg_commonSpec :: CommonSpec
  bg_masterConnectionSpec :: MasterConnectionSpec
  bg_masterInstanceCount :: int32
  bg_discoveryInstanceCount :: int32
  bg_dataNodesInstanceCount :: int32
  bg_masterCachesSpec :: "MasterCachesSpec option"

fun sumInstances :: "DataNodesSpec list \<Rightarrow> int32 \<Rightarrow> int32" where
  "sumInstances [] n = n"
| "sumInstances (d # ds) n = sumInstances ds (n + is_InstanceCount (dns_Instance d))"

definition NewRemoteBaseGenerator :: "string \<Rightarrow> string \<Rightarrow> string \<Rightarrow> CommonSpec \<Rightarrow> MasterConnectionSpec \<Rightarrow>
    MasterCachesSpec option \<Rightarrow> BaseGenerator" where
  "NewRemoteBaseGenerator ns name domain common conn caches = \<lparr>bg_Namespace = ns, bg_Name = name,
     bg_clusterDomain = domain, bg_commonSpec = common, bg_masterConnectionSpec = conn, bg_masterInstanceCount = 0,
     bg_discoveryInstanceCount = 0, bg_dataNodesInstanceCount = 0, bg_masterCachesSpec = caches\<rparr>"

definition NewLocalBaseGenerator :: "YtsaurusResource \<Rightarrow> string \<Rightarrow> BaseGenerator" where
  "NewLocalBaseGenerator r domain =
     (let spec = yr_Spec r in
      \<lparr>bg_Namespace = om_Namespace (yr_Meta r), bg_Name = om_Name (yr_Meta r), bg_clusterDomain = domain,
       bg_commonSpec = ys_Common spec, bg_masterConnectionSpec = ms_Connection (ys_PrimaryMasters spec),
       bg_masterInstanceCount = is_InstanceCount (ms_Instance (ys_PrimaryMasters spec)),
       bg_discoveryInstanceCount = is_InstanceCount (ys_Discovery spec),
       bg_dataNodesInstanceCount = sumInstances (ys_DataNodes spec) 0,
       bg_masterCachesSpec = ys_MasterCaches spec\<rparr>)"

definition GetMaxReplicationFactor :: "('z) BaseGenerator_scheme \<Rightarrow> int32" where
  "GetMaxReplicationFactor g = bg_dataNodesInstanceCount g"

record Generator = BaseGenerator +
  gen_ytsaurus :: YtsaurusResource

definition NewGenerator :: "YtsaurusResource \<Rightarrow> string \<Rightarrow> Generator" where
  "NewGenerator r domain = BaseGenerator.extend (NewLocalBaseGenerator r domain) \<lparr>gen_ytsaurus = r\<rparr>"

text \<open>A \<open>NodeGenerator\<close> adds nothing to a base generator.\<close>

type_synonym NodeGenerator = BaseGenerator

definition NewLocalNodeGenerator :: "YtsaurusResource \<Rightarrow> string \<Rightarrow> NodeGenerator" where
  "NewLocalNodeGenerator r domain = NewLocalBaseGenerator r domain"

definition NewRemoteNodeGenerator :: "string \<Rightarrow> string \<Rightarrow> string \<Rightarrow> CommonSpec \<Rightarrow> MasterConnectionSpec \<Rightarrow>
    MasterCachesSpec option \<Rightarrow> NodeGenerator" where
  "NewRemoteNodeGenerator = NewRemoteBaseGenerator"

subsection \<open>names.go\<close>

definition getName :: "('z) BaseGenerator_scheme \<Rightarrow> string \<Rightarrow> string" where
  "getName g shortName =
     (if cs_UseShortNames (bg_commonSpec g) then shortName else shortName @ ''-'' @ bg_Name g)"

definition DefaultName :: string where
  "DefaultName = ''default''"

definition FormatComponentStringWithDefault :: "string \<Rightarrow> string \<Rightarrow> string" where
  "FormatComponentStringWithDefault base name = (if name \<noteq> DefaultName then base @ ''-'' @ name else base)"

definition GetMastersStatefulSetName :: "('z) BaseGenerator_scheme \<Rightarrow> string" where
  "GetMastersStatefulSetName g = getName g ''ms''"
definition GetDiscoveryStatefulSetName :: "('z) BaseGenerator_scheme \<Rightarrow> string" where
  "GetDiscoveryStatefulSetName g = getName g ''ds''"
definition GetYQLAgentStatefulSetName :: "('z) BaseGenerator_scheme \<Rightarrow> string" where
  "GetYQLAgentStatefulSetName g = getName g ''yqla''"
definition GetMastersServiceName :: "('z) BaseGenerator_scheme \<Rightarrow> string" where
  "GetMastersServiceName g = getName g ''masters''"
definition GetDiscoveryServiceName :: "('z) BaseGenerator_scheme \<Rightarrow> string" where
  "GetDiscoveryServiceName g = getName g ''discovery''"
definition GetYQLAgentServiceName :: "('z) BaseGenerator_scheme \<Rightarrow> string" where
  "GetYQLAgentServiceName g = getName g ''yql-agents''"
definition GetStrawberryControllerHeadlessServiceName :: "('z) BaseGenerator_scheme \<Rightarrow> string" where
  "GetStrawberryControllerHeadlessServiceName g = getName g ''strawberry''"
definition GetHTTPProxiesServiceName :: "('z) BaseGenerator_scheme \<Rightarrow> string \<Rightarrow> string" where
  "GetHTTPProxiesServiceName g role = getName g (FormatComponentStringWithDefault ''http-proxies'' role @ ''-lb'')"
definition GetHTTPProxiesHeadlessServiceName :: "('z) BaseGenerator_scheme \<Rightarrow> string \<Rightarrow> string" where
  "GetHTTPProxiesHeadlessServiceName g role = getName g (FormatComponentStringWithDefault ''http-proxies'' role)"
definition GetHTTPProxiesStatefulSetName :: "('z) BaseGenerator_scheme \<Rightarrow> string \<Rightarrow> string" where
  "GetHTTPProxiesStatefulSetName g role = getName g (FormatComponentStringWithDefault ''hp'' role)"
definition GetSchedulerStatefulSetName :: "('z) BaseGenerator_scheme \<Rightarrow> string" where
  "GetSchedulerStatefulSetName g = getName g ''sch''"
definition GetSchedulerServiceName :: "('z) BaseGenerator_scheme \<Rightarrow> string" where
  "GetSchedulerServiceName g = getName g ''schedulers''"
definition GetRPCProxiesStatefulSetName :: "('z) BaseGenerator_scheme \<Rightarrow> string \<Rightarrow> string" where
  "GetRPCProxiesStatefulSetName g role = getName g (FormatComponentStringWithDefault ''rp'' role)"
definition GetRPCProxiesServiceName :: "('z) BaseGenerator_scheme \<Rightarrow> string \<Rightarrow> string" where
  "GetRPCProxiesServiceName g role = getName g (FormatComponentStringWithDefault ''rpc-proxies'' role @ ''-lb'')"
definition GetRPCProxiesHeadlessServiceName :: "('z) BaseGenerator_scheme \<Rightarrow> string \<Rightarrow> string" where
  "GetRPCProxiesHeadlessServiceName g role = getName g (FormatComponentStringWithDefault ''rpc-proxies'' role)"
definition GetTCPProxiesStatefulSetName :: "('z) BaseGenerator_scheme \<Rightarrow> string \<Rightarrow> string" where
  "GetTCPProxiesStatefulSetName g role = getName g (FormatComponentStringWithDefault ''tp'' role)"
definition GetTCPProxiesServiceName :: "('z) BaseGenerator_scheme \<Rightarrow> string \<Rightarrow> string" where
  "GetTCPProxiesServiceName g role = getName g (FormatComponentStringWithDefault ''tcp-proxies'' role @ ''-lb'')"
definition GetTCPProxiesHeadlessServiceName :: "('z) BaseGenerator_scheme \<Rightarrow> string \<Rightarrow> string" where
  "GetTCPProxiesHeadlessServiceName g role = getName g (FormatComponentStringWithDefault ''tcp-proxies'' role)"
definition GetQueryTrackerStatefulSetName :: "('z) BaseGenerator_scheme \<Rightarrow> string" where
  "GetQueryTrackerStatefulSetName g = getName g ''qt''"
definition GetQueryTrackerServiceName :: "('z) BaseGenerator_scheme \<Rightarrow> string" where
  "GetQueryTrackerServiceName g = getName g ''query-trackers''"
definition GetQueueAgentStatefulSetName :: "('z) BaseGenerator_scheme \<Rightarrow> string" where
  "GetQueueAgentStatefulSetName g = getName g ''qa''"
definition GetQueueAgentServiceName :: "('z) BaseGenerator_scheme \<Rightarrow> string" where
  "GetQueueAgentServiceName g = getName g ''queue-agents''"
definition GetDataNodesStatefulSetName :: "('z) BaseGenerator_scheme \<Rightarrow> string \<Rightarrow> string" where
  "GetDataNodesStatefulSetName g name = getName g (FormatComponentStringWithDefault ''dnd'' name)"
definition GetDataNodesServiceName :: "('z) BaseGenerator_scheme \<Rightarrow> string \<Rightarrow> string" where
  "GetDataNodesServiceName g name = getName g (FormatComponentStringWithDefault ''data-nodes'' name)"
definition GetExecNodesStatefulSetName :: "('z) BaseGenerator_scheme \<Rightarrow> string \<Rightarrow> string" where
  "GetExecNodesStatefulSetName g name = getName g (FormatComponentStringWithDefault ''end'' name)"
definition GetExecNodesServiceName :: "('z) BaseGenerator_scheme \<Rightarrow> string \<Rightarrow> string" where
  "GetExecNodesServiceName g name = getName g (FormatComponentStringWithDefault ''exec-nodes'' name)"
definition GetTabletNodesStatefulSetName :: "('z) BaseGenerator_scheme \<Rightarrow> string \<Rightarrow> string" where
  "GetTabletNodesStatefulSetName g name = getName g (FormatComponentStringWithDefault ''tnd'' name)"
definition GetTabletNodesServiceName :: "('z) BaseGenerator_scheme \<Rightarrow> string \<Rightarrow> string" where
  "GetTabletNodesServiceName g name = getName g (FormatComponentStringWithDefault ''tablet-nodes'' name)"
definition GetMasterCachesStatefulSetName :: "('z) BaseGenerator_scheme \<Rightarrow> string" where
  "GetMasterCachesStatefulSetName g = getName g ''msc''"
definition GetMasterCachesServiceName :: "('z) BaseGenerator_scheme \<Rightarrow> string" where
  "GetMasterCachesServiceName g = getName g ''master-caches''"

text \<open>The loop over the instances of a stateful set; a negative count gives no pods.\<close>

definition podNames :: "string \<Rightarrow> int32 \<Rightarrow> string list" where
  "podNames statefulSetName instanceCount =
     map (\<lambda>i. statefulSetName @ ''-'' @ show_nat i) [0..<nat (sint instanceCount)]"

definition GetMasterPodNames :: "('z) BaseGenerator_scheme \<Rightarrow> string list" where
  "GetMasterPodNames g = podNames (GetMastersStatefulSetName g) (bg_masterInstanceCount g)"
definition GetDiscoveryPodNames :: "('z) BaseGenerator_scheme \<Rightarrow> string list" where
  "GetDiscoveryPodNames g = podNames (GetDiscoveryStatefulSetName g) (bg_discoveryInstanceCount g)"

text \<open>The methods below dereference a component's specification: nil panics, here \<open>None\<close>.\<close>

definition GetQueryTrackerPodNames :: "Generator \<Rightarrow> string list option" where
  "GetQueryTrackerPodNames g = map_option (\<lambda>i. podNames (GetQueryTrackerStatefulSetName g) (is_InstanceCount i))
     (ys_QueryTrackers (yr_Spec (gen_ytsaurus g)))"
definition GetYQLAgentPodNames :: "Generator \<Rightarrow> string list option" where
  "GetYQLAgentPodNames g = map_option (\<lambda>i. podNames (GetYQLAgentStatefulSetName g) (is_InstanceCount i))
     (ys_YQLAgents (yr_Spec (gen_ytsaurus g)))"
definition GetQueueAgentPodNames :: "Generator \<Rightarrow> string list option" where
  "GetQueueAgentPodNames g = map_option (\<lambda>i. podNames (GetQueueAgentStatefulSetName g) (is_InstanceCount i))
     (ys_QueueAgents (yr_Spec (gen_ytsaurus g)))"
definition GetMasterCachesPodNames :: "('z) BaseGenerator_scheme \<Rightarrow> MasterCachesSpec \<Rightarrow> string list" where
  "GetMasterCachesPodNames g spec = podNames (GetMasterCachesStatefulSetName g) (is_InstanceCount (mc_Instance spec))"

subsection \<open>Addresses (generator.go)\<close>

definition svcSuffix :: "string \<Rightarrow> string \<Rightarrow> string \<Rightarrow> string" where
  "svcSuffix serviceName namespace domain = serviceName @ ''.'' @ namespace @ ''.svc.'' @ domain"

definition GetHTTPProxiesServiceAddress :: "Generator \<Rightarrow> string \<Rightarrow> string" where
  "GetHTTPProxiesServiceAddress g role =
     svcSuffix (GetHTTPProxiesHeadlessServiceName g role) (om_Namespace (yr_Meta (gen_ytsaurus g))) (bg_clusterDomain g)"

definition GetHTTPProxiesAddress :: "Generator \<Rightarrow> string \<Rightarrow> string" where
  "GetHTTPProxiesAddress g role =
     svcSuffix (GetHTTPProxiesServiceName g role) (om_Namespace (yr_Meta (gen_ytsaurus g))) (bg_clusterDomain g)"

definition GetStrawberryControllerServiceAddress :: "Generator \<Rightarrow> string" where
  "GetStrawberryControllerServiceAddress g =
     svcSuffix (GetStrawberryControllerHeadlessServiceName g) (om_Namespace (yr_Meta (gen_ytsaurus g))) (bg_clusterDomain g)"

definition getMasterPodFqdnSuffix :: "('z) BaseGenerator_scheme \<Rightarrow> string" where
  "getMasterPodFqdnSuffix g = svcSuffix (GetMastersServiceName g) (bg_Namespace g) (bg_clusterDomain g)"

definition withPort :: "nat \<Rightarrow> string \<Rightarrow> string" where
  "withPort port host = host @ '':'' @ show_nat port"

definition getMasterAddresses :: "('z) BaseGenerator_scheme \<Rightarrow> string list" where
  "getMasterAddresses g =
     (let hosts = mcs_HostAddresses (bg_masterConnectionSpec g);
          hosts' = (if length hosts = 0
                    then map (\<lambda>podName. podName @ ''.'' @ getMasterPodFqdnSuffix g) (GetMasterPodNames g)
                    else hosts)
      in map (withPort MasterRPCPort) hosts')"

record HydraPeer =
  peer_Address :: string
  peer_Voting :: bool

definition getMasterHydraPeers :: "('z) BaseGenerator_scheme \<Rightarrow> HydraPeer list" where
  "getMasterHydraPeers g = map (\<lambda>address. \<lparr>peer_Address = address, peer_Voting = True\<rparr>) (getMasterAddresses g)"

definition podAddresses :: "string list \<Rightarrow> string \<Rightarrow> string \<Rightarrow> string \<Rightarrow> nat \<Rightarrow> string list" where
  "podAddresses pods serviceName namespace domain port =
     map (\<lambda>podName. withPort port (podName @ ''.'' @ svcSuffix serviceName namespace domain)) pods"

definition getDiscoveryAddresses :: "('z) BaseGenerator_scheme \<Rightarrow> string list" where
  "getDiscoveryAddresses g = podAddresses (GetDiscoveryPodNames g) (GetDiscoveryServiceName g)
     (bg_Namespace g) (bg_clusterDomain g) DiscoveryRPCPort"

definition GetYQLAgentAddresses :: "Generator \<Rightarrow> string list option" where
  "GetYQLAgentAddresses g = map_option (\<lambda>pods. podAddresses pods (GetYQLAgentServiceName g)
     (om_Namespace (yr_Meta (gen_ytsaurus g))) (bg_clusterDomain g) YQLAgentRPCPort) (GetYQLAgentPodNames g)"

definition GetQueryTrackerAddresses :: "Generator \<Rightarrow> string list option" where
  "GetQueryTrackerAddresses g = map_option (\<lambda>pods. podAddresses pods (GetQueryTrackerServiceName g)
     (om_Namespace (yr_Meta (gen_ytsaurus g))) (bg_clusterDomain g) QueryTrackerRPCPort) (GetQueryTrackerPodNames g)"

definition GetQueueAgentAddresses :: "Generator \<Rightarrow> string list option" where
  "GetQueueAgentAddresses g = map_option (\<lambda>pods. podAddresses pods (GetQueueAgentServiceName g)
     (om_Namespace (yr_Meta (gen_ytsaurus g))) (bg_clusterDomain g) QueueAgentRPCPort) (GetQueueAgentPodNames g)"

definition getMasterCachesPodFqdnSuffix :: "('z) BaseGenerator_scheme \<Rightarrow> string" where
  "getMasterCachesPodFqdnSuffix g = svcSuffix (GetMasterCachesServiceName g) (bg_Namespace g) (bg_clusterDomain g)"

definition getMasterCachesAddresses :: "('z) BaseGenerator_scheme \<Rightarrow> string list" where
  "getMasterCachesAddresses g = (case bg_masterCachesSpec g of
       None \<Rightarrow> []
     | Some spec \<Rightarrow>
         (let hosts = mc_HostAddresses spec;
              hosts' = (if length hosts = 0
                        then map (\<lambda>podName. podName @ ''.'' @ getMasterCachesPodFqdnSuffix g) (GetMasterCachesPodNames g spec)
                        else hosts)
          in map (withPort MasterCachesRPCPort) hosts'))"

subsection \<open>cell_id.go\<close>

text \<open>Hexadecimal printing (\<open>%02x\<close>) of a byte.\<close>

definition hex_digit :: "nat \<Rightarrow> char" where
  "hex_digit n = (if n < 10 then char_of (48 + n) else char_of (87 + n))"

definition hex_byte :: "8 word \<Rightarrow> string" where
  "hex_byte b = [hex_digit (unat b div 16), hex_digit (unat b mod 16)]"

definition getGUIDPart :: "8 word list \<Rightarrow> string" where
  "getGUIDPart bytes = dropWhile (\<lambda>c. c = CHR ''0'') (concat (map hex_byte bytes))"

text \<open>
  The bytes of the UUID come from the package \<open>uuid\<close>; bytes 4 to 7 are overwritten by the cell
  tag and by the type of a master cell (601).
\<close>

definition cellBytes :: "8 word list \<Rightarrow> int16 \<Rightarrow> 8 word list" where
  "cellBytes uuidBytes cellTag =
     uuidBytes[4 := ucast (drop_bit 8 cellTag), 5 := ucast cellTag, 6 := 2, 7 := 0x59]"

definition generateCellID :: "'w ext \<Rightarrow> int16 \<Rightarrow> string" where
  "generateCellID E cellTag =
     (let b = cellBytes (f_uuid (x_fmt E) ''ytsaurus-kubernetes-operator'') cellTag
      in getGUIDPart (drop 12 b) @ ''-'' @ getGUIDPart (take 4 (drop 8 b)) @ ''-'' @
         getGUIDPart (take 4 (drop 4 b)) @ ''-'' @ getGUIDPart (take 4 b))"

text \<open>\<open>base64.RawURLEncoding\<close>: three bytes are four digits, a shorter last group is not padded.\<close>

definition base64_digit :: "nat \<Rightarrow> char" where
  "base64_digit n = (if n < 26 then char_of (65 + n) else if n < 52 then char_of (71 + n)
     else if n < 62 then char_of (n - 4) else if n = 62 then CHR ''-'' else CHR ''_'')"

fun base64_raw_url :: "8 word list \<Rightarrow> string" where
  "base64_raw_url [] = []"
| "base64_raw_url [a] = [base64_digit (unat a div 4), base64_digit (unat a mod 4 * 16)]"
| "base64_raw_url [a, b] = [base64_digit (unat a div 4), base64_digit (unat a mod 4 * 16 + unat b div 16),
     base64_digit (unat b mod 16 * 4)]"
| "base64_raw_url (a # b # c # bs) = base64_digit (unat a div 4) # base64_digit (unat a mod 4 * 16 + unat b div 16) #
     base64_digit (unat b mod 16 * 4 + unat c div 64) # base64_digit (unat c mod 64) # base64_raw_url bs"

definition RandString :: "'w ext \<Rightarrow> nat \<Rightarrow> (('w, 'z) mem_scheme, string) state" where
  "RandString E n = gets (\<lambda>h. base64_raw_url (x_rand E n (h_world h)))"

subsection \<open>Printed identifiers are unique\<close>

lemma distinct_podNames: "distinct (podNames n k)"
  by (auto simp: podNames_def distinct_map inj_on_def show_nat_inject)

lemma hex_digit_inject: "a < 16 \<Longrightarrow> b < 16 \<Longrightarrow> hex_digit a = hex_digit b \<longleftrightarrow> a = b" for a b :: nat
proof -
  assume ab: "a < 16" "b < 16"
  have v: "of_char (hex_digit k) = (if k < 10 then 48 + k else 87 + k)" if "k < 16" for k :: nat
    using that by (simp add: hex_digit_def of_char_of)
  show ?thesis
  proof
    assume "hex_digit a = hex_digit b"
    with v [OF ab(1)] v [OF ab(2)] have "(if a < 10 then 48 + a else 87 + a) = (if b < 10 then 48 + b else 87 + b)" by metis
    with ab show "a = b" by (simp split: if_splits)
  qed simp
qed

lemma hex_byte_inject: "hex_byte a = hex_byte b \<longleftrightarrow> a = b"
proof -
  have bound: "unat c div 16 < 16" "unat c mod 16 < 16" for c :: "8 word"
    using unsigned_less [of c, where 'a = nat] by auto
  have "unat a = unat b" if "hex_byte a = hex_byte b"
    using that bound [of a] bound [of b] by (auto simp: hex_byte_def hex_digit_inject) (metis div_mult_mod_eq)
  then show ?thesis by (metis word_unat_eq_iff)
qed

lemma hex_bytes_inject: "length xs = length ys \<Longrightarrow> concat (map hex_byte xs) = concat (map hex_byte ys) \<longleftrightarrow> xs = ys"
proof (induction xs ys rule: list_induct2)
  case (Cons x xs y ys)
  have "length (hex_byte c) = 2" for c by (simp add: hex_byte_def)
  then show ?case using Cons by (simp add: append_eq_append_conv hex_byte_inject)
qed simp

lemma dropWhile_eq_inject:
  "length xs = length ys \<Longrightarrow> dropWhile (\<lambda>c. c = z) xs = dropWhile (\<lambda>c. c = z) ys \<longleftrightarrow> xs = ys"
proof (induction xs ys rule: list_induct2)
  case (Cons x xs y ys)
  have "length (dropWhile P zs) \<le> length zs" for P :: "'a \<Rightarrow> bool" and zs by (rule length_dropWhile_le)
  from this [of "\<lambda>c. c = z" xs] this [of "\<lambda>c. c = z" ys] Cons show ?case
    by (auto dest: arg_cong [where f = length])
qed simp

lemma getGUIDPart_inject: "length xs = length ys \<Longrightarrow> getGUIDPart xs = getGUIDPart ys \<longleftrightarrow> xs = ys"
proof -
  assume len: "length xs = length ys"
  have "length (concat (map hex_byte zs)) = 2 * length zs" for zs by (induction zs) (simp_all add: hex_byte_def)
  with len show ?thesis by (simp add: getGUIDPart_def dropWhile_eq_inject hex_bytes_inject)
qed

lemma tag_bytes_inject:
  "(ucast (drop_bit 8 s) :: 8 word) = ucast (drop_bit 8 t) \<Longrightarrow> (ucast s :: 8 word) = ucast t \<Longrightarrow> s = (t :: int16)"
proof (rule bit_word_eqI)
  fix n
  assume hi: "(ucast (drop_bit 8 s) :: 8 word) = ucast (drop_bit 8 t)" and lo: "(ucast s :: 8 word) = ucast t"
    and "n < LENGTH(16)"
  then consider "n < 8" | m where "n = 8 + m" "m < 8" by (cases "n < 8") (auto dest: le_Suc_ex simp: not_less)
  then show "bit s n = bit t n"
    using hi [unfolded bit_eq_iff] lo [unfolded bit_eq_iff] by cases (auto simp: bit_simps)
qed

text \<open>Two cell tags never give the same cell identifier.\<close>

lemma generateCellID_inject:
  assumes "length (f_uuid (x_fmt E) ''ytsaurus-kubernetes-operator'') = 16"
  shows "generateCellID E s = generateCellID E t \<longleftrightarrow> s = t"
proof
  let ?u = "f_uuid (x_fmt E) ''ytsaurus-kubernetes-operator''"
  let ?part = "\<lambda>t. [ucast (drop_bit 8 t), ucast t, 2, 0x59] :: 8 word list"
  have b: "take 4 (cellBytes ?u t) = take 4 ?u" "take 4 (drop 4 (cellBytes ?u t)) = ?part t"
    "drop 8 (cellBytes ?u t) = drop 8 ?u" for t
  proof -
    obtain a0 a1 a2 a3 a4 a5 a6 a7 r where "?u = a0 # a1 # a2 # a3 # a4 # a5 # a6 # a7 # r"
      using assms by (auto simp: length_Suc_conv numeral_eq_Suc)
    then show "take 4 (cellBytes ?u t) = take 4 ?u" "take 4 (drop 4 (cellBytes ?u t)) = ?part t"
      "drop 8 (cellBytes ?u t) = drop 8 ?u"
      by (simp_all add: cellBytes_def numeral_eq_Suc)
  qed
  have d: "drop 12 (cellBytes ?u t) = drop 12 ?u" for t
    using arg_cong [OF b(3) [of t], of "drop 4"] by simp
  assume "generateCellID E s = generateCellID E t"
  then have "getGUIDPart (?part s) = getGUIDPart (?part t)"
    by (simp add: generateCellID_def Let_def b d)
  then have "?part s = ?part t" by (simp add: getGUIDPart_inject)
  then show "s = t" by (intro tag_bytes_inject) simp_all
qed simp

end
