(* ===== verification/Heap.thy ===== *)
theory Heap
  imports InitJob Ytconfig
begin

text \<open>
  The memory of the operator with the objects of the components: the microservice of
  \<open>microservice.go\<close>, the heap (one map from addresses to objects per struct type) and
  the contract of an object that components own.
\<close>

subsection \<open>microservice.go\<close>

record microserviceImpl =
  mi_image :: string
  mi_labeller :: Labeller
  mi_instanceCount :: int32
  mi_deployment :: Deployment
  mi_service :: HTTPService
  mi_configHelper :: ConfigHelper
  mi_builtDeployment :: bool
  mi_builtService :: bool
  mi_builtConfig :: bool

definition newMicroservice :: "Labeller \<Rightarrow> YtsaurusResource \<Rightarrow> string \<Rightarrow> int32 \<Rightarrow> (string \<times> GeneratorDescriptor) list \<Rightarrow>
    string \<Rightarrow> string \<Rightarrow> microserviceImpl" where
  "newMicroservice l r img instanceCount generators deploymentName serviceName =
     \<lparr>mi_image = img, mi_labeller = l, mi_instanceCount = instanceCount,
      mi_deployment = NewDeployment deploymentName l, mi_service = NewHTTPService serviceName None l,
      mi_configHelper = NewConfigHelper l (GetMainConfigMapName l) (cs_ConfigOverrides (ys_Common (yr_Spec r))) generators,
      mi_builtDeployment = False, mi_builtService = False, mi_builtConfig = False\<rparr>"

subsection \<open>The memory\<close>

text \<open>
  Objects live at addresses; a constructor of a component allocates them. \<open>h_ytClient\<close> says
  whether the YTsaurus client has a connection, \<open>h_admin\<close> is the master's admin secret.
\<close>

record 'w heap = "'w mem" +
  h_next :: nat
  h_srv :: "nat \<Rightarrow> serverImpl"
  h_job :: "nat \<Rightarrow> InitJob"
  h_sec :: "nat \<Rightarrow> StringSecret"
  h_http :: "nat \<Rightarrow> HTTPService"
  h_rpc :: "nat \<Rightarrow> RPCService"
  h_tcp :: "nat \<Rightarrow> TCPService"
  h_ms :: "nat \<Rightarrow> microserviceImpl"
  h_cfg :: "nat \<Rightarrow> ConfigHelper"
  h_ytClient :: bool
  h_admin :: SecretObj

text \<open>A method of the object that \<open>get\<close> reads and \<open>put\<close> writes back.\<close>

definition on_obj :: "('s \<Rightarrow> 'o) \<Rightarrow> ('o \<Rightarrow> 's \<Rightarrow> 's) \<Rightarrow> ('o \<Rightarrow> ('s, 'a \<times> 'o) state) \<Rightarrow> ('s, 'a) state" where
  "on_obj get put f = do {
     x \<leftarrow> gets get;
     (r, x') \<leftarrow> f x;
     modify (put x');
     ret r
   }"

definition put_srv :: "nat \<Rightarrow> serverImpl \<Rightarrow> 'w heap \<Rightarrow> 'w heap" where
  "put_srv a x h = h\<lparr>h_srv := (h_srv h)(a := x)\<rparr>"
definition put_job :: "nat \<Rightarrow> InitJob \<Rightarrow> 'w heap \<Rightarrow> 'w heap" where
  "put_job a x h = h\<lparr>h_job := (h_job h)(a := x)\<rparr>"
definition put_sec :: "nat \<Rightarrow> StringSecret \<Rightarrow> 'w heap \<Rightarrow> 'w heap" where
  "put_sec a x h = h\<lparr>h_sec := (h_sec h)(a := x)\<rparr>"
definition put_http :: "nat \<Rightarrow> HTTPService \<Rightarrow> 'w heap \<Rightarrow> 'w heap" where
  "put_http a x h = h\<lparr>h_http := (h_http h)(a := x)\<rparr>"
definition put_rpc :: "nat \<Rightarrow> RPCService \<Rightarrow> 'w heap \<Rightarrow> 'w heap" where
  "put_rpc a x h = h\<lparr>h_rpc := (h_rpc h)(a := x)\<rparr>"
definition put_tcp :: "nat \<Rightarrow> TCPService \<Rightarrow> 'w heap \<Rightarrow> 'w heap" where
  "put_tcp a x h = h\<lparr>h_tcp := (h_tcp h)(a := x)\<rparr>"
definition put_ms :: "nat \<Rightarrow> microserviceImpl \<Rightarrow> 'w heap \<Rightarrow> 'w heap" where
  "put_ms a x h = h\<lparr>h_ms := (h_ms h)(a := x)\<rparr>"
definition put_cfg :: "nat \<Rightarrow> ConfigHelper \<Rightarrow> 'w heap \<Rightarrow> 'w heap" where
  "put_cfg a x h = h\<lparr>h_cfg := (h_cfg h)(a := x)\<rparr>"

abbreviation on_srv :: "nat \<Rightarrow> (serverImpl \<Rightarrow> ('w heap, 'a \<times> serverImpl) state) \<Rightarrow> ('w heap, 'a) state" where
  "on_srv a \<equiv> on_obj (\<lambda>h. h_srv h a) (put_srv a)"
abbreviation on_job :: "nat \<Rightarrow> (InitJob \<Rightarrow> ('w heap, 'a \<times> InitJob) state) \<Rightarrow> ('w heap, 'a) state" where
  "on_job a \<equiv> on_obj (\<lambda>h. h_job h a) (put_job a)"
abbreviation on_sec :: "nat \<Rightarrow> (StringSecret \<Rightarrow> ('w heap, 'a \<times> StringSecret) state) \<Rightarrow> ('w heap, 'a) state" where
  "on_sec a \<equiv> on_obj (\<lambda>h. h_sec h a) (put_sec a)"
abbreviation on_ms :: "nat \<Rightarrow> (microserviceImpl \<Rightarrow> ('w heap, 'a \<times> microserviceImpl) state) \<Rightarrow> ('w heap, 'a) state" where
  "on_ms a \<equiv> on_obj (\<lambda>h. h_ms h a) (put_ms a)"
abbreviation on_cfg :: "nat \<Rightarrow> (ConfigHelper \<Rightarrow> ('w heap, 'a \<times> ConfigHelper) state) \<Rightarrow> ('w heap, 'a) state" where
  "on_cfg a \<equiv> on_obj (\<lambda>h. h_cfg h a) (put_cfg a)"

text \<open>Allocation at a fresh address.\<close>

definition alloc :: "(nat \<Rightarrow> 'o \<Rightarrow> 'w heap \<Rightarrow> 'w heap) \<Rightarrow> 'o \<Rightarrow> ('w heap, nat) state" where
  "alloc put x = State (\<lambda>h. (h_next h, put (h_next h) x (h\<lparr>h_next := Suc (h_next h)\<rparr>)))"

lemmas put_defs = put_srv_def put_job_def put_sec_def put_http_def put_rpc_def put_tcp_def put_ms_def put_cfg_def

lemma put_yts [simp]:
  "h_yts (put_srv a x1 h) = h_yts h" "h_yts (put_job a x2 h) = h_yts h" "h_yts (put_sec a x3 h) = h_yts h"
  "h_yts (put_http a x4 h) = h_yts h" "h_yts (put_rpc a x5 h) = h_yts h" "h_yts (put_tcp a x6 h) = h_yts h"
  "h_yts (put_ms a x7 h) = h_yts h" "h_yts (put_cfg a x8 h) = h_yts h"
  by (simp_all add: put_defs)

lemma put_world [simp]:
  "h_world (put_srv a x1 h) = h_world h" "h_world (put_job a x2 h) = h_world h" "h_world (put_sec a x3 h) = h_world h"
  "h_world (put_http a x4 h) = h_world h" "h_world (put_rpc a x5 h) = h_world h" "h_world (put_tcp a x6 h) = h_world h"
  "h_world (put_ms a x7 h) = h_world h" "h_world (put_cfg a x8 h) = h_world h"
  by (simp_all add: put_defs)

text \<open>
  What a piece of memory must satisfy to be an object that components own: writing it changes
  neither the resource nor the world.
\<close>

locale owned_object =
  fixes get :: "'w heap \<Rightarrow> 'o" and put :: "'o \<Rightarrow> 'w heap \<Rightarrow> 'w heap"
  assumes put_yts': "h_yts (put x h) = h_yts h"
    and put_world': "h_world (put x h) = h_world h"
    and get_put: "get (put x h) = x"
begin

lemma keeps_yts_on_obj: "(\<And>x. keeps h_yts (f x)) \<Longrightarrow> keeps h_yts (on_obj get put f)"
  unfolding on_obj_def by (intro io_intros keeps_modify) (auto simp: put_yts')

lemma keeps_world_on_obj: "(\<And>x. keeps h_world (f x)) \<Longrightarrow> keeps h_world (on_obj get put f)"
  unfolding on_obj_def by (intro io_intros keeps_modify) (auto simp: put_world')

lemma cr_put: "state_io_rel (comp_rel E u) (modify (put x))"
  by (intro cr_keeps keeps_modify) (simp_all add: put_yts' put_world')

lemma cr_on_obj: "(\<And>x. state_io_rel (comp_rel E u) (f x)) \<Longrightarrow> state_io_rel (comp_rel E u) (on_obj get put f)"
  unfolding on_obj_def by (intro io_intros cr_put)

lemma run_on_obj:
  "run_state (f (get h)) h = ((r, x), h') \<Longrightarrow> run_state (on_obj get put f) h = (r, put x h')"
  by (simp add: on_obj_def)

end

interpretation srv: owned_object "\<lambda>h. h_srv h a" "put_srv a" for a by unfold_locales (simp_all add: put_defs)
interpretation job: owned_object "\<lambda>h. h_job h a" "put_job a" for a by unfold_locales (simp_all add: put_defs)
interpretation sec: owned_object "\<lambda>h. h_sec h a" "put_sec a" for a by unfold_locales (simp_all add: put_defs)
interpretation http: owned_object "\<lambda>h. h_http h a" "put_http a" for a by unfold_locales (simp_all add: put_defs)
interpretation rpc: owned_object "\<lambda>h. h_rpc h a" "put_rpc a" for a by unfold_locales (simp_all add: put_defs)
interpretation tcp: owned_object "\<lambda>h. h_tcp h a" "put_tcp a" for a by unfold_locales (simp_all add: put_defs)
interpretation ms: owned_object "\<lambda>h. h_ms h a" "put_ms a" for a by unfold_locales (simp_all add: put_defs)
interpretation cfg: owned_object "\<lambda>h. h_cfg h a" "put_cfg a" for a by unfold_locales (simp_all add: put_defs)

lemmas on_obj_rules [io_intros] =
  srv.keeps_yts_on_obj srv.keeps_world_on_obj srv.cr_on_obj job.keeps_yts_on_obj job.keeps_world_on_obj job.cr_on_obj
  sec.keeps_yts_on_obj sec.keeps_world_on_obj sec.cr_on_obj http.keeps_yts_on_obj http.keeps_world_on_obj http.cr_on_obj
  rpc.keeps_yts_on_obj rpc.keeps_world_on_obj rpc.cr_on_obj tcp.keeps_yts_on_obj tcp.keeps_world_on_obj tcp.cr_on_obj
  ms.keeps_yts_on_obj ms.keeps_world_on_obj ms.cr_on_obj cfg.keeps_yts_on_obj cfg.keeps_world_on_obj cfg.cr_on_obj

end
