(* ===== verification/Logging.thy ===== *)
theory Logging
  imports ApiProxy "HOL-Library.AList"
begin

text \<open>
  \<open>pkg/ytconfig/logging.go\<close> and \<open>createLogging\<close> of \<open>common.go\<close>: the logging section of a
  configuration document; and the encoding of Go structs as YSON values that the documents share.
\<close>

subsection \<open>Encoding of structs\<close>

text \<open>
  The package \<open>yson\<close> writes a struct as the map of its tagged fields; a field with the tag
  \<open>omitempty\<close> is left out when it is empty (a nil pointer, a zero number, an empty string, list or
  map). The fields of an embedded struct are written in its place. A Go map is written as the
  association list of its entries; their order has no meaning.
\<close>

type_synonym fields = "(string \<times> yval) list"

definition omit_str :: "string \<Rightarrow> string \<Rightarrow> fields" where
  "omit_str k s = (if s = [] then [] else [(k, YString s)])"

definition omit_int :: "string \<Rightarrow> int \<Rightarrow> fields" where
  "omit_int k n = (if n = 0 then [] else [(k, YInt n)])"

definition omit_bool :: "string \<Rightarrow> bool \<Rightarrow> fields" where
  "omit_bool k b = (if b then [(k, YBool b)] else [])"

definition omit_nil :: "string \<Rightarrow> ('a \<Rightarrow> yval) \<Rightarrow> 'a option \<Rightarrow> fields" where
  "omit_nil k f x = (case x of None \<Rightarrow> [] | Some y \<Rightarrow> [(k, f y)])"

definition omit_list :: "string \<Rightarrow> ('a \<Rightarrow> yval) \<Rightarrow> 'a list \<Rightarrow> fields" where
  "omit_list k f xs = (if xs = [] then [] else [(k, YList (map f xs))])"

subsection \<open>Strings of the constants\<close>

fun log_level_string :: "LogLevel \<Rightarrow> string" where
  "log_level_string LogLevelTrace = ''trace''"
| "log_level_string LogLevelDebug = ''debug''"
| "log_level_string LogLevelInfo = ''info''"
| "log_level_string LogLevelWarning = ''warning''"
| "log_level_string LogLevelError = ''error''"
| "log_level_string (LogLevelOther s) = s"

fun writer_type_string :: "LogWriterType \<Rightarrow> string" where
  "writer_type_string LogWriterTypeFile = ''file''"
| "writer_type_string LogWriterTypeStderr = ''stderr''"
| "writer_type_string (LogWriterTypeOther s) = s"

fun log_format_string :: "LogFormat \<Rightarrow> string" where
  "log_format_string LogFormatPlainText = ''plain_text''"
| "log_format_string LogFormatYson = ''yson''"
| "log_format_string LogFormatJson = ''json''"
| "log_format_string (LogFormatOther s) = s"

fun compression_string :: "LogCompression \<Rightarrow> string" where
  "compression_string LogCompressionNone = ''none''"
| "compression_string LogCompressionGzip = ''gzip''"
| "compression_string LogCompressionZstd = ''zstd''"
| "compression_string (LogCompressionOther s) = s"

subsection \<open>Default loggers\<close>

definition defaultLogger :: "string \<Rightarrow> LogLevel \<Rightarrow> LogWriterType \<Rightarrow> TextLoggerSpec" where
  "defaultLogger name level writer = \<lparr>bls_Name = name, bls_Format = LogFormatPlainText, bls_MinLogLevel = level,
     bls_Compression = LogCompressionNone, bls_UseTimestampSuffix = False, bls_RotationPolicy = None,
     tls_WriterType = writer, tls_CategoriesFilter = None\<rparr>"

definition defaultStderrLoggerSpec :: TextLoggerSpec where
  "defaultStderrLoggerSpec = defaultLogger ''stderr'' LogLevelError LogWriterTypeStderr"

definition defaultDebugLoggerSpec :: TextLoggerSpec where
  "defaultDebugLoggerSpec = defaultLogger ''debug'' LogLevelDebug LogWriterTypeFile"

definition defaultInfoLoggerSpec :: TextLoggerSpec where
  "defaultInfoLoggerSpec = defaultLogger ''info'' LogLevelInfo LogWriterTypeFile"

subsection \<open>Rules and writers\<close>

datatype LogFamily = LogFamilyPlainText | LogFamilyStructured

record LoggingRule =
  lr_ExcludeCategories :: "string list"
  lr_IncludeCategories :: "string list"
  lr_MinLevel :: LogLevel
  lr_Writers :: "string list"
  lr_Family :: "LogFamily option"

record LogRotation =
  rot_RotationPeriodMilliseconds :: "int64 option"
  rot_MaxSegmentSize :: "int64 option"
  rot_MaxTotalSizeToKeep :: "int64 option"
  rot_MaxSegmentCountToKeep :: "int64 option"

record LoggingWriter =
  lw_WriterType :: LogWriterType
  lw_FileName :: string
  lw_Format :: LogFormat
  lw_CompressionMethod :: string
  lw_EnableCompression :: bool
  lw_UseTimestampSuffix :: bool
  lw_EnableSystemMessages :: bool
  lw_RotationPolicy :: "LogRotation option"

text \<open>The map of writers is an association list without repeated keys.\<close>

record Logging =
  log_Writers :: "(string \<times> LoggingWriter) list"
  log_Rules :: "LoggingRule list"
  log_FlushPeriod :: int

record loggingBuilder =
  lgb_loggingDirectory :: string
  lgb_componentName :: string
  lgb_logging :: Logging

definition emptyLogging :: Logging where
  "emptyLogging = \<lparr>log_Writers = [], log_Rules = [], log_FlushPeriod = 0\<rparr>"

definition newLoggingBuilder :: "LocationSpec option \<Rightarrow> string \<Rightarrow> loggingBuilder" where
  "newLoggingBuilder location componentName =
     \<lparr>lgb_loggingDirectory = (case location of Some l \<Rightarrow> loc_Path l | None \<Rightarrow> ''/var/log''),
      lgb_componentName = componentName, lgb_logging = emptyLogging\<rparr>"

definition newJobProxyLoggingBuilder :: loggingBuilder where
  "newJobProxyLoggingBuilder = \<lparr>lgb_loggingDirectory = [], lgb_componentName = ''job-proxy'', lgb_logging = emptyLogging\<rparr>"

definition createBaseLoggingRule :: "('z) BaseLoggerSpec_scheme \<Rightarrow> LoggingRule" where
  "createBaseLoggingRule spec = \<lparr>lr_ExcludeCategories = [], lr_IncludeCategories = [],
     lr_MinLevel = bls_MinLogLevel spec, lr_Writers = [bls_Name spec], lr_Family = None\<rparr>"

definition createLoggingRule :: "TextLoggerSpec \<Rightarrow> LoggingRule" where
  "createLoggingRule spec =
     (let rule = (createBaseLoggingRule spec)\<lparr>lr_Family := Some LogFamilyPlainText\<rparr>
      in case tls_CategoriesFilter spec of
           None \<Rightarrow> rule
         | Some f \<Rightarrow>
             (case cf_Type f of
                CategoriesFilterTypeExclude \<Rightarrow> rule\<lparr>lr_ExcludeCategories := lr_ExcludeCategories rule @ cf_Values f\<rparr>
              | CategoriesFilterTypeInclude \<Rightarrow> rule\<lparr>lr_IncludeCategories := lr_IncludeCategories rule @ cf_Values f\<rparr>
              | CategoriesFilterTypeOther _ \<Rightarrow> rule))"

definition createStructuredLoggingRule :: "StructuredLoggerSpec \<Rightarrow> LoggingRule" where
  "createStructuredLoggingRule spec = (createBaseLoggingRule spec)\<lparr>lr_Family := Some LogFamilyStructured,
     lr_IncludeCategories := [sls_Category spec]\<rparr>"

definition createBaseLoggingWriter :: "fmt_api \<Rightarrow> string \<Rightarrow> string \<Rightarrow> LogWriterType \<Rightarrow> ('z) BaseLoggerSpec_scheme \<Rightarrow> LoggingWriter" where
  "createBaseLoggingWriter F componentName loggingDirectory writerType spec =
     (let file0 = (if writerType = LogWriterTypeFile
                   then path_join loggingDirectory (componentName @ ''.'' @ bls_Name spec @ ''.log'') else []);
          file1 = (if bls_Format spec \<noteq> LogFormatPlainText then file0 @ ''.'' @ log_format_string (bls_Format spec) else file0);
          compressed = bls_Compression spec \<noteq> LogCompressionNone;
          method = (if compressed then compression_string (bls_Compression spec) else []);
          file2 = (if compressed then file1 @ ''.'' @ method else file1)
      in \<lparr>lw_WriterType = writerType, lw_FileName = file2, lw_Format = bls_Format spec, lw_CompressionMethod = method,
          lw_EnableCompression = compressed, lw_UseTimestampSuffix = bls_UseTimestampSuffix spec,
          lw_EnableSystemMessages = False,
          lw_RotationPolicy = map_option (\<lambda>p.
            \<lparr>rot_RotationPeriodMilliseconds = lrp_RotationPeriodMilliseconds p,
             rot_MaxSegmentSize = map_option (f_quantity_value F) (lrp_MaxSegmentSize p),
             rot_MaxTotalSizeToKeep = map_option (f_quantity_value F) (lrp_MaxTotalSizeToKeep p),
             rot_MaxSegmentCountToKeep = lrp_MaxSegmentCountToKeep p\<rparr>) (bls_RotationPolicy spec)\<rparr>)"

definition createLoggingWriter :: "fmt_api \<Rightarrow> string \<Rightarrow> string \<Rightarrow> TextLoggerSpec \<Rightarrow> LoggingWriter" where
  "createLoggingWriter F componentName loggingDirectory spec =
     (createBaseLoggingWriter F componentName loggingDirectory (tls_WriterType spec) spec)\<lparr>lw_EnableSystemMessages := True\<rparr>"

definition createStructuredLoggingWriter :: "fmt_api \<Rightarrow> string \<Rightarrow> string \<Rightarrow> StructuredLoggerSpec \<Rightarrow> LoggingWriter" where
  "createStructuredLoggingWriter F componentName loggingDirectory spec =
     (createBaseLoggingWriter F componentName loggingDirectory LogWriterTypeFile spec)\<lparr>lw_EnableSystemMessages := False\<rparr>"

definition putLogger :: "LoggingRule \<Rightarrow> string \<Rightarrow> LoggingWriter \<Rightarrow> loggingBuilder \<Rightarrow> loggingBuilder" where
  "putLogger rule name writer b = b\<lparr>lgb_logging := (lgb_logging b)\<lparr>log_Rules := log_Rules (lgb_logging b) @ [rule],
     log_Writers := AList.update name writer (log_Writers (lgb_logging b))\<rparr>\<rparr>"

definition addLogger :: "fmt_api \<Rightarrow> TextLoggerSpec \<Rightarrow> loggingBuilder \<Rightarrow> loggingBuilder" where
  "addLogger F spec b = putLogger (createLoggingRule spec) (bls_Name spec)
     (createLoggingWriter F (lgb_componentName b) (lgb_loggingDirectory b) spec) b"

definition addStructuredLogger :: "fmt_api \<Rightarrow> StructuredLoggerSpec \<Rightarrow> loggingBuilder \<Rightarrow> loggingBuilder" where
  "addStructuredLogger F spec b = putLogger (createStructuredLoggingRule spec) (bls_Name spec)
     (createStructuredLoggingWriter F (lgb_componentName b) (lgb_loggingDirectory b) spec) b"

definition createLogging :: "fmt_api \<Rightarrow> InstanceSpec \<Rightarrow> string \<Rightarrow> TextLoggerSpec list \<Rightarrow> Logging" where
  "createLogging F spec componentName defaultLoggerSpecs =
     (let b0 = newLoggingBuilder (FindFirstLocation (is_Locations spec) LocationTypeLogs) componentName;
          b1 = fold (addLogger F) (if 0 < length (is_Loggers spec) then is_Loggers spec else defaultLoggerSpecs) b0;
          b2 = fold (addStructuredLogger F) (is_StructuredLoggers spec) b1
      in (lgb_logging b2)\<lparr>log_FlushPeriod := 3000\<rparr>)"

subsection \<open>Encoding\<close>

fun yson_family :: "LogFamily \<Rightarrow> yval" where
  "yson_family LogFamilyPlainText = YString ''plain_text''"
| "yson_family LogFamilyStructured = YString ''structured''"

definition yson_int64 :: "int64 \<Rightarrow> yval" where
  "yson_int64 n = YInt (sint n)"

definition yson_LoggingRule :: "LoggingRule \<Rightarrow> yval" where
  "yson_LoggingRule r = YMap (
     omit_list ''exclude_categories'' YString (lr_ExcludeCategories r) @
     omit_list ''include_categories'' YString (lr_IncludeCategories r) @
     omit_str ''min_level'' (log_level_string (lr_MinLevel r)) @
     omit_list ''writers'' YString (lr_Writers r) @
     omit_nil ''family'' yson_family (lr_Family r))"

definition yson_LogRotation :: "LogRotation \<Rightarrow> yval" where
  "yson_LogRotation p = YMap (
     omit_nil ''rotation_period'' yson_int64 (rot_RotationPeriodMilliseconds p) @
     omit_nil ''max_segment_size'' yson_int64 (rot_MaxSegmentSize p) @
     omit_nil ''max_total_size_to_keep'' yson_int64 (rot_MaxTotalSizeToKeep p) @
     omit_nil ''max_segment_count_to_keep'' yson_int64 (rot_MaxSegmentCountToKeep p))"

definition yson_LoggingWriter :: "LoggingWriter \<Rightarrow> yval" where
  "yson_LoggingWriter w = YMap (
     omit_str ''type'' (writer_type_string (lw_WriterType w)) @
     omit_str ''file_name'' (lw_FileName w) @
     omit_str ''format'' (log_format_string (lw_Format w)) @
     omit_str ''compression_method'' (lw_CompressionMethod w) @
     omit_bool ''enable_compression'' (lw_EnableCompression w) @
     omit_bool ''use_timestamp_suffix'' (lw_UseTimestampSuffix w) @
     omit_bool ''enable_system_messages'' (lw_EnableSystemMessages w) @
     omit_nil ''rotation_policy'' yson_LogRotation (lw_RotationPolicy w))"

definition yson_Logging :: "Logging \<Rightarrow> yval" where
  "yson_Logging l = YMap [
     (''writers'', YMap (map (\<lambda>(k, w). (k, yson_LoggingWriter w)) (log_Writers l))),
     (''rules'', YList (map yson_LoggingRule (log_Rules l))),
     (''flush_period'', YInt (log_FlushPeriod l))]"

subsection \<open>Every rule has its writer\<close>

text \<open>A logging section in which every rule names writers that are defined, once each.\<close>

definition logging_ok :: "Logging \<Rightarrow> bool" where
  "logging_ok l \<longleftrightarrow> distinct (map fst (log_Writers l)) \<and>
     (\<forall>r \<in> set (log_Rules l). set (lr_Writers r) \<subseteq> set (map fst (log_Writers l)))"

lemma logging_ok_putLogger:
  assumes "logging_ok (lgb_logging b)" and "set (lr_Writers rule) \<subseteq> {name}"
  shows "logging_ok (lgb_logging (putLogger rule name writer b))"
  using assms by (auto simp: logging_ok_def putLogger_def distinct_update dom_update)

lemma rule_writers:
  "lr_Writers (createLoggingRule t) = [bls_Name t]" "lr_Writers (createStructuredLoggingRule s) = [bls_Name s]"
  by (simp_all add: createLoggingRule_def createStructuredLoggingRule_def createBaseLoggingRule_def Let_def
      split: option.split CategoriesFilterType.split)

lemma logging_ok_add:
  "logging_ok (lgb_logging b) \<Longrightarrow> logging_ok (lgb_logging (addLogger F t b))"
  "logging_ok (lgb_logging b) \<Longrightarrow> logging_ok (lgb_logging (addStructuredLogger F s b))"
  by (simp_all add: addLogger_def addStructuredLogger_def logging_ok_putLogger rule_writers)

lemma logging_ok_fold:
  assumes "logging_ok (lgb_logging b)" and "\<And>x b. logging_ok (lgb_logging b) \<Longrightarrow> logging_ok (lgb_logging (f x b))"
  shows "logging_ok (lgb_logging (fold f xs b))"
  using assms(1) by (induction xs arbitrary: b) (simp_all add: assms(2))

lemma logging_ok_create: "logging_ok (createLogging F spec name ds)"
proof -
  have "logging_ok (lgb_logging (newLoggingBuilder l name))" for l
    by (simp add: newLoggingBuilder_def emptyLogging_def logging_ok_def)
  then have "logging_ok (lgb_logging (fold (addStructuredLogger F) ss (fold (addLogger F) ts (newLoggingBuilder l name))))" for l ss ts
    by (intro logging_ok_fold logging_ok_add)
  then show ?thesis by (simp add: createLogging_def logging_ok_def Let_def)
qed

end
