(* ===== verification/ConfigDocs.thy ===== *)
theory ConfigDocs
  imports Ytconfig Logging
begin

text \<open>
  The parts that the configuration documents of \<open>pkg/ytconfig\<close> share: the structs of \<open>common.go\<close> with
  their encoding, and the methods of \<open>generator.go\<close> that fill them.
\<close>

subsection \<open>Structs (common.go)\<close>

record AddressList =
  al_Addresses :: "string list"

record MasterCell = AddressList +
  mcell_Peers :: "HydraPeer list"
  mcell_CellID :: string

record MasterCache = AddressList +
  mcache_CellID :: string
  mcache_EnableMasterCacheDiscover :: bool

record Driver =
  drv_TimestampProviders :: AddressList
  drv_PrimaryMaster :: MasterCell
  drv_APIVersion :: int

record PemBlob =
  pem_FileName :: string
  pem_Value :: string

datatype EncryptionMode =
  EncryptionModeDisabled | EncryptionModeOptional | EncryptionModeRequired | EncryptionModeOther string

datatype VerificationMode =
  VerificationModeNone | VerificationModeCa | VerificationModeFull | VerificationModeOther string

record Bus =
  bus_EncryptionMode :: EncryptionMode
  bus_CertChain :: "PemBlob option"
  bus_PrivateKey :: "PemBlob option"
  bus_CipherList :: "string list"
  bus_CA :: "PemBlob option"
  bus_VerificationMode :: VerificationMode
  bus_PeerAlternativeHostName :: string

record ClusterConnection =
  cc_ClusterName :: string
  cc_PrimaryMaster :: MasterCell
  cc_DiscoveryConnection :: AddressList
  cc_BusClient :: "Bus option"
  cc_MasterCache :: MasterCache

record AddressResolver =
  ar_EnableIPv4 :: bool
  ar_EnableIPv6 :: bool
  ar_KeepSocket :: "bool option"
  ar_ForceTCP :: "bool option"
  ar_Retries :: "int option"
  ar_LocalhostNameOverride :: "string option"

record SolomonExporter =
  se_Host :: "string option"
  se_InstanceTags :: "(string \<times> string) list"

text \<open>\<open>BusServer\<close> embeds \<open>Bus\<close> and nothing else.\<close>

record BasicServer =
  bs_AddressResolver :: AddressResolver
  bs_SolomonExporter :: SolomonExporter
  bs_Logging :: Logging
  bs_MonitoringPort :: int32
  bs_RPCPort :: int32
  bs_BusServer :: "Bus option"

record CommonServer = BasicServer +
  csrv_TimestampProviders :: AddressList
  csrv_ClusterConnection :: ClusterConnection
  csrv_CypressAnnotations :: fields

record BindMount =
  bm_ExternalPath :: string
  bm_InternalPath :: string
  bm_ReadOnly :: bool

text \<open>Durations are counted in nanoseconds.\<close>

record RetryingChannel =
  rch_RetryBackoffTime :: int64
  rch_RetryAttempts :: int32
  rch_RetryTimeout :: int64

record IOEngine =
  io_EnableSync :: "bool option"

subsection \<open>Zero values\<close>

definition zero_MasterCell :: MasterCell where
  "zero_MasterCell = \<lparr>al_Addresses = [], mcell_Peers = [], mcell_CellID = []\<rparr>"

definition zero_Driver :: Driver where
  "zero_Driver = \<lparr>drv_TimestampProviders = \<lparr>al_Addresses = []\<rparr>, drv_PrimaryMaster = zero_MasterCell, drv_APIVersion = 0\<rparr>"

definition zero_Bus :: Bus where
  "zero_Bus = \<lparr>bus_EncryptionMode = EncryptionModeOther [], bus_CertChain = None, bus_PrivateKey = None,
     bus_CipherList = [], bus_CA = None, bus_VerificationMode = VerificationModeOther [], bus_PeerAlternativeHostName = []\<rparr>"

definition zero_ClusterConnection :: ClusterConnection where
  "zero_ClusterConnection = \<lparr>cc_ClusterName = [], cc_PrimaryMaster = zero_MasterCell,
     cc_DiscoveryConnection = \<lparr>al_Addresses = []\<rparr>, cc_BusClient = None,
     cc_MasterCache = \<lparr>al_Addresses = [], mcache_CellID = [], mcache_EnableMasterCacheDiscover = False\<rparr>\<rparr>"

definition zero_AddressResolver :: AddressResolver where
  "zero_AddressResolver = \<lparr>ar_EnableIPv4 = False, ar_EnableIPv6 = False, ar_KeepSocket = None, ar_ForceTCP = None,
     ar_Retries = None, ar_LocalhostNameOverride = None\<rparr>"

definition zero_CommonServer :: CommonServer where
  "zero_CommonServer = \<lparr>bs_AddressResolver = zero_AddressResolver, bs_SolomonExporter = \<lparr>se_Host = None, se_InstanceTags = []\<rparr>,
     bs_Logging = emptyLogging, bs_MonitoringPort = 0, bs_RPCPort = 0, bs_BusServer = None,
     csrv_TimestampProviders = \<lparr>al_Addresses = []\<rparr>, csrv_ClusterConnection = zero_ClusterConnection,
     csrv_CypressAnnotations = []\<rparr>"

subsection \<open>Encoding\<close>

definition ystrs :: "string list \<Rightarrow> yval" where
  "ystrs xs = YList (map YString xs)"

definition yson_int32 :: "int32 \<Rightarrow> yval" where
  "yson_int32 n = YInt (sint n)"

text \<open>\<open>yson.Duration\<close> is written in milliseconds.\<close>

definition yson_Duration :: "int64 \<Rightarrow> yval" where
  "yson_Duration d = YInt (sint d sdiv 1000000)"

definition omit_Duration :: "string \<Rightarrow> int64 \<Rightarrow> fields" where
  "omit_Duration k d = (if d = 0 then [] else [(k, yson_Duration d)])"

definition fields_AddressList :: "('z) AddressList_scheme \<Rightarrow> fields" where
  "fields_AddressList a = [(''addresses'', ystrs (al_Addresses a))]"

definition yson_HydraPeer :: "HydraPeer \<Rightarrow> yval" where
  "yson_HydraPeer p = YMap [(''address'', YString (peer_Address p)), (''voting'', YBool (peer_Voting p))]"

definition yson_MasterCell :: "MasterCell \<Rightarrow> yval" where
  "yson_MasterCell c = YMap (fields_AddressList c @
     [(''peers'', YList (map yson_HydraPeer (mcell_Peers c))), (''cell_id'', YString (mcell_CellID c))])"

definition yson_MasterCache :: "MasterCache \<Rightarrow> yval" where
  "yson_MasterCache c = YMap (fields_AddressList c @
     [(''cell_id'', YString (mcache_CellID c)), (''enable_master_cache_discovery'', YBool (mcache_EnableMasterCacheDiscover c))])"

definition yson_Driver :: "Driver \<Rightarrow> yval" where
  "yson_Driver d = YMap ([(''timestamp_provider'', YMap (fields_AddressList (drv_TimestampProviders d))),
     (''primary_master'', yson_MasterCell (drv_PrimaryMaster d))] @ omit_int ''api_version'' (drv_APIVersion d))"

definition yson_PemBlob :: "PemBlob \<Rightarrow> yval" where
  "yson_PemBlob p = YMap (omit_str ''file_name'' (pem_FileName p) @ omit_str ''value'' (pem_Value p))"

fun encryption_string :: "EncryptionMode \<Rightarrow> string" where
  "encryption_string EncryptionModeDisabled = ''disabled''"
| "encryption_string EncryptionModeOptional = ''optional''"
| "encryption_string EncryptionModeRequired = ''required''"
| "encryption_string (EncryptionModeOther s) = s"

fun verification_string :: "VerificationMode \<Rightarrow> string" where
  "verification_string VerificationModeNone = ''none''"
| "verification_string VerificationModeCa = ''ca''"
| "verification_string VerificationModeFull = ''full''"
| "verification_string (VerificationModeOther s) = s"

definition yson_Bus :: "Bus \<Rightarrow> yval" where
  "yson_Bus b = YMap (
     omit_str ''encryption_mode'' (encryption_string (bus_EncryptionMode b)) @
     omit_nil ''cert_chain'' yson_PemBlob (bus_CertChain b) @
     omit_nil ''private_key'' yson_PemBlob (bus_PrivateKey b) @
     omit_list ''cipher_list'' YString (bus_CipherList b) @
     omit_nil ''ca'' yson_PemBlob (bus_CA b) @
     omit_str ''verification_mode'' (verification_string (bus_VerificationMode b)) @
     omit_str ''peer_alternative_host_name'' (bus_PeerAlternativeHostName b))"

definition yson_ClusterConnection :: "ClusterConnection \<Rightarrow> yval" where
  "yson_ClusterConnection c = YMap (
     [(''cluster_name'', YString (cc_ClusterName c)), (''primary_master'', yson_MasterCell (cc_PrimaryMaster c)),
      (''discovery_connection'', YMap (fields_AddressList (cc_DiscoveryConnection c)))] @
     omit_nil ''bus_client'' yson_Bus (cc_BusClient c) @
     [(''master_cache'', yson_MasterCache (cc_MasterCache c))])"

definition yson_AddressResolver :: "AddressResolver \<Rightarrow> yval" where
  "yson_AddressResolver r = YMap (
     [(''enable_ipv4'', YBool (ar_EnableIPv4 r)), (''enable_ipv6'', YBool (ar_EnableIPv6 r))] @
     omit_nil ''keep_socket'' YBool (ar_KeepSocket r) @
     omit_nil ''force_tcp'' YBool (ar_ForceTCP r) @
     omit_nil ''retries'' YInt (ar_Retries r) @
     omit_nil ''localhost_name_override'' YString (ar_LocalhostNameOverride r))"

definition yson_SolomonExporter :: "SolomonExporter \<Rightarrow> yval" where
  "yson_SolomonExporter s = YMap (omit_nil ''host'' YString (se_Host s) @
     (if se_InstanceTags s = [] then []
      else [(''instance_tags'', YMap (map (\<lambda>(k, v). (k, YString v)) (se_InstanceTags s)))]))"

definition fields_BasicServer :: "('z) BasicServer_scheme \<Rightarrow> fields" where
  "fields_BasicServer s =
     [(''address_resolver'', yson_AddressResolver (bs_AddressResolver s)),
      (''solomon_exporter'', yson_SolomonExporter (bs_SolomonExporter s)),
      (''logging'', yson_Logging (bs_Logging s)), (''monitoring_port'', yson_int32 (bs_MonitoringPort s)),
      (''rpc_port'', yson_int32 (bs_RPCPort s))] @
     omit_nil ''bus_server'' yson_Bus (bs_BusServer s)"

definition fields_CommonServer :: "('z) CommonServer_scheme \<Rightarrow> fields" where
  "fields_CommonServer s = fields_BasicServer s @
     [(''timestamp_provider'', YMap (fields_AddressList (csrv_TimestampProviders s))),
      (''cluster_connection'', yson_ClusterConnection (csrv_ClusterConnection s))] @
     (if csrv_CypressAnnotations s = [] then [] else [(''cypress_annotations'', YMap (csrv_CypressAnnotations s))])"

definition yson_BindMount :: "BindMount \<Rightarrow> yval" where
  "yson_BindMount b = YMap [(''external_path'', YString (bm_ExternalPath b)), (''internal_path'', YString (bm_InternalPath b)),
     (''read_only'', YBool (bm_ReadOnly b))]"

definition fields_RetryingChannel :: "RetryingChannel \<Rightarrow> fields" where
  "fields_RetryingChannel c = omit_Duration ''retry_backoff_time'' (rch_RetryBackoffTime c) @
     omit_int ''retry_attempts'' (sint (rch_RetryAttempts c)) @ omit_Duration ''retry_timeout'' (rch_RetryTimeout c)"

definition yson_IOEngine :: "IOEngine \<Rightarrow> yval" where
  "yson_IOEngine i = YMap (omit_nil ''enable_sync'' YBool (io_EnableSync i))"

subsection \<open>Filling (generator.go)\<close>

definition fillIOEngine :: "('z) BaseGenerator_scheme \<Rightarrow> IOEngine option \<Rightarrow> IOEngine option" where
  "fillIOEngine g ioEngine = (if cs_EphemeralCluster (bg_commonSpec g)
     then Some ((case ioEngine of Some i \<Rightarrow> i | None \<Rightarrow> \<lparr>io_EnableSync = None\<rparr>)\<lparr>io_EnableSync := Some False\<rparr>)
     else ioEngine)"

definition fillAddressResolver :: "('z) BaseGenerator_scheme \<Rightarrow> AddressResolver \<Rightarrow> AddressResolver" where
  "fillAddressResolver g c =
     (let spec = bg_commonSpec g in
      c\<lparr>ar_EnableIPv4 := (cs_UseIPv4 spec \<or> \<not> cs_UseIPv6 spec), ar_EnableIPv6 := cs_UseIPv6 spec,
        ar_KeepSocket := cs_KeepSocket spec, ar_ForceTCP := cs_ForceTCP spec, ar_Retries := Some 1000\<rparr>)"

definition fillSolomonExporter :: "SolomonExporter \<Rightarrow> SolomonExporter" where
  "fillSolomonExporter c = c\<lparr>se_Host := Some ''{POD_SHORT_HOSTNAME}'', se_InstanceTags := [(''pod'', ''{K8S_POD_NAME}'')]\<rparr>"

definition fillPrimaryMaster :: "'w ext \<Rightarrow> ('z) BaseGenerator_scheme \<Rightarrow> MasterCell \<Rightarrow> MasterCell" where
  "fillPrimaryMaster E g c = c\<lparr>al_Addresses := getMasterAddresses g, mcell_Peers := getMasterHydraPeers g,
     mcell_CellID := generateCellID E (mcs_CellTag (bg_masterConnectionSpec g))\<rparr>"

definition fillDriver :: "'w ext \<Rightarrow> YtsaurusResource \<Rightarrow> ('z) BaseGenerator_scheme \<Rightarrow> Driver \<Rightarrow> Driver" where
  "fillDriver E r g c =
     (let cell = (drv_PrimaryMaster c)\<lparr>al_Addresses := getMasterAddresses g,
            mcell_CellID := generateCellID E (mcs_CellTag (ms_Connection (ys_PrimaryMasters (yr_Spec r))))\<rparr>
      in c\<lparr>drv_TimestampProviders := \<lparr>al_Addresses = getMasterAddresses g\<rparr>, drv_PrimaryMaster := fillPrimaryMaster E g cell\<rparr>)"

text \<open>The transport of a component, or else the common one: whose it is and what it says, if it has a secret.\<close>

definition transportWithSecret :: "('z) BaseGenerator_scheme \<Rightarrow> RPCTransportSpec option \<Rightarrow> (bool \<times> RPCTransportSpec) option" where
  "transportWithSecret g s =
     (let t = (case s of Some own \<Rightarrow> Some (True, own) | None \<Rightarrow> map_option (Pair False) (cs_NativeTransport (bg_commonSpec g)))
      in case t of None \<Rightarrow> None | Some (own, x) \<Rightarrow> if rt_TLSSecret x = None then None else Some (own, x))"

definition pemFile :: "string \<Rightarrow> PemBlob" where
  "pemFile f = \<lparr>pem_FileName = f, pem_Value = []\<rparr>"

definition fillClusterConnectionEncryption :: "('z) BaseGenerator_scheme \<Rightarrow> RPCTransportSpec option \<Rightarrow> ClusterConnection \<Rightarrow> ClusterConnection" where
  "fillClusterConnectionEncryption g s c = (case transportWithSecret g s of
       None \<Rightarrow> c
     | Some (own, x) \<Rightarrow>
         (let b0 = (case cc_BusClient c of Some b \<Rightarrow> b | None \<Rightarrow> zero_Bus);
              b1 = b0\<lparr>bus_CA := Some (pemFile (if cs_CABundle (bg_commonSpec g) \<noteq> None
                       then path_join CABundleMountPoint CABundleFileName else DefaultCABundlePath)),
                     bus_EncryptionMode := (if rt_TLSRequired x then EncryptionModeRequired else EncryptionModeOptional),
                     bus_VerificationMode := (if rt_TLSInsecure x then VerificationModeNone else VerificationModeFull)\<rparr>;
              b2 = (if rt_TLSPeerAlternativeHostName x \<noteq> [] then b1\<lparr>bus_PeerAlternativeHostName := rt_TLSPeerAlternativeHostName x\<rparr> else b1)
          in c\<lparr>cc_BusClient := Some b2\<rparr>))"

definition fillClusterConnection :: "'w ext \<Rightarrow> ('z) BaseGenerator_scheme \<Rightarrow> RPCTransportSpec option \<Rightarrow> ClusterConnection \<Rightarrow> ClusterConnection" where
  "fillClusterConnection E g s c0 =
     (let c1 = c0\<lparr>cc_PrimaryMaster := fillPrimaryMaster E g (cc_PrimaryMaster c0), cc_ClusterName := bg_Name g,
            cc_DiscoveryConnection := \<lparr>al_Addresses = getDiscoveryAddresses g\<rparr>\<rparr>;
          c2 = fillClusterConnectionEncryption g s c1;
          addresses = (if length (getMasterCachesAddresses g) = 0 then getMasterAddresses g else getMasterCachesAddresses g)
      in c2\<lparr>cc_MasterCache := (cc_MasterCache c2)\<lparr>al_Addresses := addresses,
            mcache_CellID := generateCellID E (mcs_CellTag (bg_masterConnectionSpec g))\<rparr>\<rparr>)"

definition cypressAnnotations :: fields where
  "cypressAnnotations = [(''k8s_pod_name'', YString ''{K8S_POD_NAME}''), (''k8s_pod_namespace'', YString ''{K8S_POD_NAMESPACE}''),
     (''k8s_node_name'', YString ''{K8S_NODE_NAME}''), (''physical_host'', YString ''{K8S_NODE_NAME}'')]"

definition fillCommonService :: "'w ext \<Rightarrow> ('z) BaseGenerator_scheme \<Rightarrow> InstanceSpec \<Rightarrow> ('y) CommonServer_scheme \<Rightarrow> ('y) CommonServer_scheme" where
  "fillCommonService E g s c =
     c\<lparr>bs_AddressResolver := fillAddressResolver g (bs_AddressResolver c),
       bs_SolomonExporter := fillSolomonExporter (bs_SolomonExporter c),
       csrv_ClusterConnection := fillClusterConnection E g (is_NativeTransport s) (csrv_ClusterConnection c),
       csrv_CypressAnnotations := cypressAnnotations,
       csrv_TimestampProviders := \<lparr>al_Addresses = getMasterAddresses g\<rparr>\<rparr>"

definition fillBusEncryption :: "RPCTransportSpec \<Rightarrow> Bus \<Rightarrow> Bus" where
  "fillBusEncryption s b = b\<lparr>bus_EncryptionMode := (if rt_TLSRequired s then EncryptionModeRequired else EncryptionModeOptional),
     bus_CertChain := Some (pemFile (path_join RPCSecretMountPoint ''tls.crt'')),
     bus_PrivateKey := Some (pemFile (path_join RPCSecretMountPoint ''tls.key''))\<rparr>"

text \<open>
  Encryption is required only by the component's own transport: the code compares the pointer with
  that of the common one.
\<close>

definition fillBusServer :: "('z) BaseGenerator_scheme \<Rightarrow> RPCTransportSpec option \<Rightarrow> ('y) CommonServer_scheme \<Rightarrow> ('y) CommonServer_scheme" where
  "fillBusServer g s c = (case transportWithSecret g s of
       None \<Rightarrow> c
     | Some (own, x) \<Rightarrow>
         c\<lparr>bs_BusServer := Some ((case bs_BusServer c of Some b \<Rightarrow> b | None \<Rightarrow> zero_Bus)
             \<lparr>bus_EncryptionMode := (if rt_TLSRequired x \<and> own then EncryptionModeRequired else EncryptionModeOptional),
              bus_CertChain := Some (pemFile (path_join BusSecretMountPoint ''tls.crt'')),
              bus_PrivateKey := Some (pemFile (path_join BusSecretMountPoint ''tls.key''))\<rparr>)\<rparr>)"

text \<open>A dereferenced pointer: nil panics.\<close>

definition deref :: "'a option \<Rightarrow> string + 'a" where
  "deref x = (case x of None \<Rightarrow> Inl ''panic'' | Some y \<Rightarrow> Inr y)"

definition sum_bind :: "string + 'a \<Rightarrow> ('a \<Rightarrow> string + 'b) \<Rightarrow> string + 'b" where
  "sum_bind r f = (case r of Inl e \<Rightarrow> Inl e | Inr x \<Rightarrow> f x)"

lemma sum_bind_simps [simp]: "sum_bind (Inl e) f = Inl e" "sum_bind (Inr x) f = f x"
  by (simp_all add: sum_bind_def)

lemma deref_simps [simp]: "deref None = Inl ''panic''" "deref (Some x) = Inr x"
  by (simp_all add: deref_def)

definition marshallYsonConfig :: "'w ext \<Rightarrow> fields \<Rightarrow> string + string" where
  "marshallYsonConfig E c = f_yson_marshal (x_fmt E) (YMap c)"

end
