(* ===== verification/ServerDocs.thy ===== *)
theory ServerDocs
  imports ConfigDocs
begin

text \<open>
  The configuration documents of the servers other than nodes: \<open>master.go\<close>, \<open>proxy.go\<close>,
  \<open>scheduler.go\<close>, \<open>discovery.go\<close>, \<open>master_caches.go\<close>, \<open>query_tracker.go\<close>, \<open>queue_agent.go\<close>,
  \<open>yql_agent.go\<close>, \<open>ui.go\<close> and \<open>chyt.go\<close> of \<open>pkg/ytconfig\<close>, with the methods of \<open>generator.go\<close> that
  complete them. An error is its message, a nil pointer that is dereferenced the message \<open>panic\<close>.
\<close>

definition defaultLoggers :: "TextLoggerSpec list" where
  "defaultLoggers = [defaultInfoLoggerSpec, defaultStderrLoggerSpec]"

subsection \<open>Masters\<close>

record MasterChangelogs =
  mch_Path :: string
  mch_IOEngine :: "IOEngine option"

record HydraManager =
  hm_MaxChangelogCountToKeep :: int
  hm_MaxSnapshotCountToKeep :: int

record CypressManager =
  cym_DefaultTableReplicationFactor :: int
  cym_DefaultFileReplicationFactor :: int
  cym_DefaultJournalReplicationFactor :: int
  cym_DefaultJournalReadQuorum :: int
  cym_DefaultJournalWriteQuorum :: int

text \<open>\<open>MasterSnapshots\<close> is a struct with the path only.\<close>

record MasterServer = CommonServer +
  msv_SnapshotsPath :: string
  msv_Changelogs :: MasterChangelogs
  msv_UseNewHydra :: bool
  msv_HydraManager :: HydraManager
  msv_CypressManager :: CypressManager
  msv_PrimaryMaster :: MasterCell
  msv_SecondaryMasters :: "MasterCell list"

definition zero_CypressManager :: CypressManager where
  "zero_CypressManager = \<lparr>cym_DefaultTableReplicationFactor = 0, cym_DefaultFileReplicationFactor = 0,
     cym_DefaultJournalReplicationFactor = 0, cym_DefaultJournalReadQuorum = 0, cym_DefaultJournalWriteQuorum = 0\<rparr>"

definition getMasterLogging :: "fmt_api \<Rightarrow> MastersSpec \<Rightarrow> Logging" where
  "getMasterLogging F spec = createLogging F (ms_Instance spec) ''master'' defaultLoggers"

definition getMasterServerCarcass :: "fmt_api \<Rightarrow> MastersSpec \<Rightarrow> string + MasterServer" where
  "getMasterServerCarcass F spec =
     sum_bind (deref (is_MonitoringPort (ms_Instance spec))) (\<lambda>port.
     (case FindFirstLocation (is_Locations (ms_Instance spec)) LocationTypeMasterChangelogs of
        None \<Rightarrow> Inl ''error creating master config: changelog location not found''
      | Some changelogs \<Rightarrow>
     (case FindFirstLocation (is_Locations (ms_Instance spec)) LocationTypeMasterSnapshots of
        None \<Rightarrow> Inl ''error creating master config: snapshot location not found''
      | Some snapshots \<Rightarrow>
          Inr (CommonServer.extend
            (zero_CommonServer\<lparr>bs_RPCPort := MasterRPCPort, bs_MonitoringPort := port, bs_Logging := getMasterLogging F spec\<rparr>)
            \<lparr>msv_SnapshotsPath = loc_Path snapshots,
             msv_Changelogs = \<lparr>mch_Path = loc_Path changelogs, mch_IOEngine = None\<rparr>,
             msv_UseNewHydra = True,
             msv_HydraManager = \<lparr>hm_MaxChangelogCountToKeep = (case ms_MaxChangelogCountToKeep spec of Some n \<Rightarrow> n | None \<Rightarrow> 10),
               hm_MaxSnapshotCountToKeep = (case ms_MaxSnapshotCountToKeep spec of Some n \<Rightarrow> n | None \<Rightarrow> 10)\<rparr>,
             msv_CypressManager = zero_CypressManager, msv_PrimaryMaster = zero_MasterCell,
             msv_SecondaryMasters = []\<rparr>))))"

definition configureMasterServerCypressManager :: "int32 \<Rightarrow> CypressManager \<Rightarrow> CypressManager" where
  "configureMasterServerCypressManager maxReplicationFactor c =
     (let n = sint maxReplicationFactor;
          fill = (\<lambda>rq wq t f j. c\<lparr>cym_DefaultJournalReadQuorum := rq, cym_DefaultJournalWriteQuorum := wq,
            cym_DefaultTableReplicationFactor := t, cym_DefaultFileReplicationFactor := f,
            cym_DefaultJournalReplicationFactor := j\<rparr>)
      in if n \<le> 1 then fill 1 1 1 1 1
         else if n = 2 then fill 2 2 2 2 2
         else if n \<ge> 3 \<and> n < 5 then fill 2 2 3 3 3
         else if n \<ge> 5 then fill 3 3 3 3 5
         else c)"

definition getMasterConfigImpl :: "'w ext \<Rightarrow> YtsaurusResource \<Rightarrow> ('z) BaseGenerator_scheme \<Rightarrow> MastersSpec \<Rightarrow> string + MasterServer" where
  "getMasterConfigImpl E r g spec =
     sum_bind (getMasterServerCarcass (x_fmt E) spec) (\<lambda>c0.
     (let c1 = c0\<lparr>msv_Changelogs := (msv_Changelogs c0)\<lparr>mch_IOEngine := fillIOEngine g (mch_IOEngine (msv_Changelogs c0))\<rparr>\<rparr>;
          c2 = fillBusServer g (is_NativeTransport (ms_Instance spec)) (fillCommonService E g (ms_Instance spec) c1);
          c3 = c2\<lparr>msv_PrimaryMaster := fillPrimaryMaster E g (msv_PrimaryMaster c2),
                  msv_CypressManager := configureMasterServerCypressManager (GetMaxReplicationFactor g) (msv_CypressManager c2)\<rparr>;
          hostNetwork = (case is_HostNetwork (ms_Instance spec) of Some b \<Rightarrow> b | None \<Rightarrow> cs_HostNetwork (ys_Common (yr_Spec r)))
      in Inr (if hostNetwork \<and> length (mcs_HostAddresses (ms_Connection spec)) = 0
              then c3\<lparr>bs_AddressResolver := (bs_AddressResolver c3)\<lparr>ar_LocalhostNameOverride :=
                     Some (''{K8S_POD_NAME}'' @ ''.'' @ getMasterPodFqdnSuffix g)\<rparr>\<rparr>
              else c3)))"

definition fields_MasterServer :: "MasterServer \<Rightarrow> fields" where
  "fields_MasterServer c = fields_CommonServer c @
     [(''snapshots'', YMap [(''path'', YString (msv_SnapshotsPath c))]),
      (''changelogs'', YMap ([(''path'', YString (mch_Path (msv_Changelogs c)))] @
         omit_nil ''io_engine'' yson_IOEngine (mch_IOEngine (msv_Changelogs c)))),
      (''use_new_hydra'', YBool (msv_UseNewHydra c)),
      (''hydra_manager'', YMap [(''max_changelog_count_to_keep'', YInt (hm_MaxChangelogCountToKeep (msv_HydraManager c))),
         (''max_snapshot_count_to_keep'', YInt (hm_MaxSnapshotCountToKeep (msv_HydraManager c)))]),
      (''cypress_manager'', YMap (
         omit_int ''default_table_replication_factor'' (cym_DefaultTableReplicationFactor (msv_CypressManager c)) @
         omit_int ''default_file_replication_factor'' (cym_DefaultFileReplicationFactor (msv_CypressManager c)) @
         omit_int ''default_journal_replication_factor'' (cym_DefaultJournalReplicationFactor (msv_CypressManager c)) @
         omit_int ''default_journal_read_quorum'' (cym_DefaultJournalReadQuorum (msv_CypressManager c)) @
         omit_int ''default_journal_write_quorum'' (cym_DefaultJournalWriteQuorum (msv_CypressManager c)))),
      (''primary_master'', yson_MasterCell (msv_PrimaryMaster c)),
      (''secondary_masters'', YList (map yson_MasterCell (msv_SecondaryMasters c)))]"

subsection \<open>Proxies\<close>

record OauthService =
  os_Host :: string
  os_Port :: int
  os_Secure :: bool
  os_UserInfoEndpoint :: string
  os_UserInfoLoginField :: string
  os_UserInfoErrorField :: "string option"

text \<open>
  The cookie and user managers and the OAuth authenticators are empty structs: only whether the
  pointers to the latter are set is kept. \<open>CypressTokenAuthenticator\<close> holds the flag \<open>Secure\<close>.
\<close>

record Auth =
  au_TokenSecure :: bool
  au_OauthService :: "OauthService option"
  au_OauthCookieAuthenticator :: bool
  au_OauthTokenAuthenticator :: bool
  au_RequireAuthentication :: bool

record HTTPSServer =
  hts_Port :: int
  hts_CertChain :: PemBlob
  hts_PrivateKey :: PemBlob
  hts_UpdatePeriod :: int64

text \<open>\<open>hpx_Coordinator\<close> is whether the coordinator is enabled and the default role filter.\<close>

record HTTPProxyServer = CommonServer +
  hpx_Port :: int
  hpx_Auth :: Auth
  hpx_Coordinator :: "bool \<times> string"
  hpx_Driver :: Driver
  hpx_Role :: string
  hpx_HTTPSServer :: "HTTPSServer option"

record NativeClient =
  nc_AddressResolver :: AddressResolver
  nc_Logging :: Logging
  nc_Driver :: Driver

record RPCProxyServer = CommonServer +
  rpx_Role :: string
  rpx_TokenSecure :: bool
  rpx_OauthService :: "OauthService option"
  rpx_OauthTokenAuthenticator :: bool
  rpx_RequireAuthentication :: "bool option"

record TCPProxyServer = CommonServer +
  tpx_Role :: string

definition oauthOf :: "OauthServiceSpec \<Rightarrow> OauthService" where
  "oauthOf oa = \<lparr>os_Host = oa_Host oa, os_Port = oa_Port oa, os_Secure = oa_Secure oa,
     os_UserInfoEndpoint = ouh_Endpoint (oa_UserInfo oa), os_UserInfoLoginField = ouh_LoginField (oa_UserInfo oa),
     os_UserInfoErrorField = ouh_ErrorField (oa_UserInfo oa)\<rparr>"

definition getHTTPProxyLogging :: "fmt_api \<Rightarrow> HTTPProxiesSpec \<Rightarrow> Logging" where
  "getHTTPProxyLogging F spec = createLogging F (hps_Instance spec) ''http-proxy'' defaultLoggers"

definition getHTTPProxyServerCarcass :: "fmt_api \<Rightarrow> HTTPProxiesSpec \<Rightarrow> string + HTTPProxyServer" where
  "getHTTPProxyServerCarcass F spec =
     sum_bind (deref (is_MonitoringPort (hps_Instance spec))) (\<lambda>port.
     Inr (CommonServer.extend
       (zero_CommonServer\<lparr>bs_RPCPort := HTTPProxyRPCPort, bs_MonitoringPort := port, bs_Logging := getHTTPProxyLogging F spec\<rparr>)
       \<lparr>hpx_Port = HTTPProxyHTTPPort,
        hpx_Auth = \<lparr>au_TokenSecure = True, au_OauthService = None, au_OauthCookieAuthenticator = False,
          au_OauthTokenAuthenticator = False, au_RequireAuthentication = True\<rparr>,
        hpx_Coordinator = (True, DefaultHTTPProxyRole), hpx_Driver = zero_Driver, hpx_Role = hps_Role spec,
        hpx_HTTPSServer = (if ht_HTTPSSecret (hps_Transport spec) \<noteq> None
          then Some \<lparr>hts_Port = HTTPProxyHTTPSPort, hts_CertChain = pemFile (path_join HTTPSSecretMountPoint ''tls.crt''),
            hts_PrivateKey = pemFile (path_join HTTPSSecretMountPoint ''tls.key''), hts_UpdatePeriod = HTTPSSecretUpdatePeriod\<rparr>
          else None)\<rparr>))"

definition getHTTPProxyConfigImpl :: "'w ext \<Rightarrow> YtsaurusResource \<Rightarrow> ('z) BaseGenerator_scheme \<Rightarrow> HTTPProxiesSpec \<Rightarrow> string + HTTPProxyServer" where
  "getHTTPProxyConfigImpl E r g spec =
     sum_bind (getHTTPProxyServerCarcass (x_fmt E) spec) (\<lambda>c0.
     (let c1 = c0\<lparr>hpx_Driver := fillDriver E r g (hpx_Driver c0)\<rparr>;
          c2 = fillBusServer g (is_NativeTransport (hps_Instance spec)) (fillCommonService E g (hps_Instance spec) c1)
      in Inr (case ys_OauthService (yr_Spec r) of
                None \<Rightarrow> c2
              | Some oa \<Rightarrow> c2\<lparr>hpx_Auth := (hpx_Auth c2)\<lparr>au_OauthService := Some (oauthOf oa),
                  au_OauthCookieAuthenticator := True, au_OauthTokenAuthenticator := True\<rparr>\<rparr>)))"

definition getRPCProxyLogging :: "fmt_api \<Rightarrow> RPCProxiesSpec \<Rightarrow> Logging" where
  "getRPCProxyLogging F spec = createLogging F (rps_Instance spec) ''rpc-proxy'' defaultLoggers"

definition getRPCProxyServerCarcass :: "fmt_api \<Rightarrow> RPCProxiesSpec \<Rightarrow> string + RPCProxyServer" where
  "getRPCProxyServerCarcass F spec =
     sum_bind (deref (is_MonitoringPort (rps_Instance spec))) (\<lambda>port.
     Inr (CommonServer.extend
       (zero_CommonServer\<lparr>bs_RPCPort := RPCProxyRPCPort, bs_MonitoringPort := port, bs_Logging := getRPCProxyLogging F spec\<rparr>)
       \<lparr>rpx_Role = rps_Role spec, rpx_TokenSecure = True, rpx_OauthService = None,
        rpx_OauthTokenAuthenticator = False, rpx_RequireAuthentication = None\<rparr>))"

definition getRPCProxyConfigImpl :: "'w ext \<Rightarrow> YtsaurusResource \<Rightarrow> ('z) BaseGenerator_scheme \<Rightarrow> RPCProxiesSpec \<Rightarrow> string + RPCProxyServer" where
  "getRPCProxyConfigImpl E r g spec =
     sum_bind (getRPCProxyServerCarcass (x_fmt E) spec) (\<lambda>c0.
     (let c1 = fillCommonService E g (rps_Instance spec) c0
      in Inr (case ys_OauthService (yr_Spec r) of
                None \<Rightarrow> c1
              | Some oa \<Rightarrow> c1\<lparr>rpx_OauthService := Some (oauthOf oa), rpx_OauthTokenAuthenticator := True,
                  rpx_RequireAuthentication := Some True\<rparr>)))"

definition getTCPProxyLogging :: "fmt_api \<Rightarrow> TCPProxiesSpec \<Rightarrow> Logging" where
  "getTCPProxyLogging F spec = createLogging F (tps_Instance spec) ''tcp-proxy'' defaultLoggers"

definition getTCPProxyServerCarcass :: "fmt_api \<Rightarrow> TCPProxiesSpec \<Rightarrow> string + TCPProxyServer" where
  "getTCPProxyServerCarcass F spec =
     sum_bind (deref (is_MonitoringPort (tps_Instance spec))) (\<lambda>port.
     Inr (CommonServer.extend
       (zero_CommonServer\<lparr>bs_MonitoringPort := port, bs_Logging := getTCPProxyLogging F spec\<rparr>)
       \<lparr>tpx_Role = tps_Role spec\<rparr>))"

definition getTCPProxyConfigImpl :: "'w ext \<Rightarrow> ('z) BaseGenerator_scheme \<Rightarrow> TCPProxiesSpec \<Rightarrow> string + TCPProxyServer" where
  "getTCPProxyConfigImpl E g spec =
     sum_bind (getTCPProxyServerCarcass (x_fmt E) spec) (\<lambda>c. Inr (fillCommonService E g (tps_Instance spec) c))"

definition getNativeClientCarcass :: NativeClient where
  "getNativeClientCarcass = \<lparr>nc_AddressResolver = zero_AddressResolver,
     nc_Logging = lgb_logging (newLoggingBuilder None ''client''), nc_Driver = zero_Driver\<rparr>"

definition yson_OauthService :: "OauthService \<Rightarrow> yval" where
  "yson_OauthService oa = YMap ([(''host'', YString (os_Host oa)), (''port'', YInt (os_Port oa)), (''secure'', YBool (os_Secure oa)),
     (''user_info_endpoint'', YString (os_UserInfoEndpoint oa)), (''user_info_login_field'', YString (os_UserInfoLoginField oa))] @
     omit_nil ''user_info_error_field'' YString (os_UserInfoErrorField oa))"

definition yson_Auth :: "Auth \<Rightarrow> yval" where
  "yson_Auth a = YMap ([(''cypress_cookie_manager'', YMap []), (''cypress_user_manager'', YMap []),
     (''cypress_token_authenticator'', YMap [(''secure'', YBool (au_TokenSecure a))])] @
     omit_nil ''oauth_service'' yson_OauthService (au_OauthService a) @
     (if au_OauthCookieAuthenticator a then [(''oauth_cookie_authenticator'', YMap [])] else []) @
     (if au_OauthTokenAuthenticator a then [(''oauth_token_authenticator'', YMap [])] else []) @
     [(''require_authentication'', YBool (au_RequireAuthentication a))])"

definition yson_HTTPSServer :: "HTTPSServer \<Rightarrow> yval" where
  "yson_HTTPSServer s = YMap [(''port'', YInt (hts_Port s)), (''credentials'', YMap (
     [(''cert_chain'', yson_PemBlob (hts_CertChain s)), (''private_key'', yson_PemBlob (hts_PrivateKey s))] @
     omit_Duration ''update_period'' (hts_UpdatePeriod s)))]"

definition fields_HTTPProxyServer :: "HTTPProxyServer \<Rightarrow> fields" where
  "fields_HTTPProxyServer c = fields_CommonServer c @
     [(''port'', YInt (hpx_Port c)), (''auth'', yson_Auth (hpx_Auth c)),
      (''coordinator'', YMap [(''enable'', YBool (fst (hpx_Coordinator c))), (''default_role_filter'', YString (snd (hpx_Coordinator c)))]),
      (''driver'', yson_Driver (hpx_Driver c)), (''role'', YString (hpx_Role c))] @
     omit_nil ''https_server'' yson_HTTPSServer (hpx_HTTPSServer c)"

definition fields_NativeClient :: "NativeClient \<Rightarrow> fields" where
  "fields_NativeClient c = [(''address_resolver'', yson_AddressResolver (nc_AddressResolver c)),
     (''logging'', yson_Logging (nc_Logging c)), (''driver'', yson_Driver (nc_Driver c))]"

definition fields_RPCProxyServer :: "RPCProxyServer \<Rightarrow> fields" where
  "fields_RPCProxyServer c = fields_CommonServer c @
     [(''role'', YString (rpx_Role c)), (''cypress_user_manager'', YMap []),
      (''cypress_token_authenticator'', YMap [(''secure'', YBool (rpx_TokenSecure c))])] @
     omit_nil ''oauth_service'' yson_OauthService (rpx_OauthService c) @
     (if rpx_OauthTokenAuthenticator c then [(''oauth_token_authenticator'', YMap [])] else []) @
     omit_nil ''require_authentication'' YBool (rpx_RequireAuthentication c)"

definition fields_TCPProxyServer :: "TCPProxyServer \<Rightarrow> fields" where
  "fields_TCPProxyServer c = fields_CommonServer c @ [(''role'', YString (tpx_Role c))]"

subsection \<open>Servers with a plain carcass\<close>

text \<open>The carcass of a server: its port, the monitoring port and the logging section.\<close>

definition serverCarcass :: "int32 \<Rightarrow> InstanceSpec \<Rightarrow> Logging \<Rightarrow> 'a \<Rightarrow> string + 'a CommonServer_scheme" where
  "serverCarcass rpcPort spec logging rest = sum_bind (deref (is_MonitoringPort spec)) (\<lambda>port.
     Inr \<lparr>bs_AddressResolver = zero_AddressResolver, bs_SolomonExporter = \<lparr>se_Host = None, se_InstanceTags = []\<rparr>,
       bs_Logging = logging, bs_MonitoringPort = port, bs_RPCPort = rpcPort, bs_BusServer = None,
       csrv_TimestampProviders = \<lparr>al_Addresses = []\<rparr>, csrv_ClusterConnection = zero_ClusterConnection,
       csrv_CypressAnnotations = [], \<dots> = rest\<rparr>)"

text \<open>The common service and the bus server filled in.\<close>

definition fillServer :: "'w ext \<Rightarrow> ('z) BaseGenerator_scheme \<Rightarrow> InstanceSpec \<Rightarrow> ('y) CommonServer_scheme \<Rightarrow> ('y) CommonServer_scheme" where
  "fillServer E g spec c = fillBusServer g (is_NativeTransport spec) (fillCommonService E g spec c)"

record SchedulerServer = CommonServer +
  scs_EnableOperationArchivation :: "bool option"

record ControllerAgentServer = CommonServer +
  cas_EnableTmpfs :: bool
  cas_UseColumnarStatisticsDefault :: bool

record DiscoveryServer = CommonServer +
  dsv_Addresses :: "string list"

record QueryTrackerServer = CommonServer +
  qts_User :: string
  qts_CreateStateTablesOnStartup :: bool

record QueueAgentServer = CommonServer +
  qas_User :: string
  qas_Stage :: string

definition getSchedulerLogging :: "fmt_api \<Rightarrow> InstanceSpec \<Rightarrow> Logging" where
  "getSchedulerLogging F spec = createLogging F spec ''scheduler'' defaultLoggers"

definition getSchedulerServerCarcass :: "fmt_api \<Rightarrow> InstanceSpec \<Rightarrow> string + SchedulerServer" where
  "getSchedulerServerCarcass F spec = serverCarcass SchedulerRPCPort spec (getSchedulerLogging F spec) \<lparr>scs_EnableOperationArchivation = None\<rparr>"

definition getSchedulerConfigImpl :: "'w ext \<Rightarrow> YtsaurusResource \<Rightarrow> ('z) BaseGenerator_scheme \<Rightarrow> InstanceSpec \<Rightarrow> string + SchedulerServer" where
  "getSchedulerConfigImpl E r g spec = sum_bind (getSchedulerServerCarcass (x_fmt E) spec) (\<lambda>c.
     Inr (fillServer E g spec (if length (ys_TabletNodes (yr_Spec r)) = 0
       then c\<lparr>scs_EnableOperationArchivation := Some False\<rparr> else c)))"

definition fields_SchedulerServer :: "SchedulerServer \<Rightarrow> fields" where
  "fields_SchedulerServer c = fields_CommonServer c @ [(''scheduler'', YMap [(''operations_cleaner'', YMap (
     omit_nil ''enable_operation_archivation'' YBool (scs_EnableOperationArchivation c)))])]"

definition getControllerAgentLogging :: "fmt_api \<Rightarrow> InstanceSpec \<Rightarrow> Logging" where
  "getControllerAgentLogging F spec = createLogging F spec ''controller-agent'' defaultLoggers"

definition getControllerAgentServerCarcass :: "fmt_api \<Rightarrow> InstanceSpec \<Rightarrow> string + ControllerAgentServer" where
  "getControllerAgentServerCarcass F spec = serverCarcass ControllerAgentRPCPort spec (getControllerAgentLogging F spec)
     \<lparr>cas_EnableTmpfs = False, cas_UseColumnarStatisticsDefault = False\<rparr>"

definition getControllerAgentConfigImpl :: "'w ext \<Rightarrow> ('z) BaseGenerator_scheme \<Rightarrow> InstanceSpec \<Rightarrow> string + ControllerAgentServer" where
  "getControllerAgentConfigImpl E g spec = sum_bind (getControllerAgentServerCarcass (x_fmt E) spec) (\<lambda>c.
     Inr (fillServer E g spec (c\<lparr>cas_EnableTmpfs := True, cas_UseColumnarStatisticsDefault := True\<rparr>)))"

definition fields_ControllerAgentServer :: "ControllerAgentServer \<Rightarrow> fields" where
  "fields_ControllerAgentServer c = fields_CommonServer c @ [(''controller_agent'', YMap [
     (''enable_tmpfs'', YBool (cas_EnableTmpfs c)), (''use_columnar_statistics_default'', YBool (cas_UseColumnarStatisticsDefault c))])]"

definition getDiscoveryLogging :: "fmt_api \<Rightarrow> InstanceSpec \<Rightarrow> Logging" where
  "getDiscoveryLogging F spec = createLogging F spec ''discovery'' defaultLoggers"

definition getDiscoveryServerCarcass :: "fmt_api \<Rightarrow> InstanceSpec \<Rightarrow> string + DiscoveryServer" where
  "getDiscoveryServerCarcass F spec = serverCarcass DiscoveryRPCPort spec (getDiscoveryLogging F spec) \<lparr>dsv_Addresses = []\<rparr>"

definition getDiscoveryConfigImpl :: "'w ext \<Rightarrow> ('z) BaseGenerator_scheme \<Rightarrow> InstanceSpec \<Rightarrow> string + DiscoveryServer" where
  "getDiscoveryConfigImpl E g spec = sum_bind (getDiscoveryServerCarcass (x_fmt E) spec) (\<lambda>c.
     Inr ((fillServer E g spec c)\<lparr>dsv_Addresses := getDiscoveryAddresses g\<rparr>))"

definition fields_DiscoveryServer :: "DiscoveryServer \<Rightarrow> fields" where
  "fields_DiscoveryServer c = fields_CommonServer c @ [(''discovery_server'', YMap [(''server_addresses'', ystrs (dsv_Addresses c))])]"

definition getMasterCachesLogging :: "fmt_api \<Rightarrow> MasterCachesSpec \<Rightarrow> Logging" where
  "getMasterCachesLogging F spec = createLogging F (mc_Instance spec) ''master-cache'' defaultLoggers"

definition getMasterCachesCarcass :: "fmt_api \<Rightarrow> MasterCachesSpec \<Rightarrow> string + CommonServer" where
  "getMasterCachesCarcass F spec = serverCarcass MasterCachesRPCPort (mc_Instance spec) (getMasterCachesLogging F spec) ()"

definition getMasterCachesConfigImpl :: "'w ext \<Rightarrow> ('z) BaseGenerator_scheme \<Rightarrow> MasterCachesSpec \<Rightarrow> string + CommonServer" where
  "getMasterCachesConfigImpl E g spec = sum_bind (getMasterCachesCarcass (x_fmt E) spec) (\<lambda>c.
     Inr (fillCommonService E g (mc_Instance spec) c))"

definition getQueryTrackerLogging :: "fmt_api \<Rightarrow> InstanceSpec \<Rightarrow> Logging" where
  "getQueryTrackerLogging F spec = createLogging F spec ''query-tracker'' defaultLoggers"

definition getQueryTrackerServerCarcass :: "fmt_api \<Rightarrow> InstanceSpec \<Rightarrow> string + QueryTrackerServer" where
  "getQueryTrackerServerCarcass F spec = serverCarcass QueryTrackerRPCPort spec (getQueryTrackerLogging F spec)
     \<lparr>qts_User = ''query_tracker'', qts_CreateStateTablesOnStartup = True\<rparr>"

definition getQueryTrackerConfigImpl :: "'w ext \<Rightarrow> ('z) BaseGenerator_scheme \<Rightarrow> InstanceSpec \<Rightarrow> string + QueryTrackerServer" where
  "getQueryTrackerConfigImpl E g spec = sum_bind (getQueryTrackerServerCarcass (x_fmt E) spec) (\<lambda>c. Inr (fillServer E g spec c))"

definition fields_QueryTrackerServer :: "QueryTrackerServer \<Rightarrow> fields" where
  "fields_QueryTrackerServer c = fields_CommonServer c @
     [(''user'', YString (qts_User c)), (''create_state_tables_on_startup'', YBool (qts_CreateStateTablesOnStartup c))]"

definition getQueueAgentLogging :: "fmt_api \<Rightarrow> InstanceSpec \<Rightarrow> Logging" where
  "getQueueAgentLogging F spec = createLogging F spec ''queue-agent'' defaultLoggers"

definition getQueueAgentServerCarcass :: "fmt_api \<Rightarrow> InstanceSpec \<Rightarrow> string + QueueAgentServer" where
  "getQueueAgentServerCarcass F spec = serverCarcass QueueAgentRPCPort spec (getQueueAgentLogging F spec)
     \<lparr>qas_User = ''queue_agent'', qas_Stage = ''production''\<rparr>"

definition getQueueAgentConfigImpl :: "'w ext \<Rightarrow> ('z) BaseGenerator_scheme \<Rightarrow> InstanceSpec \<Rightarrow> string + QueueAgentServer" where
  "getQueueAgentConfigImpl E g spec = sum_bind (getQueueAgentServerCarcass (x_fmt E) spec) (\<lambda>c. Inr (fillServer E g spec c))"

definition fields_QueueAgentServer :: "QueueAgentServer \<Rightarrow> fields" where
  "fields_QueueAgentServer c = fields_CommonServer c @
     [(''user'', YString (qas_User c)), (''queue_agent'', YMap [(''stage'', YString (qas_Stage c))])]"

subsection \<open>YQL agents\<close>

record ClusterMapping =
  cmap_Name :: string
  cmap_Cluster :: string
  cmap_Default :: bool

record GatewayConfig =
  gw_MRJobBinary :: string
  gw_UDFDirectory :: string
  gw_ClusterMapping :: "ClusterMapping list"

record YQLAgent =
  yqa_GatewayConfig :: GatewayConfig
  yqa_YqlPluginSharedLibrary :: string
  yqa_YTTokenPath :: string
  yqa_MRJobBinary :: string
  yqa_UDFDirectory :: string
  yqa_AdditionalClusters :: "(string \<times> string) list"
  yqa_DefaultCluster :: string

record YQLAgentServer = CommonServer +
  yqs_User :: string
  yqs_YQLAgent :: YQLAgent

definition getYQLAgentLogging :: "fmt_api \<Rightarrow> InstanceSpec \<Rightarrow> Logging" where
  "getYQLAgentLogging F spec = createLogging F spec ''yql-agent''
     [defaultInfoLoggerSpec, defaultDebugLoggerSpec, defaultStderrLoggerSpec]"

definition getYQLAgentServerCarcass :: "fmt_api \<Rightarrow> InstanceSpec \<Rightarrow> string + YQLAgentServer" where
  "getYQLAgentServerCarcass F spec = serverCarcass YQLAgentRPCPort spec (getYQLAgentLogging F spec)
     \<lparr>yqs_User = ''yql_agent'', yqs_YQLAgent =
        \<lparr>yqa_GatewayConfig = \<lparr>gw_MRJobBinary = ''/usr/bin/mrjob'', gw_UDFDirectory = ''/usr/lib/yql'', gw_ClusterMapping = []\<rparr>,
         yqa_YqlPluginSharedLibrary = ''/usr/lib/yql/libyqlplugin.so'', yqa_YTTokenPath = DefaultYqlTokenPath,
         yqa_MRJobBinary = ''/usr/bin/mrjob'', yqa_UDFDirectory = ''/usr/lib/yql'', yqa_AdditionalClusters = [],
         yqa_DefaultCluster = []\<rparr>\<rparr>"

text \<open>The default address of the HTTP proxies, computed from the resource the generator points to.\<close>

definition httpProxies :: "YtsaurusResource \<Rightarrow> ('z) BaseGenerator_scheme \<Rightarrow> string \<Rightarrow> string" where
  "httpProxies r g name = svcSuffix name (om_Namespace (yr_Meta r)) (bg_clusterDomain g)"

definition getYQLAgentConfigImpl :: "'w ext \<Rightarrow> YtsaurusResource \<Rightarrow> ('z) BaseGenerator_scheme \<Rightarrow> InstanceSpec \<Rightarrow> string + YQLAgentServer" where
  "getYQLAgentConfigImpl E r g spec = sum_bind (getYQLAgentServerCarcass (x_fmt E) spec) (\<lambda>c0.
     (let c = fillServer E g spec c0; a = yqs_YQLAgent c; name = om_Name (yr_Meta r);
          address = httpProxies r g (GetHTTPProxiesHeadlessServiceName g DefaultHTTPProxyRole)
      in Inr (c\<lparr>yqs_YQLAgent := a\<lparr>yqa_GatewayConfig := (yqa_GatewayConfig a)\<lparr>gw_ClusterMapping :=
              [\<lparr>cmap_Name = name, cmap_Cluster = address, cmap_Default = True\<rparr>]\<rparr>,
            yqa_AdditionalClusters := [(name, address)], yqa_DefaultCluster := name\<rparr>\<rparr>)))"

definition yson_ClusterMapping :: "ClusterMapping \<Rightarrow> yval" where
  "yson_ClusterMapping m = YMap [(''name'', YString (cmap_Name m)), (''cluster'', YString (cmap_Cluster m)), (''default'', YBool (cmap_Default m))]"

definition yson_YQLAgent :: "YQLAgent \<Rightarrow> yval" where
  "yson_YQLAgent a = YMap [
     (''gateway_config'', YMap [(''mr_job_bin'', YString (gw_MRJobBinary (yqa_GatewayConfig a))),
        (''mr_job_udfs_dir'', YString (gw_UDFDirectory (yqa_GatewayConfig a))),
        (''cluster_mapping'', YList (map yson_ClusterMapping (gw_ClusterMapping (yqa_GatewayConfig a))))]),
     (''yql_plugin_shared_library'', YString (yqa_YqlPluginSharedLibrary a)), (''yt_token_path'', YString (yqa_YTTokenPath a)),
     (''mr_job_binary'', YString (yqa_MRJobBinary a)), (''udf_directory'', YString (yqa_UDFDirectory a)),
     (''additional_clusters'', YMap (map (\<lambda>(k, v). (k, YString v)) (yqa_AdditionalClusters a))),
     (''default_cluster'', YString (yqa_DefaultCluster a))]"

definition fields_YQLAgentServer :: "YQLAgentServer \<Rightarrow> fields" where
  "fields_YQLAgentServer c = fields_CommonServer c @ [(''user'', YString (yqs_User c)), (''yql_agent'', yson_YQLAgent (yqs_YQLAgent c))]"

subsection \<open>The UI\<close>

record UICluster =
  uic_ID :: string
  uic_Name :: string
  uic_Proxy :: string
  uic_ExternalProxy :: "string option"
  uic_Secure :: bool
  uic_Authentication :: string
  uic_Group :: string
  uic_Theme :: string
  uic_Environment :: string
  uic_Description :: string
  uic_CellTag :: int16

definition getUIClusterCarcass :: UICluster where
  "getUIClusterCarcass = \<lparr>uic_ID = [], uic_Name = [], uic_Proxy = [], uic_ExternalProxy = None, uic_Secure = False,
     uic_Authentication = ''basic'', uic_Group = ''My YTsaurus clusters'', uic_Theme = [], uic_Environment = [],
     uic_Description = ''My first YTsaurus. Handle with care.'', uic_CellTag = 0\<rparr>"

definition uiCluster :: "YtsaurusResource \<Rightarrow> ('z) BaseGenerator_scheme \<Rightarrow> UISpec \<Rightarrow> UICluster" where
  "uiCluster r g ui =
     (let c = getUIClusterCarcass in
      c\<lparr>uic_ID := om_Name (yr_Meta r), uic_Name := om_Name (yr_Meta r),
        uic_Proxy := httpProxies r g (GetHTTPProxiesServiceName g DefaultHTTPProxyRole), uic_Secure := ui_Secure ui,
        uic_ExternalProxy := ui_ExternalProxy ui, uic_CellTag := mcs_CellTag (ms_Connection (ys_PrimaryMasters (yr_Spec r))),
        uic_Theme := ui_Theme ui, uic_Environment := ui_Environment ui,
        uic_Group := (case ui_Group ui of Some s \<Rightarrow> s | None \<Rightarrow> uic_Group c),
        uic_Description := (case ui_Description ui of Some s \<Rightarrow> s | None \<Rightarrow> uic_Description c)\<rparr>)"

definition yson_UICluster :: "UICluster \<Rightarrow> yval" where
  "yson_UICluster c = YMap ([(''id'', YString (uic_ID c)), (''name'', YString (uic_Name c)), (''proxy'', YString (uic_Proxy c))] @
     omit_nil ''externalProxy'' YString (uic_ExternalProxy c) @
     [(''secure'', YBool (uic_Secure c)), (''authentication'', YString (uic_Authentication c)), (''group'', YString (uic_Group c)),
      (''theme'', YString (uic_Theme c)), (''environment'', YString (uic_Environment c)), (''description'', YString (uic_Description c)),
      (''primaryMaster'', YMap [(''cellTag'', YInt (sint (uic_CellTag c)))])])"

text \<open>The custom settings: nil unless the direct download is set.\<close>

definition GetUICustomSettings :: "UISpec \<Rightarrow> fields option" where
  "GetUICustomSettings ui = map_option (\<lambda>b. [(''directDownload'', YBool b)]) (ui_DirectDownload ui)"

definition fields_UICustom :: "UISpec \<Rightarrow> fields" where
  "fields_UICustom ui = omit_nil ''odinBaseUrl'' YString (ui_OdinBaseUrl ui) @ omit_nil ''uiSettings'' YMap (GetUICustomSettings ui)"

subsection \<open>The strawberry controller\<close>

text \<open>
  The controller's section for CHYT is marshalled on its own and embedded as a raw value, which
  prints like the value it was made from.
\<close>

definition fields_StrawberryController :: "YtsaurusResource \<Rightarrow> ('z) BaseGenerator_scheme \<Rightarrow> fields" where
  "fields_StrawberryController r g =
     (let proxy = httpProxies r g (GetHTTPProxiesServiceName g DefaultHTTPProxyRole)
      in [(''location_proxies'', ystrs [proxy]),
          (''strawberry'', YMap [(''root'', YString ''//sys/strawberry''), (''stage'', YString ''production''),
             (''robot_username'', YString StrawberryControllerUserName)]),
          (''controllers'', YMap [(''chyt'', YMap [(''address_resolver'',
             yson_AddressResolver (fillAddressResolver g zero_AddressResolver))])]),
          (''http_api_endpoint'', YString '':80''),
          (''http_location_aliases'', YMap [(proxy, ystrs [om_Name (yr_Meta r)])])])"

definition fields_ChytInitCluster :: "YtsaurusResource \<Rightarrow> ('z) BaseGenerator_scheme \<Rightarrow> fields" where
  "fields_ChytInitCluster r g = [(''proxy'', YString (httpProxies r g (GetHTTPProxiesServiceName g DefaultHTTPProxyRole))),
     (''strawberry_root'', YString ''//sys/strawberry''), (''families'', ystrs [''chyt'', ''jupyt''])]"

end
