(* ===== verification/NodeDocs.thy ===== *)
theory NodeDocs
  imports ServerDocs
begin

text \<open>
  The configuration documents of the nodes: \<open>node.go\<close> and \<open>cri.go\<close> of \<open>pkg/ytconfig\<close>, with the methods
  of the node generator in \<open>generator.go\<close> that complete them.
\<close>

datatype NodeFlavor = NodeFlavorData | NodeFlavorExec | NodeFlavorTablet

subsection \<open>Structs\<close>

record StoreLocation =
  sl_Path :: string
  sl_IOEngine :: "IOEngine option"
  sl_MediumName :: string
  sl_Quota :: int64
  sl_HighWatermark :: int64
  sl_LowWatermark :: int64
  sl_DisableWritesWatermark :: int64
  sl_TrashCleanupWatermark :: int64
  sl_MaxTrashTtl :: "int64 option"

record ResourceLimits =
  rl_TotalMemory :: int64
  rl_TotalCpu :: "flt option"
  rl_NodeDedicatedCpu :: "flt option"

record CacheLocation =
  cl_Path :: string
  cl_IOEngine :: "IOEngine option"

record SlotLocation =
  slot_Path :: string
  slot_MediumName :: string
  slot_DiskQuota :: "int64 option"
  slot_DiskUsageWatermark :: "int64 option"
  slot_EnableDiskQuota :: "bool option"

text \<open>The caches of a data node are never set: their capacities are written as zeros.\<close>

record DataNodeSection =
  dnc_StoreLocations :: "StoreLocation list"
  dnc_CacheLocations :: "CacheLocation list"

datatype JobEnvironmentType = JobEnvironmentTypeNone | JobEnvironmentTypeSimple | JobEnvironmentTypePorto | JobEnvironmentTypeCRI

record CriExecutor =
  cre_RetryingChannel :: RetryingChannel
  cre_RuntimeEndpoint :: string
  cre_ImageEndpoint :: string
  cre_Namespace :: string
  cre_BaseCgroup :: string

record CriImageCache =
  cic_Capacity :: "int64 option"
  cic_AlwaysPullLatest :: "bool option"
  cic_PullPeriod :: int64
  cic_ImageSizeEstimation :: "int64 option"
  cic_ImageCompressionRatioEstimation :: "flt option"

record JobEnvironment =
  env_Type :: JobEnvironmentType
  env_StartUID :: int
  env_CriExecutor :: "CriExecutor option"
  env_CriImageCache :: "CriImageCache option"
  env_JobProxyImage :: string
  env_JobProxyBindMounts :: "BindMount list"
  env_UseJobProxyFromImage :: "bool option"

record SlotManager =
  sm_Locations :: "SlotLocation list"
  sm_JobEnvironment :: JobEnvironment
  sm_DoNotSetUserId :: "bool option"
  sm_EnableTmpfs :: "bool option"

text \<open>
  An exec node: the legacy fields of \<open>ExecNode\<close> are pointers to (or copies of) the fields here and
  are written from them; \<open>GpuManager\<close> always names the source \<open>nvidia_smi\<close>.
\<close>

record ExecNodeSection =
  exn_SlotManager :: SlotManager
  exn_JobProxyAuth :: Auth
  exn_JobProxyLogging :: Logging
  exn_ForwardAllEnvironmentVariables :: "bool option"
  exn_UseArtifactBinds :: "bool option"

record NodeServer = CommonServer +
  nds_Flavors :: "NodeFlavor list"
  nds_ResourceLimits :: ResourceLimits
  nds_Tags :: "string list"
  nds_Rack :: string
  nds_SkynetHttpPort :: int32

record DataNodeServer = NodeServer +
  dnsv_DataNode :: DataNodeSection

record ExecNodeServer = NodeServer +
  exsv_UserSlots :: "int option"
  exsv_ExecNode :: ExecNodeSection
  exsv_DataNode :: DataNodeSection

subsection \<open>Quotas of locations\<close>

definition findVolumeMountForPath :: "string \<Rightarrow> InstanceSpec \<Rightarrow> VolumeMount option" where
  "findVolumeMountForPath locationPath spec = find (\<lambda>m. HasPrefix locationPath (vm_MountPath m)) (is_VolumeMounts spec)"

definition findVolumeClaimTemplate :: "string \<Rightarrow> InstanceSpec \<Rightarrow> PersistentVolumeClaim option" where
  "findVolumeClaimTemplate volumeName spec = find (\<lambda>c. pvc_Name c = volumeName) (is_VolumeClaimTemplates spec)"

definition findVolume :: "string \<Rightarrow> InstanceSpec \<Rightarrow> Volume option" where
  "findVolume volumeName spec = find (\<lambda>v. vol_Name v = volumeName) (is_Volumes spec)"

text \<open>The amount of a resource in a list; a missing one reads as zero.\<close>

definition amount :: "ResourceList \<Rightarrow> string \<Rightarrow> Quantity" where
  "amount l name = (case l name of Some q \<Rightarrow> q | None \<Rightarrow> 0)"

definition findQuotaForLocation :: "fmt_api \<Rightarrow> LocationSpec \<Rightarrow> InstanceSpec \<Rightarrow> int64 option" where
  "findQuotaForLocation F location spec = (case loc_Quota location of
       Some quota \<Rightarrow> Some (f_quantity_value F quota)
     | None \<Rightarrow>
         (case findVolumeMountForPath (loc_Path location) spec of
            None \<Rightarrow> None
          | Some mount \<Rightarrow>
              (case findVolumeClaimTemplate (vm_Name mount) spec of
                 Some claim \<Rightarrow>
                   (let storage = amount (pvc_Requests claim) ''storage''
                    in if storage \<noteq> 0 then Some (f_quantity_value F storage) else None)
               | None \<Rightarrow>
                   (case findVolume (vm_Name mount) spec of
                      Some volume \<Rightarrow>
                        (case vol_Source volume of
                           EmptyDirSource (Some limit) \<Rightarrow> Some (f_quantity_value F limit)
                         | _ \<Rightarrow> None)
                    | None \<Rightarrow> None))))"

subsection \<open>The common carcass\<close>

definition zero_ResourceLimits :: ResourceLimits where
  "zero_ResourceLimits = \<lparr>rl_TotalMemory = 0, rl_TotalCpu = None, rl_NodeDedicatedCpu = None\<rparr>"

fun flavorPorts :: "NodeFlavor \<Rightarrow> int32 \<times> int32" where
  "flavorPorts NodeFlavorData = (DataNodeRPCPort, DataNodeSkynetPort)"
| "flavorPorts NodeFlavorExec = (ExecNodeRPCPort, ExecNodeSkynetPort)"
| "flavorPorts NodeFlavorTablet = (TabletNodeRPCPort, TabletNodeSkynetPort)"

definition fillClusterNodeServerCarcass :: "NodeFlavor \<Rightarrow> string list \<Rightarrow> string \<Rightarrow> InstanceSpec \<Rightarrow> string + NodeServer" where
  "fillClusterNodeServerCarcass flavor tags rack spec = sum_bind (deref (is_MonitoringPort spec)) (\<lambda>port.
     Inr (CommonServer.extend
       (zero_CommonServer\<lparr>bs_RPCPort := fst (flavorPorts flavor), bs_MonitoringPort := port\<rparr>)
       \<lparr>nds_Flavors = [flavor], nds_ResourceLimits = zero_ResourceLimits, nds_Tags = tags, nds_Rack = rack,
        nds_SkynetHttpPort = snd (flavorPorts flavor)\<rparr>))"

text \<open>The memory that data and tablet nodes are given: what they request, or else their limit.\<close>

definition nodeMemory :: "fmt_api \<Rightarrow> ResourceRequirements \<Rightarrow> int64" where
  "nodeMemory F rr =
     (let request = amount (rr_Requests rr) ''memory''; limit = amount (rr_Limits rr) ''memory''
      in if request \<noteq> 0 then f_quantity_value F request
         else if limit \<noteq> 0 then f_quantity_value F limit else 0)"

subsection \<open>Data nodes\<close>

definition getDataNodeResourceLimits :: "fmt_api \<Rightarrow> DataNodesSpec \<Rightarrow> ResourceLimits" where
  "getDataNodeResourceLimits F spec = \<lparr>rl_TotalMemory = nodeMemory F (is_Resources (dns_Instance spec)),
     rl_TotalCpu = Some (Flt 0 0), rl_NodeDedicatedCpu = Some (Flt 0 0)\<rparr>"

definition getDataNodeLogging :: "fmt_api \<Rightarrow> DataNodesSpec \<Rightarrow> Logging" where
  "getDataNodeLogging F spec = createLogging F (dns_Instance spec) ''data-node'' defaultLoggers"

text \<open>The default low watermark, \<open>int64(math.Min(0.1*float64(quota), 25*gb))\<close>; the first number is 0.1 in \<open>float64\<close>.\<close>

definition defaultLowWatermark :: "int64 \<Rightarrow> int64" where
  "defaultLowWatermark quota = word_of_int (flt_trunc (flt_min
     (flt_mult float64 (Flt 3602879701896397 (- 55)) (flt_of_int float64 (sint quota)))
     (flt_mult float64 (flt_of_int float64 25) (flt_of_int float64 (1024 * 1024 * 1024)))))"

definition storeLocation :: "fmt_api \<Rightarrow> InstanceSpec \<Rightarrow> LocationSpec \<Rightarrow> StoreLocation" where
  "storeLocation F spec location =
     (let s0 = \<lparr>sl_Path = loc_Path location, sl_IOEngine = None, sl_MediumName = loc_Medium location, sl_Quota = 0,
            sl_HighWatermark = 0, sl_LowWatermark = 0, sl_DisableWritesWatermark = 0, sl_TrashCleanupWatermark = 0,
            sl_MaxTrashTtl = None\<rparr>
      in case findQuotaForLocation F location spec of
           None \<Rightarrow> s0
         | Some quota \<Rightarrow>
             (let low = (case loc_LowWatermark location of
                           Some w \<Rightarrow> f_quantity_value F w
                         | None \<Rightarrow> defaultLowWatermark quota);
                  high = int64_quot low 2
              in s0\<lparr>sl_Quota := quota, sl_LowWatermark := low, sl_HighWatermark := high,
                   sl_DisableWritesWatermark := int64_quot high 2, sl_TrashCleanupWatermark := low,
                   sl_MaxTrashTtl := loc_MaxTrashMilliseconds location\<rparr>))"

definition getDataNodeServerCarcass :: "fmt_api \<Rightarrow> DataNodesSpec \<Rightarrow> string + DataNodeServer" where
  "getDataNodeServerCarcass F spec =
     sum_bind (fillClusterNodeServerCarcass NodeFlavorData (dns_Tags spec) (dns_Rack spec) (dns_Instance spec)) (\<lambda>n.
     (let locations = map (storeLocation F (dns_Instance spec))
            (FindAllLocations (is_Locations (dns_Instance spec)) LocationTypeChunkStore)
      in if length locations = 0 then Inl ''error creating data node config: no storage locations provided''
         else Inr (NodeServer.extend
           (n\<lparr>nds_ResourceLimits := getDataNodeResourceLimits F spec, bs_Logging := getDataNodeLogging F spec\<rparr>)
           \<lparr>dnsv_DataNode = \<lparr>dnc_StoreLocations = locations, dnc_CacheLocations = []\<rparr>\<rparr>)))"

definition getDataNodeConfigImpl :: "'w ext \<Rightarrow> ('z) BaseGenerator_scheme \<Rightarrow> DataNodesSpec \<Rightarrow> string + DataNodeServer" where
  "getDataNodeConfigImpl E g spec = sum_bind (getDataNodeServerCarcass (x_fmt E) spec) (\<lambda>c.
     Inr (fillServer E g (dns_Instance spec) (c\<lparr>dnsv_DataNode := (dnsv_DataNode c)\<lparr>dnc_StoreLocations :=
       map (\<lambda>s. s\<lparr>sl_IOEngine := fillIOEngine g (sl_IOEngine s)\<rparr>) (dnc_StoreLocations (dnsv_DataNode c))\<rparr>\<rparr>)))"

subsection \<open>Exec nodes\<close>

definition getResourceQuantity :: "ResourceRequirements \<Rightarrow> string \<Rightarrow> Quantity" where
  "getResourceQuantity resources name =
     (if amount (rr_Requests resources) name \<noteq> 0 then amount (rr_Requests resources) name
      else if amount (rr_Limits resources) name \<noteq> 0 then amount (rr_Limits resources) name
      else 0)"

definition getExecNodeResourceLimits :: "fmt_api \<Rightarrow> ExecNodesSpec \<Rightarrow> ResourceLimits" where
  "getExecNodeResourceLimits F spec =
     (let mem = getResourceQuantity (is_Resources (ens_Instance spec)) ''memory'';
          cpu = getResourceQuantity (is_Resources (ens_Instance spec)) ''cpu'';
          totalMem = (case ens_JobResources spec of Some j \<Rightarrow> mem + getResourceQuantity j ''memory'' | None \<Rightarrow> mem);
          totalCpu = (case ens_JobResources spec of Some j \<Rightarrow> cpu + getResourceQuantity j ''cpu'' | None \<Rightarrow> cpu);
          to32 = (\<lambda>q. flt_round float32 (f_quantity_float F q))
      in \<lparr>rl_TotalMemory = f_quantity_value F totalMem,
          rl_TotalCpu = (if totalCpu \<noteq> 0 then Some (to32 totalCpu) else None),
          rl_NodeDedicatedCpu = Some (if ens_JobResources spec \<noteq> None then to32 cpu else Flt 0 0)\<rparr>)"

definition getExecNodeLogging :: "fmt_api \<Rightarrow> ExecNodesSpec \<Rightarrow> Logging" where
  "getExecNodeLogging F spec = createLogging F (ens_Instance spec) ''exec-node'' defaultLoggers"

definition GetContainerdSocketPath :: "ExecNodesSpec \<Rightarrow> string" where
  "GetContainerdSocketPath spec =
     (case FindFirstLocation (is_Locations (ens_Instance spec)) LocationTypeImageCache of
        Some location \<Rightarrow> path_join (loc_Path location) ContainerdSocketName
      | None \<Rightarrow> path_join ConfigMountPoint ContainerdSocketName)"

definition seconds :: "int32 \<Rightarrow> int64" where
  "seconds n = word_of_int (sint n) * 1000000000"

text \<open>Whether the exec node can mount a tmpfs and propagate it into the job container.\<close>

definition criEnableTmpfs :: "ExecNodesSpec \<Rightarrow> JobEnvironmentSpec \<Rightarrow> bool" where
  "criEnableTmpfs spec envSpec =
     (if \<not> ens_Privileged spec then False
      else if \<not> (case je_Isolated envSpec of Some b \<Rightarrow> b | None \<Rightarrow> True) then True
      else list_all (\<lambda>location.
        (case findVolumeMountForPath (loc_Path location) (ens_Instance spec) of
           None \<Rightarrow> False
         | Some mount \<Rightarrow> vm_MountPropagation mount = Some ''Bidirectional''))
        (FindAllLocations (is_Locations (ens_Instance spec)) LocationTypeSlots))"

definition criExecutor :: "ExecNodesSpec \<Rightarrow> CRIJobEnvironmentSpec \<Rightarrow> CriExecutor" where
  "criExecutor spec cri =
     (let endpoint = ''unix://'' @ GetContainerdSocketPath spec
      in \<lparr>cre_RetryingChannel = (case cri_APIRetryTimeoutSeconds cri of
            Some timeout \<Rightarrow> \<lparr>rch_RetryBackoffTime = 1000000000, rch_RetryAttempts = timeout, rch_RetryTimeout = seconds timeout\<rparr>
          | None \<Rightarrow> \<lparr>rch_RetryBackoffTime = 0, rch_RetryAttempts = 0, rch_RetryTimeout = 0\<rparr>),
          cre_RuntimeEndpoint = endpoint, cre_ImageEndpoint = endpoint,
          cre_Namespace = (case cri_CRINamespace cri of Some s \<Rightarrow> s | None \<Rightarrow> CRINamespace),
          cre_BaseCgroup = (case cri_BaseCgroup cri of Some s \<Rightarrow> s | None \<Rightarrow> CRIBaseCgroup)\<rparr>)"

definition criImageCache :: "fmt_api \<Rightarrow> ExecNodesSpec \<Rightarrow> CRIJobEnvironmentSpec \<Rightarrow> CriImageCache option" where
  "criImageCache F spec cri =
     map_option (\<lambda>location. \<lparr>cic_Capacity = findQuotaForLocation F location (ens_Instance spec),
       cic_AlwaysPullLatest = cri_AlwaysPullLatestImage cri,
       cic_PullPeriod = (case cri_ImagePullPeriodSeconds cri of Some period \<Rightarrow> seconds period | None \<Rightarrow> 0),
       cic_ImageSizeEstimation = cri_ImageSizeEstimation cri,
       cic_ImageCompressionRatioEstimation = map_option (\<lambda>ratio. flt_of_int float32 (sint ratio))
         (cri_ImageCompressionRatioEstimation cri)\<rparr>)
     (FindFirstLocation (is_Locations (ens_Instance spec)) LocationTypeImageCache)"

definition zero_JobEnvironment :: JobEnvironment where
  "zero_JobEnvironment = \<lparr>env_Type = JobEnvironmentTypeNone, env_StartUID = 0, env_CriExecutor = None, env_CriImageCache = None,
     env_JobProxyImage = [], env_JobProxyBindMounts = [], env_UseJobProxyFromImage = None\<rparr>"

definition criJobEnvironment :: "fmt_api \<Rightarrow> ExecNodesSpec \<Rightarrow> CommonSpec \<Rightarrow> CRIJobEnvironmentSpec \<Rightarrow> bool \<Rightarrow> JobEnvironment \<Rightarrow> JobEnvironment" where
  "criJobEnvironment F spec commonSpec cri useArtifactBinds env = env\<lparr>env_Type := JobEnvironmentTypeCRI,
     env_JobProxyImage := (case cs_JobImage commonSpec of
         Some jobImage \<Rightarrow> jobImage
       | None \<Rightarrow> (case is_Image (ens_Instance spec) of Some img \<Rightarrow> img | None \<Rightarrow> cs_CoreImage commonSpec)),
     env_UseJobProxyFromImage := Some False,
     env_CriExecutor := Some (criExecutor spec cri), env_CriImageCache := criImageCache F spec cri,
     env_JobProxyBindMounts := (if useArtifactBinds then env_JobProxyBindMounts env
       else env_JobProxyBindMounts env @ map (\<lambda>l. \<lparr>bm_ExternalPath = loc_Path l, bm_InternalPath = loc_Path l, bm_ReadOnly = True\<rparr>)
         (FindAllLocations (is_Locations (ens_Instance spec)) LocationTypeChunkCache))\<rparr>"

text \<open>Without a CRI the jobs run under Porto or as plain processes.\<close>

definition fillPlainEnvironment :: "ExecNodesSpec \<Rightarrow> CommonSpec \<Rightarrow> ExecNodeSection \<Rightarrow> JobEnvironment \<Rightarrow> ExecNodeSection" where
  "fillPlainEnvironment spec commonSpec n env =
     (if cs_UsePorto commonSpec
      then n\<lparr>exn_SlotManager := (exn_SlotManager n)\<lparr>sm_JobEnvironment := env\<lparr>env_Type := JobEnvironmentTypePorto\<rparr>, sm_EnableTmpfs := Some True\<rparr>\<rparr>
      else n\<lparr>exn_SlotManager := (exn_SlotManager n)\<lparr>sm_JobEnvironment := env\<lparr>env_Type := JobEnvironmentTypeSimple\<rparr>,
        sm_EnableTmpfs := Some (ens_Privileged spec)\<rparr>\<rparr>)"

definition fillJobEnvironment :: "fmt_api \<Rightarrow> ExecNodesSpec \<Rightarrow> CommonSpec \<Rightarrow> ExecNodeSection \<Rightarrow> ExecNodeSection" where
  "fillJobEnvironment F spec commonSpec n =
     (let sm = exn_SlotManager n; env = (sm_JobEnvironment sm)\<lparr>env_StartUID := StartUID\<rparr>
      in case ens_JobEnvironment spec of
           Some envSpec \<Rightarrow>
             (case je_CRI envSpec of
                Some cri \<Rightarrow>
                  (let binds = (case je_UseArtifactBinds envSpec of Some b \<Rightarrow> b | None \<Rightarrow> True)
                   in n\<lparr>exn_SlotManager := sm\<lparr>sm_JobEnvironment := criJobEnvironment F spec commonSpec cri binds env,
                          sm_DoNotSetUserId := Some (case je_DoNotSetUserId envSpec of Some b \<Rightarrow> b | None \<Rightarrow> True),
                          sm_EnableTmpfs := Some (criEnableTmpfs spec envSpec)\<rparr>,
                        exn_UseArtifactBinds := Some binds, exn_ForwardAllEnvironmentVariables := Some True\<rparr>)
              | None \<Rightarrow> fillPlainEnvironment spec commonSpec n env)
         | None \<Rightarrow> fillPlainEnvironment spec commonSpec n env)"

definition slotLocation :: "fmt_api \<Rightarrow> InstanceSpec \<Rightarrow> LocationSpec \<Rightarrow> SlotLocation" where
  "slotLocation F spec location =
     (let quota = findQuotaForLocation F location spec; reserve = MaxSlotLocationReserve
      in \<lparr>slot_Path = loc_Path location, slot_MediumName = loc_Medium location, slot_DiskQuota = quota,
          slot_DiskUsageWatermark = Some (case quota of
              Some q \<Rightarrow> (if sint (int64_quot q 10) < sint reserve then int64_quot q 10 else reserve)
            | None \<Rightarrow> 0),
          slot_EnableDiskQuota = Some False\<rparr>)"

definition userSlots :: "ExecNodesSpec \<Rightarrow> ResourceLimits \<Rightarrow> int option" where
  "userSlots spec limits =
     (case (case ens_JobEnvironment spec of Some env \<Rightarrow> je_UserSlots env | None \<Rightarrow> None) of
        Some n \<Rightarrow> Some n
      | None \<Rightarrow>
          (let zero = Flt 0 0;
               jobCpu = flt_minus float32 (case rl_TotalCpu limits of Some c \<Rightarrow> c | None \<Rightarrow> zero)
                 (case rl_NodeDedicatedCpu limits of Some c \<Rightarrow> c | None \<Rightarrow> zero)
           in if flt_less zero jobCpu then Some (flt_trunc (flt_mult float32 (flt_of_int float32 5) jobCpu)) else None))"

definition jobProxyLogging :: "fmt_api \<Rightarrow> ExecNodesSpec \<Rightarrow> Logging" where
  "jobProxyLogging F spec = (lgb_logging (fold (addLogger F)
     (if 0 < length (ens_JobProxyLoggers spec) then ens_JobProxyLoggers spec else defaultLoggers)
     newJobProxyLoggingBuilder))\<lparr>log_FlushPeriod := 3000\<rparr>"

definition getExecNodeServerCarcass :: "fmt_api \<Rightarrow> ExecNodesSpec \<Rightarrow> CommonSpec \<Rightarrow> string + ExecNodeServer" where
  "getExecNodeServerCarcass F spec commonSpec =
     sum_bind (fillClusterNodeServerCarcass NodeFlavorExec (ens_Tags spec) (ens_Rack spec) (ens_Instance spec)) (\<lambda>n.
     (let locations = is_Locations (ens_Instance spec);
          limits = getExecNodeResourceLimits F spec;
          caches = map (\<lambda>l. \<lparr>cl_Path = loc_Path l, cl_IOEngine = None\<rparr>) (FindAllLocations locations LocationTypeChunkCache);
          slots = map (slotLocation F (ens_Instance spec)) (FindAllLocations locations LocationTypeSlots);
          auth = \<lparr>au_TokenSecure = True, au_OauthService = None, au_OauthCookieAuthenticator = False,
            au_OauthTokenAuthenticator = False, au_RequireAuthentication = True\<rparr>;
          section = \<lparr>exn_SlotManager = \<lparr>sm_Locations = slots, sm_JobEnvironment = zero_JobEnvironment,
              sm_DoNotSetUserId = None, sm_EnableTmpfs = None\<rparr>,
            exn_JobProxyAuth = auth, exn_JobProxyLogging = jobProxyLogging F spec,
            exn_ForwardAllEnvironmentVariables = None, exn_UseArtifactBinds = None\<rparr>
      in if length caches = 0 then Inl ''error creating exec node config: no cache locations provided''
         else if length slots = 0 then Inl ''error creating exec node config: no slot locations provided''
         else Inr (NodeServer.extend
           (n\<lparr>nds_ResourceLimits := limits, bs_Logging := getExecNodeLogging F spec\<rparr>)
           \<lparr>exsv_UserSlots = userSlots spec limits, exsv_ExecNode = fillJobEnvironment F spec commonSpec section,
            exsv_DataNode = \<lparr>dnc_StoreLocations = [], dnc_CacheLocations = caches\<rparr>\<rparr>)))"

definition getExecNodeConfigImpl :: "'w ext \<Rightarrow> ('z) BaseGenerator_scheme \<Rightarrow> ExecNodesSpec \<Rightarrow> string + ExecNodeServer" where
  "getExecNodeConfigImpl E g spec = sum_bind (getExecNodeServerCarcass (x_fmt E) spec (bg_commonSpec g)) (\<lambda>c.
     Inr (fillServer E g (ens_Instance spec) (c\<lparr>exsv_DataNode := (exsv_DataNode c)\<lparr>dnc_CacheLocations :=
       map (\<lambda>l. l\<lparr>cl_IOEngine := fillIOEngine g (cl_IOEngine l)\<rparr>) (dnc_CacheLocations (exsv_DataNode c))\<rparr>\<rparr>)))"

subsection \<open>Tablet nodes\<close>

definition getTabletNodeLogging :: "fmt_api \<Rightarrow> TabletNodesSpec \<Rightarrow> Logging" where
  "getTabletNodeLogging F spec = createLogging F (tns_Instance spec) ''tablet-node'' defaultLoggers"

definition getTabletNodeServerCarcass :: "fmt_api \<Rightarrow> TabletNodesSpec \<Rightarrow> string + NodeServer" where
  "getTabletNodeServerCarcass F spec =
     sum_bind (fillClusterNodeServerCarcass NodeFlavorTablet (tns_Tags spec) (tns_Rack spec) (tns_Instance spec)) (\<lambda>n.
     Inr (n\<lparr>nds_ResourceLimits := \<lparr>rl_TotalMemory = nodeMemory F (is_Resources (tns_Instance spec)),
       rl_TotalCpu = Some (Flt 0 0), rl_NodeDedicatedCpu = Some (Flt 0 0)\<rparr>, bs_Logging := getTabletNodeLogging F spec\<rparr>))"

definition getTabletNodeConfigImpl :: "'w ext \<Rightarrow> ('z) BaseGenerator_scheme \<Rightarrow> TabletNodesSpec \<Rightarrow> string + NodeServer" where
  "getTabletNodeConfigImpl E g spec = sum_bind (getTabletNodeServerCarcass (x_fmt E) spec) (\<lambda>c. Inr (fillServer E g (tns_Instance spec) c))"

subsection \<open>Encoding\<close>

fun yson_NodeFlavor :: "NodeFlavor \<Rightarrow> yval" where
  "yson_NodeFlavor NodeFlavorData = YString ''data''"
| "yson_NodeFlavor NodeFlavorExec = YString ''exec''"
| "yson_NodeFlavor NodeFlavorTablet = YString ''tablet''"

definition yson_StoreLocation :: "StoreLocation \<Rightarrow> yval" where
  "yson_StoreLocation s = YMap ([(''path'', YString (sl_Path s))] @ omit_nil ''io_config'' yson_IOEngine (sl_IOEngine s) @
     [(''medium_name'', YString (sl_MediumName s))] @ omit_int ''quota'' (sint (sl_Quota s)) @
     omit_int ''high_watermark'' (sint (sl_HighWatermark s)) @ omit_int ''low_watermark'' (sint (sl_LowWatermark s)) @
     omit_int ''disable_writes_watermark'' (sint (sl_DisableWritesWatermark s)) @
     [(''trash_cleanup_watermark'', yson_int64 (sl_TrashCleanupWatermark s))] @
     omit_nil ''max_trash_ttl'' yson_int64 (sl_MaxTrashTtl s))"

definition yson_ResourceLimits :: "ResourceLimits \<Rightarrow> yval" where
  "yson_ResourceLimits l = YMap (omit_int ''total_memory'' (sint (rl_TotalMemory l)) @
     omit_nil ''total_cpu'' YDouble (rl_TotalCpu l) @ omit_nil ''node_dedicated_cpu'' YDouble (rl_NodeDedicatedCpu l))"

definition yson_CacheLocation :: "CacheLocation \<Rightarrow> yval" where
  "yson_CacheLocation l = YMap ([(''path'', YString (cl_Path l))] @ omit_nil ''io_config'' yson_IOEngine (cl_IOEngine l))"

definition yson_SlotLocation :: "SlotLocation \<Rightarrow> yval" where
  "yson_SlotLocation s = YMap ([(''path'', YString (slot_Path s)), (''medium_name'', YString (slot_MediumName s))] @
     omit_nil ''disk_quota'' yson_int64 (slot_DiskQuota s) @ omit_nil ''disk_usage_watermark'' yson_int64 (slot_DiskUsageWatermark s) @
     omit_nil ''enable_disk_quota'' YBool (slot_EnableDiskQuota s))"

definition yson_zeroCache :: yval where
  "yson_zeroCache = YMap [(''capacity'', YInt 0)]"

definition yson_DataNode :: "DataNodeSection \<Rightarrow> yval" where
  "yson_DataNode d = YMap [
     (''store_locations'', YList (map yson_StoreLocation (dnc_StoreLocations d))),
     (''cache_locations'', YList (map yson_CacheLocation (dnc_CacheLocations d))),
     (''block_cache'', YMap [(''compressed_data'', yson_zeroCache), (''uncompressed_data'', yson_zeroCache)]),
     (''blocks_ext_cache'', yson_zeroCache), (''chunk_meta_cache'', yson_zeroCache), (''block_meta_cache'', yson_zeroCache)]"

fun env_type_string :: "JobEnvironmentType \<Rightarrow> string" where
  "env_type_string JobEnvironmentTypeNone = []"
| "env_type_string JobEnvironmentTypeSimple = ''simple''"
| "env_type_string JobEnvironmentTypePorto = ''porto''"
| "env_type_string JobEnvironmentTypeCRI = ''cri''"

definition yson_CriExecutor :: "CriExecutor \<Rightarrow> yval" where
  "yson_CriExecutor c = YMap (fields_RetryingChannel (cre_RetryingChannel c) @
     omit_str ''runtime_endpoint'' (cre_RuntimeEndpoint c) @ omit_str ''image_endpoint'' (cre_ImageEndpoint c) @
     [(''namespace'', YString (cre_Namespace c)), (''base_cgroup'', YString (cre_BaseCgroup c))])"

definition yson_CriImageCache :: "CriImageCache \<Rightarrow> yval" where
  "yson_CriImageCache c = YMap (omit_nil ''capacity'' yson_int64 (cic_Capacity c) @
     omit_nil ''always_pull_latest'' YBool (cic_AlwaysPullLatest c) @ omit_Duration ''pullPeriod'' (cic_PullPeriod c) @
     omit_nil ''image_size_estimation'' yson_int64 (cic_ImageSizeEstimation c) @
     omit_nil ''image_compression_ratio_estimation'' YDouble (cic_ImageCompressionRatioEstimation c))"

definition yson_JobEnvironment :: "JobEnvironment \<Rightarrow> yval" where
  "yson_JobEnvironment e = YMap (omit_str ''type'' (env_type_string (env_Type e)) @ omit_int ''start_uid'' (env_StartUID e) @
     omit_nil ''cri_executor'' yson_CriExecutor (env_CriExecutor e) @ omit_nil ''cri_image_cache'' yson_CriImageCache (env_CriImageCache e) @
     omit_str ''job_proxy_image'' (env_JobProxyImage e) @ omit_list ''job_proxy_bind_mounts'' yson_BindMount (env_JobProxyBindMounts e) @
     omit_nil ''use_job_proxy_from_image'' YBool (env_UseJobProxyFromImage e))"

definition yson_SlotManager :: "SlotManager \<Rightarrow> yval" where
  "yson_SlotManager s = YMap ([(''locations'', YList (map yson_SlotLocation (sm_Locations s))),
     (''job_environment'', yson_JobEnvironment (sm_JobEnvironment s))] @
     omit_nil ''do_not_set_user_id'' YBool (sm_DoNotSetUserId s) @ omit_nil ''enable_tmpfs'' YBool (sm_EnableTmpfs s))"

definition yson_UserSlots :: "int option \<Rightarrow> yval" where
  "yson_UserSlots n = YMap (omit_nil ''user_slots'' YInt n)"

definition yson_GpuManager :: yval where
  "yson_GpuManager = YMap [(''gpu_info_source'', YMap [(''type'', YString ''nvidia_smi'')])]"

text \<open>The legacy keys repeat the job resource manager, the GPU manager, and parts of the slot manager and the job proxy.\<close>

definition yson_ExecNode :: "int option \<Rightarrow> ExecNodeSection \<Rightarrow> yval" where
  "yson_ExecNode slots n = YMap (
     [(''slot_manager'', yson_SlotManager (exn_SlotManager n)), (''gpu_manager'', yson_GpuManager),
      (''job_controller'', YMap [(''resource_limits'', yson_UserSlots slots), (''gpu_manager'', yson_GpuManager)]),
      (''job_proxy'', YMap ([(''job_proxy_authentication_manager'', yson_Auth (exn_JobProxyAuth n)),
         (''job_proxy_logging'', yson_Logging (exn_JobProxyLogging n))] @
         omit_nil ''forward_all_environment_variables'' YBool (exn_ForwardAllEnvironmentVariables n))),
      (''job_proxy_authentication_manager'', yson_Auth (exn_JobProxyAuth n)),
      (''job_proxy_logging'', yson_Logging (exn_JobProxyLogging n))] @
     omit_nil ''do_not_set_user_id'' YBool (sm_DoNotSetUserId (exn_SlotManager n)) @
     omit_nil ''forward_all_environment_variables'' YBool (exn_ForwardAllEnvironmentVariables n) @
     omit_nil ''use_artifact_binds'' YBool (exn_UseArtifactBinds n))"

definition fields_NodeServer :: "('z) NodeServer_scheme \<Rightarrow> fields" where
  "fields_NodeServer c = fields_CommonServer c @
     [(''flavors'', YList (map yson_NodeFlavor (nds_Flavors c))), (''resource_limits'', yson_ResourceLimits (nds_ResourceLimits c))] @
     omit_list ''tags'' YString (nds_Tags c) @ omit_str ''rack'' (nds_Rack c) @
     [(''skynet_http_port'', yson_int32 (nds_SkynetHttpPort c))]"

definition fields_DataNodeServer :: "DataNodeServer \<Rightarrow> fields" where
  "fields_DataNodeServer c = fields_NodeServer c @ [(''data_node'', yson_DataNode (dnsv_DataNode c))]"

definition fields_ExecNodeServer :: "ExecNodeServer \<Rightarrow> fields" where
  "fields_ExecNodeServer c = fields_NodeServer c @
     [(''job_resource_manager'', YMap [(''resource_limits'', yson_UserSlots (exsv_UserSlots c))]),
      (''exec_node'', yson_ExecNode (exsv_UserSlots c) (exsv_ExecNode c)),
      (''data_node'', yson_DataNode (exsv_DataNode c)),
      (''tablet_node'', YMap [(''versioned_chunk_meta_cache'', yson_zeroCache)]),
      (''caching_object_service'', yson_zeroCache)]"

definition fields_TabletNodeServer :: "NodeServer \<Rightarrow> fields" where
  "fields_TabletNodeServer c = fields_NodeServer c @ [(''caching_object_service'', yson_zeroCache)]"

subsection \<open>cri.go\<close>

text \<open>A pointer inside of a Go map is written as its value, or as the entity when it is nil.\<close>

definition yson_ptr :: "string option \<Rightarrow> yval" where
  "yson_ptr p = (case p of Some s \<Rightarrow> YString s | None \<Rightarrow> YEntity)"

definition containerdConfig :: "ExecNodesSpec \<Rightarrow> string + fields" where
  "containerdConfig spec =
     sum_bind (deref (ens_JobEnvironment spec)) (\<lambda>env. sum_bind (deref (je_CRI env)) (\<lambda>criSpec.
     Inr [(''version'', YInt 2),
       (''root'', yson_ptr (map_option loc_Path (FindFirstLocation (is_Locations (ens_Instance spec)) LocationTypeImageCache))),
       (''grpc'', YMap [(''address'', YString (GetContainerdSocketPath spec)), (''uid'', YInt 0), (''gid'', YInt 0)]),
       (''plugins'', YMap [(''io.containerd.grpc.v1.cri'', YMap [
          (''sandbox_image'', yson_ptr (cri_SandboxImage criSpec)), (''restrict_oom_score_adj'', YBool True),
          (''image_pull_progress_timeout'', YString ''5m0s''),
          (''cni'', YMap [(''conf_dir'', YString ''/etc/cni/net.d''), (''bin_dir'', YString ''/usr/local/lib/cni'')]),
          (''containerd'', YMap [(''default_runtime_name'', YString ''runc''),
             (''runtimes'', YMap [(''runc'', YMap [(''runtime_type'', YString ''io.containerd.runc.v2''),
                (''sandbox_mode'', YString ''podsandbox''), (''options'', YMap [(''SystemdCgroup'', YBool False)])])])]),
          (''registry'', YMap [(''config_path'', yson_ptr (cri_RegistryConfigPath criSpec))])])])]))"

subsection \<open>Watermarks\<close>

lemma flt_limit: "flt_mult float64 (flt_of_int float64 25) (flt_of_int float64 (1024 * 1024 * 1024)) = Flt 26843545600 0"
  by code_simp

text \<open>The default low watermark is at most the quota and at most 25 GiB.\<close>

lemma defaultLowWatermark_bounds:
  assumes "0 \<le> sint quota"
  shows "0 \<le> sint (defaultLowWatermark quota)" "sint (defaultLowWatermark quota) \<le> sint quota"
    "sint (defaultLowWatermark quota) \<le> 26843545600"
proof -
  let ?q = "sint quota" and ?M = "3602879701896397 :: int"
  define m where "m = round_int 53 (?M * round_int 53 ?q)"
  define t where "t = flt_trunc (flt_min (Flt m (- 55)) (Flt 26843545600 0))"
  have low: "defaultLowWatermark quota = word_of_int t"
    unfolding defaultLowWatermark_def flt_limit by (simp add: t_def m_def flt_mult_def flt_of_int_def flt_round_def)
  have q: "0 \<le> round_int 53 ?q" "round_int 53 ?q \<le> 2 * ?q" using round_int_bounds [OF assms] by simp_all
  have m: "0 \<le> m" "m \<le> 2 * (?M * round_int 53 ?q)" using round_int_bounds [of "?M * round_int 53 ?q" 53] q(1) by (simp_all add: m_def)
  then have "m \<le> 4 * ?M * ?q" using q(2) by simp
  also have "\<dots> \<le> 2 ^ 54 * ?q" using assms by (intro mult_right_mono) simp_all
  finally have mq: "m \<le> 2 ^ 54 * ?q" .
  have "t = (if m < 26843545600 * 2 ^ 55 then m div 2 ^ 55 else 26843545600)"
    using m(1) by (simp add: t_def flt_min_def flt_less_def flt_align_def flt_trunc_def sdiv_nonneg)
  then have "0 \<le> t \<and> t \<le> ?q \<and> t \<le> 26843545600"
    using m(1) mq assms by (auto simp: pos_imp_zdiv_nonneg_iff)
  moreover have "sint (word_of_int t :: int64) = t" if "0 \<le> t" "t \<le> 26843545600"
    using that by (intro sint_word_of_int_eq) simp_all
  ultimately show "0 \<le> sint (defaultLowWatermark quota)" "sint (defaultLowWatermark quota) \<le> ?q"
    "sint (defaultLowWatermark quota) \<le> 26843545600" by (simp_all add: low)
qed

end
