(* ===== verification/Documents.thy ===== *)
theory Documents
  imports NodeDocs
begin

text \<open>
  The exported methods of the generators (\<open>generator.go\<close>, \<open>cri.go\<close>): a document is completed, encoded
  and serialised.
\<close>

text \<open>A request names the method of the generator and its argument.\<close>

datatype configRequest =
    MasterConfig MastersSpec
  | DiscoveryConfig InstanceSpec
  | MasterCachesConfig MasterCachesSpec
  | DataNodeConfig DataNodesSpec
  | ExecNodeConfig ExecNodesSpec
  | TabletNodeConfig TabletNodesSpec
  | HTTPProxyConfig HTTPProxiesSpec
  | RPCProxyConfig RPCProxiesSpec
  | TCPProxyConfig TCPProxiesSpec
  | SchedulerConfig InstanceSpec
  | ControllerAgentConfig InstanceSpec
  | QueryTrackerConfig InstanceSpec
  | QueueAgentConfig InstanceSpec
  | YQLAgentConfig InstanceSpec
  | ContainerdConfig ExecNodesSpec
  | NativeClientConfig
  | ClusterConnectionConfig
  | StrawberryControllerConfig
  | ChytInitClusterConfig
  | UIClustersConfig
  | UICustomConfig

text \<open>A document that is built and serialised; where the argument is a pointer, nil gives no bytes.\<close>

definition finish :: "'w ext \<Rightarrow> ('c \<Rightarrow> fields) \<Rightarrow> string + 'c \<Rightarrow> string + string" where
  "finish E encode c = sum_bind c (\<lambda>x. marshallYsonConfig E (encode x))"

definition unless_nil :: "('s \<Rightarrow> string + string) \<Rightarrow> 's option \<Rightarrow> string + string" where
  "unless_nil f spec = (case spec of None \<Rightarrow> Inr [] | Some s \<Rightarrow> f s)"

lemma unless_nil_Some [simp]: "unless_nil f (Some s) = f s"
  by (simp add: unless_nil_def)

definition GetMasterConfig :: "'w ext \<Rightarrow> YtsaurusResource \<Rightarrow> ('z) BaseGenerator_scheme \<Rightarrow> MastersSpec \<Rightarrow> string + string" where
  "GetMasterConfig E r g spec = finish E fields_MasterServer (getMasterConfigImpl E r g spec)"

definition GetDiscoveryConfig :: "'w ext \<Rightarrow> ('z) BaseGenerator_scheme \<Rightarrow> InstanceSpec \<Rightarrow> string + string" where
  "GetDiscoveryConfig E g spec = finish E fields_DiscoveryServer (getDiscoveryConfigImpl E g spec)"

definition GetMasterCachesConfig :: "'w ext \<Rightarrow> ('z) BaseGenerator_scheme \<Rightarrow> MasterCachesSpec option \<Rightarrow> string + string" where
  "GetMasterCachesConfig E g = unless_nil (\<lambda>spec. finish E fields_CommonServer (getMasterCachesConfigImpl E g spec))"

definition GetDataNodeConfig :: "'w ext \<Rightarrow> ('z) BaseGenerator_scheme \<Rightarrow> DataNodesSpec \<Rightarrow> string + string" where
  "GetDataNodeConfig E g spec = finish E fields_DataNodeServer (getDataNodeConfigImpl E g spec)"

definition GetExecNodeConfig :: "'w ext \<Rightarrow> ('z) BaseGenerator_scheme \<Rightarrow> ExecNodesSpec \<Rightarrow> string + string" where
  "GetExecNodeConfig E g spec = finish E fields_ExecNodeServer (getExecNodeConfigImpl E g spec)"

definition GetTabletNodeConfig :: "'w ext \<Rightarrow> ('z) BaseGenerator_scheme \<Rightarrow> TabletNodesSpec \<Rightarrow> string + string" where
  "GetTabletNodeConfig E g spec = finish E fields_TabletNodeServer (getTabletNodeConfigImpl E g spec)"

definition GetHTTPProxyConfig :: "'w ext \<Rightarrow> YtsaurusResource \<Rightarrow> ('z) BaseGenerator_scheme \<Rightarrow> HTTPProxiesSpec \<Rightarrow> string + string" where
  "GetHTTPProxyConfig E r g spec = finish E fields_HTTPProxyServer (getHTTPProxyConfigImpl E r g spec)"

definition GetSchedulerConfig :: "'w ext \<Rightarrow> YtsaurusResource \<Rightarrow> ('z) BaseGenerator_scheme \<Rightarrow> InstanceSpec option \<Rightarrow> string + string" where
  "GetSchedulerConfig E r g = unless_nil (\<lambda>spec. finish E fields_SchedulerServer (getSchedulerConfigImpl E r g spec))"

definition GetControllerAgentConfig :: "'w ext \<Rightarrow> ('z) BaseGenerator_scheme \<Rightarrow> InstanceSpec option \<Rightarrow> string + string" where
  "GetControllerAgentConfig E g = unless_nil (\<lambda>spec. finish E fields_ControllerAgentServer (getControllerAgentConfigImpl E g spec))"

definition GetQueryTrackerConfig :: "'w ext \<Rightarrow> ('z) BaseGenerator_scheme \<Rightarrow> InstanceSpec option \<Rightarrow> string + string" where
  "GetQueryTrackerConfig E g = unless_nil (\<lambda>spec. finish E fields_QueryTrackerServer (getQueryTrackerConfigImpl E g spec))"

definition GetQueueAgentConfig :: "'w ext \<Rightarrow> ('z) BaseGenerator_scheme \<Rightarrow> InstanceSpec option \<Rightarrow> string + string" where
  "GetQueueAgentConfig E g = unless_nil (\<lambda>spec. finish E fields_QueueAgentServer (getQueueAgentConfigImpl E g spec))"

definition GetYQLAgentConfig :: "'w ext \<Rightarrow> YtsaurusResource \<Rightarrow> ('z) BaseGenerator_scheme \<Rightarrow> InstanceSpec option \<Rightarrow> string + string" where
  "GetYQLAgentConfig E r g = unless_nil (\<lambda>spec. finish E fields_YQLAgentServer (getYQLAgentConfigImpl E r g spec))"

definition GetChytInitClusterConfig :: "'w ext \<Rightarrow> YtsaurusResource \<Rightarrow> ('z) BaseGenerator_scheme \<Rightarrow> string + string" where
  "GetChytInitClusterConfig E r g = marshallYsonConfig E (fields_ChytInitCluster r g)"

definition GetContainerdConfig :: "'w ext \<Rightarrow> ExecNodesSpec \<Rightarrow> string + string" where
  "GetContainerdConfig E spec = finish E (\<lambda>c. c) (containerdConfig spec)"

text \<open>The facts that turn a request into its document.\<close>

lemmas Get_config_defs = GetMasterConfig_def GetDiscoveryConfig_def GetMasterCachesConfig_def GetDataNodeConfig_def GetExecNodeConfig_def
  GetTabletNodeConfig_def GetHTTPProxyConfig_def GetSchedulerConfig_def GetControllerAgentConfig_def GetQueryTrackerConfig_def
  GetQueueAgentConfig_def GetYQLAgentConfig_def GetChytInitClusterConfig_def GetContainerdConfig_def

definition GetClusterConnection :: "'w ext \<Rightarrow> ('z) BaseGenerator_scheme \<Rightarrow> string + string" where
  "GetClusterConnection E g = f_yson_marshal (x_fmt E) (yson_ClusterConnection (fillClusterConnection E g None zero_ClusterConnection))"

definition GetStrawberryControllerConfig :: "'w ext \<Rightarrow> YtsaurusResource \<Rightarrow> ('z) BaseGenerator_scheme \<Rightarrow> string + string" where
  "GetStrawberryControllerConfig E r g =
     sum_bind (marshallYsonConfig E [(''address_resolver'', yson_AddressResolver (fillAddressResolver g zero_AddressResolver))])
       (\<lambda>_. marshallYsonConfig E (fields_StrawberryController r g))"

definition GetNativeClientConfig :: "'w ext \<Rightarrow> YtsaurusResource \<Rightarrow> ('z) BaseGenerator_scheme \<Rightarrow> string + string" where
  "GetNativeClientConfig E r g =
     (let c = getNativeClientCarcass
      in marshallYsonConfig E (fields_NativeClient (c\<lparr>nc_Driver := (fillDriver E r g (nc_Driver c))\<lparr>drv_APIVersion := 4\<rparr>,
           nc_AddressResolver := fillAddressResolver g (nc_AddressResolver c)\<rparr>)))"

definition GetRPCProxyConfig :: "'w ext \<Rightarrow> YtsaurusResource \<Rightarrow> ('z) BaseGenerator_scheme \<Rightarrow> RPCProxiesSpec \<Rightarrow> string + string" where
  "GetRPCProxyConfig E r g spec = sum_bind (getRPCProxyConfigImpl E r g spec) (\<lambda>c.
     marshallYsonConfig E (fields_RPCProxyServer
       (if rt_TLSSecret (rps_Transport spec) \<noteq> None
        then c\<lparr>bs_BusServer := Some (fillBusEncryption (rps_Transport spec)
               (case bs_BusServer c of Some b \<Rightarrow> b | None \<Rightarrow> zero_Bus))\<rparr>
        else c)))"

definition GetTCPProxyConfig :: "'w ext \<Rightarrow> YtsaurusResource \<Rightarrow> ('z) BaseGenerator_scheme \<Rightarrow> TCPProxiesSpec \<Rightarrow> string + string" where
  "GetTCPProxyConfig E r g spec =
     (if ys_TCPProxies (yr_Spec r) = [] then Inr [] else finish E fields_TCPProxyServer (getTCPProxyConfigImpl E g spec))"

definition GetUIClustersConfig :: "'w ext \<Rightarrow> YtsaurusResource \<Rightarrow> ('z) BaseGenerator_scheme \<Rightarrow> string + string" where
  "GetUIClustersConfig E r g = (case ys_UI (yr_Spec r) of
       None \<Rightarrow> Inr []
     | Some ui \<Rightarrow> marshallYsonConfig E [(''clusters'', YList [yson_UICluster (uiCluster r g ui)])])"

definition GetUICustomConfig :: "'w ext \<Rightarrow> YtsaurusResource \<Rightarrow> string + string" where
  "GetUICustomConfig E r = (case ys_UI (yr_Spec r) of None \<Rightarrow> Inr [] | Some ui \<Rightarrow> marshallYsonConfig E (fields_UICustom ui))"

text \<open>
  A document of the generator for the resource. The Go closure runs when the configuration is
  needed; the resource differs then at most by default monitoring ports of other components, which
  the documents do not read.
\<close>

definition generate :: "'w ext \<Rightarrow> configRequest \<Rightarrow> YtsaurusResource \<Rightarrow> ('z) BaseGenerator_scheme \<Rightarrow> string + string" where
  "generate E req r g = (case req of
       MasterConfig spec \<Rightarrow> GetMasterConfig E r g spec
     | DiscoveryConfig spec \<Rightarrow> GetDiscoveryConfig E g spec
     | MasterCachesConfig spec \<Rightarrow> GetMasterCachesConfig E g (Some spec)
     | DataNodeConfig spec \<Rightarrow> GetDataNodeConfig E g spec
     | ExecNodeConfig spec \<Rightarrow> GetExecNodeConfig E g spec
     | TabletNodeConfig spec \<Rightarrow> GetTabletNodeConfig E g spec
     | HTTPProxyConfig spec \<Rightarrow> GetHTTPProxyConfig E r g spec
     | RPCProxyConfig spec \<Rightarrow> GetRPCProxyConfig E r g spec
     | TCPProxyConfig spec \<Rightarrow> GetTCPProxyConfig E r g spec
     | SchedulerConfig spec \<Rightarrow> GetSchedulerConfig E r g (Some spec)
     | ControllerAgentConfig spec \<Rightarrow> GetControllerAgentConfig E g (Some spec)
     | QueryTrackerConfig spec \<Rightarrow> GetQueryTrackerConfig E g (Some spec)
     | QueueAgentConfig spec \<Rightarrow> GetQueueAgentConfig E g (Some spec)
     | YQLAgentConfig spec \<Rightarrow> GetYQLAgentConfig E r g (Some spec)
     | ContainerdConfig spec \<Rightarrow> GetContainerdConfig E spec
     | NativeClientConfig \<Rightarrow> GetNativeClientConfig E r g
     | ClusterConnectionConfig \<Rightarrow> GetClusterConnection E g
     | StrawberryControllerConfig \<Rightarrow> GetStrawberryControllerConfig E r g
     | ChytInitClusterConfig \<Rightarrow> GetChytInitClusterConfig E r g
     | UIClustersConfig \<Rightarrow> GetUIClustersConfig E r g
     | UICustomConfig \<Rightarrow> GetUICustomConfig E r)"

subsection \<open>Documents that are always built\<close>

text \<open>The serialiser accepts every document.\<close>

definition marshal_ok :: "'w ext \<Rightarrow> bool" where
  "marshal_ok E \<longleftrightarrow> (\<forall>v. \<not> isl (f_yson_marshal (x_fmt E) v))"

lemma isl_sum_bind [simp]: "isl (sum_bind x f) \<longleftrightarrow> isl x \<or> (\<exists>y. x = Inr y \<and> isl (f y))"
  by (cases x) auto

lemma isl_deref [simp]: "isl (deref x) \<longleftrightarrow> x = None"
  by (cases x) auto

lemma isl_finish: "marshal_ok E \<Longrightarrow> isl (finish E encode c) \<longleftrightarrow> isl c"
  by (auto simp: finish_def marshal_ok_def marshallYsonConfig_def)

lemma FindAll_empty: "FindAllLocations ls t = [] \<longleftrightarrow> FindFirstLocation ls t = None"
  by (simp add: FindFirstLocation_hd split: list.split)

lemma isl_carcass:
  "isl (serverCarcass p i l x) \<longleftrightarrow> is_MonitoringPort i = None"
  "isl (fillClusterNodeServerCarcass f t k i) \<longleftrightarrow> is_MonitoringPort i = None"
  by (simp_all add: serverCarcass_def fillClusterNodeServerCarcass_def)

text \<open>A server's document needs the monitoring port only; masters and nodes need their locations too.\<close>

lemma generate_servers:
  assumes "marshal_ok E"
  shows "isl (generate E (DiscoveryConfig i) r g) \<longleftrightarrow> is_MonitoringPort i = None"
    and "isl (generate E (SchedulerConfig i) r g) \<longleftrightarrow> is_MonitoringPort i = None"
    and "isl (generate E (ControllerAgentConfig i) r g) \<longleftrightarrow> is_MonitoringPort i = None"
    and "isl (generate E (QueryTrackerConfig i) r g) \<longleftrightarrow> is_MonitoringPort i = None"
    and "isl (generate E (QueueAgentConfig i) r g) \<longleftrightarrow> is_MonitoringPort i = None"
    and "isl (generate E (YQLAgentConfig i) r g) \<longleftrightarrow> is_MonitoringPort i = None"
    and "isl (generate E (MasterCachesConfig m) r g) \<longleftrightarrow> is_MonitoringPort (mc_Instance m) = None"
    and "isl (generate E (HTTPProxyConfig hp) r g) \<longleftrightarrow> is_MonitoringPort (hps_Instance hp) = None"
    and "isl (generate E (TabletNodeConfig tn) r g) \<longleftrightarrow> is_MonitoringPort (tns_Instance tn) = None"
  by (simp_all add: generate_def Get_config_defs isl_finish [OF assms] Let_def isl_carcass getDiscoveryConfigImpl_def getDiscoveryServerCarcass_def
      getSchedulerConfigImpl_def getSchedulerServerCarcass_def getControllerAgentConfigImpl_def getControllerAgentServerCarcass_def
      getQueryTrackerConfigImpl_def getQueryTrackerServerCarcass_def getQueueAgentConfigImpl_def getQueueAgentServerCarcass_def
      getYQLAgentConfigImpl_def getYQLAgentServerCarcass_def getMasterCachesConfigImpl_def getMasterCachesCarcass_def
      getHTTPProxyConfigImpl_def getHTTPProxyServerCarcass_def getTabletNodeConfigImpl_def getTabletNodeServerCarcass_def)

lemma generate_proxies:
  assumes "marshal_ok E"
  shows "isl (generate E (RPCProxyConfig rp) r g) \<longleftrightarrow> is_MonitoringPort (rps_Instance rp) = None"
    and "isl (generate E (TCPProxyConfig tp) r g) \<longleftrightarrow> is_MonitoringPort (tps_Instance tp) = None \<and> ys_TCPProxies (yr_Spec r) \<noteq> []"
proof -
  have m: "\<not> isl (marshallYsonConfig E c)" for c using assms by (simp add: marshal_ok_def marshallYsonConfig_def)
  show "isl (generate E (RPCProxyConfig rp) r g) \<longleftrightarrow> is_MonitoringPort (rps_Instance rp) = None"
    by (simp add: generate_def Get_config_defs GetRPCProxyConfig_def m getRPCProxyConfigImpl_def getRPCProxyServerCarcass_def Let_def)
  show "isl (generate E (TCPProxyConfig tp) r g) \<longleftrightarrow> is_MonitoringPort (tps_Instance tp) = None \<and> ys_TCPProxies (yr_Spec r) \<noteq> []"
    by (simp add: generate_def Get_config_defs GetTCPProxyConfig_def isl_finish [OF assms] getTCPProxyConfigImpl_def getTCPProxyServerCarcass_def)
qed

lemma generate_master:
  assumes "marshal_ok E"
  shows "isl (generate E (MasterConfig ms) r g) \<longleftrightarrow> is_MonitoringPort (ms_Instance ms) = None \<or>
      FindFirstLocation (is_Locations (ms_Instance ms)) LocationTypeMasterChangelogs = None \<or>
      FindFirstLocation (is_Locations (ms_Instance ms)) LocationTypeMasterSnapshots = None"
  by (cases "is_MonitoringPort (ms_Instance ms)")
    (auto simp: generate_def Get_config_defs isl_finish [OF assms] Let_def getMasterConfigImpl_def getMasterServerCarcass_def split: option.split)

lemma generate_data_node:
  assumes "marshal_ok E"
  shows "isl (generate E (DataNodeConfig dn) r g) \<longleftrightarrow> is_MonitoringPort (dns_Instance dn) = None \<or>
      FindFirstLocation (is_Locations (dns_Instance dn)) LocationTypeChunkStore = None"
  by (cases "is_MonitoringPort (dns_Instance dn)")
    (auto simp: generate_def Get_config_defs isl_finish [OF assms] Let_def getDataNodeConfigImpl_def getDataNodeServerCarcass_def
      fillClusterNodeServerCarcass_def FindAll_empty)

lemma generate_exec_node:
  assumes "marshal_ok E"
  shows "isl (generate E (ExecNodeConfig en) r g) \<longleftrightarrow> is_MonitoringPort (ens_Instance en) = None \<or>
      FindFirstLocation (is_Locations (ens_Instance en)) LocationTypeChunkCache = None \<or>
      FindFirstLocation (is_Locations (ens_Instance en)) LocationTypeSlots = None"
  by (cases "is_MonitoringPort (ens_Instance en)")
    (auto simp: generate_def Get_config_defs isl_finish [OF assms] Let_def getExecNodeConfigImpl_def getExecNodeServerCarcass_def
      fillClusterNodeServerCarcass_def FindAll_empty)

lemma generate_containerd:
  assumes "marshal_ok E"
  shows "isl (generate E (ContainerdConfig en) r g) \<longleftrightarrow>
      (case ens_JobEnvironment en of Some env \<Rightarrow> je_CRI env = None | None \<Rightarrow> True)"
  by (auto simp: generate_def Get_config_defs isl_finish [OF assms] containerdConfig_def split: option.split)

lemma generate_others:
  assumes "marshal_ok E"
  shows "\<not> isl (generate E NativeClientConfig r g)" "\<not> isl (generate E ClusterConnectionConfig r g)"
    "\<not> isl (generate E StrawberryControllerConfig r g)" "\<not> isl (generate E ChytInitClusterConfig r g)"
    "\<not> isl (generate E UIClustersConfig r g)" "\<not> isl (generate E UICustomConfig r g)"
  using assms by (simp_all add: generate_def Get_config_defs GetNativeClientConfig_def GetClusterConnection_def GetStrawberryControllerConfig_def
      GetUIClustersConfig_def GetUICustomConfig_def marshallYsonConfig_def marshal_ok_def Let_def split: option.split)

lemmas generate_iff = generate_servers generate_proxies generate_master generate_data_node generate_exec_node
  generate_containerd generate_others

end
