(* ===== verification/Blocks.thy ===== *)
theory Blocks
  imports Heap Documents
begin

text \<open>
  The methods of \<open>microservice.go\<close>, the helpers of \<open>helpers.go\<close>, \<open>pods_manager.go\<close> and
  \<open>component.go\<close> that change the cluster, and the tests and steps that the \<open>doSync\<close> methods
  of the components share.
\<close>

subsection \<open>microservice.go\<close>

definition rebuildDeployment :: "CommonSpec \<Rightarrow> microserviceImpl \<Rightarrow> microserviceImpl" where
  "rebuildDeployment common m =
     (let d = Deployment_Build common (mi_deployment m);
          body = (o_Body (r_new d))\<lparr>dp_Replicas := Some (mi_instanceCount m),
            dp_PodSpec := (dp_PodSpec (o_Body (r_new d)))\<lparr>ps_Containers := [zero_container\<lparr>ct_Image := mi_image m\<rparr>]\<rparr>\<rparr>
      in m\<lparr>mi_deployment := d\<lparr>r_new := (r_new d)\<lparr>o_Body := body\<rparr>\<rparr>, mi_builtDeployment := True\<rparr>)"

definition buildDeployment :: "CommonSpec \<Rightarrow> microserviceImpl \<Rightarrow> microserviceImpl" where
  "buildDeployment common m = (if mi_builtDeployment m then m else rebuildDeployment common m)"

definition onDeploymentPodSpec :: "(PodSpec \<Rightarrow> PodSpec) \<Rightarrow> microserviceImpl \<Rightarrow> microserviceImpl" where
  "onDeploymentPodSpec f m = m\<lparr>mi_deployment := (mi_deployment m)\<lparr>r_new := (r_new (mi_deployment m))\<lparr>o_Body :=
     (o_Body (r_new (mi_deployment m)))\<lparr>dp_PodSpec := f (dp_PodSpec (o_Body (r_new (mi_deployment m))))\<rparr>\<rparr>\<rparr>\<rparr>"

definition buildService :: "microserviceImpl \<Rightarrow> microserviceImpl" where
  "buildService m =
     (if mi_builtService m then m else m\<lparr>mi_service := HTTPService_Build (mi_service m), mi_builtService := True\<rparr>)"

definition setServiceType :: "string \<Rightarrow> (ServiceBody, 'z) res_scheme \<Rightarrow> (ServiceBody, 'z) res_scheme" where
  "setServiceType t s = s\<lparr>r_new := (r_new s)\<lparr>o_Body := (o_Body (r_new s))\<lparr>svc_Type := t\<rparr>\<rparr>\<rparr>"

definition buildConfig :: "'w ext \<Rightarrow> microserviceImpl \<Rightarrow> (('w, 'z) mem_scheme, microserviceImpl) state" where
  "buildConfig E m =
     (if mi_builtConfig m then ret m
      else do {
        (ch, ok) \<leftarrow> ConfigHelper_Build E (mi_configHelper m);
        ret (m\<lparr>mi_configHelper := ch, mi_builtConfig := ok\<rparr>)
      })"

definition microserviceImpl_Sync :: "'w ext \<Rightarrow> microserviceImpl \<Rightarrow> (('w, 'z) mem_scheme, error \<times> microserviceImpl) state" where
  "microserviceImpl_Sync E m = do {
     m1 \<leftarrow> buildConfig E m;
     common \<leftarrow> gets (\<lambda>h. ys_Common (yr_Spec (h_yts h)));
     let m2 = buildService (buildDeployment common m1);
     err \<leftarrow> resources_Sync [Some (Deployment_Sync E (mi_deployment m2)),
       Some (ConfigHelper_Sync E (mi_configHelper m2)), Some (HTTPService_Sync E (mi_service m2))];
     ret (err, m2)
   }"

definition microserviceImpl_Fetch :: "'w ext \<Rightarrow> microserviceImpl \<Rightarrow> (('w, 'z) mem_scheme, error \<times> microserviceImpl) state" where
  "microserviceImpl_Fetch E = fetch_parts
     [\<lambda>m. do { (e, r) \<leftarrow> ConfigHelper_Fetch E (mi_configHelper m); ret (e, m\<lparr>mi_configHelper := r\<rparr>) },
      \<lambda>m. do { (e, r) \<leftarrow> Deployment_Fetch E (mi_deployment m); ret (e, m\<lparr>mi_deployment := r\<rparr>) },
      \<lambda>m. do { (e, r) \<leftarrow> HTTPService_Fetch E (mi_service m); ret (e, m\<lparr>mi_service := r\<rparr>) }]"

definition microserviceImpl_needSync :: "'w ext \<Rightarrow> microserviceImpl \<Rightarrow> (('w, 'z) mem_scheme, bool) state" where
  "microserviceImpl_needSync E m = do {
     (needReload, err) \<leftarrow> NeedReload E (mi_configHelper m);
     let needReload' = (if err \<noteq> None then False else needReload);
     updating \<leftarrow> gets IsUpdating;
     ret (NeedInit (mi_configHelper m) \<or> (updating \<and> needReload') \<or> \<not> Exists (mi_service m) \<or>
       Deployment_NeedSync (mi_deployment m) (mi_instanceCount m))
   }"

definition microserviceImpl_exists :: "microserviceImpl \<Rightarrow> bool" where
  "microserviceImpl_exists m \<longleftrightarrow> Exists (mi_deployment m) \<and> Exists (mi_service m)"

definition microservice_podsImageCorrespondsToSpec :: "microserviceImpl \<Rightarrow> bool" where
  "microservice_podsImageCorrespondsToSpec m = (case ps_Containers (dp_PodSpec (o_Body (r_old (mi_deployment m)))) of
       [] \<Rightarrow> False
     | c # _ \<Rightarrow> ct_Image c = mi_image m)"

definition microserviceImpl_needUpdate :: "'w ext \<Rightarrow> microserviceImpl \<Rightarrow> (('w, 'z) mem_scheme, bool) state" where
  "microserviceImpl_needUpdate E m =
     (if \<not> microserviceImpl_exists m then ret False
      else if \<not> microservice_podsImageCorrespondsToSpec m then ret True
      else do {
        (needReload, err) \<leftarrow> NeedReload E (mi_configHelper m);
        ret (if err \<noteq> None then False else needReload)
      })"

definition microserviceImpl_arePodsReady :: "microserviceImpl \<Rightarrow> bool" where
  "microserviceImpl_arePodsReady m = Deployment_ArePodsReady (mi_deployment m)"

definition microserviceImpl_arePodsRemoved :: "microserviceImpl \<Rightarrow> bool" where
  "microserviceImpl_arePodsRemoved m =
     (if \<not> Exists (mi_deployment m) then True else Deployment_ArePodsRemoved (mi_deployment m))"

text \<open>The new specification is a copy of the fetched one with no replicas.\<close>

definition microserviceImpl_removePods :: "'w ext \<Rightarrow> microserviceImpl \<Rightarrow> (('w, 'z) mem_scheme, error \<times> microserviceImpl) state" where
  "microserviceImpl_removePods E m = do {
     common \<leftarrow> gets (\<lambda>h. ys_Common (yr_Spec (h_yts h)));
     let d = Deployment_Build common (mi_deployment m);
     let old = o_Body (r_old d);
     let body = (o_Body (r_new d))\<lparr>dp_Replicas := Some 0, dp_Selector := dp_Selector old,
       dp_TemplateLabels := dp_TemplateLabels old, dp_TemplateAnnotations := dp_TemplateAnnotations old,
       dp_PodSpec := dp_PodSpec old\<rparr>;
     microserviceImpl_Sync E (m\<lparr>mi_deployment := d\<lparr>r_new := (r_new d)\<lparr>o_Body := body\<rparr>\<rparr>, mi_builtDeployment := True\<rparr>)
   }"

subsection \<open>pods_manager.go\<close>

record 's podsManager =
  pm_removePods :: "('s, error) state"
  pm_arePodsRemoved :: "('s, bool) state"

definition serverPods :: "'w ext \<Rightarrow> nat \<Rightarrow> 'w heap podsManager" where
  "serverPods E a = \<lparr>pm_removePods = on_srv a (serverImpl_removePods E),
     pm_arePodsRemoved = gets (\<lambda>h. serverImpl_arePodsRemoved E (h_srv h a) (h_world h))\<rparr>"

definition microservicePods :: "'w ext \<Rightarrow> nat \<Rightarrow> 'w heap podsManager" where
  "microservicePods E a = \<lparr>pm_removePods = on_ms a (microserviceImpl_removePods E),
     pm_arePodsRemoved = gets (\<lambda>h. microserviceImpl_arePodsRemoved (h_ms h a))\<rparr>"

definition isPodsRemovingStarted :: "'w ext \<Rightarrow> Labeller \<Rightarrow> ('w, 'z) mem_scheme \<Rightarrow> bool" where
  "isPodsRemovingStarted E l = IsUpdateStatusConditionTrue E (GetPodsRemovingStartedCondition l)"

definition setPodsRemovingStartedCondition :: "'w ext \<Rightarrow> Labeller \<Rightarrow> (('w, 'z) mem_scheme, unit) state" where
  "setPodsRemovingStartedCondition E l = SetUpdateStatusCondition E
     (mkCondition (GetPodsRemovingStartedCondition l) ConditionTrue ''Update'' ''Pods removing was started'')"

definition setPodsRemovedCondition :: "'w ext \<Rightarrow> Labeller \<Rightarrow> (('w, 'z) mem_scheme, unit) state" where
  "setPodsRemovedCondition E l = SetUpdateStatusCondition E
     (mkCondition (GetPodsRemovedCondition (lb_ComponentName l)) ConditionTrue ''Update'' ''Pods removed'')"

definition removePods :: "'w ext \<Rightarrow> ('w, 'z) mem_scheme podsManager \<Rightarrow> Labeller \<Rightarrow> (('w, 'z) mem_scheme, error) state" where
  "removePods E manager l = do {
     started \<leftarrow> gets (isPodsRemovingStarted E l);
     if \<not> started then do {
       err \<leftarrow> pm_removePods manager;
       if err \<noteq> None then ret err
       else do {
         setPodsRemovingStartedCondition E l;
         ret None
       }
     }
     else do {
       removed \<leftarrow> pm_arePodsRemoved manager;
       if \<not> removed then ret None
       else do {
         setPodsRemovedCondition E l;
         ret None
       }
     }
   }"

subsection \<open>helpers.go\<close>

definition handleUpdatingClusterState :: "'w ext \<Rightarrow> Labeller \<Rightarrow> bool \<Rightarrow> ('w, 'z) mem_scheme podsManager \<Rightarrow> bool \<Rightarrow>
    (('w, 'z) mem_scheme, ComponentStatus option \<times> error) state" where
  "handleUpdatingClusterState E l updatable manager dry = do {
     upd \<leftarrow> gets (isUpdatingNamed (lb_ComponentName l) updatable);
     s \<leftarrow> gets GetUpdateState;
     if upd then
       if s = UpdateStateWaitingForPodsRemoval then do {
         err \<leftarrow> (if \<not> dry then removePods E manager l else ret None);
         ret (Some (WaitingStatus SyncStatusUpdating ''pods removal''), err)
       }
       else if s \<noteq> UpdateStateWaitingForPodsCreation then
         ret (Some (NewComponentStatus SyncStatusReady ''Nothing to do now''), None)
       else ret (None, None)
     else ret (Some (NewComponentStatus SyncStatusReady ''Not updating component''), None)
   }"

text \<open>The loop from the current to the wanted number of cells.\<close>

function createCellsLoop :: "'w ext \<Rightarrow> string \<Rightarrow> int \<Rightarrow> int \<Rightarrow> (('w, 'z) mem_scheme, error) state" where
  "createCellsLoop E bundle i tabletCellCount =
     (if i < tabletCellCount then do {
        err \<leftarrow> ext_write (y_create_object (x_yt E) ''tablet_cell'' [(''tablet_cell_bundle'', YString bundle)] False);
        if err \<noteq> None then ret err else createCellsLoop E bundle (i + 1) tabletCellCount
      }
      else ret None)"
  by pat_completeness auto
termination createCellsLoop
  by (relation "measure (\<lambda>(E, b, i, n). nat (n - i))") auto

declare createCellsLoop.simps [simp del]

definition CreateTabletCells :: "'w ext \<Rightarrow> string \<Rightarrow> int \<Rightarrow> (('w, 'z) mem_scheme, error) state" where
  "CreateTabletCells E bundle tabletCellCount = do {
     r \<leftarrow> gets (\<lambda>h. y_get_int (x_yt E) (''//sys/tablet_cell_bundles/'' @ bundle @ ''/@tablet_cell_count'') (h_world h));
     (case r of
        Inl e \<Rightarrow> ret (Some e)
      | Inr initTabletCellCount \<Rightarrow> createCellsLoop E bundle initTabletCellCount tabletCellCount)
   }"

definition GetNotGoodTabletCellBundles :: "'w ext \<Rightarrow> 'w \<Rightarrow> string + string list" where
  "GetNotGoodTabletCellBundles E w = (case y_list_health (x_yt E) ''//sys/tablet_cell_bundles'' w of
       Inl e \<Rightarrow> Inl e
     | Inr bundles \<Rightarrow> Inr (map tbh_Name (filter (\<lambda>b. tbh_Health b \<noteq> ''good'') bundles)))"

text \<open>The result of adding the user to the superusers is ignored.\<close>

definition CreateUser :: "'w ext \<Rightarrow> string \<Rightarrow> string \<Rightarrow> bool \<Rightarrow> (('w, 'z) mem_scheme, error) state" where
  "CreateUser E userName token isSuperuser = do {
     err \<leftarrow> ext_write (y_create_object (x_yt E) ''user'' [(''name'', YString userName)] True);
     if err \<noteq> None then ret err
     else do {
       err \<leftarrow> (if token \<noteq> [] then do {
                 let tokenPath = ''//sys/cypress_tokens/'' @ f_sha256 (x_fmt E) token;
                 err \<leftarrow> ext_write (y_create_node (x_yt E) tokenPath ''map_node'' [] False True);
                 if err \<noteq> None then ret err
                 else ext_write (y_set (x_yt E) (tokenPath @ ''/@user'') (YString userName))
               }
               else ret None);
       if err \<noteq> None then ret err
       else do {
         (if isSuperuser then ext_write (y_add_member (x_yt E) ''superusers'' userName) else ret None);
         ret None
       }
     }
   }"

definition AddAffinity :: "string \<Rightarrow> string list \<Rightarrow> StatefulSetBody \<Rightarrow> StatefulSetBody" where
  "AddAffinity key values b =
     (let affinity = (case ps_Affinity (ss_PodSpec b) of Some a \<Rightarrow> a | None \<Rightarrow> \<lparr>af_NodeAffinity = None, af_PodAntiAffinity = None, af_Rest = []\<rparr>);
          nodeAffinity = (case af_NodeAffinity affinity of Some n \<Rightarrow> n | None \<Rightarrow> \<lparr>na_Required = None, na_Rest = []\<rparr>);
          terms = (case na_Required nodeAffinity of Some ts \<Rightarrow> ts | None \<Rightarrow> []);
          terms' = terms @ [[\<lparr>ns_Key = key, ns_Operator = ''In'', ns_Values = values\<rparr>]]
      in b\<lparr>ss_PodSpec := (ss_PodSpec b)\<lparr>ps_Affinity :=
            Some (affinity\<lparr>af_NodeAffinity := Some (nodeAffinity\<lparr>na_Required := Some terms'\<rparr>)\<rparr>)\<rparr>\<rparr>)"

text \<open>Sidecars are appended one by one: those before a malformed one stay in the pod.\<close>

fun AddSidecarsToPodSpec :: "'w ext \<Rightarrow> string list \<Rightarrow> PodSpec \<Rightarrow> PodSpec \<times> error" where
  "AddSidecarsToPodSpec E [] ps = (ps, None)"
| "AddSidecarsToPodSpec E (spec # specs) ps = (case f_yaml_container (x_fmt E) spec of
       Inl e \<Rightarrow> (ps, Some e)
     | Inr c \<Rightarrow> AddSidecarsToPodSpec E specs (ps\<lparr>ps_Containers := ps_Containers ps @ [c]\<rparr>))"

fun parseContainers :: "'w ext \<Rightarrow> string list \<Rightarrow> string + Container list" where
  "parseContainers E [] = Inr []"
| "parseContainers E (spec # specs) = (case f_yaml_container (x_fmt E) spec of
       Inl e \<Rightarrow> Inl e
     | Inr c \<Rightarrow> (case parseContainers E specs of Inl e \<Rightarrow> Inl e | Inr cs \<Rightarrow> Inr (c # cs)))"

definition AddInitContainersToPodSpec :: "'w ext \<Rightarrow> string list \<Rightarrow> PodSpec \<Rightarrow> PodSpec \<times> error" where
  "AddInitContainersToPodSpec E specs ps = (case parseContainers E specs of
       Inl e \<Rightarrow> (ps, Some e)
     | Inr cs \<Rightarrow> (ps\<lparr>ps_InitContainers := cs @ ps_InitContainers ps\<rparr>, None))"

subsection \<open>component.go\<close>

text \<open>The test of the configuration comes first, whether or not the cluster is updating.\<close>

definition LocalServerNeedSync :: "'w ext \<Rightarrow> nat \<Rightarrow> ('w heap, bool) state" where
  "LocalServerNeedSync E a = do {
     s \<leftarrow> gets (\<lambda>h. h_srv h a);
     reload \<leftarrow> configNeedsReload E s;
     updating \<leftarrow> gets IsUpdating;
     ret ((reload \<and> updating) \<or> needBuild s)
   }"

subsection \<open>The shape of a doSync method\<close>

text \<open>
  A \<open>doSync\<close> method is a sequence of blocks that may each return a status and an error; the first
  one that does ends the method, else the method ends with its last statement.
\<close>

type_synonym 's block = "('s, (ComponentStatus \<times> error) option) state"

fun firstStatus :: "'s block list \<Rightarrow> ('s, ComponentStatus \<times> error) state \<Rightarrow> ('s, ComponentStatus \<times> error) state" where
  "firstStatus [] final = final"
| "firstStatus (b # bs) final = do {
     r \<leftarrow> b;
     (case r of
        Some x \<Rightarrow> ret x
      | None \<Rightarrow> firstStatus bs final)
   }"

definition returnStatus :: "ComponentStatus \<Rightarrow> error \<Rightarrow> 's block" where
  "returnStatus s err = ret (Some (s, err))"

text \<open>\<open>if IsReadyToUpdateClusterState(...) && needUpdate() { return NeedLocalUpdate }\<close>\<close>

definition checkNeedUpdate :: "(('w, 'z) mem_scheme, bool) state \<Rightarrow> ('w, 'z) mem_scheme block" where
  "checkNeedUpdate needUpdate = do {
     s \<leftarrow> gets GetClusterState;
     if IsReadyToUpdateClusterState s then do {
       b \<leftarrow> needUpdate;
       ret (if b then Some (SimpleStatus SyncStatusNeedLocalUpdate, None) else None)
     }
     else ret None
   }"

text \<open>\<open>if GetClusterState() == Updating { if status, err := ...; status != nil { return } }\<close>\<close>

definition whenUpdating :: "('w, 'z) mem_scheme block \<Rightarrow> ('w, 'z) mem_scheme block" where
  "whenUpdating b = do {
     s \<leftarrow> gets GetClusterState;
     if s = ClusterStateUpdating then b else ret None
   }"

definition statusBlock :: "('s, ComponentStatus option \<times> error) state \<Rightarrow> 's block" where
  "statusBlock m = do {
     (s, err) \<leftarrow> m;
     ret (map_option (\<lambda>s. (s, err)) s)
   }"

definition checkUpdating :: "'w ext \<Rightarrow> Labeller \<Rightarrow> 'w heap podsManager \<Rightarrow> bool \<Rightarrow> 'w heap block" where
  "checkUpdating E l manager dry = whenUpdating (statusBlock (handleUpdatingClusterState E l True manager dry))"

text \<open>Wait for another component: its error is returned, a status that is not running blocks.\<close>

definition checkRunning :: "'s component \<Rightarrow> string \<Rightarrow> 's block" where
  "checkRunning c event = do {
     (s, err) \<leftarrow> c_Status c;
     if err \<noteq> None then ret (Some (s, err))
     else if \<not> IsRunningStatus (cst_SyncStatus s) then ret (Some (WaitingStatus SyncStatusBlocked event, None))
     else ret None
   }"

definition checkMaster :: "'s component \<Rightarrow> 's block" where
  "checkMaster master = checkRunning master (c_GetName master)"

text \<open>\<open>if NeedSync() { if !dry { err = sync() } return Pending }\<close>\<close>

definition checkServerSync :: "'w ext \<Rightarrow> nat \<Rightarrow> bool \<Rightarrow> ('w heap, error) state \<Rightarrow> 'w heap block" where
  "checkServerSync E a dry sync = do {
     need \<leftarrow> LocalServerNeedSync E a;
     if need then do {
       err \<leftarrow> (if \<not> dry then sync else ret None);
       ret (Some (WaitingStatus SyncStatusPending ''components'', err))
     }
     else ret None
   }"

definition checkPodsReady :: "'w ext \<Rightarrow> nat \<Rightarrow> 'w heap block" where
  "checkPodsReady E a = do {
     ready \<leftarrow> gets (\<lambda>h. serverImpl_arePodsReady E (h_srv h a) (h_world h));
     ret (if \<not> ready then Some (WaitingStatus SyncStatusBlocked ''pods'', None) else None)
   }"

text \<open>The block that makes sure that the component's secret holds a token.\<close>

definition setSecretData :: "string gomap \<Rightarrow> StringSecret \<Rightarrow> StringSecret" where
  "setSecretData d s = s\<lparr>r_new := (r_new s)\<lparr>o_Body := (o_Body (r_new s))\<lparr>sec_StringData := d\<rparr>\<rparr>\<rparr>"

definition checkSecret :: "'w ext \<Rightarrow> nat \<Rightarrow> (string \<Rightarrow> string gomap) \<Rightarrow> bool \<Rightarrow> 'w heap block" where
  "checkSecret E a mkData dry = do {
     s \<leftarrow> gets (\<lambda>h. h_sec h a);
     if StringSecret_NeedSync s TokenSecretKey [] then do {
       err \<leftarrow> (if \<not> dry then do {
                 token \<leftarrow> RandString E 30;
                 on_sec a (\<lambda>s. do {
                   let s' = setSecretData (mkData token) (StringSecret_Build s);
                   err \<leftarrow> StringSecret_Sync E s';
                   ret (err, s')
                 })
               }
               else ret None);
       ret (Some (WaitingStatus SyncStatusPending (r_name s), err))
     }
     else ret None
   }"

definition tokenData :: "string \<Rightarrow> string gomap" where
  "tokenData token = [TokenSecretKey \<mapsto> token]"

text \<open>A job that must be completed before the method goes on.\<close>

definition checkJob :: "'w ext \<Rightarrow> nat \<Rightarrow> bool \<Rightarrow> 'w heap block" where
  "checkJob E a dry = do {
     (s, err) \<leftarrow> on_job a (InitJob_Sync E dry);
     ret (if err \<noteq> None \<or> cst_SyncStatus s \<noteq> SyncStatusReady then Some (s, err) else None)
   }"

definition setScript :: "'w ext \<Rightarrow> nat \<Rightarrow> string \<Rightarrow> ('w heap, unit) state" where
  "setScript E a script = on_job a (\<lambda>j. do { j' \<leftarrow> SetInitScript E script j; ret ((), j') })"

text \<open>A block that only acts and never returns.\<close>

definition act :: "('s, unit) state \<Rightarrow> 's block" where
  "act m = do { m; ret None }"

definition getToken :: "'w heap \<Rightarrow> nat \<Rightarrow> string" where
  "getToken h a = fst (StringSecret_GetValue (h_sec h a) TokenSecretKey)"

definition syncOf :: "(bool \<Rightarrow> ('s, ComponentStatus \<times> error) state) \<Rightarrow> ('s, error) state" where
  "syncOf doSync = do { (s, err) \<leftarrow> doSync False; ret err }"

text \<open>A component from its \<open>doSync\<close> method: \<open>Status\<close> is a dry run, \<open>Sync\<close> a real one.\<close>

definition mkComponent :: "'w ext \<Rightarrow> Labeller \<Rightarrow> ComponentType \<Rightarrow> bool \<Rightarrow> ('w heap, error) state \<Rightarrow>
    (bool \<Rightarrow> ('w heap, ComponentStatus \<times> error) state) \<Rightarrow> 'w heap component" where
  "mkComponent E l t updatable fetch doSync = \<lparr>c_GetName = lb_ComponentName l, c_GetType = t, c_IsUpdatable = updatable,
     c_Fetch = fetch, c_Sync = syncOf doSync, c_Status = doSync True, c_SetReadyCondition = SetReadyCondition E l\<rparr>"

subsection \<open>Effects of the blocks\<close>

lemma cr_buildConfig [io_intros]: "state_io_rel (comp_rel E u) (buildConfig E m)"
  unfolding buildConfig_def by (intro io_intros)

lemma cr_microserviceImpl_Sync [io_intros]: "state_io_rel (comp_rel E u) (microserviceImpl_Sync E m)"
  unfolding microserviceImpl_Sync_def Let_def by (intro io_intros) (auto intro!: io_intros)

lemma cr_microserviceImpl_removePods [io_intros]: "state_io_rel (comp_rel E u) (microserviceImpl_removePods E m)"
  unfolding microserviceImpl_removePods_def Let_def by (intro io_intros)

lemma keeps_microserviceImpl_Fetch [io_intros]: "keeps f (microserviceImpl_Fetch E m)"
  unfolding microserviceImpl_Fetch_def by (rule keeps_fetch_parts) (auto intro!: io_intros)

lemma keeps_no_events_microservice [io_intros]:
  "keeps no_events (microserviceImpl_needSync E m)" "keeps no_events (microserviceImpl_needUpdate E m)"
  unfolding microserviceImpl_needSync_def microserviceImpl_needUpdate_def Let_def by (intro io_intros)+

definition pods_ok :: "'w ext \<Rightarrow> ('w, 'z) mem_scheme podsManager \<Rightarrow> bool" where
  "pods_ok E pm \<longleftrightarrow> (\<forall>u. state_io_rel (comp_rel E u) (pm_removePods pm)) \<and>
     (\<forall>u. state_io_rel (comp_rel E u) (pm_arePodsRemoved pm)) \<and>
     keeps h_yts (pm_arePodsRemoved pm) \<and> keeps h_world (pm_arePodsRemoved pm)"

lemma pods_ok_server [simp]: "pods_ok E (serverPods E a)"
  by (auto simp: pods_ok_def serverPods_def intro!: io_intros)

lemma pods_ok_microservice [simp]: "pods_ok E (microservicePods E a)"
  by (auto simp: pods_ok_def microservicePods_def intro!: io_intros)

text \<open>The removal of pods writes update conditions: it is allowed while the cluster is updating.\<close>

lemma cr_removePods [io_intros]: "pods_ok E pm \<Longrightarrow> state_io_rel (comp_rel E True) (removePods E pm l)"
  unfolding removePods_def setPodsRemovingStartedCondition_def setPodsRemovedCondition_def pods_ok_def
  by (intro io_intros) (simp_all add: mkCondition_def)

text \<open>The removal is recorded only after it was started and the server reports no pods any more.\<close>

lemma removePods_two_phase:
  assumes "cond_inv E h" and "keeps h_yts (pm_removePods pm)"
    and "run_state (removePods E pm l) h = (e, h')" and "run_state (pm_arePodsRemoved pm) h = (removed, h)"
    and "IsUpdateStatusConditionTrue E (GetPodsRemovedCondition (lb_ComponentName l)) h'"
    and "\<not> IsUpdateStatusConditionTrue E (GetPodsRemovedCondition (lb_ComponentName l)) h"
  shows "isPodsRemovingStarted E l h \<and> removed"
proof (rule ccontr)
  assume no: "\<not> (isPodsRemovingStarted E l h \<and> removed)"
  obtain e1 h1 where r: "run_state (pm_removePods pm) h = (e1, h1)" by fastforce
  have y: "h_yts h1 = h_yts h" using assms(2) r by (rule keepsD)
  then have inv: "cond_inv E h1" using assms(1) by (simp add: cond_inv_def)
  have ne: "GetPodsRemovedCondition (lb_ComponentName l) \<noteq> GetPodsRemovingStartedCondition l"
    by (simp add: GetPodsRemovedCondition_def GetPodsRemovingStartedCondition_def)
  let ?c = "mkCondition (GetPodsRemovingStartedCondition l) ConditionTrue ''Update'' ''Pods removing was started''"
  have "h_yts h' = h_yts h \<or> h' = snd (run_state (SetUpdateStatusCondition E ?c) h1)"
    using assms(3,4) no r y
    by (auto simp: removePods_def setPodsRemovingStartedCondition_def case_prod_unfold split: if_splits)
  then have "update_stored h' (GetPodsRemovedCondition (lb_ComponentName l)) = update_stored h (GetPodsRemovedCondition (lb_ComponentName l))
      \<and> cond_inv E h'"
    using upd.stored_set [OF inv, of ?c] upd.inv_set [OF inv, of ?c] ne y assms(1)
    by (auto simp: mkCondition_def update_stored_def cond_inv_def)
  with assms(1,5,6) show False by (simp add: IsUpdateStatusConditionTrue_stored)
qed

lemma cr_handleUpdating [io_intros]:
  "pods_ok E pm \<Longrightarrow> state_io_rel (comp_rel E True) (handleUpdatingClusterState E l b pm dry)"
  unfolding handleUpdatingClusterState_def by (intro io_intros)

lemma cr_createCellsLoop [io_intros]: "state_io_rel (comp_rel E u) (createCellsLoop E b i n)"
proof (induction E b i n rule: createCellsLoop.induct)
  case (1 E b i n)
  then show ?case by (subst createCellsLoop.simps) (auto intro!: io_intros)
qed

lemma cr_CreateTabletCells [io_intros]: "state_io_rel (comp_rel E u) (CreateTabletCells E b n)"
  unfolding CreateTabletCells_def by (intro io_intros)

lemma cr_CreateUser [io_intros]: "state_io_rel (comp_rel E u) (CreateUser E n t s)"
  unfolding CreateUser_def Let_def by (intro io_intros)

lemma cr_no_events: "keeps no_events m \<Longrightarrow> state_io_rel (comp_rel E u) m"
  by (auto intro!: cr_keeps keeps_from_no_events)

lemma keeps_no_events_LocalServerNeedSync [io_intros]: "keeps no_events (LocalServerNeedSync E a)"
  unfolding LocalServerNeedSync_def by (intro io_intros)

lemma cr_tests [io_intros]:
  "state_io_rel (comp_rel E u) (LocalServerNeedSync E a)" "state_io_rel (comp_rel E u) (serverImpl_needUpdate E s)"
  "state_io_rel (comp_rel E u) (microserviceImpl_needSync E m)" "state_io_rel (comp_rel E u) (microserviceImpl_needUpdate E m)"
  by (intro cr_no_events io_intros)+

lemma cr_fetches [io_intros]:
  "state_io_rel (comp_rel E u) (serverImpl_Fetch E s)" "state_io_rel (comp_rel E u) (InitJob_Fetch E j)"
  "state_io_rel (comp_rel E u) (microserviceImpl_Fetch E m)" "state_io_rel (comp_rel E u) (ConfigHelper_Fetch E c)"
  by (intro cr_keeps io_intros)+

lemma cr_firstStatus [io_intros]:
  "(\<And>b. b \<in> set bs \<Longrightarrow> state_io_rel (comp_rel E u) b) \<Longrightarrow> state_io_rel (comp_rel E u) m \<Longrightarrow>
   state_io_rel (comp_rel E u) (firstStatus bs m)"
  by (induction bs) (auto intro!: io_intros)

lemma keeps_firstStatus [io_intros]:
  "(\<And>b. b \<in> set bs \<Longrightarrow> keeps f b) \<Longrightarrow> keeps f m \<Longrightarrow> keeps f (firstStatus bs m)"
  by (induction bs) (auto intro!: io_intros)

lemma cr_checkNeedUpdate [io_intros]:
  "state_io_rel (comp_rel E u) n \<Longrightarrow> state_io_rel (comp_rel E u) (checkNeedUpdate n)"
  unfolding checkNeedUpdate_def by (intro io_intros)

lemma cr_whenUpdating [io_intros]:
  "state_io_rel (comp_rel E True) b \<Longrightarrow> state_io_rel (comp_rel E u) (whenUpdating b)"
  unfolding whenUpdating_def by (rule cr_if_updating) (auto intro: io_intros)

lemma cr_statusBlock [io_intros]: "state_io_rel (comp_rel E u) m \<Longrightarrow> state_io_rel (comp_rel E u) (statusBlock m)"
  unfolding statusBlock_def by (intro io_intros)

lemma cr_checkUpdating [io_intros]: "pods_ok E pm \<Longrightarrow> state_io_rel (comp_rel E u) (checkUpdating E l pm dry)"
  unfolding checkUpdating_def by (intro io_intros)

lemma cr_checkRunning [io_intros]:
  "state_io_rel (comp_rel E u) (c_Status c) \<Longrightarrow> state_io_rel (comp_rel E u) (checkRunning c ev)"
  unfolding checkRunning_def by (intro io_intros)

lemma cr_checkMaster [io_intros]:
  "state_io_rel (comp_rel E u) (c_Status c) \<Longrightarrow> state_io_rel (comp_rel E u) (checkMaster c)"
  unfolding checkMaster_def by (intro io_intros)

lemma cr_checkServerSync [io_intros]:
  "state_io_rel (comp_rel E u) m \<Longrightarrow> state_io_rel (comp_rel E u) (checkServerSync E a dry m)"
  unfolding checkServerSync_def by (intro io_intros)

lemma cr_checkPodsReady [io_intros]: "state_io_rel (comp_rel E u) (checkPodsReady E a)"
  unfolding checkPodsReady_def by (intro io_intros)

lemma cr_checkSecret [io_intros]: "state_io_rel (comp_rel E u) (checkSecret E a f dry)"
  unfolding checkSecret_def RandString_def Let_def by (intro io_intros)

lemma cr_checkJob [io_intros]: "state_io_rel (comp_rel E u) (checkJob E a dry)"
  unfolding checkJob_def by (intro io_intros)

lemma cr_setScript [io_intros]: "state_io_rel (comp_rel E u) (setScript E a s)"
  unfolding setScript_def by (intro io_intros)

lemma cr_act [io_intros]: "state_io_rel (comp_rel E u) m \<Longrightarrow> state_io_rel (comp_rel E u) (act m)"
  unfolding act_def by (intro io_intros)

lemma component_ok_mkComponent:
  assumes "state_io_rel (comp_rel E False) fetch" and "\<And>dry. state_io_rel (comp_rel E False) (doSync dry)"
  shows "component_ok E (mkComponent E l t b fetch doSync)"
  using assms by (auto simp: component_ok_def mkComponent_def syncOf_def intro!: io_intros)

subsection \<open>Dry runs\<close>

text \<open>What a status query must not change: the resource and the world.\<close>

definition outer :: "('w, 'z) mem_scheme \<Rightarrow> YtsaurusResource \<times> 'w" where
  "outer h = (h_yts h, h_world h)"

lemma keeps_outer_no_events: "keeps no_events m \<Longrightarrow> keeps outer m"
  unfolding keeps_def outer_def by (metis no_events_same(1,2))

lemma keeps_outer_iff: "keeps outer m \<longleftrightarrow> keeps h_yts m \<and> keeps h_world m"
  by (auto simp: keeps_def outer_def)

lemma keeps_outer_Record [io_intros]: "keeps outer (RecordNormal r m)" "keeps outer (RecordWarning r m)"
  by (intro keeps_outer_no_events io_intros)+

lemma keeps_outer_tests [io_intros]:
  "keeps outer (LocalServerNeedSync E a)" "keeps outer (serverImpl_needUpdate E s)"
  "keeps outer (microserviceImpl_needSync E m)" "keeps outer (microserviceImpl_needUpdate E m)"
  by (intro keeps_outer_no_events io_intros)+

lemma keeps_outer_on_obj [io_intros]:
  "(\<And>x. keeps outer (f1 x)) \<Longrightarrow> keeps outer (on_srv a f1)" "(\<And>x. keeps outer (f2 x)) \<Longrightarrow> keeps outer (on_job a f2)"
  "(\<And>x. keeps outer (f3 x)) \<Longrightarrow> keeps outer (on_sec a f3)" "(\<And>x. keeps outer (f4 x)) \<Longrightarrow> keeps outer (on_ms a f4)"
  "(\<And>x. keeps outer (f5 x)) \<Longrightarrow> keeps outer (on_cfg a f5)"
  by (auto simp: keeps_outer_iff intro: io_intros)

lemma keeps_outer_checkNeedUpdate [io_intros]: "keeps outer n \<Longrightarrow> keeps outer (checkNeedUpdate n)"
  unfolding checkNeedUpdate_def by (intro io_intros)

lemma keeps_whenUpdating [io_intros]: "keeps f b \<Longrightarrow> keeps f (whenUpdating b)"
  unfolding whenUpdating_def by (intro io_intros)

lemma keeps_statusBlock [io_intros]: "keeps f m \<Longrightarrow> keeps f (statusBlock m)"
  unfolding statusBlock_def by (intro io_intros)

lemma keeps_handleUpdating_dry [io_intros]: "keeps f (handleUpdatingClusterState E l b pm True)"
  unfolding handleUpdatingClusterState_def by simp (intro conjI impI io_intros)

lemma keeps_checkUpdating_dry [io_intros]: "keeps f (checkUpdating E l pm True)"
  unfolding checkUpdating_def by (intro io_intros)

lemma keeps_checkRunning [io_intros]: "keeps f (c_Status c) \<Longrightarrow> keeps f (checkRunning c ev)"
  unfolding checkRunning_def by (intro io_intros)

lemma keeps_checkMaster [io_intros]: "keeps f (c_Status c) \<Longrightarrow> keeps f (checkMaster c)"
  unfolding checkMaster_def by (intro io_intros)

lemma keeps_checkServerSync_dry [io_intros]: "keeps outer (checkServerSync E a True m)"
  unfolding checkServerSync_def by (simp) (intro io_intros)

lemma keeps_checkPodsReady [io_intros]: "keeps f (checkPodsReady E a)"
  unfolding checkPodsReady_def by (intro io_intros)

lemma keeps_checkSecret_dry [io_intros]: "keeps f (checkSecret E a d True)"
  unfolding checkSecret_def by simp (intro io_intros)

lemma keeps_checkJob_dry [io_intros]: "keeps outer (checkJob E a True)"
  unfolding checkJob_def by (intro io_intros)

lemma keeps_act [io_intros]: "keeps f m \<Longrightarrow> keeps f (act m)"
  unfolding act_def by (intro io_intros)

text \<open>The contract of a component whose status query is a pure observation.\<close>

definition dry_status :: "('w, 'z) mem_scheme component \<Rightarrow> bool" where
  "dry_status c \<longleftrightarrow> keeps outer (c_Status c)"

subsection \<open>Constructors\<close>

definition withMonitoringPort :: "int32 \<Rightarrow> InstanceSpec \<Rightarrow> InstanceSpec" where
  "withMonitoringPort port i = (case is_MonitoringPort i of
       None \<Rightarrow> i\<lparr>is_MonitoringPort := Some port\<rparr>
     | Some _ \<Rightarrow> i)"

definition map_spec :: "(YtsaurusSpec \<Rightarrow> YtsaurusSpec) \<Rightarrow> ('w, 'z) mem_scheme \<Rightarrow> ('w, 'z) mem_scheme" where
  "map_spec f h = h\<lparr>h_yts := (h_yts h)\<lparr>yr_Spec := f (yr_Spec (h_yts h))\<rparr>\<rparr>"

definition mkLabeller :: "YtsaurusResource \<Rightarrow> string \<Rightarrow> string \<Rightarrow> string gomap \<Rightarrow> Labeller" where
  "mkLabeller r componentLabel componentName annotations = \<lparr>lb_ClusterName = om_Name (yr_Meta r),
     lb_Namespace = om_Namespace (yr_Meta r), lb_ComponentLabel = componentLabel, lb_ComponentName = componentName,
     lb_Annotations = annotations\<rparr>"

definition extraPodAnnotations :: "YtsaurusResource \<Rightarrow> string gomap" where
  "extraPodAnnotations r = cs_ExtraPodAnnotations (ys_Common (yr_Spec r))"

text \<open>A job that runs with the native client configuration of the cluster.\<close>

definition nativeJob :: "'w ext \<Rightarrow> Generator \<Rightarrow> YtsaurusResource \<Rightarrow> Labeller \<Rightarrow> string \<Rightarrow> string \<Rightarrow> InitJob" where
  "nativeJob E g r l name img = NewInitJob l (cs_ImagePullSecrets (ys_Common (yr_Spec r))) name ClientConfigFileName img
     (generate E NativeClientConfig r g)"

abbreviation coreImage :: "YtsaurusResource \<Rightarrow> string" where
  "coreImage r \<equiv> cs_CoreImage (ys_Common (yr_Spec r))"

text \<open>A constructor changes the memory's objects and the specification, never the status or the world.\<close>

definition statusOuter :: "('w, 'z) mem_scheme \<Rightarrow> YtsaurusStatus \<times> ObjectMeta \<times> 'w" where
  "statusOuter h = (h_status h, yr_Meta (h_yts h), h_world h)"

lemma keeps_statusOuter_map_spec [io_intros]: "keeps statusOuter (modify (map_spec f))"
  by (rule keeps_modify) (simp add: statusOuter_def map_spec_def)

lemma keeps_statusOuter_alloc [io_intros]:
  "keeps statusOuter (alloc put_srv x1)" "keeps statusOuter (alloc put_job x2)" "keeps statusOuter (alloc put_sec x3)"
  "keeps statusOuter (alloc put_http x4)" "keeps statusOuter (alloc put_rpc x5)" "keeps statusOuter (alloc put_tcp x6)"
  "keeps statusOuter (alloc put_ms x7)" "keeps statusOuter (alloc put_cfg x8)"
  by (simp_all add: keeps_def statusOuter_def alloc_def put_defs)

end
