(* ===== verification/Nodes.thy ===== *)
theory Nodes
  imports Blocks
begin

text \<open>
  The components that are a server and little more: discovery, data nodes, controller agents,
  master caches, the HTTP, RPC and TCP proxies (with their balancing services) and the exec nodes
  (with their job containers), each with its constructor, its \<open>doSync\<close> and its interface value.
\<close>

subsection \<open>discovery.go\<close>

definition Discovery_doSync :: "'w ext \<Rightarrow> Labeller \<Rightarrow> nat \<Rightarrow> bool \<Rightarrow> ('w heap, ComponentStatus \<times> error) state" where
  "Discovery_doSync E l a dry = firstStatus
     [checkNeedUpdate (do { s \<leftarrow> gets (\<lambda>h. h_srv h a); serverImpl_needUpdate E s }),
      checkUpdating E l (serverPods E a) dry,
      checkServerSync E a dry (on_srv a (serverImpl_Sync E)),
      checkPodsReady E a]
     (ret (SimpleStatus SyncStatusReady, None))"

definition fetchServer :: "'w ext \<Rightarrow> nat \<Rightarrow> ('w heap, error) state" where
  "fetchServer E a = resources_Fetch [Some (on_srv a (serverImpl_Fetch E))]"

definition Discovery :: "'w ext \<Rightarrow> Labeller \<Rightarrow> nat \<Rightarrow> 'w heap component" where
  "Discovery E l a = mkComponent E l DiscoveryType True (fetchServer E a) (Discovery_doSync E l a)"

definition NewDiscovery :: "'w ext \<Rightarrow> Generator \<Rightarrow> ('w heap, 'w heap component) state" where
  "NewDiscovery E g = do {
     modify (map_spec (\<lambda>s. s\<lparr>ys_Discovery := withMonitoringPort DiscoveryMonitoringPort (ys_Discovery s)\<rparr>));
     r \<leftarrow> gets h_yts;
     let l = mkLabeller r YTComponentLabelDiscovery ''Discovery'' Map.empty;
     a \<leftarrow> alloc put_srv (newServer l r (ys_Discovery (yr_Spec r)) ''/usr/bin/ytserver-discovery'' ''ytserver-discovery.yson''
       (GetDiscoveryStatefulSetName g) (GetDiscoveryServiceName g)
       (generate E (DiscoveryConfig (ys_Discovery (yr_Spec r))) r g) [WithContainerPorts [tcpPort YTRPCPortName DiscoveryRPCPort]]);
     ret (Discovery E l a)
   }"

subsection \<open>data\_node.go\<close>

text \<open>The method that data nodes, controller agents and TCP-less proxies share block by block.\<close>

definition DataNode_doSync :: "'w ext \<Rightarrow> Labeller \<Rightarrow> nat \<Rightarrow> 'w heap component \<Rightarrow> bool \<Rightarrow> ('w heap, ComponentStatus \<times> error) state" where
  "DataNode_doSync E l a master dry = firstStatus
     [checkNeedUpdate (do { s \<leftarrow> gets (\<lambda>h. h_srv h a); serverImpl_needUpdate E s }),
      checkUpdating E l (serverPods E a) dry,
      checkMaster master,
      checkServerSync E a dry (on_srv a (serverImpl_Sync E)),
      checkPodsReady E a]
     (ret (SimpleStatus SyncStatusReady, None))"

definition DataNode :: "'w ext \<Rightarrow> Labeller \<Rightarrow> nat \<Rightarrow> 'w heap component \<Rightarrow> 'w heap component" where
  "DataNode E l a master = mkComponent E l DataNodeType True (fetchServer E a) (DataNode_doSync E l a master)"

definition NewDataNode :: "'w ext \<Rightarrow> NodeGenerator \<Rightarrow> 'w heap component \<Rightarrow> DataNodesSpec \<Rightarrow> ('w heap, 'w heap component) state" where
  "NewDataNode E g master spec0 = do {
     r \<leftarrow> gets h_yts;
     let spec = spec0\<lparr>dns_Instance := withMonitoringPort DataNodeMonitoringPort (dns_Instance spec0)\<rparr>;
     let l = mkLabeller r (FormatComponentStringWithDefault YTComponentLabelDataNode (dns_Name spec))
       (FormatComponentStringWithDefault ''DataNode'' (dns_Name spec)) Map.empty;
     a \<leftarrow> alloc put_srv (newServer l r (dns_Instance spec) ''/usr/bin/ytserver-node'' ''ytserver-data-node.yson''
       (GetDataNodesStatefulSetName g (dns_Name spec)) (GetDataNodesServiceName g (dns_Name spec))
       (generate E (DataNodeConfig spec) r g) [WithContainerPorts [tcpPort YTRPCPortName DataNodeRPCPort]]);
     ret (DataNode E l a master)
   }"

subsection \<open>controller\_agent.go\<close>

definition ControllerAgent_doSync :: "'w ext \<Rightarrow> Labeller \<Rightarrow> nat \<Rightarrow> 'w heap component \<Rightarrow> bool \<Rightarrow> ('w heap, ComponentStatus \<times> error) state" where
  "ControllerAgent_doSync E l a master dry = firstStatus
     [checkNeedUpdate (do { s \<leftarrow> gets (\<lambda>h. h_srv h a); serverImpl_needUpdate E s }),
      checkUpdating E l (serverPods E a) dry,
      checkMaster master,
      checkServerSync E a dry (on_srv a (serverImpl_Sync E)),
      checkPodsReady E a]
     (ret (SimpleStatus SyncStatusReady, None))"

definition ControllerAgent :: "'w ext \<Rightarrow> Labeller \<Rightarrow> nat \<Rightarrow> 'w heap component \<Rightarrow> 'w heap component" where
  "ControllerAgent E l a master =
     mkComponent E l ControllerAgentType True (fetchServer E a) (ControllerAgent_doSync E l a master)"

text \<open>
  The constructors of optional components run only when their part of the specification is present;
  a nil part would panic, the model keeps the memory's specification as it is there.
\<close>

definition optionalInstance :: "InstanceSpec option \<Rightarrow> InstanceSpec" where
  "optionalInstance i = (case i of Some x \<Rightarrow> x | None \<Rightarrow> undefined)"

definition NewControllerAgent :: "'w ext \<Rightarrow> Generator \<Rightarrow> 'w heap component \<Rightarrow> ('w heap, 'w heap component) state" where
  "NewControllerAgent E g master = do {
     modify (map_spec (\<lambda>s. s\<lparr>ys_ControllerAgents := map_option (withMonitoringPort ControllerAgentMonitoringPort) (ys_ControllerAgents s)\<rparr>));
     r \<leftarrow> gets h_yts;
     let i = optionalInstance (ys_ControllerAgents (yr_Spec r));
     let l = mkLabeller r YTComponentLabelControllerAgent ''ControllerAgent'' Map.empty;
     a \<leftarrow> alloc put_srv (newServer l r i ''/usr/bin/ytserver-controller-agent'' ''ytserver-controller-agent.yson''
       ''ca'' ''controller-agents'' (generate E (ControllerAgentConfig i) r g) [WithContainerPorts [tcpPort YTRPCPortName ControllerAgentRPCPort]]);
     ret (ControllerAgent E l a master)
   }"

subsection \<open>master\_caches.go\<close>

definition defaultHostAddressLabel :: string where
  "defaultHostAddressLabel = ''kubernetes.io/hostname''"

definition hostAddressLabel :: "string \<Rightarrow> string" where
  "hostAddressLabel label = (if label \<noteq> [] then label else defaultHostAddressLabel)"

definition MasterCache_doServerSync :: "'w ext \<Rightarrow> nat \<Rightarrow> ('w heap, error) state" where
  "MasterCache_doServerSync E a = do {
     caches \<leftarrow> gets (\<lambda>h. ys_MasterCaches (yr_Spec (h_yts h)));
     on_srv a (\<lambda>s.
       (let s1 = buildStatefulSet s;
            s2 = (case caches of
                    Some m \<Rightarrow> if length (mc_HostAddresses m) \<noteq> 0
                      then onStatefulSet (AddAffinity (hostAddressLabel (mc_HostAddressLabel m)) (mc_HostAddresses m)) s1 else s1
                  | None \<Rightarrow> s1)
        in serverImpl_Sync E s2))
   }"

definition MasterCache_doSync :: "'w ext \<Rightarrow> Labeller \<Rightarrow> nat \<Rightarrow> bool \<Rightarrow> ('w heap, ComponentStatus \<times> error) state" where
  "MasterCache_doSync E l a dry = firstStatus
     [checkNeedUpdate (do { s \<leftarrow> gets (\<lambda>h. h_srv h a); serverImpl_needUpdate E s }),
      checkUpdating E l (serverPods E a) dry,
      checkServerSync E a dry (MasterCache_doServerSync E a),
      checkPodsReady E a]
     (ret (SimpleStatus SyncStatusReady, None))"

definition MasterCache :: "'w ext \<Rightarrow> Labeller \<Rightarrow> nat \<Rightarrow> 'w heap component" where
  "MasterCache E l a = mkComponent E l MasterCacheType True (fetchServer E a) (MasterCache_doSync E l a)"

definition NewMasterCache :: "'w ext \<Rightarrow> Generator \<Rightarrow> ('w heap, 'w heap component) state" where
  "NewMasterCache E g = do {
     modify (map_spec (\<lambda>s. s\<lparr>ys_MasterCaches := map_option (\<lambda>m. m\<lparr>mc_Instance := withMonitoringPort MasterCachesMonitoringPort (mc_Instance m)\<rparr>)
       (ys_MasterCaches s)\<rparr>));
     r \<leftarrow> gets h_yts;
     let m = (case ys_MasterCaches (yr_Spec r) of Some m \<Rightarrow> m | None \<Rightarrow> undefined);
     let l = mkLabeller r YTComponentLabelMasterCache ''MasterCache'' (extraPodAnnotations r);
     a \<leftarrow> alloc put_srv (newServer l r (mc_Instance m) ''/usr/bin/ytserver-master-cache'' ''ytserver-master-cache.yson''
       (GetMasterCachesStatefulSetName g) (GetMasterCachesServiceName g)
       (generate E (MasterCachesConfig m) r g) [WithContainerPorts [tcpPort YTRPCPortName MasterCachesRPCPort]]);
     ret (MasterCache E l a)
   }"

subsection \<open>httpproxy.go\<close>

text \<open>A server with a secret mounted into its container.\<close>

definition syncWithSecret :: "'w ext \<Rightarrow> nat \<Rightarrow> TLSSecret option \<Rightarrow> ('w heap, error) state" where
  "syncWithSecret E a secret = on_srv a (\<lambda>s. serverImpl_Sync E (onPodSpec (addTLSSecret secret) (buildStatefulSet s)))"

definition HttpProxy_doSync :: "'w ext \<Rightarrow> Labeller \<Rightarrow> nat \<Rightarrow> nat \<Rightarrow> string \<Rightarrow> TLSSecret option \<Rightarrow> 'w heap component \<Rightarrow> bool \<Rightarrow>
    ('w heap, ComponentStatus \<times> error) state" where
  "HttpProxy_doSync E l a b serviceType httpsSecret master dry = firstStatus
     [checkNeedUpdate (do { s \<leftarrow> gets (\<lambda>h. h_srv h a); serverImpl_needUpdate E s }),
      checkUpdating E l (serverPods E a) dry,
      checkMaster master,
      checkServerSync E a dry (syncWithSecret E a httpsSecret),
      do {
        s \<leftarrow> gets (\<lambda>h. h_http h b);
        if \<not> Exists s then do {
          err \<leftarrow> (if \<not> dry then on_obj (\<lambda>h. h_http h b) (put_http b) (\<lambda>s. do {
                    let s' = setServiceType serviceType (HTTPService_Build s);
                    err \<leftarrow> HTTPService_Sync E s';
                    ret (err, s')
                  })
                  else ret None);
          ret (Some (WaitingStatus SyncStatusPending (r_name s), err))
        }
        else ret None
      },
      checkPodsReady E a]
     (ret (SimpleStatus SyncStatusReady, None))"

definition HttpProxy :: "'w ext \<Rightarrow> Labeller \<Rightarrow> nat \<Rightarrow> nat \<Rightarrow> string \<Rightarrow> TLSSecret option \<Rightarrow> 'w heap component \<Rightarrow> 'w heap component" where
  "HttpProxy E l a b serviceType httpsSecret master = mkComponent E l HttpProxyType True
     (resources_Fetch [Some (on_srv a (serverImpl_Fetch E)),
        Some (on_obj (\<lambda>h. h_http h b) (put_http b) (HTTPService_Fetch E))])
     (HttpProxy_doSync E l a b serviceType httpsSecret master)"

definition NewHTTPProxy :: "'w ext \<Rightarrow> Generator \<Rightarrow> 'w heap component \<Rightarrow> HTTPProxiesSpec \<Rightarrow> ('w heap, 'w heap component) state" where
  "NewHTTPProxy E g master spec0 = do {
     r \<leftarrow> gets h_yts;
     let spec = spec0\<lparr>hps_Instance := withMonitoringPort HTTPProxyMonitoringPort (hps_Instance spec0)\<rparr>;
     let l = mkLabeller r (FormatComponentStringWithDefault YTComponentLabelHTTPProxy (hps_Role spec))
       (FormatComponentStringWithDefault ''HttpProxy'' (hps_Role spec)) Map.empty;
     a \<leftarrow> alloc put_srv (newServer l r (hps_Instance spec) ''/usr/bin/ytserver-http-proxy'' ''ytserver-http-proxy.yson''
       (GetHTTPProxiesStatefulSetName g (hps_Role spec)) (GetHTTPProxiesHeadlessServiceName g (hps_Role spec))
       (generate E (HTTPProxyConfig spec) r g)
       [WithContainerPorts [tcpPort YTRPCPortName HTTPProxyRPCPort, tcpPort ''http'' HTTPProxyHTTPPort, tcpPort ''https'' HTTPProxyHTTPSPort],
        WithCustomReadinessProbeEndpointPort HTTPProxyHTTPPort, WithCustomReadinessProbeEndpointPath ''/ping'']);
     let httpsSecret = map_option (\<lambda>name. NewTLSSecret name HTTPSSecretVolumeName HTTPSSecretMountPoint)
       (ht_HTTPSSecret (hps_Transport spec));
     b \<leftarrow> alloc put_http (SetHttpsNodePort (hps_HttpsNodePort spec) (SetHttpNodePort (hps_HttpNodePort spec)
       (NewHTTPService (GetHTTPProxiesServiceName g (hps_Role spec)) (Some (hps_Transport spec)) l)));
     ret (HttpProxy E l a b (hps_ServiceType spec) httpsSecret master)
   }"

subsection \<open>rpcproxy.go\<close>

definition RpcProxy_doSync :: "'w ext \<Rightarrow> Labeller \<Rightarrow> nat \<Rightarrow> (nat \<times> string) option \<Rightarrow> TLSSecret option \<Rightarrow> 'w heap component \<Rightarrow> bool \<Rightarrow>
    ('w heap, ComponentStatus \<times> error) state" where
  "RpcProxy_doSync E l a balancing tlsSecret master dry = firstStatus
     [checkNeedUpdate (do { s \<leftarrow> gets (\<lambda>h. h_srv h a); serverImpl_needUpdate E s }),
      checkUpdating E l (serverPods E a) dry,
      checkMaster master,
      checkServerSync E a dry (syncWithSecret E a tlsSecret),
      (case balancing of
         None \<Rightarrow> ret None
       | Some (b, serviceType) \<Rightarrow> do {
           s \<leftarrow> gets (\<lambda>h. h_rpc h b);
           if \<not> Exists s then do {
             err \<leftarrow> (if \<not> dry then on_obj (\<lambda>h. h_rpc h b) (put_rpc b) (\<lambda>s. do {
                       let s' = setServiceType serviceType (RPCService_Build s);
                       err \<leftarrow> RPCService_Sync E s';
                       ret (err, s')
                     })
                     else ret None);
             ret (Some (WaitingStatus SyncStatusPending (r_name s), err))
           }
           else ret None
         }),
      checkPodsReady E a]
     (ret (SimpleStatus SyncStatusReady, None))"

definition RpcProxy :: "'w ext \<Rightarrow> Labeller \<Rightarrow> nat \<Rightarrow> (nat \<times> string) option \<Rightarrow> TLSSecret option \<Rightarrow> 'w heap component \<Rightarrow> 'w heap component" where
  "RpcProxy E l a balancing tlsSecret master = mkComponent E l RpcProxyType True
     (resources_Fetch (Some (on_srv a (serverImpl_Fetch E)) #
        (case balancing of
           None \<Rightarrow> []
         | Some (b, _) \<Rightarrow> [Some (on_obj (\<lambda>h. h_rpc h b) (put_rpc b) (RPCService_Fetch E))])))
     (RpcProxy_doSync E l a balancing tlsSecret master)"

definition NewRPCProxy :: "'w ext \<Rightarrow> Generator \<Rightarrow> 'w heap component \<Rightarrow> RPCProxiesSpec \<Rightarrow> ('w heap, 'w heap component) state" where
  "NewRPCProxy E g master spec0 = do {
     r \<leftarrow> gets h_yts;
     let spec = spec0\<lparr>rps_Instance := withMonitoringPort RPCProxyMonitoringPort (rps_Instance spec0)\<rparr>;
     let l = mkLabeller r (FormatComponentStringWithDefault YTComponentLabelRPCProxy (rps_Role spec))
       (FormatComponentStringWithDefault ''RpcProxy'' (rps_Role spec)) Map.empty;
     a \<leftarrow> alloc put_srv (newServer l r (rps_Instance spec) ''/usr/bin/ytserver-proxy'' ''ytserver-rpc-proxy.yson''
       (GetRPCProxiesStatefulSetName g (rps_Role spec)) (GetRPCProxiesHeadlessServiceName g (rps_Role spec))
       (generate E (RPCProxyConfig spec) r g) [WithContainerPorts [tcpPort YTRPCPortName RPCProxyRPCPort]]);
     balancing \<leftarrow> (case rps_ServiceType spec of
         None \<Rightarrow> ret None
       | Some t \<Rightarrow> do {
           b \<leftarrow> alloc put_rpc (SetNodePort (rps_NodePort spec) (NewRPCService (GetRPCProxiesServiceName g (rps_Role spec)) l));
           ret (Some (b, t))
         });
     let tlsSecret = map_option (\<lambda>name. NewTLSSecret name RPCSecretVolumeName RPCSecretMountPoint)
       (rt_TLSSecret (rps_Transport spec));
     ret (RpcProxy E l a balancing tlsSecret master)
   }"

subsection \<open>tcpproxy.go\<close>

definition TcpProxy_doSync :: "'w ext \<Rightarrow> Labeller \<Rightarrow> nat \<Rightarrow> nat option \<Rightarrow> 'w heap component \<Rightarrow> bool \<Rightarrow>
    ('w heap, ComponentStatus \<times> error) state" where
  "TcpProxy_doSync E l a balancing master dry = firstStatus
     [checkNeedUpdate (do { s \<leftarrow> gets (\<lambda>h. h_srv h a); serverImpl_needUpdate E s }),
      checkUpdating E l (serverPods E a) dry,
      checkMaster master,
      checkServerSync E a dry (on_srv a (serverImpl_Sync E)),
      (case balancing of
         None \<Rightarrow> ret None
       | Some b \<Rightarrow> do {
           s \<leftarrow> gets (\<lambda>h. h_tcp h b);
           if \<not> Exists s then do {
             err \<leftarrow> (if \<not> dry then on_obj (\<lambda>h. h_tcp h b) (put_tcp b) (\<lambda>s. do {
                       let s' = TCPService_Build s;
                       err \<leftarrow> TCPService_Sync E s';
                       ret (err, s')
                     })
                     else ret None);
             ret (Some (WaitingStatus SyncStatusPending (r_name s), err))
           }
           else ret None
         }),
      checkPodsReady E a]
     (ret (SimpleStatus SyncStatusReady, None))"

definition TcpProxy :: "'w ext \<Rightarrow> Labeller \<Rightarrow> nat \<Rightarrow> nat option \<Rightarrow> 'w heap component \<Rightarrow> 'w heap component" where
  "TcpProxy E l a balancing master = mkComponent E l TcpProxyType True
     (resources_Fetch (Some (on_srv a (serverImpl_Fetch E)) #
        (case balancing of
           None \<Rightarrow> []
         | Some b \<Rightarrow> [Some (on_obj (\<lambda>h. h_tcp h b) (put_tcp b) (TCPService_Fetch E))])))
     (TcpProxy_doSync E l a balancing master)"

definition NewTCPProxy :: "'w ext \<Rightarrow> Generator \<Rightarrow> 'w heap component \<Rightarrow> TCPProxiesSpec \<Rightarrow> ('w heap, 'w heap component) state" where
  "NewTCPProxy E g master spec0 = do {
     r \<leftarrow> gets h_yts;
     let spec = spec0\<lparr>tps_Instance := withMonitoringPort TCPProxyMonitoringPort (tps_Instance spec0)\<rparr>;
     let l = mkLabeller r (FormatComponentStringWithDefault YTComponentLabelTCPProxy (tps_Role spec))
       (FormatComponentStringWithDefault ''TcpProxy'' (tps_Role spec)) Map.empty;
     a \<leftarrow> alloc put_srv (newServer l r (tps_Instance spec) ''/usr/bin/ytserver-tcp-proxy'' ''ytserver-tcp-proxy.yson''
       (GetTCPProxiesStatefulSetName g (tps_Role spec)) (GetTCPProxiesHeadlessServiceName g (tps_Role spec))
       (generate E (TCPProxyConfig spec) r g) []);
     balancing \<leftarrow> (case tps_ServiceType spec of
         None \<Rightarrow> ret None
       | Some t \<Rightarrow> do {
           b \<leftarrow> alloc put_tcp (NewTCPService (GetTCPProxiesServiceName g (tps_Role spec)) t (tps_PortCount spec) (tps_MinPort spec) l);
           ret (Some b)
         });
     ret (TcpProxy E l a balancing master)
   }"

subsection \<open>exec\_node\_base.go\<close>

definition criOf :: "ExecNodesSpec \<Rightarrow> CRIJobEnvironmentSpec option" where
  "criOf spec = (case ens_JobEnvironment spec of Some env \<Rightarrow> je_CRI env | None \<Rightarrow> None)"

definition IsJobEnvironmentIsolated :: "ExecNodesSpec \<Rightarrow> bool" where
  "IsJobEnvironmentIsolated spec = (case ens_JobEnvironment spec of
       None \<Rightarrow> False
     | Some env \<Rightarrow> (case je_Isolated env of Some b \<Rightarrow> b | None \<Rightarrow> je_CRI env \<noteq> None))"

definition setContainerPrivileged :: "bool \<Rightarrow> Container \<Rightarrow> Container" where
  "setContainerPrivileged privileged ct =
     (let sc = (case ct_SecurityContext ct of Some c \<Rightarrow> c | None \<Rightarrow> \<lparr>sc_Privileged = None\<rparr>);
          sc' = (case sc_Privileged sc of None \<Rightarrow> sc\<lparr>sc_Privileged := Some privileged\<rparr> | Some _ \<Rightarrow> sc)
      in ct\<lparr>ct_SecurityContext := Some sc'\<rparr>)"

definition plainEnv :: "string \<Rightarrow> string \<Rightarrow> EnvVar" where
  "plainEnv name val = \<lparr>ev_Name = name, ev_Value = val, ev_FieldPath = None\<rparr>"

definition addEnvironmentForCRITools :: "ExecNodesSpec \<Rightarrow> Container \<Rightarrow> Container" where
  "addEnvironmentForCRITools spec ct = ct\<lparr>ct_Env := ct_Env ct @
     [plainEnv ''CONTAINERD_ADDRESS'' (GetContainerdSocketPath spec), plainEnv ''CONTAINERD_NAMESPACE'' ''k8s.io'',
      plainEnv ''CONTAINER_RUNTIME_ENDPOINT'' (''unix://'' @ GetContainerdSocketPath spec)]\<rparr>"

text \<open>Amounts of resources are added name by name. (Go panics when the target map is nil; maps are never nil here.)\<close>

definition addResourceList :: "ResourceList \<Rightarrow> ResourceList \<Rightarrow> ResourceList" where
  "addResourceList list newList = (\<lambda>name. case newList name of
       None \<Rightarrow> list name
     | Some quantity \<Rightarrow> (case list name of Some v \<Rightarrow> Some (v + quantity) | None \<Rightarrow> Some quantity))"

definition addJobResources :: "ResourceRequirements \<Rightarrow> Container \<Rightarrow> Container" where
  "addJobResources jr ct = ct\<lparr>ct_Resources := \<lparr>rr_Requests = addResourceList (rr_Requests (ct_Resources ct)) (rr_Requests jr),
     rr_Limits = addResourceList (rr_Limits (ct_Resources ct)) (rr_Limits jr)\<rparr>\<rparr>"

definition containerdConfigMount :: VolumeMount where
  "containerdConfigMount = \<lparr>vm_Name = ContainerdConfigVolumeName, vm_MountPath = ContainerdConfigMountPoint, vm_SubPath = [],
     vm_ReadOnly = True, vm_MountPropagation = None\<rparr>"

definition hostToContainer :: "VolumeMount \<Rightarrow> VolumeMount" where
  "hostToContainer m = (if vm_MountPropagation m = Some ''Bidirectional''
     then m\<lparr>vm_MountPropagation := Some ''HostToContainer''\<rparr> else m)"

definition doBuildCRISidecar :: "CRIJobEnvironmentSpec \<Rightarrow> ExecNodesSpec \<Rightarrow> PodSpec \<Rightarrow> PodSpec" where
  "doBuildCRISidecar cri spec ps =
     (let wrapper = (if length (cri_EntrypointWrapper cri) = 0 then [''tini'', ''--''] else cri_EntrypointWrapper cri);
          mounts = createVolumeMounts (is_VolumeMounts (ens_Instance spec)) @ [containerdConfigMount];
          img = (case ps_Containers ps of c # _ \<Rightarrow> ct_Image c | [] \<Rightarrow> []);
          jobsContainer = addEnvironmentForCRITools spec (zero_container\<lparr>ct_Name := JobsContainerName, ct_Image := img,
            ct_Command := wrapper @ [''containerd''],
            ct_Args := [''--config'', path_join ContainerdConfigMountPoint ContainerdConfigFileName],
            ct_VolumeMounts := map hostToContainer mounts,
            ct_SecurityContext := Some \<lparr>sc_Privileged = Some True\<rparr>,
            ct_Resources := (case ens_JobResources spec of
                Some jr \<Rightarrow> jr
              | None \<Rightarrow> zero_resources\<lparr>rr_Limits := rr_Limits (is_Resources (ens_Instance spec))\<rparr>)\<rparr>)
      in ps\<lparr>ps_Containers := ps_Containers ps @ [jobsContainer]\<rparr>)"

text \<open>The changes to the pod, given the name of the sidecar's config map if there is one.\<close>

definition buildExecPod :: "'w ext \<Rightarrow> ExecNodesSpec \<Rightarrow> string option \<Rightarrow> PodSpec \<Rightarrow> PodSpec \<times> error" where
  "buildExecPod E spec sidecar ps0 =
     (if length (ps_Containers ps0) \<noteq> 1 then (ps0, Some ''panic'')
      else case AddInitContainersToPodSpec E (ens_InitContainers spec) ps0 of (ps1, err) \<Rightarrow>
        if err \<noteq> None then (ps1, err)
        else (case AddSidecarsToPodSpec E (ens_Sidecars spec) ps1 of (ps2, err) \<Rightarrow>
          if err \<noteq> None then (ps2, err)
          else
            (let privileged = setContainerPrivileged (ens_Privileged spec);
                 tools = (if criOf spec \<noteq> None then addEnvironmentForCRITools spec else (\<lambda>c. c));
                 ps3 = ps2\<lparr>ps_InitContainers := map privileged (ps_InitContainers ps2),
                           ps_Containers := map (\<lambda>c. tools (privileged c)) (ps_Containers ps2)\<rparr>;
                 ps4 = (case ens_JobResources spec of
                     Some jr \<Rightarrow> if \<not> IsJobEnvironmentIsolated spec then onContainer0 (addJobResources jr) ps3 else ps3
                   | None \<Rightarrow> ps3);
                 ps5 = (if IsJobEnvironmentIsolated spec
                        then (case criOf spec of Some cri \<Rightarrow> doBuildCRISidecar cri spec ps4 | None \<Rightarrow> ps4)
                        else if sidecar \<noteq> None
                        then onContainer0 (\<lambda>c. c\<lparr>ct_VolumeMounts := ct_VolumeMounts c @ [containerdConfigMount]\<rparr>) ps4
                        else ps4);
                 ps6 = (case sidecar of
                     Some name \<Rightarrow> ps5\<lparr>ps_Volumes := ps_Volumes ps5 @ [createConfigVolume ContainerdConfigVolumeName name None]\<rparr>
                   | None \<Rightarrow> ps5)
             in (ps6, None))))"

definition doBuildBase :: "'w ext \<Rightarrow> ExecNodesSpec \<Rightarrow> nat \<Rightarrow> nat option \<Rightarrow> ('w heap, error) state" where
  "doBuildBase E spec a sidecar = do {
     h \<leftarrow> State_Monad.get;
     let name = map_option (\<lambda>c. GetSidecarConfigMapName (r_labeller (ch_configMap (h_cfg h c))) JobsContainerName) sidecar;
     err \<leftarrow> on_srv a (\<lambda>s. (let s1 = buildStatefulSet s;
          (ps, err) = buildExecPod E spec name (ss_PodSpec (o_Body (r_new (srv_statefulSet s1))))
        in ret (err, onPodSpec (\<lambda>_. ps) s1)));
     if err \<noteq> None then ret err
     else (case sidecar of
             Some c \<Rightarrow> do { on_cfg c (\<lambda>ch. do { (ch', _) \<leftarrow> ConfigHelper_Build E ch; ret ((), ch') }); ret None }
           | None \<Rightarrow> ret None)
   }"

definition doSyncBase :: "'w ext \<Rightarrow> ExecNodesSpec \<Rightarrow> nat \<Rightarrow> nat option \<Rightarrow> bool \<Rightarrow> ('w heap, ComponentStatus \<times> error) state" where
  "doSyncBase E spec a sidecar dry =
     (if \<not> dry then do {
        err \<leftarrow> doBuildBase E spec a sidecar;
        if err \<noteq> None then ret (WaitingStatus SyncStatusBlocked ''cannot build exec node spec'', err)
        else do {
          err \<leftarrow> resources_Sync [Some (on_srv a (serverImpl_Sync E)),
            map_option (\<lambda>c. on_cfg c (\<lambda>ch. do { err \<leftarrow> ConfigHelper_Sync E ch; ret (err, ch) })) sidecar];
          ret (WaitingStatus SyncStatusPending ''components'', err)
        }
      }
      else ret (WaitingStatus SyncStatusPending ''components'', None))"

definition fetchExecNode :: "'w ext \<Rightarrow> nat \<Rightarrow> nat option \<Rightarrow> ('w heap, error) state" where
  "fetchExecNode E a sidecar = resources_Fetch [Some (on_srv a (serverImpl_Fetch E)),
     map_option (\<lambda>c. on_cfg c (ConfigHelper_Fetch E)) sidecar]"

subsection \<open>exec\_node.go\<close>

definition ExecNode_doSync :: "'w ext \<Rightarrow> Labeller \<Rightarrow> ExecNodesSpec \<Rightarrow> nat \<Rightarrow> nat option \<Rightarrow> 'w heap component \<Rightarrow> bool \<Rightarrow>
    ('w heap, ComponentStatus \<times> error) state" where
  "ExecNode_doSync E l spec a sidecar master dry = firstStatus
     [checkNeedUpdate (do { s \<leftarrow> gets (\<lambda>h. h_srv h a); serverImpl_needUpdate E s }),
      checkUpdating E l (serverPods E a) dry,
      checkMaster master,
      do {
        need \<leftarrow> LocalServerNeedSync E a;
        if need then do { r \<leftarrow> doSyncBase E spec a sidecar dry; ret (Some r) } else ret None
      },
      checkPodsReady E a]
     (ret (SimpleStatus SyncStatusReady, None))"

definition ExecNode :: "'w ext \<Rightarrow> Labeller \<Rightarrow> ExecNodesSpec \<Rightarrow> nat \<Rightarrow> nat option \<Rightarrow> 'w heap component \<Rightarrow> 'w heap component" where
  "ExecNode E l spec a sidecar master =
     mkComponent E l ExecNodeType True (fetchExecNode E a sidecar) (ExecNode_doSync E l spec a sidecar master)"

definition sidecarConfig :: "'w ext \<Rightarrow> ('z) BaseGenerator_scheme \<Rightarrow> YtsaurusResource \<Rightarrow> Labeller \<Rightarrow> string option \<Rightarrow> ExecNodesSpec \<Rightarrow>
    ('w heap, nat option) state" where
  "sidecarConfig E g r l overrides spec =
     (if criOf spec \<noteq> None then do {
        c \<leftarrow> alloc put_cfg (NewConfigHelper l (GetSidecarConfigMapName l JobsContainerName) overrides
          [(ContainerdConfigFileName, \<lparr>gd_F = generate E (ContainerdConfig spec) r g, gd_Fmt = ConfigFormatToml\<rparr>)]);
        ret (Some c)
      }
      else ret None)"

definition NewExecNode :: "'w ext \<Rightarrow> NodeGenerator \<Rightarrow> 'w heap component \<Rightarrow> ExecNodesSpec \<Rightarrow> ('w heap, 'w heap component) state" where
  "NewExecNode E g master spec0 = do {
     r \<leftarrow> gets h_yts;
     let spec = spec0\<lparr>ens_Instance := withMonitoringPort ExecNodeMonitoringPort (ens_Instance spec0)\<rparr>;
     let l = mkLabeller r (FormatComponentStringWithDefault YTComponentLabelExecNode (ens_Name spec))
       (FormatComponentStringWithDefault ''ExecNode'' (ens_Name spec)) Map.empty;
     a \<leftarrow> alloc put_srv (newServer l r (ens_Instance spec) ''/usr/bin/ytserver-node'' ''ytserver-exec-node.yson''
       (GetExecNodesStatefulSetName g (ens_Name spec)) (GetExecNodesServiceName g (ens_Name spec))
       (generate E (ExecNodeConfig spec) r g) [WithContainerPorts [tcpPort YTRPCPortName ExecNodeRPCPort]]);
     c \<leftarrow> sidecarConfig E g r l (cs_ConfigOverrides (ys_Common (yr_Spec r))) spec;
     ret (ExecNode E l spec a c master)
   }"

subsection \<open>exec\_node\_remote.go\<close>

text \<open>Exec nodes of another cluster: no update flow, the server is synchronised whenever it differs.\<close>

definition RemoteExecNode_doSync :: "'w ext \<Rightarrow> ExecNodesSpec \<Rightarrow> nat \<Rightarrow> nat option \<Rightarrow> bool \<Rightarrow> ('w heap, ComponentStatus \<times> error) state" where
  "RemoteExecNode_doSync E spec a sidecar dry = firstStatus
     [do {
        s \<leftarrow> gets (\<lambda>h. h_srv h a);
        b1 \<leftarrow> serverImpl_needSync E s;
        b2 \<leftarrow> (if b1 then ret True else serverImpl_needUpdate E s);
        if b2 then do { r \<leftarrow> doSyncBase E spec a sidecar dry; ret (Some r) } else ret None
      },
      checkPodsReady E a]
     (ret (SimpleStatus SyncStatusReady, None))"

subsection \<open>The contracts\<close>

lemma cr_fetchServer [io_intros]: "state_io_rel (comp_rel E u) (fetchServer E a)"
  unfolding fetchServer_def by (intro io_intros) (auto intro!: io_intros)

lemma cr_syncs [io_intros]:
  "state_io_rel (comp_rel E u) (MasterCache_doServerSync E a)" "state_io_rel (comp_rel E u) (syncWithSecret E a t)"
  unfolding MasterCache_doServerSync_def syncWithSecret_def Let_def by (intro io_intros)+

lemma cr_doBuildBase [io_intros]: "state_io_rel (comp_rel E u) (doBuildBase E spec a c)"
  unfolding doBuildBase_def Let_def case_prod_unfold by (intro io_intros)

lemma cr_doSyncBase [io_intros]: "state_io_rel (comp_rel E u) (doSyncBase E spec a c dry)"
  unfolding doSyncBase_def by (cases c; intro io_intros) (auto intro!: io_intros)

lemma cr_fetchExecNode [io_intros]: "state_io_rel (comp_rel E u) (fetchExecNode E a c)"
  unfolding fetchExecNode_def by (cases c; intro io_intros) (auto intro!: io_intros)

lemma okStatus: "component_ok E c \<Longrightarrow> state_io_rel (comp_rel E False) (c_Status c)"
  by (simp add: component_ok_def)

lemma component_ok_Discovery: "component_ok E (Discovery E l a)"
  unfolding Discovery_def Discovery_doSync_def
  by (rule component_ok_mkComponent) (auto intro!: io_intros)

lemma component_ok_DataNode: "component_ok E m \<Longrightarrow> component_ok E (DataNode E l a m)"
  unfolding DataNode_def DataNode_doSync_def
  by (rule component_ok_mkComponent) (auto intro!: io_intros okStatus)

lemma component_ok_ControllerAgent: "component_ok E m \<Longrightarrow> component_ok E (ControllerAgent E l a m)"
  unfolding ControllerAgent_def ControllerAgent_doSync_def
  by (rule component_ok_mkComponent) (auto intro!: io_intros okStatus)

lemma component_ok_MasterCache: "component_ok E (MasterCache E l a)"
  unfolding MasterCache_def MasterCache_doSync_def
  by (rule component_ok_mkComponent) (auto intro!: io_intros)

lemma component_ok_HttpProxy: "component_ok E m \<Longrightarrow> component_ok E (HttpProxy E l a b t sec m)"
  unfolding HttpProxy_def HttpProxy_doSync_def Let_def
  by (rule component_ok_mkComponent) (auto intro!: io_intros okStatus)

lemma component_ok_RpcProxy: "component_ok E m \<Longrightarrow> component_ok E (RpcProxy E l a b sec m)"
  unfolding RpcProxy_def RpcProxy_doSync_def Let_def
  by (rule component_ok_mkComponent) (auto intro!: io_intros okStatus split: option.splits)

lemma component_ok_TcpProxy: "component_ok E m \<Longrightarrow> component_ok E (TcpProxy E l a b m)"
  unfolding TcpProxy_def TcpProxy_doSync_def Let_def
  by (rule component_ok_mkComponent) (auto intro!: io_intros okStatus split: option.splits)

lemma component_ok_ExecNode: "component_ok E m \<Longrightarrow> component_ok E (ExecNode E l spec a c m)"
  unfolding ExecNode_def ExecNode_doSync_def
  by (rule component_ok_mkComponent) (auto intro!: io_intros okStatus)

subsection \<open>Dry runs\<close>

lemmas component_defs = dry_status_def mkComponent_def

lemma dryD: "dry_status c \<Longrightarrow> keeps outer (c_Status c)"
  by (simp add: dry_status_def)

lemma keeps_doSyncBase_dry [io_intros]: "keeps f (doSyncBase E spec a c True)"
  unfolding doSyncBase_def by (simp add: io_intros)

lemma dry_Discovery: "dry_status (Discovery E l a)"
  unfolding Discovery_def Discovery_doSync_def component_defs by (auto intro!: io_intros)

lemma dry_DataNode: "dry_status m \<Longrightarrow> dry_status (DataNode E l a m)"
  unfolding DataNode_def DataNode_doSync_def component_defs by (auto intro!: io_intros)

lemma dry_ControllerAgent: "dry_status m \<Longrightarrow> dry_status (ControllerAgent E l a m)"
  unfolding ControllerAgent_def ControllerAgent_doSync_def component_defs by (auto intro!: io_intros)

lemma dry_MasterCache: "dry_status (MasterCache E l a)"
  unfolding MasterCache_def MasterCache_doSync_def component_defs by (auto intro!: io_intros)

lemma dry_HttpProxy: "dry_status m \<Longrightarrow> dry_status (HttpProxy E l a b t sec m)"
  unfolding HttpProxy_def HttpProxy_doSync_def component_defs by (auto intro!: io_intros)

lemma dry_RpcProxy: "dry_status m \<Longrightarrow> dry_status (RpcProxy E l a b sec m)"
  unfolding RpcProxy_def RpcProxy_doSync_def component_defs by (auto intro!: io_intros split: option.splits)

lemma dry_TcpProxy: "dry_status m \<Longrightarrow> dry_status (TcpProxy E l a b m)"
  unfolding TcpProxy_def TcpProxy_doSync_def component_defs by (auto intro!: io_intros split: option.splits)

lemma dry_ExecNode: "dry_status m \<Longrightarrow> dry_status (ExecNode E l spec a c m)"
  unfolding ExecNode_def ExecNode_doSync_def component_defs by (auto intro!: io_intros)

subsection \<open>Constructors\<close>

lemma keeps_sidecarConfig [io_intros]: "keeps statusOuter (sidecarConfig E g r l ov spec)"
  unfolding sidecarConfig_def by (intro io_intros)

lemma keeps_New [io_intros]:
  "keeps statusOuter (NewDiscovery E g)" "keeps statusOuter (NewDataNode E n m d)"
  "keeps statusOuter (NewControllerAgent E g m)" "keeps statusOuter (NewMasterCache E g)"
  "keeps statusOuter (NewHTTPProxy E g m hp)" "keeps statusOuter (NewRPCProxy E g m rp)"
  "keeps statusOuter (NewTCPProxy E g m tp)" "keeps statusOuter (NewExecNode E n m x)"
  unfolding NewDiscovery_def NewDataNode_def NewControllerAgent_def NewMasterCache_def NewHTTPProxy_def
    NewRPCProxy_def NewTCPProxy_def NewExecNode_def Let_def by (intro io_intros)+

end
