(* ===== verification/Master.thy ===== *)
theory Master
  imports Blocks
begin

text \<open>
  \<open>master.go\<close>: the masters of the cluster, the script that initialises a new cluster and the job
  that takes the masters out of read-only mode at the end of an update.
\<close>

subsection \<open>Scripts\<close>

text \<open>
  Code that panics has no value (\<open>None\<close>). A panic ends the reconciliation at once, like an error
  that is returned by all callers; the method that runs into it reports it as its error.
\<close>

fun joinScript :: "string option list \<Rightarrow> string option" where
  "joinScript [] = Some []"
| "joinScript [x] = x"
| "joinScript (x # y # xs) = (case x of
       None \<Rightarrow> None
     | Some s \<Rightarrow> (case joinScript (y # xs) of None \<Rightarrow> None | Some t \<Rightarrow> Some (s @ newline @ t)))"

definition no_panic :: "string + 'a \<Rightarrow> 'a option" where
  "no_panic r = (case r of Inl e \<Rightarrow> None | Inr x \<Rightarrow> Some x)"

definition SetPathAcl :: "'w ext \<Rightarrow> string \<Rightarrow> ACE list \<Rightarrow> string option" where
  "SetPathAcl E path acl = map_option (\<lambda>formattedAcl. ''/usr/bin/yt set '' @ path @ ''/@acl '' @ squoted formattedAcl)
     (no_panic (f_yson_acl (x_fmt E) acl))"

definition initAdminUser :: "'w ext \<Rightarrow> SecretObj \<Rightarrow> string" where
  "initAdminUser E adminCredentials =
     (let val = (\<lambda>key dflt. if om_Name (o_Meta adminCredentials) \<noteq> []
            then (case sec_Data (o_Body adminCredentials) key of Some v \<Rightarrow> v | None \<Rightarrow> dflt) else dflt);
          adminLogin = val AdminLoginSecret DefaultAdminLogin;
          adminPassword = val AdminPasswordSecret DefaultAdminPassword;
          adminToken = val AdminTokenSecret DefaultAdminPassword
      in RunIfNonexistent (''//sys/users/'' @ adminLogin) (createUserCommand E adminLogin adminPassword adminToken True))"

text \<open>The media of the data nodes' locations: the keys of a map, visited in the order of the runtime.\<close>

definition getExtraMedia :: "'w ext \<Rightarrow> YtsaurusSpec \<Rightarrow> string list" where
  "getExtraMedia E spec = f_map_order (x_fmt E)
     (remdups (filter (\<lambda>m. m \<noteq> DefaultMedium) (concat (map (\<lambda>d. map loc_Medium (is_Locations (dns_Instance d))) (ys_DataNodes spec)))))"

definition mediumCommand :: "'w ext \<Rightarrow> string \<Rightarrow> string option" where
  "mediumCommand E name = map_option (\<lambda>attr. ''/usr/bin/yt get //sys/media/'' @ name @
       ''/@name || /usr/bin/yt create domestic_medium --attr '' @ squoted attr @
       '' || /usr/bin/yt create medium --attr '' @ squoted attr)
     (no_panic (f_yson_text (x_fmt E) (YMap [(''name'', YString name)])))"

definition initMedia :: "'w ext \<Rightarrow> YtsaurusSpec \<Rightarrow> string option" where
  "initMedia E spec = joinScript (map (mediumCommand E) (getExtraMedia E spec))"

definition initGroups :: string where
  "initGroups = lines_join [''/usr/bin/yt create group --attr '' @ squoted ''{name=admins}'' @ '' --ignore-existing'']"

definition allow :: "string \<Rightarrow> string list \<Rightarrow> ACE" where
  "allow subject permissions = \<lparr>ace_Action = ''allow'', ace_Subjects = [subject], ace_Permissions = permissions\<rparr>"

definition initSchemaACLs :: "'w ext \<Rightarrow> string option" where
  "initSchemaACLs E =
     (let userReadACE = allow ''users'' [''read''];
          userReadCreateACE = allow ''users'' [''read'', ''create''];
          userReadWriteCreateACE = allow ''users'' [''read'', ''write'', ''create''];
          adminACE = allow ''admins'' [''read'', ''write'', ''administer'', ''create'', ''remove''];
          schema = (\<lambda>t acl. SetPathAcl E (''//sys/schemas/'' @ t) acl)
      in joinScript
        (map (\<lambda>t. schema t [userReadACE, adminACE])
           [''tablet_cell'', ''tablet_action'', ''tablet_cell_bundle'', ''user'', ''group'', ''rack'', ''data_center'',
            ''cluster_node'', ''access_control_object_namespace'', ''access_control_object_namespace_map''] @
         [(case schema ''medium'' [userReadACE, adminACE] of
             None \<Rightarrow> None
           | Some a \<Rightarrow> map_option (\<lambda>b. a @ '' || '' @ b) (schema ''domestic_medium'' [userReadCreateACE, adminACE]))] @
         map (\<lambda>t. schema t [userReadCreateACE, adminACE])
           [''account'', ''scheduler_pool'', ''scheduler_pool_tree'', ''access_control_object''] @
         [schema ''account_resource_usage_lease'' [userReadWriteCreateACE, adminACE]]))"

definition Master_createInitScript :: "'w ext \<Rightarrow> Generator \<Rightarrow> YtsaurusResource \<Rightarrow> SecretObj \<Rightarrow> string option" where
  "Master_createInitScript E g r adminCredentials = joinScript
     [Some initJobWithNativeDriverPrologue,
      Some initGroups,
      map_option (\<lambda>acls. RunIfExists ''//sys/@provision_lock'' [acls]) (initSchemaACLs E),
      Some (''/usr/bin/yt create scheduler_pool_tree --attributes '' @
        squoted (''{name=default; config={nodes_filter='' @ dquoted [] @ ''}}'') @ '' --ignore-existing''),
      Some (SetWithIgnoreExisting ''//sys/pool_trees/@default_tree'' ''default''),
      Some (RunIfNonexistent ''//sys/pools'' [''/usr/bin/yt link //sys/pool_trees/default //sys/pools'']),
      Some (''/usr/bin/yt create scheduler_pool --attributes '' @ squoted ''{name=research; pool_tree=default}'' @ '' --ignore-existing''),
      Some ''/usr/bin/yt create map_node //home --ignore-existing'',
      map_option (\<lambda>c. RunIfExists ''//sys/@provision_lock'' [''/usr/bin/yt set //sys/@cluster_connection '' @ squoted c])
        (no_panic (generate E ClusterConnectionConfig r g)),
      Some (SetWithIgnoreExisting ''//sys/controller_agents/config/operation_options/spec_template''
        (squoted ''{enable_partitioned_data_balancing=%false}'' @ '' -r'')),
      Some (initAdminUser E adminCredentials),
      initMedia E (yr_Spec r),
      Some ''/usr/bin/yt remove //sys/@provision_lock -f'']"

definition createExitReadOnlyScript :: string where
  "createExitReadOnlyScript = lines_join
     [initJobWithNativeDriverPrologue,
      ''export YT_LOG_LEVEL=DEBUG'',
      ''[[ '' @ dquoted ''$YTSAURUS_VERSION'' @ '' < '' @ dquoted ''23.2'' @ '' ]] && echo '' @
        dquoted ''master_exit_read_only is supported since 23.2, nothing to do'' @ '' && exit 0'',
      ''/usr/bin/yt execute master_exit_read_only '' @ squoted ''{}'']"

subsection \<open>Methods\<close>

text \<open>The addresses of the server, of the two jobs, and the generator.\<close>

record Master =
  m_srv :: nat
  m_initJob :: nat
  m_exitReadOnlyJob :: nat
  m_cfgen :: Generator

definition Master_Fetch :: "'w ext \<Rightarrow> Master \<Rightarrow> ('w heap, error) state" where
  "Master_Fetch E m = do {
     creds \<leftarrow> gets (\<lambda>h. ys_AdminCredentials (yr_Spec (h_yts h)));
     err \<leftarrow> (case creds of
         None \<Rightarrow> ret None
       | Some name \<Rightarrow> on_obj h_admin (\<lambda>x h. h\<lparr>h_admin := x\<rparr>) (FetchObject (k_get_secret (x_k8s E)) name));
     if err \<noteq> None then ret err
     else resources_Fetch [Some (on_srv (m_srv m) (serverImpl_Fetch E)), Some (on_job (m_initJob m) (InitJob_Fetch E)),
       Some (on_job (m_exitReadOnlyJob m) (InitJob_Fetch E))]
   }"

definition getHostAddressLabel :: "MastersSpec \<Rightarrow> string" where
  "getHostAddressLabel spec = (if ms_HostAddressLabel spec \<noteq> [] then ms_HostAddressLabel spec else ''kubernetes.io/hostname'')"

definition Master_doServerSync :: "'w ext \<Rightarrow> Master \<Rightarrow> ('w heap, error) state" where
  "Master_doServerSync E m = do {
     spec \<leftarrow> gets (\<lambda>h. ys_PrimaryMasters (yr_Spec (h_yts h)));
     on_srv (m_srv m) (\<lambda>s.
       (let s1 = buildStatefulSet s;
            (ps, err) = AddSidecarsToPodSpec E (ms_Sidecars spec) (ss_PodSpec (o_Body (r_new (srv_statefulSet s1))));
            s2 = onPodSpec (\<lambda>_. ps) s1
        in if err \<noteq> None then ret (err, s2)
           else
             (let hosts = mcs_HostAddresses (ms_Connection spec);
                  s3 = (if length hosts \<noteq> 0 then onStatefulSet (AddAffinity (getHostAddressLabel spec) hosts) s2 else s2)
              in serverImpl_Sync E s3)))
   }"

definition setMasterReadOnlyExitPrepared :: "'w ext \<Rightarrow> ConditionStatus \<Rightarrow> (('w, 'z) mem_scheme, unit) state" where
  "setMasterReadOnlyExitPrepared E s = SetUpdateStatusCondition E
     (mkCondition ConditionMasterExitReadOnlyPrepared s ''MasterExitReadOnlyPrepared'' ''Masters are ready to exit read-only state'')"

definition exitReadOnly :: "'w ext \<Rightarrow> Master \<Rightarrow> bool \<Rightarrow> ('w heap, ComponentStatus \<times> error) state" where
  "exitReadOnly E m dry = do {
     prepared \<leftarrow> gets (IsUpdateStatusConditionTrue E ConditionMasterExitReadOnlyPrepared);
     job \<leftarrow> gets (\<lambda>h. h_job h (m_exitReadOnlyJob m));
     if \<not> prepared then do {
       restartPrepared \<leftarrow> gets (isRestartPrepared E job);
       err \<leftarrow> (if \<not> restartPrepared then prepareRestart E dry job else ret None);
       if err \<noteq> None then ret (SimpleStatus SyncStatusUpdating, err)
       else do {
         whenM (\<not> dry) (setMasterReadOnlyExitPrepared E ConditionTrue);
         ret (SimpleStatus SyncStatusUpdating, None)
       }
     }
     else do {
       completed \<leftarrow> gets (InitJob_IsCompleted E job);
       if \<not> completed then do {
         whenM (\<not> dry) (setScript E (m_exitReadOnlyJob m) createExitReadOnlyScript);
         on_job (m_exitReadOnlyJob m) (InitJob_Sync E dry)
       }
       else do {
         whenM (\<not> dry) (do {
           SetUpdateStatusCondition E (mkCondition ConditionMasterExitedReadOnly ConditionTrue ''MasterExitedReadOnly''
             ''Masters exited read-only state'');
           setMasterReadOnlyExitPrepared E ConditionFalse
         });
         ret (SimpleStatus SyncStatusUpdating, None)
       }
     }
   }"

definition checkUpdatingMaster :: "'w ext \<Rightarrow> Labeller \<Rightarrow> Master \<Rightarrow> bool \<Rightarrow> 'w heap block" where
  "checkUpdatingMaster E l m dry = whenUpdating (do {
     s \<leftarrow> gets GetUpdateState;
     if s = UpdateStateWaitingForMasterExitReadOnly then do { r \<leftarrow> exitReadOnly E m dry; ret (Some r) }
     else statusBlock (handleUpdatingClusterState E l True (serverPods E (m_srv m)) dry)
   })"

text \<open>The script is set in real runs only; a panic ends the method.\<close>

definition scriptBlock :: "'w ext \<Rightarrow> nat \<Rightarrow> bool \<Rightarrow> ('w heap \<Rightarrow> string option) \<Rightarrow> 'w heap block" where
  "scriptBlock E a dry script =
     (if dry then ret None
      else do {
        r \<leftarrow> gets script;
        (case r of
           None \<Rightarrow> ret (Some (SimpleStatus SyncStatusBlocked, Some ''panic''))
         | Some s \<Rightarrow> do { setScript E a s; ret None })
      })"

definition Master_doSync :: "'w ext \<Rightarrow> Labeller \<Rightarrow> Master \<Rightarrow> bool \<Rightarrow> ('w heap, ComponentStatus \<times> error) state" where
  "Master_doSync E l m dry = firstStatus
     [checkNeedUpdate (do { s \<leftarrow> gets (\<lambda>h. h_srv h (m_srv m)); serverImpl_needUpdate E s }),
      checkUpdatingMaster E l m dry,
      checkServerSync E (m_srv m) dry (Master_doServerSync E m),
      checkPodsReady E (m_srv m),
      scriptBlock E (m_initJob m) dry (\<lambda>h. Master_createInitScript E (m_cfgen m) (h_yts h) (h_admin h))]
     (on_job (m_initJob m) (InitJob_Sync E dry))"

definition Master_component :: "'w ext \<Rightarrow> Labeller \<Rightarrow> Master \<Rightarrow> 'w heap component" where
  "Master_component E l m = mkComponent E l MasterType True (Master_Fetch E m) (Master_doSync E l m)"

definition NewMaster :: "'w ext \<Rightarrow> Generator \<Rightarrow> ('w heap, 'w heap component) state" where
  "NewMaster E g = do {
     r0 \<leftarrow> gets h_yts;
     let l = mkLabeller r0 YTComponentLabelMaster ''Master'' (extraPodAnnotations r0);
     modify (map_spec (\<lambda>s. s\<lparr>ys_PrimaryMasters := (ys_PrimaryMasters s)
       \<lparr>ms_Instance := withMonitoringPort MasterMonitoringPort (ms_Instance (ys_PrimaryMasters s))\<rparr>\<rparr>));
     r \<leftarrow> gets h_yts;
     let spec = ys_PrimaryMasters (yr_Spec r);
     a \<leftarrow> alloc put_srv (newServer l r (ms_Instance spec) ''/usr/bin/ytserver-master'' ''ytserver-master.yson''
       (GetMastersStatefulSetName g) (GetMastersServiceName g) (generate E (MasterConfig spec) r g)
       [WithContainerPorts [tcpPort YTRPCPortName MasterRPCPort]]);
     i \<leftarrow> alloc put_job (nativeJob E g r l ''default'' (coreImage r));
     x \<leftarrow> alloc put_job (nativeJob E g r l ''exit-read-only'' (coreImage r));
     modify (\<lambda>h. h\<lparr>h_admin := zero_secret\<rparr>);
     ret (Master_component E l \<lparr>m_srv = a, m_initJob = i, m_exitReadOnlyJob = x, m_cfgen = g\<rparr>)
   }"

subsection \<open>The contract\<close>

interpretation adm: owned_object h_admin "\<lambda>x h. h\<lparr>h_admin := x\<rparr>"
  by unfold_locales simp_all

lemmas admin_rules [io_intros] = adm.keeps_yts_on_obj adm.keeps_world_on_obj adm.cr_on_obj

lemma cr_Master_Fetch [io_intros]: "state_io_rel (comp_rel E u) (Master_Fetch E m)"
  unfolding Master_Fetch_def by (intro io_intros) (auto intro!: io_intros)

lemma cr_Master_doServerSync [io_intros]: "state_io_rel (comp_rel E u) (Master_doServerSync E m)"
  unfolding Master_doServerSync_def Let_def by (intro io_intros)

lemma cr_setPrepared [io_intros]: "state_io_rel (comp_rel E True) (setMasterReadOnlyExitPrepared E s)"
  unfolding setMasterReadOnlyExitPrepared_def by (intro io_intros) (simp add: mkCondition_def)

lemma cr_exitReadOnly [io_intros]: "state_io_rel (comp_rel E True) (exitReadOnly E m dry)"
  unfolding exitReadOnly_def by (intro io_intros) (simp add: mkCondition_def)

lemma cr_checkUpdatingMaster [io_intros]: "state_io_rel (comp_rel E u) (checkUpdatingMaster E l m dry)"
  unfolding checkUpdatingMaster_def by (intro io_intros) simp

lemma cr_scriptBlock [io_intros]: "state_io_rel (comp_rel E u) (scriptBlock E a dry f)"
  unfolding scriptBlock_def by (intro io_intros)

lemma component_ok_Master: "component_ok E (Master_component E l m)"
  unfolding Master_component_def Master_doSync_def
  by (rule component_ok_mkComponent) (auto intro!: io_intros)

subsection \<open>Dry runs\<close>

lemma keeps_exitReadOnly_dry [io_intros]: "keeps outer (exitReadOnly E m True)"
  unfolding exitReadOnly_def by (intro io_intros) simp_all

lemma keeps_checkUpdatingMaster_dry [io_intros]: "keeps outer (checkUpdatingMaster E l m True)"
  unfolding checkUpdatingMaster_def by (intro io_intros)

lemma keeps_scriptBlock_dry [io_intros]: "keeps f (scriptBlock E a True s)"
  unfolding scriptBlock_def by (simp add: io_intros)

lemma dry_Master: "dry_status (Master_component E l m)"
  unfolding Master_component_def Master_doSync_def dry_status_def mkComponent_def
  by (auto intro!: io_intros)

lemma keeps_NewMaster [io_intros]: "keeps statusOuter (NewMaster E g)"
  unfolding NewMaster_def Let_def by (intro io_intros keeps_modify) (simp add: statusOuter_def)

end
