(* ===== verification/YtsaurusClient.thy ===== *)
theory YtsaurusClient
  imports Nodes Master
begin

text \<open>
  \<open>ytsaurus_client.go\<close>: the component that talks to the running cluster. During an update it
  checks that the update is possible, switches the safe mode, saves, removes and recovers the
  tablet cells, and has the masters build their snapshots.
\<close>

subsection \<open>Reading the cluster\<close>

definition getAllMasters :: "'w ext \<Rightarrow> ('w, 'z) mem_scheme \<Rightarrow> string + MasterInfo list" where
  "getAllMasters E h = (case y_get_master (x_yt E) ''//sys/@cluster_connection/primary_master'' (h_world h) of
       Inl e \<Rightarrow> Inl e
     | Inr primaryMaster \<Rightarrow>
         if length (ys_SecondaryMasters (yr_Spec (h_yts h))) > 0 then
           (case y_get_masters (x_yt E) ''//sys/@cluster_connection/secondary_masters'' (h_world h) of
              Inl e \<Rightarrow> Inl e
            | Inr secondaryMasters \<Rightarrow> Inr (secondaryMasters @ [primaryMaster]))
         else Inr [primaryMaster])"

definition GetMasterMonitoringPaths :: "'w ext \<Rightarrow> ('w, 'z) mem_scheme \<Rightarrow> string + string list" where
  "GetMasterMonitoringPaths E h = (case getAllMasters E h of
       Inl e \<Rightarrow> Inl e
     | Inr infos \<Rightarrow> Inr (concat (map (\<lambda>i. map (\<lambda>a. ''//sys/cluster_masters/'' @ a @ ''/orchid/monitoring/hydra'') (mi_Addresses i)) infos)))"

text \<open>The loop over the masters of the possibility check: a message and a verdict, or the two counts.\<close>

datatype masterCheck = MastersError string | MasterNotActive | MasterCounts int int

definition primaryHydra :: "'w ext \<Rightarrow> 'w \<Rightarrow> string \<Rightarrow> string + MasterHydra" where
  "primaryHydra E w a = y_get_hydra (x_yt E) (''//sys/primary_masters/'' @ a @ ''/orchid/monitoring/hydra'') w"

fun checkMastersLoop :: "'w ext \<Rightarrow> 'w \<Rightarrow> string list \<Rightarrow> int \<Rightarrow> int \<Rightarrow> masterCheck" where
  "checkMastersLoop E w [] leading following = MasterCounts leading following"
| "checkMastersLoop E w (a # as) leading following =
     (case primaryHydra E w a of
        Inl e \<Rightarrow> MastersError e
      | Inr hydra \<Rightarrow>
          if \<not> mh_Active hydra then MasterNotActive
          else if mh_State hydra = MasterStateLeading then checkMastersLoop E w as (leading + 1) following
          else if mh_State hydra = MasterStateFollowing then checkMastersLoop E w as leading (following + 1)
          else checkMastersLoop E w as leading following)"

text \<open>\<open>%v\<close> of a slice of strings.\<close>

definition show_strings :: "string list \<Rightarrow> string" where
  "show_strings xs = ''['' @ join '' '' xs @ '']''"

definition HandlePossibilityCheck :: "'w ext \<Rightarrow> 'w \<Rightarrow> string + bool \<times> string" where
  "HandlePossibilityCheck E w = (case GetNotGoodTabletCellBundles E w of
       Inl e \<Rightarrow> Inl e
     | Inr notGoodBundles \<Rightarrow>
         if length notGoodBundles > 0 then
           Inr (False, ''Tablet cell bundles ('' @ show_strings notGoodBundles @ '') aren't in '' @ squoted ''good'' @ '' health'')
         else (case y_get_int (x_yt E) ''//sys/lost_vital_chunks/@count'' w of
             Inl e \<Rightarrow> Inl e
           | Inr lvcCount \<Rightarrow>
               if lvcCount > 0 then Inr (False, ''There are lost vital chunks: '' @ show_nat (nat lvcCount))
               else (case y_get_int (x_yt E) ''//sys/quorum_missing_chunks/@count'' w of
                   Inl e \<Rightarrow> Inl e
                 | Inr qmcCount \<Rightarrow>
                     if qmcCount > 0 then Inr (False, ''There are quorum missing chunks: '' @ show_nat (nat qmcCount))
                     else (case y_list (x_yt E) ''//sys/primary_masters'' w of
                         Inl e \<Rightarrow> Inl e
                       | Inr addresses \<Rightarrow>
                           (case checkMastersLoop E w addresses 0 0 of
                              MastersError e \<Rightarrow> Inl e
                            | MasterNotActive \<Rightarrow> Inr (False, ''There is a non-active master: '' @ show_strings addresses)
                            | MasterCounts leading following \<Rightarrow>
                                if \<not> (leading = 1 \<and> following + 1 = int (length addresses))
                                then Inr (False, ''There is no leader or some peer is not active'')
                                else Inr (True, ''Update is possible''))))))"

subsection \<open>Acting on the cluster\<close>

definition EnableSafeMode :: "'w ext \<Rightarrow> (('w, 'z) mem_scheme, error) state" where
  "EnableSafeMode E = ext_write (y_set (x_yt E) ''//sys/@enable_safe_mode'' (YBool True))"

definition DisableSafeMode :: "'w ext \<Rightarrow> (('w, 'z) mem_scheme, error) state" where
  "DisableSafeMode E = ext_write (y_set (x_yt E) ''//sys/@enable_safe_mode'' (YBool False))"

definition GetTabletCells :: "'w ext \<Rightarrow> 'w \<Rightarrow> string + TabletCellBundleInfo list" where
  "GetTabletCells E w = y_list_cell_count (x_yt E) ''//sys/tablet_cell_bundles'' w"

fun removeCellsLoop :: "'w ext \<Rightarrow> string list \<Rightarrow> (('w, 'z) mem_scheme, error) state" where
  "removeCellsLoop E [] = ret None"
| "removeCellsLoop E (c # cs) = do {
     err \<leftarrow> ext_write (y_remove (x_yt E) (''//sys/tablet_cells/'' @ c));
     if err \<noteq> None then ret err else removeCellsLoop E cs
   }"

definition RemoveTabletCells :: "'w ext \<Rightarrow> (('w, 'z) mem_scheme, error) state" where
  "RemoveTabletCells E = do {
     r \<leftarrow> gets (\<lambda>h. y_list (x_yt E) ''//sys/tablet_cells'' (h_world h));
     (case r of Inl e \<Rightarrow> ret (Some e) | Inr cells \<Rightarrow> removeCellsLoop E cells)
   }"

definition AreTabletCellsRemoved :: "'w ext \<Rightarrow> 'w \<Rightarrow> string + bool" where
  "AreTabletCellsRemoved E w = (case y_list (x_yt E) ''//sys/tablet_cells'' w of
       Inl e \<Rightarrow> Inl e
     | Inr cells \<Rightarrow> Inr (length cells = 0))"

fun RecoverTableCells :: "'w ext \<Rightarrow> TabletCellBundleInfo list \<Rightarrow> (('w, 'z) mem_scheme, error) state" where
  "RecoverTableCells E [] = ret None"
| "RecoverTableCells E (b # bs) = do {
     err \<leftarrow> CreateTabletCells E (tcb_Name b) (tcb_TabletCellCount b);
     if err \<noteq> None then ret err else RecoverTableCells E bs
   }"

abbreviation getMasterHydra :: "'w ext \<Rightarrow> string \<Rightarrow> 'w \<Rightarrow> string + MasterHydra" where
  "getMasterHydra E path w \<equiv> y_get_hydra (x_yt E) path w"

fun allMastersReadOnly :: "'w ext \<Rightarrow> 'w \<Rightarrow> string list \<Rightarrow> string + bool" where
  "allMastersReadOnly E w [] = Inr True"
| "allMastersReadOnly E w (p # ps) = (case getMasterHydra E p w of
       Inl e \<Rightarrow> Inl e
     | Inr hydra \<Rightarrow> if \<not> mh_ReadOnly hydra then Inr False else allMastersReadOnly E w ps)"

definition StartBuildMasterSnapshots :: "'w ext \<Rightarrow> string list \<Rightarrow> (('w, 'z) mem_scheme, error) state" where
  "StartBuildMasterSnapshots E monitoringPaths = do {
     r \<leftarrow> gets (\<lambda>h. allMastersReadOnly E (h_world h) monitoringPaths);
     (case r of
        Inl e \<Rightarrow> ret (Some e)
      | Inr True \<Rightarrow> ret None
      | Inr False \<Rightarrow> ext_write (y_build_master_snapshots (x_yt E)))
   }"

fun AreMasterSnapshotsBuilt :: "'w ext \<Rightarrow> 'w \<Rightarrow> string list \<Rightarrow> string + bool" where
  "AreMasterSnapshotsBuilt E w [] = Inr True"
| "AreMasterSnapshotsBuilt E w (p # ps) = (case y_get_hydra (x_yt E) p w of
       Inl e \<Rightarrow> Inl e
     | Inr hydra \<Rightarrow> if \<not> mh_LastSnapshotReadOnly hydra then Inr False else AreMasterSnapshotsBuilt E w ps)"

subsection \<open>handleUpdatingState\<close>

definition setDone :: "'w ext \<Rightarrow> string \<Rightarrow> string \<Rightarrow> (('w, 'z) mem_scheme, unit) state" where
  "setDone E t msg = SetUpdateStatusCondition E (mkCondition t ConditionTrue ''Update'' msg)"

abbreviation updatingStatus :: "error \<Rightarrow> ('s, ComponentStatus \<times> error) state" where
  "updatingStatus err \<equiv> ret (SimpleStatus SyncStatusUpdating, err)"

text \<open>Unless the condition holds: run the action, and record the condition if it does not fail.\<close>

definition unlessDone :: "'w ext \<Rightarrow> string \<Rightarrow> string \<Rightarrow> (('w, 'z) mem_scheme, error) state \<Rightarrow>
    (('w, 'z) mem_scheme, ComponentStatus \<times> error) state" where
  "unlessDone E t msg action = do {
     d \<leftarrow> gets (IsUpdateStatusConditionTrue E t);
     if \<not> d then do {
       err \<leftarrow> action;
       if err \<noteq> None then updatingStatus err
       else do { setDone E t msg; updatingStatus None }
     }
     else updatingStatus None
   }"

definition savePaths :: "'w ext \<Rightarrow> (('w, 'z) mem_scheme, error) state" where
  "savePaths E = do {
     d \<leftarrow> gets (IsUpdateStatusConditionTrue E ConditionSnapshotsMonitoringInfoSaved);
     if \<not> d then do {
       r \<leftarrow> gets (GetMasterMonitoringPaths E);
       (case r of
          Inl e \<Rightarrow> ret (Some e)
        | Inr paths \<Rightarrow> do {
            modify (map_update (\<lambda>u. u\<lparr>us_MasterMonitoringPaths := paths\<rparr>));
            setDone E ConditionSnapshotsMonitoringInfoSaved ''Snapshots monitoring info saved'';
            ret None
          })
     }
     else ret None
   }"

definition startSnapshots :: "'w ext \<Rightarrow> (('w, 'z) mem_scheme, error) state" where
  "startSnapshots E = do {
     d \<leftarrow> gets (IsUpdateStatusConditionTrue E ConditionSnapshotsBuildingStarted);
     if \<not> d then do {
       paths \<leftarrow> gets (\<lambda>h. us_MasterMonitoringPaths (h_update h));
       err \<leftarrow> StartBuildMasterSnapshots E paths;
       if err \<noteq> None then ret err
       else do { setDone E ConditionSnapshotsBuildingStarted ''Snapshots building started''; ret None }
     }
     else ret None
   }"

definition handleSnapshots :: "'w ext \<Rightarrow> (('w, 'z) mem_scheme, ComponentStatus \<times> error) state" where
  "handleSnapshots E = do {
     d \<leftarrow> gets (IsUpdateStatusConditionTrue E ConditionSnaphotsSaved);
     if \<not> d then do {
       err \<leftarrow> savePaths E;
       if err \<noteq> None then updatingStatus err
       else do {
         err \<leftarrow> startSnapshots E;
         if err \<noteq> None then updatingStatus err
         else do {
           built \<leftarrow> gets (\<lambda>h. AreMasterSnapshotsBuilt E (h_world h) (us_MasterMonitoringPaths (h_update h)));
           (case built of
              Inl e \<Rightarrow> updatingStatus (Some e)
            | Inr False \<Rightarrow> updatingStatus None
            | Inr True \<Rightarrow> do { setDone E ConditionSnaphotsSaved ''Master snapshots were built''; updatingStatus None })
         }
       }
     }
     else updatingStatus None
   }"

definition handlePossibility :: "'w ext \<Rightarrow> (('w, 'z) mem_scheme, ComponentStatus \<times> error) state" where
  "handlePossibility E = do {
     h \<leftarrow> State_Monad.get;
     if \<not> IsUpdateStatusConditionTrue E ConditionHasPossibility h \<and> \<not> IsUpdateStatusConditionTrue E ConditionNoPossibility h
     then (case HandlePossibilityCheck E (h_world h) of
             Inl e \<Rightarrow> updatingStatus (Some e)
           | Inr (ok, msg) \<Rightarrow> do {
               setDone E (if ok then ConditionHasPossibility else ConditionNoPossibility) msg;
               updatingStatus None
             })
     else updatingStatus None
   }"

definition saveCells :: "'w ext \<Rightarrow> (('w, 'z) mem_scheme, error) state" where
  "saveCells E = do {
     r \<leftarrow> gets (\<lambda>h. GetTabletCells E (h_world h));
     (case r of
        Inl e \<Rightarrow> ret (Some e)
      | Inr bundles \<Rightarrow> do {
          modify (map_update (\<lambda>u. u\<lparr>us_TabletCellBundles := bundles\<rparr>));
          ret None
        })
   }"

definition handleCellsRemoved :: "'w ext \<Rightarrow> (('w, 'z) mem_scheme, ComponentStatus \<times> error) state" where
  "handleCellsRemoved E = do {
     d \<leftarrow> gets (IsUpdateStatusConditionTrue E ConditionTabletCellsRemoved);
     if \<not> d then do {
       r \<leftarrow> gets (\<lambda>h. AreTabletCellsRemoved E (h_world h));
       (case r of
          Inl e \<Rightarrow> updatingStatus (Some e)
        | Inr False \<Rightarrow> updatingStatus None
        | Inr True \<Rightarrow> do { setDone E ConditionTabletCellsRemoved ''Tablet cells were removed''; updatingStatus None })
     }
     else updatingStatus None
   }"

abbreviation handleSafeModeEnabling :: "'w ext \<Rightarrow> (('w, 'z) mem_scheme, ComponentStatus \<times> error) state" where
  "handleSafeModeEnabling E \<equiv> unlessDone E ConditionSafeModeEnabled ''Safe mode was enabled'' (EnableSafeMode E)"

abbreviation handleCellsSaving :: "'w ext \<Rightarrow> (('w, 'z) mem_scheme, ComponentStatus \<times> error) state" where
  "handleCellsSaving E \<equiv> unlessDone E ConditionTabletCellsSaved ''Tablet cells were saved'' (saveCells E)"

abbreviation handleCellsRemoving :: "'w ext \<Rightarrow> (('w, 'z) mem_scheme, ComponentStatus \<times> error) state" where
  "handleCellsRemoving E \<equiv> unlessDone E ConditionTabletCellsRemovingStarted ''Tablet cells removing was started'' (RemoveTabletCells E)"

abbreviation handleCellsRecovery :: "'w ext \<Rightarrow> (('w, 'z) mem_scheme, ComponentStatus \<times> error) state" where
  "handleCellsRecovery E \<equiv> unlessDone E ConditionTabletCellsRecovered ''Tablet cells recovered''
     (State_Monad.bind (gets (\<lambda>h. us_TabletCellBundles (h_update h))) (\<lambda>bundles. RecoverTableCells E bundles))"

abbreviation handleSafeModeDisabling :: "'w ext \<Rightarrow> (('w, 'z) mem_scheme, ComponentStatus \<times> error) state" where
  "handleSafeModeDisabling E \<equiv> unlessDone E ConditionSafeModeDisabled ''Safe mode disabled'' (DisableSafeMode E)"

definition handleUpdatingState :: "'w ext \<Rightarrow> (('w, 'z) mem_scheme, ComponentStatus \<times> error) state" where
  "handleUpdatingState E = do {
     s \<leftarrow> gets GetUpdateState;
     (case s of
        UpdateStatePossibilityCheck \<Rightarrow> handlePossibility E
      | UpdateStateWaitingForSafeModeEnabled \<Rightarrow> handleSafeModeEnabling E
      | UpdateStateWaitingForTabletCellsSaving \<Rightarrow> handleCellsSaving E
      | UpdateStateWaitingForTabletCellsRemovingStart \<Rightarrow> handleCellsRemoving E
      | UpdateStateWaitingForTabletCellsRemoved \<Rightarrow> handleCellsRemoved E
      | UpdateStateWaitingForSnapshots \<Rightarrow> handleSnapshots E
      | UpdateStateWaitingForTabletCellsRecovery \<Rightarrow> handleCellsRecovery E
      | UpdateStateWaitingForSafeModeDisabled \<Rightarrow> handleSafeModeDisabling E
      | _ \<Rightarrow> updatingStatus None)
   }"

subsection \<open>The component\<close>

record YtsaurusClient =
  yc_initUserJob :: nat
  yc_secret :: nat
  yc_cfgen :: Generator

definition YtsaurusClient_createInitUserScript :: "'w ext \<Rightarrow> string \<Rightarrow> string" where
  "YtsaurusClient_createInitUserScript E token = initJobWithNativeDriverPrologue @ newline @
     lines_join (createUserCommand E YtsaurusOperatorUserName [] token True)"

text \<open>The connection is made once, in dry runs too.\<close>

definition connect :: "'w ext \<Rightarrow> YtsaurusClient \<Rightarrow> 'w heap block" where
  "connect E yc = do {
     h \<leftarrow> State_Monad.get;
     if \<not> h_ytClient h then do {
       let token = getToken h (yc_secret yc);
       let err = (case f_lookup_env (x_fmt E) ''YTOP_PROXY'' of
           Some proxy \<Rightarrow> y_new_client (x_yt E) proxy token True
         | None \<Rightarrow> y_new_client (x_yt E) (GetHTTPProxiesAddress (yc_cfgen yc) DefaultHTTPProxyRole) token False);
       if err \<noteq> None then ret (Some (WaitingStatus SyncStatusPending ''ytClient init'', err))
       else do { modify (\<lambda>h. h\<lparr>h_ytClient := True\<rparr>); ret None }
     }
     else ret None
   }"

definition YtsaurusClient_doSync :: "'w ext \<Rightarrow> YtsaurusClient \<Rightarrow> 'w heap component \<Rightarrow> bool \<Rightarrow> ('w heap, ComponentStatus \<times> error) state" where
  "YtsaurusClient_doSync E yc httpProxy dry = firstStatus
     [checkRunning httpProxy (c_GetName httpProxy),
      checkSecret E (yc_secret yc) tokenData dry,
      act (do { h \<leftarrow> State_Monad.get;
        whenM (\<not> dry) (setScript E (yc_initUserJob yc) (YtsaurusClient_createInitUserScript E (getToken h (yc_secret yc)))) }),
      checkJob E (yc_initUserJob yc) dry,
      connect E yc,
      whenUpdating (do {
        s \<leftarrow> gets GetUpdateState;
        if s = UpdateStateImpossibleToStart then returnStatus (SimpleStatus SyncStatusReady) None
        else if dry then returnStatus (SimpleStatus SyncStatusUpdating) None
        else do { r \<leftarrow> handleUpdatingState E; ret (Some r) }
      })]
     (ret (SimpleStatus SyncStatusReady, None))"

definition YtsaurusClient_component :: "'w ext \<Rightarrow> Labeller \<Rightarrow> YtsaurusClient \<Rightarrow> 'w heap component \<Rightarrow> 'w heap component" where
  "YtsaurusClient_component E l yc httpProxy = mkComponent E l YtsaurusClientType False
     (resources_Fetch [Some (on_sec (yc_secret yc) (StringSecret_Fetch E)),
        Some (on_job (yc_initUserJob yc) (InitJob_Fetch E)), Some (c_Fetch httpProxy)])
     (YtsaurusClient_doSync E yc httpProxy)"

definition NewYtsaurusClient :: "'w ext \<Rightarrow> Generator \<Rightarrow> 'w heap component \<Rightarrow> ('w heap, 'w heap component) state" where
  "NewYtsaurusClient E g httpProxy = do {
     r \<leftarrow> gets h_yts;
     let l = mkLabeller r YTComponentLabelClient ''YtsaurusClient'' (extraPodAnnotations r);
     j \<leftarrow> alloc put_job (nativeJob E g r l ''user'' (coreImage r));
     s \<leftarrow> alloc put_sec (NewStringSecret (GetSecretName l) l);
     modify (\<lambda>h. h\<lparr>h_ytClient := False\<rparr>);
     ret (YtsaurusClient_component E l \<lparr>yc_initUserJob = j, yc_secret = s, yc_cfgen = g\<rparr> httpProxy)
   }"

subsection \<open>The contract\<close>

lemma cr_setDone [io_intros]: "state_io_rel (comp_rel E True) (setDone E t msg)"
  unfolding setDone_def by (intro io_intros) (simp add: mkCondition_def)

lemma cr_save_fields [io_intros]:
  "state_io_rel (comp_rel E True) (modify (map_update (\<lambda>u. u\<lparr>us_MasterMonitoringPaths := ps\<rparr>)))"
  "state_io_rel (comp_rel E True) (modify (map_update (\<lambda>u. u\<lparr>us_TabletCellBundles := bs\<rparr>)))"
  by (auto intro!: state_io_relI simp: comp_rel_def cond_inv_def control_of_def getter_defs update_stored_def)

lemma cr_unlessDone [io_intros]:
  "state_io_rel (comp_rel E True) m \<Longrightarrow> state_io_rel (comp_rel E True) (unlessDone E t msg m)"
  unfolding unlessDone_def by (intro io_intros)

lemma cr_removeCellsLoop [io_intros]: "state_io_rel (comp_rel E u) (removeCellsLoop E cs)"
  by (induction cs) (auto intro!: io_intros)

lemma cr_RecoverTableCells [io_intros]: "state_io_rel (comp_rel E u) (RecoverTableCells E bs)"
  by (induction bs) (auto intro!: io_intros)

lemma cr_safe_mode [io_intros]:
  "state_io_rel (comp_rel E u) (EnableSafeMode E)" "state_io_rel (comp_rel E u) (DisableSafeMode E)"
  unfolding EnableSafeMode_def DisableSafeMode_def by (auto intro: io_intros)

lemma cr_RemoveTabletCells [io_intros]: "state_io_rel (comp_rel E u) (RemoveTabletCells E)"
  unfolding RemoveTabletCells_def by (intro io_intros)

lemma cr_saveCells [io_intros]: "state_io_rel (comp_rel E True) (saveCells E)"
  unfolding saveCells_def by (intro io_intros)

lemma io_case_bool [io_intros]:
  "(b \<Longrightarrow> state_io_rel R m) \<Longrightarrow> (\<not> b \<Longrightarrow> state_io_rel R n) \<Longrightarrow> state_io_rel R (case b of True \<Rightarrow> m | False \<Rightarrow> n)"
  by (cases b) simp_all

lemma cr_snapshot_steps [io_intros]:
  "state_io_rel (comp_rel E True) (savePaths E)" "state_io_rel (comp_rel E True) (startSnapshots E)"
  unfolding savePaths_def startSnapshots_def StartBuildMasterSnapshots_def by (auto intro!: io_intros)

lemma cr_handle_steps [io_intros]:
  "state_io_rel (comp_rel E True) (handleSnapshots E)" "state_io_rel (comp_rel E True) (handlePossibility E)"
  "state_io_rel (comp_rel E True) (handleCellsRemoved E)"
  unfolding handleSnapshots_def handlePossibility_def handleCellsRemoved_def by (intro io_intros)+

lemma cr_handleUpdatingState [io_intros]:
  fixes E :: "'w ext"
  shows "state_io_rel (comp_rel E True) (handleUpdatingState E)"
proof -
  have "state_io_rel (comp_rel E True) (case s of
        UpdateStatePossibilityCheck \<Rightarrow> m1 | UpdateStateWaitingForSafeModeEnabled \<Rightarrow> m2
      | UpdateStateWaitingForTabletCellsSaving \<Rightarrow> m3 | UpdateStateWaitingForTabletCellsRemovingStart \<Rightarrow> m4
      | UpdateStateWaitingForTabletCellsRemoved \<Rightarrow> m5 | UpdateStateWaitingForSnapshots \<Rightarrow> m6
      | UpdateStateWaitingForTabletCellsRecovery \<Rightarrow> m7 | UpdateStateWaitingForSafeModeDisabled \<Rightarrow> m8 | _ \<Rightarrow> m9)"
    if "\<forall>m \<in> {m1, m2, m3, m4, m5, m6, m7, m8, m9}. state_io_rel (comp_rel E True) m" for s and
      m1 m2 m3 m4 m5 m6 m7 m8 m9 :: "(('w, 'z) mem_scheme, ComponentStatus \<times> error) state"
    using that by (cases s) simp_all
  note split_state = this
  show ?thesis
    unfolding handleUpdatingState_def by (intro cr.rel_bind cr.rel_gets split_state) (auto intro!: io_intros)
qed

lemma cr_connect [io_intros]: "state_io_rel (comp_rel E u) (connect E yc)"
  unfolding connect_def Let_def by (intro io_intros cr_keeps keeps_modify) auto

lemma component_ok_YtsaurusClient:
  assumes "component_ok E c"
  shows "component_ok E (YtsaurusClient_component E l yc c)"
  using assms unfolding YtsaurusClient_component_def YtsaurusClient_doSync_def returnStatus_def
  by (intro component_ok_mkComponent) (auto simp: component_ok_def intro!: io_intros)

lemma keeps_connect [io_intros]: "keeps outer (connect E yc)"
  unfolding connect_def Let_def by (intro io_intros keeps_modify) (simp add: outer_def)

lemma dry_YtsaurusClient: "dry_status c \<Longrightarrow> dry_status (YtsaurusClient_component E l yc c)"
  unfolding YtsaurusClient_component_def YtsaurusClient_doSync_def component_defs returnStatus_def
  by (auto intro!: io_intros)

lemma keeps_NewYtsaurusClient [io_intros]: "keeps statusOuter (NewYtsaurusClient E g c)"
  unfolding NewYtsaurusClient_def Let_def by (intro io_intros keeps_modify) (simp add: statusOuter_def)

subsection \<open>When an update is possible\<close>

text \<open>The state that an active master reports.\<close>

definition master_state :: "'w ext \<Rightarrow> 'w \<Rightarrow> string \<Rightarrow> string option" where
  "master_state E w a = (case primaryHydra E w a of
       Inr hydra \<Rightarrow> if mh_Active hydra then Some (mh_State hydra) else None
     | Inl _ \<Rightarrow> None)"

definition masters_healthy :: "'w ext \<Rightarrow> 'w \<Rightarrow> string list \<Rightarrow> bool" where
  "masters_healthy E w as \<longleftrightarrow> (\<forall>a \<in> set as. master_state E w a \<in> {Some ''leading'', Some ''following''}) \<and>
     length (filter (\<lambda>a. master_state E w a = Some ''leading'') as) = 1"

definition update_possible :: "'w ext \<Rightarrow> 'w \<Rightarrow> bool" where
  "update_possible E w \<longleftrightarrow>
     (\<exists>bs. y_list_health (x_yt E) ''//sys/tablet_cell_bundles'' w = Inr bs \<and> (\<forall>b \<in> set bs. tbh_Health b = ''good'')) \<and>
     (\<exists>n. y_get_int (x_yt E) ''//sys/lost_vital_chunks/@count'' w = Inr n \<and> n \<le> 0) \<and>
     (\<exists>n. y_get_int (x_yt E) ''//sys/quorum_missing_chunks/@count'' w = Inr n \<and> n \<le> 0) \<and>
     (\<exists>as. y_list (x_yt E) ''//sys/primary_masters'' w = Inr as \<and> masters_healthy E w as)"

lemma checkMastersLoop_counts:
  "checkMastersLoop E w as l f = MasterCounts l' f' \<longleftrightarrow>
     (\<forall>a \<in> set as. master_state E w a \<noteq> None) \<and>
     l' = l + int (length (filter (\<lambda>a. master_state E w a = Some ''leading'') as)) \<and>
     f' = f + int (length (filter (\<lambda>a. master_state E w a = Some ''following'') as))"
proof (induction as arbitrary: l f)
  case (Cons a as)
  then show ?case
    by (cases "primaryHydra E w a") (auto simp: master_state_def [of E w a])
qed auto

lemma length_filter_two:
  assumes "\<And>x. \<not> (P x \<and> Q x)"
  shows "length (filter P xs) + length (filter Q xs) = length xs \<longleftrightarrow> (\<forall>x \<in> set xs. P x \<or> Q x)"
proof (induction xs)
  case (Cons a xs)
  have "length (filter P ys) + length (filter Q ys) \<le> length ys" for ys
    using assms by (induction ys) auto
  from this [of xs] Cons assms [of a] show ?case by auto
qed simp

lemma masters_counts_healthy:
  "(\<exists>l f. checkMastersLoop E w as 0 0 = MasterCounts l f \<and> l = 1 \<and> f + 1 = int (length as)) \<longleftrightarrow> masters_healthy E w as"
  using length_filter_two [of "\<lambda>a. master_state E w a = Some ''leading''" "\<lambda>a. master_state E w a = Some ''following''" as]
  unfolding checkMastersLoop_counts masters_healthy_def by (auto 0 4)

lemma HandlePossibilityCheck_True:
  "HandlePossibilityCheck E w = Inr (True, msg) \<longleftrightarrow> update_possible E w \<and> msg = ''Update is possible''"
proof -
  have m: "(case checkMastersLoop E w as 0 0 of
      MastersError e \<Rightarrow> Inl e
    | MasterNotActive \<Rightarrow> Inr (False, ''There is a non-active master: '' @ show_strings as)
    | MasterCounts leading following \<Rightarrow> if \<not> (leading = 1 \<and> following + 1 = int (length as))
        then Inr (False, ''There is no leader or some peer is not active'') else Inr (True, ''Update is possible'')) =
      Inr (True, msg) \<longleftrightarrow> masters_healthy E w as \<and> msg = ''Update is possible''" for as
    unfolding masters_counts_healthy [symmetric] by (auto split: masterCheck.splits)
  show ?thesis
    unfolding HandlePossibilityCheck_def update_possible_def GetNotGoodTabletCellBundles_def
    by (cases "y_list_health (x_yt E) ''//sys/tablet_cell_bundles'' w";
        cases "y_get_int (x_yt E) ''//sys/lost_vital_chunks/@count'' w";
        cases "y_get_int (x_yt E) ''//sys/quorum_missing_chunks/@count'' w";
        cases "y_list (x_yt E) ''//sys/primary_masters'' w")
      (simp_all add: m filter_empty_conv not_less)
qed

subsection \<open>What a recorded condition means\<close>

lemma setDone_stored:
  assumes "cond_inv E h"
  shows "IsUpdateStatusConditionTrue E t' (snd (run_state (setDone E t msg) h)) \<longleftrightarrow>
    t' = t \<or> IsUpdateStatusConditionTrue E t' h"
proof -
  let ?c = "mkCondition t ConditionTrue ''Update'' msg"
  have "cond_inv E (snd (run_state (SetUpdateStatusCondition E ?c) h))" using assms by (rule upd.inv_set)
  then show ?thesis
    using assms upd.stored_set [OF assms, of ?c t']
    by (simp add: setDone_def IsUpdateStatusConditionTrue_stored mkCondition_def)
qed

text \<open>The possibility is recorded only when the check succeeded.\<close>

lemma handlePossibility_sound:
  assumes "cond_inv E h" and "run_state (handlePossibility E) h = (r, h')"
    and "IsUpdateStatusConditionTrue E ConditionHasPossibility h'"
  shows "IsUpdateStatusConditionTrue E ConditionHasPossibility h \<or> update_possible E (h_world h)"
proof (cases "HandlePossibilityCheck E (h_world h)")
  case (Inl e)
  with assms show ?thesis by (auto simp: handlePossibility_def split: if_splits)
next
  case (Inr p)
  obtain ok msg where p: "p = (ok, msg)" by fastforce
  let ?t = "if ok then ConditionHasPossibility else ConditionNoPossibility"
  show ?thesis
  proof (cases "h' = h")
    case False
    with assms(2) Inr p have "h' = snd (run_state (setDone E ?t msg) h)"
      by (simp add: handlePossibility_def case_prod_unfold split: if_splits)
    with assms(1,3) have "ok \<or> IsUpdateStatusConditionTrue E ConditionHasPossibility h"
      by (auto simp: setDone_stored split: if_splits)
    with Inr p show ?thesis by (auto simp: HandlePossibilityCheck_True)
  qed (use assms(3) in simp)
qed

text \<open>The removal of the tablet cells is recorded only when the cluster lists none.\<close>

lemma handleCellsRemoved_sound:
  assumes "cond_inv E h" and "run_state (handleCellsRemoved E) h = (r, h')"
    and "IsUpdateStatusConditionTrue E ConditionTabletCellsRemoved h'"
    and "\<not> IsUpdateStatusConditionTrue E ConditionTabletCellsRemoved h"
  shows "y_list (x_yt E) ''//sys/tablet_cells'' (h_world h) = Inr []"
  using assms
  by (cases "y_list (x_yt E) ''//sys/tablet_cells'' (h_world h)")
    (auto simp: handleCellsRemoved_def AreTabletCellsRemoved_def split: bool.splits)

lemma AreMasterSnapshotsBuilt_iff:
  "AreMasterSnapshotsBuilt E w ps = Inr True \<longleftrightarrow>
     (\<forall>p \<in> set ps. \<exists>hydra. y_get_hydra (x_yt E) p w = Inr hydra \<and> mh_LastSnapshotReadOnly hydra)"
  by (induction ps) (auto split: sum.splits)

lemma allMastersReadOnly_iff:
  "allMastersReadOnly E w ps = Inr True \<longleftrightarrow>
     (\<forall>p \<in> set ps. \<exists>hydra. y_get_hydra (x_yt E) p w = Inr hydra \<and> mh_ReadOnly hydra)"
  by (induction ps) (auto split: sum.splits)

text \<open>The snapshots are recorded as saved only when every monitored master has one.\<close>

lemma cond_inv_rel:
  assumes "state_io_rel (comp_rel E u) m" and "ext_ok E" and "cond_inv E h" and "run_state m h = (x, h')"
  shows "cond_inv E h'" "IsUpdateStatusConditionTrue E t h \<Longrightarrow> t \<noteq> ConditionMasterExitReadOnlyPrepared \<Longrightarrow>
    IsUpdateStatusConditionTrue E t h'"
proof -
  have r: "comp_rel E u h h'" using assms by (auto dest: state_io_relD)
  show inv: "cond_inv E h'" using comp_relD(1) [OF r assms(2,3)] .
  show "IsUpdateStatusConditionTrue E t h \<Longrightarrow> t \<noteq> ConditionMasterExitReadOnlyPrepared \<Longrightarrow>
    IsUpdateStatusConditionTrue E t h'"
    using comp_relD(5) [OF r assms(2,3), of t] inv assms(3) by (simp add: IsUpdateStatusConditionTrue_stored)
qed

lemma savePaths_other:
  assumes "cond_inv E h" and "run_state (savePaths E) h = (err, h')" and "t \<noteq> ConditionSnapshotsMonitoringInfoSaved"
  shows "IsUpdateStatusConditionTrue E t h' = IsUpdateStatusConditionTrue E t h"
proof (cases "GetMasterMonitoringPaths E h")
  case (Inr ps)
  let ?h = "map_update (\<lambda>u. u\<lparr>us_MasterMonitoringPaths := ps\<rparr>) h"
  have "cond_inv E ?h" "IsUpdateStatusConditionTrue E t ?h = IsUpdateStatusConditionTrue E t h"
    using assms(1) by (simp_all add: cond_inv_def IsUpdateStatusConditionTrue_def)
  with assms(2,3) Inr show ?thesis
    by (auto simp: savePaths_def setDone_stored case_prod_unfold split: if_splits)
qed (use assms in \<open>auto simp: savePaths_def split: if_splits\<close>)

lemma StartBuild_yts: "run_state (StartBuildMasterSnapshots E ps) h = (err, h') \<Longrightarrow> h_yts h' = h_yts h"
  by (rule keepsD [of h_yts]) (auto simp: StartBuildMasterSnapshots_def intro!: io_intros split: bool.splits)

lemma startSnapshots_other:
  assumes "cond_inv E h" and "run_state (startSnapshots E) h = (err, h')" and "t \<noteq> ConditionSnapshotsBuildingStarted"
  shows "IsUpdateStatusConditionTrue E t h' = IsUpdateStatusConditionTrue E t h"
proof -
  obtain e h1 where r: "run_state (StartBuildMasterSnapshots E (us_MasterMonitoringPaths (h_update h))) h = (e, h1)" by fastforce
  then have "h_yts h1 = h_yts h" by (rule StartBuild_yts)
  then have "cond_inv E h1" "IsUpdateStatusConditionTrue E t h1 = IsUpdateStatusConditionTrue E t h"
    using assms(1) by (simp_all add: cond_inv_def IsUpdateStatusConditionTrue_def)
  with assms(2,3) r show ?thesis
    by (auto simp: startSnapshots_def setDone_stored case_prod_unfold split: if_splits)
qed

lemma setDone_keeps:
  "us_MasterMonitoringPaths (h_update (snd (run_state (setDone E t msg) h))) = us_MasterMonitoringPaths (h_update h)"
  "h_world (snd (run_state (setDone E t msg) h)) = h_world h"
  by (simp_all add: setDone_def SetUpdateStatusCondition_def)

definition snapshots_built :: "'w ext \<Rightarrow> ('w, 'z) mem_scheme \<Rightarrow> bool" where
  "snapshots_built E h \<longleftrightarrow> (\<forall>p \<in> set (us_MasterMonitoringPaths (h_update h)).
     \<exists>hydra. y_get_hydra (x_yt E) p (h_world h) = Inr hydra \<and> mh_LastSnapshotReadOnly hydra)"

lemma handleSnapshots_sound:
  assumes "ext_ok E" and "cond_inv E h" and "run_state (handleSnapshots E) h = (r, h')"
    and new: "IsUpdateStatusConditionTrue E ConditionSnaphotsSaved h'" "\<not> IsUpdateStatusConditionTrue E ConditionSnaphotsSaved h"
  shows "snapshots_built E h'"
proof -
  obtain e1 h1 where r1: "run_state (savePaths E) h = (e1, h1)" by fastforce
  obtain e2 h2 where r2: "run_state (startSnapshots E) h1 = (e2, h2)" by fastforce
  have i1: "cond_inv E h1" using cond_inv_rel(1) [OF cr_snapshot_steps(1) assms(1,2) r1] .
  have i2: "cond_inv E h2" using cond_inv_rel(1) [OF cr_snapshot_steps(2) assms(1) i1 r2] .
  have "\<not> IsUpdateStatusConditionTrue E ConditionSnaphotsSaved h1"
    using savePaths_other [OF assms(2) r1] new(2) by simp
  moreover from this have "\<not> IsUpdateStatusConditionTrue E ConditionSnaphotsSaved h2"
    using startSnapshots_other [OF i1 r2] by simp
  ultimately have "AreMasterSnapshotsBuilt E (h_world h2) (us_MasterMonitoringPaths (h_update h2)) = Inr True \<and>
      h' = snd (run_state (setDone E ConditionSnaphotsSaved ''Master snapshots were built'') h2)"
    using assms(3) new r1 r2 by (auto simp: handleSnapshots_def case_prod_unfold split: if_splits sum.splits bool.splits)
  then show ?thesis by (auto simp: snapshots_built_def AreMasterSnapshotsBuilt_iff setDone_keeps)
qed

text \<open>A stage of the client that ends without an error has recorded its condition.\<close>

lemma unlessDone_done:
  assumes "state_io_rel (comp_rel E True) m" and "ext_ok E" and "cond_inv E h"
    and "run_state (unlessDone E t msg m) h = ((s, None), h')"
  shows "IsUpdateStatusConditionTrue E t h'"
proof -
  obtain e h1 where r: "run_state m h = (e, h1)" by fastforce
  have "cond_inv E h1" using cond_inv_rel(1) [OF assms(1-3) r] .
  with assms(4) r show ?thesis
    by (auto simp: unlessDone_def setDone_stored case_prod_unfold split: if_splits)
qed

subsection \<open>Recovering tablet cells\<close>

text \<open>
  Documented behaviour of Cypress: creating a tablet cell in a bundle adds one to the cell count
  of that bundle and to no other; a failed request changes nothing that matters here.
\<close>

definition cell_count :: "'w ext \<Rightarrow> string \<Rightarrow> 'w \<Rightarrow> string + int" where
  "cell_count E b w = y_get_int (x_yt E) (''//sys/tablet_cell_bundles/'' @ b @ ''/@tablet_cell_count'') w"

definition cells_ok :: "'w ext \<Rightarrow> bool" where
  "cells_ok E \<longleftrightarrow> (\<forall>b b' w n. cell_count E b w = Inr n \<longrightarrow>
     fst (y_create_object (x_yt E) ''tablet_cell'' [(''tablet_cell_bundle'', YString b')] False w) = None \<longrightarrow>
     cell_count E b (snd (y_create_object (x_yt E) ''tablet_cell'' [(''tablet_cell_bundle'', YString b')] False w)) =
       Inr (if b = b' then n + 1 else n))"

lemma createCellsLoop_count:
  assumes "cells_ok E" and "run_state (createCellsLoop E b i n) h = (None, h')"
    and "cell_count E b' (h_world h) = Inr m"
  shows "cell_count E b' (h_world h') = Inr (if b' = b then m + max 0 (n - i) else m)"
  using assms(2,3)
proof (induction "nat (n - i)" arbitrary: i h m)
  case 0
  then show ?case by (simp add: createCellsLoop.simps)
next
  case (Suc k)
  let ?op = "y_create_object (x_yt E) ''tablet_cell'' [(''tablet_cell_bundle'', YString b)] False"
  let ?h = "h\<lparr>h_world := snd (?op (h_world h))\<rparr>"
  from Suc.hyps(2) have lt: "i < n" by linarith
  with Suc.prems(1) have ok: "fst (?op (h_world h)) = None" and run: "run_state (createCellsLoop E b (i + 1) n) ?h = (None, h')"
    by (simp_all add: createCellsLoop.simps [of E b i n] run_ext_write split: if_splits)
  have "cell_count E b' (h_world ?h) = Inr (if b' = b then m + 1 else m)"
    using assms(1) Suc.prems(2) ok by (simp add: cells_ok_def)
  moreover have "k = nat (n - (i + 1))" using Suc.hyps(2) by linarith
  ultimately show ?case using Suc.hyps(1) [OF _ run] lt by auto
qed

lemma CreateTabletCells_count:
  assumes "cells_ok E" and "run_state (CreateTabletCells E b n) h = (None, h')" and "cell_count E b' (h_world h) = Inr m"
  shows "cell_count E b' (h_world h') = Inr (if b' = b then max m n else m)"
proof -
  obtain i where i: "cell_count E b (h_world h) = Inr i" and run: "run_state (createCellsLoop E b i n) h = (None, h')"
    using assms(2) by (auto simp: CreateTabletCells_def cell_count_def split: sum.splits)
  from createCellsLoop_count [OF assms(1) run assms(3)] show ?thesis
    using i assms(3) by (cases "b' = b") (auto simp: max_def)
qed

text \<open>Recovery brings every saved bundle up to its saved count and takes no cell away.\<close>

lemma RecoverTableCells_count:
  assumes "cells_ok E" and "run_state (RecoverTableCells E bs) h = (None, h')" and "cell_count E b (h_world h) = Inr m"
  shows "cell_count E b (h_world h') =
    Inr (fold (\<lambda>x n. if tcb_Name x = b then max n (tcb_TabletCellCount x) else n) bs m)"
  using assms(2,3)
proof (induction bs arbitrary: h m)
  case (Cons x xs)
  obtain h1 where r1: "run_state (CreateTabletCells E (tcb_Name x) (tcb_TabletCellCount x)) h = (None, h1)"
    and r2: "run_state (RecoverTableCells E xs) h1 = (None, h')"
    using Cons.prems(1) by (auto split: prod.splits if_splits)
  note c = CreateTabletCells_count [OF assms(1) r1 Cons.prems(2)]
  from Cons.IH [OF r2 c] show ?case by (simp add: eq_commute)
qed auto

lemma fold_saved_count:
  assumes "distinct (map tcb_Name bs)"
  shows "fold (\<lambda>x n. if tcb_Name x = b then max n (tcb_TabletCellCount x) else n) bs m =
    (case find (\<lambda>x. tcb_Name x = b) bs of None \<Rightarrow> m | Some x \<Rightarrow> max m (tcb_TabletCellCount x))"
  using assms
proof (induction bs arbitrary: m)
  case (Cons x bs)
  show ?case
  proof (cases "tcb_Name x = b")
    case True
    with Cons.prems have "b \<notin> tcb_Name ` set bs" by auto
    then have "find (\<lambda>x. tcb_Name x = b) bs = None" unfolding find_None_iff by (metis imageI)
    with True Cons.prems show ?thesis using Cons.IH [of "max m (tcb_TabletCellCount x)"] by simp
  qed (use Cons in simp)
qed simp

lemma find_distinct: "distinct (map f bs) \<Longrightarrow> b \<in> set bs \<Longrightarrow> find (\<lambda>x. f x = f b) bs = Some b"
  by (induction bs) (auto intro: rev_image_eqI)

end
