(* ===== verification/Scheduling.thy ===== *)
theory Scheduling
  imports YtsaurusClient
begin

text \<open>
  \<open>tablet_node.go\<close>: the tablet nodes and the initial tablet cell bundles; \<open>scheduler.go\<close>: the
  schedulers and the archive of operations.
\<close>

subsection \<open>tablet\_node.go\<close>

abbreviation SysBundle :: string where "SysBundle \<equiv> ''sys''"
abbreviation DefaultBundle :: string where "DefaultBundle \<equiv> ''default''"
abbreviation initBundlesCondition :: string where "initBundlesCondition \<equiv> ''bundlesTabletNodeInitCompleted''"

definition getBundleBootstrap :: "YtsaurusSpec \<Rightarrow> string \<Rightarrow> BundleBootstrapSpec option" where
  "getBundleBootstrap spec bundle = (case ys_Bootstrap spec of
       None \<Rightarrow> None
     | Some b \<Rightarrow> if bundle = SysBundle then bbs_Sys b else if bundle = DefaultBundle then bbs_Default b else None)"

text \<open>A map as the list of its entries.\<close>

definition getBundleOptions :: "NodeGenerator \<Rightarrow> YtsaurusSpec \<Rightarrow> string \<Rightarrow> (string \<times> yval) list" where
  "getBundleOptions g spec bundle =
     (if bundle = SysBundle then [(''changelog_account'', YString ''sys''), (''snapshot_account'', YString ''sys'')] else []) @
     (case getBundleBootstrap spec bundle of
        None \<Rightarrow> []
      | Some b \<Rightarrow>
          (case bb_ChangelogPrimaryMedium b of Some m \<Rightarrow> [(''changelog_primary_medium'', YString m)] | None \<Rightarrow> []) @
          (case bb_SnapshotPrimaryMedium b of Some m \<Rightarrow> [(''snapshot_primary_medium'', YString m)] | None \<Rightarrow> [])) @
     (if GetMaxReplicationFactor g <s 3
      then [(''changelog_replication_factor'', YInt 1), (''changelog_read_quorum'', YInt 1),
            (''changelog_write_quorum'', YInt 1), (''snapshot_replication_factor'', YInt 1)]
      else [])"

text \<open>Assignment to a key of a map given by its entries.\<close>

fun set_key :: "string \<Rightarrow> 'v \<Rightarrow> (string \<times> 'v) list \<Rightarrow> (string \<times> 'v) list" where
  "set_key k v [] = [(k, v)]"
| "set_key k v ((k', v') # xs) = (if k' = k then (k, v) # xs else (k', v') # set_key k v xs)"

definition set_keys :: "(string \<times> 'v) list \<Rightarrow> (string \<times> 'v) list \<Rightarrow> (string \<times> 'v) list" where
  "set_keys updates xs = fold (\<lambda>(k, v). set_key k v) updates xs"

definition createSysBundle :: "'w ext \<Rightarrow> NodeGenerator \<Rightarrow> (('w, 'z) mem_scheme, error) state" where
  "createSysBundle E g = do {
     h \<leftarrow> State_Monad.get;
     (case y_exists (x_yt E) (''//sys/tablet_cell_bundles/'' @ SysBundle) (h_world h) of
        Inl e \<Rightarrow> ret (Some e)
      | Inr True \<Rightarrow> ret None
      | Inr False \<Rightarrow> ext_write (y_create_object (x_yt E) ''tablet_cell_bundle''
          [(''name'', YString SysBundle), (''options'', YMap (getBundleOptions g (yr_Spec (h_yts h)) SysBundle))] False))
   }"

text \<open>The options of the default bundle; the result tells which step failed.\<close>

definition setDefaultOptions :: "'w ext \<Rightarrow> NodeGenerator \<Rightarrow> (('w, 'z) mem_scheme, (string \<times> string) option) state" where
  "setDefaultOptions E g = do {
     h \<leftarrow> State_Monad.get;
     let options = getBundleOptions g (yr_Spec (h_yts h)) DefaultBundle;
     let path = ''//sys/tablet_cell_bundles/'' @ DefaultBundle @ ''/@options'';
     if length options \<noteq> 0 then
       (case y_get_map (x_yt E) path (h_world h) of
          Inl e \<Rightarrow> ret (Some (''getting default bundle options'', e))
        | Inr bundleOptions \<Rightarrow> do {
            err \<leftarrow> ext_write (y_set (x_yt E) path (YMap (set_keys options bundleOptions)));
            ret (map_option (\<lambda>e. (''setting default bundle options'', e)) err)
          })
     else ret None
   }"

definition bundleCellCount :: "YtsaurusSpec \<Rightarrow> string \<Rightarrow> int" where
  "bundleCellCount spec bundle = (case getBundleBootstrap spec bundle of Some b \<Rightarrow> bb_TabletCellCount b | None \<Rightarrow> 1)"

definition createBundleCells :: "'w ext \<Rightarrow> string \<Rightarrow> (('w, 'z) mem_scheme, error) state" where
  "createBundleCells E bundle = do {
     n \<leftarrow> gets (\<lambda>h. bundleCellCount (yr_Spec (h_yts h)) bundle);
     CreateTabletCells E bundle n
   }"

definition initBundles :: "'w ext \<Rightarrow> NodeGenerator \<Rightarrow> (('w, 'z) mem_scheme, ComponentStatus \<times> error) state" where
  "initBundles E g = do {
     err \<leftarrow> createSysBundle E g;
     if err \<noteq> None then ret (WaitingStatus SyncStatusPending ''tablet_cell_bundle creation'', err)
     else do {
       r \<leftarrow> setDefaultOptions E g;
       (case r of
          Some (step, e) \<Rightarrow> ret (WaitingStatus SyncStatusPending step, Some e)
        | None \<Rightarrow> do {
            err \<leftarrow> first_error [Some (createBundleCells E DefaultBundle), Some (createBundleCells E SysBundle)];
            if err \<noteq> None then ret (WaitingStatus SyncStatusPending ''tablet cells creation'', err)
            else do {
              SetStatusCondition E (mkCondition initBundlesCondition ConditionTrue ''InitBundlesCompleted''
                ''Init bundles successfully completed'');
              ret (SimpleStatus SyncStatusReady, None)
            }
          })
     }
   }"

text \<open>Wait for a component that must be ready, not only running.\<close>

definition checkReady :: "'s component \<Rightarrow> 's block" where
  "checkReady c = do {
     (s, err) \<leftarrow> c_Status c;
     if err \<noteq> None then ret (Some (s, err))
     else if cst_SyncStatus s \<noteq> SyncStatusReady then ret (Some (WaitingStatus SyncStatusBlocked (c_GetName c), None))
     else ret None
   }"

definition TabletNode_doSync :: "'w ext \<Rightarrow> Labeller \<Rightarrow> NodeGenerator \<Rightarrow> nat \<Rightarrow> 'w heap component \<Rightarrow> bool \<Rightarrow> bool \<Rightarrow>
    ('w heap, ComponentStatus \<times> error) state" where
  "TabletNode_doSync E l g a ytsaurusClient doInitialization dry = firstStatus
     [checkNeedUpdate (do { s \<leftarrow> gets (\<lambda>h. h_srv h a); serverImpl_needUpdate E s }),
      checkUpdating E l (serverPods E a) dry,
      checkServerSync E a dry (on_srv a (serverImpl_Sync E)),
      checkPodsReady E a,
      do {
        completed \<leftarrow> gets (IsStatusConditionTrue E initBundlesCondition);
        ret (if \<not> doInitialization \<or> completed then Some (SimpleStatus SyncStatusReady, None) else None)
      },
      checkReady ytsaurusClient,
      (if \<not> dry \<and> doInitialization then do {
         (s, err) \<leftarrow> initBundles E g;
         ret (if err \<noteq> None then Some (s, err) else None)
       }
       else ret None)]
     (ret (WaitingStatus SyncStatusPending (''setting '' @ initBundlesCondition @ '' condition''), None))"

definition TabletNode :: "'w ext \<Rightarrow> Labeller \<Rightarrow> NodeGenerator \<Rightarrow> nat \<Rightarrow> 'w heap component \<Rightarrow> bool \<Rightarrow> 'w heap component" where
  "TabletNode E l g a ytsaurusClient doInitialization =
     mkComponent E l TabletNodeType True (fetchServer E a) (TabletNode_doSync E l g a ytsaurusClient doInitialization)"

definition NewTabletNode :: "'w ext \<Rightarrow> NodeGenerator \<Rightarrow> 'w heap component \<Rightarrow> TabletNodesSpec \<Rightarrow> bool \<Rightarrow>
    ('w heap, 'w heap component) state" where
  "NewTabletNode E g ytsaurusClient spec0 doInitialization = do {
     r \<leftarrow> gets h_yts;
     let spec = spec0\<lparr>tns_Instance := withMonitoringPort TabletNodeMonitoringPort (tns_Instance spec0)\<rparr>;
     let l = mkLabeller r (FormatComponentStringWithDefault YTComponentLabelTabletNode (tns_Name spec))
       (FormatComponentStringWithDefault ''TabletNode'' (tns_Name spec)) Map.empty;
     a \<leftarrow> alloc put_srv (newServer l r (tns_Instance spec) ''/usr/bin/ytserver-node'' ''ytserver-tablet-node.yson''
       (GetTabletNodesStatefulSetName g (tns_Name spec)) (GetTabletNodesServiceName g (tns_Name spec))
       (generate E (TabletNodeConfig spec) r g) [WithContainerPorts [tcpPort YTRPCPortName TabletNodeRPCPort]]);
     ret (TabletNode E l g a ytsaurusClient doInitialization)
   }"

subsection \<open>Jobs with the token of a secret\<close>

text \<open>Set the script and let the container of the job read the secret.\<close>

definition prepareJob :: "'w ext \<Rightarrow> nat \<Rightarrow> string \<Rightarrow> nat \<Rightarrow> ('w heap, unit) state" where
  "prepareJob E a script secret = do {
     sec \<leftarrow> gets (\<lambda>h. h_sec h secret);
     on_job a (\<lambda>j. do {
       j1 \<leftarrow> SetInitScript E script j;
       ret ((), onJobContainer0 (\<lambda>c. c\<lparr>ct_EnvFromSecrets := [StringSecret_GetEnvSource sec]\<rparr>) (InitJob_Build j1))
     })
   }"

text \<open>
  The part of \<open>doSync\<close> of components that have something to update besides their pods: pods are
  removed first, then \<open>update\<close> runs, and only in the states \<open>WaitingForPodsCreation\<close> and
  \<open>extra\<close> the method goes on.
\<close>

definition checkUpdatingWith :: "'w ext \<Rightarrow> Labeller \<Rightarrow> 'w heap podsManager \<Rightarrow> UpdateState \<Rightarrow>
    ('w heap, ComponentStatus option \<times> error) state \<Rightarrow> bool \<Rightarrow> 'w heap block" where
  "checkUpdatingWith E l pm extra update dry = whenUpdating (do {
     upd \<leftarrow> gets (isUpdatingNamed (lb_ComponentName l) True);
     s \<leftarrow> gets GetUpdateState;
     if upd then
       if s = UpdateStateWaitingForPodsRemoval then do {
         err \<leftarrow> (if \<not> dry then removePods E pm l else ret None);
         ret (Some (WaitingStatus SyncStatusUpdating ''pods removal'', err))
       }
       else do {
         (st, err) \<leftarrow> update;
         (case st of
            Some x \<Rightarrow> ret (Some (x, err))
          | None \<Rightarrow>
              if s \<noteq> UpdateStateWaitingForPodsCreation \<and> s \<noteq> extra
              then ret (Some (NewComponentStatus SyncStatusReady ''Nothing to do now'', None))
              else ret None)
       }
     else ret (Some (NewComponentStatus SyncStatusReady ''Not updating component'', None))
   })"

subsection \<open>scheduler.go\<close>

record 's Scheduler =
  s_srv :: nat
  s_initUser :: nat
  s_initOpArchive :: nat
  s_secret :: nat
  s_cfgen :: Generator
  s_master :: "'s component"
  s_execNodes :: "'s component list"
  s_tabletNodes :: "'s component list"

definition needOpArchiveInit :: "'s Scheduler \<Rightarrow> bool" where
  "needOpArchiveInit s \<longleftrightarrow> length (s_tabletNodes s) > 0"

definition setUpdateDone :: "'w ext \<Rightarrow> string \<Rightarrow> string \<Rightarrow> string \<Rightarrow> (('w, 'z) mem_scheme, unit) state" where
  "setUpdateDone E t reason message = SetUpdateStatusCondition E (mkCondition t ConditionTrue reason message)"

text \<open>The condition that the archive needs no update is set in dry runs too.\<close>

definition updateOpArchive :: "'w ext \<Rightarrow> 'w heap Scheduler \<Rightarrow> bool \<Rightarrow> ('w heap, ComponentStatus option \<times> error) state" where
  "updateOpArchive E s dry = do {
     h \<leftarrow> State_Monad.get;
     let job = h_job h (s_initOpArchive s);
     (case GetUpdateState h of
        UpdateStateWaitingForOpArchiveUpdatingPrepare \<Rightarrow>
          if \<not> needOpArchiveInit s then do {
            setUpdateDone E ConditionNotNecessaryToUpdateOpArchive ''NotNecessaryToUpdateOpArchive''
              ''Operations archive does not need to be updated'';
            ret (Some (SimpleStatus SyncStatusUpdating), None)
          }
          else if \<not> isRestartPrepared E job h then do {
            err \<leftarrow> prepareRestart E dry job;
            ret (Some (SimpleStatus SyncStatusUpdating), err)
          }
          else do {
            whenM (\<not> dry) (setUpdateDone E ConditionOpArchivePreparedForUpdating ''OpArchivePreparedForUpdating''
              ''Operations archive prepared for updating'');
            ret (Some (SimpleStatus SyncStatusUpdating), None)
          }
      | UpdateStateWaitingForOpArchiveUpdate \<Rightarrow>
          if \<not> isRestartCompleted E job h then ret (None, None)
          else do {
            whenM (\<not> dry) (setUpdateDone E ConditionOpArchiveUpdated ''OpArchiveUpdated'' ''Operations archive updated'');
            ret (Some (SimpleStatus SyncStatusUpdating), None)
          }
      | _ \<Rightarrow> ret (None, None))
   }"

definition Scheduler_createInitUserScript :: "'w ext \<Rightarrow> string \<Rightarrow> string" where
  "Scheduler_createInitUserScript E token =
     lines_join ([initJobWithNativeDriverPrologue] @ createUserCommand E ''operation_archivarius'' [] token True)"

definition setInitOpArchivePath :: string where
  "setInitOpArchivePath = newline @ ''export INIT_OP_ARCHIVE=/usr/bin/init_operations_archive'' @ newline @
     ''if [ ! -f $INIT_OP_ARCHIVE ]; then'' @ newline @
     ''export INIT_OP_ARCHIVE=/usr/bin/init_operation_archive'' @ newline @ ''fi'' @ newline"

definition opArchiveScript :: "Generator \<Rightarrow> string" where
  "opArchiveScript g = lines_join
     [initJobWithNativeDriverPrologue, setInitOpArchivePath,
      ''$INIT_OP_ARCHIVE --force --latest --proxy '' @ GetHTTPProxiesServiceAddress g DefaultHTTPProxyRole,
      SetWithIgnoreExisting ''//sys/cluster_nodes/@config''
        (squoted (''{'' @ dquoted ''%true'' @ '' = {job_agent={enable_job_reporter=%true}}}''))]"

definition prepareInitOperationsArchive :: "'w ext \<Rightarrow> 'w heap Scheduler \<Rightarrow> ('w heap, unit) state" where
  "prepareInitOperationsArchive E s = prepareJob E (s_initOpArchive s) (opArchiveScript (s_cfgen s)) (s_secret s)"

definition initOpAchieve :: "'w ext \<Rightarrow> 'w heap Scheduler \<Rightarrow> bool \<Rightarrow> ('w heap, ComponentStatus \<times> error) state" where
  "initOpAchieve E s dry = firstStatus
     ([act (do { h \<leftarrow> State_Monad.get;
         whenM (\<not> dry) (setScript E (s_initUser s) (Scheduler_createInitUserScript E (getToken h (s_secret s)))) }),
       do {
         (st, err) \<leftarrow> on_job (s_initUser s) (InitJob_Sync E dry);
         ret (if cst_SyncStatus st \<noteq> SyncStatusReady then Some (st, err) else None)
       }] @
      map checkMaster (s_tabletNodes s) @
      [act (whenM (\<not> dry) (prepareInitOperationsArchive E s))])
     (on_job (s_initOpArchive s) (InitJob_Sync E dry))"

definition Scheduler_doSync :: "'w ext \<Rightarrow> Labeller \<Rightarrow> 'w heap Scheduler \<Rightarrow> bool \<Rightarrow> ('w heap, ComponentStatus \<times> error) state" where
  "Scheduler_doSync E l s dry = firstStatus
     ([checkNeedUpdate (do { x \<leftarrow> gets (\<lambda>h. h_srv h (s_srv s)); serverImpl_needUpdate E x }),
       checkUpdatingWith E l (serverPods E (s_srv s)) UpdateStateWaitingForOpArchiveUpdate (updateOpArchive E s dry) dry,
       checkMaster (s_master s)] @
      map checkMaster (s_execNodes s) @
      [checkSecret E (s_secret s) tokenData dry,
       checkServerSync E (s_srv s) dry (on_srv (s_srv s) (serverImpl_Sync E)),
       checkPodsReady E (s_srv s)])
     (if \<not> needOpArchiveInit s then ret (SimpleStatus SyncStatusReady, None) else initOpAchieve E s dry)"

definition Scheduler_component :: "'w ext \<Rightarrow> Labeller \<Rightarrow> 'w heap Scheduler \<Rightarrow> 'w heap component" where
  "Scheduler_component E l s = mkComponent E l SchedulerType True
     (resources_Fetch [Some (on_srv (s_srv s) (serverImpl_Fetch E)), Some (on_job (s_initOpArchive s) (InitJob_Fetch E)),
        Some (on_job (s_initUser s) (InitJob_Fetch E)), Some (on_sec (s_secret s) (StringSecret_Fetch E))])
     (Scheduler_doSync E l s)"

definition NewScheduler :: "'w ext \<Rightarrow> Generator \<Rightarrow> 'w heap component \<Rightarrow> 'w heap component list \<Rightarrow> 'w heap component list \<Rightarrow>
    ('w heap, 'w heap component) state" where
  "NewScheduler E g master execNodes tabletNodes = do {
     r0 \<leftarrow> gets h_yts;
     let l = mkLabeller r0 YTComponentLabelScheduler ''Scheduler'' (extraPodAnnotations r0);
     modify (map_spec (\<lambda>s. s\<lparr>ys_Schedulers := map_option (withMonitoringPort SchedulerMonitoringPort) (ys_Schedulers s)\<rparr>));
     r \<leftarrow> gets h_yts;
     let i = optionalInstance (ys_Schedulers (yr_Spec r));
     a \<leftarrow> alloc put_srv (newServer l r i ''/usr/bin/ytserver-scheduler'' ''ytserver-scheduler.yson''
       (GetSchedulerStatefulSetName g) (GetSchedulerServiceName g) (generate E (SchedulerConfig i) r g)
       [WithContainerPorts [tcpPort YTRPCPortName SchedulerRPCPort]]);
     u \<leftarrow> alloc put_job (nativeJob E g r l ''user'' (coreImage r));
     o' \<leftarrow> alloc put_job (nativeJob E g r l ''op-archive'' (coreImage r));
     c \<leftarrow> alloc put_sec (NewStringSecret (GetSecretName l) l);
     ret (Scheduler_component E l \<lparr>s_srv = a, s_initUser = u, s_initOpArchive = o', s_secret = c, s_cfgen = g,
       s_master = master, s_execNodes = execNodes, s_tabletNodes = tabletNodes\<rparr>)
   }"

subsection \<open>The contracts\<close>

lemma cr_initBundles [io_intros]: "state_io_rel (comp_rel E u) (initBundles E g)"
  unfolding initBundles_def createSysBundle_def setDefaultOptions_def createBundleCells_def Let_def
  by (intro io_intros) (auto intro!: io_intros)

lemma cr_checkReady [io_intros]:
  "state_io_rel (comp_rel E u) (c_Status c) \<Longrightarrow> state_io_rel (comp_rel E u) (checkReady c)"
  unfolding checkReady_def by (intro io_intros)

lemma component_ok_TabletNode: "component_ok E c \<Longrightarrow> component_ok E (TabletNode E l g a c i)"
  unfolding TabletNode_def TabletNode_doSync_def
  by (rule component_ok_mkComponent) (auto intro!: io_intros okStatus)

lemma cr_prepareJob [io_intros]: "state_io_rel (comp_rel E u) (prepareJob E a script sec)"
  unfolding prepareJob_def by (intro io_intros)

lemma cr_checkUpdatingWith [io_intros]:
  "pods_ok E pm \<Longrightarrow> state_io_rel (comp_rel E True) m \<Longrightarrow> state_io_rel (comp_rel E u) (checkUpdatingWith E l pm x m dry)"
  unfolding checkUpdatingWith_def by (intro io_intros)

lemma cr_setUpdateDone [io_intros]: "state_io_rel (comp_rel E True) (setUpdateDone E t r m)"
  unfolding setUpdateDone_def by (intro io_intros) (simp add: mkCondition_def)

lemma cr_updateOpArchive [io_intros]: "state_io_rel (comp_rel E True) (updateOpArchive E s dry)"
  unfolding updateOpArchive_def Let_def
  by (rule cr.rel_bind [OF cr.rel_get]) (auto intro!: io_intros split: UpdateState.split)

lemma cr_initOpAchieve [io_intros]:
  "(\<And>c. c \<in> set (s_tabletNodes s) \<Longrightarrow> component_ok E c) \<Longrightarrow> state_io_rel (comp_rel E False) (initOpAchieve E s dry)"
  unfolding initOpAchieve_def prepareInitOperationsArchive_def by (intro io_intros) (auto intro!: io_intros okStatus)

lemma component_ok_Scheduler:
  assumes "component_ok E (s_master s)" and "\<And>c. c \<in> set (s_execNodes s) \<union> set (s_tabletNodes s) \<Longrightarrow> component_ok E c"
  shows "component_ok E (Scheduler_component E l s)"
  using assms unfolding Scheduler_component_def Scheduler_doSync_def
  by (intro component_ok_mkComponent) (auto intro!: io_intros okStatus)

lemma keeps_checkReady [io_intros]: "keeps f (c_Status c) \<Longrightarrow> keeps f (checkReady c)"
  unfolding checkReady_def by (intro io_intros)

lemma keeps_checkUpdatingWith_dry [io_intros]: "keeps f m \<Longrightarrow> keeps f (checkUpdatingWith E l pm x m True)"
  unfolding checkUpdatingWith_def by (intro io_intros) simp

lemma keeps_updateOpArchive_dry [io_intros]: "needOpArchiveInit s \<Longrightarrow> keeps outer (updateOpArchive E s True)"
  unfolding updateOpArchive_def Let_def
  by (rule keeps_bind [OF keeps_get]) (auto intro!: io_intros split: UpdateState.split)

lemma keeps_initOpAchieve_dry [io_intros]:
  "(\<And>c. c \<in> set (s_tabletNodes s) \<Longrightarrow> keeps outer (c_Status c)) \<Longrightarrow> keeps outer (initOpAchieve E s True)"
  unfolding initOpAchieve_def by (auto intro!: io_intros)

text \<open>The status query of a scheduler is pure when the cluster has tablet nodes.\<close>

lemma dry_Scheduler:
  "dry_status (s_master s) \<Longrightarrow> (\<And>c. c \<in> set (s_execNodes s) \<union> set (s_tabletNodes s) \<Longrightarrow> dry_status c) \<Longrightarrow>
   needOpArchiveInit s \<Longrightarrow> dry_status (Scheduler_component E l s)"
  unfolding Scheduler_component_def Scheduler_doSync_def component_defs by (auto intro!: io_intros)

lemma dry_TabletNode: "dry_status c \<Longrightarrow> dry_status (TabletNode E l g a c i)"
  unfolding TabletNode_def TabletNode_doSync_def component_defs by (auto intro!: io_intros)

lemma keeps_NewTabletNode [io_intros]: "keeps statusOuter (NewTabletNode E g c spec b)"
  unfolding NewTabletNode_def Let_def by (intro io_intros)

lemma keeps_NewScheduler [io_intros]: "keeps statusOuter (NewScheduler E g m es ts)"
  unfolding NewScheduler_def Let_def by (intro io_intros)

end
