(* ===== verification/Agents.thy ===== *)
theory Agents
  imports Scheduling
begin

text \<open>
  \<open>query_tracker.go\<close>, \<open>queue_agent.go\<close> and \<open>yql_agent.go\<close>: agents with state in the
  cluster, which they create through the cluster's client or an initialisation job.
\<close>

definition ystrings :: "string list \<Rightarrow> yval" where
  "ystrings xs = YList (map YString xs)"

text \<open>A write whose argument may panic.\<close>

definition writeOr :: "'a option \<Rightarrow> ('a \<Rightarrow> 'w \<Rightarrow> error \<times> 'w) \<Rightarrow> (('w, 'z) mem_scheme, error) state" where
  "writeOr x op = (case x of None \<Rightarrow> ret (Some ''panic'') | Some y \<Rightarrow> ext_write (op y))"

text \<open>The connection of the cluster is copied to the list of clusters.\<close>

definition copyConnection :: "'w ext \<Rightarrow> Labeller \<Rightarrow> (('w, 'z) mem_scheme, error) state" where
  "copyConnection E l = do {
     r \<leftarrow> gets (\<lambda>h. y_get_map (x_yt E) ''//sys/@cluster_connection'' (h_world h));
     (case r of
        Inl e \<Rightarrow> ret (Some e)
      | Inr attr \<Rightarrow> ext_write (y_set (x_yt E) (''//sys/clusters/'' @ GetClusterName l) (YMap attr)))
   }"

definition clientPresent :: "bool \<Rightarrow> 'w heap block" where
  "clientPresent dry = do {
     c \<leftarrow> gets h_ytClient;
     ret (if \<not> dry \<and> \<not> c then Some (WaitingStatus SyncStatusPending ''getting yt client'', None) else None)
   }"

text \<open>A step of a real run: an error ends the method with the given status.\<close>

definition attempt :: "bool \<Rightarrow> ComponentStatus \<Rightarrow> ('s, error) state \<Rightarrow> 's block" where
  "attempt dry status m =
     (if dry then ret None
      else do {
        err \<leftarrow> m;
        ret (if err \<noteq> None then Some (status, err) else None)
      })"

subsection \<open>query\_tracker.go\<close>

record 's QueryTracker =
  qt_srv :: nat
  qt_initQTState :: nat
  qt_secret :: nat
  qt_cfgen :: Generator
  qt_tabletNodes :: "'s component list"

abbreviation qtInitCondition :: string where "qtInitCondition \<equiv> ''queryTrackerInitCompleted''"

definition QueryTracker_createUser :: "'w ext \<Rightarrow> nat \<Rightarrow> ('w heap, error) state" where
  "QueryTracker_createUser E secret = do {
     token \<leftarrow> gets (\<lambda>h. getToken h secret);
     CreateUser E ''query_tracker'' token True
   }"

definition ace :: "string \<Rightarrow> string list \<Rightarrow> (string \<times> yval) list \<Rightarrow> yval" where
  "ace subject permissions rest = YMap ([(''action'', YString ''allow''), (''subjects'', ystrings [subject]),
     (''permissions'', ystrings permissions)] @ rest)"

definition createControlObject :: "'w ext \<Rightarrow> string \<Rightarrow> yval list option \<Rightarrow> (('w, 'z) mem_scheme, error) state" where
  "createControlObject E name acl = ext_write (y_create_object (x_yt E) ''access_control_object''
     ([(''name'', YString name), (''namespace'', YString ''queries'')] @
      (case acl of None \<Rightarrow> [] | Some a \<Rightarrow> [(''principal_acl'', YList a)])) True)"

text \<open>The access control objects of queries.\<close>

abbreviation queriesAccessControl :: "'w ext \<Rightarrow> (('w, 'z) mem_scheme, error) state option list" where
  "queriesAccessControl E \<equiv>
       [Some (ext_write (y_create_object (x_yt E) ''access_control_object_namespace''
          [(''name'', YString ''queries''),
           (''acl'', YList [ace ''owner'' [''read'', ''write'', ''administer'', ''remove'']
                [(''inheritance_mode'', YString ''immediate_descendants_only'')],
              ace ''users'' [''modify_children''] [(''inheritance_mode'', YString ''object_only'')]])] True)),
        Some (createControlObject E ''nobody'' None),
        Some (createControlObject E ''everyone'' (Some [ace ''everyone'' [''read'', ''use''] []])),
        Some (createControlObject E ''everyone-use'' (Some [ace ''everyone'' [''use''] []])),
        Some (createControlObject E ''everyone-share'' (Some [ace ''everyone'' [''read'', ''use''] []]))]"

definition QueryTracker_init :: "'w ext \<Rightarrow> Labeller \<Rightarrow> Generator \<Rightarrow> (('w, 'z) mem_scheme, error) state" where
  "QueryTracker_init E l g =
     (let engine = YMap [(''default_cluster'', YString (GetClusterName l))]
      in first_error
       (Some (ext_write (y_create_node (x_yt E) ''//sys/query_tracker/config'' ''document''
          [(''value'', YMap [(''query_tracker'', YMap [(''ql_engine'', engine), (''chyt_engine'', engine), (''spyt_engine'', engine)])])]
          True True)) #
        Some (writeOr (GetQueryTrackerAddresses g) (\<lambda>addresses. y_set (x_yt E) ''//sys/@cluster_connection/query_tracker''
          (YMap [(''stages'', YMap [(''production'', YMap [(''root'', YString ''//sys/query_tracker''),
             (''user'', YString ''query_tracker''), (''channel'', YMap [(''addresses'', ystrings addresses)])])])]))) #
        Some (copyConnection E l) #
        queriesAccessControl E))"

definition qtStateScript :: "Generator \<Rightarrow> string" where
  "qtStateScript g =
     (let path = ''/usr/bin/init_query_tracker_state''
      in lines_join [initJobWithNativeDriverPrologue,
        ''if [[ -f '' @ dquoted path @ '' ]]; then '' @ path @ '' --force --latest --proxy '' @
          GetHTTPProxiesServiceAddress g DefaultHTTPProxyRole @ ''; fi''])"

abbreviation setConditionQTStatePreparedForUpdating :: "'w ext \<Rightarrow> (('w, 'z) mem_scheme, unit) state" where
  "setConditionQTStatePreparedForUpdating E \<equiv> setUpdateDone E ConditionQTStatePreparedForUpdating ''QTStatePreparedForUpdating''
     ''Query Tracker state prepared for updating''"

abbreviation setConditionQTStateUpdated :: "'w ext \<Rightarrow> (('w, 'z) mem_scheme, unit) state" where
  "setConditionQTStateUpdated E \<equiv> setUpdateDone E ConditionQTStateUpdated ''QTStateUpdated'' ''Query tracker state updated''"

definition updateQTState :: "'w ext \<Rightarrow> 'w heap QueryTracker \<Rightarrow> bool \<Rightarrow> ('w heap, ComponentStatus option \<times> error) state" where
  "updateQTState E qt dry = do {
     h \<leftarrow> State_Monad.get;
     let job = h_job h (qt_initQTState qt);
     (case GetUpdateState h of
        UpdateStateWaitingForQTStateUpdatingPrepare \<Rightarrow>
          if \<not> isRestartPrepared E job h then do {
            err \<leftarrow> prepareRestart E dry job;
            ret (Some (SimpleStatus SyncStatusUpdating), err)
          }
          else do {
            whenM (\<not> dry) (setConditionQTStatePreparedForUpdating E);
            ret (Some (SimpleStatus SyncStatusUpdating), None)
          }
      | UpdateStateWaitingForQTStateUpdate \<Rightarrow>
          if \<not> isRestartCompleted E job h then ret (None, None)
          else do {
            whenM (\<not> dry) (setConditionQTStateUpdated E);
            ret (Some (SimpleStatus SyncStatusUpdating), None)
          }
      | _ \<Rightarrow> ret (None, None))
   }"

definition setInitDone :: "'w ext \<Rightarrow> string \<Rightarrow> string \<Rightarrow> string \<Rightarrow> (('w, 'z) mem_scheme, unit) state" where
  "setInitDone E t reason message = SetStatusCondition E (mkCondition t ConditionTrue reason message)"

definition QueryTracker_doSync :: "'w ext \<Rightarrow> Labeller \<Rightarrow> 'w heap QueryTracker \<Rightarrow> bool \<Rightarrow> ('w heap, ComponentStatus \<times> error) state" where
  "QueryTracker_doSync E l qt dry = firstStatus
     ([checkNeedUpdate (do { x \<leftarrow> gets (\<lambda>h. h_srv h (qt_srv qt)); serverImpl_needUpdate E x }),
       checkUpdatingWith E l (serverPods E (qt_srv qt)) UpdateStateWaitingForQTStateUpdate (updateQTState E qt dry) dry,
       checkSecret E (qt_secret qt) tokenData dry,
       checkServerSync E (qt_srv qt) dry (on_srv (qt_srv qt) (serverImpl_Sync E)),
       checkPodsReady E (qt_srv qt),
       ret (if length (qt_tabletNodes qt) = 0
            then Some (WaitingStatus SyncStatusBlocked ''tablet nodes'', Some ''cannot initialize query tracker without tablet nodes'')
            else None)] @
      map (\<lambda>t. checkRunning t ''tablet nodes'') (qt_tabletNodes qt) @
      [clientPresent dry,
       do {
         s \<leftarrow> gets GetClusterState;
         if s \<noteq> ClusterStateUpdating
         then attempt dry (WaitingStatus SyncStatusPending ''create qt user'') (QueryTracker_createUser E (qt_secret qt))
         else ret None
       },
       attempt dry (WaitingStatus SyncStatusPending (lb_ComponentName l @ '' initialization'')) (QueryTracker_init E l (qt_cfgen qt)),
       act (whenM (\<not> dry) (setInitDone E qtInitCondition ''InitQueryTrackerCompleted'' ''Init query tracker successfully completed'')),
       act (whenM (\<not> dry) (prepareJob E (qt_initQTState qt) (qtStateScript (qt_cfgen qt)) (qt_secret qt))),
       checkJob E (qt_initQTState qt) dry,
       do {
         completed \<leftarrow> gets (IsStatusConditionTrue E qtInitCondition);
         ret (if completed then Some (SimpleStatus SyncStatusReady, None) else None)
       }])
     (ret (WaitingStatus SyncStatusPending (''setting '' @ qtInitCondition @ '' condition''), None))"

definition QueryTracker_component :: "'w ext \<Rightarrow> Labeller \<Rightarrow> 'w heap QueryTracker \<Rightarrow> 'w heap component" where
  "QueryTracker_component E l qt = mkComponent E l QueryTrackerType True
     (resources_Fetch [Some (on_srv (qt_srv qt) (serverImpl_Fetch E)), Some (on_job (qt_initQTState qt) (InitJob_Fetch E)),
        Some (on_sec (qt_secret qt) (StringSecret_Fetch E))])
     (QueryTracker_doSync E l qt)"

definition instanceImage :: "YtsaurusResource \<Rightarrow> InstanceSpec \<Rightarrow> string" where
  "instanceImage r i = (case is_Image i of Some img \<Rightarrow> img | None \<Rightarrow> coreImage r)"

definition NewQueryTracker :: "'w ext \<Rightarrow> Generator \<Rightarrow> 'w heap component list \<Rightarrow> ('w heap, 'w heap component) state" where
  "NewQueryTracker E g tabletNodes = do {
     r0 \<leftarrow> gets h_yts;
     let l = mkLabeller r0 ''yt-query-tracker'' ''QueryTracker'' (extraPodAnnotations r0);
     modify (map_spec (\<lambda>s. s\<lparr>ys_QueryTrackers := map_option (withMonitoringPort QueryTrackerMonitoringPort) (ys_QueryTrackers s)\<rparr>));
     r \<leftarrow> gets h_yts;
     let i = optionalInstance (ys_QueryTrackers (yr_Spec r));
     a \<leftarrow> alloc put_srv (newServer l r i ''/usr/bin/ytserver-query-tracker'' ''ytserver-query-tracker.yson''
       (GetQueryTrackerStatefulSetName g) (GetQueryTrackerServiceName g) (generate E (QueryTrackerConfig i) r g)
       [WithContainerPorts [tcpPort YTRPCPortName QueryTrackerRPCPort]]);
     j \<leftarrow> alloc put_job (nativeJob E g r l ''qt-state'' (instanceImage r i));
     c \<leftarrow> alloc put_sec (NewStringSecret (GetSecretName l) l);
     ret (QueryTracker_component E l \<lparr>qt_srv = a, qt_initQTState = j, qt_secret = c, qt_cfgen = g, qt_tabletNodes = tabletNodes\<rparr>)
   }"

subsection \<open>queue\_agent.go\<close>

record 's QueueAgent =
  qa_srv :: nat
  qa_initQAState :: nat
  qa_secret :: nat
  qa_cfgen :: Generator
  qa_client :: "'s component"
  qa_master :: "'s component"
  qa_tabletNodes :: "'s component list"

abbreviation qaInitCondition :: string where "qaInitCondition \<equiv> ''queueAgentInitCompleted''"

definition QueueAgent_createUser :: "'w ext \<Rightarrow> nat \<Rightarrow> ('w heap, error) state" where
  "QueueAgent_createUser E secret = do {
     token \<leftarrow> gets (\<lambda>h. getToken h secret);
     CreateUser E ''queue_agent'' token True
   }"

definition QueueAgent_init :: "'w ext \<Rightarrow> Labeller \<Rightarrow> Generator \<Rightarrow> (('w, 'z) mem_scheme, error) state" where
  "QueueAgent_init E l g = first_error
     [Some (ext_write (y_create_node (x_yt E) ''//sys/queue_agents/config'' ''document''
        [(''value'', YMap [(''queue_agent'', YMap [(''controller'', YMap [(''enable_automatic_trimming'', YBool True)])]),
           (''cypress_synchronizer'', YMap [(''policy'', YString ''watching''), (''clusters'', ystrings [GetClusterName l])])])]
        True True)),
      Some (writeOr (GetQueueAgentAddresses g) (\<lambda>addresses. y_set (x_yt E) ''//sys/@cluster_connection/queue_agent''
        (YMap [(''stages'', YMap [(''production'', YMap [(''addresses'', ystrings addresses)])]),
           (''queue_consumer_registration_manager'', YMap [(''resolve_symlinks'', YBool True), (''resolve_replicas'', YBool True)])]))),
      Some (copyConnection E l)]"

definition qaStateScript :: "Generator \<Rightarrow> string" where
  "qaStateScript g =
     (let path = ''/usr/bin/init_queue_agent_state''
      in lines_join [initJobWithNativeDriverPrologue,
        ''if [[ -f '' @ dquoted path @ '' ]]; then '' @ path @
          '' --create-registration-table --create-replicated-table-mapping-table --recursive --ignore-existing --proxy '' @
          GetHTTPProxiesServiceAddress g DefaultHTTPProxyRole @ ''; fi''])"

text \<open>
  While the cluster is updating the local variable for the client stays nil: the initialisation,
  if it is reached then, panics.
\<close>

definition QueueAgent_doSync :: "'w ext \<Rightarrow> Labeller \<Rightarrow> 'w heap QueueAgent \<Rightarrow> bool \<Rightarrow> ('w heap, ComponentStatus \<times> error) state" where
  "QueueAgent_doSync E l qa dry = firstStatus
     ([checkNeedUpdate (do { x \<leftarrow> gets (\<lambda>h. h_srv h (qa_srv qa)); serverImpl_needUpdate E x }),
       checkUpdating E l (serverPods E (qa_srv qa)) dry,
       checkMaster (qa_master qa),
       ret (if length (qa_tabletNodes qa) = 0
            then Some (WaitingStatus SyncStatusBlocked ''tablet nodes'', Some ''cannot initialize queue agent without tablet nodes'')
            else None)] @
      map checkMaster (qa_tabletNodes qa) @
      [checkSecret E (qa_secret qa) tokenData dry,
       checkServerSync E (qa_srv qa) dry (on_srv (qa_srv qa) (serverImpl_Sync E)),
       checkPodsReady E (qa_srv qa),
       do {
         s \<leftarrow> gets GetClusterState;
         if s \<noteq> ClusterStateUpdating then do {
           r \<leftarrow> checkReady (qa_client qa);
           (case r of
              Some x \<Rightarrow> ret (Some x)
            | None \<Rightarrow> attempt dry (WaitingStatus SyncStatusPending ''create qa user'') (QueueAgent_createUser E (qa_secret qa)))
         }
         else ret None
       },
       act (whenM (\<not> dry) (prepareJob E (qa_initQAState qa) (qaStateScript (qa_cfgen qa)) (qa_secret qa))),
       checkJob E (qa_initQAState qa) dry,
       do {
         completed \<leftarrow> gets (IsStatusConditionTrue E qaInitCondition);
         ret (if completed then Some (SimpleStatus SyncStatusReady, None) else None)
       },
       attempt dry (WaitingStatus SyncStatusPending (lb_ComponentName l @ '' initialization''))
         (do {
            s \<leftarrow> gets GetClusterState;
            if s \<noteq> ClusterStateUpdating then QueueAgent_init E l (qa_cfgen qa) else ret (Some ''panic'')
          }),
       act (whenM (\<not> dry) (setInitDone E qaInitCondition ''InitQueueAgentCompleted'' ''Init queue agent successfully completed''))])
     (ret (WaitingStatus SyncStatusPending (''setting '' @ qaInitCondition @ '' condition''), None))"

definition QueueAgent_component :: "'w ext \<Rightarrow> Labeller \<Rightarrow> 'w heap QueueAgent \<Rightarrow> 'w heap component" where
  "QueueAgent_component E l qa = mkComponent E l QueueAgentType True
     (resources_Fetch [Some (on_srv (qa_srv qa) (serverImpl_Fetch E)), Some (on_job (qa_initQAState qa) (InitJob_Fetch E)),
        Some (on_sec (qa_secret qa) (StringSecret_Fetch E))])
     (QueueAgent_doSync E l qa)"

definition NewQueueAgent :: "'w ext \<Rightarrow> Generator \<Rightarrow> 'w heap component \<Rightarrow> 'w heap component \<Rightarrow> 'w heap component list \<Rightarrow>
    ('w heap, 'w heap component) state" where
  "NewQueueAgent E g yc master tabletNodes = do {
     r0 \<leftarrow> gets h_yts;
     let l = mkLabeller r0 ''yt-queue-agent'' ''QueueAgent'' (extraPodAnnotations r0);
     modify (map_spec (\<lambda>s. s\<lparr>ys_QueueAgents := map_option (withMonitoringPort QueueAgentMonitoringPort) (ys_QueueAgents s)\<rparr>));
     r \<leftarrow> gets h_yts;
     let i = optionalInstance (ys_QueueAgents (yr_Spec r));
     a \<leftarrow> alloc put_srv (newServer l r i ''/usr/bin/ytserver-queue-agent'' ''ytserver-queue-agent.yson''
       (GetQueueAgentStatefulSetName g) (GetQueueAgentServiceName g) (generate E (QueueAgentConfig i) r g)
       [WithContainerPorts [tcpPort YTRPCPortName QueueAgentRPCPort]]);
     j \<leftarrow> alloc put_job (nativeJob E g r l ''qa-state'' (instanceImage r i));
     c \<leftarrow> alloc put_sec (NewStringSecret (GetSecretName l) l);
     ret (QueueAgent_component E l \<lparr>qa_srv = a, qa_initQAState = j, qa_secret = c, qa_cfgen = g, qa_client = yc,
       qa_master = master, qa_tabletNodes = tabletNodes\<rparr>)
   }"

subsection \<open>yql\_agent.go\<close>

record 's YqlAgent =
  ya_srv :: nat
  ya_initEnvironment :: nat
  ya_secret :: nat
  ya_cfgen :: Generator
  ya_master :: "'s component"

definition YqlAgent_initUsers :: "'w ext \<Rightarrow> string \<Rightarrow> string" where
  "YqlAgent_initUsers E token = lines_join (createUserCommand E YqlUserName [] token True @ createUserCommand E ''yql_agent'' [] [] True)"

definition YqlAgent_createInitScript :: "'w ext \<Rightarrow> Labeller \<Rightarrow> Generator \<Rightarrow> string \<Rightarrow> string option" where
  "YqlAgent_createInitScript E l g token = map_option (\<lambda>addresses.
     (let yqlAgentAddrs = ''['' @ concat (map (\<lambda>a. dquoted a @ '';'') addresses) @ '']''
      in lines_join
        [initJobWithNativeDriverPrologue,
         YqlAgent_initUsers E token,
         ''/usr/bin/yt add-member --member yql_agent --group superusers || true'',
         ''/usr/bin/yt create document //sys/yql_agent/config --attributes '' @ squoted ''{}'' @ '' --recursive --ignore-existing'',
         ''/usr/bin/yt set //sys/@cluster_connection/yql_agent '' @
           squoted (''{stages={production={channel={addresses='' @ yqlAgentAddrs @ ''}}}}''),
         ''/usr/bin/yt get //sys/@cluster_connection | /usr/bin/yt set //sys/clusters/'' @ GetClusterName l]))
     (GetYQLAgentAddresses g)"

definition forceIP :: "CommonSpec \<Rightarrow> EnvVar list" where
  "forceIP spec =
     (if cs_UseIPv6 spec \<and> \<not> cs_UseIPv4 spec then [plainEnv ''YT_FORCE_IPV4'' ''0'', plainEnv ''YT_FORCE_IPV6'' ''1'']
      else if \<not> cs_UseIPv6 spec \<and> cs_UseIPv4 spec then [plainEnv ''YT_FORCE_IPV4'' ''1'', plainEnv ''YT_FORCE_IPV6'' ''0'']
      else [plainEnv ''YT_FORCE_IPV4'' ''0'', plainEnv ''YT_FORCE_IPV6'' ''0''])"

definition YqlAgent_doServerSync :: "'w ext \<Rightarrow> nat \<Rightarrow> nat \<Rightarrow> ('w heap, error) state" where
  "YqlAgent_doServerSync E a secret = do {
     h \<leftarrow> State_Monad.get;
     on_srv a (\<lambda>s. serverImpl_Sync E (onPodSpec (onContainer0 (\<lambda>c. c
       \<lparr>ct_Command := [''sh'', ''-c'', ''echo -n $YT_TOKEN > '' @ DefaultYqlTokenPath @ ''; '' @ join '' '' (ct_Command c)],
        ct_EnvFromSecrets := [StringSecret_GetEnvSource (h_sec h secret)],
        ct_Env := forceIP (ys_Common (yr_Spec (h_yts h)))\<rparr>)) (buildStatefulSet s)))
   }"

definition YqlAgent_doSync :: "'w ext \<Rightarrow> Labeller \<Rightarrow> 'w heap YqlAgent \<Rightarrow> bool \<Rightarrow> ('w heap, ComponentStatus \<times> error) state" where
  "YqlAgent_doSync E l ya dry = firstStatus
     [checkNeedUpdate (do { x \<leftarrow> gets (\<lambda>h. h_srv h (ya_srv ya)); serverImpl_needUpdate E x }),
      checkUpdating E l (serverPods E (ya_srv ya)) dry,
      checkMaster (ya_master ya),
      checkSecret E (ya_secret ya) tokenData dry,
      checkServerSync E (ya_srv ya) dry (YqlAgent_doServerSync E (ya_srv ya) (ya_secret ya)),
      checkPodsReady E (ya_srv ya),
      scriptBlock E (ya_initEnvironment ya) dry (\<lambda>h. YqlAgent_createInitScript E l (ya_cfgen ya) (getToken h (ya_secret ya)))]
     (on_job (ya_initEnvironment ya) (InitJob_Sync E dry))"

definition YqlAgent_component :: "'w ext \<Rightarrow> Labeller \<Rightarrow> 'w heap YqlAgent \<Rightarrow> 'w heap component" where
  "YqlAgent_component E l ya = mkComponent E l YqlAgentType True
     (resources_Fetch [Some (on_srv (ya_srv ya) (serverImpl_Fetch E)), Some (on_job (ya_initEnvironment ya) (InitJob_Fetch E)),
        Some (on_sec (ya_secret ya) (StringSecret_Fetch E))])
     (YqlAgent_doSync E l ya)"

definition NewYQLAgent :: "'w ext \<Rightarrow> Generator \<Rightarrow> 'w heap component \<Rightarrow> ('w heap, 'w heap component) state" where
  "NewYQLAgent E g master = do {
     r0 \<leftarrow> gets h_yts;
     let l = mkLabeller r0 YTComponentLabelYqlAgent ''YqlAgent'' (extraPodAnnotations r0);
     modify (map_spec (\<lambda>s. s\<lparr>ys_YQLAgents := map_option (withMonitoringPort YQLAgentMonitoringPort) (ys_YQLAgents s)\<rparr>));
     r \<leftarrow> gets h_yts;
     let i = optionalInstance (ys_YQLAgents (yr_Spec r));
     a \<leftarrow> alloc put_srv (newServer l r i ''/usr/bin/ytserver-yql-agent'' ''ytserver-yql-agent.yson''
       (GetYQLAgentStatefulSetName g) (GetYQLAgentServiceName g) (generate E (YQLAgentConfig i) r g)
       [WithContainerPorts [tcpPort YTRPCPortName YQLAgentRPCPort]]);
     j \<leftarrow> alloc put_job (nativeJob E g r l ''yql-agent-environment'' (coreImage r));
     c \<leftarrow> alloc put_sec (NewStringSecret (GetSecretName l) l);
     ret (YqlAgent_component E l \<lparr>ya_srv = a, ya_initEnvironment = j, ya_secret = c, ya_cfgen = g, ya_master = master\<rparr>)
   }"

subsection \<open>The contracts\<close>

lemma cr_writeOr [io_intros]:
  "(\<And>y. x = Some y \<Longrightarrow> ext_ok E \<Longrightarrow> preserves_stored E (op y)) \<Longrightarrow> state_io_rel (comp_rel E u) (writeOr x op)"
  unfolding writeOr_def by (auto intro!: io_intros cr_ext_write split: option.split)

lemma cr_agent_steps [io_intros]:
  "state_io_rel (comp_rel E u) (copyConnection E l)" "state_io_rel (comp_rel E u) (createControlObject E n acl)"
  "state_io_rel (comp_rel E u) (QueryTracker_createUser E s)" "state_io_rel (comp_rel E u) (QueueAgent_createUser E s)"
  "state_io_rel (comp_rel E u) (clientPresent dry)" "state_io_rel (comp_rel E u) (setInitDone E t r m)"
  "state_io_rel (comp_rel E u) (YqlAgent_doServerSync E a s)"
  unfolding copyConnection_def createControlObject_def QueryTracker_createUser_def QueueAgent_createUser_def
    clientPresent_def setInitDone_def YqlAgent_doServerSync_def
  by (auto intro!: io_intros)

lemma cr_attempt [io_intros]: "state_io_rel (comp_rel E u) m \<Longrightarrow> state_io_rel (comp_rel E u) (attempt dry s m)"
  unfolding attempt_def by (intro io_intros)

lemma cr_inits [io_intros]:
  "state_io_rel (comp_rel E u) (QueryTracker_init E l g)" "state_io_rel (comp_rel E u) (QueueAgent_init E l g)"
  unfolding QueryTracker_init_def QueueAgent_init_def Let_def by (rule cr_first_error; auto intro!: io_intros dest: ext_okD)+

lemma cr_updateQTState [io_intros]: "state_io_rel (comp_rel E True) (updateQTState E s dry)"
  unfolding updateQTState_def Let_def
  by (rule cr.rel_bind [OF cr.rel_get]) (auto intro!: io_intros split: UpdateState.split)

lemma component_ok_QueryTracker:
  assumes "\<And>c. c \<in> set (qt_tabletNodes qt) \<Longrightarrow> component_ok E c"
  shows "component_ok E (QueryTracker_component E l qt)"
  using assms unfolding QueryTracker_component_def QueryTracker_doSync_def
  by (intro component_ok_mkComponent) (auto intro!: io_intros okStatus)

lemma component_ok_QueueAgent:
  assumes "component_ok E (qa_client qa)" and "component_ok E (qa_master qa)"
    and "\<And>c. c \<in> set (qa_tabletNodes qa) \<Longrightarrow> component_ok E c"
  shows "component_ok E (QueueAgent_component E l qa)"
  using assms unfolding QueueAgent_component_def QueueAgent_doSync_def
  by (intro component_ok_mkComponent) (auto intro!: io_intros okStatus)

lemma component_ok_YqlAgent: "component_ok E (ya_master ya) \<Longrightarrow> component_ok E (YqlAgent_component E l ya)"
  unfolding YqlAgent_component_def YqlAgent_doSync_def
  by (rule component_ok_mkComponent) (auto intro!: io_intros okStatus)

subsection \<open>Dry runs and constructors\<close>

lemma keeps_agent_steps_dry [io_intros]:
  "keeps f (clientPresent dry)" "keeps f (attempt True s m)"
  unfolding clientPresent_def attempt_def by (simp_all add: io_intros)

lemma keeps_updateQTState_dry [io_intros]: "keeps outer (updateQTState E qt True)"
  unfolding updateQTState_def Let_def
  by (rule keeps_bind [OF keeps_get]) (auto intro!: io_intros split: UpdateState.split)

lemma dry_QueryTracker:
  "(\<And>c. c \<in> set (qt_tabletNodes qt) \<Longrightarrow> dry_status c) \<Longrightarrow> dry_status (QueryTracker_component E l qt)"
  unfolding QueryTracker_component_def QueryTracker_doSync_def component_defs by (auto intro!: io_intros)

lemma dry_QueueAgent:
  "dry_status (qa_client qa) \<Longrightarrow> dry_status (qa_master qa) \<Longrightarrow>
   (\<And>c. c \<in> set (qa_tabletNodes qa) \<Longrightarrow> dry_status c) \<Longrightarrow> dry_status (QueueAgent_component E l qa)"
  unfolding QueueAgent_component_def QueueAgent_doSync_def component_defs by (auto intro!: io_intros)

lemma dry_YqlAgent: "dry_status (ya_master ya) \<Longrightarrow> dry_status (YqlAgent_component E l ya)"
  unfolding YqlAgent_component_def YqlAgent_doSync_def component_defs by (auto intro!: io_intros)

lemma keeps_NewAgents [io_intros]:
  "keeps statusOuter (NewQueryTracker E g ts)" "keeps statusOuter (NewQueueAgent E g c m ts)"
  "keeps statusOuter (NewYQLAgent E g m)"
  unfolding NewQueryTracker_def NewQueueAgent_def NewYQLAgent_def Let_def by (auto intro!: io_intros)

end
