(* ===== verification/Frontend.thy ===== *)
theory Frontend
  imports Agents
begin

text \<open>
  \<open>ui.go\<close> and \<open>strawberry_controller.go\<close>: the two components that run as deployments.
\<close>

definition zero_probe_params :: HealthcheckProbeParams where
  "zero_probe_params = \<lparr>hp_InitialDelaySeconds = 0, hp_TimeoutSeconds = 0, hp_PeriodSeconds = 0,
     hp_SuccessThreshold = 0, hp_FailureThreshold = 0\<rparr>"

definition checkMicroserviceSync :: "'w ext \<Rightarrow> nat \<Rightarrow> bool \<Rightarrow> ('w heap, error) state \<Rightarrow> 'w heap block" where
  "checkMicroserviceSync E a dry sync = do {
     m \<leftarrow> gets (\<lambda>h. h_ms h a);
     need \<leftarrow> microserviceImpl_needSync E m;
     if need then do {
       err \<leftarrow> (if \<not> dry then sync else ret None);
       ret (Some (WaitingStatus SyncStatusPending ''components'', err))
     }
     else ret None
   }"

definition checkMicroserviceUpdate :: "'w ext \<Rightarrow> nat \<Rightarrow> 'w heap block" where
  "checkMicroserviceUpdate E a = checkNeedUpdate (do { m \<leftarrow> gets (\<lambda>h. h_ms h a); microserviceImpl_needUpdate E m })"

subsection \<open>ui.go\<close>

record 's UI =
  u_microservice :: nat
  u_initJob :: nat
  u_secret :: nat
  u_caBundle :: "CABundle option"
  u_labeller :: Labeller
  u_master :: "'s component"

abbreviation UI_initUser :: "'w ext \<Rightarrow> string \<Rightarrow> string" where
  "UI_initUser E token \<equiv> lines_join (createUserCommand E UIUserName [] token False)"

definition UI_createInitScript :: "'w ext \<Rightarrow> string \<Rightarrow> string" where
  "UI_createInitScript E token =
     lines_join [initJobWithNativeDriverPrologue, UI_initUser E token]"

definition uiMount :: "string \<Rightarrow> string \<Rightarrow> string \<Rightarrow> bool \<Rightarrow> VolumeMount" where
  "uiMount name path sub ro = \<lparr>vm_Name = name, vm_MountPath = path, vm_SubPath = sub, vm_ReadOnly = ro, vm_MountPropagation = None\<rparr>"

definition uiVolumeMounts :: "VolumeMount list" where
  "uiVolumeMounts =
     [uiMount ConfigVolumeName (path_join UIClustersConfigMountPoint ''clusters-config.json'') ''clusters-config.json'' True,
      uiMount ConfigVolumeName (path_join UICustomConfigMountPoint ''common.js'') ''common.js'' True,
      uiMount UIVaultVolumeName UIVaultMountPoint [] True,
      uiMount UISecretsVolumeName UISecretsMountPoint [] False]"

definition uiEnv :: "YtsaurusResource \<Rightarrow> UISpec \<Rightarrow> CABundle option \<Rightarrow> EnvVar list" where
  "uiEnv r spec caBundle =
     [plainEnv ''YT_AUTH_CLUSTER_ID'' (om_Name (yr_Meta r)), plainEnv ''ALLOW_PASSWORD_AUTH'' ''1'',
      plainEnv ''APP_INSTALLATION'' ''custom''] @
     (if ui_UseInsecureCookies spec then [plainEnv ''YT_AUTH_ALLOW_INSECURE'' ''1''] else []) @
     (case caBundle of Some ca \<Rightarrow> [plainEnv ''NODE_EXTRA_CA_CERTS'' (ca_MountPath ca @ ''/ca.crt'')] | None \<Rightarrow> []) @
     ui_ExtraEnvVariables spec"

definition uiPodSpec :: "YtsaurusResource \<Rightarrow> UISpec \<Rightarrow> CABundle option \<Rightarrow> Labeller \<Rightarrow> string \<Rightarrow> string \<Rightarrow> PodSpec \<Rightarrow> PodSpec" where
  "uiPodSpec r spec caBundle l img secretName ps0 =
     (let ps1 = ps0\<lparr>
            ps_InitContainers := [zero_container\<lparr>ct_Image := img, ct_Name := PrepareSecretContainerName,
              ct_Command := [''bash'', ''-c'', ''cp '' @ path_join UIVaultMountPoint UISecretFileName @ '' '' @ UISecretsMountPoint],
              ct_VolumeMounts := uiVolumeMounts\<rparr>],
            ps_Containers := [zero_container\<lparr>ct_Image := img, ct_Name := UIContainerName, ct_Env := uiEnv r spec caBundle,
              ct_Command := [''supervisord''], ct_Ports := [tcpPort ''http'' UIHTTPPort],
              ct_ReadinessProbe := Some \<lparr>pr_Port = FromInt UIHTTPPort, pr_Path = ''/readyz'', pr_TCPSocket = False, pr_Params = zero_probe_params\<rparr>,
              ct_VolumeMounts := uiVolumeMounts\<rparr>],
            ps_Volumes := [\<lparr>vol_Name = ConfigVolumeName, vol_Source = ConfigMapSource (GetMainConfigMapName l) None\<rparr>,
              \<lparr>vol_Name = UIVaultVolumeName, vol_Source = SecretSource secretName\<rparr>,
              \<lparr>vol_Name = UISecretsVolumeName, vol_Source = EmptyDirSource (Some 1048576)\<rparr>]\<rparr>
      in (case caBundle of
            None \<Rightarrow> ps1
          | Some ca \<Rightarrow> (let ps2 = CABundle_AddVolume ca ps1
              in ps2\<lparr>ps_Containers := map (CABundle_AddVolumeMount ca) (ps_Containers ps2)\<rparr>)))"

definition UI_syncComponents :: "'w ext \<Rightarrow> 'w heap UI \<Rightarrow> ('w heap, error) state" where
  "UI_syncComponents E u = do {
     h \<leftarrow> State_Monad.get;
     let r = h_yts h;
     let spec = (case ys_UI (yr_Spec r) of Some s \<Rightarrow> s | None \<Rightarrow> undefined);
     on_ms (u_microservice u) (\<lambda>m.
       (let m1 = buildService m;
            m2 = m1\<lparr>mi_service := setServiceType (ui_ServiceType spec) (mi_service m1)\<rparr>;
            m3 = buildDeployment (ys_Common (yr_Spec r)) m2;
            m4 = onDeploymentPodSpec (uiPodSpec r spec (u_caBundle u) (u_labeller u) (mi_image m3)
              (r_name (h_sec h (u_secret u)))) m3
        in microserviceImpl_Sync E m4))
   }"

definition uiSecretData :: "string \<Rightarrow> string gomap" where
  "uiSecretData token = [UISecretFileName \<mapsto> ''{'' @ dquoted ''oauthToken'' @ '' : '' @ dquoted token @ ''}'',
     TokenSecretKey \<mapsto> token]"

definition UI_doSync :: "'w ext \<Rightarrow> 'w heap UI \<Rightarrow> bool \<Rightarrow> ('w heap, ComponentStatus \<times> error) state" where
  "UI_doSync E u dry = firstStatus
     [checkMicroserviceUpdate E (u_microservice u),
      checkUpdating E (u_labeller u) (microservicePods E (u_microservice u)) dry,
      checkMaster (u_master u),
      checkSecret E (u_secret u) uiSecretData dry,
      act (do { h \<leftarrow> State_Monad.get;
        whenM (\<not> dry) (setScript E (u_initJob u) (UI_createInitScript E (getToken h (u_secret u)))) }),
      checkJob E (u_initJob u) dry,
      checkMicroserviceSync E (u_microservice u) dry (UI_syncComponents E u),
      do {
        m \<leftarrow> gets (\<lambda>h. h_ms h (u_microservice u));
        ret (if \<not> microserviceImpl_arePodsReady m then Some (WaitingStatus SyncStatusPending ''pods'', None) else None)
      }]
     (ret (SimpleStatus SyncStatusReady, None))"

definition UI_component :: "'w ext \<Rightarrow> 'w heap UI \<Rightarrow> 'w heap component" where
  "UI_component E u = mkComponent E (u_labeller u) UIType True
     (resources_Fetch [Some (on_ms (u_microservice u) (microserviceImpl_Fetch E)), Some (on_job (u_initJob u) (InitJob_Fetch E)),
        Some (on_sec (u_secret u) (StringSecret_Fetch E))])
     (UI_doSync E u)"

definition NewUI :: "'w ext \<Rightarrow> Generator \<Rightarrow> 'w heap component \<Rightarrow> ('w heap, 'w heap component) state" where
  "NewUI E g master = do {
     r \<leftarrow> gets h_yts;
     let spec = (case ys_UI (yr_Spec r) of Some s \<Rightarrow> s | None \<Rightarrow> undefined);
     let l = mkLabeller r YTComponentLabelUI ''UI'' (extraPodAnnotations r);
     let img = (case ui_Image spec of Some i \<Rightarrow> i | None \<Rightarrow> ys_UIImage (yr_Spec r));
     let caBundle = map_option (\<lambda>name. NewCABundle name CABundleVolumeName CABundleMountPoint) (cs_CABundle (ys_Common (yr_Spec r)));
     let m = newMicroservice l r img (ui_InstanceCount spec)
       [(''clusters-config.json'', \<lparr>gd_F = generate E UIClustersConfig r g, gd_Fmt = ConfigFormatJson\<rparr>),
        (''common.js'', \<lparr>gd_F = generate E UICustomConfig r g, gd_Fmt = ConfigFormatJsonWithJsPrologue\<rparr>)]
       ''ytsaurus-ui-deployment'' ''ytsaurus-ui'';
     a \<leftarrow> alloc put_ms (m\<lparr>mi_service := (mi_service m)\<lparr>hs_httpNodePort := ui_HttpNodePort spec\<rparr>\<rparr>);
     j \<leftarrow> alloc put_job (nativeJob E g r l ''default'' (coreImage r));
     c \<leftarrow> alloc put_sec (NewStringSecret (GetSecretName l) l);
     ret (UI_component E \<lparr>u_microservice = a, u_initJob = j, u_secret = c, u_caBundle = caBundle, u_labeller = l, u_master = master\<rparr>)
   }"

subsection \<open>strawberry\_controller.go\<close>

record 's StrawberryController =
  sb_microservice :: nat
  sb_initUserAndUrlJob :: nat
  sb_initChytClusterJob :: nat
  sb_secret :: nat
  sb_labeller :: Labeller
  sb_name :: string
  sb_master :: "'s component"
  sb_scheduler :: "'s component"
  sb_dataNodes :: "'s component list"

definition getControllerConfigFileName :: "string \<Rightarrow> string" where
  "getControllerConfigFileName name = (if name = ''chyt'' then ''chyt-controller.yson'' else ''strawberry-controller.yson'')"

abbreviation Strawberry_initUsers :: "'w ext \<Rightarrow> string \<Rightarrow> string" where
  "Strawberry_initUsers E token \<equiv> lines_join (createUserCommand E StrawberryControllerUserName [] token True)"

definition createInitUserAndUrlScript :: "'w ext \<Rightarrow> string \<Rightarrow> string \<Rightarrow> string" where
  "createInitUserAndUrlScript E token serviceName = lines_join
     [initJobWithNativeDriverPrologue,
      Strawberry_initUsers E token,
      RunIfNonexistent ''//sys/@ui_config'' [''yt set //sys/@ui_config '' @ squoted ''{}''],
      ''yt set //sys/@ui_config/chyt_controller_base_url '' @ squoted (dquoted (''http://'' @ serviceName @ '':80''))]"

definition createInitChytClusterScript :: string where
  "createInitChytClusterScript = lines_join
     [initJobPrologue,
      ''/usr/bin/chyt-controller --config-path '' @ path_join ConfigMountPoint ''chyt-init-cluster.yson'' @ '' init-cluster'']"

definition strawberryPodSpec :: "string \<Rightarrow> string \<Rightarrow> string \<Rightarrow> Labeller \<Rightarrow> PodSpec \<Rightarrow> PodSpec" where
  "strawberryPodSpec name img secretName l ps = ps\<lparr>
     ps_Containers := [zero_container\<lparr>ct_Image := img, ct_Name := UIContainerName, ct_EnvFromSecrets := [secretName],
       ct_Command := [''/usr/bin/chyt-controller'', ''--config-path'', path_join ConfigMountPoint (getControllerConfigFileName name), ''run''],
       ct_Ports := [tcpPort ''http'' StrawberryHTTPAPIPort],
       ct_ReadinessProbe := Some \<lparr>pr_Port = FromInt StrawberryHTTPAPIPort, pr_Path = [], pr_TCPSocket = True, pr_Params = zero_probe_params\<rparr>,
       ct_VolumeMounts := [createConfigVolumeMount]\<rparr>],
     ps_Volumes := [createConfigVolume ConfigVolumeName (GetMainConfigMapName l) None]\<rparr>"

definition Strawberry_syncComponents :: "'w ext \<Rightarrow> 'w heap StrawberryController \<Rightarrow> ('w heap, error) state" where
  "Strawberry_syncComponents E c = do {
     h \<leftarrow> State_Monad.get;
     on_ms (sb_microservice c) (\<lambda>m.
       (let m1 = buildService m;
            m2 = m1\<lparr>mi_service := setServiceType ''ClusterIP'' (mi_service m1)\<rparr>;
            m3 = buildDeployment (ys_Common (yr_Spec (h_yts h))) m2;
            m4 = onDeploymentPodSpec (strawberryPodSpec (sb_name c) (mi_image m3) (r_name (h_sec h (sb_secret c))) (sb_labeller c)) m3
        in microserviceImpl_Sync E m4))
   }"

abbreviation prepareInitChytClusterJob :: "'w ext \<Rightarrow> 'w heap StrawberryController \<Rightarrow> ('w heap, unit) state" where
  "prepareInitChytClusterJob E c \<equiv> prepareJob E (sb_initChytClusterJob c) createInitChytClusterScript (sb_secret c)"

definition Strawberry_doSync :: "'w ext \<Rightarrow> 'w heap StrawberryController \<Rightarrow> bool \<Rightarrow> ('w heap, ComponentStatus \<times> error) state" where
  "Strawberry_doSync E c dry = firstStatus
     ([checkMicroserviceUpdate E (sb_microservice c),
       checkUpdating E (sb_labeller c) (microservicePods E (sb_microservice c)) dry,
       checkMaster (sb_master c),
       checkMaster (sb_scheduler c)] @
      map checkMaster (sb_dataNodes c) @
      [checkSecret E (sb_secret c) tokenData dry,
       act (do { h \<leftarrow> State_Monad.get;
         whenM (\<not> dry) (setScript E (sb_initUserAndUrlJob c)
           (createInitUserAndUrlScript E (getToken h (sb_secret c)) (r_name (mi_service (h_ms h (sb_microservice c)))))) }),
       checkJob E (sb_initUserAndUrlJob c) dry,
       act (whenM (\<not> dry) (prepareInitChytClusterJob E c)),
       checkJob E (sb_initChytClusterJob c) dry,
       checkMicroserviceSync E (sb_microservice c) dry (Strawberry_syncComponents E c)])
     (ret (SimpleStatus SyncStatusReady, None))"

definition Strawberry_component :: "'w ext \<Rightarrow> 'w heap StrawberryController \<Rightarrow> 'w heap component" where
  "Strawberry_component E c = mkComponent E (sb_labeller c) StrawberryControllerType True
     (resources_Fetch [Some (on_ms (sb_microservice c) (microserviceImpl_Fetch E)),
        Some (on_job (sb_initUserAndUrlJob c) (InitJob_Fetch E)), Some (on_job (sb_initChytClusterJob c) (InitJob_Fetch E)),
        Some (on_sec (sb_secret c) (StringSecret_Fetch E))])
     (Strawberry_doSync E c)"

definition strawberryImage :: "YtsaurusResource \<Rightarrow> string" where
  "strawberryImage r =
     (let img1 = (case ys_DeprecatedChytController (yr_Spec r) of
            Some c \<Rightarrow> (case sbc_Image c of Some i \<Rightarrow> i | None \<Rightarrow> coreImage r)
          | None \<Rightarrow> coreImage r)
      in (case ys_StrawberryController (yr_Spec r) of
            Some c \<Rightarrow> (case sbc_Image c of Some i \<Rightarrow> i | None \<Rightarrow> img1)
          | None \<Rightarrow> img1))"

definition NewStrawberryController :: "'w ext \<Rightarrow> Generator \<Rightarrow> 'w heap component \<Rightarrow> 'w heap component \<Rightarrow> 'w heap component list \<Rightarrow>
    ('w heap, 'w heap component) state" where
  "NewStrawberryController E g master scheduler dataNodes = do {
     r \<leftarrow> gets h_yts;
     let img = strawberryImage r;
     let current = (ys_StrawberryController (yr_Spec r) \<noteq> None);
     let name = (if current then ''strawberry'' else ''chyt'');
     let l = mkLabeller r (''yt-'' @ name @ ''-controller'') (if current then ''StrawberryController'' else ''ChytController'')
       (extraPodAnnotations r);
     a \<leftarrow> alloc put_ms (newMicroservice l r img 1
       [(getControllerConfigFileName name, \<lparr>gd_F = generate E StrawberryControllerConfig r g, gd_Fmt = ConfigFormatYson\<rparr>)]
       (name @ ''-controller'') name);
     j \<leftarrow> alloc put_job (nativeJob E g r l ''user'' (coreImage r));
     k \<leftarrow> alloc put_job (NewInitJob l (cs_ImagePullSecrets (ys_Common (yr_Spec r))) ''cluster'' ''chyt-init-cluster.yson'' img
       (generate E ChytInitClusterConfig r g));
     s \<leftarrow> alloc put_sec (NewStringSecret (GetSecretName l) l);
     ret (Strawberry_component E \<lparr>sb_microservice = a, sb_initUserAndUrlJob = j, sb_initChytClusterJob = k, sb_secret = s,
       sb_labeller = l, sb_name = name, sb_master = master, sb_scheduler = scheduler, sb_dataNodes = dataNodes\<rparr>)
   }"

subsection \<open>The contracts\<close>

lemma cr_microservice_blocks [io_intros]:
  "state_io_rel (comp_rel E u) m \<Longrightarrow> state_io_rel (comp_rel E u) (checkMicroserviceSync E a dry m)"
  "state_io_rel (comp_rel E u) (checkMicroserviceUpdate E a)"
  unfolding checkMicroserviceSync_def checkMicroserviceUpdate_def by (auto intro!: io_intros)

lemma cr_syncComponents [io_intros]:
  "state_io_rel (comp_rel E u) (UI_syncComponents E ui)" "state_io_rel (comp_rel E u) (Strawberry_syncComponents E c)"
  unfolding UI_syncComponents_def Strawberry_syncComponents_def Let_def by (auto intro!: io_intros)

lemma component_ok_UI: "component_ok E (u_master u) \<Longrightarrow> component_ok E (UI_component E u)"
  unfolding UI_component_def UI_doSync_def
  by (rule component_ok_mkComponent) (auto intro!: io_intros okStatus)

lemma component_ok_Strawberry:
  assumes "component_ok E (sb_master c)" and "component_ok E (sb_scheduler c)" and "\<And>d. d \<in> set (sb_dataNodes c) \<Longrightarrow> component_ok E d"
  shows "component_ok E (Strawberry_component E c)"
  using assms unfolding Strawberry_component_def Strawberry_doSync_def
  by (intro component_ok_mkComponent) (auto intro!: io_intros okStatus)

lemma keeps_microservice_blocks_dry [io_intros]:
  "keeps outer (checkMicroserviceSync E a True m)" "keeps outer (checkMicroserviceUpdate E a)"
  unfolding checkMicroserviceSync_def checkMicroserviceUpdate_def by (auto intro!: io_intros)

lemma dry_UI: "dry_status (u_master u) \<Longrightarrow> dry_status (UI_component E u)"
  unfolding UI_component_def UI_doSync_def component_defs by (auto intro!: io_intros)

lemma dry_Strawberry:
  "dry_status (sb_master c) \<Longrightarrow> dry_status (sb_scheduler c) \<Longrightarrow> (\<And>d. d \<in> set (sb_dataNodes c) \<Longrightarrow> dry_status d) \<Longrightarrow>
   dry_status (Strawberry_component E c)"
  unfolding Strawberry_component_def Strawberry_doSync_def component_defs by (auto intro!: io_intros)

lemma keeps_NewFrontend [io_intros]:
  "keeps statusOuter (NewUI E g m)" "keeps statusOuter (NewStrawberryController E g m s ds)"
  unfolding NewUI_def NewStrawberryController_def Let_def by (auto intro!: io_intros)

end
