(* ===== verification/ComponentManager.thy ===== *)
theory ComponentManager
  imports Component
begin

text \<open>
  \<open>controllers/component_manager.go\<close>: the manager collects the status of every component and
  synchronises the ones that have work to do. The list of components is built from the
  specification in the theory Operator; the operations here take any list.
\<close>

record Result =
  res_Requeue :: bool
  res_RequeueAfter :: int

definition zero_result :: Result where
  "zero_result = \<lparr>res_Requeue = False, res_RequeueAfter = 0\<rparr>"

definition requeue :: Result where
  "requeue = \<lparr>res_Requeue = True, res_RequeueAfter = 0\<rparr>"

text \<open>A delay, in seconds.\<close>

definition requeueAfter :: "int \<Rightarrow> Result" where
  "requeueAfter n = \<lparr>res_Requeue = False, res_RequeueAfter = n\<rparr>"

record 's ComponentManagerStatus =
  cms_needSync :: bool
  cms_needInit :: bool
  cms_needUpdate :: "'s component list"
  cms_allReadyOrUpdating :: bool

record 's ComponentManager =
  cm_allComponents :: "'s component list"
  cm_queryTracker :: "'s component option"
  cm_scheduler :: "'s component option"
  cm_status :: "'s ComponentManagerStatus"

definition initial_status :: "'s ComponentManagerStatus" where
  "initial_status = \<lparr>cms_needSync = False, cms_needInit = False, cms_needUpdate = [], cms_allReadyOrUpdating = True\<rparr>"

text \<open>How the status of one component enters the status of the manager.\<close>

definition addStatus :: "'s component \<Rightarrow> SyncStatus \<Rightarrow> 's ComponentManagerStatus \<Rightarrow> 's ComponentManagerStatus" where
  "addStatus c s st =
     (let st1 = (if s = SyncStatusNeedLocalUpdate then st\<lparr>cms_needUpdate := cms_needUpdate st @ [c]\<rparr> else st);
          st2 = (if \<not> IsRunningStatus s then st1\<lparr>cms_needInit := True\<rparr> else st1);
          st3 = (if s \<noteq> SyncStatusReady \<and> s \<noteq> SyncStatusUpdating then st2\<lparr>cms_allReadyOrUpdating := False\<rparr> else st2)
      in if s \<noteq> SyncStatusReady then st3\<lparr>cms_needSync := True\<rparr> else st3)"

text \<open>The loop of the constructor over all components; an error ends it.\<close>

fun fetchStatuses :: "'s component list \<Rightarrow> 's ComponentManagerStatus \<Rightarrow>
    ('s, string + 's ComponentManagerStatus) state" where
  "fetchStatuses [] st = ret (Inr st)"
| "fetchStatuses (c # cs) st = do {
     err \<leftarrow> c_Fetch c;
     (case err of
        Some e \<Rightarrow> ret (Inl e)
      | None \<Rightarrow> do {
          (componentStatus, err) \<leftarrow> c_Status c;
          (case err of
             Some e \<Rightarrow> ret (Inl (''failed to get component '' @ c_GetName c @ '' status: '' @ e))
           | None \<Rightarrow> do {
               c_SetReadyCondition c componentStatus;
               fetchStatuses cs (addStatus c (cst_SyncStatus componentStatus) st)
             })
        })
   }"

definition makeManager :: "'s component list \<Rightarrow> 's component option \<Rightarrow> 's component option \<Rightarrow>
    ('s, string + 's ComponentManager) state" where
  "makeManager allComponents q s = do {
     r \<leftarrow> fetchStatuses allComponents initial_status;
     ret (case r of
        Inl e \<Rightarrow> Inl e
      | Inr st \<Rightarrow> Inr \<lparr>cm_allComponents = allComponents, cm_queryTracker = q, cm_scheduler = s, cm_status = st\<rparr>)
   }"

text \<open>The loop of \<open>Sync\<close>: the error that ends it, or whether some component had work to do.\<close>

fun syncComponents :: "'s component list \<Rightarrow> bool \<Rightarrow> ('s, string + bool) state" where
  "syncComponents [] hasPending = ret (Inr hasPending)"
| "syncComponents (c # cs) hasPending = do {
     (status, err) \<leftarrow> c_Status c;
     (case err of
        Some e \<Rightarrow> ret (Inl (''failed to get status for '' @ c_GetName c @ '': '' @ e))
      | None \<Rightarrow>
          if cst_SyncStatus status = SyncStatusPending \<or> cst_SyncStatus status = SyncStatusUpdating
          then do {
            err \<leftarrow> c_Sync c;
            (case err of
               Some e \<Rightarrow> ret (Inl e)
             | None \<Rightarrow> syncComponents cs True)
          }
          else syncComponents cs hasPending)
   }"

definition ComponentManager_Sync :: "'w ext \<Rightarrow> ('w, 'z) mem_scheme ComponentManager \<Rightarrow>
    (('w, 'z) mem_scheme, Result \<times> error) state" where
  "ComponentManager_Sync E cm = do {
     r \<leftarrow> syncComponents (cm_allComponents cm) False;
     (case r of
        Inl e \<Rightarrow> ret (requeue, Some e)
      | Inr hasPending \<Rightarrow> do {
          err \<leftarrow> UpdateStatus E;
          if err \<noteq> None then ret (requeue, err)
          else if \<not> hasPending then ret (requeueAfter 5, None)
          else ret (requeueAfter 1, None)
        })
   }"

definition needSync :: "'s ComponentManager \<Rightarrow> bool" where
  "needSync cm = cms_needSync (cm_status cm)"

definition needInit :: "'s ComponentManager \<Rightarrow> bool" where
  "needInit cm = cms_needInit (cm_status cm)"

definition needUpdate :: "'s ComponentManager \<Rightarrow> 's component list" where
  "needUpdate cm = cms_needUpdate (cm_status cm)"

definition allReadyOrUpdating :: "'s ComponentManager \<Rightarrow> bool" where
  "allReadyOrUpdating cm = cms_allReadyOrUpdating (cm_status cm)"

definition needQueryTrackerUpdate :: "('w, 'z) mem_scheme ComponentManager \<Rightarrow> ('w, 'z) mem_scheme \<Rightarrow> bool" where
  "needQueryTrackerUpdate cm h = (case cm_queryTracker cm of None \<Rightarrow> False | Some c \<Rightarrow> IsUpdatingComponent c h)"

definition needSchedulerUpdate :: "('w, 'z) mem_scheme ComponentManager \<Rightarrow> ('w, 'z) mem_scheme \<Rightarrow> bool" where
  "needSchedulerUpdate cm h = (case cm_scheduler cm of None \<Rightarrow> False | Some c \<Rightarrow> IsUpdatingComponent c h)"

definition areComponentPodsRemoved :: "'w ext \<Rightarrow> 's component \<Rightarrow> ('w, 'z) mem_scheme \<Rightarrow> bool" where
  "areComponentPodsRemoved E c = IsUpdateStatusConditionTrue E (GetPodsRemovedCondition (c_GetName c))"

fun arePodsRemovedLoop :: "'w ext \<Rightarrow> 's component list \<Rightarrow> ('w, 'z) mem_scheme \<Rightarrow> bool" where
  "arePodsRemovedLoop E [] h = True"
| "arePodsRemovedLoop E (c # cs) h =
     (if IsUpdatingComponent c h \<and> \<not> areComponentPodsRemoved E c h then False else arePodsRemovedLoop E cs h)"

definition arePodsRemoved :: "'w ext \<Rightarrow> 's ComponentManager \<Rightarrow> ('w, 'z) mem_scheme \<Rightarrow> bool" where
  "arePodsRemoved E cm h = arePodsRemovedLoop E (cm_allComponents cm) h"

subsection \<open>The statuses the constructor sees\<close>

text \<open>The statuses of the components in the order of the loop, each in the memory the previous ones left.\<close>

fun seenStatuses :: "'s component list \<Rightarrow> 's \<Rightarrow> SyncStatus list" where
  "seenStatuses [] h = []"
| "seenStatuses (c # cs) h =
     (let h1 = snd (run_state (c_Fetch c) h);
          ((s, _), h2) = run_state (c_Status c) h1
      in cst_SyncStatus s # seenStatuses cs (snd (run_state (c_SetReadyCondition c s) h2)))"

lemma length_seenStatuses [simp]: "length (seenStatuses cs h) = length cs"
  by (induction cs arbitrary: h) (auto simp: Let_def split: prod.splits)

lemma addStatus_simps [simp]:
  "cms_needSync (addStatus c s st) \<longleftrightarrow> cms_needSync st \<or> s \<noteq> SyncStatusReady"
  "cms_needInit (addStatus c s st) \<longleftrightarrow> cms_needInit st \<or> \<not> IsRunningStatus s"
  "cms_needUpdate (addStatus c s st) = cms_needUpdate st @ (if s = SyncStatusNeedLocalUpdate then [c] else [])"
  "cms_allReadyOrUpdating (addStatus c s st) \<longleftrightarrow>
     cms_allReadyOrUpdating st \<and> s \<in> {SyncStatusReady, SyncStatusUpdating}"
  by (auto simp: addStatus_def Let_def)

lemma fetchStatuses_Cons_Inr:
  assumes "run_state (fetchStatuses (c # cs) st) h = (Inr st', h')"
  obtains h1 s h2 where "run_state (c_Fetch c) h = (None, h1)" and "run_state (c_Status c) h1 = ((s, None), h2)"
    and "run_state (fetchStatuses cs (addStatus c (cst_SyncStatus s) st)) (snd (run_state (c_SetReadyCondition c s) h2)) = (Inr st', h')"
proof -
  obtain e h1 where f: "run_state (c_Fetch c) h = (e, h1)" by fastforce
  obtain s e' h2 where s: "run_state (c_Status c) h1 = ((s, e'), h2)" by (metis prod.exhaust)
  from assms f s have "e = None" "e' = None" by (auto split: option.splits)
  with assms f s that show thesis by (auto simp: case_prod_unfold)
qed

lemma fetchStatuses_seen:
  assumes "run_state (fetchStatuses cs st) h = (Inr st', h')"
  shows "st' = fold (\<lambda>(c, s). addStatus c s) (zip cs (seenStatuses cs h)) st"
  using assms
proof (induction cs arbitrary: st h)
  case (Cons c cs)
  from Cons.prems show ?case by (rule fetchStatuses_Cons_Inr) (auto dest: Cons.IH)
qed simp

lemma fold_addStatus:
  assumes "length ss = length cs"
  shows "cms_needSync (fold (\<lambda>(c, s). addStatus c s) (zip cs ss) st) \<longleftrightarrow>
           cms_needSync st \<or> (\<exists>s \<in> set ss. s \<noteq> SyncStatusReady)"
    and "cms_needInit (fold (\<lambda>(c, s). addStatus c s) (zip cs ss) st) \<longleftrightarrow>
           cms_needInit st \<or> (\<exists>s \<in> set ss. \<not> IsRunningStatus s)"
    and "cms_needUpdate (fold (\<lambda>(c, s). addStatus c s) (zip cs ss) st) =
           cms_needUpdate st @ map fst (filter (\<lambda>(c, s). s = SyncStatusNeedLocalUpdate) (zip cs ss))"
    and "cms_allReadyOrUpdating (fold (\<lambda>(c, s). addStatus c s) (zip cs ss) st) \<longleftrightarrow>
           cms_allReadyOrUpdating st \<and> set ss \<subseteq> {SyncStatusReady, SyncStatusUpdating}"
  using assms by (induction cs ss arbitrary: st rule: list_induct2') auto

subsection \<open>The contract lifts to the manager\<close>

locale component_list =
  fixes E :: "'w ext" and cs :: "('w, 'z) mem_scheme component list"
  assumes all_ok: "c \<in> set cs \<Longrightarrow> component_ok E c"
begin

lemma okD:
  assumes "c \<in> set cs"
  shows "state_io_rel (comp_rel E False) (c_Fetch c)" "state_io_rel (comp_rel E False) (c_Sync c)"
    "state_io_rel (comp_rel E False) (c_Status c)" "state_io_rel (comp_rel E False) (c_SetReadyCondition c s)"
  using all_ok [OF assms] by (auto simp: component_ok_def)

lemma rel_fetchStatuses:
  assumes "set ds \<subseteq> set cs"
  shows "state_io_rel (comp_rel E False) (fetchStatuses ds st)"
  using assms
proof (induction ds arbitrary: st)
  case (Cons c ds)
  then have "c \<in> set cs" by simp
  from okD [OF this] Cons show ?case by (auto intro!: io_intros)
qed (simp add: io_intros)

lemma rel_makeManager: "state_io_rel (comp_rel E False) (makeManager cs q s)"
  unfolding makeManager_def by (intro io_intros rel_fetchStatuses order_refl)

lemma rel_syncComponents:
  assumes "set ds \<subseteq> set cs"
  shows "state_io_rel (comp_rel E False) (syncComponents ds b)"
  using assms
proof (induction ds arbitrary: b)
  case (Cons c ds)
  then have "c \<in> set cs" by simp
  from okD [OF this] Cons show ?case by (auto intro!: io_intros)
qed (simp add: io_intros)

end

subsection \<open>Facts\<close>

lemma arePodsRemoved_iff:
  "arePodsRemoved E cm h \<longleftrightarrow>
     (\<forall>c \<in> set (cm_allComponents cm). IsUpdatingComponent c h \<longrightarrow> areComponentPodsRemoved E c h)"
proof -
  have "arePodsRemovedLoop E cs h \<longleftrightarrow> (\<forall>c \<in> set cs. IsUpdatingComponent c h \<longrightarrow> areComponentPodsRemoved E c h)" for cs
    by (induction cs) auto
  then show ?thesis by (simp add: arePodsRemoved_def)
qed

lemma makeManager_run:
  assumes "run_state (makeManager cs q s) h = (Inr cm, h')"
  shows "cm_allComponents cm = cs" and "cm_queryTracker cm = q" and "cm_scheduler cm = s"
    and "cm_status cm = fold (\<lambda>(c, s). addStatus c s) (zip cs (seenStatuses cs h)) initial_status"
    and "\<exists>st. run_state (fetchStatuses cs initial_status) h = (Inr st, h')"
proof -
  obtain r h1 where r: "run_state (fetchStatuses cs initial_status) h = (r, h1)" by fastforce
  with assms obtain st where st: "r = Inr st" "h1 = h'" and
    cm: "cm = \<lparr>cm_allComponents = cs, cm_queryTracker = q, cm_scheduler = s, cm_status = st\<rparr>"
    by (auto simp: makeManager_def split: sum.splits)
  with fetchStatuses_seen r show "cm_allComponents cm = cs" "cm_queryTracker cm = q" "cm_scheduler cm = s"
    "cm_status cm = fold (\<lambda>(c, s). addStatus c s) (zip cs (seenStatuses cs h)) initial_status"
    "\<exists>st. run_state (fetchStatuses cs initial_status) h = (Inr st, h')"
    by auto
qed

text \<open>The loop of \<open>Sync\<close> when no component has work to do.\<close>

lemma syncComponents_hasPending:
  "run_state (syncComponents cs b) h = (Inr r, h') \<Longrightarrow> b \<Longrightarrow> r"
proof (induction cs arbitrary: b h)
  case (Cons c cs)
  then show ?case by (auto split: prod.splits option.splits if_splits)
qed simp

end
