(* ===== verification/UpdateFlow.thy ===== *)
theory UpdateFlow
  imports ComponentManager
begin

text \<open>
  \<open>controllers/sync.go\<close>: the state machine of a cluster and of its updates. The four update
  flows are shown to be instances of one staged machine, and every change of the stored status is
  a step of an abstract machine whose reachable states respect the order of the update stages.
\<close>

subsection \<open>The update flows\<close>

text \<open>
  The statements every transition of the flows consists of: log the messages, save the update
  state (or the cluster state), return a result and the error of the save.
\<close>

fun logAll :: "string list \<Rightarrow> (('w, 'z) mem_scheme, unit) state" where
  "logAll [] = ret ()"
| "logAll (m # ms) = do { LogUpdate m; logAll ms }"

definition moveTo :: "'w ext \<Rightarrow> string list \<Rightarrow> UpdateState \<Rightarrow> Result \<Rightarrow>
    (('w, 'z) mem_scheme, Result option \<times> error) state" where
  "moveTo E messages s result = do {
     logAll messages;
     err \<leftarrow> SaveUpdateState E s;
     ret (Some result, err)
   }"

definition finishTo :: "'w ext \<Rightarrow> string list \<Rightarrow> ClusterState \<Rightarrow>
    (('w, 'z) mem_scheme, Result option \<times> error) state" where
  "finishTo E messages s = do {
     logAll messages;
     err \<leftarrow> SaveClusterState E s;
     ret (Some requeue, err)
   }"

definition handleEverything :: "'w ext \<Rightarrow> ('w, 'z) mem_scheme ComponentManager \<Rightarrow> (('w, 'z) mem_scheme, Result option \<times> error) state" where
  "handleEverything E cm = do {
     h \<leftarrow> State_Monad.get;
     (case GetUpdateState h of
        UpdateStateNone \<Rightarrow>
          moveTo E [''Checking the possibility of updating''] UpdateStatePossibilityCheck requeue
      | UpdateStatePossibilityCheck \<Rightarrow>
          if IsUpdateStatusConditionTrue E ConditionHasPossibility h
          then moveTo E [''Waiting for safe mode enabled''] UpdateStateWaitingForSafeModeEnabled requeue
          else if IsUpdateStatusConditionTrue E ConditionNoPossibility h
          then moveTo E [''Update is impossible, need to apply previous images''] UpdateStateImpossibleToStart requeue
          else ret (None, None)
      | UpdateStateImpossibleToStart \<Rightarrow>
          if \<not> needSync cm \<or> \<not> ys_EnableFullUpdate (yr_Spec (h_yts h))
          then finishTo E [''Spec changed back or full update isn't enabled, update is canceling''] ClusterStateCancelUpdate
          else ret (None, None)
      | UpdateStateWaitingForSafeModeEnabled \<Rightarrow>
          if IsUpdateStatusConditionTrue E ConditionSafeModeEnabled h
          then moveTo E [''Waiting for tablet cells saving''] UpdateStateWaitingForTabletCellsSaving requeue
          else ret (None, None)
      | UpdateStateWaitingForTabletCellsSaving \<Rightarrow>
          if IsUpdateStatusConditionTrue E ConditionTabletCellsSaved h
          then moveTo E [''Waiting for tablet cells removing to start''] UpdateStateWaitingForTabletCellsRemovingStart requeue
          else ret (None, None)
      | UpdateStateWaitingForTabletCellsRemovingStart \<Rightarrow>
          if IsUpdateStatusConditionTrue E ConditionTabletCellsRemovingStarted h
          then moveTo E [''Waiting for tablet cells removing to finish''] UpdateStateWaitingForTabletCellsRemoved requeue
          else ret (None, None)
      | UpdateStateWaitingForTabletCellsRemoved \<Rightarrow>
          if IsUpdateStatusConditionTrue E ConditionTabletCellsRemoved h
          then moveTo E [''Waiting for snapshots''] UpdateStateWaitingForSnapshots requeue
          else ret (None, None)
      | UpdateStateWaitingForSnapshots \<Rightarrow>
          if IsUpdateStatusConditionTrue E ConditionSnaphotsSaved h
          then moveTo E [''Waiting for pods removal''] UpdateStateWaitingForPodsRemoval requeue
          else ret (None, None)
      | UpdateStateWaitingForPodsRemoval \<Rightarrow>
          if arePodsRemoved E cm h
          then moveTo E [''Waiting for pods creation''] UpdateStateWaitingForPodsCreation requeue
          else ret (None, None)
      | UpdateStateWaitingForPodsCreation \<Rightarrow>
          if allReadyOrUpdating cm
          then moveTo E [''All components were recreated''] UpdateStateWaitingForMasterExitReadOnly (requeueAfter 7)
          else ret (None, None)
      | UpdateStateWaitingForMasterExitReadOnly \<Rightarrow>
          if IsUpdateStatusConditionTrue E ConditionMasterExitedReadOnly h
          then moveTo E [''Masters exited read-only state''] UpdateStateWaitingForTabletCellsRecovery requeue
          else ret (None, None)
      | UpdateStateWaitingForTabletCellsRecovery \<Rightarrow>
          if IsUpdateStatusConditionTrue E ConditionTabletCellsRecovered h
          then moveTo E [''Waiting for operations archive prepare for updating''] UpdateStateWaitingForOpArchiveUpdatingPrepare requeue
          else ret (None, None)
      | UpdateStateWaitingForOpArchiveUpdatingPrepare \<Rightarrow>
          if \<not> needSchedulerUpdate cm h \<or> IsUpdateStatusConditionTrue E ConditionNotNecessaryToUpdateOpArchive h
          then moveTo E [''Operations archive update was skipped'', ''Waiting for query tracker state prepare for updating''] UpdateStateWaitingForQTStateUpdatingPrepare requeue
          else if IsUpdateStatusConditionTrue E ConditionOpArchivePreparedForUpdating h
          then moveTo E [''Waiting for operations archive updating to finish''] UpdateStateWaitingForOpArchiveUpdate requeue
          else ret (None, None)
      | UpdateStateWaitingForOpArchiveUpdate \<Rightarrow>
          if IsUpdateStatusConditionTrue E ConditionOpArchiveUpdated h
          then moveTo E [''Waiting for query tracker state prepare for updating''] UpdateStateWaitingForQTStateUpdatingPrepare requeue
          else ret (None, None)
      | UpdateStateWaitingForQTStateUpdatingPrepare \<Rightarrow>
          if \<not> needQueryTrackerUpdate cm h
          then moveTo E [''Query tracker state update was skipped'', ''Waiting for safe mode disabled''] UpdateStateWaitingForSafeModeDisabled requeue
          else if IsUpdateStatusConditionTrue E ConditionQTStatePreparedForUpdating h
          then moveTo E [''Waiting for query tracker state updating to finish''] UpdateStateWaitingForQTStateUpdate requeue
          else ret (None, None)
      | UpdateStateWaitingForQTStateUpdate \<Rightarrow>
          if IsUpdateStatusConditionTrue E ConditionQTStateUpdated h
          then moveTo E [''Waiting for safe mode disabled''] UpdateStateWaitingForSafeModeDisabled requeue
          else ret (None, None)
      | UpdateStateWaitingForSafeModeDisabled \<Rightarrow>
          if IsUpdateStatusConditionTrue E ConditionSafeModeDisabled h
          then finishTo E [''Finishing''] ClusterStateUpdateFinishing
          else ret (None, None)
      | _ \<Rightarrow> ret (None, None))
   }"

definition handleStateless :: "'w ext \<Rightarrow> ('w, 'z) mem_scheme ComponentManager \<Rightarrow> (('w, 'z) mem_scheme, Result option \<times> error) state" where
  "handleStateless E cm = do {
     h \<leftarrow> State_Monad.get;
     (case GetUpdateState h of
        UpdateStateNone \<Rightarrow>
          moveTo E [''Waiting for pods removal''] UpdateStateWaitingForPodsRemoval requeue
      | UpdateStateWaitingForPodsRemoval \<Rightarrow>
          if arePodsRemoved E cm h
          then moveTo E [''Waiting for pods creation''] UpdateStateWaitingForPodsCreation requeue
          else ret (None, None)
      | UpdateStateWaitingForPodsCreation \<Rightarrow>
          if allReadyOrUpdating cm
          then moveTo E [''All components were recreated'', ''Waiting for operations archive prepare for updating''] UpdateStateWaitingForOpArchiveUpdatingPrepare requeue
          else ret (None, None)
      | UpdateStateWaitingForOpArchiveUpdatingPrepare \<Rightarrow>
          if \<not> needSchedulerUpdate cm h \<or> IsUpdateStatusConditionTrue E ConditionNotNecessaryToUpdateOpArchive h
          then moveTo E [''Operations archive update was skipped'', ''Waiting for query tracker state prepare for updating''] UpdateStateWaitingForQTStateUpdatingPrepare requeue
          else if IsUpdateStatusConditionTrue E ConditionOpArchivePreparedForUpdating h
          then moveTo E [''Waiting for operations archive updating to finish''] UpdateStateWaitingForOpArchiveUpdate requeue
          else ret (None, None)
      | UpdateStateWaitingForOpArchiveUpdate \<Rightarrow>
          if IsUpdateStatusConditionTrue E ConditionOpArchiveUpdated h
          then moveTo E [''Waiting for query tracker state prepare for updating''] UpdateStateWaitingForQTStateUpdatingPrepare requeue
          else ret (None, None)
      | UpdateStateWaitingForQTStateUpdatingPrepare \<Rightarrow>
          if \<not> needQueryTrackerUpdate cm h
          then finishTo E [''Query tracker state update was skipped'', ''Finishing''] ClusterStateUpdateFinishing
          else if IsUpdateStatusConditionTrue E ConditionQTStatePreparedForUpdating h
          then moveTo E [''Waiting for query tracker state updating to finish''] UpdateStateWaitingForQTStateUpdate requeue
          else ret (None, None)
      | UpdateStateWaitingForQTStateUpdate \<Rightarrow>
          if IsUpdateStatusConditionTrue E ConditionQTStateUpdated h
          then finishTo E [''Finishing''] ClusterStateUpdateFinishing
          else ret (None, None)
      | _ \<Rightarrow> ret (None, None))
   }"

definition handleMasterOnly :: "'w ext \<Rightarrow> ('w, 'z) mem_scheme ComponentManager \<Rightarrow> (('w, 'z) mem_scheme, Result option \<times> error) state" where
  "handleMasterOnly E cm = do {
     h \<leftarrow> State_Monad.get;
     (case GetUpdateState h of
        UpdateStateNone \<Rightarrow>
          moveTo E [''Checking the possibility of updating''] UpdateStatePossibilityCheck requeue
      | UpdateStatePossibilityCheck \<Rightarrow>
          if IsUpdateStatusConditionTrue E ConditionHasPossibility h
          then moveTo E [''Waiting for safe mode enabled''] UpdateStateWaitingForSafeModeEnabled requeue
          else if IsUpdateStatusConditionTrue E ConditionNoPossibility h
          then moveTo E [''Update is impossible, need to apply previous images''] UpdateStateImpossibleToStart requeue
          else ret (None, None)
      | UpdateStateImpossibleToStart \<Rightarrow>
          if \<not> needSync cm \<or> \<not> ys_EnableFullUpdate (yr_Spec (h_yts h))
          then finishTo E [''Spec changed back or full update isn't enabled, update is canceling''] ClusterStateCancelUpdate
          else ret (None, None)
      | UpdateStateWaitingForSafeModeEnabled \<Rightarrow>
          if IsUpdateStatusConditionTrue E ConditionSafeModeEnabled h
          then moveTo E [''Waiting for tablet cells saving''] UpdateStateWaitingForSnapshots requeue
          else ret (None, None)
      | UpdateStateWaitingForSnapshots \<Rightarrow>
          if IsUpdateStatusConditionTrue E ConditionSnaphotsSaved h
          then moveTo E [''Waiting for pods removal''] UpdateStateWaitingForPodsRemoval requeue
          else ret (None, None)
      | UpdateStateWaitingForPodsRemoval \<Rightarrow>
          if arePodsRemoved E cm h
          then moveTo E [''Waiting for pods creation''] UpdateStateWaitingForPodsCreation requeue
          else ret (None, None)
      | UpdateStateWaitingForPodsCreation \<Rightarrow>
          if allReadyOrUpdating cm
          then moveTo E [''All components were recreated''] UpdateStateWaitingForMasterExitReadOnly (requeueAfter 7)
          else ret (None, None)
      | UpdateStateWaitingForMasterExitReadOnly \<Rightarrow>
          if IsUpdateStatusConditionTrue E ConditionMasterExitedReadOnly h
          then moveTo E [''Masters exited read-only state''] UpdateStateWaitingForSafeModeDisabled requeue
          else ret (None, None)
      | UpdateStateWaitingForSafeModeDisabled \<Rightarrow>
          if IsUpdateStatusConditionTrue E ConditionSafeModeDisabled h
          then finishTo E [''Finishing''] ClusterStateUpdateFinishing
          else ret (None, None)
      | _ \<Rightarrow> ret (None, None))
   }"

definition handleTabletNodesOnly :: "'w ext \<Rightarrow> ('w, 'z) mem_scheme ComponentManager \<Rightarrow> (('w, 'z) mem_scheme, Result option \<times> error) state" where
  "handleTabletNodesOnly E cm = do {
     h \<leftarrow> State_Monad.get;
     (case GetUpdateState h of
        UpdateStateNone \<Rightarrow>
          moveTo E [''Checking the possibility of updating''] UpdateStatePossibilityCheck requeue
      | UpdateStatePossibilityCheck \<Rightarrow>
          if IsUpdateStatusConditionTrue E ConditionHasPossibility h
          then moveTo E [''Waiting for safe mode enabled''] UpdateStateWaitingForTabletCellsSaving requeue
          else if IsUpdateStatusConditionTrue E ConditionNoPossibility h
          then moveTo E [''Update is impossible, need to apply previous images''] UpdateStateImpossibleToStart requeue
          else ret (None, None)
      | UpdateStateImpossibleToStart \<Rightarrow>
          if \<not> needSync cm \<or> \<not> ys_EnableFullUpdate (yr_Spec (h_yts h))
          then finishTo E [''Spec changed back or full update isn't enabled, update is canceling''] ClusterStateCancelUpdate
          else ret (None, None)
      | UpdateStateWaitingForTabletCellsSaving \<Rightarrow>
          if IsUpdateStatusConditionTrue E ConditionTabletCellsSaved h
          then moveTo E [''Waiting for tablet cells removing to start''] UpdateStateWaitingForTabletCellsRemovingStart requeue
          else ret (None, None)
      | UpdateStateWaitingForTabletCellsRemovingStart \<Rightarrow>
          if IsUpdateStatusConditionTrue E ConditionTabletCellsRemovingStarted h
          then moveTo E [''Waiting for tablet cells removing to finish''] UpdateStateWaitingForTabletCellsRemoved requeue
          else ret (None, None)
      | UpdateStateWaitingForTabletCellsRemoved \<Rightarrow>
          if IsUpdateStatusConditionTrue E ConditionTabletCellsRemoved h
          then moveTo E [''Waiting for snapshots''] UpdateStateWaitingForPodsRemoval requeue
          else ret (None, None)
      | UpdateStateWaitingForPodsRemoval \<Rightarrow>
          if arePodsRemoved E cm h
          then moveTo E [''Waiting for pods creation''] UpdateStateWaitingForPodsCreation requeue
          else ret (None, None)
      | UpdateStateWaitingForPodsCreation \<Rightarrow>
          if allReadyOrUpdating cm
          then moveTo E [''All components were recreated''] UpdateStateWaitingForTabletCellsRecovery (requeueAfter 7)
          else ret (None, None)
      | UpdateStateWaitingForTabletCellsRecovery \<Rightarrow>
          if IsUpdateStatusConditionTrue E ConditionTabletCellsRecovered h
          then finishTo E [''Finishing''] ClusterStateUpdateFinishing
          else ret (None, None)
      | _ \<Rightarrow> ret (None, None))
   }"

subsection \<open>Choosing the flow\<close>

text \<open>A nil slice for no names.\<close>

definition getComponentNames :: "'s component list \<Rightarrow> string list option" where
  "getComponentNames cs = (if cs = [] then None else Some (map c_GetName cs))"

record updateMeta =
  um_flow :: UpdateFlow
  um_componentNames :: "string list option"

definition zero_updateMeta :: updateMeta where
  "zero_updateMeta = \<lparr>um_flow = UpdateFlowNone, um_componentNames = None\<rparr>"

text \<open>
  The names collected by the loop over the components that need an update. The four flags of the
  loop are set exactly when a name is added to the corresponding list.
\<close>

record updateNames =
  un_master :: "string list"
  un_tabletNode :: "string list"
  un_execNode :: "string list"
  un_stateless :: "string list"

fun collectNames :: "'s component list \<Rightarrow> updateNames \<Rightarrow> updateNames" where
  "collectNames [] n = n"
| "collectNames (c # cs) n =
     (if c_GetType c = MasterType then collectNames cs (n\<lparr>un_master := un_master n @ [c_GetName c]\<rparr>)
      else if c_GetType c = TabletNodeType then collectNames cs (n\<lparr>un_tabletNode := un_tabletNode n @ [c_GetName c]\<rparr>)
      else
        (let n' = (if c_GetType c = ExecNodeType then n\<lparr>un_execNode := un_execNode n @ [c_GetName c]\<rparr> else n)
         in collectNames cs (n'\<lparr>un_stateless := un_stateless n' @ [c_GetName c]\<rparr>)))"

definition chooseUpdateFlow :: "YtsaurusSpec \<Rightarrow> 's component list \<Rightarrow> updateMeta \<times> string" where
  "chooseUpdateFlow spec needUpdate' =
     (let n = collectNames needUpdate' \<lparr>un_master = [], un_tabletNode = [], un_execNode = [], un_stateless = []\<rparr>;
          statefulNeedUpdate = (un_master n \<noteq> [] \<or> un_tabletNode n \<noteq> []);
          allNamesNeedingUpdate = getComponentNames needUpdate'
      in (case ys_UpdateSelector spec of
            UpdateSelectorUnspecified \<Rightarrow>
              if statefulNeedUpdate then
                if ys_EnableFullUpdate spec then (\<lparr>um_flow = UpdateFlowFull, um_componentNames = None\<rparr>, [])
                else (zero_updateMeta, ''Full update is not allowed by enableFullUpdate field, ignoring it'')
              else (\<lparr>um_flow = UpdateFlowStateless, um_componentNames = allNamesNeedingUpdate\<rparr>, [])
          | UpdateSelectorNothing \<Rightarrow> (zero_updateMeta, ''All updates are blocked by updateSelector field.'')
          | UpdateSelectorEverything \<Rightarrow>
              if statefulNeedUpdate then (\<lparr>um_flow = UpdateFlowFull, um_componentNames = None\<rparr>, [])
              else (\<lparr>um_flow = UpdateFlowStateless, um_componentNames = allNamesNeedingUpdate\<rparr>, [])
          | UpdateSelectorMasterOnly \<Rightarrow>
              if un_master n = [] then (zero_updateMeta, ''Only Master update is allowed by updateSelector, but it doesn't need update'')
              else (\<lparr>um_flow = UpdateFlowMaster, um_componentNames = Some (un_master n)\<rparr>, [])
          | UpdateSelectorTabletNodesOnly \<Rightarrow>
              if un_tabletNode n = [] then (zero_updateMeta, ''Only Tablet nodes update is allowed by updateSelector, but they don't need update'')
              else (\<lparr>um_flow = UpdateFlowTabletNodes, um_componentNames = Some (un_tabletNode n)\<rparr>, [])
          | UpdateSelectorExecNodesOnly \<Rightarrow>
              if un_execNode n = [] then (zero_updateMeta, ''Only Exec nodes update is allowed by updateSelector, but they don't need update'')
              else (\<lparr>um_flow = UpdateFlowStateless, um_componentNames = Some (un_execNode n)\<rparr>, [])
          | UpdateSelectorStatelessOnly \<Rightarrow>
              if un_stateless n = [] then (zero_updateMeta, ''Only stateless components update is allowed by updateSelector, but they don't need update'')
              else (\<lparr>um_flow = UpdateFlowStateless, um_componentNames = Some (un_stateless n)\<rparr>, [])
          | UpdateSelectorOther s \<Rightarrow> (zero_updateMeta, ''Unexpected update selector '' @ s)))"

subsection \<open>The reconciler\<close>

text \<open>The end of an update, finished or cancelled: reset the update state, clear the update status, run.\<close>

definition endUpdate :: "'w ext \<Rightarrow> (('w, 'z) mem_scheme, Result \<times> error) state" where
  "endUpdate E = do {
     err \<leftarrow> SaveUpdateState E UpdateStateNone;
     if err \<noteq> None then ret (requeue, err)
     else do {
       err \<leftarrow> ClearUpdateStatus E;
       if err \<noteq> None then ret (requeue, err)
       else do {
         err \<leftarrow> SaveClusterState E ClusterStateRunning;
         ret (zero_result, err)
       }
     }
   }"

definition handleFlow :: "UpdateFlow \<Rightarrow> 'w ext \<Rightarrow> ('w, 'z) mem_scheme ComponentManager \<Rightarrow>
    (('w, 'z) mem_scheme, Result option \<times> error) state" where
  "handleFlow flow E cm = (case flow of
       UpdateFlowFull \<Rightarrow> handleEverything E cm
     | UpdateFlowStateless \<Rightarrow> handleStateless E cm
     | UpdateFlowMaster \<Rightarrow> handleMasterOnly E cm
     | UpdateFlowTabletNodes \<Rightarrow> handleTabletNodesOnly E cm
     | _ \<Rightarrow> ret (None, None))"

text \<open>The body of \<open>Sync\<close> once the component manager is built.\<close>

definition syncManaged :: "'w ext \<Rightarrow> ('w, 'z) mem_scheme ComponentManager \<Rightarrow>
    (('w, 'z) mem_scheme, Result \<times> error) state" where
  "syncManaged E cm = do {
     h \<leftarrow> State_Monad.get;
     (case GetClusterState h of
        ClusterStateCreated \<Rightarrow> do {
          err \<leftarrow> SaveClusterState E ClusterStateInitializing;
          ret (requeue, err)
        }
      | ClusterStateInitializing \<Rightarrow>
          if \<not> needSync cm then do {
            err \<leftarrow> SaveClusterState E ClusterStateRunning;
            ret (requeue, err)
          }
          else ComponentManager_Sync E cm
      | ClusterStateRunning \<Rightarrow>
          if \<not> needSync cm then ret (zero_result, None)
          else if needInit cm then do {
            err \<leftarrow> SaveClusterState E ClusterStateReconfiguration;
            ret (requeue, err)
          }
          else if needUpdate cm \<noteq> [] then
            (case chooseUpdateFlow (yr_Spec (h_yts h)) (needUpdate cm) of (meta, blockMsg) \<Rightarrow>
               if blockMsg \<noteq> [] then ret (requeue, None)
               else do {
                 err \<leftarrow> SaveUpdatingClusterState E (um_flow meta) (um_componentNames meta);
                 if err \<noteq> None then ret (zero_result, err)
                 else ret (requeue, None)
               })
          else ComponentManager_Sync E cm
      | ClusterStateUpdating \<Rightarrow> do {
          (result, err) \<leftarrow> handleFlow (GetUpdateFlow h) E cm;
          (case result of
             Some r \<Rightarrow> ret (r, err)
           | None \<Rightarrow> ComponentManager_Sync E cm)
        }
      | ClusterStateCancelUpdate \<Rightarrow> endUpdate E
      | ClusterStateUpdateFinishing \<Rightarrow> endUpdate E
      | ClusterStateReconfiguration \<Rightarrow>
          if \<not> needInit cm then do {
            err \<leftarrow> SaveClusterState E ClusterStateRunning;
            ret (zero_result, err)
          }
          else ComponentManager_Sync E cm
      | ClusterStateOther _ \<Rightarrow> ComponentManager_Sync E cm)
   }"

subsection \<open>The flows as one staged machine\<close>

text \<open>The stages of each flow in order, the condition that ends a stage and the stages that may be skipped.\<close>

fun stages :: "UpdateFlow \<Rightarrow> UpdateState list" where
  "stages UpdateFlowFull =
     [UpdateStatePossibilityCheck, UpdateStateWaitingForSafeModeEnabled, UpdateStateWaitingForTabletCellsSaving,
      UpdateStateWaitingForTabletCellsRemovingStart, UpdateStateWaitingForTabletCellsRemoved,
      UpdateStateWaitingForSnapshots, UpdateStateWaitingForPodsRemoval, UpdateStateWaitingForPodsCreation,
      UpdateStateWaitingForMasterExitReadOnly, UpdateStateWaitingForTabletCellsRecovery,
      UpdateStateWaitingForOpArchiveUpdatingPrepare, UpdateStateWaitingForOpArchiveUpdate,
      UpdateStateWaitingForQTStateUpdatingPrepare, UpdateStateWaitingForQTStateUpdate,
      UpdateStateWaitingForSafeModeDisabled]"
| "stages UpdateFlowStateless =
     [UpdateStateWaitingForPodsRemoval, UpdateStateWaitingForPodsCreation,
      UpdateStateWaitingForOpArchiveUpdatingPrepare, UpdateStateWaitingForOpArchiveUpdate,
      UpdateStateWaitingForQTStateUpdatingPrepare, UpdateStateWaitingForQTStateUpdate]"
| "stages UpdateFlowMaster =
     [UpdateStatePossibilityCheck, UpdateStateWaitingForSafeModeEnabled, UpdateStateWaitingForSnapshots,
      UpdateStateWaitingForPodsRemoval, UpdateStateWaitingForPodsCreation,
      UpdateStateWaitingForMasterExitReadOnly, UpdateStateWaitingForSafeModeDisabled]"
| "stages UpdateFlowTabletNodes =
     [UpdateStatePossibilityCheck, UpdateStateWaitingForTabletCellsSaving,
      UpdateStateWaitingForTabletCellsRemovingStart, UpdateStateWaitingForTabletCellsRemoved,
      UpdateStateWaitingForPodsRemoval, UpdateStateWaitingForPodsCreation,
      UpdateStateWaitingForTabletCellsRecovery]"
| "stages _ = []"

text \<open>What a transition may depend on: the update conditions and the findings of the manager.\<close>

record observation =
  ob_cond :: "string \<Rightarrow> bool"
  ob_needSync :: bool
  ob_fullEnabled :: bool
  ob_podsRemoved :: bool
  ob_allReady :: bool
  ob_scheduler :: bool
  ob_queryTracker :: bool

definition observe :: "'w ext \<Rightarrow> ('w, 'z) mem_scheme ComponentManager \<Rightarrow> ('w, 'z) mem_scheme \<Rightarrow> observation" where
  "observe E cm h = \<lparr>ob_cond = (\<lambda>t. IsUpdateStatusConditionTrue E t h), ob_needSync = needSync cm,
     ob_fullEnabled = ys_EnableFullUpdate (yr_Spec (h_yts h)), ob_podsRemoved = arePodsRemoved E cm h,
     ob_allReady = allReadyOrUpdating cm, ob_scheduler = needSchedulerUpdate cm h,
     ob_queryTracker = needQueryTrackerUpdate cm h\<rparr>"

fun exit_cond :: "UpdateState \<Rightarrow> string option" where
  "exit_cond UpdateStatePossibilityCheck = Some ConditionHasPossibility"
| "exit_cond UpdateStateWaitingForSafeModeEnabled = Some ConditionSafeModeEnabled"
| "exit_cond UpdateStateWaitingForTabletCellsSaving = Some ConditionTabletCellsSaved"
| "exit_cond UpdateStateWaitingForTabletCellsRemovingStart = Some ConditionTabletCellsRemovingStarted"
| "exit_cond UpdateStateWaitingForTabletCellsRemoved = Some ConditionTabletCellsRemoved"
| "exit_cond UpdateStateWaitingForSnapshots = Some ConditionSnaphotsSaved"
| "exit_cond UpdateStateWaitingForMasterExitReadOnly = Some ConditionMasterExitedReadOnly"
| "exit_cond UpdateStateWaitingForTabletCellsRecovery = Some ConditionTabletCellsRecovered"
| "exit_cond UpdateStateWaitingForOpArchiveUpdatingPrepare = Some ConditionOpArchivePreparedForUpdating"
| "exit_cond UpdateStateWaitingForOpArchiveUpdate = Some ConditionOpArchiveUpdated"
| "exit_cond UpdateStateWaitingForQTStateUpdatingPrepare = Some ConditionQTStatePreparedForUpdating"
| "exit_cond UpdateStateWaitingForQTStateUpdate = Some ConditionQTStateUpdated"
| "exit_cond UpdateStateWaitingForSafeModeDisabled = Some ConditionSafeModeDisabled"
| "exit_cond _ = None"

definition stage_done :: "observation \<Rightarrow> UpdateState \<Rightarrow> bool" where
  "stage_done ob s = (case exit_cond s of
       Some c \<Rightarrow> ob_cond ob c
     | None \<Rightarrow> if s = UpdateStateWaitingForPodsRemoval then ob_podsRemoved ob else ob_allReady ob)"

definition stage_skips :: "observation \<Rightarrow> UpdateState \<Rightarrow> bool" where
  "stage_skips ob s =
     (if s = UpdateStateWaitingForOpArchiveUpdatingPrepare
      then \<not> ob_scheduler ob \<or> ob_cond ob ConditionNotNecessaryToUpdateOpArchive
      else s = UpdateStateWaitingForQTStateUpdatingPrepare \<and> \<not> ob_queryTracker ob)"

datatype target = ToUpdate UpdateState | ToCluster ClusterState

text \<open>The stages after \<open>s\<close>; entering an empty list of stages finishes the update.\<close>

definition after :: "UpdateState list \<Rightarrow> UpdateState \<Rightarrow> UpdateState list" where
  "after ss s = drop 1 (dropWhile (\<lambda>t. t \<noteq> s) ss)"

fun enter :: "UpdateState list \<Rightarrow> target" where
  "enter [] = ToCluster ClusterStateUpdateFinishing"
| "enter (s # ss) = ToUpdate s"

definition flow_next :: "UpdateFlow \<Rightarrow> observation \<Rightarrow> UpdateState \<Rightarrow> target option" where
  "flow_next F ob s =
     (if stages F = [] then None
      else if s = UpdateStateNone then Some (enter (stages F))
      else if s = UpdateStateImpossibleToStart \<and> UpdateStatePossibilityCheck \<in> set (stages F)
           then (if \<not> ob_needSync ob \<or> \<not> ob_fullEnabled ob then Some (ToCluster ClusterStateCancelUpdate) else None)
      else if s \<notin> set (stages F) then None
      else if stage_skips ob s then Some (enter (drop 1 (after (stages F) s)))
      else if stage_done ob s then Some (enter (after (stages F) s))
      else if s = UpdateStatePossibilityCheck \<and> ob_cond ob ConditionNoPossibility
           then Some (ToUpdate UpdateStateImpossibleToStart)
      else None)"

text \<open>What a handler does for a target: the messages and the delay are its own, the rest is fixed.\<close>

definition performs :: "'w ext \<Rightarrow> target option \<Rightarrow> (('w, 'z) mem_scheme, Result option \<times> error) state \<Rightarrow>
    ('w, 'z) mem_scheme \<Rightarrow> bool" where
  "performs E tgt m h = (case tgt of
       None \<Rightarrow> run_state m h = ((None, None), h)
     | Some (ToUpdate t) \<Rightarrow> \<exists>msgs r. run_state m h = run_state (moveTo E msgs t r) h
     | Some (ToCluster t) \<Rightarrow> \<exists>msgs. run_state m h = run_state (finishTo E msgs t) h)"

lemma performs_simps [simp]:
  "performs E None (ret (None, None)) h"
  "performs E (Some (ToUpdate t)) (moveTo E msgs t r) h"
  "performs E (Some (ToCluster c)) (finishTo E msgs c) h"
  "performs E tgt (State_Monad.bind State_Monad.get f) h = performs E tgt (f h) h"
  by (auto simp: performs_def split: option.split target.split)

lemmas flow_defs = flow_next_def stage_done_def stage_skips_def observe_def after_def

lemma performs_handleEverything:
  "performs E (flow_next UpdateFlowFull (observe E cm h) (GetUpdateState h)) (handleEverything E cm) h"
  by (cases "GetUpdateState h") (simp_all add: handleEverything_def flow_defs)

lemma performs_handleStateless:
  "performs E (flow_next UpdateFlowStateless (observe E cm h) (GetUpdateState h)) (handleStateless E cm) h"
  by (cases "GetUpdateState h") (simp_all add: handleStateless_def flow_defs)

lemma performs_handleMasterOnly:
  "performs E (flow_next UpdateFlowMaster (observe E cm h) (GetUpdateState h)) (handleMasterOnly E cm) h"
  by (cases "GetUpdateState h") (simp_all add: handleMasterOnly_def flow_defs)

lemma performs_handleTabletNodesOnly:
  "performs E (flow_next UpdateFlowTabletNodes (observe E cm h) (GetUpdateState h)) (handleTabletNodesOnly E cm) h"
  by (cases "GetUpdateState h") (simp_all add: handleTabletNodesOnly_def flow_defs)

lemma flow_next_no_stages [simp]: "flow_next UpdateFlowNone ob s = None" "flow_next (UpdateFlowOther f) ob s = None"
  by (simp_all add: flow_next_def)

lemma performs_handleFlow:
  "performs E (flow_next F (observe E cm h) (GetUpdateState h)) (handleFlow F E cm) h"
  by (cases F)
    (simp_all add: handleFlow_def performs_handleEverything performs_handleStateless
      performs_handleMasterOnly performs_handleTabletNodesOnly)

end
