(* ===== verification/Lifecycle.thy ===== *)
theory Lifecycle
  imports UpdateFlow
begin

text \<open>
  The life of a cluster as an abstract machine over the control part of its status and the set of
  update conditions that are true. The reconciler refines the machine: whatever a reconciliation
  stores, also when it fails half-way, is reachable by steps of the machine. The invariant of the
  machine says in which order an update goes through its stages.
\<close>

subsection \<open>The machine\<close>

record cluster = control +
  ctl_Conds :: "string set"

definition abs_status :: "YtsaurusStatus \<Rightarrow> cluster" where
  "abs_status s = \<lparr>ctl_State = st_State s, ctl_UpdateState = us_State (st_UpdateStatus s),
     ctl_Flow = us_Flow (st_UpdateStatus s), ctl_Components = us_Components (st_UpdateStatus s),
     ctl_Conds = {t. status_of (us_Conditions (st_UpdateStatus s)) t = Some ConditionTrue}\<rparr>"

text \<open>The flows an update can start with: a full update has no list of names, the others have one.\<close>

definition choice_ok :: "UpdateFlow \<Rightarrow> string list option \<Rightarrow> bool" where
  "choice_ok F ns \<longleftrightarrow> stages F \<noteq> [] \<and> (ns = None \<longleftrightarrow> F = UpdateFlowFull) \<and> ns \<noteq> Some []"

definition ending :: "ClusterState \<Rightarrow> bool" where
  "ending s \<longleftrightarrow> s = ClusterStateUpdateFinishing \<or> s = ClusterStateCancelUpdate"

inductive cluster_step :: "cluster \<Rightarrow> cluster \<Rightarrow> bool" where
  progress: "ctl_Conds a - {ConditionMasterExitReadOnlyPrepared} \<subseteq> C \<Longrightarrow>
    ctl_State a = ClusterStateUpdating \<or> C = ctl_Conds a \<Longrightarrow> cluster_step a (a\<lparr>ctl_Conds := C\<rparr>)"
| create: "ctl_State a = ClusterStateCreated \<Longrightarrow> cluster_step a (a\<lparr>ctl_State := ClusterStateInitializing\<rparr>)"
| run: "ctl_State a = ClusterStateInitializing \<or> ctl_State a = ClusterStateReconfiguration \<Longrightarrow>
    cluster_step a (a\<lparr>ctl_State := ClusterStateRunning\<rparr>)"
| reconfigure: "ctl_State a = ClusterStateRunning \<Longrightarrow> cluster_step a (a\<lparr>ctl_State := ClusterStateReconfiguration\<rparr>)"
| start: "ctl_State a = ClusterStateRunning \<Longrightarrow> choice_ok F ns \<Longrightarrow>
    cluster_step a (a\<lparr>ctl_State := ClusterStateUpdating, ctl_Flow := F, ctl_Components := ns\<rparr>)"
| move: "ctl_State a = ClusterStateUpdating \<Longrightarrow> ob_cond ob = (\<lambda>t. t \<in> ctl_Conds a) \<Longrightarrow>
    flow_next (ctl_Flow a) ob (ctl_UpdateState a) = Some (ToUpdate t) \<Longrightarrow>
    cluster_step a (a\<lparr>ctl_UpdateState := t\<rparr>)"
| finish: "ctl_State a = ClusterStateUpdating \<Longrightarrow> ob_cond ob = (\<lambda>t. t \<in> ctl_Conds a) \<Longrightarrow>
    flow_next (ctl_Flow a) ob (ctl_UpdateState a) = Some (ToCluster c) \<Longrightarrow>
    cluster_step a (a\<lparr>ctl_State := c\<rparr>)"
| reset: "ending (ctl_State a) \<Longrightarrow> cluster_step a (a\<lparr>ctl_UpdateState := UpdateStateNone\<rparr>)"
| clear: "ending (ctl_State a) \<Longrightarrow> ctl_UpdateState a = UpdateStateNone \<Longrightarrow>
    cluster_step a (a\<lparr>ctl_Flow := UpdateFlowNone, ctl_Components := None, ctl_Conds := {}\<rparr>)"
| rerun: "ending (ctl_State a) \<Longrightarrow> ctl_UpdateState a = UpdateStateNone \<Longrightarrow> ctl_Flow a = UpdateFlowNone \<Longrightarrow>
    ctl_Components a = None \<Longrightarrow> ctl_Conds a = {} \<Longrightarrow> cluster_step a (a\<lparr>ctl_State := ClusterStateRunning\<rparr>)"

subsection \<open>The order of the stages\<close>

text \<open>The stages an update cannot skip, and the conditions that must hold once it is past them.\<close>

definition optional_stages :: "UpdateState set" where
  "optional_stages = {UpdateStateWaitingForOpArchiveUpdatingPrepare, UpdateStateWaitingForOpArchiveUpdate,
     UpdateStateWaitingForQTStateUpdatingPrepare, UpdateStateWaitingForQTStateUpdate}"

definition passed :: "UpdateFlow \<Rightarrow> UpdateState \<Rightarrow> UpdateState list" where
  "passed F s = filter (\<lambda>t. t \<notin> optional_stages) (takeWhile (\<lambda>t. t \<noteq> s) (stages F))"

definition required_conds :: "UpdateFlow \<Rightarrow> UpdateState \<Rightarrow> string list" where
  "required_conds F s = (if s \<in> set (stages F) then List.map_filter exit_cond (passed F s) else [])"

definition idle :: "cluster \<Rightarrow> bool" where
  "idle a \<longleftrightarrow> ctl_UpdateState a = UpdateStateNone \<and> ctl_Flow a = UpdateFlowNone \<and>
     ctl_Components a = None \<and> ctl_Conds a = {}"

definition updating_ok :: "cluster \<Rightarrow> bool" where
  "updating_ok a \<longleftrightarrow> choice_ok (ctl_Flow a) (ctl_Components a) \<and>
     (ctl_UpdateState a = UpdateStateNone \<or> ctl_UpdateState a \<in> set (stages (ctl_Flow a)) \<or>
      ctl_UpdateState a = UpdateStateImpossibleToStart \<and> UpdateStatePossibilityCheck \<in> set (stages (ctl_Flow a))) \<and>
     set (required_conds (ctl_Flow a) (ctl_UpdateState a)) \<subseteq> ctl_Conds a"

definition cluster_inv :: "cluster \<Rightarrow> bool" where
  "cluster_inv a \<longleftrightarrow>
     (if ctl_State a = ClusterStateUpdating then updating_ok a
      else ending (ctl_State a) \<or> idle a)"

lemmas required_defs = required_conds_def passed_def optional_stages_def List.map_filter_def

lemma flag_not_required: "ConditionMasterExitReadOnlyPrepared \<notin> set (required_conds F s)"
  by (auto simp: required_conds_def map_filter_def elim: exit_cond.elims)

text \<open>A step of the staged machine establishes what the next stage requires.\<close>

lemma flow_next_required:
  assumes "flow_next F ob s = Some (ToUpdate t)" and "set (required_conds F s) \<subseteq> {c. ob_cond ob c}"
  shows "set (required_conds F t) \<subseteq> {c. ob_cond ob c} \<and>
    (t \<in> set (stages F) \<or> t = UpdateStateImpossibleToStart \<and> UpdateStatePossibilityCheck \<in> set (stages F))"
  using assms
  by (cases F; cases s)
    (auto simp: flow_next_def stage_done_def stage_skips_def after_def required_defs split: if_splits)

lemma flow_next_cluster:
  "flow_next F ob s = Some (ToCluster c) \<Longrightarrow> ending c"
  by (cases F; cases s)
    (auto simp: flow_next_def stage_done_def stage_skips_def after_def ending_def split: if_splits)

lemma updating_move:
  assumes "updating_ok a" and "ob_cond ob = (\<lambda>t. t \<in> ctl_Conds a)"
    and "flow_next (ctl_Flow a) ob (ctl_UpdateState a) = Some (ToUpdate t)"
  shows "updating_ok (a\<lparr>ctl_UpdateState := t\<rparr>)"
  using flow_next_required [OF assms(3)] assms(1,2) by (auto simp: updating_ok_def)

lemma updating_progress:
  assumes "updating_ok a" and "ctl_Conds a - {ConditionMasterExitReadOnlyPrepared} \<subseteq> C"
  shows "updating_ok (a\<lparr>ctl_Conds := C\<rparr>)"
  using assms flag_not_required [of "ctl_Flow a" "ctl_UpdateState a"] by (auto simp: updating_ok_def)

lemma updating_start:
  "idle a \<Longrightarrow> choice_ok F ns \<Longrightarrow>
   updating_ok (a\<lparr>ctl_State := ClusterStateUpdating, ctl_Flow := F, ctl_Components := ns\<rparr>)"
  by (cases F) (auto simp: updating_ok_def idle_def choice_ok_def required_conds_def)

lemma cluster_inv_step: "cluster_step a b \<Longrightarrow> cluster_inv a \<Longrightarrow> cluster_inv b"
proof (induction rule: cluster_step.induct)
  case (progress a C)
  then show ?case by (auto simp: cluster_inv_def updating_progress idle_def split: if_splits)
next
  case (start a F ns)
  then show ?case by (auto simp: cluster_inv_def ending_def intro!: updating_start)
next
  case (move a ob t)
  then show ?case by (auto simp: cluster_inv_def intro!: updating_move)
next
  case (finish a ob c)
  then show ?case using flow_next_cluster [OF finish(3)] by (auto simp: cluster_inv_def ending_def)
qed (auto simp: cluster_inv_def ending_def idle_def)

lemma cluster_inv_reach: "cluster_step\<^sup>*\<^sup>* a b \<Longrightarrow> cluster_inv a \<Longrightarrow> cluster_inv b"
  by (induction rule: rtranclp_induct) (auto intro: cluster_inv_step)

text \<open>
  The conditions required from the removal of pods on: the pods go down only after the stages that
  make the masters and the tablet cells safe.
\<close>

lemma required_after:
  "s \<in> set (dropWhile (\<lambda>s. s \<noteq> UpdateStateWaitingForPodsRemoval) (stages UpdateFlowFull)) \<Longrightarrow>
     {ConditionHasPossibility, ConditionSafeModeEnabled, ConditionTabletCellsSaved, ConditionTabletCellsRemovingStarted,
      ConditionTabletCellsRemoved, ConditionSnaphotsSaved} \<subseteq> set (required_conds UpdateFlowFull s)"
  "s \<in> set (dropWhile (\<lambda>s. s \<noteq> UpdateStateWaitingForPodsRemoval) (stages UpdateFlowMaster)) \<Longrightarrow>
     {ConditionHasPossibility, ConditionSafeModeEnabled, ConditionSnaphotsSaved} \<subseteq> set (required_conds UpdateFlowMaster s)"
  "s \<in> set (dropWhile (\<lambda>s. s \<noteq> UpdateStateWaitingForPodsRemoval) (stages UpdateFlowTabletNodes)) \<Longrightarrow>
     {ConditionHasPossibility, ConditionTabletCellsSaved, ConditionTabletCellsRemovingStarted,
      ConditionTabletCellsRemoved} \<subseteq> set (required_conds UpdateFlowTabletNodes s)"
  by (cases s; simp add: required_defs)+

subsection \<open>The reconciler refines the machine\<close>

text \<open>The memory and the stored resource are both reachable from the status \<open>a\<close>, with well-formed conditions.\<close>

definition wf_status :: "YtsaurusStatus \<Rightarrow> bool" where
  "wf_status s \<longleftrightarrow> wf_conditions (us_Conditions (st_UpdateStatus s)) \<and> wf_conditions (st_Conditions s)"

lemma cond_inv_wf_status: "cond_inv E h \<longleftrightarrow> meta_ok (x_meta E) \<and> wf_status (h_status h)"
  by (simp add: cond_inv_def wf_status_def)

definition reached :: "cluster \<Rightarrow> YtsaurusResource \<Rightarrow> bool" where
  "reached a r \<longleftrightarrow> cluster_step\<^sup>*\<^sup>* a (abs_status (yr_Status r)) \<and> wf_status (yr_Status r)"

definition tracks :: "'w ext \<Rightarrow> cluster \<Rightarrow> ('w, 'z) mem_scheme \<Rightarrow> bool" where
  "tracks E a h \<longleftrightarrow> ext_ok E \<and> cond_inv E h \<and> cluster_step\<^sup>*\<^sup>* a (abs_status (h_status h)) \<and>
     (\<exists>r. k_get_ytsaurus (x_k8s E) (h_world h) = Found r \<and> reached a r)"

lemma abs_conds:
  "cond_inv E h \<Longrightarrow> ctl_Conds (abs_status (h_status h)) = {t. IsUpdateStatusConditionTrue E t h}"
  by (simp add: abs_status_def IsUpdateStatusConditionTrue_stored update_stored_def)

lemma abs_control [simp]:
  "ctl_State (abs_status (h_status h)) = GetClusterState h"
  "ctl_UpdateState (abs_status (h_status h)) = GetUpdateState h"
  "ctl_Flow (abs_status (h_status h)) = GetUpdateFlow h"
  "ctl_Components (abs_status (h_status h)) = GetLocalUpdatingComponents h"
  by (simp_all add: abs_status_def getter_defs)

lemma abs_progress:
  assumes "comp_rel E False h h'" and "ext_ok E" and "cond_inv E h"
  shows "cluster_step (abs_status (h_status h)) (abs_status (h_status h'))"
proof -
  note c = comp_relD [OF assms]
  let ?a = "abs_status (h_status h)" and ?b = "abs_status (h_status h')"
  have "?b = ?a\<lparr>ctl_Conds := ctl_Conds ?b\<rparr>"
    using c(2) by (simp add: abs_status_def control_of_def getter_defs)
  moreover have "ctl_Conds ?a - {ConditionMasterExitReadOnlyPrepared} \<subseteq> ctl_Conds ?b"
    using c(5) by (auto simp: abs_status_def update_stored_def)
  moreover have "ctl_State ?a = ClusterStateUpdating \<or> ctl_Conds ?b = ctl_Conds ?a"
    using c(7) by (auto simp: abs_status_def IsUpdating_def GetClusterState_def)
  ultimately show ?thesis by (metis cluster_step.progress)
qed

lemma tracks_comp:
  assumes "state_io_rel (comp_rel E False) m" and "tracks E a h" and "run_state m h = (x, h')"
  shows "tracks E a h'"
proof -
  have rel: "comp_rel E False h h'" using assms by (auto dest: state_io_relD)
  have "ext_ok E" "cond_inv E h" using assms(2) by (auto simp: tracks_def)
  note c = comp_relD [OF rel this] and p = abs_progress [OF rel this]
  from assms(2) p have "cluster_step\<^sup>*\<^sup>* a (abs_status (h_status h'))"
    by (auto simp: tracks_def intro: rtranclp.rtrancl_into_rtrancl)
  with assms(2) c(1,4) show ?thesis by (auto simp: tracks_def)
qed

text \<open>Saving the status stores the status of the memory or nothing.\<close>

lemma tracks_UpdateStatus:
  assumes "ext_ok E" and "cond_inv E h" and "cluster_step\<^sup>*\<^sup>* a (abs_status (h_status h))"
    and "k_get_ytsaurus (x_k8s E) (h_world h) = Found r" and "reached a r"
  shows "tracks E a (snd (run_state (UpdateStatus E) h))"
proof -
  have "k8s_ok E" using assms(1) by (simp add: ext_ok_def)
  then have "k_get_ytsaurus (x_k8s E) (snd (k_status_update (x_k8s E) (h_yts h) (h_world h))) =
      Found (if fst (k_status_update (x_k8s E) (h_yts h) (h_world h)) = None
             then r\<lparr>yr_Status := yr_Status (h_yts h)\<rparr> else r)"
    using assms(4) by (simp add: k8s_ok_def)
  with assms show ?thesis
    by (simp add: tracks_def run_UpdateStatus cond_inv_wf_status reached_def)
qed

lemma tracks_UpdateStatus': "tracks E a h \<Longrightarrow> tracks E a (snd (run_state (UpdateStatus E) h))"
  using tracks_UpdateStatus by (metis tracks_def)

text \<open>A change of the status in memory that is a step of the machine, followed by a save.\<close>

lemma tracks_save:
  assumes "tracks E a h" and "cluster_step (abs_status (h_status h)) (abs_status (f (h_status h)))"
    and "cond_inv E (map_status f h)"
  shows "tracks E a (snd (run_state (UpdateStatus E) (map_status f h)))"
proof -
  from assms(1) obtain r where "k_get_ytsaurus (x_k8s E) (h_world h) = Found r"
    "reached a r" by (auto simp: tracks_def)
  with assms show ?thesis
    by (intro tracks_UpdateStatus [where r = r]) (auto simp: tracks_def intro: rtranclp.rtrancl_into_rtrancl)
qed

lemma cr_logAll: "state_io_rel (comp_rel E u) (logAll ms)"
  by (induction ms) (auto simp: LogUpdate_def intro!: io_intros)

lemma run_saves:
  "run_state (SaveUpdateState E s) h =
     run_state (UpdateStatus E) (map_status (\<lambda>st. st\<lparr>st_UpdateStatus := (st_UpdateStatus st)\<lparr>us_State := s\<rparr>\<rparr>) h)"
  "run_state (SaveClusterState E c) h = run_state (UpdateStatus E) (map_status (\<lambda>st. st\<lparr>st_State := c\<rparr>) h)"
  "run_state (SaveUpdatingClusterState E F ns) h = run_state (UpdateStatus E)
     (map_status (\<lambda>st. st\<lparr>st_State := ClusterStateUpdating,
        st_UpdateStatus := (st_UpdateStatus st)\<lparr>us_Flow := F, us_Components := ns\<rparr>\<rparr>) h)"
  "run_state (ClearUpdateStatus E) h = run_state (UpdateStatus E)
     (map_status (\<lambda>st. st\<lparr>st_UpdateStatus := (st_UpdateStatus st)\<lparr>us_Conditions := [], us_TabletCellBundles := [],
        us_MasterMonitoringPaths := [], us_Components := None, us_Flow := UpdateFlowNone\<rparr>\<rparr>) h)"
  by (simp_all add: SaveUpdateState_def SaveClusterState_def SaveUpdatingClusterState_def ClearUpdateStatus_def
      map_update_def map_status_def)

lemma tracks_SaveUpdateState:
  assumes "tracks E a h"
    and "cluster_step (abs_status (h_status h)) ((abs_status (h_status h))\<lparr>ctl_UpdateState := s\<rparr>)"
  shows "tracks E a (snd (run_state (SaveUpdateState E s) h))"
  unfolding run_saves
  by (rule tracks_save [OF assms(1)]) (use assms in \<open>auto simp: abs_status_def tracks_def cond_inv_def\<close>)

lemma tracks_SaveClusterState:
  assumes "tracks E a h"
    and "cluster_step (abs_status (h_status h)) ((abs_status (h_status h))\<lparr>ctl_State := c\<rparr>)"
  shows "tracks E a (snd (run_state (SaveClusterState E c) h))"
  unfolding run_saves
  by (rule tracks_save [OF assms(1)]) (use assms in \<open>auto simp: abs_status_def tracks_def cond_inv_def\<close>)

lemma tracks_SaveUpdatingClusterState:
  assumes "tracks E a h" and "GetClusterState h = ClusterStateRunning" and "choice_ok F ns"
  shows "tracks E a (snd (run_state (SaveUpdatingClusterState E F ns) h))"
  unfolding run_saves
  by (rule tracks_save [OF assms(1)])
    (use assms cluster_step.start [of "abs_status (h_status h)" F ns] in
      \<open>auto simp: abs_status_def tracks_def cond_inv_def GetClusterState_def\<close>)

lemma tracks_ClearUpdateStatus:
  assumes "tracks E a h" and "ending (GetClusterState h)" and "GetUpdateState h = UpdateStateNone"
  shows "tracks E a (snd (run_state (ClearUpdateStatus E) h))"
  unfolding run_saves
  by (rule tracks_save [OF assms(1)])
    (use assms cluster_step.clear [of "abs_status (h_status h)"] in
      \<open>auto simp: abs_status_def tracks_def cond_inv_def wf_conditions_def status_of_def getter_defs\<close>)

lemma tracks_logAll: "tracks E a h \<Longrightarrow> tracks E a (snd (run_state (logAll ms) h))"
  using tracks_comp [OF cr_logAll] by (metis prod.collapse)

lemma logAll_yts: "run_state (logAll ms) h = (x, h') \<Longrightarrow> h_yts h' = h_yts h"
proof -
  have "keeps h_yts (logAll ms :: (('w, 'z) mem_scheme, unit) state)"
    by (induction ms) (auto simp: LogUpdate_def intro!: io_intros)
  then show "run_state (logAll ms) h = (x, h') \<Longrightarrow> h_yts h' = h_yts h" by (rule keepsD)
qed

lemma tracks_moveTo:
  assumes "tracks E a h"
    and "cluster_step (abs_status (h_status h)) ((abs_status (h_status h))\<lparr>ctl_UpdateState := s\<rparr>)"
  shows "tracks E a (snd (run_state (moveTo E ms s r) h))"
proof -
  obtain h1 where l: "run_state (logAll ms) h = ((), h1)" by (metis old.unit.exhaust surj_pair)
  then have "tracks E a h1" "h_status h1 = h_status h"
    using tracks_logAll [OF assms(1), of ms] logAll_yts by fastforce+
  with assms(2) have "tracks E a (snd (run_state (SaveUpdateState E s) h1))"
    by (intro tracks_SaveUpdateState) auto
  with l show ?thesis by (simp add: moveTo_def case_prod_unfold)
qed

lemma tracks_finishTo:
  assumes "tracks E a h"
    and "cluster_step (abs_status (h_status h)) ((abs_status (h_status h))\<lparr>ctl_State := c\<rparr>)"
  shows "tracks E a (snd (run_state (finishTo E ms c) h))"
proof -
  obtain h1 where l: "run_state (logAll ms) h = ((), h1)" by (metis old.unit.exhaust surj_pair)
  then have "tracks E a h1" "h_status h1 = h_status h"
    using tracks_logAll [OF assms(1), of ms] logAll_yts by fastforce+
  with assms(2) have "tracks E a (snd (run_state (SaveClusterState E c) h1))"
    by (intro tracks_SaveClusterState) auto
  with l show ?thesis by (simp add: finishTo_def case_prod_unfold)
qed

lemma tracks_handleFlow:
  assumes "tracks E a h" and "GetClusterState h = ClusterStateUpdating"
  shows "tracks E a (snd (run_state (handleFlow (GetUpdateFlow h) E cm) h))"
proof -
  let ?a = "abs_status (h_status h)" and ?ob = "observe E cm h"
  have ob: "ob_cond ?ob = (\<lambda>t. t \<in> ctl_Conds ?a)"
    using abs_conds [of E h] assms(1) by (auto simp: observe_def tracks_def)
  note p = performs_handleFlow [of E "GetUpdateFlow h" cm h]
  show ?thesis
  proof (cases "flow_next (GetUpdateFlow h) ?ob (GetUpdateState h)")
    case None
    with p assms(1) show ?thesis by (simp add: performs_def)
  next
    case (Some tgt)
    show ?thesis
    proof (cases tgt)
      case (ToUpdate t)
      with p Some obtain ms r where "run_state (handleFlow (GetUpdateFlow h) E cm) h = run_state (moveTo E ms t r) h"
        by (auto simp: performs_def)
      moreover have "cluster_step ?a (?a\<lparr>ctl_UpdateState := t\<rparr>)"
        using Some ToUpdate assms(2) ob by (intro cluster_step.move) auto
      ultimately show ?thesis using tracks_moveTo [OF assms(1)] by metis
    next
      case (ToCluster c)
      with p Some obtain ms where "run_state (handleFlow (GetUpdateFlow h) E cm) h = run_state (finishTo E ms c) h"
        by (auto simp: performs_def)
      moreover have "cluster_step ?a (?a\<lparr>ctl_State := c\<rparr>)"
        using Some ToCluster assms(2) ob by (intro cluster_step.finish) auto
      ultimately show ?thesis using tracks_finishTo [OF assms(1)] by metis
    qed
  qed
qed

text \<open>The end of an update: every prefix of the three saves is a path of the machine.\<close>

lemma endUpdate_states:
  "run_state (SaveUpdateState E s) h = (x, h') \<Longrightarrow>
     GetClusterState h' = GetClusterState h \<and> GetUpdateState h' = s"
  "run_state (ClearUpdateStatus E) h = (x, h') \<Longrightarrow>
     GetClusterState h' = GetClusterState h \<and> GetUpdateState h' = GetUpdateState h \<and>
     GetUpdateFlow h' = UpdateFlowNone \<and> GetLocalUpdatingComponents h' = None \<and> us_Conditions (h_update h') = []"
  by (auto simp: run_saves run_UpdateStatus getter_defs)

lemma tracks_endUpdate:
  assumes "tracks E a h" and "ending (GetClusterState h)"
  shows "tracks E a (snd (run_state (endUpdate E) h))"
proof -
  obtain e1 h1 where r1: "run_state (SaveUpdateState E UpdateStateNone) h = (e1, h1)" by fastforce
  have t1: "tracks E a h1"
    using tracks_SaveUpdateState [OF assms(1) cluster_step.reset] assms(2) r1 by (metis abs_control(1) snd_conv)
  have s1: "GetClusterState h1 = GetClusterState h" "GetUpdateState h1 = UpdateStateNone"
    using endUpdate_states(1) [OF r1] by auto
  obtain e2 h2 where r2: "run_state (ClearUpdateStatus E) h1 = (e2, h2)" by fastforce
  have t2: "tracks E a h2"
    using tracks_ClearUpdateStatus [OF t1] s1 assms(2) r2 by (metis snd_conv)
  have s2: "GetClusterState h2 = GetClusterState h" "GetUpdateState h2 = UpdateStateNone"
    "GetUpdateFlow h2 = UpdateFlowNone" "GetLocalUpdatingComponents h2 = None" "us_Conditions (h_update h2) = []"
    using endUpdate_states(2) [OF r2] s1 by auto
  obtain e3 h3 where r3: "run_state (SaveClusterState E ClusterStateRunning) h2 = (e3, h3)" by fastforce
  have "ctl_Conds (abs_status (h_status h2)) = {}"
    using s2(5) by (simp add: abs_status_def status_of_def)
  then have "tracks E a h3"
    using tracks_SaveClusterState [OF t2 cluster_step.rerun] s2 assms(2) r3 by (metis abs_control snd_conv)
  with r1 r2 r3 t1 t2 show ?thesis by (auto simp: endUpdate_def)
qed

subsection \<open>What a handler leaves behind\<close>

text \<open>
  The effect of a handler on the memory and, when its save succeeded, on the stored resource: for
  no target nothing changes, else exactly the update state or the cluster state moves.
\<close>

definition lands :: "target option \<Rightarrow> ('w, 'z) mem_scheme \<Rightarrow> Result option \<times> error \<Rightarrow> ('w, 'z) mem_scheme \<Rightarrow> bool" where
  "lands tgt h r h' \<longleftrightarrow> (case tgt of
       None \<Rightarrow> r = (None, None) \<and> h' = h
     | Some (ToUpdate t) \<Rightarrow> fst r \<noteq> None \<and> h_yts h' = h_yts (map_update (\<lambda>u. u\<lparr>us_State := t\<rparr>) h)
     | Some (ToCluster c) \<Rightarrow> fst r \<noteq> None \<and> h_yts h' = h_yts (map_status (\<lambda>s. s\<lparr>st_State := c\<rparr>) h))"

lemma run_moveTo:
  "run_state (moveTo E ms t r) h = (x, h') \<Longrightarrow>
     fst x = Some r \<and> h_yts h' = h_yts (map_update (\<lambda>u. u\<lparr>us_State := t\<rparr>) h)"
  "run_state (finishTo E ms c) h = (x, h') \<Longrightarrow>
     fst x = Some requeue \<and> h_yts h' = h_yts (map_status (\<lambda>s. s\<lparr>st_State := c\<rparr>) h)"
proof -
  obtain h1 where l: "run_state (logAll ms) h = ((), h1)" by (metis old.unit.exhaust surj_pair)
  note y = logAll_yts [OF l]
  show "run_state (moveTo E ms t r) h = (x, h') \<Longrightarrow>
     fst x = Some r \<and> h_yts h' = h_yts (map_update (\<lambda>u. u\<lparr>us_State := t\<rparr>) h)"
    using l y by (auto simp: moveTo_def run_saves run_UpdateStatus)
  show "run_state (finishTo E ms c) h = (x, h') \<Longrightarrow>
     fst x = Some requeue \<and> h_yts h' = h_yts (map_status (\<lambda>s. s\<lparr>st_State := c\<rparr>) h)"
    using l y by (auto simp: finishTo_def run_saves run_UpdateStatus)
qed

lemma performs_lands: "performs E tgt m h \<Longrightarrow> run_state m h = (x, h') \<Longrightarrow> lands tgt h x h'"
  by (auto simp: performs_def lands_def dest!: run_moveTo [OF sym] split: option.splits target.splits)

lemma handleFlow_lands:
  "run_state (handleFlow F E cm) h = (x, h') \<Longrightarrow> lands (flow_next F (observe E cm h) (GetUpdateState h)) h x h'"
  using performs_handleFlow performs_lands by blast

text \<open>A save that succeeded stored the status of the memory.\<close>

definition stored_status :: "'w ext \<Rightarrow> ('w, 'z) mem_scheme \<Rightarrow> YtsaurusStatus option" where
  "stored_status E h = (case k_get_ytsaurus (x_k8s E) (h_world h) of Found r \<Rightarrow> Some (yr_Status r) | _ \<Rightarrow> None)"

lemma UpdateStatus_stored:
  assumes "ext_ok E" and "stored_status E h \<noteq> None" and "run_state (UpdateStatus E) h = (None, h')"
  shows "stored_status E h' = Some (h_status h') \<and> h_yts h' = h_yts h"
proof -
  have "k8s_ok E" using assms(1) by (simp add: ext_ok_def)
  with assms(2,3) show ?thesis
    by (auto simp: stored_status_def run_UpdateStatus k8s_ok_def split: getResult.splits)
qed

lemma stored_status_map [simp]: "stored_status E (map_status f h) = stored_status E h"
  by (simp add: stored_status_def)

lemma logAll_world: "run_state (logAll ms) h = (x, h') \<Longrightarrow> h_world h' = h_world h"
proof -
  have "keeps h_world (logAll ms :: (('w, 'z) mem_scheme, unit) state)"
    by (induction ms) (auto simp: LogUpdate_def intro!: io_intros)
  then show "run_state (logAll ms) h = (x, h') \<Longrightarrow> h_world h' = h_world h" by (rule keepsD)
qed

lemma run_moveTo_stored:
  assumes "ext_ok E" and "stored_status E h \<noteq> None"
  shows "run_state (moveTo E ms t r) h = ((y, None), h') \<Longrightarrow> stored_status E h' = Some (h_status h')"
    and "run_state (finishTo E ms c) h = ((y, None), h') \<Longrightarrow> stored_status E h' = Some (h_status h')"
proof -
  obtain h1 where l: "run_state (logAll ms) h = ((), h1)" by (metis old.unit.exhaust surj_pair)
  then have s: "stored_status E h1 \<noteq> None" using assms(2) logAll_world [OF l] by (simp add: stored_status_def)
  show "run_state (moveTo E ms t r) h = ((y, None), h') \<Longrightarrow> stored_status E h' = Some (h_status h')"
    "run_state (finishTo E ms c) h = ((y, None), h') \<Longrightarrow> stored_status E h' = Some (h_status h')"
    using l s by (auto simp: moveTo_def finishTo_def run_saves dest!: UpdateStatus_stored [OF assms(1), rotated] split: prod.splits)
qed

lemma handleFlow_stored:
  assumes "ext_ok E" and "stored_status E h \<noteq> None" and "run_state (handleFlow F E cm) h = ((r, None), h')" and "r \<noteq> None"
  shows "stored_status E h' = Some (h_status h')"
  using performs_handleFlow [of E F cm h] assms(3,4)
  by (auto simp: performs_def dest!: run_moveTo_stored [OF assms(1,2) sym] split: option.splits target.splits)

lemma endUpdate_stored:
  assumes "ext_ok E" and "stored_status E h \<noteq> None" and "run_state (endUpdate E) h = ((r, None), h')"
  shows "stored_status E h' = Some ((h_status h)\<lparr>st_State := ClusterStateRunning, st_UpdateStatus :=
    \<lparr>us_State = UpdateStateNone, us_Components = None, us_Flow = UpdateFlowNone, us_Conditions = [],
     us_TabletCellBundles = [], us_MasterMonitoringPaths = []\<rparr>\<rparr>)"
proof -
  obtain e1 h1 where r1: "run_state (SaveUpdateState E UpdateStateNone) h = (e1, h1)" by fastforce
  obtain e2 h2 where r2: "run_state (ClearUpdateStatus E) h1 = (e2, h2)" by fastforce
  obtain e3 h3 where r3: "run_state (SaveClusterState E ClusterStateRunning) h2 = (e3, h3)" by fastforce
  from assms(3) r1 r2 r3 have e: "e1 = None" "e2 = None" "e3 = None" "h3 = h'"
    by (auto simp: endUpdate_def split: if_splits)
  note us = UpdateStatus_stored [OF assms(1), rotated]
  from r1 e us assms(2) have s1: "stored_status E h1 \<noteq> None"
    "h_yts h1 = h_yts (map_update (\<lambda>u. u\<lparr>us_State := UpdateStateNone\<rparr>) h)"
    by (fastforce simp: run_saves map_update_def)+
  from r2 [unfolded run_saves] e us s1(1) have s2: "stored_status E h2 \<noteq> None"
    "h_yts h2 = h_yts (map_update (\<lambda>u. u\<lparr>us_Conditions := [], us_TabletCellBundles := [],
      us_MasterMonitoringPaths := [], us_Components := None, us_Flow := UpdateFlowNone\<rparr>) h1)"
    by (fastforce simp: map_update_def)+
  from r3 [unfolded run_saves] e us [of "map_status (\<lambda>st. st\<lparr>st_State := ClusterStateRunning\<rparr>) h2" h'] s2(1)
  have s3: "stored_status E h' = Some (h_status h')" "h_yts h' = h_yts (map_status (\<lambda>st. st\<lparr>st_State := ClusterStateRunning\<rparr>) h2)"
    by auto
  show ?thesis using s3 s2(2) s1(2) by simp
qed

text \<open>The position of an update state in its flow: before the first stage, at a stage, or off the path.\<close>

definition stage_rank :: "UpdateFlow \<Rightarrow> UpdateState \<Rightarrow> nat" where
  "stage_rank F s = (if s = UpdateStateNone then 0 else 1 + length (takeWhile (\<lambda>t. t \<noteq> s) (stages F)))"

lemma stage_rank_bound: "stage_rank F s \<le> Suc (length (stages F))"
  by (simp add: stage_rank_def length_takeWhile_le)

lemma flow_next_rank:
  "flow_next F ob s = Some (ToUpdate t) \<Longrightarrow> stage_rank F s < stage_rank F t"
  by (cases F; cases s)
    (auto simp: flow_next_def stage_done_def stage_skips_def after_def stage_rank_def split: if_splits)

lemma flow_next_pods: "flow_next F ob UpdateStateWaitingForPodsRemoval = Some tgt \<Longrightarrow> ob_podsRemoved ob"
  by (cases F) (auto simp: flow_next_def stage_done_def stage_skips_def split: if_splits)

lemma flow_next_full_finish:
  "flow_next UpdateFlowFull ob s = Some (ToCluster ClusterStateUpdateFinishing) \<longleftrightarrow>
     s = UpdateStateWaitingForSafeModeDisabled \<and> ob_cond ob ConditionSafeModeDisabled"
  by (cases s) (auto simp: flow_next_def stage_done_def stage_skips_def after_def split: if_splits)

lemma flow_next_done:
  assumes "s \<in> set (stages F)" and "stage_done ob s \<or> stage_skips ob s"
  shows "flow_next F ob s \<in> {Some (ToCluster ClusterStateUpdateFinishing)} \<union> (\<lambda>t. Some (ToUpdate t)) ` set (after (stages F) s)"
proof -
  have "s \<noteq> UpdateStateNone" "s \<noteq> UpdateStateImpossibleToStart" using assms(1) by (cases F; auto)+
  moreover have "enter xs \<in> {ToCluster ClusterStateUpdateFinishing} \<union> ToUpdate ` set xs" for xs by (cases xs) auto
  moreover have "set (drop 1 xs) \<subseteq> set xs" for xs :: "UpdateState list" by (rule set_drop_subset)
  ultimately show ?thesis using assms by (auto simp: flow_next_def image_iff; blast)
qed

text \<open>The chosen flow and names.\<close>

lemma collectNames_simps:
  "un_master (collectNames cs n) = un_master n @ map c_GetName (filter (\<lambda>c. c_GetType c = MasterType) cs)"
  "un_tabletNode (collectNames cs n) = un_tabletNode n @ map c_GetName (filter (\<lambda>c. c_GetType c = TabletNodeType) cs)"
  "un_execNode (collectNames cs n) = un_execNode n @ map c_GetName (filter (\<lambda>c. c_GetType c = ExecNodeType) cs)"
  "un_stateless (collectNames cs n) =
     un_stateless n @ map c_GetName (filter (\<lambda>c. c_GetType c \<notin> {MasterType, TabletNodeType}) cs)"
  by (induction cs n rule: collectNames.induct) (auto simp: Let_def)

lemma chooseUpdateFlow_ok:
  assumes "chooseUpdateFlow spec cs = (meta, [])" and "cs \<noteq> []"
  shows "choice_ok (um_flow meta) (um_componentNames meta)"
  using assms
  by (cases "ys_UpdateSelector spec")
    (auto simp: chooseUpdateFlow_def choice_ok_def Let_def getComponentNames_def zero_updateMeta_def split: if_splits)

context component_list
begin

lemma tracks_ComponentManager_Sync:
  assumes "cm_allComponents cm = cs" and "tracks E a h"
  shows "tracks E a (snd (run_state (ComponentManager_Sync E cm) h))"
proof -
  obtain r h1 where r: "run_state (syncComponents cs False) h = (r, h1)" by fastforce
  have t1: "tracks E a h1"
    using tracks_comp [OF rel_syncComponents [OF order_refl] assms(2) r] .
  then have "tracks E a (snd (run_state (UpdateStatus E) h1))" by (rule tracks_UpdateStatus')
  with r t1 assms(1) show ?thesis
    by (auto simp: ComponentManager_Sync_def case_prod_unfold split: sum.splits)
qed

lemma tracks_syncManaged:
  assumes "cm_allComponents cm = cs" and "tracks E a h"
  shows "tracks E a (snd (run_state (syncManaged E cm) h))"
proof (cases "GetClusterState h")
  case ClusterStateCreated
  then have "tracks E a (snd (run_state (SaveClusterState E ClusterStateInitializing) h))"
    by (intro tracks_SaveClusterState assms cluster_step.create) simp
  with ClusterStateCreated show ?thesis by (simp add: syncManaged_def case_prod_unfold)
next
  case ClusterStateInitializing
  then have "tracks E a (snd (run_state (SaveClusterState E ClusterStateRunning) h))"
    by (intro tracks_SaveClusterState assms cluster_step.run) simp
  with ClusterStateInitializing tracks_ComponentManager_Sync [OF assms] show ?thesis
    by (simp add: syncManaged_def case_prod_unfold)
next
  case ClusterStateReconfiguration
  then have "tracks E a (snd (run_state (SaveClusterState E ClusterStateRunning) h))"
    by (intro tracks_SaveClusterState assms cluster_step.run) simp
  with ClusterStateReconfiguration tracks_ComponentManager_Sync [OF assms] show ?thesis
    by (simp add: syncManaged_def case_prod_unfold)
next
  case ClusterStateRunning
  then have "tracks E a (snd (run_state (SaveClusterState E ClusterStateReconfiguration) h))"
    by (intro tracks_SaveClusterState assms cluster_step.reconfigure) simp
  moreover have "tracks E a (snd (run_state (SaveUpdatingClusterState E (um_flow meta) (um_componentNames meta)) h))"
    if "chooseUpdateFlow (yr_Spec (h_yts h)) (needUpdate cm) = (meta, [])" "needUpdate cm \<noteq> []" for meta
    using chooseUpdateFlow_ok [OF that] by (intro tracks_SaveUpdatingClusterState assms ClusterStateRunning)
  ultimately show ?thesis
    using ClusterStateRunning assms(2) tracks_ComponentManager_Sync [OF assms]
    by (auto simp: syncManaged_def split: prod.split)
next
  case ClusterStateUpdating
  obtain r e h1 where r: "run_state (handleFlow (GetUpdateFlow h) E cm) h = ((r, e), h1)" by (metis prod.exhaust)
  then have "tracks E a h1" using tracks_handleFlow [OF assms(2) ClusterStateUpdating, of cm] by simp
  with r ClusterStateUpdating tracks_ComponentManager_Sync [OF assms(1)] show ?thesis
    by (auto simp: syncManaged_def split: option.split)
next
  case ClusterStateUpdateFinishing
  then show ?thesis using tracks_endUpdate [OF assms(2)] by (simp add: syncManaged_def ending_def)
next
  case ClusterStateCancelUpdate
  then show ?thesis using tracks_endUpdate [OF assms(2)] by (simp add: syncManaged_def ending_def)
next
  case (ClusterStateOther s)
  then show ?thesis using tracks_ComponentManager_Sync [OF assms] by (simp add: syncManaged_def)
qed

end

end
