(* ===== verification/Operator.thy ===== *)
theory Operator
  imports Frontend Lifecycle
begin

text \<open>
  The controller of the Ytsaurus resource as a whole: the components of a cluster
  (\<open>NewComponentManager\<close> of \<open>controllers/component_manager.go\<close>), \<open>Sync\<close>
  (\<open>controllers/sync.go\<close>) and \<open>Reconcile\<close> (\<open>controllers/ytsaurus_controller.go\<close>). The
  contracts of the components give the refinement of the whole controller.
\<close>

subsection \<open>helpers.go\<close>

definition TrimPrefix :: "string \<Rightarrow> string \<Rightarrow> string" where
  "TrimPrefix s prefix = (if take (length prefix) s = prefix then drop (length prefix) s else s)"

definition TrimSuffix :: "string \<Rightarrow> string \<Rightarrow> string" where
  "TrimSuffix s suffix = rev (TrimPrefix (rev s) (rev suffix))"

definition getClusterDomain :: "'w ext \<Rightarrow> string" where
  "getClusterDomain E = (case f_lookup_env (x_fmt E) ''K8S_CLUSTER_DOMAIN'' of
       Some domain \<Rightarrow> domain
     | None \<Rightarrow>
         (let apiSvc = ''kubernetes.default.svc''
          in (case f_lookup_cname (x_fmt E) apiSvc of
                Inl e \<Rightarrow> ''cluster.local''
              | Inr cname \<Rightarrow> TrimSuffix (TrimPrefix (TrimPrefix cname apiSvc) ''.'') ''.'')))"

subsection \<open>The components of a cluster\<close>

fun newAll :: "('a \<Rightarrow> ('s, 'b) state) \<Rightarrow> 'a list \<Rightarrow> ('s, 'b list) state" where
  "newAll f [] = ret []"
| "newAll f (x # xs) = do { y \<leftarrow> f x; ys \<leftarrow> newAll f xs; ret (y # ys) }"

definition newIf :: "bool \<Rightarrow> ('s, 'b) state \<Rightarrow> ('s, 'b option) state" where
  "newIf b m = (if b then do { y \<leftarrow> m; ret (Some y) } else ret None)"

abbreviation opt_list :: "'a option \<Rightarrow> 'a list" where
  "opt_list x \<equiv> (case x of None \<Rightarrow> [] | Some y \<Rightarrow> [y])"

record 's components =
  cps_all :: "'s component list"
  cps_queryTracker :: "'s component option"
  cps_scheduler :: "'s component option"

text \<open>
  The construction of all components. The client needs the first HTTP proxy: without one the
  index expression panics, which is the error here. (A specification without HTTP proxies is
  rejected by the validation of the resource.)
\<close>

definition newComponentsFor :: "'w ext \<Rightarrow> YtsaurusResource \<Rightarrow> ('w heap, string + 'w heap components) state" where
  "newComponentsFor E r = do {
     let spec = yr_Spec r;
     let clusterDomain = getClusterDomain E;
     let cfgen = NewGenerator r clusterDomain;
     d \<leftarrow> NewDiscovery E cfgen;
     m \<leftarrow> NewMaster E cfgen;
     hps \<leftarrow> newAll (NewHTTPProxy E cfgen m) (ys_HTTPProxies spec);
     (case hps of
        [] \<Rightarrow> ret (Inl ''panic'')
      | hp # _ \<Rightarrow> do {
          yc \<leftarrow> NewYtsaurusClient E cfgen hp;
          r1 \<leftarrow> gets h_yts;
          let nodeCfgGen = NewLocalNodeGenerator r1 clusterDomain;
          dnds \<leftarrow> newAll (NewDataNode E nodeCfgGen m) (ys_DataNodes spec);
          ui \<leftarrow> newIf (ys_UI spec \<noteq> None) (NewUI E cfgen m);
          rps \<leftarrow> newAll (NewRPCProxy E cfgen m) (ys_RPCProxies spec);
          tps \<leftarrow> newAll (NewTCPProxy E cfgen m) (ys_TCPProxies spec);
          ends \<leftarrow> newAll (NewExecNode E nodeCfgGen m) (ys_ExecNodes spec);
          tnds \<leftarrow> newAll (\<lambda>(idx, tnd). NewTabletNode E nodeCfgGen yc tnd (idx = 0))
            (zip [0..<length (ys_TabletNodes spec)] (ys_TabletNodes spec));
          s \<leftarrow> newIf (ys_Schedulers spec \<noteq> None) (NewScheduler E cfgen m ends tnds);
          ca \<leftarrow> newIf (ys_ControllerAgents spec \<noteq> None) (NewControllerAgent E cfgen m);
          q \<leftarrow> newIf (ys_QueryTrackers spec \<noteq> None \<and> ys_Schedulers spec \<noteq> None \<and> length (ys_TabletNodes spec) > 0)
            (NewQueryTracker E cfgen tnds);
          qa \<leftarrow> newIf (ys_QueueAgents spec \<noteq> None \<and> length (ys_TabletNodes spec) > 0) (NewQueueAgent E cfgen yc m tnds);
          yqla \<leftarrow> newIf (ys_YQLAgents spec \<noteq> None) (NewYQLAgent E cfgen m);
          strawberry \<leftarrow> (case s of
              Some sch \<Rightarrow> newIf (ys_DeprecatedChytController spec \<noteq> None \<or> ys_StrawberryController spec \<noteq> None)
                (NewStrawberryController E cfgen m sch dnds)
            | None \<Rightarrow> ret None);
          mc \<leftarrow> newIf (ys_MasterCaches spec \<noteq> None) (NewMasterCache E cfgen);
          ret (Inr \<lparr>cps_all = [d, m, yc] @ dnds @ hps @ opt_list ui @ rps @ tps @ ends @ tnds @ opt_list s @ opt_list ca @
                 opt_list q @ opt_list qa @ opt_list yqla @ opt_list strawberry @ opt_list mc,
               cps_queryTracker = q, cps_scheduler = s\<rparr>)
        })
   }"

definition newComponents :: "'w ext \<Rightarrow> ('w heap, string + 'w heap components) state" where
  "newComponents E = do { r \<leftarrow> gets h_yts; newComponentsFor E r }"

definition NewComponentManager :: "'w ext \<Rightarrow> ('w heap, string + 'w heap ComponentManager) state" where
  "NewComponentManager E = do {
     r \<leftarrow> newComponents E;
     (case r of
        Inl e \<Rightarrow> ret (Inl e)
      | Inr cps \<Rightarrow> makeManager (cps_all cps) (cps_queryTracker cps) (cps_scheduler cps))
   }"

subsection \<open>Sync and Reconcile\<close>

definition YtsaurusReconciler_Sync :: "'w ext \<Rightarrow> ('w heap, Result \<times> error) state" where
  "YtsaurusReconciler_Sync E = do {
     r \<leftarrow> gets h_yts;
     if \<not> ys_IsManaged (yr_Spec r) then ret (requeueAfter 60, None)
     else do {
       cm \<leftarrow> NewComponentManager E;
       (case cm of
          Inl e \<Rightarrow> ret (requeue, Some e)
        | Inr componentManager \<Rightarrow> syncManaged E componentManager)
     }
   }"

text \<open>The memory at the start of a reconciliation: no object is allocated.\<close>

definition fresh_heap :: "YtsaurusResource \<Rightarrow> 'w \<Rightarrow> 'w heap" where
  "fresh_heap r w = \<lparr>h_yts = r, h_world = w, h_events = [], h_next = 0, h_srv = (\<lambda>_. undefined), h_job = (\<lambda>_. undefined),
     h_sec = (\<lambda>_. undefined), h_http = (\<lambda>_. undefined), h_rpc = (\<lambda>_. undefined), h_tcp = (\<lambda>_. undefined),
     h_ms = (\<lambda>_. undefined), h_cfg = (\<lambda>_. undefined), h_ytClient = False, h_admin = zero_secret\<rparr>"

definition Reconcile :: "'w ext \<Rightarrow> 'w \<Rightarrow> (Result \<times> error) \<times> 'w" where
  "Reconcile E w = (case k_get_ytsaurus (x_k8s E) w of
       Found r \<Rightarrow> (let (res, h) = run_state (YtsaurusReconciler_Sync E) (fresh_heap r w) in (res, h_world h))
     | NotFound \<Rightarrow> ((zero_result, None), w)
     | GetError e \<Rightarrow> ((zero_result, Some e), w))"

subsection \<open>Results of constructors\<close>

definition returns :: "('a \<Rightarrow> bool) \<Rightarrow> ('s, 'a) state \<Rightarrow> bool" where
  "returns P m \<longleftrightarrow> (\<forall>h. P (fst (run_state m h)))"

lemma returns_ret: "P x \<Longrightarrow> returns P (ret x)"
  by (simp add: returns_def)

lemma returns_bind: "returns P m \<Longrightarrow> (\<And>x. P x \<Longrightarrow> returns Q (f x)) \<Longrightarrow> returns Q (State_Monad.bind m f)"
  by (auto simp: returns_def case_prod_unfold)

lemma returns_bind_any: "(\<And>x. returns Q (f x)) \<Longrightarrow> returns Q (State_Monad.bind m f)"
  by (auto simp: returns_def case_prod_unfold)

lemma returns_newAll:
  "(\<And>x. x \<in> set xs \<Longrightarrow> returns P (f x)) \<Longrightarrow> returns (\<lambda>ys. \<forall>y \<in> set ys. P y) (newAll f xs)"
proof (induction xs)
  case (Cons x xs)
  from Cons.prems have "returns P (f x)" by simp
  moreover have "returns (\<lambda>ys. \<forall>y \<in> set ys. P y) (newAll f xs)" using Cons by simp
  ultimately show ?case by (auto intro!: returns_bind returns_ret)
qed (simp add: returns_ret)

lemma returns_newIf:
  "(b \<Longrightarrow> returns P m) \<Longrightarrow> returns (\<lambda>x. \<forall>y. x = Some y \<longrightarrow> P y) (newIf b m)"
  by (auto simp: newIf_def intro!: returns_ret returns_bind)

lemma returns_strawberry:
  "(\<And>y. s = Some y \<Longrightarrow> b \<Longrightarrow> returns P (f y)) \<Longrightarrow>
   returns (\<lambda>x. \<forall>y. x = Some y \<longrightarrow> P y) (case s of Some y \<Rightarrow> newIf b (f y) | None \<Rightarrow> ret None)"
  by (cases s) (auto intro!: returns_newIf returns_ret)

lemma returns_conj: "returns P m \<Longrightarrow> returns Q m \<Longrightarrow> returns (\<lambda>x. P x \<and> Q x) m"
  by (simp add: returns_def)

lemma returns_newAll_length: "returns (\<lambda>ys. length ys = length xs) (newAll f xs)"
proof (induction xs)
  case (Cons x xs)
  then show ?case by (auto intro!: returns_bind_any returns_bind [OF Cons] returns_ret)
qed (simp add: returns_ret)

lemmas returns_newAll' = returns_conj [OF returns_newAll_length returns_newAll]

text \<open>
  What every constructor establishes for its component, given that the components it refers to have it, holds
  for all components of a cluster. The scheduler may need tablet nodes for it (unless \<open>total\<close>); the query tracker and
  the queue agent are created only with tablet nodes.
\<close>

lemmas New_defs = NewDiscovery_def NewDataNode_def NewControllerAgent_def NewMasterCache_def NewHTTPProxy_def NewRPCProxy_def
  NewTCPProxy_def NewExecNode_def NewMaster_def NewYtsaurusClient_def NewTabletNode_def NewScheduler_def NewQueryTracker_def
  NewQueueAgent_def NewYQLAgent_def NewUI_def NewStrawberryController_def Let_def

definition for_all_components :: "('w heap component \<Rightarrow> bool) \<Rightarrow> string + 'w heap components \<Rightarrow> bool" where
  "for_all_components P r \<longleftrightarrow> (\<forall>cps. r = Inr cps \<longrightarrow> (\<forall>c \<in> set (cps_all cps). P c))"

definition allComponents :: "'w ext \<Rightarrow> 'w heap \<Rightarrow> 'w heap component list" where
  "allComponents E h = (case fst (run_state (newComponents E) h) of Inr cps \<Rightarrow> cps_all cps | Inl _ \<Rightarrow> [])"

locale component_property =
  fixes E :: "'w ext" and P :: "'w heap component \<Rightarrow> bool" and total :: bool
  assumes new_Discovery: "returns P (NewDiscovery E g)"
    and new_Master: "returns P (NewMaster E g)"
    and new_MasterCache: "returns P (NewMasterCache E g)"
    and new_DataNode: "P m \<Longrightarrow> returns P (NewDataNode E n m d)"
    and new_ControllerAgent: "P m \<Longrightarrow> returns P (NewControllerAgent E g m)"
    and new_HTTPProxy: "P m \<Longrightarrow> returns P (NewHTTPProxy E g m hp)"
    and new_RPCProxy: "P m \<Longrightarrow> returns P (NewRPCProxy E g m rp)"
    and new_TCPProxy: "P m \<Longrightarrow> returns P (NewTCPProxy E g m tp)"
    and new_ExecNode: "P m \<Longrightarrow> returns P (NewExecNode E n m x)"
    and new_YtsaurusClient: "P c \<Longrightarrow> returns P (NewYtsaurusClient E g c)"
    and new_TabletNode: "P c \<Longrightarrow> returns P (NewTabletNode E n c t i)"
    and new_Scheduler: "P c \<Longrightarrow> (\<And>x. x \<in> set es \<union> set ts \<Longrightarrow> P x) \<Longrightarrow> total \<or> ts \<noteq> [] \<Longrightarrow> returns P (NewScheduler E g c es ts)"
    and new_QueryTracker: "(\<And>x. x \<in> set ts \<Longrightarrow> P x) \<Longrightarrow> ts \<noteq> [] \<Longrightarrow> returns P (NewQueryTracker E g ts)"
    and new_QueueAgent: "P y \<Longrightarrow> P c \<Longrightarrow> (\<And>x. x \<in> set ts \<Longrightarrow> P x) \<Longrightarrow> ts \<noteq> [] \<Longrightarrow> returns P (NewQueueAgent E g y c ts)"
    and new_YQLAgent: "P c \<Longrightarrow> returns P (NewYQLAgent E g c)"
    and new_UI: "P c \<Longrightarrow> returns P (NewUI E g c)"
    and new_Strawberry: "P c \<Longrightarrow> P s \<Longrightarrow> (\<And>x. x \<in> set ds \<Longrightarrow> P x) \<Longrightarrow> returns P (NewStrawberryController E g c s ds)"
begin

lemmas new_rules = new_Discovery new_Master new_MasterCache new_DataNode new_ControllerAgent new_HTTPProxy new_RPCProxy new_TCPProxy
  new_ExecNode new_YtsaurusClient new_TabletNode new_Scheduler new_QueryTracker new_QueueAgent new_YQLAgent new_UI new_Strawberry
  returns_newIf returns_strawberry

lemma new_components:
  assumes "total \<or> ys_TabletNodes (yr_Spec r) \<noteq> []"
  shows "returns (for_all_components P) (newComponentsFor E r)"
proof -
  have rest: "returns (for_all_components P) (case hps of [] \<Rightarrow> ret (Inl ''panic'') | hp # _ \<Rightarrow> k hp)"
    if "\<And>hp. hp \<in> set hps \<Longrightarrow> returns (for_all_components P) (k hp)" for hps :: "'w heap component list" and k
    using that by (cases hps) (auto simp: for_all_components_def intro!: returns_ret)
  note steps = new_rules [THEN returns_bind] returns_newAll' [THEN returns_bind]
  show ?thesis
    unfolding newComponentsFor_def Let_def
    by ((rule steps)+, (blast intro: new_rules)?, rule rest)
      (intro steps returns_bind_any [of _ _ "gets h_yts"];
        use assms in \<open>auto simp: for_all_components_def intro!: new_rules returns_ret\<close>)
qed

lemma all_components:
  assumes "total \<or> ys_TabletNodes (yr_Spec (h_yts h)) \<noteq> []" and "c \<in> set (allComponents E h)"
  shows "P c"
proof -
  have "for_all_components P (fst (run_state (newComponents E) h))"
    using new_components [OF assms(1)] by (simp add: newComponents_def returns_def)
  with assms(2) show ?thesis
    by (cases "fst (run_state (newComponents E) h)") (auto simp: allComponents_def for_all_components_def)
qed

end

interpretation ok: component_property E "component_ok E" True for E :: "'w ext"
  by unfold_locales
    (auto simp: New_defs intro!: returns_bind_any returns_ret component_ok_Discovery component_ok_MasterCache component_ok_DataNode
      component_ok_ControllerAgent component_ok_HttpProxy component_ok_RpcProxy component_ok_TcpProxy component_ok_ExecNode
      component_ok_Master component_ok_YtsaurusClient component_ok_TabletNode component_ok_Scheduler component_ok_QueryTracker
      component_ok_QueueAgent component_ok_YqlAgent component_ok_UI component_ok_Strawberry)

subsection \<open>How many components there are, and which status queries are pure\<close>

lemma returns_newIf_iff: "returns (\<lambda>x. (x \<noteq> None) = b) (newIf b m)"
  by (auto simp: newIf_def intro!: returns_ret returns_bind_any)

lemma length_opt_list: "length (opt_list x) = (if x \<noteq> None then 1 else 0)"
  by (cases x) simp_all

text \<open>The number of components that a specification asks for.\<close>

definition component_count :: "YtsaurusSpec \<Rightarrow> nat" where
  "component_count spec = 3 + length (ys_DataNodes spec) + length (ys_HTTPProxies spec) + length (ys_RPCProxies spec) +
     length (ys_TCPProxies spec) + length (ys_ExecNodes spec) + length (ys_TabletNodes spec) +
     (if ys_UI spec \<noteq> None then 1 else 0) + (if ys_Schedulers spec \<noteq> None then 1 else 0) +
     (if ys_ControllerAgents spec \<noteq> None then 1 else 0) +
     (if ys_QueryTrackers spec \<noteq> None \<and> ys_Schedulers spec \<noteq> None \<and> ys_TabletNodes spec \<noteq> [] then 1 else 0) +
     (if ys_QueueAgents spec \<noteq> None \<and> ys_TabletNodes spec \<noteq> [] then 1 else 0) +
     (if ys_YQLAgents spec \<noteq> None then 1 else 0) +
     (if ys_Schedulers spec \<noteq> None \<and> (ys_DeprecatedChytController spec \<noteq> None \<or> ys_StrawberryController spec \<noteq> None)
      then 1 else 0) +
     (if ys_MasterCaches spec \<noteq> None then 1 else 0)"

definition count_ok :: "YtsaurusSpec \<Rightarrow> string + 's components \<Rightarrow> bool" where
  "count_ok spec r \<longleftrightarrow> (case r of
       Inl e \<Rightarrow> ys_HTTPProxies spec = []
     | Inr cps \<Rightarrow> ys_HTTPProxies spec \<noteq> [] \<and> length (cps_all cps) = component_count spec)"

lemma returns_strawberry_iff:
  "returns (\<lambda>x. (x \<noteq> None) = (s \<noteq> None \<and> b)) (case s of Some y \<Rightarrow> newIf b (f y) | None \<Rightarrow> ret None)"
  by (cases s) (auto simp: newIf_def intro!: returns_ret returns_bind_any)

lemma newComponentsFor_count: "returns (count_ok (yr_Spec r)) (newComponentsFor E r)"
proof -
  let ?spec = "yr_Spec r"
  have hp: "returns (count_ok ?spec) (case hps of [] \<Rightarrow> ret (Inl ''panic'') | hp # _ \<Rightarrow> k hp)"
    if "length hps = length (ys_HTTPProxies ?spec)" and "\<And>hp. hps \<noteq> [] \<Longrightarrow> returns (count_ok ?spec) (k hp)"
    for hps :: "'a heap component list" and k
    using that by (cases hps) (auto simp: count_ok_def intro!: returns_ret)
  note lens = returns_newAll_length [THEN returns_bind] returns_newIf_iff [THEN returns_bind] returns_strawberry_iff [THEN returns_bind]
  show ?thesis
    unfolding newComponentsFor_def Let_def
    by (rule returns_bind_any, rule returns_bind_any, rule lens, rule hp, assumption, rule returns_bind_any,
        rule returns_bind_any, (rule lens)+, rule returns_ret, simp add: count_ok_def component_count_def length_opt_list)
      (metis length_0_conv)
qed

text \<open>
  Fetching a component and recording that it is ready only read the world; a quiet component moreover has a status query that is a pure
  observation.
\<close>

definition reads_only :: "'w heap component \<Rightarrow> bool" where
  "reads_only c \<longleftrightarrow> keeps h_world (c_Fetch c) \<and> (\<forall>s. keeps h_world (c_SetReadyCondition c s))"

lemma keeps_world_SetReadyCondition [io_intros]: "keeps h_world (SetReadyCondition E l s)"
  unfolding SetReadyCondition_def SetStatusCondition_def Let_def by (rule keeps_modify) simp

lemma fetch_Nodes:
  "reads_only (Discovery E l a)" "reads_only (DataNode E l a m)" "reads_only (ControllerAgent E l a m)"
  "reads_only (MasterCache E l a)" "reads_only (HttpProxy E l a b role tls m)"
  "reads_only (RpcProxy E l a rb tls m)" "reads_only (TcpProxy E l a tb m)"
  "reads_only (ExecNode E l x a sc m)"
  unfolding Discovery_def DataNode_def ControllerAgent_def MasterCache_def HttpProxy_def RpcProxy_def TcpProxy_def ExecNode_def
    mkComponent_def reads_only_def fetchServer_def fetchExecNode_def map_option_case
  by (auto intro!: io_intros split: option.splits)

lemma fetch_others:
  "reads_only (Master_component E l m)" "reads_only hp \<Longrightarrow> reads_only (YtsaurusClient_component E l yc hp)"
  "reads_only (TabletNode E l g a c i)" "reads_only (Scheduler_component E l sch)"
  "reads_only (QueryTracker_component E l qt)" "reads_only (QueueAgent_component E l qa)"
  "reads_only (YqlAgent_component E l ya)" "reads_only (UI_component E u)"
  "reads_only (Strawberry_component E sb)"
  unfolding Master_component_def YtsaurusClient_component_def TabletNode_def Scheduler_component_def QueryTracker_component_def
    QueueAgent_component_def YqlAgent_component_def UI_component_def Strawberry_component_def mkComponent_def reads_only_def fetchServer_def Master_Fetch_def
  by (auto intro!: io_intros split: option.splits)

definition quiet :: "'w heap component \<Rightarrow> bool" where
  "quiet c \<longleftrightarrow> dry_status c \<and> reads_only c"

interpretation qt: component_property E quiet False for E :: "'w ext"
  by unfold_locales
    (auto simp: New_defs quiet_def needOpArchiveInit_def intro!: returns_bind_any returns_ret fetch_Nodes fetch_others
      dry_Discovery dry_MasterCache dry_DataNode dry_ControllerAgent dry_HttpProxy dry_RpcProxy dry_TcpProxy dry_ExecNode dry_Master
      dry_YtsaurusClient dry_TabletNode dry_Scheduler dry_QueryTracker dry_QueueAgent dry_YqlAgent dry_UI dry_Strawberry)

subsection \<open>The contract of the components, for the components of a cluster\<close>

interpretation cl: component_list E "allComponents E h" for E :: "'w ext" and h
  by unfold_locales (rule ok.all_components; simp)

lemma keeps_newAll [io_intros]: "(\<And>x. keeps f (g x)) \<Longrightarrow> keeps f (newAll g xs)"
  by (induction xs) (auto intro!: io_intros)

lemma keeps_newIf [io_intros]: "keeps f m \<Longrightarrow> keeps f (newIf b m)"
  unfolding newIf_def by (intro io_intros)

lemma keeps_case_list [io_intros]:
  "keeps f m \<Longrightarrow> (\<And>y ys. keeps f (g y ys)) \<Longrightarrow> keeps f (case xs of [] \<Rightarrow> m | y # ys \<Rightarrow> g y ys)"
  by (cases xs) auto

text \<open>Building the components changes neither the status nor the world.\<close>

lemma keeps_newComponents [io_intros]: "keeps statusOuter (newComponents E)"
  unfolding newComponents_def newComponentsFor_def Let_def by (intro io_intros)

subsection \<open>The whole controller refines the machine\<close>

lemma tracks_statusOuter:
  "tracks E a h \<Longrightarrow> statusOuter h' = statusOuter h \<Longrightarrow> tracks E a h'"
  by (auto simp: tracks_def cond_inv_wf_status statusOuter_def)

lemma tracks_YtsaurusReconciler_Sync:
  assumes "tracks E a h"
  shows "tracks E a (snd (run_state (YtsaurusReconciler_Sync E) h))"
proof -
  obtain r h1 where r1: "run_state (newComponents E) h = (r, h1)" by fastforce
  have t1: "tracks E a h1"
    using tracks_statusOuter [OF assms keepsD [OF keeps_newComponents r1]] .
  show ?thesis
  proof (cases r)
    case (Inl e)
    with r1 t1 assms show ?thesis by (simp add: YtsaurusReconciler_Sync_def NewComponentManager_def)
  next
    case (Inr cps)
    have all: "cps_all cps = allComponents E h" using r1 Inr by (simp add: allComponents_def)
    obtain m h2 where r2: "run_state (makeManager (cps_all cps) (cps_queryTracker cps) (cps_scheduler cps)) h1 = (m, h2)"
      by fastforce
    have t2: "tracks E a h2" using tracks_comp [OF cl.rel_makeManager t1] r2 unfolding all by blast
    have "tracks E a (snd (run_state (syncManaged E cm) h2))" if "m = Inr cm" for cm
      using cl.tracks_syncManaged [of cm E h a h2] t2 makeManager_run(1) [OF r2 [unfolded that]] all by simp
    with r1 r2 Inr t2 assms show ?thesis
      by (cases m) (auto simp: YtsaurusReconciler_Sync_def NewComponentManager_def)
  qed
qed

lemma tracks_fresh:
  assumes "ext_ok E" and "meta_ok (x_meta E)" and "k_get_ytsaurus (x_k8s E) w = Found r" and "wf_status (yr_Status r)"
  shows "tracks E (abs_status (yr_Status r)) (fresh_heap r w)"
  using assms by (simp add: tracks_def fresh_heap_def cond_inv_wf_status reached_def)

lemma Reconcile_reached:
  assumes "ext_ok E" and "meta_ok (x_meta E)" and "k_get_ytsaurus (x_k8s E) w = Found r" and "wf_status (yr_Status r)"
  shows "\<exists>r'. k_get_ytsaurus (x_k8s E) (snd (Reconcile E w)) = Found r' \<and> reached (abs_status (yr_Status r)) r'"
  using tracks_YtsaurusReconciler_Sync [OF tracks_fresh [OF assms]] assms(3)
  by (simp add: Reconcile_def tracks_def case_prod_unfold Let_def)

subsection \<open>The life of the operator\<close>

text \<open>
  The operator reconciles; between reconciliations everything else may change but the status of
  the resource, which only the operator writes.
\<close>

inductive operator_step :: "'w ext \<Rightarrow> 'w \<Rightarrow> 'w \<Rightarrow> bool" for E where
  reconcile: "operator_step E w (snd (Reconcile E w))"
| environment: "k_get_ytsaurus (x_k8s E) w = Found r \<Longrightarrow> k_get_ytsaurus (x_k8s E) w' = Found r' \<Longrightarrow>
    yr_Status r' = yr_Status r \<Longrightarrow> operator_step E w w'"

inductive_cases operator_stepE: "operator_step E w w'"

lemma operator_step_reached:
  assumes "ext_ok E" and "meta_ok (x_meta E)" and "operator_step E w w'"
    and "k_get_ytsaurus (x_k8s E) w = Found r" and "reached a r"
  shows "\<exists>r'. k_get_ytsaurus (x_k8s E) w' = Found r' \<and> reached a r'"
  using assms(3)
proof (cases rule: operator_step.cases)
  case reconcile
  from Reconcile_reached [OF assms(1,2,4)] assms(5)
  obtain r' where "k_get_ytsaurus (x_k8s E) w' = Found r'" "reached (abs_status (yr_Status r)) r'"
    using reconcile by (auto simp: reached_def)
  with assms(5) show ?thesis by (auto simp: reached_def intro: rtranclp_trans)
next
  case (environment s s')
  with assms(4,5) show ?thesis by (auto simp: reached_def)
qed

lemma operator_run_reached:
  assumes "ext_ok E" and "meta_ok (x_meta E)" and "(operator_step E)\<^sup>*\<^sup>* w w'"
    and "k_get_ytsaurus (x_k8s E) w = Found r" and "wf_status (yr_Status r)"
  shows "\<exists>r'. k_get_ytsaurus (x_k8s E) w' = Found r' \<and> reached (abs_status (yr_Status r)) r'"
  using assms(3)
proof (induction rule: rtranclp_induct)
  case base
  with assms(4,5) show ?case by (auto simp: reached_def)
next
  case (step w1 w2)
  then show ?case using operator_step_reached [OF assms(1,2)] by blast
qed

text \<open>The status of a resource that was just created.\<close>

definition new_status :: YtsaurusStatus where
  "new_status = \<lparr>st_State = ClusterStateCreated, st_Conditions = [], st_UpdateStatus =
     \<lparr>us_State = UpdateStateNone, us_Components = None, us_Flow = UpdateFlowNone, us_Conditions = [],
      us_TabletCellBundles = [], us_MasterMonitoringPaths = []\<rparr>\<rparr>"

lemma cluster_inv_new: "cluster_inv (abs_status new_status)" "wf_status new_status"
  by (simp_all add: new_status_def cluster_inv_def abs_status_def idle_def ending_def status_of_def wf_status_def wf_conditions_def)

lemma operator_run_inv_from:
  assumes "ext_ok E" and "meta_ok (x_meta E)" and "(operator_step E)\<^sup>*\<^sup>* w w'"
    and "k_get_ytsaurus (x_k8s E) w = Found r" and "wf_status (yr_Status r)" and "cluster_inv (abs_status (yr_Status r))"
    and "k_get_ytsaurus (x_k8s E) w' = Found r'"
  shows "cluster_inv (abs_status (yr_Status r'))"
  using operator_run_reached [OF assms(1-5)] assms(6,7) by (auto simp: reached_def intro: cluster_inv_reach)

text \<open>While the stored status is updating, the conditions its stage requires are stored as true.\<close>

lemma operator_run_required:
  assumes "ext_ok E" and "meta_ok (x_meta E)" and "(operator_step E)\<^sup>*\<^sup>* w w'"
    and "k_get_ytsaurus (x_k8s E) w = Found r" and "wf_status (yr_Status r)" and "cluster_inv (abs_status (yr_Status r))"
    and "k_get_ytsaurus (x_k8s E) w' = Found r'" and "st_State (yr_Status r') = ClusterStateUpdating"
    and "t \<in> set (required_conds (us_Flow (st_UpdateStatus (yr_Status r'))) (us_State (st_UpdateStatus (yr_Status r'))))"
  shows "status_of (us_Conditions (st_UpdateStatus (yr_Status r'))) t = Some ConditionTrue"
  using operator_run_inv_from [OF assms(1-7)] assms(8,9)
  by (auto simp: cluster_inv_def updating_ok_def abs_status_def)

end
