(* ===== verification/Webhook.thy ===== *)
theory Webhook
  imports Ytv1
begin

text \<open>
  \<open>api/v1/ytsaurus_webhook.go\<close>: the validation of a Ytsaurus resource when it is created or
  updated, and the declarative reading of what is accepted.
\<close>

subsection \<open>Errors\<close>

text \<open>Paths, values and errors of the package \<open>validation/field\<close>; a path starts at the root.\<close>

datatype pathElem = Child string | Index nat

type_synonym fieldPath = "pathElem list"

datatype badValue =
    BadString string
  | BadLocationType LocationType
  | BadInt16 int16
  | BadBool "bool option"
  | BadLocation LocationSpec
  | BadStrings "string list"
  | BadSpyt DeprecatedSpytSpec

datatype FieldError =
    FieldNotFound fieldPath badValue
  | FieldInvalid fieldPath badValue string
  | FieldRequired fieldPath string
  | FieldDuplicate fieldPath badValue
  | FieldForbidden fieldPath string
  | FieldInternal fieldPath string

type_synonym ErrorList = "FieldError list"

text \<open>
  What the validator calls: the list request of the client (an error, or the resources of a
  namespace; the error that the list is not found gives no resources), the strict YAML decoder, which
  fills the name of a container even when it fails, and the printing of paths.
\<close>

record 'w webhook_api =
  wh_list :: "string \<Rightarrow> 'w \<Rightarrow> string + YtsaurusResource list"
  wh_yaml_strict :: "string \<Rightarrow> error \<times> string"
  wh_path_string :: "fieldPath \<Rightarrow> string"

subsection \<open>Instances\<close>

fun validateLocations :: "VolumeMount list \<Rightarrow> fieldPath \<Rightarrow> nat \<Rightarrow> LocationSpec list \<Rightarrow> ErrorList" where
  "validateLocations mounts path i [] = []"
| "validateLocations mounts path i (location # ls) =
     (if list_ex (\<lambda>m. HasPrefix (loc_Path location) (vm_MountPath m)) mounts then []
      else [FieldInvalid (path @ [Child ''locations'', Index i]) (BadLocation location) ''location path is not in any volume mount'']) @
     validateLocations mounts path (Suc i) ls"

definition validateInstanceSpec :: "InstanceSpec \<Rightarrow> fieldPath \<Rightarrow> ErrorList" where
  "validateInstanceSpec i path =
     (if is_EnableAntiAffinity i \<noteq> None
      then [FieldInvalid (path @ [Child ''EnableAntiAffinity'']) (BadBool (is_EnableAntiAffinity i))
              ''EnableAntiAffinity is deprecated, use Affinity instead'']
      else []) @
     validateLocations (is_VolumeMounts i) path 0 (is_Locations i)"

definition requireLocation :: "LocationSpec list \<Rightarrow> LocationType \<Rightarrow> fieldPath \<Rightarrow> ErrorList" where
  "requireLocation ls t path =
     (if FindFirstLocation ls t = None then [FieldNotFound (path @ [Child ''locations'']) (BadLocationType t)] else [])"

text \<open>
  The loop over named instances: a name seen before is reported, then the instance is checked at
  its path.
\<close>

fun validateNamed :: "('a \<Rightarrow> string) \<Rightarrow> string \<Rightarrow> ('a \<Rightarrow> fieldPath \<Rightarrow> ErrorList) \<Rightarrow> fieldPath \<Rightarrow> nat \<Rightarrow> string set \<Rightarrow> 'a list \<Rightarrow> ErrorList" where
  "validateNamed name fld check base i names [] = []"
| "validateNamed name fld check base i names (x # xs) =
     (let path = base @ [Index i] in
      (if name x \<in> names then [FieldDuplicate (path @ [Child fld]) (BadString (name x))] else []) @
      check x path @
      validateNamed name fld check base (Suc i) (insert (name x) names) xs)"

subsection \<open>Components\<close>

abbreviation spec_path :: fieldPath where
  "spec_path \<equiv> [Child ''spec'']"

definition validateDiscovery :: "YtsaurusSpec \<Rightarrow> ErrorList" where
  "validateDiscovery s = validateInstanceSpec (ys_Discovery s) (spec_path @ [Child ''discovery''])"

definition validateHostAddresses :: "'w webhook_api \<Rightarrow> YtsaurusSpec \<Rightarrow> fieldPath \<Rightarrow> ErrorList" where
  "validateHostAddresses W s path =
     (let m = ys_PrimaryMasters s; hostAddresses = mcs_HostAddresses (ms_Connection m);
          hostPath = path @ [Child ''hostAddresses''];
          hostNetwork = (case is_HostNetwork (ms_Instance m) of Some b \<Rightarrow> b | None \<Rightarrow> cs_HostNetwork (ys_Common s))
      in (if \<not> hostNetwork \<and> length hostAddresses \<noteq> 0
          then [FieldRequired (spec_path @ [Child ''hostNetwork''])
                 (wh_path_string W hostPath @ '' doesn'' @ [CHR 0x27] @ ''t make sense without hostNetwork=true'')]
          else []) @
         (if length hostAddresses \<noteq> 0 \<and> int (length hostAddresses) \<noteq> sint (is_InstanceCount (ms_Instance m))
          then [FieldInvalid hostPath (BadStrings hostAddresses) (wh_path_string W hostPath @
                 '' list length shoud be equal to '' @ wh_path_string W (path @ [Child ''instanceCount'']))]
          else []))"

definition validatePrimaryMasters :: "'w webhook_api \<Rightarrow> YtsaurusSpec \<Rightarrow> YtsaurusSpec option \<Rightarrow> ErrorList" where
  "validatePrimaryMasters W s old =
     (let m = ys_PrimaryMasters s; path = spec_path @ [Child ''primaryMasters'']; tag = mcs_CellTag (ms_Connection m)
      in validateInstanceSpec (ms_Instance m) path @
         validateHostAddresses W s path @
         requireLocation (is_Locations (ms_Instance m)) LocationTypeMasterChangelogs path @
         requireLocation (is_Locations (ms_Instance m)) LocationTypeMasterSnapshots path @
         (case old of
            Some o' \<Rightarrow> if mcs_CellTag (ms_Connection (ys_PrimaryMasters o')) \<noteq> tag
              then [FieldInvalid (path @ [Child ''cellTag'']) (BadInt16 tag) ''Could not be changed''] else []
          | None \<Rightarrow> []) @
         (if sint (is_InstanceCount (ms_Instance m)) > 1 \<and> \<not> cs_EphemeralCluster (ys_Common s) \<and>
             (case is_Affinity (ms_Instance m) of None \<Rightarrow> True | Some a \<Rightarrow> af_PodAntiAffinity a = None)
          then [FieldRequired (path @ [Child ''affinity'', Child ''podAntiAffinity'']) ''Masters should be placed on different nodes'']
          else []))"

fun validateSecondary :: "'w webhook_api \<Rightarrow> YtsaurusSpec \<Rightarrow> nat \<Rightarrow> MastersSpec list \<Rightarrow> ErrorList" where
  "validateSecondary W s i [] = []"
| "validateSecondary W s i (sm # sms) =
     (let path = spec_path @ [Child ''secondaryMasters'', Index i] in
      validateInstanceSpec (ms_Instance sm) path @ validateHostAddresses W s path @ validateSecondary W s (Suc i) sms)"

definition validateSecondaryMasters :: "'w webhook_api \<Rightarrow> YtsaurusSpec \<Rightarrow> ErrorList" where
  "validateSecondaryMasters W s = validateSecondary W s 0 (ys_SecondaryMasters s)"

definition validateHTTPProxies :: "YtsaurusSpec \<Rightarrow> ErrorList" where
  "validateHTTPProxies s =
     validateNamed hps_Role ''role'' (\<lambda>hp. validateInstanceSpec (hps_Instance hp)) (spec_path @ [Child ''httpProxies'']) 0 {} (ys_HTTPProxies s) @
     (if list_ex (\<lambda>hp. hps_Role hp = DefaultHTTPProxyRole) (ys_HTTPProxies s) then []
      else [FieldRequired (spec_path @ [Child ''httpProxies'']) ''HTTP proxy with `default` role should exist''])"

definition validateRPCProxies :: "YtsaurusSpec \<Rightarrow> ErrorList" where
  "validateRPCProxies s =
     validateNamed rps_Role ''role'' (\<lambda>rp. validateInstanceSpec (rps_Instance rp)) (spec_path @ [Child ''rpcProxies'']) 0 {} (ys_RPCProxies s)"

definition validateTCPProxies :: "YtsaurusSpec \<Rightarrow> ErrorList" where
  "validateTCPProxies s =
     validateNamed tps_Role ''role'' (\<lambda>rp. validateInstanceSpec (tps_Instance rp)) (spec_path @ [Child ''tcpProxies'']) 0 {} (ys_TCPProxies s)"

definition validateDataNodes :: "YtsaurusSpec \<Rightarrow> ErrorList" where
  "validateDataNodes s =
     validateNamed dns_Name ''name''
       (\<lambda>dn path. validateInstanceSpec (dns_Instance dn) path @
          requireLocation (is_Locations (dns_Instance dn)) LocationTypeChunkStore path)
       (spec_path @ [Child ''dataNodes'']) 0 {} (ys_DataNodes s)"

fun validateSidecarsFrom :: "'w webhook_api \<Rightarrow> fieldPath \<Rightarrow> nat \<Rightarrow> string set \<Rightarrow> string list \<Rightarrow> ErrorList" where
  "validateSidecarsFrom W path i names [] = []"
| "validateSidecarsFrom W path i names (sidecarSpec # specs) =
     (case wh_yaml_strict W sidecarSpec of (err, name) \<Rightarrow>
        (case err of Some e \<Rightarrow> [FieldInvalid (path @ [Index i]) (BadString sidecarSpec) e] | None \<Rightarrow> []) @
        (if name \<in> names then [FieldDuplicate (path @ [Index i, Child ''name'']) (BadString name)] else []) @
        validateSidecarsFrom W path (Suc i) (insert name names) specs)"

definition validateSidecars :: "'w webhook_api \<Rightarrow> string list \<Rightarrow> fieldPath \<Rightarrow> ErrorList" where
  "validateSidecars W sidecars path = validateSidecarsFrom W path 0 {} sidecars"

definition validateExecNode :: "'w webhook_api \<Rightarrow> ExecNodesSpec \<Rightarrow> fieldPath \<Rightarrow> ErrorList" where
  "validateExecNode W en path =
     validateInstanceSpec (ens_Instance en) path @
     requireLocation (is_Locations (ens_Instance en)) LocationTypeChunkCache path @
     requireLocation (is_Locations (ens_Instance en)) LocationTypeSlots path @
     validateSidecars W (ens_InitContainers en) (path @ [Child ''initContainers'']) @
     validateSidecars W (ens_Sidecars en) (path @ [Child ''sidecars''])"

definition validateExecNodes :: "'w webhook_api \<Rightarrow> YtsaurusSpec \<Rightarrow> ErrorList" where
  "validateExecNodes W s =
     validateNamed ens_Name ''name'' (validateExecNode W) (spec_path @ [Child ''execNodes'']) 0 {} (ys_ExecNodes s) @
     (if length (ys_ExecNodes s) > 0 \<and> ys_Schedulers s = None
      then [FieldRequired (spec_path @ [Child ''schedulers'']) (''execNodes doesn'' @ [CHR 0x27] @ ''t make sense without schedulers'')]
      else [])"

definition validateSchedulers :: "YtsaurusSpec \<Rightarrow> ErrorList" where
  "validateSchedulers s = (case ys_Schedulers s of
       None \<Rightarrow> []
     | Some i \<Rightarrow> validateInstanceSpec i (spec_path @ [Child ''schedulers'']) @
         (if ys_ControllerAgents s = None
          then [FieldRequired (spec_path @ [Child ''controllerAgents'']) (''schedulers doesn'' @ [CHR 0x27] @ ''t make sense without controllerAgents'')]
          else []))"

definition validateControllerAgents :: "YtsaurusSpec \<Rightarrow> ErrorList" where
  "validateControllerAgents s = (case ys_ControllerAgents s of
       None \<Rightarrow> []
     | Some i \<Rightarrow> validateInstanceSpec i (spec_path @ [Child ''controllerAgents'']) @
         (if ys_Schedulers s = None
          then [FieldRequired (spec_path @ [Child ''schedulers'']) (''controllerAgents doesn'' @ [CHR 0x27] @ ''t make sense without schedulers'')]
          else []))"

definition validateTabletNodes :: "YtsaurusSpec \<Rightarrow> ErrorList" where
  "validateTabletNodes s =
     validateNamed tns_Name ''name'' (\<lambda>tn. validateInstanceSpec (tns_Instance tn)) (spec_path @ [Child ''tabletNodes'']) 0 {} (ys_TabletNodes s)"

definition validateChyt :: "YtsaurusSpec \<Rightarrow> ErrorList" where
  "validateChyt s = []"

definition validateStrawberry :: "YtsaurusSpec \<Rightarrow> ErrorList" where
  "validateStrawberry s =
     (if ys_StrawberryController s \<noteq> None \<and> ys_Schedulers s = None
      then [FieldRequired (spec_path @ [Child ''schedulers'']) ''schedulers are required for strawberry''] else [])"

definition validateQueryTrackers :: "YtsaurusSpec \<Rightarrow> ErrorList" where
  "validateQueryTrackers s = (case ys_QueryTrackers s of
       None \<Rightarrow> []
     | Some i \<Rightarrow> validateInstanceSpec i (spec_path @ [Child ''queryTrackers'']) @
         (if length (ys_TabletNodes s) = 0
          then [FieldRequired (spec_path @ [Child ''tabletNodes'']) ''tabletNodes are required for queryTrackers''] else []) @
         (if ys_Schedulers s = None
          then [FieldRequired (spec_path @ [Child ''schedulers'']) ''schedulers are required for queryTrackers''] else []))"

definition validateQueueAgents :: "YtsaurusSpec \<Rightarrow> ErrorList" where
  "validateQueueAgents s = (case ys_QueueAgents s of
       None \<Rightarrow> []
     | Some i \<Rightarrow> validateInstanceSpec i (spec_path @ [Child ''queueAgents'']) @
         (if length (ys_TabletNodes s) = 0
          then [FieldRequired (spec_path @ [Child ''tabletNodes'']) ''tabletNodes are required for queueAgents''] else []))"

definition validateSpyt :: "YtsaurusSpec \<Rightarrow> ErrorList" where
  "validateSpyt s = (case ys_Spyt s of
       None \<Rightarrow> []
     | Some x \<Rightarrow> [FieldInvalid (spec_path @ [Child ''spyt'']) (BadSpyt x) ''spyt is deprecated here, use Spyt resource instead''])"

definition validateYQLAgents :: "YtsaurusSpec \<Rightarrow> ErrorList" where
  "validateYQLAgents s = (case ys_YQLAgents s of
       None \<Rightarrow> []
     | Some i \<Rightarrow> validateInstanceSpec i (spec_path @ [Child ''YQLAgents'']) @
         (if ys_QueryTrackers s = None
          then [FieldRequired (spec_path @ [Child ''queryTrackers'']) (''yqlAgents doesn'' @ [CHR 0x27] @ ''t make sense without queryTrackers'')]
          else []))"

text \<open>The loop stops at the first proxy with the default role.\<close>

fun validateUiProxies :: "nat \<Rightarrow> HTTPProxiesSpec list \<Rightarrow> ErrorList" where
  "validateUiProxies i [] = []"
| "validateUiProxies i (hp # hps) =
     (if hps_Role hp \<noteq> DefaultHTTPProxyRole then validateUiProxies (Suc i) hps
      else if ht_HTTPSSecret (hps_Transport hp) = None
      then [FieldRequired (spec_path @ [Child ''httpProxies'', Index i, Child ''transport'', Child ''httpsSecret''])
             ''configured HTTPS for proxy with `default` role is required for ui.secure'']
      else [])"

definition validateUi :: "YtsaurusSpec \<Rightarrow> ErrorList" where
  "validateUi s = (case ys_UI s of
       None \<Rightarrow> []
     | Some ui \<Rightarrow> if ui_Secure ui then validateUiProxies 0 (ys_HTTPProxies s) else [])"

definition validateExistsYtsaurus :: "'w webhook_api \<Rightarrow> YtsaurusResource \<Rightarrow> 'w \<Rightarrow> ErrorList" where
  "validateExistsYtsaurus W r w = (case wh_list W (om_Namespace (yr_Meta r)) w of
       Inl e \<Rightarrow> [FieldInternal [Child ''k8sClient''] e]
     | Inr items \<Rightarrow>
         (if length items = 1 \<and> om_Name (yr_Meta (hd items)) = om_Name (yr_Meta r) then []
          else if length items = 0 then []
          else [FieldForbidden [Child ''metadata'', Child ''namespace'']
                 (''A Ytsaurus object already exists in the given namespace '' @ om_Namespace (yr_Meta r))]))"

definition validateYtsaurus :: "'w webhook_api \<Rightarrow> YtsaurusResource \<Rightarrow> YtsaurusResource option \<Rightarrow> 'w \<Rightarrow> ErrorList" where
  "validateYtsaurus W r old w =
     (let s = yr_Spec r in
      validateDiscovery s @ validatePrimaryMasters W s (map_option yr_Spec old) @ validateSecondaryMasters W s @
      validateHTTPProxies s @ validateRPCProxies s @ validateTCPProxies s @ validateDataNodes s @ validateExecNodes W s @
      validateSchedulers s @ validateControllerAgents s @ validateTabletNodes s @ validateChyt s @ validateStrawberry s @
      validateQueryTrackers s @ validateQueueAgents s @ validateSpyt s @ validateYQLAgents s @ validateUi s @
      validateExistsYtsaurus W r w)"

subsection \<open>Admission\<close>

text \<open>
  The requests carry an object of any kind; the resource or the name of its type. \<open>ValidateCreate\<close> logs
  the name of the resource before it looks at the outcome of the type assertion: for another kind the
  pointer is nil and the access panics.
\<close>

datatype runtimeObject = AYtsaurus YtsaurusResource | AnotherKind string

datatype admissionError = InvalidResource string ErrorList | WrongKind string

definition evaluateYtsaurusValidation :: "'w webhook_api \<Rightarrow> YtsaurusResource \<Rightarrow> YtsaurusResource option \<Rightarrow> 'w \<Rightarrow> admissionError option" where
  "evaluateYtsaurusValidation W r old w =
     (let allErrors = validateYtsaurus W r old w
      in if length allErrors = 0 then None else Some (InvalidResource (om_Name (yr_Meta r)) allErrors))"

definition ValidateCreate :: "'w webhook_api \<Rightarrow> runtimeObject \<Rightarrow> 'w \<Rightarrow> string + admissionError option" where
  "ValidateCreate W obj w = (case obj of
       AYtsaurus r \<Rightarrow> Inr (evaluateYtsaurusValidation W r None w)
     | AnotherKind t \<Rightarrow> Inl ''panic'')"

text \<open>The message of a wrong kind prints the type of the nil pointer, not that of the object.\<close>

definition ValidateUpdate :: "'w webhook_api \<Rightarrow> runtimeObject \<Rightarrow> runtimeObject \<Rightarrow> 'w \<Rightarrow> string + admissionError option" where
  "ValidateUpdate W oldObj newObj w = (case oldObj of
       AnotherKind t \<Rightarrow> Inr (Some (WrongKind ''*v1.Ytsaurus''))
     | AYtsaurus old \<Rightarrow>
         (case newObj of
            AnotherKind t \<Rightarrow> Inr (Some (WrongKind ''*v1.Ytsaurus''))
          | AYtsaurus r \<Rightarrow> Inr (evaluateYtsaurusValidation W r (Some old) w)))"

definition ValidateDelete :: "runtimeObject \<Rightarrow> string + admissionError option" where
  "ValidateDelete obj = (case obj of AnotherKind t \<Rightarrow> Inr (Some (WrongKind ''*v1.Ytsaurus'')) | AYtsaurus r \<Rightarrow> Inr None)"

subsection \<open>What is accepted\<close>

text \<open>
  The conditions in the terms of the specification. An instance does not use the deprecated flag and
  each of its locations lies in a volume mount.
\<close>

definition instance_ok :: "InstanceSpec \<Rightarrow> bool" where
  "instance_ok i \<longleftrightarrow> is_EnableAntiAffinity i = None \<and>
     (\<forall>l \<in> set (is_Locations i). \<exists>m \<in> set (is_VolumeMounts i). \<exists>t. loc_Path l = vm_MountPath m @ t)"

definition has_location :: "InstanceSpec \<Rightarrow> LocationType \<Rightarrow> bool" where
  "has_location i t \<longleftrightarrow> (\<exists>l \<in> set (is_Locations i). loc_LocationType l = t)"

text \<open>Host addresses are given for every master, and only when the masters use the host network.\<close>

definition hosts_ok :: "YtsaurusSpec \<Rightarrow> bool" where
  "hosts_ok s \<longleftrightarrow>
     (let m = ys_PrimaryMasters s; hosts = mcs_HostAddresses (ms_Connection m) in
      hosts = [] \<or>
      (case is_HostNetwork (ms_Instance m) of Some b \<Rightarrow> b | None \<Rightarrow> cs_HostNetwork (ys_Common s)) \<and>
      int (length hosts) = sint (is_InstanceCount (ms_Instance m)))"

definition masters_ok :: "YtsaurusSpec \<Rightarrow> bool" where
  "masters_ok s \<longleftrightarrow>
     (let i = ms_Instance (ys_PrimaryMasters s) in
      instance_ok i \<and> hosts_ok s \<and> has_location i LocationTypeMasterChangelogs \<and> has_location i LocationTypeMasterSnapshots \<and>
      (1 < sint (is_InstanceCount i) \<longrightarrow> cs_EphemeralCluster (ys_Common s) \<or>
         (\<exists>a p. is_Affinity i = Some a \<and> af_PodAntiAffinity a = Some p)))"

definition sidecars_ok :: "'w webhook_api \<Rightarrow> string list \<Rightarrow> bool" where
  "sidecars_ok W cs \<longleftrightarrow> (\<forall>c \<in> set cs. fst (wh_yaml_strict W c) = None) \<and> distinct (map (\<lambda>c. snd (wh_yaml_strict W c)) cs)"

definition exec_ok :: "'w webhook_api \<Rightarrow> ExecNodesSpec \<Rightarrow> bool" where
  "exec_ok W en \<longleftrightarrow> instance_ok (ens_Instance en) \<and> has_location (ens_Instance en) LocationTypeChunkCache \<and>
     has_location (ens_Instance en) LocationTypeSlots \<and> sidecars_ok W (ens_InitContainers en) \<and> sidecars_ok W (ens_Sidecars en)"

text \<open>Which components need which others.\<close>

definition requires_ok :: "YtsaurusSpec \<Rightarrow> bool" where
  "requires_ok s \<longleftrightarrow>
     (ys_ExecNodes s \<noteq> [] \<longrightarrow> ys_Schedulers s \<noteq> None) \<and>
     (ys_Schedulers s \<noteq> None \<longleftrightarrow> ys_ControllerAgents s \<noteq> None) \<and>
     (ys_StrawberryController s \<noteq> None \<longrightarrow> ys_Schedulers s \<noteq> None) \<and>
     (ys_QueryTrackers s \<noteq> None \<longrightarrow> ys_TabletNodes s \<noteq> [] \<and> ys_Schedulers s \<noteq> None) \<and>
     (ys_QueueAgents s \<noteq> None \<longrightarrow> ys_TabletNodes s \<noteq> []) \<and>
     (ys_YQLAgents s \<noteq> None \<longrightarrow> ys_QueryTrackers s \<noteq> None) \<and>
     ys_Spyt s = None \<and>
     (\<forall>ui. ys_UI s = Some ui \<and> ui_Secure ui \<longrightarrow>
        (\<forall>hp. find (\<lambda>hp. hps_Role hp = DefaultHTTPProxyRole) (ys_HTTPProxies s) = Some hp \<longrightarrow> ht_HTTPSSecret (hps_Transport hp) \<noteq> None))"

definition names_ok :: "YtsaurusSpec \<Rightarrow> bool" where
  "names_ok s \<longleftrightarrow> distinct (map hps_Role (ys_HTTPProxies s)) \<and> (\<exists>hp \<in> set (ys_HTTPProxies s). hps_Role hp = DefaultHTTPProxyRole) \<and>
     distinct (map rps_Role (ys_RPCProxies s)) \<and> distinct (map tps_Role (ys_TCPProxies s)) \<and>
     distinct (map dns_Name (ys_DataNodes s)) \<and> distinct (map ens_Name (ys_ExecNodes s)) \<and>
     distinct (map tns_Name (ys_TabletNodes s))"

definition present :: "'a option list \<Rightarrow> 'a list" where
  "present xs = map the (filter (\<lambda>x. x \<noteq> None) xs)"

text \<open>The instances of every component but the primary masters and the exec nodes.\<close>

definition all_instances :: "YtsaurusSpec \<Rightarrow> InstanceSpec list" where
  "all_instances s = [ys_Discovery s] @ map ms_Instance (ys_SecondaryMasters s) @ map hps_Instance (ys_HTTPProxies s) @
     map rps_Instance (ys_RPCProxies s) @ map tps_Instance (ys_TCPProxies s) @ map dns_Instance (ys_DataNodes s) @
     map tns_Instance (ys_TabletNodes s) @
     present [ys_Schedulers s, ys_ControllerAgents s, ys_QueryTrackers s, ys_QueueAgents s, ys_YQLAgents s]"

definition spec_ok :: "'w webhook_api \<Rightarrow> YtsaurusSpec \<Rightarrow> bool" where
  "spec_ok W s \<longleftrightarrow> masters_ok s \<and> list_all instance_ok (all_instances s) \<and>
     (\<forall>dn \<in> set (ys_DataNodes s). has_location (dns_Instance dn) LocationTypeChunkStore) \<and>
     (\<forall>en \<in> set (ys_ExecNodes s). exec_ok W en) \<and> names_ok s \<and> requires_ok s"

text \<open>No other resource of the kind lives in the namespace.\<close>

definition alone :: "'w webhook_api \<Rightarrow> YtsaurusResource \<Rightarrow> 'w \<Rightarrow> bool" where
  "alone W r w \<longleftrightarrow> (\<exists>items. wh_list W (om_Namespace (yr_Meta r)) w = Inr items \<and>
     (items = [] \<or> (\<exists>y. items = [y] \<and> om_Name (yr_Meta y) = om_Name (yr_Meta r))))"

subsection \<open>The validation decides it\<close>

named_theorems valid_iff \<open>a validation reports nothing exactly when its condition holds\<close>

lemma FindFirstLocation_None: "FindFirstLocation ls t = None \<longleftrightarrow> (\<forall>l \<in> set ls. loc_LocationType l \<noteq> t)"
  by (induction ls) auto

lemma requireLocation_iff [valid_iff]: "requireLocation (is_Locations i) t path = [] \<longleftrightarrow> has_location i t"
  by (auto simp: requireLocation_def has_location_def FindFirstLocation_None)

lemma validateLocations_iff: "validateLocations ms path i ls = [] \<longleftrightarrow>
    (\<forall>l \<in> set ls. \<exists>m \<in> set ms. \<exists>t. loc_Path l = vm_MountPath m @ t)"
  by (induction ls arbitrary: i) (auto simp: list_ex_iff HasPrefix_iff)

lemma validateInstanceSpec_iff [valid_iff]: "validateInstanceSpec i path = [] \<longleftrightarrow> instance_ok i"
  by (auto simp: validateInstanceSpec_def instance_ok_def validateLocations_iff)

lemma validateNamed_iff:
  assumes "\<And>x p. check x p = [] \<longleftrightarrow> P x"
  shows "validateNamed name fld check base i names xs = [] \<longleftrightarrow>
    distinct (map name xs) \<and> names \<inter> name ` set xs = {} \<and> (\<forall>x \<in> set xs. P x)"
  by (induction xs arbitrary: i names) (auto simp: Let_def assms)

lemma validateSidecarsFrom_iff: "validateSidecarsFrom W path i names cs = [] \<longleftrightarrow> sidecars_ok W cs \<and>
    names \<inter> (\<lambda>c. snd (wh_yaml_strict W c)) ` set cs = {}"
  by (induction cs arbitrary: i names) (auto simp: sidecars_ok_def split: prod.splits option.splits)

lemma validateExecNode_iff [valid_iff]: "validateExecNode W en path = [] \<longleftrightarrow> exec_ok W en"
  by (simp add: validateExecNode_def exec_ok_def valid_iff validateSidecars_def validateSidecarsFrom_iff)

lemma validateUiProxies_iff: "validateUiProxies i hps = [] \<longleftrightarrow>
    (\<forall>hp. find (\<lambda>hp. hps_Role hp = DefaultHTTPProxyRole) hps = Some hp \<longrightarrow> ht_HTTPSSecret (hps_Transport hp) \<noteq> None)"
  by (induction hps arbitrary: i) auto

lemma validateHostAddresses_iff [valid_iff]: "validateHostAddresses W s path = [] \<longleftrightarrow> hosts_ok s"
  by (auto simp: validateHostAddresses_def hosts_ok_def Let_def)

lemma validateSecondary_iff: "validateSecondary W s i ms = [] \<longleftrightarrow>
    (\<forall>m \<in> set ms. instance_ok (ms_Instance m)) \<and> (ms = [] \<or> hosts_ok s)"
  by (induction ms arbitrary: i) (auto simp: Let_def valid_iff)

lemma validatePrimaryMasters_iff: "validatePrimaryMasters W s old = [] \<longleftrightarrow> masters_ok s \<and>
    (\<forall>s'. old = Some s' \<longrightarrow> mcs_CellTag (ms_Connection (ys_PrimaryMasters s')) = mcs_CellTag (ms_Connection (ys_PrimaryMasters s)))"
  by (auto simp: validatePrimaryMasters_def masters_ok_def Let_def valid_iff split: option.splits)

lemma validate_named_components:
  "validateHTTPProxies s = [] \<longleftrightarrow> distinct (map hps_Role (ys_HTTPProxies s)) \<and>
     (\<forall>x \<in> set (ys_HTTPProxies s). instance_ok (hps_Instance x)) \<and> (\<exists>hp \<in> set (ys_HTTPProxies s). hps_Role hp = DefaultHTTPProxyRole)"
  "validateRPCProxies s = [] \<longleftrightarrow> distinct (map rps_Role (ys_RPCProxies s)) \<and> (\<forall>x \<in> set (ys_RPCProxies s). instance_ok (rps_Instance x))"
  "validateTCPProxies s = [] \<longleftrightarrow> distinct (map tps_Role (ys_TCPProxies s)) \<and> (\<forall>x \<in> set (ys_TCPProxies s). instance_ok (tps_Instance x))"
  "validateTabletNodes s = [] \<longleftrightarrow> distinct (map tns_Name (ys_TabletNodes s)) \<and> (\<forall>x \<in> set (ys_TabletNodes s). instance_ok (tns_Instance x))"
  "validateDataNodes s = [] \<longleftrightarrow> distinct (map dns_Name (ys_DataNodes s)) \<and>
     (\<forall>x \<in> set (ys_DataNodes s). instance_ok (dns_Instance x) \<and> has_location (dns_Instance x) LocationTypeChunkStore)"
  "validateExecNodes W s = [] \<longleftrightarrow> distinct (map ens_Name (ys_ExecNodes s)) \<and> (\<forall>x \<in> set (ys_ExecNodes s). exec_ok W x) \<and>
     (ys_ExecNodes s \<noteq> [] \<longrightarrow> ys_Schedulers s \<noteq> None)"
  unfolding validateHTTPProxies_def validateRPCProxies_def validateTCPProxies_def validateTabletNodes_def
    validateDataNodes_def validateExecNodes_def
  by (auto simp: validateNamed_iff [where P = "\<lambda>x. instance_ok (hps_Instance x)"]
      validateNamed_iff [where P = "\<lambda>x. instance_ok (rps_Instance x)"] validateNamed_iff [where P = "\<lambda>x. instance_ok (tps_Instance x)"]
      validateNamed_iff [where P = "\<lambda>x. instance_ok (tns_Instance x)"]
      validateNamed_iff [where P = "\<lambda>x. instance_ok (dns_Instance x) \<and> has_location (dns_Instance x) LocationTypeChunkStore"]
      validateNamed_iff [where P = "exec_ok W"] valid_iff list_ex_iff)

lemma validate_optional_components:
  "validateSchedulers s = [] \<longleftrightarrow> pred_option instance_ok (ys_Schedulers s) \<and> (ys_Schedulers s \<noteq> None \<longrightarrow> ys_ControllerAgents s \<noteq> None)"
  "validateControllerAgents s = [] \<longleftrightarrow>
     pred_option instance_ok (ys_ControllerAgents s) \<and> (ys_ControllerAgents s \<noteq> None \<longrightarrow> ys_Schedulers s \<noteq> None)"
  "validateStrawberry s = [] \<longleftrightarrow> (ys_StrawberryController s \<noteq> None \<longrightarrow> ys_Schedulers s \<noteq> None)"
  "validateQueryTrackers s = [] \<longleftrightarrow>
     pred_option instance_ok (ys_QueryTrackers s) \<and> (ys_QueryTrackers s \<noteq> None \<longrightarrow> ys_TabletNodes s \<noteq> [] \<and> ys_Schedulers s \<noteq> None)"
  "validateQueueAgents s = [] \<longleftrightarrow> pred_option instance_ok (ys_QueueAgents s) \<and> (ys_QueueAgents s \<noteq> None \<longrightarrow> ys_TabletNodes s \<noteq> [])"
  "validateYQLAgents s = [] \<longleftrightarrow> pred_option instance_ok (ys_YQLAgents s) \<and> (ys_YQLAgents s \<noteq> None \<longrightarrow> ys_QueryTrackers s \<noteq> None)"
  "validateSpyt s = [] \<longleftrightarrow> ys_Spyt s = None"
  by (auto simp: validateSchedulers_def validateControllerAgents_def validateStrawberry_def validateQueryTrackers_def
      validateQueueAgents_def validateYQLAgents_def validateSpyt_def valid_iff split: option.splits)

lemma validateUi_iff: "validateUi s = [] \<longleftrightarrow> (\<forall>ui. ys_UI s = Some ui \<and> ui_Secure ui \<longrightarrow>
    (\<forall>hp. find (\<lambda>hp. hps_Role hp = DefaultHTTPProxyRole) (ys_HTTPProxies s) = Some hp \<longrightarrow> ht_HTTPSSecret (hps_Transport hp) \<noteq> None))"
  by (simp add: validateUi_def validateUiProxies_iff split: option.split)

lemma validateExistsYtsaurus_iff: "validateExistsYtsaurus W r w = [] \<longleftrightarrow> alone W r w"
  by (auto simp: validateExistsYtsaurus_def alone_def length_Suc_conv split: sum.splits)

lemma list_all_present: "list_all P (present xs) \<longleftrightarrow> list_all (pred_option P) xs"
  by (induction xs) (auto simp: present_def)

lemma all_instances_ok: "list_all instance_ok (all_instances s) \<longleftrightarrow> instance_ok (ys_Discovery s) \<and>
    (\<forall>m \<in> set (ys_SecondaryMasters s). instance_ok (ms_Instance m)) \<and> (\<forall>x \<in> set (ys_HTTPProxies s). instance_ok (hps_Instance x)) \<and>
    (\<forall>x \<in> set (ys_RPCProxies s). instance_ok (rps_Instance x)) \<and> (\<forall>x \<in> set (ys_TCPProxies s). instance_ok (tps_Instance x)) \<and>
    (\<forall>x \<in> set (ys_DataNodes s). instance_ok (dns_Instance x)) \<and> (\<forall>x \<in> set (ys_TabletNodes s). instance_ok (tns_Instance x)) \<and>
    pred_option instance_ok (ys_Schedulers s) \<and> pred_option instance_ok (ys_ControllerAgents s) \<and>
    pred_option instance_ok (ys_QueryTrackers s) \<and> pred_option instance_ok (ys_QueueAgents s) \<and> pred_option instance_ok (ys_YQLAgents s)"
  by (simp add: all_instances_def list_all_present list.pred_map list_all_append) (simp add: list_all_iff)

lemma validateYtsaurus_iff: "validateYtsaurus W r old w = [] \<longleftrightarrow>
    spec_ok W (yr_Spec r) \<and> alone W r w \<and>
    (\<forall>o'. old = Some o' \<longrightarrow> mcs_CellTag (ms_Connection (ys_PrimaryMasters (yr_Spec o'))) =
       mcs_CellTag (ms_Connection (ys_PrimaryMasters (yr_Spec r))))"
proof -
  have hosts: "masters_ok (yr_Spec r) \<Longrightarrow> hosts_ok (yr_Spec r)" by (simp add: masters_ok_def Let_def)
  have old: "(\<forall>s'. map_option yr_Spec old = Some s' \<longrightarrow> P s') \<longleftrightarrow> (\<forall>o'. old = Some o' \<longrightarrow> P (yr_Spec o'))" for P
    by (cases old) auto
  show ?thesis
    unfolding validateYtsaurus_def Let_def append_is_Nil_conv validateDiscovery_def validateSecondaryMasters_def validateChyt_def
      validatePrimaryMasters_iff validateSecondary_iff validate_named_components validate_optional_components validateUi_iff
      validateExistsYtsaurus_iff validateInstanceSpec_iff spec_ok_def all_instances_ok names_ok_def requires_ok_def old ball_conj_distrib
    unfolding simp_thms using hosts by satx
qed

end
