(* ===== verification/Accepted.thy ===== *)
theory Accepted
  imports Operator Webhook
begin

text \<open>
  The validation of the resource and the operator together: every document of an accepted
  specification is built. The constructors of the components put the generators of their documents
  into the heap; the invariant below says that every object that was put there has documents.
\<close>

subsection \<open>Objects with documents\<close>

definition gens_ok :: "ConfigHelper \<Rightarrow> bool" where
  "gens_ok ch \<longleftrightarrow> (\<forall>(file, d) \<in> set (ch_generators ch). \<not> isl (gd_F d))"

text \<open>The objects of \<open>h\<close> that differ from those of \<open>h0\<close> have documents.\<close>

definition docs_built :: "'w heap \<Rightarrow> 'w heap \<Rightarrow> bool" where
  "docs_built h0 h \<longleftrightarrow> (\<forall>a.
     (h_srv h a = h_srv h0 a \<or> gens_ok (srv_configHelper (h_srv h a))) \<and>
     (h_job h a = h_job h0 a \<or> gens_ok (ij_configHelper (h_job h a))) \<and>
     (h_ms h a = h_ms h0 a \<or> gens_ok (mi_configHelper (h_ms h a))) \<and>
     (h_cfg h a = h_cfg h0 a \<or> gens_ok (h_cfg h a)))"

text \<open>
  What the constructors rely on: the primary masters have their locations, and the optional parts of
  the specification the components are created for are still there.
\<close>

definition has_parts :: "YtsaurusSpec \<Rightarrow> YtsaurusSpec \<Rightarrow> bool" where
  "has_parts s0 s \<longleftrightarrow>
     FindFirstLocation (is_Locations (ms_Instance (ys_PrimaryMasters s))) LocationTypeMasterChangelogs \<noteq> None \<and>
     FindFirstLocation (is_Locations (ms_Instance (ys_PrimaryMasters s))) LocationTypeMasterSnapshots \<noteq> None \<and>
     (ys_Schedulers s0 \<noteq> None \<longrightarrow> ys_Schedulers s \<noteq> None) \<and>
     (ys_ControllerAgents s0 \<noteq> None \<longrightarrow> ys_ControllerAgents s \<noteq> None) \<and>
     (ys_QueryTrackers s0 \<noteq> None \<longrightarrow> ys_QueryTrackers s \<noteq> None) \<and>
     (ys_QueueAgents s0 \<noteq> None \<longrightarrow> ys_QueueAgents s \<noteq> None) \<and>
     (ys_YQLAgents s0 \<noteq> None \<longrightarrow> ys_YQLAgents s \<noteq> None) \<and>
     (ys_MasterCaches s0 \<noteq> None \<longrightarrow> ys_MasterCaches s \<noteq> None)"

definition docs_inv :: "'w heap \<Rightarrow> 'w heap \<Rightarrow> bool" where
  "docs_inv h0 h \<longleftrightarrow> docs_built h0 h \<and> has_parts (yr_Spec (h_yts h0)) (yr_Spec (h_yts h))"

abbreviation docs_rel :: "'w heap \<Rightarrow> 'w heap \<Rightarrow> 'w heap \<Rightarrow> bool" where
  "docs_rel h0 h h' \<equiv> docs_inv h0 h \<longrightarrow> docs_inv h0 h'"

interpretation dc: io_relation "docs_rel h0" for h0
  by unfold_locales simp_all

lemma docs_inv_put [simp]:
  "docs_inv h0 h \<Longrightarrow> gens_ok (srv_configHelper s) \<Longrightarrow> docs_inv h0 (put_srv a s h)"
  "docs_inv h0 h \<Longrightarrow> gens_ok (ij_configHelper j) \<Longrightarrow> docs_inv h0 (put_job a j h)"
  "docs_inv h0 h \<Longrightarrow> gens_ok (mi_configHelper m) \<Longrightarrow> docs_inv h0 (put_ms a m h)"
  "docs_inv h0 h \<Longrightarrow> gens_ok c \<Longrightarrow> docs_inv h0 (put_cfg a c h)"
  "docs_inv h0 (put_sec a x h) = docs_inv h0 h" "docs_inv h0 (put_http a y h) = docs_inv h0 h"
  "docs_inv h0 (put_rpc a z h) = docs_inv h0 h" "docs_inv h0 (put_tcp a u h) = docs_inv h0 h"
  "docs_inv h0 (h\<lparr>h_next := n\<rparr>) = docs_inv h0 h" "docs_inv h0 (h\<lparr>h_admin := v\<rparr>) = docs_inv h0 h"
  "docs_inv h0 (h\<lparr>h_ytClient := b\<rparr>) = docs_inv h0 h"
  by (auto simp: docs_inv_def docs_built_def put_defs)

lemma has_parts_update:
  assumes "has_parts s0 s"
  shows "has_parts s0 (s\<lparr>ys_Discovery := d\<rparr>)"
    "has_parts s0 (s\<lparr>ys_PrimaryMasters := (ys_PrimaryMasters s)\<lparr>ms_Instance := withMonitoringPort p (ms_Instance (ys_PrimaryMasters s))\<rparr>\<rparr>)"
    "has_parts s0 (s\<lparr>ys_Schedulers := map_option f (ys_Schedulers s)\<rparr>)"
    "has_parts s0 (s\<lparr>ys_ControllerAgents := map_option f (ys_ControllerAgents s)\<rparr>)"
    "has_parts s0 (s\<lparr>ys_QueryTrackers := map_option f (ys_QueryTrackers s)\<rparr>)"
    "has_parts s0 (s\<lparr>ys_QueueAgents := map_option f (ys_QueueAgents s)\<rparr>)"
    "has_parts s0 (s\<lparr>ys_YQLAgents := map_option f (ys_YQLAgents s)\<rparr>)"
    "has_parts s0 (s\<lparr>ys_MasterCaches := map_option k (ys_MasterCaches s)\<rparr>)"
  using assms by (auto simp: has_parts_def withMonitoringPort_def split: option.split)

lemma docs_inv_map_spec:
  "docs_inv h0 h \<Longrightarrow> (\<And>s. has_parts (yr_Spec (h_yts h0)) s \<Longrightarrow> has_parts (yr_Spec (h_yts h0)) (f s)) \<Longrightarrow> docs_inv h0 (map_spec f h)"
  by (simp add: docs_inv_def docs_built_def map_spec_def)

lemma yts_map_spec [simp]: "yr_Spec (h_yts (map_spec f h)) = f (yr_Spec (h_yts h))"
  by (simp add: map_spec_def)

lemma run_alloc [simp]: "run_state (alloc put x) h = (h_next h, put (h_next h) x (h\<lparr>h_next := Suc (h_next h)\<rparr>))"
  by (simp add: alloc_def)

text \<open>Documents of new objects.\<close>

lemma gens_ok_new [simp]:
  "gens_ok (srv_configHelper (newServer l r i b f s n d os)) \<longleftrightarrow> \<not> isl d"
  "gens_ok (ij_configHelper (NewInitJob l ps n f img d)) \<longleftrightarrow> \<not> isl d"
  "gens_ok (NewConfigHelper l n ov gs) \<longleftrightarrow> (\<forall>(file, d) \<in> set gs. \<not> isl (gd_F d))"
  "gens_ok (mi_configHelper (newMicroservice l r img k gs dn sn)) \<longleftrightarrow> (\<forall>(file, d) \<in> set gs. \<not> isl (gd_F d))"
  by (auto simp: gens_ok_def newServer_def newServerConfigured_def NewInitJob_def NewConfigHelper_def newMicroservice_def Let_def)

lemma withMonitoringPort_simps [simp]:
  "is_MonitoringPort (withMonitoringPort p i) \<noteq> None" "is_Locations (withMonitoringPort p i) = is_Locations i"
  by (auto simp: withMonitoringPort_def split: option.split)

subsection \<open>Constructors\<close>

lemma docs_relI: "(\<And>h. docs_inv h0 h \<Longrightarrow> docs_inv h0 (snd (run_state m h))) \<Longrightarrow> state_io_rel (docs_rel h0) m"
  by (rule state_io_relI) (metis snd_conv)

lemmas new_defs = NewDiscovery_def NewDataNode_def NewControllerAgent_def NewMasterCache_def NewHTTPProxy_def
  NewRPCProxy_def NewTCPProxy_def NewExecNode_def NewMaster_def NewYtsaurusClient_def NewTabletNode_def NewScheduler_def
  NewQueryTracker_def NewQueueAgent_def NewYQLAgent_def NewUI_def NewStrawberryController_def

lemma docs_part:
  assumes "docs_inv h0 h"
  shows "ys_Schedulers (yr_Spec (h_yts h0)) \<noteq> None \<Longrightarrow> ys_Schedulers (yr_Spec (h_yts h)) \<noteq> None"
    and "ys_ControllerAgents (yr_Spec (h_yts h0)) \<noteq> None \<Longrightarrow> ys_ControllerAgents (yr_Spec (h_yts h)) \<noteq> None"
    and "ys_QueryTrackers (yr_Spec (h_yts h0)) \<noteq> None \<Longrightarrow> ys_QueryTrackers (yr_Spec (h_yts h)) \<noteq> None"
    and "ys_QueueAgents (yr_Spec (h_yts h0)) \<noteq> None \<Longrightarrow> ys_QueueAgents (yr_Spec (h_yts h)) \<noteq> None"
    and "ys_YQLAgents (yr_Spec (h_yts h0)) \<noteq> None \<Longrightarrow> ys_YQLAgents (yr_Spec (h_yts h)) \<noteq> None"
    and "ys_MasterCaches (yr_Spec (h_yts h0)) \<noteq> None \<Longrightarrow> ys_MasterCaches (yr_Spec (h_yts h)) \<noteq> None"
  using assms by (auto simp: docs_inv_def has_parts_def)

text \<open>A constructor leads from memory to memory with documents when the documents it asks for are built.\<close>

lemmas new_simps = Let_def docs_inv_map_spec has_parts_update generate_iff nativeJob_def optionalInstance_def

lemma docs_required:
  assumes "marshal_ok E"
  shows "state_io_rel (docs_rel h0) (NewDiscovery E g)"
    and "state_io_rel (docs_rel h0) (NewYtsaurusClient E g m)"
    and "state_io_rel (docs_rel h0) (NewHTTPProxy E g m hp)"
    and "state_io_rel (docs_rel h0) (NewTabletNode E n m tn i)"
    and "state_io_rel (docs_rel h0) (NewUI E g m)"
    and "state_io_rel (docs_rel h0) (NewStrawberryController E g m c ds)"
  by (rule docs_relI, simp add: new_defs new_simps assms)+

lemma docs_proxies:
  assumes "marshal_ok E"
  shows "state_io_rel (docs_rel h0) (NewRPCProxy E g m rp)" and "state_io_rel (docs_rel h0) (NewTCPProxy E g m tp)"
  by (rule docs_relI, simp add: new_defs new_simps assms split: option.split)+

lemma docs_Master:
  assumes "marshal_ok E"
  shows "state_io_rel (docs_rel h0) (NewMaster E g)"
proof (rule docs_relI)
  fix h :: "'a heap"
  assume inv: "docs_inv h0 h"
  then have "has_parts (yr_Spec (h_yts h0)) (yr_Spec (h_yts h))" by (simp add: docs_inv_def)
  then have "FindFirstLocation (is_Locations (ms_Instance (ys_PrimaryMasters (yr_Spec (h_yts h))))) t \<noteq> None"
    if "t = LocationTypeMasterChangelogs \<or> t = LocationTypeMasterSnapshots" for t
    using that by (auto simp: has_parts_def)
  with inv show "docs_inv h0 (snd (run_state (NewMaster E g) h))" by (simp add: new_defs new_simps assms)
qed

lemma docs_nodes:
  assumes "marshal_ok E"
  shows "FindFirstLocation (is_Locations (dns_Instance d)) LocationTypeChunkStore \<noteq> None \<Longrightarrow> state_io_rel (docs_rel h0) (NewDataNode E n m d)"
    and "FindFirstLocation (is_Locations (ens_Instance x)) LocationTypeChunkCache \<noteq> None \<Longrightarrow>
      FindFirstLocation (is_Locations (ens_Instance x)) LocationTypeSlots \<noteq> None \<Longrightarrow> state_io_rel (docs_rel h0) (NewExecNode E n m x)"
  by (rule docs_relI, simp add: new_defs new_simps assms sidecarConfig_def criOf_def split: option.split)+

text \<open>The constructors of optional components read the part they are created for.\<close>

lemma docs_optional:
  assumes "marshal_ok E"
  shows "ys_Schedulers (yr_Spec (h_yts h0)) \<noteq> None \<Longrightarrow> state_io_rel (docs_rel h0) (NewScheduler E g m es ts)"
    and "ys_ControllerAgents (yr_Spec (h_yts h0)) \<noteq> None \<Longrightarrow> state_io_rel (docs_rel h0) (NewControllerAgent E g m)"
    and "ys_QueryTrackers (yr_Spec (h_yts h0)) \<noteq> None \<Longrightarrow> state_io_rel (docs_rel h0) (NewQueryTracker E g ts)"
    and "ys_QueueAgents (yr_Spec (h_yts h0)) \<noteq> None \<Longrightarrow> state_io_rel (docs_rel h0) (NewQueueAgent E g c m ts)"
    and "ys_YQLAgents (yr_Spec (h_yts h0)) \<noteq> None \<Longrightarrow> state_io_rel (docs_rel h0) (NewYQLAgent E g m)"
    and "ys_MasterCaches (yr_Spec (h_yts h0)) \<noteq> None \<Longrightarrow> state_io_rel (docs_rel h0) (NewMasterCache E g)"
  by (rule docs_relI, frule docs_part, assumption, clarsimp simp add: new_defs new_simps assms)+

subsection \<open>All components\<close>

lemma io_newAll: "(\<And>x. x \<in> set xs \<Longrightarrow> state_io_rel (docs_rel h0) (f x)) \<Longrightarrow> state_io_rel (docs_rel h0) (newAll f xs)"
  by (induction xs) (auto intro!: dc.rel_bind dc.rel_return)

lemma io_newIf: "(b \<Longrightarrow> state_io_rel (docs_rel h0) m) \<Longrightarrow> state_io_rel (docs_rel h0) (newIf b m)"
  by (auto simp: newIf_def intro!: dc.rel_bind dc.rel_return)

text \<open>The locations that the documents of nodes need.\<close>

definition located :: "YtsaurusSpec \<Rightarrow> bool" where
  "located s \<longleftrightarrow>
     (\<forall>d \<in> set (ys_DataNodes s). FindFirstLocation (is_Locations (dns_Instance d)) LocationTypeChunkStore \<noteq> None) \<and>
     (\<forall>x \<in> set (ys_ExecNodes s). FindFirstLocation (is_Locations (ens_Instance x)) LocationTypeChunkCache \<noteq> None \<and>
        FindFirstLocation (is_Locations (ens_Instance x)) LocationTypeSlots \<noteq> None)"

lemma docs_newComponentsFor:
  assumes E: "marshal_ok E" and loc: "located (yr_Spec (h_yts h0))"
  shows "state_io_rel (docs_rel h0) (newComponentsFor E (h_yts h0))"
proof -
  have hp: "state_io_rel (docs_rel h0) (case hps of [] \<Rightarrow> ret (Inl e) | hp # _ \<Rightarrow> k hp)"
    if "\<And>hp. state_io_rel (docs_rel h0) (k hp)" for hps :: "'a heap component list" and k and e
    using that by (cases hps) (auto intro: dc.rel_return)
  have st: "state_io_rel (docs_rel h0) (case s of Some sch \<Rightarrow> newIf b (f sch) | None \<Rightarrow> ret None)"
    if "\<And>sch. state_io_rel (docs_rel h0) (f sch)" for s b and f :: "'a heap component \<Rightarrow> ('a heap, 'a heap component) state"
    using that by (cases s) (auto intro: dc.rel_return io_newIf)
  show ?thesis
    unfolding newComponentsFor_def Let_def
    by (intro dc.rel_bind dc.rel_return dc.rel_gets hp st io_newAll io_newIf docs_required docs_proxies docs_Master docs_nodes
        docs_optional E io_case_prod) (use loc in \<open>auto simp: located_def\<close>)
qed

subsection \<open>Accepted specifications\<close>

text \<open>How many components an accepted specification asks for: one for each of its parts.\<close>

definition requested_count :: "YtsaurusSpec \<Rightarrow> nat" where
  "requested_count s = 3 + length (ys_DataNodes s) + length (ys_HTTPProxies s) + length (ys_RPCProxies s) +
     length (ys_TCPProxies s) + length (ys_ExecNodes s) + length (ys_TabletNodes s) +
     length (present [ys_Schedulers s, ys_ControllerAgents s, ys_QueryTrackers s, ys_QueueAgents s, ys_YQLAgents s]) +
     (if ys_UI s \<noteq> None then 1 else 0) + (if ys_MasterCaches s \<noteq> None then 1 else 0) +
     (if ys_StrawberryController s \<noteq> None \<or> ys_DeprecatedChytController s \<noteq> None then 1 else 0)"

lemma length_present: "length (present (x # xs)) = (if x \<noteq> None then 1 else 0) + length (present xs)" "length (present []) = 0"
  by (simp_all add: present_def)

lemma accepted_spec:
  assumes "spec_ok W s"
  shows "located s" "has_parts s s" "ys_HTTPProxies s \<noteq> []"
    "ys_DeprecatedChytController s = None \<or> ys_Schedulers s \<noteq> None \<Longrightarrow> component_count s = requested_count s"
proof -
  have loc: "FindFirstLocation (is_Locations i) t \<noteq> None" if "has_location i t" for i t
    using that by (auto simp: has_location_def FindFirstLocation_None)
  show "located s" using assms by (auto simp: located_def spec_ok_def exec_ok_def dest: loc)
  show "has_parts s s" using assms by (auto simp: has_parts_def spec_ok_def masters_ok_def Let_def dest: loc)
  show "ys_HTTPProxies s \<noteq> []" using assms by (auto simp: spec_ok_def names_ok_def)
  have req: "requires_ok s" using assms by (simp add: spec_ok_def)
  assume chyt: "ys_DeprecatedChytController s = None \<or> ys_Schedulers s \<noteq> None"
  have "(ys_QueryTrackers s \<noteq> None \<and> ys_Schedulers s \<noteq> None \<and> ys_TabletNodes s \<noteq> []) = (ys_QueryTrackers s \<noteq> None)"
    "(ys_QueueAgents s \<noteq> None \<and> ys_TabletNodes s \<noteq> []) = (ys_QueueAgents s \<noteq> None)"
    "(ys_Schedulers s \<noteq> None \<and> (ys_DeprecatedChytController s \<noteq> None \<or> ys_StrawberryController s \<noteq> None)) =
     (ys_StrawberryController s \<noteq> None \<or> ys_DeprecatedChytController s \<noteq> None)"
    using req chyt unfolding requires_ok_def by satx+
  then show "component_count s = requested_count s"
    unfolding component_count_def requested_count_def length_present by (simp only: ac_simps)
qed

lemma accepted_built:
  assumes "marshal_ok E" and "spec_ok W (yr_Spec (h_yts h))"
  obtains cps where "fst (run_state (newComponents E) h) = Inr cps" "length (cps_all cps) = component_count (yr_Spec (h_yts h))"
    "docs_built h (snd (run_state (newComponents E) h))"
proof -
  note ok = accepted_spec [OF assms(2)]
  have run: "run_state (newComponents E) h = run_state (newComponentsFor E (h_yts h)) h" by (simp add: newComponents_def)
  have "count_ok (yr_Spec (h_yts h)) (fst (run_state (newComponents E) h))"
    using newComponentsFor_count [of "h_yts h" E] by (simp add: returns_def run)
  moreover have "docs_inv h h" using ok(2) by (simp add: docs_inv_def docs_built_def)
  then have "docs_inv h (snd (run_state (newComponents E) h))"
    using docs_newComponentsFor [OF assms(1) ok(1)] by (auto simp: state_io_rel_def run)
  ultimately show ?thesis using that ok(3) by (auto simp: count_ok_def docs_inv_def split: sum.splits)
qed

end
