(* ===== verification/Parts.thy ===== *)
theory Parts
  imports Accepted
begin

text \<open>
  Which components a specification asks for: the list of its parts, and what it means that a
  component was built from a part. A component built from a part is of the type of the part and owns the
  server (or the microservice) with the instance, the image and the name that the part gives. The
  construction of the components builds exactly the parts, in order.
\<close>

subsection \<open>Parts\<close>

datatype part =
    DiscoveryPart InstanceSpec
  | MasterPart MastersSpec
  | ClientPart
  | DataNodesPart DataNodesSpec
  | HTTPProxiesPart HTTPProxiesSpec
  | UIPart UISpec
  | RPCProxiesPart RPCProxiesSpec
  | TCPProxiesPart TCPProxiesSpec
  | ExecNodesPart ExecNodesSpec
  | TabletNodesPart TabletNodesSpec bool
  | SchedulerPart InstanceSpec
  | ControllerAgentPart InstanceSpec
  | QueryTrackerPart InstanceSpec
  | QueueAgentPart InstanceSpec
  | YQLAgentPart InstanceSpec
  | StrawberryPart bool
  | MasterCachePart MasterCachesSpec

text \<open>
  The parts of a specification in the order of the components. The first group of tablet nodes initialises the
  bundles. The query tracker and the queue agent need tablet nodes, the query tracker and the
  strawberry controller need schedulers.
\<close>

definition tablet_parts :: "TabletNodesSpec list \<Rightarrow> part list" where
  "tablet_parts ts = map (\<lambda>(i, t). TabletNodesPart t (i = 0)) (zip [0..<length ts] ts)"

definition strawberry_parts :: "YtsaurusSpec \<Rightarrow> part list" where
  "strawberry_parts s = (if ys_DeprecatedChytController s \<noteq> None \<or> ys_StrawberryController s \<noteq> None
     then [StrawberryPart (ys_StrawberryController s \<noteq> None)] else [])"

definition parts_of :: "YtsaurusSpec \<Rightarrow> bool \<Rightarrow> bool \<Rightarrow> bool \<Rightarrow> part list" where
  "parts_of s qt qa sb =
     [DiscoveryPart (ys_Discovery s), MasterPart (ys_PrimaryMasters s), ClientPart] @ map DataNodesPart (ys_DataNodes s) @
     map HTTPProxiesPart (ys_HTTPProxies s) @ map UIPart (opt_list (ys_UI s)) @ map RPCProxiesPart (ys_RPCProxies s) @
     map TCPProxiesPart (ys_TCPProxies s) @ map ExecNodesPart (ys_ExecNodes s) @ tablet_parts (ys_TabletNodes s) @
     map SchedulerPart (opt_list (ys_Schedulers s)) @ map ControllerAgentPart (opt_list (ys_ControllerAgents s)) @
     (if qt then map QueryTrackerPart (opt_list (ys_QueryTrackers s)) else []) @
     (if qa then map QueueAgentPart (opt_list (ys_QueueAgents s)) else []) @
     map YQLAgentPart (opt_list (ys_YQLAgents s)) @ (if sb then strawberry_parts s else []) @
     map MasterCachePart (opt_list (ys_MasterCaches s))"

text \<open>The parts that the manager builds, and all parts that the specification has.\<close>

definition built_parts :: "YtsaurusSpec \<Rightarrow> part list" where
  "built_parts s = parts_of s (ys_Schedulers s \<noteq> None \<and> ys_TabletNodes s \<noteq> []) (ys_TabletNodes s \<noteq> []) (ys_Schedulers s \<noteq> None)"

definition all_parts :: "YtsaurusSpec \<Rightarrow> part list" where
  "all_parts s = parts_of s True True True"

subsection \<open>Built from a part\<close>

text \<open>The server at an address has this name and instance, and the image of the instance.\<close>

definition serves :: "'w heap \<Rightarrow> Labeller \<Rightarrow> nat \<Rightarrow> string \<Rightarrow> InstanceSpec \<Rightarrow> bool" where
  "serves h l a name i \<longleftrightarrow> a < h_next h \<and> lb_ComponentName l = name \<and> srv_labeller (h_srv h a) = l \<and>
     srv_instanceSpec (h_srv h a) = i \<and> srv_image (h_srv h a) = instanceImage (h_yts h) i"

definition deploys :: "'w heap \<Rightarrow> Labeller \<Rightarrow> nat \<Rightarrow> string \<Rightarrow> int32 \<Rightarrow> string \<Rightarrow> bool" where
  "deploys h l a name n img \<longleftrightarrow> a < h_next h \<and> lb_ComponentName l = name \<and> mi_labeller (h_ms h a) = l \<and>
     mi_instanceCount (h_ms h a) = n \<and> mi_image (h_ms h a) = img"

fun built_from :: "'w ext \<Rightarrow> 'w heap \<Rightarrow> part \<Rightarrow> 'w heap component \<Rightarrow> bool" where
  "built_from E h (DiscoveryPart i) c = (\<exists>l a. c = Discovery E l a \<and>
     serves h l a ''Discovery'' (withMonitoringPort DiscoveryMonitoringPort i))"
| "built_from E h (MasterPart ms) c = (\<exists>l m. c = Master_component E l m \<and>
     serves h l (m_srv m) ''Master'' (withMonitoringPort MasterMonitoringPort (ms_Instance ms)))"
| "built_from E h ClientPart c = (\<exists>l yc hp. c = YtsaurusClient_component E l yc hp \<and> lb_ComponentName l = ''YtsaurusClient'')"
| "built_from E h (DataNodesPart d) c = (\<exists>l a m. c = DataNode E l a m \<and>
     serves h l a (FormatComponentStringWithDefault ''DataNode'' (dns_Name d)) (withMonitoringPort DataNodeMonitoringPort (dns_Instance d)))"
| "built_from E h (HTTPProxiesPart p) c = (\<exists>l a b tls m. c = HttpProxy E l a b (hps_ServiceType p) tls m \<and>
     serves h l a (FormatComponentStringWithDefault ''HttpProxy'' (hps_Role p)) (withMonitoringPort HTTPProxyMonitoringPort (hps_Instance p)))"
| "built_from E h (UIPart u) c = (\<exists>x. c = UI_component E x \<and>
     deploys h (u_labeller x) (u_microservice x) ''UI'' (ui_InstanceCount u)
       (case ui_Image u of Some i \<Rightarrow> i | None \<Rightarrow> ys_UIImage (yr_Spec (h_yts h))))"
| "built_from E h (RPCProxiesPart p) c = (\<exists>l a b tls m. c = RpcProxy E l a b tls m \<and>
     serves h l a (FormatComponentStringWithDefault ''RpcProxy'' (rps_Role p)) (withMonitoringPort RPCProxyMonitoringPort (rps_Instance p)))"
| "built_from E h (TCPProxiesPart p) c = (\<exists>l a b m. c = TcpProxy E l a b m \<and>
     serves h l a (FormatComponentStringWithDefault ''TcpProxy'' (tps_Role p)) (withMonitoringPort TCPProxyMonitoringPort (tps_Instance p)))"
| "built_from E h (ExecNodesPart x) c = (\<exists>l y a sc m. c = ExecNode E l y a sc m \<and>
     y = x\<lparr>ens_Instance := withMonitoringPort ExecNodeMonitoringPort (ens_Instance x)\<rparr> \<and>
     serves h l a (FormatComponentStringWithDefault ''ExecNode'' (ens_Name x)) (ens_Instance y))"
| "built_from E h (TabletNodesPart t first) c = (\<exists>l g a yc. c = TabletNode E l g a yc first \<and>
     serves h l a (FormatComponentStringWithDefault ''TabletNode'' (tns_Name t)) (withMonitoringPort TabletNodeMonitoringPort (tns_Instance t)))"
| "built_from E h (SchedulerPart i) c = (\<exists>l s. c = Scheduler_component E l s \<and>
     serves h l (s_srv s) ''Scheduler'' (withMonitoringPort SchedulerMonitoringPort i))"
| "built_from E h (ControllerAgentPart i) c = (\<exists>l a m. c = ControllerAgent E l a m \<and>
     serves h l a ''ControllerAgent'' (withMonitoringPort ControllerAgentMonitoringPort i))"
| "built_from E h (QueryTrackerPart i) c = (\<exists>l q. c = QueryTracker_component E l q \<and>
     serves h l (qt_srv q) ''QueryTracker'' (withMonitoringPort QueryTrackerMonitoringPort i))"
| "built_from E h (QueueAgentPart i) c = (\<exists>l q. c = QueueAgent_component E l q \<and>
     serves h l (qa_srv q) ''QueueAgent'' (withMonitoringPort QueueAgentMonitoringPort i))"
| "built_from E h (YQLAgentPart i) c = (\<exists>l y. c = YqlAgent_component E l y \<and>
     serves h l (ya_srv y) ''YqlAgent'' (withMonitoringPort YQLAgentMonitoringPort i))"
| "built_from E h (StrawberryPart current) c = (\<exists>x. c = Strawberry_component E x \<and>
     deploys h (sb_labeller x) (sb_microservice x) (if current then ''StrawberryController'' else ''ChytController'') 1
       (strawberryImage (h_yts h)))"
| "built_from E h (MasterCachePart m) c = (\<exists>l a. c = MasterCache E l a \<and>
     serves h l a ''MasterCache'' (withMonitoringPort MasterCachesMonitoringPort (mc_Instance m)))"

subsection \<open>Constructors only add\<close>

text \<open>
  The specification with all monitoring ports that constructors set. A constructor changes nothing else of the
  specification, and leaves the objects that are there.
\<close>

definition ported :: "YtsaurusSpec \<Rightarrow> YtsaurusSpec" where
  "ported s = s
     \<lparr>ys_Discovery := withMonitoringPort DiscoveryMonitoringPort (ys_Discovery s),
      ys_PrimaryMasters := (ys_PrimaryMasters s)\<lparr>ms_Instance := withMonitoringPort MasterMonitoringPort (ms_Instance (ys_PrimaryMasters s))\<rparr>,
      ys_Schedulers := map_option (withMonitoringPort SchedulerMonitoringPort) (ys_Schedulers s),
      ys_ControllerAgents := map_option (withMonitoringPort ControllerAgentMonitoringPort) (ys_ControllerAgents s),
      ys_QueryTrackers := map_option (withMonitoringPort QueryTrackerMonitoringPort) (ys_QueryTrackers s),
      ys_QueueAgents := map_option (withMonitoringPort QueueAgentMonitoringPort) (ys_QueueAgents s),
      ys_YQLAgents := map_option (withMonitoringPort YQLAgentMonitoringPort) (ys_YQLAgents s),
      ys_MasterCaches := map_option (\<lambda>m. m\<lparr>mc_Instance := withMonitoringPort MasterCachesMonitoringPort (mc_Instance m)\<rparr>) (ys_MasterCaches s)\<rparr>"

lemma withMonitoringPort_idem [simp]: "withMonitoringPort p (withMonitoringPort p i) = withMonitoringPort p i"
  by (simp add: withMonitoringPort_def split: option.split)

lemma ported_updates [simp]:
  "ported (s\<lparr>ys_Discovery := withMonitoringPort DiscoveryMonitoringPort (ys_Discovery s)\<rparr>) = ported s"
  "ported (s\<lparr>ys_PrimaryMasters := (ys_PrimaryMasters s)\<lparr>ms_Instance := withMonitoringPort MasterMonitoringPort (ms_Instance (ys_PrimaryMasters s))\<rparr>\<rparr>) = ported s"
  "ported (s\<lparr>ys_Schedulers := map_option (withMonitoringPort SchedulerMonitoringPort) (ys_Schedulers s)\<rparr>) = ported s"
  "ported (s\<lparr>ys_ControllerAgents := map_option (withMonitoringPort ControllerAgentMonitoringPort) (ys_ControllerAgents s)\<rparr>) = ported s"
  "ported (s\<lparr>ys_QueryTrackers := map_option (withMonitoringPort QueryTrackerMonitoringPort) (ys_QueryTrackers s)\<rparr>) = ported s"
  "ported (s\<lparr>ys_QueueAgents := map_option (withMonitoringPort QueueAgentMonitoringPort) (ys_QueueAgents s)\<rparr>) = ported s"
  "ported (s\<lparr>ys_YQLAgents := map_option (withMonitoringPort YQLAgentMonitoringPort) (ys_YQLAgents s)\<rparr>) = ported s"
  "ported (s\<lparr>ys_MasterCaches := map_option (\<lambda>m. m\<lparr>mc_Instance := withMonitoringPort MasterCachesMonitoringPort (mc_Instance m)\<rparr>) (ys_MasterCaches s)\<rparr>) = ported s"
  by (simp_all add: ported_def option.map_comp o_def)

lemma ported_sel:
  "ys_Common (ported s) = ys_Common s" "ys_UIImage (ported s) = ys_UIImage s" "ys_UI (ported s) = ys_UI s"
  "ys_StrawberryController (ported s) = ys_StrawberryController s" "ys_DeprecatedChytController (ported s) = ys_DeprecatedChytController s"
  "ys_Discovery (ported s) = withMonitoringPort DiscoveryMonitoringPort (ys_Discovery s)"
  "ms_Instance (ys_PrimaryMasters (ported s)) = withMonitoringPort MasterMonitoringPort (ms_Instance (ys_PrimaryMasters s))"
  "ys_Schedulers (ported s) = map_option (withMonitoringPort SchedulerMonitoringPort) (ys_Schedulers s)"
  "ys_ControllerAgents (ported s) = map_option (withMonitoringPort ControllerAgentMonitoringPort) (ys_ControllerAgents s)"
  "ys_QueryTrackers (ported s) = map_option (withMonitoringPort QueryTrackerMonitoringPort) (ys_QueryTrackers s)"
  "ys_QueueAgents (ported s) = map_option (withMonitoringPort QueueAgentMonitoringPort) (ys_QueueAgents s)"
  "ys_YQLAgents (ported s) = map_option (withMonitoringPort YQLAgentMonitoringPort) (ys_YQLAgents s)"
  "map_option mc_Instance (ys_MasterCaches (ported s)) =
     map_option (\<lambda>m. withMonitoringPort MasterCachesMonitoringPort (mc_Instance m)) (ys_MasterCaches s)"
  by (simp_all add: ported_def option.map_comp o_def)

lemma portedD:
  assumes "ported s = ported t"
  shows "ys_Common s = ys_Common t" "ys_UIImage s = ys_UIImage t" "ys_UI s = ys_UI t"
    "ys_StrawberryController s = ys_StrawberryController t" "ys_DeprecatedChytController s = ys_DeprecatedChytController t"
    "withMonitoringPort DiscoveryMonitoringPort (ys_Discovery s) = withMonitoringPort DiscoveryMonitoringPort (ys_Discovery t)"
    "withMonitoringPort MasterMonitoringPort (ms_Instance (ys_PrimaryMasters s)) = withMonitoringPort MasterMonitoringPort (ms_Instance (ys_PrimaryMasters t))"
    "map_option (withMonitoringPort SchedulerMonitoringPort) (ys_Schedulers s) = map_option (withMonitoringPort SchedulerMonitoringPort) (ys_Schedulers t)"
    "map_option (withMonitoringPort ControllerAgentMonitoringPort) (ys_ControllerAgents s) = map_option (withMonitoringPort ControllerAgentMonitoringPort) (ys_ControllerAgents t)"
    "map_option (withMonitoringPort QueryTrackerMonitoringPort) (ys_QueryTrackers s) = map_option (withMonitoringPort QueryTrackerMonitoringPort) (ys_QueryTrackers t)"
    "map_option (withMonitoringPort QueueAgentMonitoringPort) (ys_QueueAgents s) = map_option (withMonitoringPort QueueAgentMonitoringPort) (ys_QueueAgents t)"
    "map_option (withMonitoringPort YQLAgentMonitoringPort) (ys_YQLAgents s) = map_option (withMonitoringPort YQLAgentMonitoringPort) (ys_YQLAgents t)"
    "map_option (\<lambda>m. withMonitoringPort MasterCachesMonitoringPort (mc_Instance m)) (ys_MasterCaches s) =
     map_option (\<lambda>m. withMonitoringPort MasterCachesMonitoringPort (mc_Instance m)) (ys_MasterCaches t)"
  by (metis assms ported_sel)+

definition grows :: "'w heap \<Rightarrow> 'w heap \<Rightarrow> bool" where
  "grows h h' \<longleftrightarrow> h_next h \<le> h_next h' \<and> (\<forall>a < h_next h. h_srv h' a = h_srv h a \<and> h_ms h' a = h_ms h a) \<and>
     ported (yr_Spec (h_yts h')) = ported (yr_Spec (h_yts h))"

lemma grows_refl [simp]: "grows h h"
  by (simp add: grows_def)

lemma grows_trans: "grows h h1 \<Longrightarrow> grows h1 h2 \<Longrightarrow> grows h h2"
  by (simp add: grows_def)

lemma serves_grows: "serves h l a n i \<Longrightarrow> grows h h' \<Longrightarrow> serves h' l a n i"
  by (auto simp: serves_def grows_def instanceImage_def dest: portedD split: option.split)

lemma deploys_grows: "deploys h l a n k img \<Longrightarrow> grows h h' \<Longrightarrow> deploys h' l a n k img"
  by (auto simp: deploys_def grows_def)

lemma images_grow:
  assumes "grows h h'"
  shows "strawberryImage (h_yts h') = strawberryImage (h_yts h)" "ys_UIImage (yr_Spec (h_yts h')) = ys_UIImage (yr_Spec (h_yts h))"
  using portedD [of "yr_Spec (h_yts h')" "yr_Spec (h_yts h)"] assms
  by (simp_all add: grows_def strawberryImage_def cong: option.case_cong)

lemma built_from_grows:
  assumes "built_from E h p c" and g: "grows h h'"
  shows "built_from E h' p c"
proof (cases p)
  case (UIPart u)
  with assms show ?thesis by (cases "ui_Image u") (auto simp: images_grow [OF g] intro: deploys_grows)
next
  case (StrawberryPart b)
  with assms show ?thesis by (cases b) (auto simp: images_grow [OF g] intro: deploys_grows)
qed (use assms in \<open>simp; blast intro: serves_grows\<close>)+

subsection \<open>What the constructors build\<close>

text \<open>\<open>makes E s p m\<close>: in a memory with the specification \<open>s\<close>, up to ports, the constructor builds the part.\<close>

definition makes :: "'w ext \<Rightarrow> YtsaurusSpec \<Rightarrow> part \<Rightarrow> ('w heap, 'w heap component) state \<Rightarrow> bool" where
  "makes E s p m \<longleftrightarrow> (\<forall>h. ported (yr_Spec (h_yts h)) = ported s \<longrightarrow>
     grows h (snd (run_state m h)) \<and> built_from E (snd (run_state m h)) p (fst (run_state m h)))"

lemma makesI:
  assumes "\<And>h. grows h (snd (run_state m h))"
    and "\<And>h. ported (yr_Spec (h_yts h)) = ported s \<Longrightarrow> built_from E (snd (run_state m h)) p (fst (run_state m h))"
  shows "makes E s p m"
  using assms by (simp add: makes_def)

lemma new_object [simp]:
  "srv_labeller (newServer l r i b f s n d os) = l" "srv_instanceSpec (newServer l r i b f s n d os) = i"
  "srv_image (newServer l r i b f s n d os) = instanceImage r i"
  "mi_labeller (newMicroservice l r img k gs dn sn) = l" "mi_instanceCount (newMicroservice l r img k gs dn sn) = k"
  "mi_image (newMicroservice l r img k gs dn sn) = img"
  by (simp_all add: newServer_def newServerConfigured_def newMicroservice_def instanceImage_def Let_def)

lemma mkLabeller_name [simp]: "lb_ComponentName (mkLabeller r a b c) = b"
  by (simp add: mkLabeller_def)

lemma grows_put [simp]:
  "grows h (put_job a x1 g) = grows h g" "grows h (put_sec a x2 g) = grows h g" "grows h (put_http a x3 g) = grows h g"
  "grows h (put_rpc a x4 g) = grows h g" "grows h (put_tcp a x5 g) = grows h g" "grows h (put_cfg a x6 g) = grows h g"
  "grows h (g\<lparr>h_admin := x7\<rparr>) = grows h g" "grows h (g\<lparr>h_ytClient := x8\<rparr>) = grows h g"
  by (simp_all add: grows_def put_defs)

lemma grows_add [simp]:
  "grows h g \<Longrightarrow> h_next h \<le> a \<Longrightarrow> grows h (put_srv a x g)" "grows h g \<Longrightarrow> h_next h \<le> a \<Longrightarrow> grows h (put_ms a y g)"
  "grows h g \<Longrightarrow> h_next g \<le> n \<Longrightarrow> grows h (g\<lparr>h_next := n\<rparr>)"
  "grows h g \<Longrightarrow> ported (f (yr_Spec (h_yts g))) = ported (yr_Spec (h_yts g)) \<Longrightarrow> grows h (map_spec f g)"
  by (auto simp: grows_def put_defs map_spec_def)

lemma next_put [simp]:
  "h_next (put_srv a x g) = h_next g" "h_next (put_ms a y g) = h_next g"
  "h_next (put_job a x1 g) = h_next g" "h_next (put_sec a x2 g) = h_next g" "h_next (put_http a x3 g) = h_next g"
  "h_next (put_rpc a x4 g) = h_next g" "h_next (put_tcp a x5 g) = h_next g" "h_next (put_cfg a x6 g) = h_next g"
  "h_next (map_spec f g) = h_next g"
  by (simp_all add: put_defs map_spec_def)

lemma serves_put [simp]:
  "serves (put_job a x1 g) l b n i = serves g l b n i" "serves (put_sec a x2 g) l b n i = serves g l b n i"
  "serves (put_http a x3 g) l b n i = serves g l b n i" "serves (put_rpc a x4 g) l b n i = serves g l b n i"
  "serves (put_tcp a x5 g) l b n i = serves g l b n i" "serves (put_cfg a x6 g) l b n i = serves g l b n i"
  "serves (put_ms a x9 g) l b n i = serves g l b n i"
  "serves (g\<lparr>h_admin := x7\<rparr>) l b n i = serves g l b n i" "serves (g\<lparr>h_ytClient := x8\<rparr>) l b n i = serves g l b n i"
  by (simp_all add: serves_def put_defs)

lemma serves_new [simp]:
  "h_next g \<le> k \<Longrightarrow> serves g l b n i \<Longrightarrow> serves (g\<lparr>h_next := k\<rparr>) l b n i"
  "serves (put_srv a s g) l a n i \<longleftrightarrow> a < h_next g \<and> lb_ComponentName l = n \<and> srv_labeller s = l \<and> srv_instanceSpec s = i \<and>
     srv_image s = instanceImage (h_yts g) i"
  by (auto simp: serves_def put_defs)

lemma deploys_put [simp]:
  "deploys (put_job a x1 g) l b n k img = deploys g l b n k img" "deploys (put_sec a x2 g) l b n k img = deploys g l b n k img"
  "h_next g \<le> j \<Longrightarrow> deploys g l b n k img \<Longrightarrow> deploys (g\<lparr>h_next := j\<rparr>) l b n k img"
  "deploys (put_ms a m g) l a n k img \<longleftrightarrow> a < h_next g \<and> lb_ComponentName l = n \<and> mi_labeller m = l \<and> mi_instanceCount m = k \<and>
     mi_image m = img"
  by (auto simp: deploys_def put_defs)

lemma makes_nodes:
  "makes E s (DataNodesPart d) (NewDataNode E g m d)"
  "makes E s (HTTPProxiesPart hp) (NewHTTPProxy E cg m hp)"
  "makes E s (TabletNodesPart t i) (NewTabletNode E g m t i)"
  by (rule makesI, simp add: new_defs Let_def, simp add: new_defs Let_def, intro exI conjI, rule refl, simp)+

lemma makes_proxies:
  "makes E s (RPCProxiesPart rp) (NewRPCProxy E cg m rp)"
  "makes E s (TCPProxiesPart tp) (NewTCPProxy E cg m tp)"
  "makes E s (ExecNodesPart x) (NewExecNode E g m x)"
  subgoal
    by (cases "rps_ServiceType rp"; rule makesI, simp add: new_defs Let_def, simp add: new_defs Let_def, intro exI conjI, rule refl, simp)
  subgoal
    by (cases "tps_ServiceType tp"; rule makesI, simp add: new_defs Let_def, simp add: new_defs Let_def, intro exI conjI, rule refl, simp)
  subgoal
    by (cases "criOf x"; rule makesI, simp add: new_defs Let_def sidecarConfig_def criOf_def,
        simp add: new_defs Let_def sidecarConfig_def criOf_def, intro exI conjI, rule refl, simp)
  done

lemma makes_required:
  "makes E s (DiscoveryPart (ys_Discovery s)) (NewDiscovery E cg)"
  "makes E s (MasterPart (ys_PrimaryMasters s)) (NewMaster E cg)"
  "makes E s ClientPart (NewYtsaurusClient E cg m)"
  by (rule makesI, simp add: new_defs Let_def, frule portedD(6), frule portedD(7),
      simp add: new_defs Let_def, intro exI conjI, rule refl, simp)+

lemma makes_optional:
  "ys_Schedulers s = Some i \<Longrightarrow> makes E s (SchedulerPart i) (NewScheduler E cg m es ts)"
  "ys_ControllerAgents s = Some i \<Longrightarrow> makes E s (ControllerAgentPart i) (NewControllerAgent E cg m)"
  "ys_QueryTrackers s = Some i \<Longrightarrow> makes E s (QueryTrackerPart i) (NewQueryTracker E cg ts)"
  "ys_QueueAgents s = Some i \<Longrightarrow> makes E s (QueueAgentPart i) (NewQueueAgent E cg c m ts)"
  "ys_YQLAgents s = Some i \<Longrightarrow> makes E s (YQLAgentPart i) (NewYQLAgent E cg m)"
  by (rule makesI, simp add: new_defs Let_def, frule portedD(8), frule portedD(9), frule portedD(10), frule portedD(11), frule portedD(12),
      clarsimp simp add: new_defs Let_def optionalInstance_def, intro exI conjI, rule refl, simp)+

lemma makes_deployments:
  "ys_UI s = Some u \<Longrightarrow> makes E s (UIPart u) (NewUI E cg m)"
  "makes E s (StrawberryPart (ys_StrawberryController s \<noteq> None)) (NewStrawberryController E cg m c ds)"
  subgoal
    by (cases "ui_Image u"; rule makesI, simp add: new_defs Let_def, frule portedD(3), simp add: new_defs Let_def, intro exI conjI, rule refl, simp)
  subgoal
    by (rule makesI, simp add: new_defs Let_def, frule portedD(4), cases "ys_StrawberryController s";
        simp add: new_defs Let_def; intro exI conjI, rule refl, simp)
  done

lemma makes_MasterCache:
  assumes "ys_MasterCaches s = Some mc"
  shows "makes E s (MasterCachePart mc) (NewMasterCache E cg)"
proof (rule makesI)
  fix h :: "'a heap"
  assume "ported (yr_Spec (h_yts h)) = ported s"
  from portedD(13) [OF this] obtain mc' where mc': "ys_MasterCaches (yr_Spec (h_yts h)) = Some mc'"
    "withMonitoringPort MasterCachesMonitoringPort (mc_Instance mc') = withMonitoringPort MasterCachesMonitoringPort (mc_Instance mc)"
    using assms by auto
  show "built_from E (snd (run_state (NewMasterCache E cg) h)) (MasterCachePart mc) (fst (run_state (NewMasterCache E cg) h))"
    by (simp add: new_defs Let_def mc', intro exI conjI, rule refl, simp)
qed (simp add: new_defs Let_def)

subsection \<open>All components\<close>

text \<open>
  The construction in the style of weakest preconditions: \<open>X\<close> collects lists of parts with the components that
  were built from them so far.
\<close>

definition establishes :: "('a \<Rightarrow> 'w heap \<Rightarrow> bool) \<Rightarrow> ('w heap, 'a) state \<Rightarrow> 'w heap \<Rightarrow> bool" where
  "establishes Q m h \<longleftrightarrow> Q (fst (run_state m h)) (snd (run_state m h))"

definition so_far :: "'w ext \<Rightarrow> YtsaurusSpec \<Rightarrow> (part list \<times> 'w heap component list) set \<Rightarrow> 'w heap \<Rightarrow> bool" where
  "so_far E s X h \<longleftrightarrow> ported (yr_Spec (h_yts h)) = ported s \<and> (\<forall>(ps, cs) \<in> X. list_all2 (built_from E h) ps cs)"

lemma so_far_grows:
  assumes "so_far E s X h" and "grows h h'"
  shows "so_far E s X h'"
proof -
  have "list_all2 (built_from E h') ps cs" if "list_all2 (built_from E h) ps cs" for ps cs
    using that assms(2) by (auto elim: list_all2_mono built_from_grows)
  with assms show ?thesis by (auto simp: so_far_def grows_def)
qed

lemma est_bind: "establishes (\<lambda>x. establishes Q (f x)) m h \<Longrightarrow> establishes Q (State_Monad.bind m f) h"
  by (simp add: establishes_def case_prod_unfold)

lemma est_ret: "Q x h \<Longrightarrow> establishes Q (ret x) h"
  by (simp add: establishes_def)

lemma est_gets: "Q (f h) h \<Longrightarrow> establishes Q (gets f) h"
  by (simp add: establishes_def)

lemma est_new:
  assumes "so_far E s X h" and "makes E s p m" and "\<And>c h'. so_far E s (insert ([p], [c]) X) h' \<Longrightarrow> Q c h'"
  shows "establishes Q m h"
proof -
  have "grows h (snd (run_state m h))" "built_from E (snd (run_state m h)) p (fst (run_state m h))"
    using assms(1,2) by (simp_all add: makes_def so_far_def)
  with so_far_grows [OF assms(1)] have "so_far E s (insert ([p], [fst (run_state m h)]) X) (snd (run_state m h))"
    by (simp add: so_far_def)
  then show ?thesis by (simp add: establishes_def assms(3))
qed

lemma est_newAll:
  assumes "so_far E s X h" and "\<And>x. x \<in> set xs \<Longrightarrow> makes E s (p x) (f x)" and "\<And>cs h'. so_far E s (insert (map p xs, cs) X) h' \<Longrightarrow> Q cs h'"
  shows "establishes Q (newAll f xs) h"
  using assms
proof (induction xs arbitrary: X h Q)
  case (Cons x xs)
  show ?case
    unfolding newAll.simps
  proof (rule est_bind, rule est_new [OF Cons.prems(1) Cons.prems(2)], simp, rule est_bind, rule Cons.IH)
    fix c h1 cs h2
    assume "so_far E s (insert (map p xs, cs) (insert ([p x], [c]) X)) h2"
    then show "establishes Q (ret (c # cs)) h2" by (intro est_ret Cons.prems(3)) (simp add: so_far_def)
  qed (use Cons.prems in auto)
qed (auto simp: so_far_def intro!: est_ret)

lemma est_newIf:
  assumes "so_far E s X h" and "b \<Longrightarrow> makes E s p m" and "\<And>c h'. so_far E s (insert (if b then [p] else [], opt_list c) X) h' \<Longrightarrow> Q c h'"
  shows "establishes Q (newIf b m) h"
proof (cases b)
  case True
  have "establishes (\<lambda>x. establishes Q (ret (Some x))) m h"
    by (rule est_new [OF assms(1) assms(2) [OF True]], rule est_ret, rule assms(3)) (simp add: True)
  with True show ?thesis by (simp add: newIf_def est_bind)
qed (use assms in \<open>simp add: newIf_def est_ret so_far_def\<close>)

text \<open>Optional components: the part is that of the specification.\<close>

lemma est_newOpt:
  assumes "so_far E s X h" and "\<And>i. x = Some i \<Longrightarrow> makes E s (p i) m"
    and "\<And>c h'. so_far E s (insert (if b then map p (opt_list x) else [], opt_list c) X) h' \<Longrightarrow> Q c h'"
  shows "establishes Q (newIf (x \<noteq> None \<and> b) m) h"
proof (cases x)
  case (Some i)
  show ?thesis by (rule est_newIf [OF assms(1), of _ "p i"]) (use Some assms(2) in simp, rule assms(3), use Some in \<open>simp split: if_splits\<close>)
qed (use assms(1,3) in \<open>simp add: newIf_def est_ret so_far_def\<close>)

lemma est_newOpt':
  assumes "so_far E s X h" and "\<And>i. x = Some i \<Longrightarrow> makes E s (p i) m"
    and "\<And>c h'. so_far E s (insert (map p (opt_list x), opt_list c) X) h' \<Longrightarrow> Q c h'"
  shows "establishes Q (newIf (x \<noteq> None) m) h"
  using est_newOpt [of E s X h x p m True Q] assms by simp

definition built_ok :: "'w ext \<Rightarrow> YtsaurusSpec \<Rightarrow> string + 'w heap components \<Rightarrow> 'w heap \<Rightarrow> bool" where
  "built_ok E s r h \<longleftrightarrow> (case r of
       Inl e \<Rightarrow> ys_HTTPProxies s = []
     | Inr cps \<Rightarrow> ys_HTTPProxies s \<noteq> [] \<and> list_all2 (built_from E h) (built_parts s) (cps_all cps))"

lemma so_far_mem: "so_far E s X h \<Longrightarrow> (ps, cs) \<in> X \<Longrightarrow> list_all2 (built_from E h) ps cs"
  by (auto simp: so_far_def)

lemma so_far_one: "so_far E s X h \<Longrightarrow> ([p], [c]) \<in> X \<Longrightarrow> built_from E h p c"
  by (auto simp: so_far_def)

lemma so_far_nonempty: "so_far E s X h \<Longrightarrow> (ps, cs) \<in> X \<Longrightarrow> (ps = []) = (cs = [])"
  by (auto simp: so_far_def)

lemma est_first:
  assumes "so_far E s X h" and "(map p xs, hps) \<in> X" and "xs = [] \<Longrightarrow> Q (Inl e) h" and "\<And>hp. so_far E s X h \<Longrightarrow> xs \<noteq> [] \<Longrightarrow> establishes Q (k hp) h"
  shows "establishes Q (case hps of [] \<Rightarrow> ret (Inl e) | hp # _ \<Rightarrow> k hp) h"
  using so_far_nonempty [OF assms(1,2)] assms(1,3,4) by (cases hps) (auto intro: est_ret)

lemma est_strawberry:
  assumes "so_far E s X h" and "(map SchedulerPart (opt_list (ys_Schedulers s)), opt_list sch) \<in> X"
    and "\<And>y. makes E s (StrawberryPart (ys_StrawberryController s \<noteq> None)) (f y)"
    and "\<And>c h'. so_far E s (insert (if ys_Schedulers s \<noteq> None then strawberry_parts s else [], opt_list c) X) h' \<Longrightarrow> Q c h'"
  shows "establishes Q (case sch of Some y \<Rightarrow> newIf (ys_DeprecatedChytController s \<noteq> None \<or> ys_StrawberryController s \<noteq> None) (f y)
    | None \<Rightarrow> ret None) h"
proof (cases sch)
  case None
  with so_far_nonempty [OF assms(1,2)] have "ys_Schedulers s = None" by (auto split: option.splits)
  with None show ?thesis by (auto intro!: est_ret assms(4) simp: so_far_def) (use assms(1) in \<open>auto simp: so_far_def\<close>)
next
  case (Some y)
  with so_far_nonempty [OF assms(1,2)] have "ys_Schedulers s \<noteq> None" by (auto split: option.splits)
  with Some show ?thesis
    by (auto intro!: est_newIf [OF assms(1) assms(3)] assms(4) simp: strawberry_parts_def)
qed

lemma tablet_parts_zip: "tablet_parts ts = map (\<lambda>x. TabletNodesPart (snd x) (fst x = 0)) (zip [0..<length ts] ts)"
  by (simp add: tablet_parts_def case_prod_unfold)

lemma newComponentsFor_built:
  assumes "h_yts h = r"
  shows "establishes (built_ok E (yr_Spec r)) (newComponentsFor E r) h"
proof -
  have start: "so_far E (yr_Spec r) {} h" using assms by (simp add: so_far_def)
  show ?thesis
    unfolding newComponentsFor_def Let_def length_greater_0_conv
    apply (rule est_bind, rule est_new [OF start makes_required(1)])
    apply (rule est_bind, erule est_new, rule makes_required(2))
    apply (rule est_bind, erule est_newAll [where p = HTTPProxiesPart], rule makes_nodes(2))
    apply (erule est_first, rule insertI1, simp add: built_ok_def)
    apply (rule est_bind, erule est_new, rule makes_required(3))
    apply (rule est_bind, rule est_gets)
    apply (rule est_bind, erule est_newAll [where p = DataNodesPart], rule makes_nodes(1))
    apply (rule est_bind, erule est_newOpt' [where p = UIPart], erule makes_deployments(1))
    apply (rule est_bind, erule est_newAll [where p = RPCProxiesPart], rule makes_proxies(1))
    apply (rule est_bind, erule est_newAll [where p = TCPProxiesPart], rule makes_proxies(2))
    apply (rule est_bind, erule est_newAll [where p = ExecNodesPart], rule makes_proxies(3))
    apply (rule est_bind, erule est_newAll [where p = "\<lambda>x. TabletNodesPart (snd x) (fst x = 0)"], simp add: case_prod_unfold makes_nodes(3))
    apply (rule est_bind, erule est_newOpt' [where p = SchedulerPart], erule makes_optional(1))
    apply (rule est_bind, erule est_newOpt' [where p = ControllerAgentPart], erule makes_optional(2))
    apply (rule est_bind, erule est_newOpt [where p = QueryTrackerPart], erule makes_optional(3))
    apply (rule est_bind, erule est_newOpt [where p = QueueAgentPart], erule makes_optional(4))
    apply (rule est_bind, erule est_newOpt' [where p = YQLAgentPart], erule makes_optional(5))
    apply (rule est_bind, erule est_strawberry, blast, rule makes_deployments(2))
    apply (rule est_bind, erule est_newOpt' [where p = MasterCachePart], erule makes_MasterCache)
    apply (rule est_ret)
    apply (simp only: built_ok_def built_parts_def parts_of_def tablet_parts_zip sum.case components.simps append_Cons append_Nil list_all2_Cons)
    apply (rule conjI, simp)
    apply (rule conjI, erule so_far_one, (rule insertI1 | rule insertI2)+)+
    apply (rule list_all2_appendI, erule so_far_mem, (rule insertI1 | rule insertI2)+)+
    apply (erule so_far_mem, rule insertI1)
    done
qed

text \<open>An accepted specification gets a component for each of its parts.\<close>

lemma accepted_parts:
  assumes "spec_ok W s" and "ys_DeprecatedChytController s = None \<or> ys_Schedulers s \<noteq> None"
  shows "built_parts s = all_parts s"
proof -
  have req: "requires_ok s" using assms(1) by (simp add: spec_ok_def)
  have "ys_QueryTrackers s = None \<or> ys_Schedulers s \<noteq> None \<and> ys_TabletNodes s \<noteq> []"
    "ys_QueueAgents s = None \<or> ys_TabletNodes s \<noteq> []"
    "strawberry_parts s = [] \<or> ys_Schedulers s \<noteq> None"
    using req assms(2) by (auto simp: requires_ok_def strawberry_parts_def)
  then show ?thesis unfolding built_parts_def all_parts_def parts_of_def by auto
qed

end
