(* ===== verification/Progress.thy ===== *)
theory Progress
  imports Operator
begin

text \<open>
  Progress over many reconciliations. What a reconciliation of an updating cluster stores of the state that
  steers the controller is the state it found or the one its handler moves to; positions in a flow only grow;
  hence an update whose handler moves again and again comes to its end, and the end leaves a running
  cluster without anything of the update. A cluster that is created or reconfigured comes to run likewise.
  And a reconciliation that finds
  every component of a running cluster ready writes nothing.
\<close>

subsection \<open>What a reconciliation stores\<close>

definition status_control :: "YtsaurusStatus \<Rightarrow> control" where
  "status_control st = \<lparr>ctl_State = st_State st, ctl_UpdateState = us_State (st_UpdateStatus st),
     ctl_Flow = us_Flow (st_UpdateStatus st), ctl_Components = us_Components (st_UpdateStatus st)\<rparr>"

lemma control_of_status: "control_of h = status_control (h_status h)"
  by (simp add: control_of_def status_control_def GetClusterState_def GetUpdateState_def GetUpdateFlow_def GetLocalUpdatingComponents_def)

text \<open>The control part of the stored resource.\<close>

definition stored_control :: "'w ext \<Rightarrow> 'w \<Rightarrow> control option" where
  "stored_control E w = (case k_get_ytsaurus (x_k8s E) w of Found r \<Rightarrow> Some (status_control (yr_Status r)) | _ \<Rightarrow> None)"

lemma stored_control_Some: "stored_control E w = Some c \<longleftrightarrow> (\<exists>r. k_get_ytsaurus (x_k8s E) w = Found r \<and> c = status_control (yr_Status r))"
  by (auto simp: stored_control_def split: getResult.splits)

lemma UpdateStatus_control:
  assumes "ext_ok E" and "stored_control E (h_world h) \<noteq> None" and "run_state (UpdateStatus E) h = (e, h')"
  shows "stored_control E (h_world h') = (if e = None then Some (control_of h) else stored_control E (h_world h))"
proof -
  have "k8s_ok E" using assms(1) by (simp add: ext_ok_def)
  with assms(2,3) show ?thesis
    by (auto simp: stored_control_def run_UpdateStatus k8s_ok_def control_of_status split: getResult.splits)
qed

text \<open>Where a handler moves to.\<close>

definition moved_to :: "target \<Rightarrow> control \<Rightarrow> control" where
  "moved_to tgt c = (case tgt of ToUpdate t \<Rightarrow> c\<lparr>ctl_UpdateState := t\<rparr> | ToCluster s \<Rightarrow> c\<lparr>ctl_State := s\<rparr>)"

lemma performs_control:
  assumes "ext_ok E" and "stored_control E (h_world h) \<noteq> None" and "performs E (Some tgt) m h" and "run_state m h = ((r, e), h')"
  shows "r \<noteq> None \<and> stored_control E (h_world h') = (if e = None then Some (moved_to tgt (control_of h)) else stored_control E (h_world h))"
proof -
  have log: "h_yts (snd (run_state (logAll ms) h)) = h_yts h" "h_world (snd (run_state (logAll ms) h)) = h_world h" for ms
    using logAll_yts [OF prod.collapse [symmetric]] logAll_world [OF prod.collapse [symmetric]] by metis+
  have save: "stored_control E (h_world h2) = (if x = None then Some (control_of (map_status f h)) else stored_control E (h_world h))"
    if "run_state (UpdateStatus E) (map_status f (snd (run_state (logAll ms) h))) = (x, h2)" for f ms x h2
    using UpdateStatus_control [OF assms(1) _ that] assms(2) log by (simp add: control_of_status)
  show ?thesis
    using assms(3,4)
    by (auto simp: performs_def moveTo_def finishTo_def run_saves case_prod_unfold moved_to_def control_of_status status_control_def
        save [OF prod.collapse [symmetric]] split: target.splits)
qed

subsection \<open>One reconciliation of an updating cluster\<close>

text \<open>The manager and the memory with which a reconciliation enters the state machine, when it comes so far.\<close>

definition managed :: "'w ext \<Rightarrow> 'w \<Rightarrow> ('w heap ComponentManager \<times> 'w heap) option" where
  "managed E w = (case k_get_ytsaurus (x_k8s E) w of
       Found r \<Rightarrow> if ys_IsManaged (yr_Spec r)
         then (case run_state (NewComponentManager E) (fresh_heap r w) of (Inr cm, h) \<Rightarrow> Some (cm, h) | _ \<Rightarrow> None)
         else None
     | _ \<Rightarrow> None)"

text \<open>The handler of the flow finds its condition and saves the state it moves to.\<close>

definition handler_moves :: "'w ext \<Rightarrow> 'w \<Rightarrow> bool" where
  "handler_moves E w = (case managed E w of
       Some (cm, h) \<Rightarrow> (case fst (run_state (handleFlow (GetUpdateFlow h) E cm) h) of (r, e) \<Rightarrow> r \<noteq> None \<and> e = None)
     | None \<Rightarrow> False)"

lemma NewComponentManager_keeps:
  assumes "ext_ok E" and "cond_inv E h" and "run_state (NewComponentManager E) h = (m, h')"
  shows "cond_inv E h' \<and> control_of h' = control_of h \<and> stored_control E (h_world h') = stored_control E (h_world h) \<and>
    (\<forall>cm. m = Inr cm \<longrightarrow> cm_allComponents cm = allComponents E h) \<and>
    (\<forall>t. t \<noteq> ConditionMasterExitReadOnlyPrepared \<and> update_stored h t = Some ConditionTrue \<longrightarrow> update_stored h' t = Some ConditionTrue)"
proof -
  obtain r h1 where r: "run_state (newComponents E) h = (r, h1)" by fastforce
  then have s: "h_status h1 = h_status h" "h_world h1 = h_world h"
    using keepsD [OF keeps_newComponents r] by (simp_all add: statusOuter_def)
  then have c: "cond_inv E h1" using assms(2) by (simp add: cond_inv_wf_status)
  have u: "update_stored h1 = update_stored h" using s by (simp add: update_stored_def fun_eq_iff)
  show ?thesis
  proof (cases r)
    case (Inl e)
    with assms(3) r have "m = Inl e" "h' = h1" by (auto simp: NewComponentManager_def)
    with s c u show ?thesis by (simp add: control_of_status)
  next
    case (Inr cps)
    have all: "cps_all cps = allComponents E h" using r Inr by (simp add: allComponents_def)
    have m: "run_state (makeManager (cps_all cps) (cps_queryTracker cps) (cps_scheduler cps)) h1 = (m, h')"
      using assms(3) r Inr by (simp add: NewComponentManager_def)
    have "comp_rel E False h1 h'" using state_io_relD [OF cl.rel_makeManager m [unfolded all]] .
    from comp_relD [OF this assms(1) c] m s all u show ?thesis
      by (auto simp: control_of_status stored_control_def dest: makeManager_run(1))
  qed
qed

text \<open>The end of the update is saved: the update state, the cleared update status, the running cluster.\<close>

definition end_saved :: "'w ext \<Rightarrow> 'w \<Rightarrow> bool" where
  "end_saved E w = (case managed E w of
       Some (cm, h) \<Rightarrow> snd (fst (run_state (endUpdate E) h)) = None
     | None \<Rightarrow> False)"

text \<open>\<open>forward c c'\<close>: the staged machine moves from \<open>c\<close> to \<open>c'\<close> under some observation.\<close>

definition forward :: "control \<Rightarrow> control \<Rightarrow> bool" where
  "forward c c' \<longleftrightarrow> (\<exists>ob tgt. flow_next (ctl_Flow c) ob (ctl_UpdateState c) = Some tgt \<and> c' = moved_to tgt c)"

lemma ComponentManager_Sync_control:
  assumes "ext_ok E" and "cond_inv E h" and "cm_allComponents cm = allComponents E g" and "stored_control E (h_world h) = Some (control_of h)"
  shows "stored_control E (h_world (snd (run_state (ComponentManager_Sync E cm) h))) = Some (control_of h)"
proof -
  obtain x h2 where x: "run_state (syncComponents (allComponents E g) False) h = (x, h2)" by fastforce
  have "comp_rel E False h h2" using state_io_relD [OF cl.rel_syncComponents [OF order_refl] x] .
  from comp_relD [OF this assms(1,2)] assms(4) have c: "control_of h2 = control_of h" "stored_control E (h_world h2) = Some (control_of h)"
    by (simp_all add: stored_control_def)
  obtain e h3 where u: "run_state (UpdateStatus E) h2 = (e, h3)" by fastforce
  from UpdateStatus_control [OF assms(1) _ u] c have "stored_control E (h_world h3) = Some (control_of h)" by (auto split: if_splits)
  with x u c(2) assms(3) show ?thesis by (cases x) (auto simp: ComponentManager_Sync_def)
qed

lemma syncManaged_control:
  assumes "ext_ok E" and "cond_inv E h" and "cm_allComponents cm = allComponents E g" and "GetClusterState h = ClusterStateUpdating"
    and "stored_control E (h_world h) = Some (control_of h)"
  shows "\<exists>c. stored_control E (h_world (snd (run_state (syncManaged E cm) h))) = Some c \<and> (c = control_of h \<or> forward (control_of h) c) \<and>
    (fst (fst (run_state (handleFlow (GetUpdateFlow h) E cm) h)) \<noteq> None \<and> snd (fst (run_state (handleFlow (GetUpdateFlow h) E cm) h)) = None \<longrightarrow>
      forward (control_of h) c)"
proof -
  let ?n = "flow_next (GetUpdateFlow h) (observe E cm h) (GetUpdateState h)"
  obtain r e h1 where r: "run_state (handleFlow (GetUpdateFlow h) E cm) h = ((r, e), h1)" by (metis prod.exhaust)
  note p = performs_handleFlow [of E "GetUpdateFlow h" cm h]
  have ctl: "ctl_Flow (control_of h) = GetUpdateFlow h" "ctl_UpdateState (control_of h) = GetUpdateState h"
    by (simp_all add: control_of_def)
  show ?thesis
  proof (cases ?n)
    case None
    with p r have n: "r = None" "h1 = h" by (auto simp: performs_def)
    with r ComponentManager_Sync_control [OF assms(1-3,5)] assms(4) show ?thesis by (auto simp: syncManaged_def)
  next
    case (Some tgt)
    from performs_control [OF assms(1) _ p [unfolded this] r] assms(5)
    have c: "r \<noteq> None" "stored_control E (h_world h1) = (if e = None then Some (moved_to tgt (control_of h)) else Some (control_of h))" by auto
    have "forward (control_of h) (moved_to tgt (control_of h))" using Some ctl by (auto simp: forward_def)
    with c r assms(4) show ?thesis by (auto simp: syncManaged_def)
  qed
qed

text \<open>A reconciliation leaves the stored state alone, or it takes a step of the machine from the state it found.\<close>

lemma Reconcile_cases:
  assumes "ext_ok E" and "meta_ok (x_meta E)" and "k_get_ytsaurus (x_k8s E) w = Found r" and "wf_status (yr_Status r)"
  obtains (idle) "managed E w = None" and "stored_control E (snd (Reconcile E w)) = Some (status_control (yr_Status r))"
  | (steps) cm h where "managed E w = Some (cm, h)" and "cond_inv E h" and "control_of h = status_control (yr_Status r)"
    and "stored_control E (h_world h) = Some (control_of h)" and "cm_allComponents cm = allComponents E (fresh_heap r w)"
    and "Reconcile E w = (fst (run_state (syncManaged E cm) h), h_world (snd (run_state (syncManaged E cm) h)))"
proof -
  have ci: "cond_inv E (fresh_heap r w)" using assms(2,4) by (simp add: cond_inv_wf_status fresh_heap_def)
  have sc: "stored_control E w = Some (status_control (yr_Status r))" using assms(3) by (simp add: stored_control_def)
  obtain m h where m: "run_state (NewComponentManager E) (fresh_heap r w) = (m, h)" by fastforce
  note k = NewComponentManager_keeps [OF assms(1) ci m]
  then have h: "control_of h = status_control (yr_Status r)" "stored_control E (h_world h) = Some (status_control (yr_Status r))" "cond_inv E h"
    using sc by (simp_all add: control_of_status fresh_heap_def)
  note defs = Reconcile_def YtsaurusReconciler_Sync_def managed_def case_prod_unfold Let_def
  show ?thesis
  proof (cases "ys_IsManaged (yr_Spec r) \<and> (\<exists>cm. m = Inr cm)")
    case True
    then obtain cm where cm: "m = Inr cm" by blast
    with True m k h assms(3) show ?thesis by (intro steps [of cm h]) (auto simp: defs fresh_heap_def)
  next
    case False
    with m h(2) sc assms(3) show ?thesis by (intro idle) (auto simp: defs fresh_heap_def split: sum.splits)
  qed
qed

lemma Reconcile_control:
  assumes "ext_ok E" and "meta_ok (x_meta E)" and "k_get_ytsaurus (x_k8s E) w = Found r" and "wf_status (yr_Status r)"
    and "st_State (yr_Status r) = ClusterStateUpdating"
  shows "\<exists>c. stored_control E (snd (Reconcile E w)) = Some c \<and>
    (c = status_control (yr_Status r) \<or> forward (status_control (yr_Status r)) c) \<and>
    (handler_moves E w \<longrightarrow> forward (status_control (yr_Status r)) c)"
  using assms(1-4)
proof (cases rule: Reconcile_cases)
  case idle
  then show ?thesis by (simp add: handler_moves_def)
next
  case (steps cm h)
  have "GetClusterState h = ClusterStateUpdating"
    using steps(3) assms(5) by (simp add: control_of_def status_control_def)
  from syncManaged_control [OF assms(1) steps(2,5) this steps(4)] steps(1,3,6) show ?thesis
    by (auto simp: handler_moves_def)
qed

subsection \<open>An update comes to its end\<close>

lemma forward_cases:
  assumes "forward c c'"
  shows "ending (ctl_State c') \<or> ctl_State c' = ctl_State c \<and> ctl_Flow c' = ctl_Flow c \<and>
    stage_rank (ctl_Flow c) (ctl_UpdateState c) < stage_rank (ctl_Flow c) (ctl_UpdateState c')"
proof -
  obtain ob tgt where "flow_next (ctl_Flow c) ob (ctl_UpdateState c) = Some tgt" "c' = moved_to tgt c"
    using assms by (auto simp: forward_def)
  then show ?thesis by (cases tgt) (auto simp: moved_to_def dest: flow_next_rank flow_next_cluster)
qed

text \<open>A bounded sequence of numbers does not grow infinitely often.\<close>

lemma no_endless_growth:
  fixes f :: "nat \<Rightarrow> nat"
  assumes "\<And>i. f i \<le> f (Suc i)" and "\<And>i. \<exists>j\<ge>i. f j < f (Suc j)"
  shows "\<exists>i. n < f i"
proof (induction n)
  case 0
  from assms(2) [of 0] show ?case by (metis gr0I not_less_zero)
next
  case (Suc n)
  then obtain i where i: "n < f i" by blast
  from assms(2) [of i] obtain j where "j \<ge> i" "f j < f (Suc j)" by blast
  moreover have "f i \<le> f j" using lift_Suc_mono_le [of f, OF assms(1) \<open>j \<ge> i\<close>] .
  ultimately show ?case using i by (metis Suc_leI le_less_trans order_less_le_trans)
qed

text \<open>
  A reconciliation that has something to do and does it: it reports no error, and sees all components in order (for a
  cluster that is being set up), no component to initialise (in a reconfiguration) or the condition of the
  stage (in an update).
\<close>

definition reconcile_moves :: "'w ext \<Rightarrow> 'w \<Rightarrow> bool" where
  "reconcile_moves E w = (case managed E w of
       Some (cm, h) \<Rightarrow> snd (fst (run_state (syncManaged E cm) h)) = None \<and>
         (case GetClusterState h of
            ClusterStateInitializing \<Rightarrow> \<not> needSync cm
          | ClusterStateReconfiguration \<Rightarrow> \<not> needInit cm
          | ClusterStateUpdating \<Rightarrow> fst (fst (run_state (handleFlow (GetUpdateFlow h) E cm) h)) \<noteq> None
          | _ \<Rightarrow> True)
     | None \<Rightarrow> False)"

text \<open>
  A run of the operator, reconciliations and changes by others, in which such a reconciliation comes again and
  again as long as the cluster is not stored as running.
\<close>

definition keeps_moving :: "'w ext \<Rightarrow> (nat \<Rightarrow> 'w) \<Rightarrow> bool" where
  "keeps_moving E w \<longleftrightarrow> (\<forall>i. \<exists>j\<ge>i. (case stored_control E (w j) of
       Some c \<Rightarrow> ctl_State c \<noteq> ClusterStateRunning \<longrightarrow> w (Suc j) = snd (Reconcile E (w j)) \<and> reconcile_moves E (w j)
     | None \<Rightarrow> True))"

text \<open>In an update it is one whose handler moves, or which saves the end.\<close>

lemma reconcile_moves_cases:
  assumes "ext_ok E" and "meta_ok (x_meta E)" and "k_get_ytsaurus (x_k8s E) w = Found r" and "wf_status (yr_Status r)"
    and "reconcile_moves E w"
  shows "st_State (yr_Status r) = ClusterStateUpdating \<Longrightarrow> handler_moves E w" and "ending (st_State (yr_Status r)) \<Longrightarrow> end_saved E w"
proof -
  obtain cm h where m: "managed E w = Some (cm, h)" "GetClusterState h = st_State (yr_Status r)"
    using assms(1-4)
  proof (cases rule: Reconcile_cases)
    case (steps cm h)
    with that show ?thesis by (auto simp: control_of_def status_control_def)
  qed (use assms(5) in \<open>simp add: reconcile_moves_def\<close>)
  show "st_State (yr_Status r) = ClusterStateUpdating \<Longrightarrow> handler_moves E w"
    using assms(5) m by (auto simp: reconcile_moves_def handler_moves_def syncManaged_def case_prod_unfold)
  show "ending (st_State (yr_Status r)) \<Longrightarrow> end_saved E w"
    using assms(5) m by (auto simp: reconcile_moves_def end_saved_def syncManaged_def ending_def)
qed

text \<open>
  What holds until something else does, and is ended by a step that comes again and again, is ended.
\<close>

lemma ensures:
  fixes P Q :: "nat \<Rightarrow> bool"
  assumes "P n" and "\<And>i. i \<ge> n \<Longrightarrow> P i \<Longrightarrow> P (Suc i) \<or> Q (Suc i)" and "\<And>i. \<exists>j\<ge>i. P j \<longrightarrow> Q (Suc j)"
  shows "\<exists>i\<ge>n. Q i"
proof (rule ccontr)
  assume no: "\<not> ?thesis"
  have "P i" if "i \<ge> n" for i
    using that
  proof (induction i rule: dec_induct)
    case (step i)
    then show ?case using assms(2) no by (meson le_Suc_eq)
  qed (rule assms(1))
  with assms(3) [of n] no show False by (meson le_Suc_eq)
qed

lemma run_reached:
  assumes "ext_ok E" and "meta_ok (x_meta E)" and "\<And>i. operator_step E (w i) (w (Suc i))"
    and "k_get_ytsaurus (x_k8s E) (w 0) = Found r" and "wf_status (yr_Status r)"
  shows "\<exists>r'. k_get_ytsaurus (x_k8s E) (w i) = Found r' \<and> wf_status (yr_Status r')"
proof -
  have "(operator_step E)\<^sup>*\<^sup>* (w 0) (w i)"
    by (induction i) (auto intro: rtranclp.rtrancl_into_rtrancl assms(3))
  from operator_run_reached [OF assms(1,2) this assms(4,5)] show ?thesis by (auto simp: reached_def)
qed

lemma run_control:
  assumes "ext_ok E" and "meta_ok (x_meta E)" and "operator_step E w w'"
    and "k_get_ytsaurus (x_k8s E) w = Found r" and "wf_status (yr_Status r)" and "stored_control E w = Some c"
    and "ctl_State c = ClusterStateUpdating"
  shows "\<exists>c'. stored_control E w' = Some c' \<and> (c' = c \<or> forward c c') \<and> (w' = snd (Reconcile E w) \<and> handler_moves E w \<longrightarrow> forward c c')"
  using assms(3)
proof (cases "w' = snd (Reconcile E w)")
  case True
  have "st_State (yr_Status r) = ClusterStateUpdating" "c = status_control (yr_Status r)"
    using assms(4,6,7) by (auto simp: stored_control_def status_control_def)
  with Reconcile_control [OF assms(1,2,4,5)] True show ?thesis by auto
next
  case False
  from assms(3) show ?thesis
  proof (cases rule: operator_step.cases)
    case (environment s s')
    with assms(4,6) False show ?thesis by (auto simp: stored_control_def)
  qed (use False in simp)
qed

lemma updates_end:
  assumes "ext_ok E" and "meta_ok (x_meta E)" and run: "\<And>i. operator_step E (w i) (w (Suc i))"
    and start: "k_get_ytsaurus (x_k8s E) (w 0) = Found r" "wf_status (yr_Status r)" "st_State (yr_Status r) = ClusterStateUpdating"
    and "keeps_moving E w"
  shows "\<exists>i r'. k_get_ytsaurus (x_k8s E) (w i) = Found r' \<and> ending (st_State (yr_Status r'))"
proof (rule ccontr)
  assume no: "\<not> ?thesis"
  define c where "c i = the (stored_control E (w i))" for i
  have sc: "stored_control E (w i) = Some (c i)" for i
    using run_reached [OF assms(1,2) run start(1,2), of i] by (auto simp: c_def stored_control_def)
  have ne: "\<not> ending (ctl_State (c i))" for i
    using sc [of i] no by (auto simp: stored_control_Some status_control_def)
  have step: "c (Suc i) = c i \<or> forward (c i) (c (Suc i))" "w (Suc i) = snd (Reconcile E (w i)) \<and> handler_moves E (w i) \<Longrightarrow> forward (c i) (c (Suc i))"
    if "ctl_State (c i) = ClusterStateUpdating" for i
    using run_reached [OF assms(1,2) run start(1,2), of i] run_control [OF assms(1,2) run _ _ sc that] sc [of "Suc i"] by auto
  have const: "ctl_State (c i) = ClusterStateUpdating \<and> ctl_Flow (c i) = ctl_Flow (c 0)" for i
  proof (induction i)
    case 0
    show ?case using start by (simp add: c_def stored_control_def status_control_def)
  next
    case (Suc i)
    then show ?case using step(1) [of i] forward_cases [of "c i" "c (Suc i)"] ne [of "Suc i"] by auto
  qed
  let ?f = "\<lambda>i. stage_rank (ctl_Flow (c 0)) (ctl_UpdateState (c i))"
  have grow: "forward (c i) (c (Suc i)) \<Longrightarrow> ?f i < ?f (Suc i)" for i
    using forward_cases [of "c i" "c (Suc i)"] ne [of "Suc i"] const [of i] by auto
  have "?f i \<le> ?f (Suc i)" for i using step(1) [of i] const [of i] grow [of i] by auto
  moreover have "\<exists>j\<ge>i. ?f j < ?f (Suc j)" for i
  proof -
    obtain j where j: "j \<ge> i" "w (Suc j) = snd (Reconcile E (w j))" "reconcile_moves E (w j)"
      using assms(7) const sc unfolding keeps_moving_def by fastforce
    obtain r' where r': "k_get_ytsaurus (x_k8s E) (w j) = Found r'" "wf_status (yr_Status r')"
      using run_reached [OF assms(1,2) run start(1,2), of j] by blast
    moreover have "c j = status_control (yr_Status r')" using sc [of j] r'(1) by (simp add: stored_control_def)
    then have "st_State (yr_Status r') = ClusterStateUpdating" using const [of j] by (simp add: status_control_def)
    ultimately have "handler_moves E (w j)" using reconcile_moves_cases(1) [OF assms(1,2) _ _ j(3)] by blast
    then show ?thesis using step(2) const grow j by blast
  qed
  ultimately obtain i where "Suc (length (stages (ctl_Flow (c 0)))) < ?f i" using no_endless_growth [of ?f] by blast
  then show False using stage_rank_bound [of "ctl_Flow (c 0)" "ctl_UpdateState (c i)"] by simp
qed

subsection \<open>An ended update leaves a running cluster\<close>

text \<open>A running cluster in which nothing of an update is left.\<close>

definition update_cleared :: "YtsaurusStatus \<Rightarrow> bool" where
  "update_cleared st \<longleftrightarrow> st_State st = ClusterStateRunning \<and> st_UpdateStatus st =
     \<lparr>us_State = UpdateStateNone, us_Components = None, us_Flow = UpdateFlowNone, us_Conditions = [],
      us_TabletCellBundles = [], us_MasterMonitoringPaths = []\<rparr>"

lemma UpdateStatus_ending:
  assumes "ext_ok E" and "\<exists>c. stored_control E (h_world h) = Some c \<and> ending (ctl_State c)" and "ending (st_State (h_status h))"
    and "run_state (UpdateStatus E) h = (e, h')"
  shows "(\<exists>c. stored_control E (h_world h') = Some c \<and> ending (ctl_State c)) \<and> h_status h' = h_status h"
  using UpdateStatus_control [OF assms(1) _ assms(4)] assms(2-4)
  by (auto simp: control_of_status status_control_def run_UpdateStatus split: if_splits)

lemma endUpdate_ending:
  assumes "ext_ok E" and "\<exists>c. stored_control E (h_world h) = Some c \<and> ending (ctl_State c)" and "ending (st_State (h_status h))"
    and "run_state (endUpdate E) h = ((r, e), h')" and "e \<noteq> None"
  shows "\<exists>c. stored_control E (h_world h') = Some c \<and> ending (ctl_State c)"
proof -
  obtain e1 h1 where r1: "run_state (SaveUpdateState E UpdateStateNone) h = (e1, h1)" by fastforce
  obtain e2 h2 where r2: "run_state (ClearUpdateStatus E) h1 = (e2, h2)" by fastforce
  obtain e3 h3 where r3: "run_state (SaveClusterState E ClusterStateRunning) h2 = (e3, h3)" by fastforce
  have s1: "\<exists>c. stored_control E (h_world h1) = Some c \<and> ending (ctl_State c)" "ending (st_State (h_status h1))"
    using UpdateStatus_ending [OF assms(1) _ _ r1 [unfolded run_saves]] assms(2,3) by simp_all
  have s2: "\<exists>c. stored_control E (h_world h2) = Some c \<and> ending (ctl_State c)" "ending (st_State (h_status h2))"
    using UpdateStatus_ending [OF assms(1) _ _ r2 [unfolded run_saves]] s1 by simp_all
  have s3: "\<exists>c. stored_control E (h_world h3) = Some c \<and> ending (ctl_State c)" if "e3 \<noteq> None"
    using UpdateStatus_control [OF assms(1) _ r3 [unfolded run_saves]] s2(1) that by auto
  from assms(4,5) r1 r2 r3 s1(1) s2(1) s3 show ?thesis by (auto simp: endUpdate_def split: if_splits)
qed

lemma Reconcile_ending:
  assumes "ext_ok E" and "meta_ok (x_meta E)" and "k_get_ytsaurus (x_k8s E) w = Found r" and "wf_status (yr_Status r)"
    and "ending (st_State (yr_Status r))"
  shows "\<exists>r'. k_get_ytsaurus (x_k8s E) (snd (Reconcile E w)) = Found r' \<and>
    (if end_saved E w then update_cleared (yr_Status r') else ending (st_State (yr_Status r')) \<or> update_cleared (yr_Status r'))"
  using assms(1-4)
proof (cases rule: Reconcile_cases)
  case idle
  with assms(5) show ?thesis by (auto simp: end_saved_def stored_control_Some status_control_def)
next
  case (steps cm h)
  have en: "ending (st_State (h_status h))" "\<exists>c. stored_control E (h_world h) = Some c \<and> ending (ctl_State c)"
    using assms(5) steps(3,4) by (simp_all add: control_of_status status_control_def)
  have st: "stored_status E h \<noteq> None" using steps(4) by (auto simp: stored_control_Some stored_status_def)
  obtain x e h' where run: "run_state (endUpdate E) h = ((x, e), h')" by (metis prod.exhaust)
  moreover have "run_state (syncManaged E cm) h = run_state (endUpdate E) h"
    using en(1) by (auto simp: syncManaged_def ending_def GetClusterState_def)
  ultimately have "snd (Reconcile E w) = h_world h'" "end_saved E w \<longleftrightarrow> e = None"
    using steps(1,6) by (simp_all add: end_saved_def)
  moreover have "\<exists>r'. k_get_ytsaurus (x_k8s E) (h_world h') = Found r' \<and> update_cleared (yr_Status r')" if "e = None"
    using endUpdate_stored [OF assms(1) st run [unfolded that]] by (auto simp: stored_status_def update_cleared_def split: getResult.splits)
  moreover have "\<exists>r'. k_get_ytsaurus (x_k8s E) (h_world h') = Found r' \<and> ending (st_State (yr_Status r'))" if "e \<noteq> None"
    using endUpdate_ending [OF assms(1) en(2,1) run that] by (auto simp: stored_control_Some status_control_def)
  ultimately show ?thesis by (cases "e = None") auto
qed

text \<open>What holds of the stored status until a reconciliation that moves ends it, is ended in every such run.\<close>

lemma run_ensures:
  assumes "ext_ok E" and "meta_ok (x_meta E)" and run: "\<And>i. operator_step E (w i) (w (Suc i))"
    and start: "k_get_ytsaurus (x_k8s E) (w 0) = Found r" "wf_status (yr_Status r)" and "keeps_moving E w"
    and "k_get_ytsaurus (x_k8s E) (w n) = Found r'" and "P (yr_Status r')" and "\<And>st. P st \<Longrightarrow> st_State st \<noteq> ClusterStateRunning"
    and rec: "\<And>w r. k_get_ytsaurus (x_k8s E) w = Found r \<Longrightarrow> wf_status (yr_Status r) \<Longrightarrow> P (yr_Status r) \<Longrightarrow>
      \<exists>r'. k_get_ytsaurus (x_k8s E) (snd (Reconcile E w)) = Found r' \<and> (P (yr_Status r') \<or> Q (yr_Status r')) \<and>
        (reconcile_moves E w \<longrightarrow> Q (yr_Status r'))"
  shows "\<exists>i\<ge>n. \<exists>r'. k_get_ytsaurus (x_k8s E) (w i) = Found r' \<and> Q (yr_Status r')"
proof (rule ensures [where P = "\<lambda>i. \<exists>r'. k_get_ytsaurus (x_k8s E) (w i) = Found r' \<and> P (yr_Status r')"])
  have wf: "k_get_ytsaurus (x_k8s E) (w i) = Found r' \<Longrightarrow> wf_status (yr_Status r')" for i r'
    using run_reached [OF assms(1,2) run start, of i] by auto
  show "\<exists>r'. k_get_ytsaurus (x_k8s E) (w n) = Found r' \<and> P (yr_Status r')" using assms(7,8) by blast
  show "(\<exists>r'. k_get_ytsaurus (x_k8s E) (w (Suc i)) = Found r' \<and> P (yr_Status r')) \<or>
      (\<exists>r'. k_get_ytsaurus (x_k8s E) (w (Suc i)) = Found r' \<and> Q (yr_Status r'))"
    if "\<exists>r'. k_get_ytsaurus (x_k8s E) (w i) = Found r' \<and> P (yr_Status r')" for i
    using run [of i]
  proof cases
    case reconcile
    with that rec wf show ?thesis by metis
  next
    case (environment s s')
    with that show ?thesis by auto
  qed
  show "\<exists>j\<ge>i. (\<exists>r'. k_get_ytsaurus (x_k8s E) (w j) = Found r' \<and> P (yr_Status r')) \<longrightarrow>
      (\<exists>r'. k_get_ytsaurus (x_k8s E) (w (Suc j)) = Found r' \<and> Q (yr_Status r'))" for i
  proof -
    obtain j where j: "j \<ge> i" "case stored_control E (w j) of
         Some c \<Rightarrow> ctl_State c \<noteq> ClusterStateRunning \<longrightarrow> w (Suc j) = snd (Reconcile E (w j)) \<and> reconcile_moves E (w j) | None \<Rightarrow> True"
      using assms(6) unfolding keeps_moving_def by blast
    then have "w (Suc j) = snd (Reconcile E (w j)) \<and> reconcile_moves E (w j)"
      if "k_get_ytsaurus (x_k8s E) (w j) = Found r''" "P (yr_Status r'')" for r''
      using that assms(9) by (simp add: stored_control_def status_control_def)
    with j(1) rec wf show ?thesis by metis
  qed
qed

lemma ends_clear:
  assumes "ext_ok E" and "meta_ok (x_meta E)" and run: "\<And>i. operator_step E (w i) (w (Suc i))"
    and start: "k_get_ytsaurus (x_k8s E) (w 0) = Found r" "wf_status (yr_Status r)" and "keeps_moving E w"
    and "k_get_ytsaurus (x_k8s E) (w n) = Found r'" and "ending (st_State (yr_Status r'))"
  shows "\<exists>i\<ge>n. \<exists>r'. k_get_ytsaurus (x_k8s E) (w i) = Found r' \<and> update_cleared (yr_Status r')"
proof (rule run_ensures [where P = "\<lambda>st. ending (st_State st)", OF assms])
  show "\<exists>r'. k_get_ytsaurus (x_k8s E) (snd (Reconcile E w)) = Found r' \<and>
      (ending (st_State (yr_Status r')) \<or> update_cleared (yr_Status r')) \<and> (reconcile_moves E w \<longrightarrow> update_cleared (yr_Status r'))"
    if "k_get_ytsaurus (x_k8s E) w = Found r" "wf_status (yr_Status r)" "ending (st_State (yr_Status r))" for w r
    using Reconcile_ending [OF assms(1,2) that] reconcile_moves_cases(2) [OF assms(1,2) that(1,2) _ that(3)] by (auto split: if_splits)
qed (auto simp: ending_def)

subsection \<open>A cluster that is set up comes to run\<close>

text \<open>The states on the way to a running cluster, and what follows them.\<close>

fun starts_to :: "ClusterState \<Rightarrow> ClusterState option" where
  "starts_to ClusterStateCreated = Some ClusterStateInitializing"
| "starts_to ClusterStateInitializing = Some ClusterStateRunning"
| "starts_to ClusterStateReconfiguration = Some ClusterStateRunning"
| "starts_to _ = None"

lemma SaveClusterState_control:
  assumes "ext_ok E" and "stored_control E (h_world h) = Some (control_of h)"
  shows "\<exists>c. stored_control E (h_world (snd (run_state (SaveClusterState E s) h))) = Some c \<and>
    ctl_State c = (if fst (run_state (SaveClusterState E s) h) = None then s else GetClusterState h)"
proof -
  obtain e h' where u: "run_state (SaveClusterState E s) h = (e, h')" by fastforce
  from UpdateStatus_control [OF assms(1) _ u [unfolded run_saves]] assms(2) u show ?thesis
    by (simp add: control_of_status status_control_def GetClusterState_def)
qed

lemma syncManaged_starting:
  assumes "ext_ok E" and "cond_inv E h" and "cm_allComponents cm = allComponents E g" and "stored_control E (h_world h) = Some (control_of h)"
    and "starts_to (GetClusterState h) = Some t"
  shows "\<exists>c. stored_control E (h_world (snd (run_state (syncManaged E cm) h))) = Some c \<and>
    (ctl_State c = GetClusterState h \<or> ctl_State c = t) \<and>
    (snd (fst (run_state (syncManaged E cm) h)) = None \<and> (GetClusterState h = ClusterStateInitializing \<longrightarrow> \<not> needSync cm) \<and>
      (GetClusterState h = ClusterStateReconfiguration \<longrightarrow> \<not> needInit cm) \<longrightarrow> ctl_State c = t)"
proof -
  have sync: "\<exists>c. stored_control E (h_world (snd (run_state (ComponentManager_Sync E cm) h))) = Some c \<and> ctl_State c = GetClusterState h"
    using ComponentManager_Sync_control [OF assms(1-4)] by (simp add: control_of_def)
  show ?thesis
    using assms(5) sync SaveClusterState_control [OF assms(1,4), of t]
    by (cases "GetClusterState h") (auto simp: syncManaged_def case_prod_unfold split: if_splits)
qed

lemma Reconcile_starting:
  assumes "ext_ok E" and "meta_ok (x_meta E)" and "k_get_ytsaurus (x_k8s E) w = Found r" and "wf_status (yr_Status r)"
    and "starts_to (st_State (yr_Status r)) = Some t"
  shows "\<exists>r'. k_get_ytsaurus (x_k8s E) (snd (Reconcile E w)) = Found r' \<and>
    (st_State (yr_Status r') = st_State (yr_Status r) \<or> st_State (yr_Status r') = t) \<and> (reconcile_moves E w \<longrightarrow> st_State (yr_Status r') = t)"
  using assms(1-4)
proof (cases rule: Reconcile_cases)
  case idle
  then show ?thesis by (auto simp: reconcile_moves_def stored_control_Some status_control_def)
next
  case (steps cm h)
  then have s: "GetClusterState h = st_State (yr_Status r)" by (auto simp: control_of_def status_control_def)
  with steps(1) have "reconcile_moves E w \<Longrightarrow> snd (fst (run_state (syncManaged E cm) h)) = None \<and>
      (GetClusterState h = ClusterStateInitializing \<longrightarrow> \<not> needSync cm) \<and> (GetClusterState h = ClusterStateReconfiguration \<longrightarrow> \<not> needInit cm)"
    by (auto simp: reconcile_moves_def)
  with syncManaged_starting [OF assms(1) steps(2,5,4)] s assms(5) steps(6) show ?thesis
    by (auto simp: stored_control_Some status_control_def)
qed

lemma starting_moves:
  assumes "ext_ok E" and "meta_ok (x_meta E)" and run: "\<And>i. operator_step E (w i) (w (Suc i))"
    and start: "k_get_ytsaurus (x_k8s E) (w 0) = Found r" "wf_status (yr_Status r)" and "keeps_moving E w"
    and "k_get_ytsaurus (x_k8s E) (w n) = Found r'" and "starts_to (st_State (yr_Status r')) = Some t"
  shows "\<exists>i\<ge>n. \<exists>r'. k_get_ytsaurus (x_k8s E) (w i) = Found r' \<and> st_State (yr_Status r') = t"
proof (rule run_ensures [where P = "\<lambda>st. st_State st = st_State (yr_Status r')", OF assms(1-7) refl])
  show "st_State st \<noteq> ClusterStateRunning" if "st_State st = st_State (yr_Status r')" for st using that assms(8) by auto
  show "\<exists>r''. k_get_ytsaurus (x_k8s E) (snd (Reconcile E w)) = Found r'' \<and>
      (st_State (yr_Status r'') = st_State (yr_Status r') \<or> st_State (yr_Status r'') = t) \<and> (reconcile_moves E w \<longrightarrow> st_State (yr_Status r'') = t)"
    if "k_get_ytsaurus (x_k8s E) w = Found r" "wf_status (yr_Status r)" "st_State (yr_Status r) = st_State (yr_Status r')" for w r
    using Reconcile_starting [OF assms(1,2) that(1,2), of t] that(3) assms(8) by simp
qed

text \<open>Every cluster comes to run, and an update leaves nothing behind.\<close>

lemma cluster_settles:
  assumes "ext_ok E" and "meta_ok (x_meta E)" and run: "\<And>i. operator_step E (w i) (w (Suc i))"
    and start: "k_get_ytsaurus (x_k8s E) (w 0) = Found r" "wf_status (yr_Status r)" and "keeps_moving E w"
  shows "starts_to (st_State (yr_Status r)) \<noteq> None \<Longrightarrow>
      \<exists>i r'. k_get_ytsaurus (x_k8s E) (w i) = Found r' \<and> st_State (yr_Status r') = ClusterStateRunning"
    and "st_State (yr_Status r) = ClusterStateUpdating \<or> ending (st_State (yr_Status r)) \<Longrightarrow>
      \<exists>i r'. k_get_ytsaurus (x_k8s E) (w i) = Found r' \<and> update_cleared (yr_Status r')"
proof -
  assume s: "starts_to (st_State (yr_Status r)) \<noteq> None"
  obtain n r' where n: "k_get_ytsaurus (x_k8s E) (w n) = Found r'" "st_State (yr_Status r') \<in> {ClusterStateInitializing, ClusterStateRunning}"
    using starting_moves [OF assms start(1)] s by (cases "st_State (yr_Status r)") fastforce+
  then show "\<exists>i r'. k_get_ytsaurus (x_k8s E) (w i) = Found r' \<and> st_State (yr_Status r') = ClusterStateRunning"
    using starting_moves [OF assms n(1), of ClusterStateRunning] by fastforce
next
  assume "st_State (yr_Status r) = ClusterStateUpdating \<or> ending (st_State (yr_Status r))"
  then obtain n r' where "k_get_ytsaurus (x_k8s E) (w n) = Found r'" "ending (st_State (yr_Status r'))"
    using updates_end [OF assms(1-5) _ assms(6)] start(1) by blast
  from ends_clear [OF assms this] show "\<exists>i r'. k_get_ytsaurus (x_k8s E) (w i) = Found r' \<and> update_cleared (yr_Status r')" by blast
qed

subsection \<open>A cluster at rest is left alone\<close>

lemma keeps_world_fetchStatuses:
  "(\<And>c. c \<in> set cs \<Longrightarrow> quiet c) \<Longrightarrow> keeps h_world (fetchStatuses cs st)"
proof (induction cs arbitrary: st)
  case (Cons c cs)
  then have "quiet c" by simp
  then have "keeps h_world (c_Fetch c)" "keeps h_world (c_Status c)" "keeps h_world (c_SetReadyCondition c s)" for s
    by (simp_all add: quiet_def reads_only_def dry_status_def keeps_outer_iff)
  with Cons show ?case by (auto intro!: io_intros)
qed (simp add: io_intros)

text \<open>A manager that saw all components of a running cluster ready.\<close>

lemma steady_manager:
  assumes "ext_ok E" and "meta_ok (x_meta E)" and "wf_status (yr_Status r)" and "st_State (yr_Status r) = ClusterStateRunning"
    and "run_state (newComponents E) (fresh_heap r w) = (Inr cps, h1)"
    and "\<forall>s \<in> set (seenStatuses (cps_all cps) h1). s = SyncStatusReady"
    and new: "run_state (NewComponentManager E) (fresh_heap r w) = (Inr cm, h2)"
  shows "\<not> needSync cm" "GetClusterState h2 = ClusterStateRunning"
proof -
  have m: "run_state (makeManager (cps_all cps) (cps_queryTracker cps) (cps_scheduler cps)) h1 = (Inr cm, h2)"
    using new assms(5) by (simp add: NewComponentManager_def)
  show "\<not> needSync cm"
    unfolding needSync_def makeManager_run(4) [OF m] fold_addStatus [OF length_seenStatuses]
    using assms(6) by (auto simp: initial_status_def)
  have "cond_inv E (fresh_heap r w)" using assms(2,3) by (simp add: cond_inv_wf_status fresh_heap_def)
  from NewComponentManager_keeps [OF assms(1) this new] show "GetClusterState h2 = ClusterStateRunning"
    using assms(4) by (simp add: control_of_def GetClusterState_def fresh_heap_def)
qed

text \<open>A reconciliation that sees all components of a running cluster ready writes nothing, and asks for no other.\<close>

lemma steady_cluster:
  assumes "ext_ok E" and "meta_ok (x_meta E)" and "k_get_ytsaurus (x_k8s E) w = Found r" and "wf_status (yr_Status r)"
    and "st_State (yr_Status r) = ClusterStateRunning" and "ys_TabletNodes (yr_Spec r) \<noteq> []"
    and "run_state (newComponents E) (fresh_heap r w) = (Inr cps, h1)"
    and "\<forall>s \<in> set (seenStatuses (cps_all cps) h1). s = SyncStatusReady"
  shows "snd (Reconcile E w) = w \<and> (ys_IsManaged (yr_Spec r) \<and> snd (fst (Reconcile E w)) = None \<longrightarrow> fst (fst (Reconcile E w)) = zero_result)"
proof -
  let ?mm = "makeManager (cps_all cps) (cps_queryTracker cps) (cps_scheduler cps)"
  have q: "c \<in> set (cps_all cps) \<Longrightarrow> quiet c" for c
    using qt.all_components [of "fresh_heap r w" c E] assms(6,7) by (simp add: allComponents_def fresh_heap_def)
  obtain m h2 where m: "run_state ?mm h1 = (m, h2)" by fastforce
  have "keeps h_world ?mm" unfolding makeManager_def by (intro io_intros keeps_world_fetchStatuses q)
  with m have w: "h_world h2 = w" using keepsD [OF keeps_newComponents assms(7)]
    by (auto simp: statusOuter_def fresh_heap_def dest: keepsD)
  have new: "run_state (NewComponentManager E) (fresh_heap r w) = (m, h2)" using assms(7) m by (simp add: NewComponentManager_def)
  have "cond_inv E (fresh_heap r w)" using assms(2,4) by (simp add: cond_inv_wf_status fresh_heap_def)
  from NewComponentManager_keeps [OF assms(1) this new] have run: "GetClusterState h2 = ClusterStateRunning"
    using assms(5) by (simp add: control_of_def GetClusterState_def fresh_heap_def)
  have "\<not> needSync cm" if "m = Inr cm" for cm
    unfolding needSync_def makeManager_run(4) [OF m [unfolded that]] fold_addStatus [OF length_seenStatuses]
    using assms(8) by (auto simp: initial_status_def)
  with new w run assms(3) show ?thesis
    by (cases m) (simp_all add: Reconcile_def YtsaurusReconciler_Sync_def syncManaged_def Let_def fresh_heap_def)
qed

end
