(* ===== verification/Queries.thy ===== *)
theory Queries
  imports Progress
begin

text \<open>
  The queries of a reconciliation succeed: when the API server answers reads and the client of the cluster can
  be created, every component that the operator creates is fetched without an error and every status query
  returns a status. So a reconciliation of a managed resource always enters the state machine.
\<close>

named_theorems answer_intros \<open>queries that return no error\<close>

definition fetches :: "('s, error) state \<Rightarrow> bool" where
  "fetches m \<longleftrightarrow> returns (\<lambda>e. e = None) m"

definition answers :: "('s, ComponentStatus \<times> error) state \<Rightarrow> bool" where
  "answers m \<longleftrightarrow> returns (\<lambda>r. snd r = None) m"

definition answers_block :: "'s block \<Rightarrow> bool" where
  "answers_block b \<longleftrightarrow> returns (\<lambda>r. \<forall>x. r = Some x \<longrightarrow> snd x = None) b"

definition answering :: "'s component \<Rightarrow> bool" where
  "answering c \<longleftrightarrow> fetches (c_Fetch c) \<and> answers (c_Status c)"

text \<open>The reads that a reconciliation makes do not fail.\<close>

definition queries_ok :: "'w ext \<Rightarrow> bool" where
  "queries_ok E \<longleftrightarrow> (\<forall>n w e. k_get_statefulset (x_k8s E) n w \<noteq> GetError e \<and> k_get_deployment (x_k8s E) n w \<noteq> GetError e \<and>
     k_get_configmap (x_k8s E) n w \<noteq> GetError e \<and> k_get_secret (x_k8s E) n w \<noteq> GetError e \<and>
     k_get_service (x_k8s E) n w \<noteq> GetError e \<and> k_get_job (x_k8s E) n w \<noteq> GetError e) \<and>
     (\<forall>a t p. y_new_client (x_yt E) a t p = None)"

subsection \<open>Fetching\<close>

lemma returns_bind_None:
  "returns (\<lambda>r. fst r = None) m \<Longrightarrow> (\<And>b. returns Q (f (None, b))) \<Longrightarrow> returns Q (State_Monad.bind m f)"
  by (auto elim!: returns_bind)

lemma fetches_resources [answer_intros]:
  "(\<And>m. Some m \<in> set ms \<Longrightarrow> fetches m) \<Longrightarrow> fetches (resources_Fetch ms)"
  unfolding resources_Fetch_def fetches_def
proof (induction ms rule: first_error.induct)
  case (3 m objs)
  then have "returns (\<lambda>e. e = None) m" "returns (\<lambda>e. e = None) (first_error objs)" by auto
  then show ?case by (auto elim!: returns_bind)
qed (auto intro: returns_ret)

lemma fetches_on_obj [answer_intros]:
  assumes "\<And>x. returns (\<lambda>r. fst r = None) (f x)"
  shows "fetches (on_obj get put f)"
  unfolding fetches_def on_obj_def
  by (intro returns_bind_any returns_bind_None [OF assms]) (auto intro!: returns_bind_any returns_ret)

lemma FetchObject_ok: "(\<And>w e. g n w \<noteq> GetError e) \<Longrightarrow> returns (\<lambda>r. fst r = None) (FetchObject g n x)"
  by (auto simp: returns_def FetchObject_def split: getResult.splits)

lemma returns_res_Fetch: "(\<And>n w e. g n w \<noteq> GetError e) \<Longrightarrow> returns (\<lambda>r. fst r = None) (res_Fetch g x)"
  unfolding res_Fetch_def by (rule returns_bind_None [OF FetchObject_ok]) (auto intro: returns_ret)

lemma fetch_parts_ok:
  assumes "\<And>f x. f \<in> set fs \<Longrightarrow> returns (\<lambda>r. fst r = None) (f x)"
  shows "returns (\<lambda>r. fst r = None) (fetch_parts fs x)"
  using assms
proof (induction fs arbitrary: x)
  case (Cons f fs)
  then show ?case by (auto intro!: returns_bind_None [of "f x"])
qed (auto intro: returns_ret)

lemma parts_Fetch_ok [answer_intros]:
  assumes "queries_ok E"
  shows "returns (\<lambda>r. fst r = None) (ConfigHelper_Fetch E c)" and "returns (\<lambda>r. fst r = None) (res_Fetch (k_get_statefulset (x_k8s E)) ss)"
    and "returns (\<lambda>r. fst r = None) (res_Fetch (k_get_deployment (x_k8s E)) d)" and "returns (\<lambda>r. fst r = None) (res_Fetch (k_get_job (x_k8s E)) j)"
    and "returns (\<lambda>r. fst r = None) (res_Fetch (k_get_secret (x_k8s E)) sec)" and "returns (\<lambda>r. fst r = None) (res_Fetch (k_get_service (x_k8s E)) svc)"
    and "returns (\<lambda>r. fst r = None) (FetchObject (k_get_secret (x_k8s E)) n o')"
proof -
  show "returns (\<lambda>r. fst r = None) (ConfigHelper_Fetch E c)"
    unfolding ConfigHelper_Fetch_def
    by (cases "ch_configOverrides c")
      (use assms in \<open>auto simp: queries_ok_def intro!: returns_bind_None FetchObject_ok returns_res_Fetch returns_ret\<close>)
qed (use assms in \<open>auto simp: queries_ok_def intro!: FetchObject_ok returns_res_Fetch\<close>)

lemma objects_Fetch_ok [answer_intros]:
  assumes "queries_ok E"
  shows "returns (\<lambda>r. fst r = None) (serverImpl_Fetch E s)" and "returns (\<lambda>r. fst r = None) (InitJob_Fetch E ij)"
    and "returns (\<lambda>r. fst r = None) (microserviceImpl_Fetch E m)"
  unfolding serverImpl_Fetch_def InitJob_Fetch_def microserviceImpl_Fetch_def
  by (rule fetch_parts_ok; auto intro!: returns_bind_None parts_Fetch_ok [OF assms] returns_ret)+

subsection \<open>The blocks of a dry run\<close>

lemma answers_firstStatus:
  assumes "list_all answers_block bs" and "answers final"
  shows "answers (firstStatus bs final)"
  using assms(1)
proof (induction bs)
  case (Cons b bs)
  then have b: "returns (\<lambda>r. \<forall>x. r = Some x \<longrightarrow> snd x = None) b" and bs: "answers (firstStatus bs final)"
    by (auto simp: answers_block_def)
  show ?case
    unfolding answers_def firstStatus.simps
    by (rule returns_bind [OF b]) (use bs in \<open>auto simp: answers_def intro: returns_ret split: option.split\<close>)
qed (simp add: assms(2))

lemma answers_ret [answer_intros]: "answers (ret (s, None))" "answers_block (ret None)" "answers_block (ret (Some (s, None)))"
  "answers_block (ret (if b then Some (s, None) else None))"
  by (auto simp: answers_def answers_block_def intro!: returns_ret)

lemma answers_bind [answer_intros]:
  "(\<And>x. answers_block (f x)) \<Longrightarrow> answers_block (State_Monad.bind m f)"
  "(b \<Longrightarrow> answers_block x) \<Longrightarrow> (\<not> b \<Longrightarrow> answers_block y) \<Longrightarrow> answers_block (if b then x else y)"
  by (auto simp: answers_block_def intro: returns_bind_any)

lemma answers_checkNeedUpdate [answer_intros]: "answers_block (checkNeedUpdate n)"
  unfolding answers_block_def checkNeedUpdate_def by (auto intro!: returns_bind_any returns_ret split: if_splits)

lemma answers_whenUpdating [answer_intros]: "answers_block b \<Longrightarrow> answers_block (whenUpdating b)"
  unfolding answers_block_def whenUpdating_def by (auto intro!: returns_bind_any returns_ret)

lemma answers_handleUpdating: "returns (\<lambda>r. snd r = None) (handleUpdatingClusterState E l u pm True)"
  unfolding handleUpdatingClusterState_def by (auto intro!: returns_bind_any returns_ret)

lemma answers_statusBlock [answer_intros]:
  "returns (\<lambda>r. snd r = None) m \<Longrightarrow> answers_block (statusBlock m)"
  unfolding answers_block_def statusBlock_def by (erule returns_bind) (auto intro!: returns_ret)

lemma answers_checkUpdating [answer_intros]: "answers_block (checkUpdating E l pm True)"
  unfolding checkUpdating_def by (intro answer_intros answers_handleUpdating)

lemma answers_checkRunning [answer_intros]:
  "answering c \<Longrightarrow> answers_block (checkRunning c ev)" "answering c \<Longrightarrow> answers_block (checkMaster c)"
  "answering c \<Longrightarrow> answers_block (checkReady c)"
  unfolding answers_block_def checkMaster_def checkRunning_def checkReady_def answering_def answers_def
  by (auto elim!: returns_bind intro!: returns_ret)

lemma answers_server_blocks [answer_intros]:
  "answers_block (checkServerSync E a True m)" "answers_block (checkPodsReady E a)" "answers_block (checkSecret E a d True)"
  "answers_block (act x)" "answers_block (scriptBlock E a True g)" "answers_block (attempt True s n)" "answers_block (clientPresent True)"
  "answers_block (checkMicroserviceSync E a True m)" "answers_block (checkMicroserviceUpdate E a)"
  unfolding answers_block_def checkServerSync_def checkPodsReady_def checkSecret_def act_def scriptBlock_def attempt_def clientPresent_def
    checkMicroserviceSync_def checkMicroserviceUpdate_def checkNeedUpdate_def
  by (auto intro!: returns_bind_any returns_ret split: if_splits)

lemma InitJob_Sync_answers: "returns (\<lambda>r. snd (fst r) = None) (InitJob_Sync E True j)"
  unfolding InitJob_Sync_def InitJob_SyncWith_def by (auto intro!: returns_bind_any returns_ret)

lemma answers_on_job [answer_intros]: "answers (on_job a (InitJob_Sync E True))"
  unfolding answers_def on_obj_def
  by (rule returns_bind_any, rule returns_bind [OF InitJob_Sync_answers]) (auto intro!: returns_bind_any returns_ret)

lemma answers_checkJob [answer_intros]: "answers_block (checkJob E a True)"
  unfolding answers_block_def checkJob_def
  by (rule returns_bind [OF answers_on_job [unfolded answers_def]]) (auto intro!: returns_ret split: if_splits)

lemma answers_exitReadOnly: "answers (exitReadOnly E m True)"
  unfolding answers_def exitReadOnly_def prepareRestart_def
  by (auto intro!: returns_bind_any returns_ret answers_on_job [unfolded answers_def])

lemma answers_checkUpdatingMaster [answer_intros]: "answers_block (checkUpdatingMaster E l m True)"
proof -
  have s: "answers_block (statusBlock (handleUpdatingClusterState E l True pm True))" for pm :: "'a heap podsManager"
    by (intro answer_intros answers_handleUpdating)
  show ?thesis
    unfolding answers_block_def checkUpdatingMaster_def whenUpdating_def
    by (auto intro!: returns_bind_any returns_ret s [unfolded answers_block_def, simplified] returns_bind [OF answers_exitReadOnly [unfolded answers_def]])
qed

lemma answers_checkUpdatingWith [answer_intros]:
  assumes "returns (\<lambda>r. snd r = None) m"
  shows "answers_block (checkUpdatingWith E l pm extra m True)"
  unfolding answers_block_def checkUpdatingWith_def whenUpdating_def
  by (auto intro!: returns_bind_any returns_ret returns_bind [OF assms] split: option.split)

lemma answers_updates [answer_intros]:
  "returns (\<lambda>r. snd r = None) (updateOpArchive E s True)" "returns (\<lambda>r. snd r = None) (updateQTState E qt True)"
  unfolding updateOpArchive_def updateQTState_def prepareRestart_def Let_def
  by (auto intro!: returns_bind_any returns_ret split: UpdateState.split)

subsection \<open>The components\<close>

lemma answering_mkComponent:
  "fetches f \<Longrightarrow> answers (d True) \<Longrightarrow> answering (mkComponent E l t u f d)"
  by (simp add: answering_def mkComponent_def)

lemmas answering_rules = answering_mkComponent answers_firstStatus

lemma answering_Nodes:
  assumes "queries_ok E"
  shows "answering (Discovery E l a)" and "answering m \<Longrightarrow> answering (DataNode E l a m)" and "answering m \<Longrightarrow> answering (ControllerAgent E l a m)"
    and "answering (MasterCache E l a)" and "answering m \<Longrightarrow> answering (HttpProxy E l a b role tls m)"
    and "answering m \<Longrightarrow> answering (RpcProxy E l a rb tls m)" and "answering m \<Longrightarrow> answering (TcpProxy E l a tb m)"
    and "answering m \<Longrightarrow> answering (ExecNode E l x a sc m)"
  unfolding Discovery_def DataNode_def ControllerAgent_def MasterCache_def HttpProxy_def RpcProxy_def TcpProxy_def ExecNode_def
    fetchServer_def fetchExecNode_def map_option_case
    Discovery_doSync_def DataNode_doSync_def ControllerAgent_doSync_def MasterCache_doSync_def HttpProxy_doSync_def RpcProxy_doSync_def
    TcpProxy_doSync_def ExecNode_doSync_def doSyncBase_def
  using assms by (auto intro!: answering_rules answer_intros simp del: firstStatus.simps cong: if_cong split: option.splits)

lemma answering_others:
  assumes "queries_ok E"
  shows "answering (Master_component E l m)" and "answering hp \<Longrightarrow> answering (YtsaurusClient_component E l yc hp)"
    and "answering c \<Longrightarrow> answering (TabletNode E l g a c i)"
    and "answering (s_master sch) \<Longrightarrow> \<forall>x \<in> set (s_execNodes sch) \<union> set (s_tabletNodes sch). answering x \<Longrightarrow> answering (Scheduler_component E l sch)"
    and "\<forall>x \<in> set (qt_tabletNodes qt). answering x \<Longrightarrow> qt_tabletNodes qt \<noteq> [] \<Longrightarrow> answering (QueryTracker_component E l qt)"
    and "answering (qa_client qa) \<Longrightarrow> answering (qa_master qa) \<Longrightarrow> \<forall>x \<in> set (qa_tabletNodes qa). answering x \<Longrightarrow>
      qa_tabletNodes qa \<noteq> [] \<Longrightarrow> answering (QueueAgent_component E l qa)"
    and "answering (ya_master ya) \<Longrightarrow> answering (YqlAgent_component E l ya)" and "answering (u_master u) \<Longrightarrow> answering (UI_component E u)"
    and "answering (sb_master sb) \<Longrightarrow> answering (sb_scheduler sb) \<Longrightarrow> \<forall>x \<in> set (sb_dataNodes sb). answering x \<Longrightarrow>
      answering (Strawberry_component E sb)"
proof -
  have connect: "answers_block (connect E yc)"
    using assms unfolding connect_def answers_block_def queries_ok_def by (auto intro!: returns_bind_any returns_ret simp: Let_def split: option.splits)
  have job: "answers_block (do { (st, err) \<leftarrow> on_job b (InitJob_Sync E True); ret (if cst_SyncStatus st \<noteq> SyncStatusReady then Some (st, err) else None) })" for b
    unfolding answers_block_def
    by (rule returns_bind [OF answers_on_job [unfolded answers_def]]) (auto intro!: returns_ret split: if_splits)
  have ready: "answers_block (do { z \<leftarrow> gets GetClusterState;
      if z \<noteq> ClusterStateUpdating then do { r \<leftarrow> checkReady c; case r of Some x \<Rightarrow> ret (Some x) | None \<Rightarrow> attempt True s n } else ret None })"
    if "answering c" for c :: "'a heap component" and s n
    unfolding answers_block_def
    by (auto intro!: returns_bind_any [of _ _ "gets GetClusterState"] returns_ret
        returns_bind [OF answers_checkRunning(3) [OF that, unfolded answers_block_def]] simp: attempt_def split: option.split)
  have secret: "fetches (case creds of None \<Rightarrow> ret None
      | Some name \<Rightarrow> on_obj h_admin (\<lambda>x h. h\<lparr>h_admin := x\<rparr>) (FetchObject (k_get_secret (x_k8s E)) name))" for creds
    using assms by (cases creds) (auto simp: fetches_def intro!: returns_ret answer_intros [unfolded fetches_def])
  have master: "fetches (Master_Fetch E m)"
    unfolding Master_Fetch_def fetches_def
    by (intro returns_bind_any returns_bind [OF secret [unfolded fetches_def]])
      (use assms in \<open>auto intro!: answer_intros [unfolded fetches_def]\<close>)
  show "answering (Master_component E l m)"
    unfolding Master_component_def Master_doSync_def
    using assms master by (auto intro!: answering_rules answer_intros simp del: firstStatus.simps cong: if_cong)
  show "answering hp \<Longrightarrow> answering (YtsaurusClient_component E l yc hp)"
    unfolding YtsaurusClient_component_def YtsaurusClient_doSync_def returnStatus_def
    using assms connect by (auto simp: answering_def [of hp] intro!: answering_rules answer_intros simp del: firstStatus.simps cong: if_cong)
  show "answering c \<Longrightarrow> answering (TabletNode E l g a c i)"
    unfolding TabletNode_def TabletNode_doSync_def fetchServer_def
    using assms by (auto intro!: answering_rules answer_intros simp del: firstStatus.simps cong: if_cong)
  have archive: "answering (s_master sch) \<Longrightarrow> \<forall>x \<in> set (s_tabletNodes sch). answering x \<Longrightarrow> answers (initOpAchieve E sch True)"
    unfolding initOpAchieve_def
    by (rule answers_firstStatus) (auto simp: list_all_iff intro!: answer_intros job)
  show "answering (s_master sch) \<Longrightarrow> \<forall>x \<in> set (s_execNodes sch) \<union> set (s_tabletNodes sch). answering x \<Longrightarrow> answering (Scheduler_component E l sch)"
    unfolding Scheduler_component_def Scheduler_doSync_def
    using assms archive by (auto simp: list_all_iff intro!: answering_rules answer_intros simp del: firstStatus.simps cong: if_cong)
  show "\<forall>x \<in> set (qt_tabletNodes qt). answering x \<Longrightarrow> qt_tabletNodes qt \<noteq> [] \<Longrightarrow> answering (QueryTracker_component E l qt)"
    unfolding QueryTracker_component_def QueryTracker_doSync_def
    using assms by (auto simp: list_all_iff intro!: answering_rules answer_intros simp del: firstStatus.simps cong: if_cong)
  show "answering (qa_client qa) \<Longrightarrow> answering (qa_master qa) \<Longrightarrow> \<forall>x \<in> set (qa_tabletNodes qa). answering x \<Longrightarrow>
      qa_tabletNodes qa \<noteq> [] \<Longrightarrow> answering (QueueAgent_component E l qa)"
    unfolding QueueAgent_component_def QueueAgent_doSync_def
    using assms by (auto simp: list_all_iff ready intro!: answering_rules answer_intros simp del: firstStatus.simps cong: if_cong)
  show "answering (ya_master ya) \<Longrightarrow> answering (YqlAgent_component E l ya)"
    unfolding YqlAgent_component_def YqlAgent_doSync_def
    using assms by (auto intro!: answering_rules answer_intros simp del: firstStatus.simps cong: if_cong)
  show "answering (u_master u) \<Longrightarrow> answering (UI_component E u)"
    unfolding UI_component_def UI_doSync_def
    using assms by (auto intro!: answering_rules answer_intros simp del: firstStatus.simps cong: if_cong)
  show "answering (sb_master sb) \<Longrightarrow> answering (sb_scheduler sb) \<Longrightarrow> \<forall>x \<in> set (sb_dataNodes sb). answering x \<Longrightarrow>
      answering (Strawberry_component E sb)"
    unfolding Strawberry_component_def Strawberry_doSync_def
    using assms by (auto simp: list_all_iff intro!: answering_rules answer_intros simp del: firstStatus.simps cong: if_cong)
qed

interpretation an: component_property E "\<lambda>c. queries_ok E \<longrightarrow> answering c" True for E :: "'w ext"
  by unfold_locales
    (auto simp: New_defs returns_def [of _ "State_Monad.return _"] intro!: returns_bind_any answering_Nodes answering_others)

subsection \<open>Every reconciliation enters the state machine\<close>

lemma fetchStatuses_answers:
  assumes "\<And>c. c \<in> set cs \<Longrightarrow> answering c"
  shows "returns (\<lambda>r. \<exists>st. r = Inr st) (fetchStatuses cs st)"
  using assms
proof (induction cs arbitrary: st)
  case (Cons c cs)
  then have c: "returns (\<lambda>e. e = None) (c_Fetch c)" "returns (\<lambda>r. snd r = None) (c_Status c)"
    by (simp_all add: answering_def fetches_def answers_def)
  have rest: "returns (\<lambda>r. \<exists>st. r = Inr st) (fetchStatuses cs s)" for s using Cons by simp
  show ?case
    unfolding fetchStatuses.simps
    by (rule returns_bind [OF c(1)], simp, rule returns_bind [OF c(2)]) (auto intro!: returns_bind_any rest)
qed (simp add: returns_ret)

lemma managed_answers:
  assumes "queries_ok E" and "k_get_ytsaurus (x_k8s E) w = Found r" and "ys_IsManaged (yr_Spec r)" and "ys_HTTPProxies (yr_Spec r) \<noteq> []"
  shows "managed E w \<noteq> None"
proof -
  have "count_ok (yr_Spec r) (fst (run_state (newComponents E) (fresh_heap r w)))"
    using newComponentsFor_count [of r E] by (simp add: newComponents_def returns_def fresh_heap_def)
  with assms(4) obtain cps h where n: "run_state (newComponents E) (fresh_heap r w) = (Inr cps, h)"
    by (cases "run_state (newComponents E) (fresh_heap r w)") (auto simp: count_ok_def split: sum.splits)
  then have all: "cps_all cps = allComponents E (fresh_heap r w)" by (simp add: allComponents_def)
  have "returns (\<lambda>r. \<exists>st. r = Inr st) (fetchStatuses (cps_all cps) initial_status)"
    by (rule fetchStatuses_answers) (use assms(1) an.all_components in \<open>auto simp: all\<close>)
  then obtain st where "fst (run_state (fetchStatuses (cps_all cps) initial_status) h) = Inr st" unfolding returns_def by blast
  with assms(2,3) n show ?thesis by (auto simp: managed_def NewComponentManager_def makeManager_def case_prod_unfold)
qed

text \<open>A managed cluster at rest: nothing changes, and no other reconciliation is asked for.\<close>

lemma steady_reconcile:
  assumes "ext_ok E" and "meta_ok (x_meta E)" and "queries_ok E" and "k_get_ytsaurus (x_k8s E) w = Found r" and "wf_status (yr_Status r)"
    and "st_State (yr_Status r) = ClusterStateRunning" and "ys_IsManaged (yr_Spec r)"
    and "ys_TabletNodes (yr_Spec r) \<noteq> []" and "ys_HTTPProxies (yr_Spec r) \<noteq> []"
    and "set (seenStatuses (allComponents E (fresh_heap r w)) (snd (run_state (newComponents E) (fresh_heap r w)))) \<subseteq> {SyncStatusReady}"
  shows "Reconcile E w = ((zero_result, None), w)"
proof -
  have "count_ok (yr_Spec r) (fst (run_state (newComponents E) (fresh_heap r w)))"
    using newComponentsFor_count [of r E] by (simp add: newComponents_def returns_def fresh_heap_def)
  with assms(9) obtain cps h where n: "run_state (newComponents E) (fresh_heap r w) = (Inr cps, h)"
    by (cases "run_state (newComponents E) (fresh_heap r w)") (auto simp: count_ok_def split: sum.splits)
  have ready: "\<forall>s \<in> set (seenStatuses (cps_all cps) h). s = SyncStatusReady" using assms(10) n by (auto simp: allComponents_def)
  obtain cm h2 where m: "managed E w = Some (cm, h2)" using managed_answers [OF assms(3,4,7,9)] by auto
  then have new: "run_state (NewComponentManager E) (fresh_heap r w) = (Inr cm, h2)"
    using assms(4) by (auto simp: managed_def split: if_splits sum.splits prod.splits)
  have "snd (fst (Reconcile E w)) = None"
    using steady_manager [OF assms(1,2,5,6) n ready new] new assms(4,7)
    by (simp add: Reconcile_def YtsaurusReconciler_Sync_def syncManaged_def Let_def fresh_heap_def)
  with steady_cluster [OF assms(1,2,4,5,6,8) n ready] assms(7) show ?thesis by (simp add: prod_eq_iff)
qed

end
