(* ===== verification/Release.thy ===== *)
theory Release
  imports Operator
begin

text \<open>
  The resources that release an application into a running cluster, CHYT and SPYT: their types
  (\<open>chyt_types.go\<close>, \<open>spyt_types.go\<close>), condition managers (\<open>pkg/apiproxy/chyt.go\<close>,
  \<open>spyt.go\<close>), components (\<open>pkg/components/chyt.go\<close>, \<open>spyt.go\<close>) and controllers. The two differ in
  one field and one job, so they share records and the blocks of their \<open>doSync\<close> methods.
\<close>

subsection \<open>Types\<close>

datatype ChytReleaseStatus =
    ChytReleaseStatusCreatingUserSecret | ChytReleaseStatusCreatingUser | ChytReleaseStatusUploadingIntoCypress
  | ChytReleaseStatusCreatingChPublicClique | ChytReleaseStatusFinished | ChytReleaseStatusOther string

datatype SpytReleaseStatus =
    SpytReleaseStatusCreatingUserSecret | SpytReleaseStatusCreatingUser | SpytReleaseStatusUploadingIntoCypress
  | SpytReleaseStatusFinished | SpytReleaseStatusOther string

record SpytSpec =
  rsp_ImagePullSecrets :: "string list"
  rsp_Ytsaurus :: "string option"
  rsp_Image :: string

record ChytSpec = SpytSpec +
  rsp_MakeDefault :: bool

record 'p releaseStatus =
  rst_Conditions :: "Condition list"
  rst_ReleaseStatus :: 'p

record ('s, 'p) releaseResource =
  rel_Meta :: ObjectMeta
  rel_Spec :: 's
  rel_Status :: "'p releaseStatus"

type_synonym ChytResource = "(ChytSpec, ChytReleaseStatus) releaseResource"
type_synonym SpytResource = "(SpytSpec, SpytReleaseStatus) releaseResource"

text \<open>
  The components. In the memory of these controllers \<open>h_yts\<close> is the cluster that the resource refers
  to, which they only read; the resource under reconciliation and its component are added.
\<close>

record Spyt =
  rl_cfgen :: Generator
  rl_secret :: StringSecret
  rl_initUser :: InitJob
  rl_initEnvironment :: InitJob

record Chyt = Spyt +
  rl_initChPublicJob :: InitJob

record ('w, 's, 'p, 'c) release_mem = "'w mem" +
  h_release :: "('s, 'p) releaseResource"
  h_component :: 'c

text \<open>
  The client's methods at the kind of the resource: the resource of the request, the cluster by its
  name, the status update. The object operations of \<open>ext\<close> are those of a proxy for this resource.
\<close>

record ('w, 's, 'p) release_api =
  ra_get :: "'w \<Rightarrow> ('s, 'p) releaseResource getResult"
  ra_get_ytsaurus :: "string \<Rightarrow> 'w \<Rightarrow> YtsaurusResource getResult"
  ra_status_update :: "('s, 'p) releaseResource \<Rightarrow> 'w \<Rightarrow> error \<times> 'w"

subsection \<open>apiproxy: chyt.go and spyt.go\<close>

definition map_release :: "('p releaseStatus \<Rightarrow> 'p releaseStatus) \<Rightarrow> ('w, 's, 'p, 'c) release_mem \<Rightarrow> ('w, 's, 'p, 'c) release_mem" where
  "map_release f h = h\<lparr>h_release := (h_release h)\<lparr>rel_Status := f (rel_Status (h_release h))\<rparr>\<rparr>"

definition setReleaseStatus :: "'p \<Rightarrow> (('w, 's, 'p, 'c) release_mem, unit) state" where
  "setReleaseStatus p = modify (map_release (\<lambda>s. s\<lparr>rst_ReleaseStatus := p\<rparr>))"

definition Release_SetStatusCondition :: "'w ext \<Rightarrow> Condition \<Rightarrow> (('w, 's, 'p, 'c) release_mem, unit) state" where
  "Release_SetStatusCondition E c = modify (\<lambda>h. map_release (\<lambda>s. s\<lparr>rst_Conditions :=
     meta_SetStatusCondition (x_meta E) (k_now (x_k8s E) (h_world h)) (rst_Conditions s) c\<rparr>) h)"

definition Release_IsStatusConditionTrue :: "'w ext \<Rightarrow> string \<Rightarrow> ('w, 's, 'p, 'c) release_mem \<Rightarrow> bool" where
  "Release_IsStatusConditionTrue E t h = meta_IsStatusConditionTrue (x_meta E) (rst_Conditions (rel_Status (h_release h))) t"

definition Release_IsStatusConditionFalse :: "'w ext \<Rightarrow> string \<Rightarrow> ('w, 's, 'p, 'c) release_mem \<Rightarrow> bool" where
  "Release_IsStatusConditionFalse E t h = meta_IsStatusConditionFalse (x_meta E) (rst_Conditions (rel_Status (h_release h))) t"

definition releaseConditions :: "'w ext \<Rightarrow> ('w, 's, 'p, 'c) release_mem ConditionManager" where
  "releaseConditions E = \<lparr>cmg_SetStatusCondition = Release_SetStatusCondition E,
     cmg_IsStatusConditionTrue = Release_IsStatusConditionTrue E, cmg_IsStatusConditionFalse = Release_IsStatusConditionFalse E\<rparr>"

definition Release_UpdateStatus :: "('w, 's, 'p) release_api \<Rightarrow> (('w, 's, 'p, 'c) release_mem, error) state" where
  "Release_UpdateStatus A = State (\<lambda>h. case ra_status_update A (h_release h) (h_world h) of
     (e, w) \<Rightarrow> (e, h\<lparr>h_world := w\<rparr>))"

definition SaveReleaseStatus :: "('w, 's, 'p) release_api \<Rightarrow> 'p \<Rightarrow> (('w, 's, 'p, 'c) release_mem, error) state" where
  "SaveReleaseStatus A p = do { setReleaseStatus p; Release_UpdateStatus A }"

subsection \<open>Shared blocks\<close>

definition onComponent :: "('c \<Rightarrow> 'o) \<Rightarrow> ('o \<Rightarrow> 'c \<Rightarrow> 'c) \<Rightarrow> ('o \<Rightarrow> (('w, 's, 'p, 'c) release_mem, 'a \<times> 'o) state) \<Rightarrow>
    (('w, 's, 'p, 'c) release_mem, 'a) state" where
  "onComponent get put = on_obj (\<lambda>h. get (h_component h)) (\<lambda>x h. h\<lparr>h_component := put x (h_component h)\<rparr>)"

definition set_secret :: "StringSecret \<Rightarrow> ('z) Spyt_scheme \<Rightarrow> ('z) Spyt_scheme" where
  "set_secret x c = c\<lparr>rl_secret := x\<rparr>"
definition set_user :: "InitJob \<Rightarrow> ('z) Spyt_scheme \<Rightarrow> ('z) Spyt_scheme" where
  "set_user x c = c\<lparr>rl_initUser := x\<rparr>"
definition set_environment :: "InitJob \<Rightarrow> ('z) Spyt_scheme \<Rightarrow> ('z) Spyt_scheme" where
  "set_environment x c = c\<lparr>rl_initEnvironment := x\<rparr>"
definition set_public :: "InitJob \<Rightarrow> Chyt \<Rightarrow> Chyt" where
  "set_public x c = c\<lparr>rl_initChPublicJob := x\<rparr>"

definition clusterRunning :: "(YtsaurusResource \<Rightarrow> string) \<Rightarrow> ('w, 's, 'p, 'c) release_mem block" where
  "clusterRunning event = do {
     y \<leftarrow> gets h_yts;
     if st_State (yr_Status y) \<noteq> ClusterStateRunning then returnStatus (WaitingStatus SyncStatusBlocked (event y)) None
     else ret None
   }"

definition releaseToken :: "('z) Spyt_scheme \<Rightarrow> string" where
  "releaseToken c = fst (StringSecret_GetValue (rl_secret c) TokenSecretKey)"

definition releaseSecret :: "'w ext \<Rightarrow> 'p \<Rightarrow> bool \<Rightarrow> ('w, 's, 'p, ('z) Spyt_scheme) release_mem block" where
  "releaseSecret E p dry = do {
     s \<leftarrow> gets (\<lambda>h. rl_secret (h_component h));
     if StringSecret_NeedSync s TokenSecretKey [] then do {
       err \<leftarrow> (if \<not> dry then do {
                 token \<leftarrow> RandString E 30;
                 onComponent rl_secret set_secret (\<lambda>s. do {
                   let s' = setSecretData [TokenSecretKey \<mapsto> token] (StringSecret_Build s);
                   err \<leftarrow> StringSecret_Sync E s';
                   ret (err, s')
                 })
               }
               else ret None);
       setReleaseStatus p;
       returnStatus (WaitingStatus SyncStatusPending (r_name s)) err
     }
     else ret None
   }"

text \<open>One job: prepared unless dry, synchronised, and returned from unless it is ready.\<close>

definition releaseJob :: "'w ext \<Rightarrow> ('c \<Rightarrow> InitJob) \<Rightarrow> (InitJob \<Rightarrow> 'c \<Rightarrow> 'c) \<Rightarrow>
    ('c \<Rightarrow> InitJob \<Rightarrow> (('w, 's, 'p, 'c) release_mem, InitJob) state) \<Rightarrow> (SyncStatus \<Rightarrow> error \<Rightarrow> bool) \<Rightarrow> 'p \<Rightarrow> bool \<Rightarrow>
    ('w, 's, 'p, 'c) release_mem block" where
  "releaseJob E get put prepare stops p dry = do {
     whenM (\<not> dry) (do {
       c \<leftarrow> gets h_component;
       onComponent get put (\<lambda>j. do { j' \<leftarrow> prepare c j; ret ((), j') })
     });
     (st, err) \<leftarrow> onComponent get put (InitJob_SyncWith (releaseConditions E) E dry);
     if stops (cst_SyncStatus st) err then do { setReleaseStatus p; returnStatus st err } else ret None
   }"

definition notReady :: "SyncStatus \<Rightarrow> error \<Rightarrow> bool" where
  "notReady s err \<longleftrightarrow> s \<noteq> SyncStatusReady"

definition failedOrNotReady :: "SyncStatus \<Rightarrow> error \<Rightarrow> bool" where
  "failedOrNotReady s err \<longleftrightarrow> err \<noteq> None \<or> s \<noteq> SyncStatusReady"

definition initUserScript :: "'w ext \<Rightarrow> string \<Rightarrow> ('z) Spyt_scheme \<Rightarrow> string" where
  "initUserScript E user c = lines_join (initJobWithNativeDriverPrologue # createUserCommand E user [] (releaseToken c) True)"

definition prepareWithEnv :: "'w ext \<Rightarrow> string \<Rightarrow> EnvVar list \<Rightarrow> InitJob \<Rightarrow> (('w, 'z) mem_scheme, InitJob) state" where
  "prepareWithEnv E script env j = do {
     j' \<leftarrow> SetInitScript E script j;
     ret (onJobContainer0 (\<lambda>ct. ct\<lparr>ct_Env := env\<rparr>) (InitJob_Build j'))
   }"

definition proxyEnv :: "('z) Spyt_scheme \<Rightarrow> EnvVar list" where
  "proxyEnv c = [\<lparr>ev_Name = ''YT_PROXY'', ev_Value = GetHTTPProxiesAddress (rl_cfgen c) DefaultHTTPProxyRole, ev_FieldPath = None\<rparr>,
     \<lparr>ev_Name = ''YT_TOKEN'', ev_Value = releaseToken c, ev_FieldPath = None\<rparr>]"

definition releaseLabeller :: "('s, 'p) releaseResource \<Rightarrow> string \<Rightarrow> string \<Rightarrow> YtsaurusResource \<Rightarrow> Labeller" where
  "releaseLabeller r label name y = \<lparr>lb_ClusterName = om_Name (rel_Meta r), lb_Namespace = om_Namespace (rel_Meta r),
     lb_ComponentLabel = label @ om_Name (rel_Meta r), lb_ComponentName = name @ om_Name (rel_Meta r),
     lb_Annotations = extraPodAnnotations y\<rparr>"

subsection \<open>components: chyt.go\<close>

definition NewChyt :: "'w ext \<Rightarrow> Generator \<Rightarrow> ChytResource \<Rightarrow> YtsaurusResource \<Rightarrow> Chyt" where
  "NewChyt E g r y =
     (let l = releaseLabeller r ''ytsaurus-chyt-'' ''CHYT-'' y; img = rsp_Image (rel_Spec r)
      in \<lparr>rl_cfgen = g, rl_secret = NewStringSecret (GetSecretName l) l,
          rl_initUser = nativeJob E g y l ''user'' (cs_CoreImage (ys_Common (yr_Spec y))),
          rl_initEnvironment = nativeJob E g y l ''release'' img,
          rl_initChPublicJob = nativeJob E g y l ''ch-public'' img\<rparr>)"

definition Chyt_createInitScript :: "ChytSpec \<Rightarrow> string" where
  "Chyt_createInitScript spec = ''/setup_cluster_for_chyt.sh'' @ (if rsp_MakeDefault spec then '' --make-default'' else [])"

definition createInitChPublicScript :: "Generator \<Rightarrow> string" where
  "createInitChPublicScript g = lines_join [initJobPrologue,
     ''export YT_PROXY='' @ GetHTTPProxiesAddress g DefaultHTTPProxyRole @ '' CHYT_CTL_ADDRESS='' @ GetStrawberryControllerServiceAddress g @
       '' YT_LOG_LEVEL=debug'',
     ''yt create scheduler_pool --attributes '' @ squoted ''{name=chyt; pool_tree=default}'' @ '' --ignore-existing'',
     ''yt clickhouse ctl create ch_public || true'',
     ''yt clickhouse ctl set-option --alias ch_public pool chyt'',
     ''yt clickhouse ctl set-option --alias ch_public enable_geodata '' @ squoted ''%false'',
     ''yt clickhouse ctl set-option --alias ch_public instance_cpu 1'',
     ''yt clickhouse ctl set-option --alias ch_public instance_memory '' @ squoted (''{reader=100000000;chunk_meta_cache=100000000;'' @
       ''compressed_cache=100000000;clickhouse=100000000;clickhouse_watermark=10;footprint=500000000;log_tailer=100000000;'' @
       ''watchdog_oom_watermark=0;watchdog_oom_window_watermark=0}''),
     ''yt clickhouse ctl set-option --alias ch_public instance_count 1'',
     ''yt clickhouse ctl start ch_public'']"

definition prepareChPublicJob :: "'w ext \<Rightarrow> Chyt \<Rightarrow> InitJob \<Rightarrow> (('w, 'z) mem_scheme, InitJob) state" where
  "prepareChPublicJob E c j = do {
     j' \<leftarrow> SetInitScript E (createInitChPublicScript (rl_cfgen c)) j;
     ret (onJobContainer0 (\<lambda>ct. ct\<lparr>ct_EnvFromSecrets := [StringSecret_GetEnvSource (rl_secret c)]\<rparr>) (InitJob_Build j'))
   }"

text \<open>The public clique is started only where the strawberry controller runs and CHYT is the default.\<close>

definition chPublicWanted :: "YtsaurusResource \<Rightarrow> ChytResource \<Rightarrow> bool" where
  "chPublicWanted y r \<longleftrightarrow> ys_StrawberryController (yr_Spec y) \<noteq> None \<and> rsp_MakeDefault (rel_Spec r)"

definition Chyt_doSync :: "'w ext \<Rightarrow> bool \<Rightarrow> (('w, ChytSpec, ChytReleaseStatus, Chyt) release_mem, ComponentStatus \<times> error) state" where
  "Chyt_doSync E dry = firstStatus
     [clusterRunning (\<lambda>y. ''ytsaurus running''),
      releaseSecret E ChytReleaseStatusCreatingUserSecret dry,
      releaseJob E rl_initUser set_user (\<lambda>c. SetInitScript E (initUserScript E ''chyt_releaser'' c)) notReady
        ChytReleaseStatusCreatingUser dry,
      do {
        r \<leftarrow> gets h_release;
        releaseJob E rl_initEnvironment set_environment
          (\<lambda>c. prepareWithEnv E (Chyt_createInitScript (rel_Spec r)) (proxyEnv c)) failedOrNotReady
          ChytReleaseStatusUploadingIntoCypress dry
      },
      do {
        h \<leftarrow> State_Monad.get;
        if chPublicWanted (h_yts h) (h_release h)
        then releaseJob E rl_initChPublicJob set_public (prepareChPublicJob E) failedOrNotReady
          ChytReleaseStatusCreatingChPublicClique dry
        else ret None
      }]
     (do { setReleaseStatus ChytReleaseStatusFinished; ret (SimpleStatus SyncStatusReady, None) })"

definition fetchJob :: "'w ext \<Rightarrow> ('c \<Rightarrow> InitJob) \<Rightarrow> (InitJob \<Rightarrow> 'c \<Rightarrow> 'c) \<Rightarrow> (('w, 's, 'p, 'c) release_mem, error) state" where
  "fetchJob E get put = onComponent get put (InitJob_Fetch E)"

definition fetchSecret :: "'w ext \<Rightarrow> (('w, 's, 'p, ('z) Spyt_scheme) release_mem, error) state" where
  "fetchSecret E = onComponent rl_secret set_secret (StringSecret_Fetch E)"

definition Chyt_Fetch :: "'w ext \<Rightarrow> (('w, ChytSpec, ChytReleaseStatus, Chyt) release_mem, error) state" where
  "Chyt_Fetch E = resources_Fetch [Some (fetchJob E rl_initUser set_user), Some (fetchJob E rl_initEnvironment set_environment),
     Some (fetchJob E rl_initChPublicJob set_public), Some (fetchSecret E)]"

subsection \<open>components: spyt.go\<close>

definition NewSpyt :: "'w ext \<Rightarrow> Generator \<Rightarrow> SpytResource \<Rightarrow> YtsaurusResource \<Rightarrow> Spyt" where
  "NewSpyt E g r y =
     (let l = releaseLabeller r ''ytsaurus-spyt-'' ''SPYT-'' y
      in \<lparr>rl_cfgen = g, rl_secret = NewStringSecret (GetSecretName l) l,
          rl_initUser = nativeJob E g y l ''user'' (cs_CoreImage (ys_Common (yr_Spec y))),
          rl_initEnvironment = nativeJob E g y l ''spyt-environment'' (rsp_Image (rel_Spec r))\<rparr>)"

definition Spyt_createInitScript :: string where
  "Spyt_createInitScript = lines_join [''/entrypoint.sh'']"

definition Spyt_doSync :: "'w ext \<Rightarrow> bool \<Rightarrow> (('w, SpytSpec, SpytReleaseStatus, Spyt) release_mem, ComponentStatus \<times> error) state" where
  "Spyt_doSync E dry = firstStatus
     [clusterRunning (\<lambda>y. om_Name (yr_Meta y)),
      do {
        r \<leftarrow> gets h_release;
        if rst_ReleaseStatus (rel_Status r) = SpytReleaseStatusFinished then returnStatus (SimpleStatus SyncStatusReady) None else ret None
      },
      releaseSecret E SpytReleaseStatusCreatingUserSecret dry,
      releaseJob E rl_initUser set_user (\<lambda>c. SetInitScript E (initUserScript E ''spyt_releaser'' c)) notReady
        SpytReleaseStatusCreatingUser dry,
      releaseJob E rl_initEnvironment set_environment
        (\<lambda>c. prepareWithEnv E Spyt_createInitScript (proxyEnv c @
          [\<lparr>ev_Name = ''EXTRA_PUBLISH_CLUSTER_OPTIONS'', ev_Value = ''--ignore-existing'', ev_FieldPath = None\<rparr>])) notReady
        SpytReleaseStatusUploadingIntoCypress dry]
     (do { setReleaseStatus SpytReleaseStatusFinished; ret (SimpleStatus SyncStatusReady, None) })"

definition Spyt_Fetch :: "'w ext \<Rightarrow> (('w, SpytSpec, SpytReleaseStatus, Spyt) release_mem, error) state" where
  "Spyt_Fetch E = resources_Fetch [Some (fetchJob E rl_initUser set_user), Some (fetchJob E rl_initEnvironment set_environment),
     Some (fetchSecret E)]"

subsection \<open>controllers: the Sync methods\<close>

text \<open>
  \<open>Sync\<close> of both controllers, with the methods of the component. \<open>Status\<close> is a dry run whose error
  would be a panic; \<open>None\<close> is the panic.
\<close>

definition releaseSync :: "('w, 's, 'p) release_api \<Rightarrow> 'p \<Rightarrow> (('w, 's, 'p, 'c) release_mem, error) state \<Rightarrow>
    (bool \<Rightarrow> (('w, 's, 'p, 'c) release_mem, ComponentStatus \<times> error) state) \<Rightarrow>
    (('w, 's, 'p, 'c) release_mem, (Result \<times> error) option) state" where
  "releaseSync A finished fetch doSync = do {
     err \<leftarrow> fetch;
     if err \<noteq> None then ret (Some (requeue, err))
     else do {
       r \<leftarrow> gets h_release;
       if rst_ReleaseStatus (rel_Status r) = finished then ret (Some (zero_result, None))
       else do {
         (status, err) \<leftarrow> doSync True;
         if err \<noteq> None then ret None
         else if cst_SyncStatus status = SyncStatusBlocked then ret (Some (requeueAfter 10, None))
         else if cst_SyncStatus status = SyncStatusReady then do {
           err \<leftarrow> SaveReleaseStatus A finished;
           ret (Some (requeue, err))
         }
         else do {
           err \<leftarrow> syncOf doSync;
           if err \<noteq> None then ret (Some (requeue, err))
           else do {
             err \<leftarrow> Release_UpdateStatus A;
             ret (Some (requeue, err))
           }
         }
       }
     }
   }"

definition ChytReconciler_Sync :: "('w, ChytSpec, ChytReleaseStatus) release_api \<Rightarrow> 'w ext \<Rightarrow>
    (('w, ChytSpec, ChytReleaseStatus, Chyt) release_mem, (Result \<times> error) option) state" where
  "ChytReconciler_Sync A E = releaseSync A ChytReleaseStatusFinished (Chyt_Fetch E) (Chyt_doSync E)"

definition SpytReconciler_Sync :: "('w, SpytSpec, SpytReleaseStatus) release_api \<Rightarrow> 'w ext \<Rightarrow>
    (('w, SpytSpec, SpytReleaseStatus, Spyt) release_mem, (Result \<times> error) option) state" where
  "SpytReconciler_Sync A E = releaseSync A SpytReleaseStatusFinished (Spyt_Fetch E) (Spyt_doSync E)"

subsection \<open>controllers: the Reconcile methods\<close>

text \<open>A resource that names no cluster makes the controller dereference nil: the panic is \<open>None\<close>.\<close>

definition releaseReconcile :: "('w, ('z) SpytSpec_scheme, 'p) release_api \<Rightarrow>
    (('z SpytSpec_scheme, 'p) releaseResource \<Rightarrow> YtsaurusResource \<Rightarrow> 'w \<Rightarrow> (Result \<times> error) option \<times> 'w) \<Rightarrow>
    'w \<Rightarrow> (Result \<times> error) option \<times> 'w" where
  "releaseReconcile A sync w = (case ra_get A w of
       NotFound \<Rightarrow> (Some (zero_result, None), w)
     | GetError e \<Rightarrow> (Some (zero_result, Some e), w)
     | Found r \<Rightarrow>
         (case rsp_Ytsaurus (rel_Spec r) of
            None \<Rightarrow> (None, w)
          | Some name \<Rightarrow>
              (case ra_get_ytsaurus A name w of
                 Found y \<Rightarrow> sync r y w
               | NotFound \<Rightarrow> (Some (requeueAfter 10, Some (name @ '' not found'')), w)
               | GetError e \<Rightarrow> (Some (requeueAfter 10, Some e), w))))"

definition release_start :: "('s, 'p) releaseResource \<Rightarrow> 'c \<Rightarrow> YtsaurusResource \<Rightarrow> 'w \<Rightarrow> ('w, 's, 'p, 'c) release_mem" where
  "release_start r c y w = \<lparr>h_yts = y, h_world = w, h_events = [], h_release = r, h_component = c\<rparr>"

definition ChytReconciler_Reconcile :: "('w, ChytSpec, ChytReleaseStatus) release_api \<Rightarrow> 'w ext \<Rightarrow> 'w \<Rightarrow> (Result \<times> error) option \<times> 'w" where
  "ChytReconciler_Reconcile A E = releaseReconcile A (\<lambda>r y w.
     (let (res, h) = run_state (ChytReconciler_Sync A E)
        (release_start r (NewChyt E (NewGenerator y (getClusterDomain E)) r y) y w) in (res, h_world h)))"

definition SpytReconciler_Reconcile :: "('w, SpytSpec, SpytReleaseStatus) release_api \<Rightarrow> 'w ext \<Rightarrow> 'w \<Rightarrow> (Result \<times> error) option \<times> 'w" where
  "SpytReconciler_Reconcile A E = releaseReconcile A (\<lambda>r y w.
     (let (res, h) = run_state (SpytReconciler_Sync A E)
        (release_start r (NewSpyt E (NewGenerator y (getClusterDomain E)) r y) y w) in (res, h_world h)))"

subsection \<open>What a run leaves alone\<close>

text \<open>
  Documented behaviour of the client: writing another object leaves the resource alone, a successful
  status update stores the status, a failed one stores nothing.
\<close>

definition release_ok :: "('w, 's, 'p) release_api \<Rightarrow> 'w ext \<Rightarrow> bool" where
  "release_ok A E \<longleftrightarrow>
     (\<forall>obj w. ra_get A (snd (k_create (x_k8s E) obj w)) = ra_get A w) \<and>
     (\<forall>obj w. ra_get A (snd (k_update (x_k8s E) obj w)) = ra_get A w) \<and>
     (\<forall>r y w. ra_get A w = Found r \<longrightarrow> ra_get A (snd (ra_status_update A y w)) =
        Found (if fst (ra_status_update A y w) = None then r\<lparr>rel_Status := rel_Status y\<rparr> else r))"

abbreviation h_conditions :: "('w, 's, 'p, 'c) release_mem \<Rightarrow> Condition list" where
  "h_conditions h \<equiv> rst_Conditions (rel_Status (h_release h))"

abbreviation h_stage :: "('w, 's, 'p, 'c) release_mem \<Rightarrow> 'p" where
  "h_stage h \<equiv> rst_ReleaseStatus (rel_Status (h_release h))"

definition release_inv :: "'w ext \<Rightarrow> ('w, 's, 'p, 'c) release_mem \<Rightarrow> bool" where
  "release_inv E h \<longleftrightarrow> meta_ok (x_meta E) \<and> wf_conditions (h_conditions h)"

abbreviation release_stored :: "('w, 's, 'p, 'c) release_mem \<Rightarrow> string \<Rightarrow> ConditionStatus option" where
  "release_stored h t \<equiv> status_of (h_conditions h) t"

lemma h_map_release [simp]:
  "h_yts (map_release f h) = h_yts h" "h_world (map_release f h) = h_world h" "h_component (map_release f h) = h_component h"
  "h_release (map_release f h) = (h_release h)\<lparr>rel_Status := f (rel_Status (h_release h))\<rparr>"
  by (simp_all add: map_release_def)

text \<open>The conditions of a release are a condition store of their own; they are not sorted.\<close>

interpretation rls: condition_store "release_inv E" "\<lambda>c h. snd (run_state (Release_SetStatusCondition E c) h)" release_stored for E
  by unfold_locales (auto simp: release_inv_def Release_SetStatusCondition_def meta_ok_def)

lemma Release_IsStatusConditionTrue_stored:
  "release_inv E h \<Longrightarrow> Release_IsStatusConditionTrue E t h \<longleftrightarrow> release_stored h t = Some ConditionTrue"
  by (simp add: release_inv_def Release_IsStatusConditionTrue_def meta_ok_def)

text \<open>
  The relation between the memories before and after a step: the cluster and the specification are only
  read, the stored resource is written by status updates only, completions are never withdrawn, and
  the jobs keep the names of their conditions (\<open>N\<close> lists them).
\<close>

definition release_rel :: "('w, 's, 'p) release_api \<Rightarrow> 'w ext \<Rightarrow> ('c \<Rightarrow> string list) \<Rightarrow>
    ('w, 's, 'p, 'c) release_mem \<Rightarrow> ('w, 's, 'p, 'c) release_mem \<Rightarrow> bool" where
  "release_rel A E N h h' \<longleftrightarrow> (release_ok A E \<and> release_inv E h \<longrightarrow>
     release_inv E h' \<and> h_yts h' = h_yts h \<and> rel_Meta (h_release h') = rel_Meta (h_release h) \<and>
     rel_Spec (h_release h') = rel_Spec (h_release h) \<and> ra_get A (h_world h') = ra_get A (h_world h) \<and>
     N (h_component h') = N (h_component h) \<and>
     (\<forall>t. release_stored h t = Some ConditionTrue \<longrightarrow> release_stored h' t = Some ConditionTrue))"

interpretation rr: io_relation "release_rel A E N" for A E N
  by unfold_locales (auto simp: release_rel_def)

lemmas rr_rules [io_intros] = rr.rel_intros

lemma rr_no_events: "keeps no_events m \<Longrightarrow> state_io_rel (release_rel A E N) m"
proof (rule state_io_relI)
  fix a and h h' :: "('a, 'b, 'c, 'd) release_mem"
  assume "keeps no_events m" and "run_state m h = (a, h')"
  then have "no_events h' = no_events h" by (rule keepsD)
  then show "release_rel A E N h h'"
    by (cases h, cases h') (simp add: no_events_def release_rel_def release_inv_def)
qed

lemma rr_write [io_intros]:
  "state_io_rel (release_rel A E N) (ext_write (k_create (x_k8s E) obj))"
  "state_io_rel (release_rel A E N) (ext_write (k_update (x_k8s E) obj))"
  by (auto simp: state_io_rel_def run_ext_write release_rel_def release_inv_def release_ok_def)

lemma rr_steps [io_intros]:
  "state_io_rel (release_rel A E N) (RecordNormal r m)" "state_io_rel (release_rel A E N) (RecordWarning r m)"
  "state_io_rel (release_rel A E N) (ConfigHelper_Build E ch)" "state_io_rel (release_rel A E N) (NeedReload E ch)"
  "state_io_rel (release_rel A E N) (FetchObject g n obj)" "state_io_rel (release_rel A E N) (RandString E k)"
  unfolding RandString_def by (intro rr_no_events io_intros)+

lemma rr_SyncObject [io_intros]: "state_io_rel (release_rel A E N) (SyncObject E wrap old new)"
  unfolding SyncObject_def updateObject_def createAndReferenceObject_def by (intro io_intros)

lemma rr_Sync [io_intros]:
  "state_io_rel (release_rel A E N) (res_Sync E wrap x)" "state_io_rel (release_rel A E N) (ConfigHelper_Sync E ch)"
  unfolding res_Sync_def ConfigHelper_Sync_def Let_def by (intro io_intros)+

lemma rr_setReleaseStatus [io_intros]: "state_io_rel (release_rel A E N) (setReleaseStatus p)"
  by (simp add: setReleaseStatus_def state_io_rel_def release_rel_def release_inv_def)

lemma rr_complete [io_intros]:
  assumes "cond_Status c = ConditionTrue"
  shows "state_io_rel (release_rel A E N) (Release_SetStatusCondition E c)"
proof (rule state_io_relI)
  fix a and h h' :: "('a, 'b, 'c, 'd) release_mem"
  assume run: "run_state (Release_SetStatusCondition E c) h = (a, h')"
  then have h': "h' = snd (run_state (Release_SetStatusCondition E c) h)" by simp
  show "release_rel A E N h h'"
    using rls.inv_set [of E h c] rls.stored_set [of E h c] assms unfolding h'
    by (auto simp: release_rel_def Release_SetStatusCondition_def)
qed

lemma rr_first_error [io_intros]:
  "(\<And>m. Some m \<in> set ms \<Longrightarrow> state_io_rel (release_rel A E N) m) \<Longrightarrow> state_io_rel (release_rel A E N) (first_error ms)"
  by (rule io_first_error) (auto intro!: reflpI transpI intro: rr.R_refl rr.R_trans)

lemma rr_InitJob_SyncWith [io_intros]: "state_io_rel (release_rel A E N) (InitJob_SyncWith (releaseConditions E) E dry j)"
  unfolding InitJob_SyncWith_def releaseConditions_def Let_def ConditionManager.simps resources_Sync_def
  by (intro io_intros) (auto intro!: io_intros simp: mkCondition_def)

text \<open>A method of a part of the component, which keeps the part's name.\<close>

lemma rr_onComponent:
  assumes "\<And>x. state_io_rel (release_rel A E N) (f x)" and "\<And>x h. key (snd (fst (run_state (f x) h))) = key x"
    and "\<And>c. key (get c) = k (N c)" and "\<And>x c. key x = k (N c) \<Longrightarrow> N (put x c) = N c"
    and ok: "release_ok A E" "release_inv E h" and run: "run_state (onComponent get put f) h = (a, h')"
  shows "release_rel A E N h h'"
proof -
  obtain r x' h1 where f: "run_state (f (get (h_component h))) h = ((r, x'), h1)" by (metis prod.exhaust)
  have R: "release_rel A E N h h1" using assms(1) f by (rule state_io_relD)
  have "key x' = k (N (h_component h))" using assms(2) [of "get (h_component h)" h] f assms(3) by simp
  then have "key x' = k (N (h_component h1))" using R ok by (simp add: release_rel_def)
  moreover have "h' = h1\<lparr>h_component := put x' (h_component h1)\<rparr>"
    using run f by (simp add: onComponent_def on_obj_def)
  ultimately show ?thesis using R assms(4) [of x' "h_component h1"]
    by (simp add: release_rel_def release_inv_def)
qed

subsection \<open>The blocks\<close>

definition is_part :: "('c \<Rightarrow> string list) \<Rightarrow> ('c \<Rightarrow> InitJob) \<Rightarrow> (InitJob \<Rightarrow> 'c \<Rightarrow> 'c) \<Rightarrow> (string list \<Rightarrow> string) \<Rightarrow> bool" where
  "is_part N get put k \<longleftrightarrow> (\<forall>c. ij_initCompletedCondition (get c) = k (N c)) \<and>
     (\<forall>x c. ij_initCompletedCondition x = k (N c) \<longrightarrow> N (put x c) = N c)"

lemma InitJob_names [simp]:
  "ij_initCompletedCondition (InitJob_Build j) = ij_initCompletedCondition j"
  "ij_initCompletedCondition (onJobContainer0 f j) = ij_initCompletedCondition j"
  "ij_initCompletedCondition (snd (fst (run_state (InitJob_SyncWith m E dry j) h))) = ij_initCompletedCondition j"
  "ij_initCompletedCondition (fst (run_state (SetInitScript E s j) h)) = ij_initCompletedCondition j"
  by (simp_all add: InitJob_Build_def onJobContainer0_def InitJob_SyncWith_def SetInitScript_def Let_def case_prod_unfold)

lemma InitJob_SyncWith_ready:
  assumes "run_state (InitJob_SyncWith m E dry j) h = (((st, err), j'), h')" and "cst_SyncStatus st = SyncStatusReady"
  shows "err = None \<and> h' = h \<and> cmg_IsStatusConditionTrue m (ij_initCompletedCondition j) h"
proof -
  have c: "cmg_IsStatusConditionTrue m (ij_initCompletedCondition j) h"
    using InitJob_SyncWith_status [of m E dry j h] assms by (auto split: if_splits)
  with assms(1) show ?thesis by (simp add: InitJob_SyncWith_def)
qed

text \<open>
  What a block of a \<open>doSync\<close> method does: it either stops with a status that is not ready, in the stage
  \<open>p\<close> or where it started, or goes on in the same stage, having checked \<open>P\<close>.
\<close>

definition checks :: "('w, 's, 'p) release_api \<Rightarrow> 'w ext \<Rightarrow> ('c \<Rightarrow> string list) \<Rightarrow> 'p option \<Rightarrow>
    (('w, 's, 'p, 'c) release_mem \<Rightarrow> bool) \<Rightarrow> ('w, 's, 'p, 'c) release_mem block \<Rightarrow> bool" where
  "checks A E N p P b \<longleftrightarrow> (\<forall>h x h'. release_ok A E \<and> release_inv E h \<and> run_state b h = (x, h') \<longrightarrow>
     release_rel A E N h h' \<and> (x = None \<longrightarrow> h_stage h' = h_stage h \<and> P h') \<and>
     (\<forall>st err. x = Some (st, err) \<longrightarrow> cst_SyncStatus st \<noteq> SyncStatusReady \<and>
        h_stage h' = (case p of Some q \<Rightarrow> q | None \<Rightarrow> h_stage h)))"

lemma checks_clusterRunning:
  "checks A E N None (\<lambda>h. st_State (yr_Status (h_yts h)) = ClusterStateRunning) (clusterRunning event)"
  by (auto simp: checks_def clusterRunning_def returnStatus_def WaitingStatus_def rr.R_refl split: if_splits)

lemma run_setReleaseStatus [simp]:
  "run_state (setReleaseStatus p) h = ((), map_release (\<lambda>s. s\<lparr>rst_ReleaseStatus := p\<rparr>) h)"
  by (simp add: setReleaseStatus_def)

lemma rr_stage:
  assumes "release_rel A E N h h1"
  shows "release_rel A E N h (map_release (\<lambda>s. s\<lparr>rst_ReleaseStatus := p\<rparr>) h1)"
  using assms by (simp add: release_rel_def release_inv_def)

lemma more_release: "mem.more g = mem.more h \<Longrightarrow> h_release g = h_release h" for g h :: "('w, 's, 'p, 'c) release_mem"
  by (cases g, cases h) simp

lemma checks_releaseSecret:
  fixes A :: "('w, 's, 'p) release_api" and N :: "('z) Spyt_scheme \<Rightarrow> string list"
  assumes N: "\<And>x c. N (set_secret x c) = N c"
  shows "checks A E N (Some p) (\<lambda>h. True) (releaseSecret E p dry)"
  unfolding checks_def
proof (intro allI impI, elim conjE)
  fix x and h h' :: "('w, 's, 'p, ('z) Spyt_scheme) release_mem"
  assume ok: "release_ok A E" "release_inv E h" and run: "run_state (releaseSecret E p dry) h = (x, h')"
  let ?sync = "\<lambda>token. onComponent rl_secret set_secret (\<lambda>s. do {
     let s' = setSecretData [TokenSecretKey \<mapsto> token] (StringSecret_Build s); err \<leftarrow> StringSecret_Sync E s'; ret (err, s') })"
  have rel: "release_rel A E N g g'" if "release_inv E g" "run_state (?sync token) g = (e, g')" for g g' :: "('w, 's, 'p, ('z) Spyt_scheme) release_mem" and e token
    by (rule rr_onComponent [where key = "\<lambda>_. ()" and k = "\<lambda>_. ()", OF _ _ _ _ ok(1) that]) (auto simp: N Let_def intro!: io_intros)
  show "release_rel A E N h h' \<and> (x = None \<longrightarrow> h_stage h' = h_stage h \<and> True) \<and>
     (\<forall>st err. x = Some (st, err) \<longrightarrow> cst_SyncStatus st \<noteq> SyncStatusReady \<and>
        h_stage h' = (case Some p of Some q \<Rightarrow> q | None \<Rightarrow> h_stage h))"
  proof (cases "StringSecret_NeedSync (rl_secret (h_component h)) TokenSecretKey [] \<and> \<not> dry")
    case True
    let ?t = "base64_raw_url (x_rand E 30 (h_world h))"
    obtain e h1 where s: "run_state (?sync ?t) h = (e, h1)" by fastforce
    with run True have "h' = map_release (\<lambda>s. s\<lparr>rst_ReleaseStatus := p\<rparr>) h1"
      "x = Some (WaitingStatus SyncStatusPending (r_name (rl_secret (h_component h))), e)"
      by (auto simp: releaseSecret_def RandString_def returnStatus_def)
    with rel [OF ok(2) s] show ?thesis by (simp add: rr_stage WaitingStatus_def)
  qed (use run in \<open>auto simp: releaseSecret_def returnStatus_def WaitingStatus_def rr_stage rr.R_refl split: if_splits\<close>)
qed

lemma checks_releaseJob:
  fixes A :: "('w, 's, 'p) release_api" and N :: "'c \<Rightarrow> string list"
  assumes part: "is_part N get put k" and prep: "\<And>c j. keeps no_events (prepare c j)"
      "\<And>c j h. ij_initCompletedCondition (fst (run_state (prepare c j) h)) = ij_initCompletedCondition j"
    and stops: "\<And>s err. s \<noteq> SyncStatusReady \<Longrightarrow> stops s err" "\<not> stops SyncStatusReady None"
  shows "checks A E N (Some p) (\<lambda>h. release_stored h (k (N (h_component h))) = Some ConditionTrue) (releaseJob E get put prepare stops p dry)"
  unfolding checks_def
proof (intro allI impI, elim conjE)
  fix x and h h' :: "('w, 's, 'p, 'c) release_mem"
  assume ok: "release_ok A E" "release_inv E h" and run: "run_state (releaseJob E get put prepare stops p dry) h = (x, h')"
  let ?prep = "\<lambda>c. onComponent get put (\<lambda>j. do { j' \<leftarrow> prepare c j; ret ((), j') })"
  let ?sync = "onComponent get put (InitJob_SyncWith (releaseConditions E) E dry)"
  have laws: "ij_initCompletedCondition (get c) = k (N c)" "ij_initCompletedCondition j = k (N c) \<Longrightarrow> N (put j c) = N c" for c j
    using part by (auto simp: is_part_def)
  define h1 where "h1 = snd (run_state (whenM (\<not> dry) (?prep (h_component h))) h)"
  then have h1: "run_state (whenM (\<not> dry) (?prep (h_component h))) h = ((), h1)" by (simp add: prod_eq_iff)
  have r1: "release_rel A E N h h1 \<and> h_stage h1 = h_stage h"
  proof (cases dry)
    case False
    obtain j' g where p: "run_state (prepare (h_component h) (get (h_component h))) h = (j', g)" by fastforce
    with h1 False have "h1 = g\<lparr>h_component := put j' (h_component g)\<rparr>" by (simp add: onComponent_def on_obj_def)
    moreover have "h_release g = h_release h" using keepsD [OF prep(1) p] by (rule more_release [OF no_events_same(3)])
    ultimately have "h_stage h1 = h_stage h" by simp
    moreover have "release_rel A E N h h1"
      by (rule rr_onComponent [where key = ij_initCompletedCondition and k = k and a = "()", OF _ _ _ _ ok])
        (use h1 False laws prep in \<open>auto intro!: io_intros rr_no_events simp: case_prod_unfold\<close>)
    ultimately show ?thesis by simp
  qed (use h1 in \<open>simp add: rr.R_refl\<close>)
  then have inv1: "release_inv E h1" using ok by (simp add: release_rel_def)
  obtain r h2 where "run_state ?sync h1 = (r, h2)" by fastforce
  then obtain st err where h2: "run_state ?sync h1 = ((st, err), h2)" by (cases r) simp
  have r2: "release_rel A E N h1 h2"
    by (rule rr_onComponent [where key = ij_initCompletedCondition and k = k, OF _ _ _ _ ok(1) inv1 h2])
      (auto simp: laws intro!: io_intros)
  then have r: "release_rel A E N h h2" using r1 rr.R_trans by blast
  obtain r' j' g where "run_state (InitJob_SyncWith (releaseConditions E) E dry (get (h_component h1))) h1 = ((r', j'), g)"
    by (metis prod.exhaust)
  with h2 have s: "run_state (InitJob_SyncWith (releaseConditions E) E dry (get (h_component h1))) h1 = (((st, err), j'), g)"
      and g: "h2 = g\<lparr>h_component := put j' (h_component g)\<rparr>"
    by (auto simp: onComponent_def on_obj_def)
  have x: "(x, h') = (if stops (cst_SyncStatus st) err then (Some (st, err), map_release (\<lambda>s. s\<lparr>rst_ReleaseStatus := p\<rparr>) h2) else (None, h2))"
    using run h1 h2 by (cases dry) (auto simp: releaseJob_def returnStatus_def)
  show "release_rel A E N h h' \<and> (x = None \<longrightarrow> h_stage h' = h_stage h \<and> release_stored h' (k (N (h_component h'))) = Some ConditionTrue) \<and>
     (\<forall>st err. x = Some (st, err) \<longrightarrow> cst_SyncStatus st \<noteq> SyncStatusReady \<and>
        h_stage h' = (case Some p of Some q \<Rightarrow> q | None \<Rightarrow> h_stage h))"
  proof (cases "cst_SyncStatus st = SyncStatusReady")
    case True
    from InitJob_SyncWith_ready [OF s True] have *: "err = None" "g = h1"
      "Release_IsStatusConditionTrue E (k (N (h_component h1))) h1"
      by (auto simp: releaseConditions_def laws)
    then have "release_stored h1 (k (N (h_component h1))) = Some ConditionTrue"
      using Release_IsStatusConditionTrue_stored [OF inv1] by simp
    moreover have "N (h_component h2) = N (h_component h1)" using r2 ok(1) inv1 by (simp add: release_rel_def)
    ultimately show ?thesis using x True stops(2) * r r1 g by simp
  next
    case False
    with x stops(1) show ?thesis by (simp add: rr_stage r)
  qed
qed

subsection \<open>A release is finished only when its jobs are\<close>

text \<open>
  A \<open>doSync\<close> method of checking blocks: from an unfinished stage, a ready status or a finished stage at the
  end means that every block has checked its part.
\<close>

definition finishes :: "('w, 's, 'p) release_api \<Rightarrow> 'w ext \<Rightarrow> ('c \<Rightarrow> string list) \<Rightarrow> 'p \<Rightarrow>
    (('w, 's, 'p, 'c) release_mem \<Rightarrow> bool) \<Rightarrow> (('w, 's, 'p, 'c) release_mem, ComponentStatus \<times> error) state \<Rightarrow> bool" where
  "finishes A E N fin P m \<longleftrightarrow> (\<forall>h st err h'. release_ok A E \<and> release_inv E h \<and> run_state m h = ((st, err), h') \<longrightarrow>
     release_rel A E N h h' \<and> (h_stage h \<noteq> fin \<and> (cst_SyncStatus st = SyncStatusReady \<or> h_stage h' = fin) \<longrightarrow> P h'))"

text \<open>What stays true once it was checked.\<close>

definition lasting :: "('w, 's, 'p) release_api \<Rightarrow> 'w ext \<Rightarrow> ('c \<Rightarrow> string list) \<Rightarrow> (('w, 's, 'p, 'c) release_mem \<Rightarrow> bool) \<Rightarrow> bool" where
  "lasting A E N P \<longleftrightarrow> (\<forall>h h'. release_ok A E \<and> release_inv E h \<and> release_rel A E N h h' \<and> P h \<longrightarrow> P h')"

lemma finishes_final: "finishes A E N fin (\<lambda>h. True) (do { setReleaseStatus fin; ret s })"
  by (auto simp: finishes_def rr_stage rr.R_refl)

lemma finishes_block:
  assumes b: "checks A E N p P b" and p: "p \<noteq> Some fin" and P: "lasting A E N P" and bs: "finishes A E N fin Q (firstStatus bs final)"
  shows "finishes A E N fin (\<lambda>h. P h \<and> Q h) (firstStatus (b # bs) final)"
  unfolding finishes_def
proof (intro allI impI, elim conjE)
  fix h st err h'
  assume ok: "release_ok A E" "release_inv E h" and run: "run_state (firstStatus (b # bs) final) h = ((st, err), h')"
  obtain x h1 where x: "run_state b h = (x, h1)" by fastforce
  have c: "release_rel A E N h h1" "x = None \<Longrightarrow> h_stage h1 = h_stage h \<and> P h1"
    "x = Some (st', err') \<Longrightarrow> cst_SyncStatus st' \<noteq> SyncStatusReady \<and> h_stage h1 = (case p of Some q \<Rightarrow> q | None \<Rightarrow> h_stage h)" for st' err'
    using b ok x unfolding checks_def by blast+
  show "release_rel A E N h h' \<and> (h_stage h \<noteq> fin \<and> (cst_SyncStatus st = SyncStatusReady \<or> h_stage h' = fin) \<longrightarrow> P h' \<and> Q h')"
  proof (cases x)
    case None
    then have rest: "run_state (firstStatus bs final) h1 = ((st, err), h')" using run x by simp
    have inv: "release_inv E h1" using c(1) ok by (simp add: release_rel_def)
    have "release_rel A E N h1 h' \<and> (h_stage h \<noteq> fin \<and> (cst_SyncStatus st = SyncStatusReady \<or> h_stage h' = fin) \<longrightarrow> Q h')"
      using bs [unfolded finishes_def, rule_format, of h1 st err h'] ok(1) inv c(2) [OF None] rest by simp
    then show ?thesis using c None P ok(1) inv rr.R_trans unfolding lasting_def by blast
  next
    case (Some y)
    then have "y = (st, err)" "h' = h1" using run x by auto
    with c Some p show ?thesis by (auto split: option.splits)
  qed
qed

text \<open>The names of the completion conditions of a component's jobs.\<close>

definition spyt_names :: "('z) Spyt_scheme \<Rightarrow> string list" where
  "spyt_names c = [ij_initCompletedCondition (rl_initUser c), ij_initCompletedCondition (rl_initEnvironment c)]"

definition chyt_names :: "Chyt \<Rightarrow> string list" where
  "chyt_names c = spyt_names c @ [ij_initCompletedCondition (rl_initChPublicJob c)]"

lemma spyt_parts: "is_part spyt_names rl_initUser set_user (\<lambda>n. n ! 0)" "is_part spyt_names rl_initEnvironment set_environment (\<lambda>n. n ! 1)"
  by (simp_all add: is_part_def spyt_names_def set_user_def set_environment_def)

lemma chyt_parts: "is_part chyt_names rl_initUser set_user (\<lambda>n. n ! 0)" "is_part chyt_names rl_initEnvironment set_environment (\<lambda>n. n ! 1)"
    "is_part chyt_names rl_initChPublicJob set_public (\<lambda>n. n ! 2)"
  by (simp_all add: is_part_def chyt_names_def spyt_names_def set_user_def set_environment_def set_public_def)

lemma set_secret_names [simp]: "spyt_names (set_secret x c) = spyt_names c" "chyt_names (set_secret x d) = chyt_names d"
  by (simp_all add: spyt_names_def chyt_names_def set_secret_def)

lemma prepare_quiet:
  "keeps no_events (SetInitScript E script j)" "keeps no_events (prepareWithEnv E script env j)" "keeps no_events (prepareChPublicJob E c j)"
  unfolding SetInitScript_def prepareWithEnv_def prepareChPublicJob_def by (intro io_intros)+

lemma prepare_names:
  "ij_initCompletedCondition (fst (run_state (prepareWithEnv E script env j) h)) = ij_initCompletedCondition j"
  "ij_initCompletedCondition (fst (run_state (prepareChPublicJob E c j) h)) = ij_initCompletedCondition j"
  by (simp_all add: prepareWithEnv_def prepareChPublicJob_def case_prod_unfold)

lemma checks_gets: "(\<And>r. checks A E N p P (b r)) \<Longrightarrow> checks A E N p P (do { r \<leftarrow> gets f; b r })"
  unfolding checks_def by (simp add: State_Monad.bind_def gets_def) blast

lemma stop_tests [simp]:
  "s \<noteq> SyncStatusReady \<Longrightarrow> notReady s err" "\<not> notReady SyncStatusReady None"
  "s \<noteq> SyncStatusReady \<Longrightarrow> failedOrNotReady s err" "\<not> failedOrNotReady SyncStatusReady None"
  by (simp_all add: notReady_def failedOrNotReady_def)

lemma checks_user:
  "is_part N get put k \<Longrightarrow> checks A E N (Some p) (\<lambda>h. release_stored h (k (N (h_component h))) = Some ConditionTrue)
     (releaseJob E get put (\<lambda>c. SetInitScript E (s c)) notReady p dry)"
  by (rule checks_releaseJob) (simp_all add: prepare_quiet)

lemma checks_environment:
  "is_part N get put k \<Longrightarrow> stops \<in> {notReady, failedOrNotReady} \<Longrightarrow>
   checks A E N (Some p) (\<lambda>h. release_stored h (k (N (h_component h))) = Some ConditionTrue)
     (releaseJob E get put (\<lambda>c. prepareWithEnv E (s c) (env c)) stops p dry)"
  by (rule checks_releaseJob) (auto simp: prepare_quiet prepare_names)

definition chyt_done :: "('w, ChytSpec, ChytReleaseStatus, Chyt) release_mem \<Rightarrow> bool" where
  "chyt_done h \<longleftrightarrow> st_State (yr_Status (h_yts h)) = ClusterStateRunning \<and>
     release_stored h (chyt_names (h_component h) ! 0) = Some ConditionTrue \<and>
     release_stored h (chyt_names (h_component h) ! 1) = Some ConditionTrue \<and>
     (chPublicWanted (h_yts h) (h_release h) \<longrightarrow> release_stored h (chyt_names (h_component h) ! 2) = Some ConditionTrue)"

lemma checks_public:
  "checks A E chyt_names (Some ChytReleaseStatusCreatingChPublicClique)
     (\<lambda>h. chPublicWanted (h_yts h) (h_release h) \<longrightarrow> release_stored h (chyt_names (h_component h) ! 2) = Some ConditionTrue)
     (do {
        h \<leftarrow> State_Monad.get;
        if chPublicWanted (h_yts h) (h_release h)
        then releaseJob E rl_initChPublicJob set_public (prepareChPublicJob E) failedOrNotReady
          ChytReleaseStatusCreatingChPublicClique dry
        else ret None
      })"
proof -
  have "checks A E chyt_names (Some ChytReleaseStatusCreatingChPublicClique)
     (\<lambda>h. release_stored h (chyt_names (h_component h) ! 2) = Some ConditionTrue)
     (releaseJob E rl_initChPublicJob set_public (prepareChPublicJob E) failedOrNotReady ChytReleaseStatusCreatingChPublicClique dry)"
    by (rule checks_releaseJob [OF chyt_parts(3)]) (simp_all add: prepare_quiet prepare_names)
  then show ?thesis by (simp add: checks_def rr.R_refl) blast
qed

lemma finishes_Chyt: "finishes A E chyt_names ChytReleaseStatusFinished chyt_done (Chyt_doSync E dry)"
proof -
  have "finishes A E chyt_names ChytReleaseStatusFinished
     (\<lambda>h. st_State (yr_Status (h_yts h)) = ClusterStateRunning \<and> True \<and>
       release_stored h (chyt_names (h_component h) ! 0) = Some ConditionTrue \<and>
       release_stored h (chyt_names (h_component h) ! 1) = Some ConditionTrue \<and>
       (chPublicWanted (h_yts h) (h_release h) \<longrightarrow> release_stored h (chyt_names (h_component h) ! 2) = Some ConditionTrue) \<and> True)
     (Chyt_doSync E dry)"
    unfolding Chyt_doSync_def
    by (intro finishes_block [OF checks_clusterRunning] finishes_block [OF checks_releaseSecret] finishes_block [OF checks_user [OF chyt_parts(1)]]
        finishes_block [OF checks_gets [OF checks_environment [OF chyt_parts(2)]]] finishes_block [OF checks_public])
      (auto simp: finishes_final lasting_def release_rel_def chPublicWanted_def)
  then show ?thesis by (simp add: chyt_done_def [abs_def])
qed

definition spyt_done :: "('w, SpytSpec, SpytReleaseStatus, Spyt) release_mem \<Rightarrow> bool" where
  "spyt_done h \<longleftrightarrow> st_State (yr_Status (h_yts h)) = ClusterStateRunning \<and>
     release_stored h (spyt_names (h_component h) ! 0) = Some ConditionTrue \<and>
     release_stored h (spyt_names (h_component h) ! 1) = Some ConditionTrue"

lemma finishes_passes:
  assumes "keeps id b" and "\<And>h. h_stage h \<noteq> fin \<Longrightarrow> fst (run_state b h) = None" and "finishes A E N fin P (firstStatus bs final)"
  shows "finishes A E N fin P (firstStatus (b # bs) final)"
  unfolding finishes_def
proof (intro allI impI, elim conjE)
  fix h st err h'
  assume ok: "release_ok A E" "release_inv E h" and run: "run_state (firstStatus (b # bs) final) h = ((st, err), h')"
  define x where "x = fst (run_state b h)"
  then have x: "run_state b h = (x, h)" using assms(1) by (simp add: keeps_def prod_eq_iff)
  then have "h_stage h \<noteq> fin \<Longrightarrow> x = None" using assms(2) [of h] by simp
  with x run assms(3) ok show "release_rel A E N h h' \<and>
      (h_stage h \<noteq> fin \<and> (cst_SyncStatus st = SyncStatusReady \<or> h_stage h' = fin) \<longrightarrow> P h')"
    by (cases x) (auto simp: finishes_def rr.R_refl)
qed

lemma finishes_Spyt: "finishes A E spyt_names SpytReleaseStatusFinished spyt_done (Spyt_doSync E dry)"
proof -
  have "finishes A E spyt_names SpytReleaseStatusFinished
     (\<lambda>h. st_State (yr_Status (h_yts h)) = ClusterStateRunning \<and> True \<and>
       release_stored h (spyt_names (h_component h) ! 0) = Some ConditionTrue \<and>
       release_stored h (spyt_names (h_component h) ! 1) = Some ConditionTrue \<and> True) (Spyt_doSync E dry)"
    unfolding Spyt_doSync_def
    by (intro finishes_block [OF checks_clusterRunning] finishes_passes finishes_block [OF checks_releaseSecret]
        finishes_block [OF checks_user [OF spyt_parts(1)]] finishes_block [OF checks_environment [OF spyt_parts(2)]])
      (auto simp: finishes_final lasting_def release_rel_def keeps_def returnStatus_def)
  then show ?thesis by (simp add: spyt_done_def [abs_def])
qed

text \<open>The controllers store a finished release only of a memory in which everything was checked.\<close>

lemma Release_UpdateStatus_run:
  "run_state (Release_UpdateStatus A) h =
     (fst (ra_status_update A (h_release h) (h_world h)), h\<lparr>h_world := snd (ra_status_update A (h_release h) (h_world h))\<rparr>)"
  by (simp add: Release_UpdateStatus_def split: prod.splits)

lemma stored_finish:
  assumes "release_ok A E" and "ra_get A w = Found r" and "rst_ReleaseStatus (rel_Status r) \<noteq> fin"
    and "ra_get A (snd (ra_status_update A y w)) = Found r'" and "rst_ReleaseStatus (rel_Status r') = fin"
  shows "rel_Status r' = rel_Status y"
  using assms by (auto simp: release_ok_def split: if_splits)

lemma releaseSync_sound:
  assumes "\<And>dry. finishes A E N fin P (doSync dry)" and "lasting A E N P" and "state_io_rel (release_rel A E N) fetch"
    and ok: "release_ok A E" "release_inv E h" and get: "ra_get A (h_world h) = Found r"
    and unfinished: "rst_ReleaseStatus (rel_Status r) \<noteq> fin"
    and run: "run_state (releaseSync A fin fetch doSync) h = (res, h')"
    and stored: "ra_get A (h_world h') = Found r'" "rst_ReleaseStatus (rel_Status r') = fin"
  shows "\<exists>g. release_rel A E N h g \<and> P g \<and> rel_Status r' = rel_Status (h_release g)"
proof -
  obtain e h1 where h1: "run_state fetch h = (e, h1)" by fastforce
  obtain x h2 where "run_state (doSync True) h1 = (x, h2)" by fastforce
  then obtain st err where h2: "run_state (doSync True) h1 = ((st, err), h2)" by (cases x) simp
  obtain y h3 where "run_state (doSync False) h2 = (y, h3)" by fastforce
  then obtain st' err' where h3: "run_state (doSync False) h2 = ((st', err'), h3)" by (cases y) simp
  have r1: "release_rel A E N h h1" using assms(3) h1 by (rule state_io_relD)
  then have i1: "release_inv E h1" using ok by (simp add: release_rel_def)
  then have f2: "release_rel A E N h1 h2" "h_stage h1 \<noteq> fin \<Longrightarrow> cst_SyncStatus st = SyncStatusReady \<or> h_stage h2 = fin \<Longrightarrow> P h2"
    using assms(1) [of True, unfolded finishes_def, rule_format, of h1 st err h2] h2 ok(1) by auto
  then have i2: "release_inv E h2" using i1 ok by (simp add: release_rel_def)
  then have f3: "release_rel A E N h2 h3" "h_stage h2 \<noteq> fin \<Longrightarrow> h_stage h3 = fin \<Longrightarrow> P h3"
    using assms(1) [of False, unfolded finishes_def, rule_format, of h2 st' err' h3] h3 ok(1) by auto
  have same: "ra_get A (h_world h1) = Found r" "ra_get A (h_world h2) = Found r" "ra_get A (h_world h3) = Found r"
    using r1 f2(1) f3(1) get ok i1 i2 by (simp_all add: release_rel_def)
  let ?g = "map_release (\<lambda>s. s\<lparr>rst_ReleaseStatus := fin\<rparr>) h2"
  note lines = run [unfolded releaseSync_def SaveReleaseStatus_def syncOf_def] h1 h2 h3
  from same stored unfinished have "h' \<notin> {h1, h2, h3}" by auto
  then consider "h_stage h1 \<noteq> fin" "cst_SyncStatus st = SyncStatusReady" "h' = snd (run_state (Release_UpdateStatus A) ?g)"
    | "h_stage h1 \<noteq> fin" "h' = snd (run_state (Release_UpdateStatus A) h3)"
    using lines by (auto split: if_splits prod.splits)
  then show ?thesis
  proof cases
    case 1
    then have "rel_Status r' = rel_Status (h_release ?g)"
      using stored_finish [OF ok(1) _ unfinished, of "h_world h2" "h_release ?g" r'] same(2) stored by (simp add: Release_UpdateStatus_run)
    moreover have "release_rel A E N h2 ?g" by (rule rr_stage) (rule rr.R_refl)
    ultimately show ?thesis
      using f2 1 assms(2) ok(1) i2 r1 rr.R_trans unfolding lasting_def by metis
  next
    case 2
    then have "rel_Status r' = rel_Status (h_release h3)"
      using stored_finish [OF ok(1) _ unfinished, of "h_world h3" "h_release h3" r'] same(3) stored by (simp add: Release_UpdateStatus_run)
    moreover have "P h3"
    proof (cases "h_stage h2 = fin")
      case True
      then show ?thesis using f2(2) 2(1) f3(1) assms(2) ok(1) i2 unfolding lasting_def by blast
    next
      case False
      then show ?thesis using f3(2) calculation stored(2) by simp
    qed
    ultimately show ?thesis using r1 f2(1) f3(1) rr.R_trans by metis
  qed
qed

lemma rr_part:
  assumes "is_part N get put k" and "\<And>x. state_io_rel (release_rel A E N) (f x)"
    and "\<And>x h. ij_initCompletedCondition (snd (fst (run_state (f x) h))) = ij_initCompletedCondition x"
  shows "state_io_rel (release_rel A E N) (onComponent get put f)"
proof (rule state_io_relI)
  fix a h h'
  assume run: "run_state (onComponent get put f) h = (a, h')"
  show "release_rel A E N h h'"
  proof (cases "release_ok A E \<and> release_inv E h")
    case True
    then show ?thesis
      using assms by (intro rr_onComponent [where key = ij_initCompletedCondition and k = k, OF assms(2,3) _ _ _ _ run])
        (auto simp: is_part_def)
  qed (auto simp: release_rel_def)
qed

lemma rr_fetchSecret: "(\<And>x c. N (set_secret x c) = N c) \<Longrightarrow> state_io_rel (release_rel A E N) (fetchSecret E)"
  by (auto simp: state_io_rel_def fetchSecret_def onComponent_def on_obj_def res_Fetch_def FetchObject_def release_rel_def release_inv_def
      split: prod.splits)

lemma InitJob_Fetch_name:
  "ij_initCompletedCondition (snd (fst (run_state (InitJob_Fetch E j) h))) = ij_initCompletedCondition j"
  by (simp add: InitJob_Fetch_def case_prod_unfold)

lemma rr_fetchJob: "is_part N get put k \<Longrightarrow> state_io_rel (release_rel A E N) (fetchJob E get put)"
  unfolding fetchJob_def by (rule rr_part) (auto simp: InitJob_Fetch_name intro!: rr_no_events io_intros)

lemma rr_Chyt_Fetch: "state_io_rel (release_rel A E chyt_names) (Chyt_Fetch E)"
  unfolding Chyt_Fetch_def resources_Fetch_def
  by (rule rr_first_error) (auto intro: rr_fetchJob chyt_parts rr_fetchSecret)

lemma rr_Spyt_Fetch: "state_io_rel (release_rel A E spyt_names) (Spyt_Fetch E)"
  unfolding Spyt_Fetch_def resources_Fetch_def
  by (rule rr_first_error) (auto intro: rr_fetchJob spyt_parts rr_fetchSecret)

lemma release_names:
  "chyt_names (NewChyt E g r y) = map (\<lambda>job. job @ ''CHYT-'' @ om_Name (rel_Meta r) @ ''InitJobCompleted'') [''user'', ''release'', ''ch-public'']"
  "spyt_names (NewSpyt E g r' y) = map (\<lambda>job. job @ ''SPYT-'' @ om_Name (rel_Meta r') @ ''InitJobCompleted'') [''user'', ''spyt-environment'']"
  by (simp_all add: chyt_names_def spyt_names_def NewChyt_def NewSpyt_def nativeJob_def NewInitJob_def releaseLabeller_def Let_def)

lemma lasting_done: "lasting A E chyt_names chyt_done" "lasting B E spyt_names spyt_done"
  by (auto simp: lasting_def release_rel_def chyt_done_def spyt_done_def chPublicWanted_def)

lemma releaseReconcile_found:
  assumes "ra_get A w = Found r" and "rst_ReleaseStatus (rel_Status r) \<noteq> fin"
    and "ra_get A (snd (releaseReconcile A sync w)) = Found r'" and "rst_ReleaseStatus (rel_Status r') = fin"
  shows "\<exists>name y. rsp_Ytsaurus (rel_Spec r) = Some name \<and> ra_get_ytsaurus A name w = Found y \<and>
    releaseReconcile A sync w = sync r y w"
  using assms by (auto simp: releaseReconcile_def split: option.splits getResult.splits)

lemma chyt_reconcile_finished:
  assumes ok: "release_ok A E" "meta_ok (x_meta E)" and get: "ra_get A w = Found r" and wf: "wf_conditions (rst_Conditions (rel_Status r))"
    and unfinished: "rst_ReleaseStatus (rel_Status r) \<noteq> ChytReleaseStatusFinished"
    and stored: "ra_get A (snd (ChytReconciler_Reconcile A E w)) = Found r'" "rst_ReleaseStatus (rel_Status r') = ChytReleaseStatusFinished"
  shows "\<exists>name y. rsp_Ytsaurus (rel_Spec r) = Some name \<and> ra_get_ytsaurus A name w = Found y \<and>
    st_State (yr_Status y) = ClusterStateRunning \<and>
    (\<forall>job \<in> set ([''user'', ''release''] @ (if chPublicWanted y r then [''ch-public''] else [])).
      status_of (rst_Conditions (rel_Status r')) (job @ ''CHYT-'' @ om_Name (rel_Meta r) @ ''InitJobCompleted'') = Some ConditionTrue)"
proof -
  let ?start = "\<lambda>y. release_start r (NewChyt E (NewGenerator y (getClusterDomain E)) r y) y w"
  obtain name y where y: "rsp_Ytsaurus (rel_Spec r) = Some name" "ra_get_ytsaurus A name w = Found y"
      and rec: "snd (ChytReconciler_Reconcile A E w) = h_world (snd (run_state (ChytReconciler_Sync A E) (?start y)))"
    using releaseReconcile_found [OF get unfinished stored(1) [unfolded ChytReconciler_Reconcile_def] stored(2)]
    by (auto simp: ChytReconciler_Reconcile_def case_prod_unfold Let_def)
  have inv: "release_inv E (?start y)" using ok(2) wf by (simp add: release_inv_def release_start_def)
  have "\<exists>g. release_rel A E chyt_names (?start y) g \<and> chyt_done g \<and> rel_Status r' = rel_Status (h_release g)"
    by (rule releaseSync_sound [where doSync = "Chyt_doSync E", OF finishes_Chyt lasting_done(1) rr_Chyt_Fetch ok(1) inv _ unfinished
          prod.collapse [symmetric]])
      (use get stored rec in \<open>simp_all add: ChytReconciler_Sync_def release_start_def\<close>)
  then obtain g where g: "release_rel A E chyt_names (?start y) g" "chyt_done g" "rel_Status r' = rel_Status (h_release g)" by blast
  then have "h_yts g = y" "rel_Spec (h_release g) = rel_Spec r" "chyt_names (h_component g) = chyt_names (NewChyt E (NewGenerator y (getClusterDomain E)) r y)"
    using ok(1) inv by (auto simp: release_rel_def release_start_def)
  with g(2,3) y show ?thesis by (auto simp: chyt_done_def release_names chPublicWanted_def)
qed

lemma spyt_reconcile_finished:
  assumes ok: "release_ok A E" "meta_ok (x_meta E)" and get: "ra_get A w = Found r" and wf: "wf_conditions (rst_Conditions (rel_Status r))"
    and unfinished: "rst_ReleaseStatus (rel_Status r) \<noteq> SpytReleaseStatusFinished"
    and stored: "ra_get A (snd (SpytReconciler_Reconcile A E w)) = Found r'" "rst_ReleaseStatus (rel_Status r') = SpytReleaseStatusFinished"
  shows "\<exists>name y. rsp_Ytsaurus (rel_Spec r) = Some name \<and> ra_get_ytsaurus A name w = Found y \<and>
    st_State (yr_Status y) = ClusterStateRunning \<and>
    (\<forall>job \<in> {''user'', ''spyt-environment''}.
      status_of (rst_Conditions (rel_Status r')) (job @ ''SPYT-'' @ om_Name (rel_Meta r) @ ''InitJobCompleted'') = Some ConditionTrue)"
proof -
  let ?start = "\<lambda>y. release_start r (NewSpyt E (NewGenerator y (getClusterDomain E)) r y) y w"
  obtain name y where y: "rsp_Ytsaurus (rel_Spec r) = Some name" "ra_get_ytsaurus A name w = Found y"
      and rec: "snd (SpytReconciler_Reconcile A E w) = h_world (snd (run_state (SpytReconciler_Sync A E) (?start y)))"
    using releaseReconcile_found [OF get unfinished stored(1) [unfolded SpytReconciler_Reconcile_def] stored(2)]
    by (auto simp: SpytReconciler_Reconcile_def case_prod_unfold Let_def)
  have inv: "release_inv E (?start y)" using ok(2) wf by (simp add: release_inv_def release_start_def)
  have "\<exists>g. release_rel A E spyt_names (?start y) g \<and> spyt_done g \<and> rel_Status r' = rel_Status (h_release g)"
    by (rule releaseSync_sound [where doSync = "Spyt_doSync E", OF finishes_Spyt lasting_done(2) rr_Spyt_Fetch ok(1) inv _ unfinished
          prod.collapse [symmetric]])
      (use get stored rec in \<open>simp_all add: SpytReconciler_Sync_def release_start_def\<close>)
  then obtain g where g: "release_rel A E spyt_names (?start y) g" "spyt_done g" "rel_Status r' = rel_Status (h_release g)" by blast
  then have "h_yts g = y" "spyt_names (h_component g) = spyt_names (NewSpyt E (NewGenerator y (getClusterDomain E)) r y)"
    using ok(1) inv by (auto simp: release_rel_def release_start_def)
  with g(2,3) y show ?thesis by (auto simp: spyt_done_def release_names)
qed

subsection \<open>When a controller does nothing\<close>

lemma keeps_onComponent: "(\<And>x. keeps f (m x)) \<Longrightarrow> (\<And>x h. f (h\<lparr>h_component := x\<rparr>) = f h) \<Longrightarrow> keeps f (onComponent get put m)"
  by (simp add: onComponent_def on_obj_def keeps_def case_prod_unfold)

lemma keeps_fetches:
  "keeps h_world (Chyt_Fetch E)" "keeps h_yts (Chyt_Fetch E)" "keeps h_release (Chyt_Fetch E)"
  "keeps h_world (Spyt_Fetch E)" "keeps h_yts (Spyt_Fetch E)" "keeps h_release (Spyt_Fetch E)"
  unfolding Chyt_Fetch_def Spyt_Fetch_def resources_Fetch_def fetchJob_def fetchSecret_def
  by (rule keeps_first_error, auto intro!: keeps_onComponent io_intros)+

lemma releaseSync_idle:
  assumes "keeps h_world fetch" "keeps h_yts fetch" "keeps h_release fetch" and "h_stage h = fin \<or> \<not> P (h_yts h)"
    and "\<And>g. \<not> P (h_yts g) \<Longrightarrow> \<exists>s. run_state (doSync True) g = ((WaitingStatus SyncStatusBlocked s, None), g)"
  shows "h_world (snd (run_state (releaseSync A fin fetch doSync) h)) = h_world h"
proof -
  obtain e g where g: "run_state fetch h = (e, g)" by fastforce
  then have "h_world g = h_world h" "h_yts g = h_yts h" "h_release g = h_release h" using assms(1-3) by (auto dest: keepsD)
  with g assms(4) assms(5) [of g] show ?thesis by (auto simp: releaseSync_def WaitingStatus_def)
qed

lemma doSync_blocked:
  "st_State (yr_Status (h_yts g)) \<noteq> ClusterStateRunning \<Longrightarrow> \<exists>s. run_state (Chyt_doSync E dry) g = ((WaitingStatus SyncStatusBlocked s, None), g)"
  "st_State (yr_Status (h_yts g')) \<noteq> ClusterStateRunning \<Longrightarrow> \<exists>s. run_state (Spyt_doSync E dry) g' = ((WaitingStatus SyncStatusBlocked s, None), g')"
  by (auto simp: Chyt_doSync_def Spyt_doSync_def clusterRunning_def returnStatus_def)

lemma chyt_reconcile_idle:
  assumes "ra_get A w = Found r" and "rsp_Ytsaurus (rel_Spec r) = Some name" and "ra_get_ytsaurus A name w = Found y"
    and "rst_ReleaseStatus (rel_Status r) = ChytReleaseStatusFinished \<or> st_State (yr_Status y) \<noteq> ClusterStateRunning"
  shows "snd (ChytReconciler_Reconcile A E w) = w"
  using assms releaseSync_idle [OF keeps_fetches(1-3), where P = "\<lambda>y. st_State (yr_Status y) = ClusterStateRunning" and
      doSync = "Chyt_doSync E" and h = "release_start r (NewChyt E (NewGenerator y (getClusterDomain E)) r y) y w", OF _ doSync_blocked(1)]
  by (simp add: ChytReconciler_Reconcile_def releaseReconcile_def ChytReconciler_Sync_def Let_def case_prod_unfold release_start_def)

lemma spyt_reconcile_idle:
  assumes "ra_get A w = Found r" and "rsp_Ytsaurus (rel_Spec r) = Some name" and "ra_get_ytsaurus A name w = Found y"
    and "rst_ReleaseStatus (rel_Status r) = SpytReleaseStatusFinished \<or> st_State (yr_Status y) \<noteq> ClusterStateRunning"
  shows "snd (SpytReconciler_Reconcile A E w) = w"
  using assms releaseSync_idle [OF keeps_fetches(4-6), where P = "\<lambda>y. st_State (yr_Status y) = ClusterStateRunning" and
      doSync = "Spyt_doSync E" and h = "release_start r (NewSpyt E (NewGenerator y (getClusterDomain E)) r y) y w", OF _ doSync_blocked(2)]
  by (simp add: SpytReconciler_Reconcile_def releaseReconcile_def SpytReconciler_Sync_def Let_def case_prod_unfold release_start_def)

subsection \<open>When a release is finished\<close>

text \<open>The reads of a component succeed; a missing object is no failure.\<close>

definition reads_ok :: "'w ext \<Rightarrow> 'w \<Rightarrow> bool" where
  "reads_ok E w \<longleftrightarrow> (\<forall>n e. k_get_job (x_k8s E) n w \<noteq> GetError e \<and> k_get_configmap (x_k8s E) n w \<noteq> GetError e)"

lemma res_Fetch_ok:
  "(\<And>e. getter (r_name r) (h_world h) \<noteq> GetError e) \<Longrightarrow> run_state (res_Fetch getter r) h =
     ((None, r\<lparr>r_old := (case getter (r_name r) (h_world h) of Found x \<Rightarrow> x | _ \<Rightarrow> r_old r)\<rparr>), h)"
  by (simp add: res_Fetch_def FetchObject_def split: getResult.splits)

lemma ConfigHelper_Fetch_ok: "reads_ok E (h_world h) \<Longrightarrow> \<exists>ch'. run_state (ConfigHelper_Fetch E ch) h = ((None, ch'), h)"
  by (cases "ch_configOverrides ch")
    (auto simp: ConfigHelper_Fetch_def res_Fetch_ok FetchObject_def reads_ok_def split: getResult.splits)

lemma fetchJob_ok:
  assumes "reads_ok E (h_world h)"
  shows "\<exists>j. run_state (fetchJob E get put) h = (None, h\<lparr>h_component := put j (h_component h)\<rparr>) \<and>
    ij_initCompletedCondition j = ij_initCompletedCondition (get (h_component h))"
proof -
  let ?j = "get (h_component h)"
  obtain r where "run_state (res_Fetch (k_get_job (x_k8s E)) (ij_initJob ?j)) h = ((None, r), h)"
    using assms by (simp add: res_Fetch_ok reads_ok_def)
  moreover obtain ch where "run_state (ConfigHelper_Fetch E (ij_configHelper ?j)) h = ((None, ch), h)"
    using ConfigHelper_Fetch_ok [OF assms] by blast
  ultimately have "\<exists>j. run_state (InitJob_Fetch E ?j) h = ((None, j), h)" by (simp add: InitJob_Fetch_def)
  then show ?thesis using InitJob_Fetch_name [of E ?j h] by (auto simp: fetchJob_def onComponent_def on_obj_def)
qed

lemma Chyt_Fetch_ok:
  assumes "reads_ok E (h_world h)" and "k_get_secret (x_k8s E) (r_name (rl_secret (h_component h))) (h_world h) = Found s"
  shows "\<exists>c. run_state (Chyt_Fetch E) h = (None, h\<lparr>h_component := c\<rparr>) \<and> chyt_names c = chyt_names (h_component h) \<and>
    rl_secret c = (rl_secret (h_component h))\<lparr>r_old := s\<rparr>"
proof -
  let ?c = "h_component h"
  obtain j1 where j1: "run_state (fetchJob E rl_initUser set_user) h = (None, h\<lparr>h_component := set_user j1 ?c\<rparr>)"
      "ij_initCompletedCondition j1 = ij_initCompletedCondition (rl_initUser ?c)"
    using fetchJob_ok [OF assms(1), of rl_initUser set_user] by blast
  let ?h1 = "h\<lparr>h_component := set_user j1 ?c\<rparr>"
  obtain j2 where j2: "run_state (fetchJob E rl_initEnvironment set_environment) ?h1 = (None, ?h1\<lparr>h_component := set_environment j2 (h_component ?h1)\<rparr>)"
      "ij_initCompletedCondition j2 = ij_initCompletedCondition (rl_initEnvironment (h_component ?h1))"
    using fetchJob_ok [of E ?h1 rl_initEnvironment set_environment] assms(1) by auto
  let ?h2 = "?h1\<lparr>h_component := set_environment j2 (h_component ?h1)\<rparr>"
  obtain j3 where j3: "run_state (fetchJob E rl_initChPublicJob set_public) ?h2 = (None, ?h2\<lparr>h_component := set_public j3 (h_component ?h2)\<rparr>)"
      "ij_initCompletedCondition j3 = ij_initCompletedCondition (rl_initChPublicJob (h_component ?h2))"
    using fetchJob_ok [of E ?h2 rl_initChPublicJob set_public] assms(1) by auto
  let ?h3 = "?h2\<lparr>h_component := set_public j3 (h_component ?h2)\<rparr>"
  have "run_state (fetchSecret E) ?h3 = (None, ?h3\<lparr>h_component := set_secret ((rl_secret ?c)\<lparr>r_old := s\<rparr>) (h_component ?h3)\<rparr>)"
    using assms(2) by (simp add: fetchSecret_def onComponent_def on_obj_def res_Fetch_def FetchObject_def set_user_def set_environment_def set_public_def)
  with j1 j2 j3 show ?thesis
    by (intro exI [of _ "set_secret ((rl_secret ?c)\<lparr>r_old := s\<rparr>) (h_component ?h3)"])
      (simp add: Chyt_Fetch_def resources_Fetch_def chyt_names_def spyt_names_def set_user_def set_environment_def set_public_def set_secret_def)
qed

lemma releaseJob_ready:
  assumes "Release_IsStatusConditionTrue E (ij_initCompletedCondition (get (h_component h))) h"
    and "\<And>c. put (get c) c = c" and "\<not> stops SyncStatusReady None"
  shows "run_state (releaseJob E get put prepare stops p True) h = (None, h)"
  using assms by (simp add: releaseJob_def onComponent_def on_obj_def InitJob_SyncWith_def releaseConditions_def)

lemma Chyt_doSync_ready:
  assumes "release_inv E h" and "chyt_done h" and "\<not> StringSecret_NeedSync (rl_secret (h_component h)) TokenSecretKey []"
  shows "run_state (Chyt_doSync E True) h =
    ((SimpleStatus SyncStatusReady, None), map_release (\<lambda>s. s\<lparr>rst_ReleaseStatus := ChytReleaseStatusFinished\<rparr>) h)"
  using assms by (simp add: Chyt_doSync_def chyt_done_def clusterRunning_def releaseSecret_def releaseJob_ready chyt_names_def spyt_names_def
      set_user_def set_environment_def set_public_def Release_IsStatusConditionTrue_stored)

text \<open>
  The converse of the soundness: once the completions are recorded and the token is there, the next
  reconciliation stores the release as finished, if the status update succeeds.
\<close>

lemma chyt_reconcile_finishes:
  assumes ok: "release_ok A E" "meta_ok (x_meta E)" and get: "ra_get A w = Found r" and wf: "wf_conditions (rst_Conditions (rel_Status r))"
    and unfinished: "rst_ReleaseStatus (rel_Status r) \<noteq> ChytReleaseStatusFinished"
    and y: "rsp_Ytsaurus (rel_Spec r) = Some name" "ra_get_ytsaurus A name w = Found y" "st_State (yr_Status y) = ClusterStateRunning"
    and jobs: "\<And>job. job \<in> set ([''user'', ''release''] @ (if chPublicWanted y r then [''ch-public''] else [])) \<Longrightarrow>
      status_of (rst_Conditions (rel_Status r)) (job @ ''CHYT-'' @ om_Name (rel_Meta r) @ ''InitJobCompleted'') = Some ConditionTrue"
    and reads: "reads_ok E w" "k_get_secret (x_k8s E) (''ytsaurus-chyt-'' @ om_Name (rel_Meta r) @ ''-secret'') w = Found s"
    and token: "om_ResourceVersion (o_Meta s) \<noteq> []" "sec_Data (o_Body s) TokenSecretKey \<noteq> None"
    and written: "\<And>y. fst (ra_status_update A y w) = None"
  shows "\<exists>r'. ra_get A (snd (ChytReconciler_Reconcile A E w)) = Found r' \<and> rst_ReleaseStatus (rel_Status r') = ChytReleaseStatusFinished"
proof -
  let ?c = "NewChyt E (NewGenerator y (getClusterDomain E)) r y"
  let ?h = "release_start r ?c y w"
  have sec: "r_name (rl_secret ?c) = ''ytsaurus-chyt-'' @ om_Name (rel_Meta r) @ ''-secret''"
    by (simp add: NewChyt_def NewStringSecret_def GetSecretName_def releaseLabeller_def Let_def)
  have world: "h_world ?h = w" "h_component ?h = ?c" by (simp_all add: release_start_def)
  have "\<exists>c. run_state (Chyt_Fetch E) ?h = (None, ?h\<lparr>h_component := c\<rparr>) \<and> chyt_names c = chyt_names ?c \<and> rl_secret c = (rl_secret ?c)\<lparr>r_old := s\<rparr>"
    using Chyt_Fetch_ok [of E ?h s] reads unfolding world sec by blast
  then obtain c where c: "run_state (Chyt_Fetch E) ?h = (None, ?h\<lparr>h_component := c\<rparr>)" "chyt_names c = chyt_names ?c"
      "rl_secret c = (rl_secret ?c)\<lparr>r_old := s\<rparr>" by blast
  let ?g = "?h\<lparr>h_component := c\<rparr>"
  have inv: "release_inv E ?g" using ok(2) wf by (simp add: release_inv_def release_start_def)
  have "chyt_done ?g" using y(3) jobs [of "''user''"] jobs [of "''release''"] jobs [of "''ch-public''"] by (simp add: chyt_done_def c(2) release_names release_start_def)
  moreover have "\<not> StringSecret_NeedSync (rl_secret (h_component ?g)) TokenSecretKey []"
    using token by (auto simp: c(3) StringSecret_NeedSync_def StringSecret_GetValue_def Exists_def)
  ultimately have "run_state (Chyt_doSync E True) ?g = ((SimpleStatus SyncStatusReady, None),
      map_release (\<lambda>s. s\<lparr>rst_ReleaseStatus := ChytReleaseStatusFinished\<rparr>) ?g)"
    by (intro Chyt_doSync_ready inv)
  then have "h_world (snd (run_state (ChytReconciler_Sync A E) ?h)) =
      snd (ra_status_update A (r\<lparr>rel_Status := (rel_Status r)\<lparr>rst_ReleaseStatus := ChytReleaseStatusFinished\<rparr>\<rparr>) w)"
    using c(1) unfinished
    by (simp add: ChytReconciler_Sync_def releaseSync_def SimpleStatus_def SaveReleaseStatus_def Release_UpdateStatus_run release_start_def map_release_def)
  then show ?thesis
    using get y(1,2) ok(1) written
    by (simp add: ChytReconciler_Reconcile_def releaseReconcile_def case_prod_unfold Let_def release_ok_def)
qed

end
