(* ===== verification/Controllers.thy ===== *)
theory Controllers
  imports Release
begin

text \<open>
  Exec nodes of a remote cluster: their types (\<open>remoteexecnodes_types.go\<close>, \<open>remoteytsaurus_types.go\<close>), the
  constructor of \<open>exec_node_remote.go\<close> and their controller; and the functions by which the controllers map
  a changed object to the resources to reconcile.
\<close>

subsection \<open>Types\<close>

datatype RemoteExecNodeReleaseStatus =
    RemoteExecNodeReleaseStatusPending | RemoteExecNodeReleaseStatusRunning | RemoteExecNodeReleaseStatusOther string

record RemoteExecNodesSpec =
  ren_RemoteClusterSpec :: "string option"
  ren_CommonSpec :: CommonSpec
  ren_ExecNodesSpec :: ExecNodesSpec

record RemoteExecNodes =
  rxn_Meta :: ObjectMeta
  rxn_Spec :: RemoteExecNodesSpec
  rxn_ReleaseStatus :: RemoteExecNodeReleaseStatus

record RemoteYtsaurus =
  ryt_Meta :: ObjectMeta
  ryt_MasterConnectionSpec :: MasterConnectionSpec
  ryt_MasterCachesSpec :: MasterCachesSpec

text \<open>
  The client's methods at these kinds; a list is restricted to a namespace and, by the index of the
  manager's cache, to the resources whose index contains a value.
\<close>

record 'w remote_api =
  rm_get :: "'w \<Rightarrow> RemoteExecNodes getResult"
  rm_get_ytsaurus :: "string \<Rightarrow> 'w \<Rightarrow> RemoteYtsaurus getResult"
  rm_status_update :: "RemoteExecNodes \<Rightarrow> 'w \<Rightarrow> error \<times> 'w"
  rm_list :: "(RemoteExecNodes \<Rightarrow> string list) \<Rightarrow> string \<Rightarrow> string \<Rightarrow> 'w \<Rightarrow> string + RemoteExecNodes list"
  rm_list_ytsaurus :: "(YtsaurusResource \<Rightarrow> string list) \<Rightarrow> string \<Rightarrow> string \<Rightarrow> 'w \<Rightarrow> string + YtsaurusResource list"

subsection \<open>exec\_node\_remote.go\<close>

record RemoteExecNode =
  rem_spec :: ExecNodesSpec
  rem_server :: nat
  rem_sidecar :: "nat option"

definition NewRemoteExecNodes :: "'w ext \<Rightarrow> NodeGenerator \<Rightarrow> RemoteExecNodes \<Rightarrow> ExecNodesSpec \<Rightarrow> CommonSpec \<Rightarrow> ('w heap, RemoteExecNode) state" where
  "NewRemoteExecNodes E g nodes spec0 commonSpec = do {
     let spec = spec0\<lparr>ens_Instance := withMonitoringPort ExecNodeMonitoringPort (ens_Instance spec0)\<rparr>;
     let l = \<lparr>lb_ClusterName = om_Name (rxn_Meta nodes), lb_Namespace = om_Namespace (rxn_Meta nodes),
       lb_ComponentLabel = FormatComponentStringWithDefault YTComponentLabelExecNode (ens_Name spec),
       lb_ComponentName = FormatComponentStringWithDefault ''ExecNode'' (ens_Name spec), lb_Annotations = Map.empty\<rparr>;
     a \<leftarrow> alloc put_srv (newServerConfigured l commonSpec (ens_Instance spec) ''/usr/bin/ytserver-node'' ''ytserver-exec-node.yson''
       (GetExecNodesStatefulSetName g (ens_Name spec)) (GetExecNodesServiceName g (ens_Name spec))
       (GetExecNodeConfig E g spec) [WithContainerPorts [tcpPort YTRPCPortName ExecNodeRPCPort]]);
     c \<leftarrow> (if criOf spec \<noteq> None then do {
             c \<leftarrow> alloc put_cfg (NewConfigHelper l (GetSidecarConfigMapName l JobsContainerName) (cs_ConfigOverrides commonSpec)
               [(ContainerdConfigFileName, \<lparr>gd_F = GetContainerdConfig E spec, gd_Fmt = ConfigFormatToml\<rparr>)]);
             ret (Some c)
           }
           else ret None);
     ret \<lparr>rem_spec = spec, rem_server = a, rem_sidecar = c\<rparr>
   }"

definition RemoteExecNode_Fetch :: "'w ext \<Rightarrow> RemoteExecNode \<Rightarrow> ('w heap, error) state" where
  "RemoteExecNode_Fetch E n = fetchExecNode E (rem_server n) (rem_sidecar n)"

definition RemoteExecNode_Sync :: "'w ext \<Rightarrow> RemoteExecNode \<Rightarrow> ('w heap, ComponentStatus \<times> error) state" where
  "RemoteExecNode_Sync E n = RemoteExecNode_doSync E (rem_spec n) (rem_server n) (rem_sidecar n) False"

subsection \<open>remoteexecnodes\_sync.go, remoteexecnodes\_controller.go\<close>

text \<open>
  The programs run in the memory of the operator; its Ytsaurus resource is not used by this
  controller. A nil reference to the cluster is dereferenced: the panic is \<open>None\<close>.
\<close>

definition remoteComponent :: "'w ext \<Rightarrow> RemoteExecNodes \<Rightarrow> RemoteYtsaurus \<Rightarrow> ('w heap, RemoteExecNode) state" where
  "remoteComponent E resource remoteYtsaurus =
     (let cfgen = NewRemoteNodeGenerator (om_Namespace (rxn_Meta resource)) (om_Name (rxn_Meta resource)) (getClusterDomain E)
        (ren_CommonSpec (rxn_Spec resource)) (ryt_MasterConnectionSpec remoteYtsaurus) (Some (ryt_MasterCachesSpec remoteYtsaurus))
      in NewRemoteExecNodes E cfgen resource (ren_ExecNodesSpec (rxn_Spec resource)) (ren_CommonSpec (rxn_Spec resource)))"

definition RemoteExecNodesReconciler_Sync :: "'w remote_api \<Rightarrow> 'w ext \<Rightarrow> RemoteExecNodes \<Rightarrow> RemoteYtsaurus \<Rightarrow> ('w heap, Result \<times> error) state" where
  "RemoteExecNodesReconciler_Sync A E resource remoteYtsaurus = do {
     component \<leftarrow> remoteComponent E resource remoteYtsaurus;
     err \<leftarrow> RemoteExecNode_Fetch E component;
     if err \<noteq> None then ret (requeue, err)
     else do {
       (status, err) \<leftarrow> RemoteExecNode_Sync E component;
       if err \<noteq> None then ret (requeue, err)
       else do {
         let ready = (cst_SyncStatus status = SyncStatusReady);
         err \<leftarrow> ext_write (rm_status_update A (resource\<lparr>rxn_ReleaseStatus :=
           (if \<not> ready then RemoteExecNodeReleaseStatusPending else RemoteExecNodeReleaseStatusRunning)\<rparr>));
         if err \<noteq> None then ret (requeue, err)
         else ret (\<lparr>res_Requeue = \<not> ready, res_RequeueAfter = 0\<rparr>, None)
       }
     }
   }"

definition RemoteExecNodesReconciler_Reconcile :: "'w remote_api \<Rightarrow> 'w ext \<Rightarrow> ('w heap, (Result \<times> error) option) state" where
  "RemoteExecNodesReconciler_Reconcile A E = do {
     w \<leftarrow> gets h_world;
     (case rm_get A w of
        NotFound \<Rightarrow> ret (Some (zero_result, None))
      | GetError e \<Rightarrow> ret (Some (zero_result, Some e))
      | Found nodes \<Rightarrow>
          (case ren_RemoteClusterSpec (rxn_Spec nodes) of
             None \<Rightarrow> ret None
           | Some name \<Rightarrow>
               (case rm_get_ytsaurus A name w of
                  Found remoteYtsaurus \<Rightarrow> do { r \<leftarrow> RemoteExecNodesReconciler_Sync A E nodes remoteYtsaurus; ret (Some r) }
                | NotFound \<Rightarrow> ret (Some (requeueAfter 10, Some (name @ '' not found'')))
                | GetError e \<Rightarrow> ret (Some (requeueAfter 10, Some e)))))
   }"

subsection \<open>Watched objects\<close>

record NamespacedName =
  nn_Namespace :: string
  nn_Name :: string

definition requestFor :: "ObjectMeta \<Rightarrow> NamespacedName" where
  "requestFor m = \<lparr>nn_Namespace = om_Namespace m, nn_Name = om_Name m\<rparr>"

text \<open>The index functions that the controllers register with the manager.\<close>

definition remoteClusterIndex :: "RemoteExecNodes \<Rightarrow> string list" where
  "remoteClusterIndex nodes = (case ren_RemoteClusterSpec (rxn_Spec nodes) of None \<Rightarrow> [] | Some name \<Rightarrow> [name])"

definition configOverridesIndex :: "YtsaurusResource \<Rightarrow> string list" where
  "configOverridesIndex r = (case cs_ConfigOverrides (ys_Common (yr_Spec r)) of None \<Rightarrow> [] | Some name \<Rightarrow> [name])"

definition findRemoteNodesForRemoteYtsaurus :: "'w remote_api \<Rightarrow> ObjectMeta \<Rightarrow> 'w \<Rightarrow> NamespacedName list" where
  "findRemoteNodesForRemoteYtsaurus A remoteYtsaurus w =
     (case rm_list A remoteClusterIndex (om_Namespace remoteYtsaurus) (om_Name remoteYtsaurus) w of
        Inl e \<Rightarrow> []
      | Inr items \<Rightarrow> map (\<lambda>item. requestFor (rxn_Meta item)) items)"

definition findObjectsForConfigMap :: "'w remote_api \<Rightarrow> ObjectMeta \<Rightarrow> 'w \<Rightarrow> NamespacedName list" where
  "findObjectsForConfigMap A configMap w =
     (case rm_list_ytsaurus A configOverridesIndex (om_Namespace configMap) (om_Name configMap) w of
        Inl e \<Rightarrow> []
      | Inr items \<Rightarrow> map (\<lambda>item. requestFor (yr_Meta item)) items)"

subsection \<open>When remote nodes are running\<close>

text \<open>
  A synchronisation is ready only when the server needs neither to be created nor to be changed and
  its pods are ready; then nothing is written.
\<close>

lemma RemoteExecNode_Sync_ready:
  assumes "run_state (RemoteExecNode_Sync E n) h = ((st, err), h')" and "cst_SyncStatus st = SyncStatusReady"
  shows "h_world h' = h_world h \<and> \<not> fst (run_state (serverImpl_needSync E (h_srv h (rem_server n))) h) \<and>
    \<not> fst (run_state (serverImpl_needUpdate E (h_srv h (rem_server n))) h) \<and>
    serverImpl_arePodsReady E (h_srv h (rem_server n)) (h_world h)"
proof -
  let ?s = "h_srv h (rem_server n)"
  obtain b1 h1 where b1: "run_state (serverImpl_needSync E ?s) h = (b1, h1)" by fastforce
  obtain b2 h2 where b2: "run_state (serverImpl_needUpdate E ?s) h1 = (b2, h2)" by fastforce
  have quiet: "no_events h1 = no_events h" "no_events h2 = no_events h1"
    using b1 b2 by (auto intro: keepsD [rotated] io_intros)
  have value2: "b2 = fst (run_state (serverImpl_needUpdate E ?s) h)"
    using b2 serverImpl_needUpdate_value [of E ?s] by (metis fst_conv)
  have base: "cst_SyncStatus (fst (fst (run_state (doSyncBase E spec a c False) g))) \<noteq> SyncStatusReady" for spec a c g
    by (simp add: doSyncBase_def WaitingStatus_def case_prod_unfold)
  have "\<not> b1"
    using assms base b1 by (auto simp: RemoteExecNode_Sync_def RemoteExecNode_doSync_def split: prod.splits) (metis fst_conv)
  moreover from this have "\<not> b2"
    using assms base b1 b2 by (auto simp: RemoteExecNode_Sync_def RemoteExecNode_doSync_def split: prod.splits) (metis fst_conv)
  moreover from calculation have "h' = h2" "serverImpl_arePodsReady E (h_srv h2 (rem_server n)) (h_world h2)"
    using assms b1 b2 by (auto simp: RemoteExecNode_Sync_def RemoteExecNode_doSync_def checkPodsReady_def WaitingStatus_def split: if_splits)
  moreover have "h_world h2 = h_world h" "h_srv h2 = h_srv h"
    using quiet by (cases h, cases h1, cases h2, simp add: no_events_def)+
  ultimately show ?thesis using b1 value2 by simp
qed

text \<open>
  The controller leaves the queue only when this is so, and has then stored the nodes as running.
\<close>

lemma keeps_world_New: "keeps h_world (remoteComponent E r y)"
  by (simp add: remoteComponent_def NewRemoteExecNodes_def alloc_def put_defs keeps_def Let_def)

lemma keeps_world_RemoteFetch: "keeps h_world (RemoteExecNode_Fetch E n)"
proof -
  have obj: "keeps h_world (on_obj get put f)" if "\<And>x. keeps h_world (f x)" "\<And>x h. h_world (put x h) = h_world h"
    for get put and f :: "'o \<Rightarrow> ('w heap, error \<times> 'o) state"
    using that by (simp add: on_obj_def keeps_def case_prod_unfold)
  show ?thesis
    unfolding RemoteExecNode_Fetch_def fetchExecNode_def resources_Fetch_def
    by (rule keeps_first_error, cases "rem_sidecar n") (auto intro!: obj io_intros simp: put_defs)
qed

lemma remote_settled:
  assumes "run_state (RemoteExecNodesReconciler_Sync A E r y) h = ((res, None), h')" and "\<not> res_Requeue res"
  shows "\<exists>n h0 h1. run_state (remoteComponent E r y) h = (n, h0) \<and> run_state (RemoteExecNode_Fetch E n) h0 = (None, h1) \<and>
    \<not> fst (run_state (serverImpl_needSync E (h_srv h1 (rem_server n))) h1) \<and>
    \<not> fst (run_state (serverImpl_needUpdate E (h_srv h1 (rem_server n))) h1) \<and>
    serverImpl_arePodsReady E (h_srv h1 (rem_server n)) (h_world h) \<and>
    rm_status_update A (r\<lparr>rxn_ReleaseStatus := RemoteExecNodeReleaseStatusRunning\<rparr>) (h_world h) = (None, h_world h')"
proof -
  obtain n h0 where n: "run_state (remoteComponent E r y) h = (n, h0)" by fastforce
  obtain e h1 where e: "run_state (RemoteExecNode_Fetch E n) h0 = (e, h1)" by fastforce
  obtain x h2 where "run_state (RemoteExecNode_Sync E n) h1 = (x, h2)" by fastforce
  then obtain st err where s: "run_state (RemoteExecNode_Sync E n) h1 = ((st, err), h2)" by (cases x) simp
  have world: "h_world h1 = h_world h"
    using keepsD [OF keeps_world_New n] keepsD [OF keeps_world_RemoteFetch e] by simp
  have "e = None" and ready: "cst_SyncStatus st = SyncStatusReady"
    using assms n e s by (auto simp: RemoteExecNodesReconciler_Sync_def Let_def requeue_def run_ext_write split: if_splits)
  obtain e' w' where u: "rm_status_update A (r\<lparr>rxn_ReleaseStatus := RemoteExecNodeReleaseStatusRunning\<rparr>) (h_world h2) = (e', w')"
    by fastforce
  have w: "e' = None" "w' = h_world h'"
    using assms n e s u by (auto simp: RemoteExecNodesReconciler_Sync_def Let_def requeue_def run_ext_write ready split: if_splits)
  from RemoteExecNode_Sync_ready [OF s ready] u w world n e \<open>e = None\<close> show ?thesis by auto
qed

subsection \<open>Watches are exact\<close>

text \<open>
  With lists that return the indexed resources of the namespace, a changed config map triggers
  exactly the resources of its namespace whose overrides it holds, and a changed remote cluster
  exactly the exec nodes that refer to it.
\<close>

lemma findObjectsForConfigMap_exact:
  assumes "\<And>ix ns v. rm_list_ytsaurus A ix ns v w = Inr (filter (\<lambda>r. om_Namespace (yr_Meta r) = ns \<and> v \<in> set (ix r)) all)"
  shows "set (findObjectsForConfigMap A m w) = {requestFor (yr_Meta r) | r. r \<in> set all \<and> om_Namespace (yr_Meta r) = om_Namespace m \<and>
    cs_ConfigOverrides (ys_Common (yr_Spec r)) = Some (om_Name m)}"
  by (auto simp: findObjectsForConfigMap_def assms configOverridesIndex_def split: option.splits)

lemma findRemoteNodesForRemoteYtsaurus_exact:
  assumes "\<And>ix ns v. rm_list A ix ns v w = Inr (filter (\<lambda>r. om_Namespace (rxn_Meta r) = ns \<and> v \<in> set (ix r)) all)"
  shows "set (findRemoteNodesForRemoteYtsaurus A m w) = {requestFor (rxn_Meta r) | r. r \<in> set all \<and>
    om_Namespace (rxn_Meta r) = om_Namespace m \<and> ren_RemoteClusterSpec (rxn_Spec r) = Some (om_Name m)}"
  by (auto simp: findRemoteNodesForRemoteYtsaurus_def assms remoteClusterIndex_def split: option.splits)

end
