(* ===== verification/Startup.thy ===== *)
theory Startup
  imports Controllers
begin

text \<open>
  The start of the operator: the controllers and webhooks as they register with the manager of
  controller-runtime (\<open>SetupWithManager\<close>, \<open>SetupWebhookWithManager\<close>), and \<open>main.go\<close>: the options of the manager
  from flags and environment, then the registrations, each of which ends the process when it fails. The
  manager is a parameter. The webhooks of releases, which accept everything, are here too.
\<close>

subsection \<open>What a controller registers\<close>

datatype kind =
    KYtsaurus | KChyt | KSpyt | KRemoteExecNodes | KRemoteYtsaurus
  | KStatefulSet | KDeployment | KConfigMap | KSecret | KService | KJob

text \<open>A watch maps a changed object to requests; all watches use the predicate that the resource version changed.\<close>

record 'w watch =
  wa_Kind :: kind
  wa_Map :: "'w remote_api \<Rightarrow> ObjectMeta \<Rightarrow> 'w \<Rightarrow> NamespacedName list"

record 'w controller =
  cb_Recorder :: string
  cb_For :: kind
  cb_Owns :: "kind list"
  cb_Watches :: "'w watch list"

datatype field_index =
    IndexYtsaurus "YtsaurusResource \<Rightarrow> string list"
  | IndexRemoteExecNodes "RemoteExecNodes \<Rightarrow> string list"

record ManagerOptions =
  mo_WebhookPort :: int
  mo_MetricsBindAddress :: string
  mo_HealthProbeBindAddress :: string
  mo_LeaderElection :: bool
  mo_LeaderElectionID :: string
  mo_LeaderElectionNamespace :: string
  mo_DefaultNamespaces :: "string set option"

text \<open>The manager: its construction, and the calls that may fail.\<close>

record ('w, 'm) manager_api =
  mg_new :: "ManagerOptions \<Rightarrow> string + 'm"
  mg_index :: "string \<Rightarrow> field_index \<Rightarrow> 'm \<Rightarrow> error \<times> 'm"
  mg_complete :: "'w controller \<Rightarrow> 'm \<Rightarrow> error \<times> 'm"
  mg_webhook :: "kind \<Rightarrow> bool \<Rightarrow> 'm \<Rightarrow> error \<times> 'm"
  mg_healthz :: "string \<Rightarrow> 'm \<Rightarrow> error \<times> 'm"
  mg_readyz :: "string \<Rightarrow> 'm \<Rightarrow> error \<times> 'm"
  mg_start :: "'m \<Rightarrow> error \<times> 'm"

definition YtsaurusReconciler_SetupWithManager :: "('w, 'm) manager_api \<Rightarrow> string \<Rightarrow> ('m, error) state" where
  "YtsaurusReconciler_SetupWithManager A recorder = do {
     err \<leftarrow> State (mg_index A ''.spec.configOverrides'' (IndexYtsaurus configOverridesIndex));
     if err \<noteq> None then ret err
     else State (mg_complete A \<lparr>cb_Recorder = recorder, cb_For = KYtsaurus,
       cb_Owns = [KStatefulSet, KConfigMap, KService, KDeployment, KSecret],
       cb_Watches = [\<lparr>wa_Kind = KConfigMap, wa_Map = findObjectsForConfigMap\<rparr>]\<rparr>)
   }"

definition RemoteExecNodesReconciler_SetupWithManager :: "('w, 'm) manager_api \<Rightarrow> string \<Rightarrow> ('m, error) state" where
  "RemoteExecNodesReconciler_SetupWithManager A recorder = do {
     err \<leftarrow> State (mg_index A ''remoteClusterSpec'' (IndexRemoteExecNodes remoteClusterIndex));
     if err \<noteq> None then ret err
     else State (mg_complete A \<lparr>cb_Recorder = recorder, cb_For = KRemoteExecNodes, cb_Owns = [],
       cb_Watches = [\<lparr>wa_Kind = KRemoteYtsaurus, wa_Map = findRemoteNodesForRemoteYtsaurus\<rparr>]\<rparr>)
   }"

definition ChytReconciler_SetupWithManager :: "('w, 'm) manager_api \<Rightarrow> string \<Rightarrow> ('m, error) state" where
  "ChytReconciler_SetupWithManager A recorder =
     State (mg_complete A \<lparr>cb_Recorder = recorder, cb_For = KChyt, cb_Owns = [KSecret], cb_Watches = []\<rparr>)"

definition SpytReconciler_SetupWithManager :: "('w, 'm) manager_api \<Rightarrow> string \<Rightarrow> ('m, error) state" where
  "SpytReconciler_SetupWithManager A recorder =
     State (mg_complete A \<lparr>cb_Recorder = recorder, cb_For = KSpyt, cb_Owns = [KSecret], cb_Watches = []\<rparr>)"

subsection \<open>Webhooks\<close>

text \<open>The webhook of a cluster has a validator of its own, those of the releases are the resources themselves.\<close>

definition Ytsaurus_SetupWebhookWithManager :: "('w, 'm) manager_api \<Rightarrow> ('m, error) state" where
  "Ytsaurus_SetupWebhookWithManager A = State (mg_webhook A KYtsaurus True)"

definition Spyt_SetupWebhookWithManager :: "('w, 'm) manager_api \<Rightarrow> ('m, error) state" where
  "Spyt_SetupWebhookWithManager A = State (mg_webhook A KSpyt False)"

definition Chyt_SetupWebhookWithManager :: "('w, 'm) manager_api \<Rightarrow> ('m, error) state" where
  "Chyt_SetupWebhookWithManager A = State (mg_webhook A KChyt False)"

definition Spyt_ValidateCreate :: "'r \<Rightarrow> error" where
  "Spyt_ValidateCreate r = None"

definition Spyt_ValidateUpdate :: "'r \<Rightarrow> 'o \<Rightarrow> error" where
  "Spyt_ValidateUpdate r old = None"

definition Spyt_ValidateDelete :: "'r \<Rightarrow> error" where
  "Spyt_ValidateDelete r = None"

definition Chyt_ValidateCreate :: "'r \<Rightarrow> error" where
  "Chyt_ValidateCreate r = None"

definition Chyt_ValidateUpdate :: "'r \<Rightarrow> 'o \<Rightarrow> error" where
  "Chyt_ValidateUpdate r old = None"

definition Chyt_ValidateDelete :: "'r \<Rightarrow> error" where
  "Chyt_ValidateDelete r = None"

subsection \<open>main.go\<close>

text \<open>The parsed command line, with its defaults, and the environment.\<close>

record flags =
  fl_metricsAddr :: string
  fl_probeAddr :: string
  fl_enableLeaderElection :: bool

definition default_flags :: flags where
  "default_flags = \<lparr>fl_metricsAddr = '':8080'', fl_probeAddr = '':8081'', fl_enableLeaderElection = False\<rparr>"

text \<open>\<open>os.Getenv\<close> is empty for a variable that is not set.\<close>

definition Getenv :: "(string \<Rightarrow> string option) \<Rightarrow> string \<Rightarrow> string" where
  "Getenv env key = (case env key of None \<Rightarrow> [] | Some v \<Rightarrow> v)"

definition managerOptions :: "flags \<Rightarrow> (string \<Rightarrow> string option) \<Rightarrow> ManagerOptions" where
  "managerOptions fl env =
     (let options = \<lparr>mo_WebhookPort = 9443, mo_MetricsBindAddress = fl_metricsAddr fl, mo_HealthProbeBindAddress = fl_probeAddr fl,
            mo_LeaderElection = fl_enableLeaderElection fl, mo_LeaderElectionID = ''6ab077f0.ytsaurus.tech'',
            mo_LeaderElectionNamespace = [], mo_DefaultNamespaces = None\<rparr>
      in case env ''WATCH_NAMESPACE'' of
           None \<Rightarrow> options
         | Some watchNamespace \<Rightarrow>
             if watchNamespace = [] then options
             else if CHR '','' \<in> set watchNamespace
             then options\<lparr>mo_DefaultNamespaces := Some (set (split_char (CHR '','') watchNamespace))\<rparr>
             else options\<lparr>mo_DefaultNamespaces := Some {watchNamespace}, mo_LeaderElectionNamespace := watchNamespace\<rparr>)"

text \<open>The registrations in order; the error of one ends the process, so the others are not reached.\<close>

definition setupSteps :: "('w, 'm) manager_api \<Rightarrow> (string \<Rightarrow> string option) \<Rightarrow> ('m, error) state option list" where
  "setupSteps A env =
     (let webhook = (\<lambda>setup. if Getenv env ''ENABLE_WEBHOOKS'' \<noteq> ''false'' then Some setup else None)
      in [Some (YtsaurusReconciler_SetupWithManager A ''ytsaurus-controller''),
          webhook (Ytsaurus_SetupWebhookWithManager A),
          Some (SpytReconciler_SetupWithManager A ''spyt-controller''),
          webhook (Spyt_SetupWebhookWithManager A),
          Some (ChytReconciler_SetupWithManager A ''chyt-controller''),
          webhook (Chyt_SetupWebhookWithManager A),
          Some (RemoteExecNodesReconciler_SetupWithManager A ''remoteexecnodes-controller''),
          Some (State (mg_healthz A ''healthz'')),
          Some (State (mg_readyz A ''readyz'')),
          Some (State (mg_start A))])"

text \<open>The exit code of the process, and the manager as it was left.\<close>

definition main :: "('w, 'm) manager_api \<Rightarrow> flags \<Rightarrow> (string \<Rightarrow> string option) \<Rightarrow> nat \<times> 'm option" where
  "main A fl env = (case mg_new A (managerOptions fl env) of
       Inl e \<Rightarrow> (1, None)
     | Inr mgr \<Rightarrow> (let (err, mgr') = run_state (first_error (setupSteps A env)) mgr
                 in (if err \<noteq> None then 1 else 0, Some mgr')))"

subsection \<open>What is registered\<close>

text \<open>The steps of \<open>main\<close> all succeed exactly when the process does not exit with an error.\<close>

lemma first_error_run:
  "fst (run_state (first_error ms) s) = None \<longleftrightarrow>
     (\<forall>i < length ms. \<forall>m. ms ! i = Some m \<longrightarrow> fst (run_state m (snd (run_state (first_error (take i ms)) s))) = None)"
proof (induction ms arbitrary: s rule: first_error.induct)
  case (2 ms)
  then show ?case by (simp add: All_less_Suc2)
next
  case (3 m ms)
  then show ?case by (auto simp: All_less_Suc2 case_prod_unfold)
qed simp

text \<open>
  Whatever kind of object the components write, the controller of clusters is told when it changes; jobs are
  the exception, their completion is seen by the next reconciliation.
\<close>

fun object_kind :: "clientObject \<Rightarrow> kind" where
  "object_kind (AStatefulSet _) = KStatefulSet"
| "object_kind (ADeployment _) = KDeployment"
| "object_kind (AConfigMap _) = KConfigMap"
| "object_kind (ASecret _) = KSecret"
| "object_kind (AService _) = KService"
| "object_kind (AJob _) = KJob"

text \<open>A manager that records what it is asked for, and never fails.\<close>

datatype 'w call = Index string | Controller "'w controller" | Webhook kind bool | Healthz string | Readyz string | Start

definition recording :: "('w, 'w call list) manager_api" where
  "recording = \<lparr>mg_new = (\<lambda>_. Inr []), mg_index = (\<lambda>f _ l. (None, l @ [Index f])), mg_complete = (\<lambda>c l. (None, l @ [Controller c])),
     mg_webhook = (\<lambda>k v l. (None, l @ [Webhook k v])), mg_healthz = (\<lambda>n l. (None, l @ [Healthz n])),
     mg_readyz = (\<lambda>n l. (None, l @ [Readyz n])), mg_start = (\<lambda>l. (None, l @ [Start]))\<rparr>"

lemmas startup_defs = main_def setupSteps_def Let_def YtsaurusReconciler_SetupWithManager_def SpytReconciler_SetupWithManager_def
  ChytReconciler_SetupWithManager_def RemoteExecNodesReconciler_SetupWithManager_def Ytsaurus_SetupWebhookWithManager_def
  Spyt_SetupWebhookWithManager_def Chyt_SetupWebhookWithManager_def

text \<open>
  With a manager that does not fail the process ends without an error, and only after everything was registered: a
  controller per resource, the webhooks unless they are disabled, and for the cluster a watch on every kind of object.
\<close>

lemma main_registers:
  "\<exists>calls. main recording fl env = (0, Some (calls @ [Start])) \<and> Start \<notin> set calls \<and>
    [cb_For c. Controller c \<leftarrow> calls] = [KYtsaurus, KSpyt, KChyt, KRemoteExecNodes] \<and>
    [(k, v). Webhook k v \<leftarrow> calls] =
      (if env ''ENABLE_WEBHOOKS'' = Some ''false'' then [] else [(KYtsaurus, True), (KSpyt, False), (KChyt, False)]) \<and>
    (\<forall>c obj. Controller c \<in> set calls \<and> cb_For c = KYtsaurus \<and> object_kind obj \<noteq> KJob \<longrightarrow> object_kind obj \<in> set (cb_Owns c))"
proof -
  have kinds: "object_kind obj \<noteq> KJob \<Longrightarrow> object_kind obj \<in> {KStatefulSet, KConfigMap, KService, KDeployment, KSecret}" for obj
    by (cases obj) auto
  show ?thesis
  proof (cases "env ''ENABLE_WEBHOOKS'' = Some ''false''")
    case True
    then show ?thesis using kinds by (auto simp: startup_defs recording_def Getenv_def)
  next
    case False
    then have "Getenv env ''ENABLE_WEBHOOKS'' \<noteq> ''false''" by (auto simp: Getenv_def split: option.splits)
    with False show ?thesis using kinds by (auto simp: startup_defs recording_def)
  qed
qed

text \<open>
  A variable with several namespaces restricts the cache to them and leaves the namespace of the leader election open;
  a single one is that namespace too.
\<close>

lemma split_char_single: "d \<notin> set s \<Longrightarrow> split_char d s = [s]"
  by (induction s) auto

lemma managerOptions_namespaces:
  assumes "env ''WATCH_NAMESPACE'' = Some ns" and "ns \<noteq> []"
  shows "mo_DefaultNamespaces (managerOptions fl env) = Some (set (split_char (CHR '','') ns)) \<and>
    mo_LeaderElectionNamespace (managerOptions fl env) = (if CHR '','' \<in> set ns then [] else ns)"
  using assms by (auto simp: managerOptions_def Let_def split_char_single)

end
