(* ===== verification/GoMemory.thy ===== *)
theory GoMemory
  imports Prelude
begin

text \<open>
  The memory of a Go program as far as copying values is concerned: values with references, a store of
  cells, the types that say which cells belong to a value, and the statements from which generated copy
  functions are built. A copy is deep when it holds the same data in cells of its own; the lemmas show
  that each statement builds a deep copy from deep copies of the parts.
\<close>

named_theorems deep_intros

subsection \<open>Values, cells and the store\<close>

datatype prim = PString string | PInt int | PBool bool

text \<open>
  A pointer, a slice and a map are references (\<open>None\<close> is nil); a struct is a function from its field
  names. The cell of a pointer holds one value, that of a slice its elements and that of a map its entries.
\<close>

datatype gval =
    Prim prim
  | Ref "nat option"
  | Struct "string \<Rightarrow> gval"

datatype cell =
    Var gval
  | Arr "gval list"
  | Tab "(string \<times> gval) list"

record store =
  gs_limit :: nat
  gs_cell :: "nat \<Rightarrow> cell"

definition new_cell :: "cell \<Rightarrow> (store, nat) state" where
  "new_cell c = State (\<lambda>s. (gs_limit s, s\<lparr>gs_limit := Suc (gs_limit s), gs_cell := (gs_cell s)(gs_limit s := c)\<rparr>))"

definition put_cell :: "nat \<Rightarrow> cell \<Rightarrow> (store, unit) state" where
  "put_cell a c = modify (\<lambda>s. s\<lparr>gs_cell := (gs_cell s)(a := c)\<rparr>)"

subsection \<open>The statements of a copy function\<close>

type_synonym copier = "gval \<Rightarrow> (store, gval) state"

text \<open>Assignment copies a value with its references.\<close>

definition assigned :: copier where
  "assigned v = ret v"

fun copyAll :: "copier \<Rightarrow> gval list \<Rightarrow> (store, gval list) state" where
  "copyAll c [] = ret []"
| "copyAll c (x # xs) = do { y \<leftarrow> c x; ys \<leftarrow> copyAll c xs; ret (y # ys) }"

text \<open>
  The copy of what is behind a reference: nothing for nil, else a new cell that is filled by \<open>c\<close>. The
  new cell first holds what the first statement of a copy, an assignment, puts into it.
\<close>

definition ptrTo :: "copier \<Rightarrow> copier" where
  "ptrTo c v = (case v of
       Ref (Some a) \<Rightarrow> do {
         s \<leftarrow> State_Monad.get;
         (case gs_cell s a of
            Var x \<Rightarrow> do { p \<leftarrow> new_cell (Var x); y \<leftarrow> c x; put_cell p (Var y); ret (Ref (Some p)) }
          | _ \<Rightarrow> ret v)
       }
     | _ \<Rightarrow> ret v)"

definition sliceOf :: "copier \<Rightarrow> copier" where
  "sliceOf c v = (case v of
       Ref (Some a) \<Rightarrow> do {
         s \<leftarrow> State_Monad.get;
         (case gs_cell s a of
            Arr xs \<Rightarrow> do { p \<leftarrow> new_cell (Arr xs); ys \<leftarrow> copyAll c xs; put_cell p (Arr ys); ret (Ref (Some p)) }
          | _ \<Rightarrow> ret v)
       }
     | _ \<Rightarrow> ret v)"

text \<open>All maps that are copied hold strings, which have no references.\<close>

definition mapOf :: copier where
  "mapOf v = (case v of
       Ref (Some a) \<Rightarrow> do {
         s \<leftarrow> State_Monad.get;
         (case gs_cell s a of
            Tab es \<Rightarrow> do { p \<leftarrow> new_cell (Tab es); ret (Ref (Some p)) }
          | _ \<Rightarrow> ret v)
       }
     | _ \<Rightarrow> ret v)"

text \<open>
  The body of a \<open>DeepCopyInto\<close>: the assignment \<open>*out = *in\<close>, then the listed fields of \<open>out\<close> are
  replaced one after the other by a copy of the field of \<open>in\<close>.
\<close>

fun copyFields :: "(string \<times> copier) list \<Rightarrow> (string \<Rightarrow> gval) \<Rightarrow> (string \<Rightarrow> gval) \<Rightarrow> (store, string \<Rightarrow> gval) state" where
  "copyFields [] fs out = ret out"
| "copyFields ((f, c) # cs) fs out = do { x \<leftarrow> c (fs f); copyFields cs fs (out(f := x)) }"

definition copyInto :: "(string \<times> copier) list \<Rightarrow> copier" where
  "copyInto cs v = (case v of
       Struct fs \<Rightarrow> do { out \<leftarrow> copyFields cs fs fs; ret (Struct out) }
     | _ \<Rightarrow> ret v)"

text \<open>\<open>DeepCopy\<close>: nil for nil, else a new struct that \<open>DeepCopyInto\<close> fills.\<close>

definition deepCopyWith :: "copier \<Rightarrow> copier" where
  "deepCopyWith into receiver = (if receiver = Ref None then ret (Ref None) else ptrTo into receiver)"

text \<open>\<open>DeepCopyObject\<close> returns the copy as an interface value, nil where there is none.\<close>

definition deepCopyObjectWith :: "copier \<Rightarrow> gval \<Rightarrow> (store, gval option) state" where
  "deepCopyObjectWith deepCopy receiver = do {
     c \<leftarrow> deepCopy receiver;
     if c \<noteq> Ref None then ret (Some c) else ret None
   }"

subsection \<open>Types, and what belongs to a value\<close>

datatype gty =
    TPrim
  | TPtr gty
  | TSlice gty
  | TMap
  | TStruct "(string \<times> gty) list"

fun well_typed :: "store \<Rightarrow> gty \<Rightarrow> gval \<Rightarrow> bool" and well_typed_fields :: "store \<Rightarrow> (string \<times> gty) list \<Rightarrow> (string \<Rightarrow> gval) \<Rightarrow> bool" where
  "well_typed s TPrim (Prim p) = True"
| "well_typed s (TPtr t) (Ref None) = True"
| "well_typed s (TPtr t) (Ref (Some a)) = (a < gs_limit s \<and> (case gs_cell s a of Var x \<Rightarrow> well_typed s t x | _ \<Rightarrow> False))"
| "well_typed s (TSlice t) (Ref None) = True"
| "well_typed s (TSlice t) (Ref (Some a)) = (a < gs_limit s \<and> (case gs_cell s a of Arr xs \<Rightarrow> \<forall>x \<in> set xs. well_typed s t x | _ \<Rightarrow> False))"
| "well_typed s TMap (Ref None) = True"
| "well_typed s TMap (Ref (Some a)) = (a < gs_limit s \<and> (case gs_cell s a of Tab es \<Rightarrow> \<forall>(k, x) \<in> set es. \<exists>p. x = Prim p | _ \<Rightarrow> False))"
| "well_typed s (TStruct ts) (Struct fs) = well_typed_fields s ts fs"
| "well_typed s t v = False"
| "well_typed_fields s [] fs = True"
| "well_typed_fields s ((f, t) # ts) fs = (well_typed s t (fs f) \<and> well_typed_fields s ts fs)"

text \<open>The data of a value, without addresses.\<close>

datatype tree =
    Leaf prim
  | NilRef
  | Behind tree
  | Elements "tree list"
  | Entries "(string \<times> gval) list"
  | Fields "(string \<times> tree) list"

fun data_of :: "store \<Rightarrow> gty \<Rightarrow> gval \<Rightarrow> tree" and data_fields :: "store \<Rightarrow> (string \<times> gty) list \<Rightarrow> (string \<Rightarrow> gval) \<Rightarrow> (string \<times> tree) list" where
  "data_of s TPrim (Prim p) = Leaf p"
| "data_of s (TPtr t) (Ref (Some a)) = (case gs_cell s a of Var x \<Rightarrow> Behind (data_of s t x) | _ \<Rightarrow> NilRef)"
| "data_of s (TSlice t) (Ref (Some a)) = (case gs_cell s a of Arr xs \<Rightarrow> Elements (map (data_of s t) xs) | _ \<Rightarrow> NilRef)"
| "data_of s TMap (Ref (Some a)) = (case gs_cell s a of Tab es \<Rightarrow> Entries es | _ \<Rightarrow> NilRef)"
| "data_of s (TStruct ts) (Struct fs) = Fields (data_fields s ts fs)"
| "data_of s t v = NilRef"
| "data_fields s [] fs = []"
| "data_fields s ((f, t) # ts) fs = (f, data_of s t (fs f)) # data_fields s ts fs"

text \<open>The cells of a value.\<close>

fun cells_of :: "store \<Rightarrow> gty \<Rightarrow> gval \<Rightarrow> nat set" and cells_fields :: "store \<Rightarrow> (string \<times> gty) list \<Rightarrow> (string \<Rightarrow> gval) \<Rightarrow> nat set" where
  "cells_of s (TPtr t) (Ref (Some a)) = insert a (case gs_cell s a of Var x \<Rightarrow> cells_of s t x | _ \<Rightarrow> {})"
| "cells_of s (TSlice t) (Ref (Some a)) = insert a (case gs_cell s a of Arr xs \<Rightarrow> (\<Union>x \<in> set xs. cells_of s t x) | _ \<Rightarrow> {})"
| "cells_of s TMap (Ref (Some a)) = {a}"
| "cells_of s (TStruct ts) (Struct fs) = cells_fields s ts fs"
| "cells_of s t v = {}"
| "cells_fields s [] fs = {}"
| "cells_fields s ((f, t) # ts) fs = cells_of s t (fs f) \<union> cells_fields s ts fs"

text \<open>Types without references.\<close>

fun flat :: "gty \<Rightarrow> bool" and flat_fields :: "(string \<times> gty) list \<Rightarrow> bool" where
  "flat TPrim = True"
| "flat (TStruct ts) = flat_fields ts"
| "flat t = False"
| "flat_fields [] = True"
| "flat_fields ((f, t) # ts) = (flat t \<and> flat_fields ts)"

subsection \<open>Framing\<close>

lemma cells_bound:
  "well_typed s t v \<Longrightarrow> cells_of s t v \<subseteq> {..< gs_limit s}"
  "well_typed_fields s ts fs \<Longrightarrow> cells_fields s ts fs \<subseteq> {..< gs_limit s}"
  by (induction s t v and s ts fs rule: well_typed_well_typed_fields.induct)
    (fastforce split: cell.splits)+

text \<open>A value depends on its cells only.\<close>

lemma value_frame:
  "well_typed s t v \<Longrightarrow> (\<And>a. a \<in> cells_of s t v \<Longrightarrow> gs_cell s' a = gs_cell s a) \<Longrightarrow> gs_limit s \<le> gs_limit s' \<Longrightarrow>
     well_typed s' t v \<and> data_of s' t v = data_of s t v \<and> cells_of s' t v = cells_of s t v"
  "well_typed_fields s ts fs \<Longrightarrow> (\<And>a. a \<in> cells_fields s ts fs \<Longrightarrow> gs_cell s' a = gs_cell s a) \<Longrightarrow> gs_limit s \<le> gs_limit s' \<Longrightarrow>
     well_typed_fields s' ts fs \<and> data_fields s' ts fs = data_fields s ts fs \<and> cells_fields s' ts fs = cells_fields s ts fs"
proof (induction s t v and s ts fs rule: well_typed_well_typed_fields.induct)
  case (3 s t a)
  then show ?case by (auto split: cell.splits)
next
  case (5 s t a)
  then show ?case by (fastforce split: cell.splits)
qed (auto split: cell.splits)

lemma flat_cells: "flat t \<Longrightarrow> cells_of s t v = {}" "flat_fields ts \<Longrightarrow> cells_fields s ts fs = {}"
  by (induction s t v and s ts fs rule: cells_of_cells_fields.induct) auto


subsection \<open>Deep copies\<close>

text \<open>A store that grew: no cell that existed has changed.\<close>

definition extends :: "store \<Rightarrow> store \<Rightarrow> bool" where
  "extends s s' \<longleftrightarrow> gs_limit s \<le> gs_limit s' \<and> (\<forall>a < gs_limit s. gs_cell s' a = gs_cell s a)"

interpretation grow: io_relation extends
  by unfold_locales (auto simp: extends_def)

lemma value_extends:
  assumes "extends s s'" and "well_typed s t v"
  shows "well_typed s' t v" "data_of s' t v = data_of s t v" "cells_of s' t v = cells_of s t v"
  using value_frame(1) [OF assms(2), of s'] cells_bound(1) [OF assms(2)] assms(1) by (auto simp: extends_def)

text \<open>\<open>copied s t v s' v'\<close>: in the grown store \<open>s'\<close>, \<open>v'\<close> has the type and the data of \<open>v\<close>, in new cells only.\<close>

definition copied :: "store \<Rightarrow> gty \<Rightarrow> gval \<Rightarrow> store \<Rightarrow> gval \<Rightarrow> bool" where
  "copied s t v s' v' \<longleftrightarrow> extends s s' \<and> well_typed s' t v' \<and> data_of s' t v' = data_of s t v \<and>
     cells_of s' t v' \<subseteq> {gs_limit s ..}"

definition deep :: "gty \<Rightarrow> copier \<Rightarrow> bool" where
  "deep t c \<longleftrightarrow> (\<forall>s v. well_typed s t v \<longrightarrow> copied s t v (snd (run_state (c v) s)) (fst (run_state (c v) s)))"

lemma deepD: "deep t c \<Longrightarrow> well_typed s t v \<Longrightarrow> run_state (c v) s = (v', s') \<Longrightarrow> copied s t v s' v'"
  by (metis deep_def fst_conv snd_conv)

lemma copied_later: "copied s t v s1 v' \<Longrightarrow> extends s1 s2 \<Longrightarrow> copied s t v s2 v'"
  using grow.R_trans value_extends by (auto simp: copied_def)

text \<open>The origin may be an older store in which the value was the same.\<close>

lemma copied_from: "copied s1 t v s2 v' \<Longrightarrow> extends s s1 \<Longrightarrow> well_typed s t v \<Longrightarrow> copied s t v s2 v'"
  using grow.R_trans value_extends by (auto simp: copied_def extends_def)

lemma deep_assigned [deep_intros]: "flat t \<Longrightarrow> deep t assigned"
  by (simp add: deep_def copied_def assigned_def flat_cells grow.R_refl)

lemma deep_mapOf [deep_intros]: "deep TMap mapOf"
proof -
  have "copied s TMap v (snd (run_state (mapOf v) s)) (fst (run_state (mapOf v) s))" if "well_typed s TMap v" for s v
    using that by (cases "(s, TMap, v)" rule: well_typed.cases)
      (auto simp: mapOf_def copied_def extends_def new_cell_def split: cell.splits)
  then show ?thesis by (simp add: deep_def)
qed

lemma copyAll_copied:
  "deep t c \<Longrightarrow> \<forall>x \<in> set xs. well_typed s t x \<Longrightarrow> run_state (copyAll c xs) s = (ys, s') \<Longrightarrow>
     extends s s' \<and> list_all2 (\<lambda>x y. copied s t x s' y) xs ys"
proof (induction xs arbitrary: s ys)
  case Nil
  then show ?case by (simp add: grow.R_refl)
next
  case (Cons x xs)
  obtain y s1 where y: "run_state (c x) s = (y, s1)" by fastforce
  obtain zs where zs: "run_state (copyAll c xs) s1 = (zs, s')" "ys = y # zs" using Cons.prems(3) y by (auto split: prod.splits)
  have x: "copied s t x s1 y" using deepD [OF Cons.prems(1) _ y] Cons.prems(2) by simp
  then have e: "extends s s1" by (simp add: copied_def)
  then have "\<forall>z \<in> set xs. well_typed s1 t z" using Cons.prems(2) value_extends(1) by auto
  from Cons.IH [OF Cons.prems(1) this zs(1)] have "extends s1 s'" "list_all2 (\<lambda>x y. copied s1 t x s' y) xs zs" by auto
  moreover from this(2) have "list_all2 (\<lambda>x y. copied s t x s' y) xs zs"
    by (rule list.rel_mono_strong) (use Cons.prems(2) e in \<open>auto intro: copied_from\<close>)
  ultimately show ?case using zs(2) x e copied_later grow.R_trans by auto
qed

text \<open>A new cell is filled while the copies behind it are made; filling it does not touch them.\<close>

definition allocated :: "cell \<Rightarrow> store \<Rightarrow> store" where
  "allocated c s = s\<lparr>gs_limit := Suc (gs_limit s), gs_cell := (gs_cell s)(gs_limit s := c)\<rparr>"

definition filled :: "nat \<Rightarrow> cell \<Rightarrow> store \<Rightarrow> store" where
  "filled p c s = s\<lparr>gs_cell := (gs_cell s)(p := c)\<rparr>"

lemma run_cells [simp]:
  "run_state (new_cell c) s = (gs_limit s, allocated c s)" "run_state (put_cell p c) s = ((), filled p c s)"
  by (simp_all add: new_cell_def put_cell_def allocated_def filled_def)

lemma cells_simps [simp]:
  "gs_limit (allocated c s) = Suc (gs_limit s)" "gs_cell (filled p c s) = (gs_cell s)(p := c)" "gs_limit (filled p c s) = gs_limit s"
  by (simp_all add: allocated_def filled_def)

lemma extends_allocated: "extends s (allocated c s)"
  by (simp add: extends_def allocated_def)

lemma extends_filled: "extends (allocated c s) s' \<Longrightarrow> extends s (filled (gs_limit s) d s')"
  by (auto simp: extends_def allocated_def filled_def)

lemma copied_filled:
  assumes "copied (allocated c s) t x s' y" and "well_typed s t x"
  shows "well_typed (filled (gs_limit s) d s') t y \<and> data_of (filled (gs_limit s) d s') t y = data_of s t x \<and>
    cells_of (filled (gs_limit s) d s') t y \<subseteq> {gs_limit s ..}"
proof -
  have wt: "well_typed s' t y" and cs: "cells_of s' t y \<subseteq> {Suc (gs_limit s) ..}" and d: "data_of s' t y = data_of s t x"
    using assms value_extends(2) [OF extends_allocated assms(2)] by (auto simp: copied_def)
  have "gs_cell (filled (gs_limit s) d s') a = gs_cell s' a" if "a \<in> cells_of s' t y" for a using cs that by auto
  from value_frame(1) [OF wt this] cs d show ?thesis by fastforce
qed

lemma deep_ptrTo [deep_intros]:
  assumes "deep t c"
  shows "deep (TPtr t) (ptrTo c)"
proof -
  have "copied s (TPtr t) v (snd (run_state (ptrTo c v) s)) (fst (run_state (ptrTo c v) s))" if wt: "well_typed s (TPtr t) v" for s v
  proof (cases "v = Ref None")
    case True
    then show ?thesis by (simp add: ptrTo_def copied_def grow.R_refl)
  next
    case False
    then obtain a where v: "v = Ref (Some a)" using wt by (cases "(s, TPtr t, v)" rule: well_typed.cases) auto
    with wt obtain x where x: "gs_cell s a = Var x" "well_typed s t x" by (auto split: cell.splits)
    obtain y s' where y: "run_state (c x) (allocated (Var x) s) = (y, s')" by fastforce
    have c: "copied (allocated (Var x) s) t x s' y"
      using deepD [OF assms value_extends(1) [OF extends_allocated x(2)] y] .
    then have e: "extends (allocated (Var x) s) s'" by (simp add: copied_def)
    from copied_filled [OF c x(2), of "Var y"] extends_filled [OF e, of "Var y"] e show ?thesis
      by (simp add: v ptrTo_def x y copied_def) (simp add: extends_def)
  qed
  then show ?thesis by (simp add: deep_def)
qed

lemma deep_sliceOf [deep_intros]:
  assumes "deep t c"
  shows "deep (TSlice t) (sliceOf c)"
proof -
  have "copied s (TSlice t) v (snd (run_state (sliceOf c v) s)) (fst (run_state (sliceOf c v) s))" if wt: "well_typed s (TSlice t) v" for s v
  proof (cases "v = Ref None")
    case True
    then show ?thesis by (simp add: sliceOf_def copied_def grow.R_refl)
  next
    case False
    then obtain a where v: "v = Ref (Some a)" using wt by (cases "(s, TSlice t, v)" rule: well_typed.cases) auto
    with wt obtain xs where x: "gs_cell s a = Arr xs" "\<forall>x \<in> set xs. well_typed s t x" by (auto split: cell.splits)
    obtain ys s' where y: "run_state (copyAll c xs) (allocated (Arr xs) s) = (ys, s')" by fastforce
    have "\<forall>x \<in> set xs. well_typed (allocated (Arr xs) s) t x" using x(2) value_extends(1) [OF extends_allocated] by blast
    from copyAll_copied [OF assms this y] have e: "extends (allocated (Arr xs) s) s'"
      and c: "list_all2 (\<lambda>x y. copied (allocated (Arr xs) s) t x s' y) xs ys" by auto
    define s3 where "s3 = filled (gs_limit s) (Arr ys) s'"
    have "list_all2 (\<lambda>x y. well_typed s3 t y \<and> data_of s3 t y = data_of s t x \<and> cells_of s3 t y \<subseteq> {gs_limit s ..}) xs ys"
      using c unfolding s3_def by (rule list.rel_mono_strong) (use x(2) in \<open>blast dest: copied_filled\<close>)
    then have "map (data_of s3 t) ys = map (data_of s t) xs" and "\<forall>y \<in> set ys. well_typed s3 t y \<and> cells_of s3 t y \<subseteq> {gs_limit s ..}"
      by (induction rule: list_all2_induct) auto
    with extends_filled [OF e, of "Arr ys"] e show ?thesis
      by (simp add: v sliceOf_def x y copied_def UN_subset_iff s3_def) (simp add: extends_def)
  qed
  then show ?thesis by (simp add: deep_def)
qed

subsection \<open>Structs\<close>

lemma fields_iff:
  "well_typed_fields s ts fs \<longleftrightarrow> (\<forall>(f, t) \<in> set ts. well_typed s t (fs f))"
  "data_fields s ts fs = map (\<lambda>(f, t). (f, data_of s t (fs f))) ts"
  "cells_fields s ts fs = (\<Union>(f, t) \<in> set ts. cells_of s t (fs f))"
  by (induction ts) auto

text \<open>The statements for the fields \<open>cs\<close> of a struct: those fields are copied, the others keep their values.\<close>

lemma copyFields_copied:
  assumes "distinct (map fst cs)" and "\<forall>(f, c) \<in> set cs. well_typed s (ty f) (fs f) \<and> deep (ty f) c"
    and "run_state (copyFields cs fs out) s = (out', s')"
  shows "extends s s' \<and> (\<forall>f. if f \<in> fst ` set cs then copied s (ty f) (fs f) s' (out' f) else out' f = out f)"
  using assms
proof (induction cs arbitrary: s out)
  case Nil
  then show ?case by (simp add: grow.R_refl)
next
  case (Cons p cs)
  obtain f c where p: "p = (f, c)" by fastforce
  obtain x s1 where x: "run_state (c (fs f)) s = (x, s1)" by fastforce
  with Cons.prems(2) p have c: "copied s (ty f) (fs f) s1 x" by (auto intro: deepD)
  then have e: "extends s s1" by (simp add: copied_def)
  have "\<forall>(g, d) \<in> set cs. well_typed s1 (ty g) (fs g) \<and> deep (ty g) d" using Cons.prems(2) value_extends(1) [OF e] by auto
  moreover have "distinct (map fst cs)" "run_state (copyFields cs fs (out(f := x))) s1 = (out', s')"
    using Cons.prems(1,3) p x by simp_all
  ultimately have r: "extends s1 s'" "\<And>g. if g \<in> fst ` set cs then copied s1 (ty g) (fs g) s' (out' g) else out' g = (out(f := x)) g"
    using Cons.IH by blast+
  have "copied s (ty g) (fs g) s' (out' g)" if "g \<in> fst ` set cs" for g
    using r(2) [of g] that Cons.prems(2) by (auto intro!: copied_from [OF _ e])
  moreover have "f \<notin> fst ` set cs" using Cons.prems(1) p by auto
  ultimately show ?case using r c grow.R_trans [OF e r(1)] copied_later p by (auto split: if_splits)
qed

lemma deep_struct:
  assumes "distinct (map fst cs)" and "distinct (map fst ts)"
    and "\<forall>(f, c) \<in> set cs. \<exists>t. map_of ts f = Some t \<and> deep t c" and "\<forall>(f, t) \<in> set ts. f \<notin> fst ` set cs \<longrightarrow> flat t"
  shows "deep (TStruct ts) (copyInto cs)"
proof -
  have "copied s (TStruct ts) v (snd (run_state (copyInto cs v) s)) (fst (run_state (copyInto cs v) s))" if wt: "well_typed s (TStruct ts) v" for s v
  proof -
    obtain fs where v: "v = Struct fs" and fs: "\<forall>(f, t) \<in> set ts. well_typed s t (fs f)"
      using wt by (cases "(s, TStruct ts, v)" rule: well_typed.cases) (auto simp: fields_iff)
    define ty where "ty f = the (map_of ts f)" for f
    have ty: "ty f = t" if "(f, t) \<in> set ts" for f t using assms(2) that by (simp add: ty_def)
    have mem: "\<forall>(f, c) \<in> set cs. (f, ty f) \<in> set ts \<and> deep (ty f) c" using assms(3) by (fastforce simp: ty_def dest: map_of_SomeD)
    obtain out s' where out: "run_state (copyFields cs fs fs) s = (out, s')" by fastforce
    have "\<forall>(f, c) \<in> set cs. well_typed s (ty f) (fs f) \<and> deep (ty f) c" using mem fs by fastforce
    from copyFields_copied [OF assms(1) this out] have e: "extends s s'"
      and c: "\<And>f. if f \<in> fst ` set cs then copied s (ty f) (fs f) s' (out f) else out f = fs f" by auto
    have "copied s t (fs f) s' (out f)" if "(f, t) \<in> set ts" for f t
    proof (cases "f \<in> fst ` set cs")
      case False
      then have "flat t" "well_typed s t (fs f)" "out f = fs f" using assms(4) fs that c [of f] by auto
      then show ?thesis using e value_extends [OF e, of t "fs f"] by (simp add: copied_def flat_cells)
    qed (use c [of f] ty [OF that] in auto)
    then show ?thesis using e by (fastforce simp: v copyInto_def out copied_def fields_iff)
  qed
  then show ?thesis by (simp add: deep_def)
qed

lemma deepCopyWith_ptrTo: "deepCopyWith c = ptrTo c"
  by (auto simp: fun_eq_iff deepCopyWith_def ptrTo_def)

lemma deep_deepCopyWith: "deep t c \<Longrightarrow> deep (TPtr t) (deepCopyWith c)"
  using deep_ptrTo [of t c] by (simp add: deepCopyWith_ptrTo)

subsection \<open>What a deep copy is for\<close>

text \<open>The receiver and the copy share no cell, and writing to a cell of the copy does not change the receiver.\<close>

lemma deep_copy_independent:
  assumes "deep t c" and "well_typed s t v" and "run_state (c v) s = (v', s')"
  shows "cells_of s' t v \<inter> cells_of s' t v' = {}"
    and "a \<in> cells_of s' t v' \<Longrightarrow> data_of (filled a d s') t v = data_of s t v"
    and "a \<in> cells_of s' t v \<Longrightarrow> data_of (filled a d s') t v' = data_of s t v"
proof -
  have c: "copied s t v s' v'" using deepD [OF assms] .
  then have e: "extends s s'" by (simp add: copied_def)
  show disj: "cells_of s' t v \<inter> cells_of s' t v' = {}"
    using c cells_bound(1) [OF assms(2)] unfolding copied_def value_extends(3) [OF e assms(2)] by fastforce
  have "data_of (filled a d s') t v' = data_of s t v" if "a \<in> cells_of s' t v"
  proof -
    have "gs_cell (filled a d s') b = gs_cell s' b" if "b \<in> cells_of s' t v'" for b using that disj \<open>a \<in> _\<close> by auto
    from value_frame(1) [of s' t v', OF _ this] c show ?thesis by (simp add: copied_def)
  qed
  then show "a \<in> cells_of s' t v \<Longrightarrow> data_of (filled a d s') t v' = data_of s t v" .
  assume "a \<in> cells_of s' t v'"
  with disj have "gs_cell (filled a d s') b = gs_cell s' b" if "b \<in> cells_of s' t v" for b using that by auto
  from value_frame(1) [OF value_extends(1) [OF e assms(2)] this] value_extends(2) [OF e assms(2)]
  show "data_of (filled a d s') t v = data_of s t v" by simp
qed

text \<open>\<open>DeepCopyObject\<close> returns the deep copy of every object that is not nil.\<close>

lemma deepCopyObject_copied:
  assumes "deep (TPtr t) c" and "well_typed s (TPtr t) (Ref (Some a))"
  shows "\<exists>v s'. run_state (deepCopyObjectWith c (Ref (Some a))) s = (Some v, s') \<and> run_state (c (Ref (Some a))) s = (v, s') \<and>
    copied s (TPtr t) (Ref (Some a)) s' v"
proof -
  obtain v s' where run: "run_state (c (Ref (Some a))) s = (v, s')" by fastforce
  have c: "copied s (TPtr t) (Ref (Some a)) s' v" using deepD [OF assms run] .
  then have "v \<noteq> Ref None" using assms(2) by (auto simp: copied_def split: cell.splits)
  with run c show ?thesis by (simp add: deepCopyObjectWith_def)
qed

end
