(* ===== verification/DeepCopy.thy ===== *)
theory DeepCopy
  imports GoMemory
begin

text \<open>
  The generated copy functions of \<open>api/v1/zz_generated.deepcopy.go\<close>, on the memory of theory GoMemory. Every
  struct of the package has a type, translated from its declaration, and the functions \<open>DeepCopyInto\<close> and
  \<open>DeepCopy\<close>, translated from the generated file statement by statement. The lemmas relate the two: each
  function copies every reference of its type, which is what goes wrong when a field is added and the
  functions are not generated again. Struct types of other packages are parameters.
\<close>

subsection \<open>Types of other packages\<close>

text \<open>
  The structs of the Kubernetes packages that the resources contain, each with its type and with its own copy
  function. The documented behaviour: the copy functions are deep, and the types that Go code may copy by
  assignment hold no references.
\<close>

record external_types =
  xt_type :: "string \<Rightarrow> gty"
  xt_copy :: "string \<Rightarrow> copier"

definition copied_types :: "string list" where
  "copied_types = [''corev1.Affinity'', ''corev1.EnvVar'', ''corev1.PersistentVolumeClaimSpec'', ''corev1.ResourceRequirements'',
     ''corev1.Toleration'', ''corev1.Volume'', ''corev1.VolumeMount'', ''metav1.Condition'', ''metav1.ListMeta'',
     ''metav1.ObjectMeta'', ''resource.Quantity'']"

definition assigned_types :: "string list" where
  "assigned_types = [''corev1.LocalObjectReference'', ''corev1.ServiceType'', ''metav1.TypeMeta'']"

definition external_ok :: "external_types \<Rightarrow> bool" where
  "external_ok X \<longleftrightarrow> (\<forall>n \<in> set copied_types. deep (xt_type X n) (xt_copy X n)) \<and> (\<forall>n \<in> set assigned_types. flat (xt_type X n))"

subsection \<open>Types and copy functions\<close>

text \<open>In the order of use: a struct comes after the structs it contains.\<close>

definition BundleBootstrapSpec_type :: "external_types \<Rightarrow> gty" where
  "BundleBootstrapSpec_type X = TStruct [(''SnapshotPrimaryMedium'', TPtr TPrim), (''ChangelogPrimaryMedium'', TPtr TPrim),
     (''TabletCellCount'', TPrim)]"

definition BundleBootstrapSpec_DeepCopyInto :: "external_types \<Rightarrow> copier" where
  "BundleBootstrapSpec_DeepCopyInto X = copyInto [(''SnapshotPrimaryMedium'', ptrTo assigned),
     (''ChangelogPrimaryMedium'', ptrTo assigned)]"

definition BundleBootstrapSpec_DeepCopy :: "external_types \<Rightarrow> copier" where
  "BundleBootstrapSpec_DeepCopy X = deepCopyWith (BundleBootstrapSpec_DeepCopyInto X)"

definition CRIJobEnvironmentSpec_type :: "external_types \<Rightarrow> gty" where
  "CRIJobEnvironmentSpec_type X = TStruct [(''EntrypointWrapper'', TSlice TPrim), (''SandboxImage'', TPtr TPrim),
     (''APIRetryTimeoutSeconds'', TPtr TPrim), (''CRINamespace'', TPtr TPrim), (''BaseCgroup'', TPtr TPrim),
     (''RegistryConfigPath'', TPtr TPrim), (''ImageSizeEstimation'', TPtr TPrim), (''ImageCompressionRatioEstimation'', TPtr TPrim),
     (''AlwaysPullLatestImage'', TPtr TPrim), (''ImagePullPeriodSeconds'', TPtr TPrim)]"

definition CRIJobEnvironmentSpec_DeepCopyInto :: "external_types \<Rightarrow> copier" where
  "CRIJobEnvironmentSpec_DeepCopyInto X = copyInto [(''EntrypointWrapper'', sliceOf assigned), (''SandboxImage'', ptrTo assigned),
     (''APIRetryTimeoutSeconds'', ptrTo assigned), (''CRINamespace'', ptrTo assigned), (''BaseCgroup'', ptrTo assigned),
     (''RegistryConfigPath'', ptrTo assigned), (''ImageSizeEstimation'', ptrTo assigned),
     (''ImageCompressionRatioEstimation'', ptrTo assigned), (''AlwaysPullLatestImage'', ptrTo assigned),
     (''ImagePullPeriodSeconds'', ptrTo assigned)]"

definition CRIJobEnvironmentSpec_DeepCopy :: "external_types \<Rightarrow> copier" where
  "CRIJobEnvironmentSpec_DeepCopy X = deepCopyWith (CRIJobEnvironmentSpec_DeepCopyInto X)"

definition CategoriesFilter_type :: "external_types \<Rightarrow> gty" where
  "CategoriesFilter_type X = TStruct [(''Type'', TPrim), (''Values'', TSlice TPrim)]"

definition CategoriesFilter_DeepCopyInto :: "external_types \<Rightarrow> copier" where
  "CategoriesFilter_DeepCopyInto X = copyInto [(''Values'', sliceOf assigned)]"

definition CategoriesFilter_DeepCopy :: "external_types \<Rightarrow> copier" where
  "CategoriesFilter_DeepCopy X = deepCopyWith (CategoriesFilter_DeepCopyInto X)"

definition ChytSpec_type :: "external_types \<Rightarrow> gty" where
  "ChytSpec_type X = TStruct [(''ImagePullSecrets'', TSlice (xt_type X ''corev1.LocalObjectReference'')),
     (''Ytsaurus'', TPtr (xt_type X ''corev1.LocalObjectReference'')), (''Image'', TPrim), (''MakeDefault'', TPrim)]"

definition ChytSpec_DeepCopyInto :: "external_types \<Rightarrow> copier" where
  "ChytSpec_DeepCopyInto X = copyInto [(''ImagePullSecrets'', sliceOf assigned), (''Ytsaurus'', ptrTo assigned)]"

definition ChytSpec_DeepCopy :: "external_types \<Rightarrow> copier" where
  "ChytSpec_DeepCopy X = deepCopyWith (ChytSpec_DeepCopyInto X)"

definition ChytStatus_type :: "external_types \<Rightarrow> gty" where
  "ChytStatus_type X = TStruct [(''Conditions'', TSlice (xt_type X ''metav1.Condition'')), (''ReleaseStatus'', TPrim)]"

definition ChytStatus_DeepCopyInto :: "external_types \<Rightarrow> copier" where
  "ChytStatus_DeepCopyInto X = copyInto [(''Conditions'', sliceOf (xt_copy X ''metav1.Condition''))]"

definition ChytStatus_DeepCopy :: "external_types \<Rightarrow> copier" where
  "ChytStatus_DeepCopy X = deepCopyWith (ChytStatus_DeepCopyInto X)"

definition ClusterNodesSpec_type :: "external_types \<Rightarrow> gty" where
  "ClusterNodesSpec_type X = TStruct [(''Tags'', TSlice TPrim), (''Rack'', TPrim)]"

definition ClusterNodesSpec_DeepCopyInto :: "external_types \<Rightarrow> copier" where
  "ClusterNodesSpec_DeepCopyInto X = copyInto [(''Tags'', sliceOf assigned)]"

definition ClusterNodesSpec_DeepCopy :: "external_types \<Rightarrow> copier" where
  "ClusterNodesSpec_DeepCopy X = deepCopyWith (ClusterNodesSpec_DeepCopyInto X)"

definition DeprecatedSpytSpec_type :: "external_types \<Rightarrow> gty" where
  "DeprecatedSpytSpec_type X = TStruct [(''SparkVersion'', TPrim), (''SpytVersion'', TPrim)]"

definition DeprecatedSpytSpec_DeepCopyInto :: "external_types \<Rightarrow> copier" where
  "DeprecatedSpytSpec_DeepCopyInto X = copyInto []"

definition DeprecatedSpytSpec_DeepCopy :: "external_types \<Rightarrow> copier" where
  "DeprecatedSpytSpec_DeepCopy X = deepCopyWith (DeprecatedSpytSpec_DeepCopyInto X)"

definition EmbeddedObjectMetadata_type :: "external_types \<Rightarrow> gty" where
  "EmbeddedObjectMetadata_type X = TStruct [(''Name'', TPrim), (''Labels'', TMap), (''Annotations'', TMap)]"

definition EmbeddedObjectMetadata_DeepCopyInto :: "external_types \<Rightarrow> copier" where
  "EmbeddedObjectMetadata_DeepCopyInto X = copyInto [(''Labels'', mapOf), (''Annotations'', mapOf)]"

definition EmbeddedObjectMetadata_DeepCopy :: "external_types \<Rightarrow> copier" where
  "EmbeddedObjectMetadata_DeepCopy X = deepCopyWith (EmbeddedObjectMetadata_DeepCopyInto X)"

definition HTTPTransportSpec_type :: "external_types \<Rightarrow> gty" where
  "HTTPTransportSpec_type X = TStruct [(''HTTPSSecret'', TPtr (xt_type X ''corev1.LocalObjectReference'')),
     (''DisableHTTP'', TPrim)]"

definition HTTPTransportSpec_DeepCopyInto :: "external_types \<Rightarrow> copier" where
  "HTTPTransportSpec_DeepCopyInto X = copyInto [(''HTTPSSecret'', ptrTo assigned)]"

definition HTTPTransportSpec_DeepCopy :: "external_types \<Rightarrow> copier" where
  "HTTPTransportSpec_DeepCopy X = deepCopyWith (HTTPTransportSpec_DeepCopyInto X)"

definition HealthcheckProbeParams_type :: "external_types \<Rightarrow> gty" where
  "HealthcheckProbeParams_type X = TStruct [(''InitialDelaySeconds'', TPrim), (''TimeoutSeconds'', TPrim),
     (''PeriodSeconds'', TPrim), (''SuccessThreshold'', TPrim), (''FailureThreshold'', TPrim)]"

definition HealthcheckProbeParams_DeepCopyInto :: "external_types \<Rightarrow> copier" where
  "HealthcheckProbeParams_DeepCopyInto X = copyInto []"

definition HealthcheckProbeParams_DeepCopy :: "external_types \<Rightarrow> copier" where
  "HealthcheckProbeParams_DeepCopy X = deepCopyWith (HealthcheckProbeParams_DeepCopyInto X)"

definition LocationSpec_type :: "external_types \<Rightarrow> gty" where
  "LocationSpec_type X = TStruct [(''LocationType'', TPrim), (''Path'', TPrim), (''Medium'', TPrim),
     (''Quota'', TPtr (xt_type X ''resource.Quantity'')), (''LowWatermark'', TPtr (xt_type X ''resource.Quantity'')),
     (''MaxTrashMilliseconds'', TPtr TPrim)]"

definition LocationSpec_DeepCopyInto :: "external_types \<Rightarrow> copier" where
  "LocationSpec_DeepCopyInto X = copyInto [(''Quota'', ptrTo (xt_copy X ''resource.Quantity'')),
     (''LowWatermark'', ptrTo (xt_copy X ''resource.Quantity'')), (''MaxTrashMilliseconds'', ptrTo assigned)]"

definition LocationSpec_DeepCopy :: "external_types \<Rightarrow> copier" where
  "LocationSpec_DeepCopy X = deepCopyWith (LocationSpec_DeepCopyInto X)"

definition LogRotationPolicy_type :: "external_types \<Rightarrow> gty" where
  "LogRotationPolicy_type X = TStruct [(''RotationPeriodMilliseconds'', TPtr TPrim),
     (''MaxSegmentSize'', TPtr (xt_type X ''resource.Quantity'')), (''MaxTotalSizeToKeep'', TPtr (xt_type X ''resource.Quantity'')),
     (''MaxSegmentCountToKeep'', TPtr TPrim)]"

definition LogRotationPolicy_DeepCopyInto :: "external_types \<Rightarrow> copier" where
  "LogRotationPolicy_DeepCopyInto X = copyInto [(''RotationPeriodMilliseconds'', ptrTo assigned),
     (''MaxSegmentSize'', ptrTo (xt_copy X ''resource.Quantity'')),
     (''MaxTotalSizeToKeep'', ptrTo (xt_copy X ''resource.Quantity'')), (''MaxSegmentCountToKeep'', ptrTo assigned)]"

definition LogRotationPolicy_DeepCopy :: "external_types \<Rightarrow> copier" where
  "LogRotationPolicy_DeepCopy X = deepCopyWith (LogRotationPolicy_DeepCopyInto X)"

definition MasterCachesConnectionSpec_type :: "external_types \<Rightarrow> gty" where
  "MasterCachesConnectionSpec_type X = TStruct [(''CellTag'', TPrim), (''HostAddresses'', TSlice TPrim)]"

definition MasterCachesConnectionSpec_DeepCopyInto :: "external_types \<Rightarrow> copier" where
  "MasterCachesConnectionSpec_DeepCopyInto X = copyInto [(''HostAddresses'', sliceOf assigned)]"

definition MasterCachesConnectionSpec_DeepCopy :: "external_types \<Rightarrow> copier" where
  "MasterCachesConnectionSpec_DeepCopy X = deepCopyWith (MasterCachesConnectionSpec_DeepCopyInto X)"

definition MasterConnectionSpec_type :: "external_types \<Rightarrow> gty" where
  "MasterConnectionSpec_type X = TStruct [(''CellTag'', TPrim), (''HostAddresses'', TSlice TPrim)]"

definition MasterConnectionSpec_DeepCopyInto :: "external_types \<Rightarrow> copier" where
  "MasterConnectionSpec_DeepCopyInto X = copyInto [(''HostAddresses'', sliceOf assigned)]"

definition MasterConnectionSpec_DeepCopy :: "external_types \<Rightarrow> copier" where
  "MasterConnectionSpec_DeepCopy X = deepCopyWith (MasterConnectionSpec_DeepCopyInto X)"

definition OauthUserInfoHandlerSpec_type :: "external_types \<Rightarrow> gty" where
  "OauthUserInfoHandlerSpec_type X = TStruct [(''Endpoint'', TPrim), (''LoginField'', TPrim), (''ErrorField'', TPtr TPrim)]"

definition OauthUserInfoHandlerSpec_DeepCopyInto :: "external_types \<Rightarrow> copier" where
  "OauthUserInfoHandlerSpec_DeepCopyInto X = copyInto [(''ErrorField'', ptrTo assigned)]"

definition OauthUserInfoHandlerSpec_DeepCopy :: "external_types \<Rightarrow> copier" where
  "OauthUserInfoHandlerSpec_DeepCopy X = deepCopyWith (OauthUserInfoHandlerSpec_DeepCopyInto X)"

definition RPCTransportSpec_type :: "external_types \<Rightarrow> gty" where
  "RPCTransportSpec_type X = TStruct [(''TLSSecret'', TPtr (xt_type X ''corev1.LocalObjectReference'')), (''TLSRequired'', TPrim),
     (''TLSInsecure'', TPrim), (''TLSPeerAlternativeHostName'', TPrim)]"

definition RPCTransportSpec_DeepCopyInto :: "external_types \<Rightarrow> copier" where
  "RPCTransportSpec_DeepCopyInto X = copyInto [(''TLSSecret'', ptrTo assigned)]"

definition RPCTransportSpec_DeepCopy :: "external_types \<Rightarrow> copier" where
  "RPCTransportSpec_DeepCopy X = deepCopyWith (RPCTransportSpec_DeepCopyInto X)"

definition RemoteExecNodesStatus_type :: "external_types \<Rightarrow> gty" where
  "RemoteExecNodesStatus_type X = TStruct [(''ReleaseStatus'', TPrim)]"

definition RemoteExecNodesStatus_DeepCopyInto :: "external_types \<Rightarrow> copier" where
  "RemoteExecNodesStatus_DeepCopyInto X = copyInto []"

definition RemoteExecNodesStatus_DeepCopy :: "external_types \<Rightarrow> copier" where
  "RemoteExecNodesStatus_DeepCopy X = deepCopyWith (RemoteExecNodesStatus_DeepCopyInto X)"

definition RemoteYtsaurusStatus_type :: "external_types \<Rightarrow> gty" where
  "RemoteYtsaurusStatus_type X = TStruct []"

definition RemoteYtsaurusStatus_DeepCopyInto :: "external_types \<Rightarrow> copier" where
  "RemoteYtsaurusStatus_DeepCopyInto X = copyInto []"

definition RemoteYtsaurusStatus_DeepCopy :: "external_types \<Rightarrow> copier" where
  "RemoteYtsaurusStatus_DeepCopy X = deepCopyWith (RemoteYtsaurusStatus_DeepCopyInto X)"

definition SpytSpec_type :: "external_types \<Rightarrow> gty" where
  "SpytSpec_type X = TStruct [(''ImagePullSecrets'', TSlice (xt_type X ''corev1.LocalObjectReference'')),
     (''Ytsaurus'', TPtr (xt_type X ''corev1.LocalObjectReference'')), (''Image'', TPrim)]"

definition SpytSpec_DeepCopyInto :: "external_types \<Rightarrow> copier" where
  "SpytSpec_DeepCopyInto X = copyInto [(''ImagePullSecrets'', sliceOf assigned), (''Ytsaurus'', ptrTo assigned)]"

definition SpytSpec_DeepCopy :: "external_types \<Rightarrow> copier" where
  "SpytSpec_DeepCopy X = deepCopyWith (SpytSpec_DeepCopyInto X)"

definition SpytStatus_type :: "external_types \<Rightarrow> gty" where
  "SpytStatus_type X = TStruct [(''Conditions'', TSlice (xt_type X ''metav1.Condition'')), (''ReleaseStatus'', TPrim)]"

definition SpytStatus_DeepCopyInto :: "external_types \<Rightarrow> copier" where
  "SpytStatus_DeepCopyInto X = copyInto [(''Conditions'', sliceOf (xt_copy X ''metav1.Condition''))]"

definition SpytStatus_DeepCopy :: "external_types \<Rightarrow> copier" where
  "SpytStatus_DeepCopy X = deepCopyWith (SpytStatus_DeepCopyInto X)"

definition StrawberryControllerSpec_type :: "external_types \<Rightarrow> gty" where
  "StrawberryControllerSpec_type X = TStruct [(''Resources'', xt_type X ''corev1.ResourceRequirements''), (''Image'', TPtr TPrim)]"

definition StrawberryControllerSpec_DeepCopyInto :: "external_types \<Rightarrow> copier" where
  "StrawberryControllerSpec_DeepCopyInto X = copyInto [(''Resources'', xt_copy X ''corev1.ResourceRequirements''),
     (''Image'', ptrTo assigned)]"

definition StrawberryControllerSpec_DeepCopy :: "external_types \<Rightarrow> copier" where
  "StrawberryControllerSpec_DeepCopy X = deepCopyWith (StrawberryControllerSpec_DeepCopyInto X)"

definition TabletCellBundleInfo_type :: "external_types \<Rightarrow> gty" where
  "TabletCellBundleInfo_type X = TStruct [(''Name'', TPrim), (''TabletCellCount'', TPrim)]"

definition TabletCellBundleInfo_DeepCopyInto :: "external_types \<Rightarrow> copier" where
  "TabletCellBundleInfo_DeepCopyInto X = copyInto []"

definition TabletCellBundleInfo_DeepCopy :: "external_types \<Rightarrow> copier" where
  "TabletCellBundleInfo_DeepCopy X = deepCopyWith (TabletCellBundleInfo_DeepCopyInto X)"

definition UISpec_type :: "external_types \<Rightarrow> gty" where
  "UISpec_type X = TStruct [(''Image'', TPtr TPrim), (''ServiceType'', xt_type X ''corev1.ServiceType''),
     (''HttpNodePort'', TPtr TPrim), (''UseInsecureCookies'', TPrim), (''Secure'', TPrim),
     (''Resources'', xt_type X ''corev1.ResourceRequirements''), (''InstanceCount'', TPrim), (''ExternalProxy'', TPtr TPrim),
     (''OdinBaseUrl'', TPtr TPrim), (''ExtraEnvVariables'', TSlice (xt_type X ''corev1.EnvVar'')), (''Environment'', TPrim),
     (''Theme'', TPrim), (''Description'', TPtr TPrim), (''Group'', TPtr TPrim), (''DirectDownload'', TPtr TPrim)]"

definition UISpec_DeepCopyInto :: "external_types \<Rightarrow> copier" where
  "UISpec_DeepCopyInto X = copyInto [(''Image'', ptrTo assigned), (''HttpNodePort'', ptrTo assigned),
     (''Resources'', xt_copy X ''corev1.ResourceRequirements''), (''ExternalProxy'', ptrTo assigned),
     (''OdinBaseUrl'', ptrTo assigned), (''ExtraEnvVariables'', sliceOf (xt_copy X ''corev1.EnvVar'')),
     (''Description'', ptrTo assigned), (''Group'', ptrTo assigned), (''DirectDownload'', ptrTo assigned)]"

definition UISpec_DeepCopy :: "external_types \<Rightarrow> copier" where
  "UISpec_DeepCopy X = deepCopyWith (UISpec_DeepCopyInto X)"

definition BaseLoggerSpec_type :: "external_types \<Rightarrow> gty" where
  "BaseLoggerSpec_type X = TStruct [(''Name'', TPrim), (''Format'', TPrim), (''MinLogLevel'', TPrim), (''Compression'', TPrim),
     (''UseTimestampSuffix'', TPrim), (''RotationPolicy'', TPtr (LogRotationPolicy_type X))]"

definition BaseLoggerSpec_DeepCopyInto :: "external_types \<Rightarrow> copier" where
  "BaseLoggerSpec_DeepCopyInto X = copyInto [(''RotationPolicy'', ptrTo (LogRotationPolicy_DeepCopyInto X))]"

definition BaseLoggerSpec_DeepCopy :: "external_types \<Rightarrow> copier" where
  "BaseLoggerSpec_DeepCopy X = deepCopyWith (BaseLoggerSpec_DeepCopyInto X)"

definition BundlesBootstrapSpec_type :: "external_types \<Rightarrow> gty" where
  "BundlesBootstrapSpec_type X = TStruct [(''Sys'', TPtr (BundleBootstrapSpec_type X)),
     (''Default'', TPtr (BundleBootstrapSpec_type X))]"

definition BundlesBootstrapSpec_DeepCopyInto :: "external_types \<Rightarrow> copier" where
  "BundlesBootstrapSpec_DeepCopyInto X = copyInto [(''Sys'', ptrTo (BundleBootstrapSpec_DeepCopyInto X)),
     (''Default'', ptrTo (BundleBootstrapSpec_DeepCopyInto X))]"

definition BundlesBootstrapSpec_DeepCopy :: "external_types \<Rightarrow> copier" where
  "BundlesBootstrapSpec_DeepCopy X = deepCopyWith (BundlesBootstrapSpec_DeepCopyInto X)"

definition Chyt_type :: "external_types \<Rightarrow> gty" where
  "Chyt_type X = TStruct [(''TypeMeta'', xt_type X ''metav1.TypeMeta''), (''ObjectMeta'', xt_type X ''metav1.ObjectMeta''),
     (''Spec'', ChytSpec_type X), (''Status'', ChytStatus_type X)]"

definition Chyt_DeepCopyInto :: "external_types \<Rightarrow> copier" where
  "Chyt_DeepCopyInto X = copyInto [(''TypeMeta'', assigned), (''ObjectMeta'', xt_copy X ''metav1.ObjectMeta''),
     (''Spec'', ChytSpec_DeepCopyInto X), (''Status'', ChytStatus_DeepCopyInto X)]"

definition Chyt_DeepCopy :: "external_types \<Rightarrow> copier" where
  "Chyt_DeepCopy X = deepCopyWith (Chyt_DeepCopyInto X)"

definition Chyt_DeepCopyObject :: "external_types \<Rightarrow> gval \<Rightarrow> (store, gval option) state" where
  "Chyt_DeepCopyObject X = deepCopyObjectWith (Chyt_DeepCopy X)"

definition CommonSpec_type :: "external_types \<Rightarrow> gty" where
  "CommonSpec_type X = TStruct [(''CoreImage'', TPrim), (''JobImage'', TPtr TPrim),
     (''CABundle'', TPtr (xt_type X ''corev1.LocalObjectReference'')), (''NativeTransport'', TPtr (RPCTransportSpec_type X)),
     (''EphemeralCluster'', TPrim), (''UseIPv6'', TPrim), (''UseIPv4'', TPrim), (''KeepSocket'', TPtr TPrim),
     (''ForceTCP'', TPtr TPrim), (''UseShortNames'', TPrim), (''HostNetwork'', TPrim), (''UsePorto'', TPrim),
     (''ExtraPodAnnotations'', TMap), (''ConfigOverrides'', TPtr (xt_type X ''corev1.LocalObjectReference'')),
     (''ImagePullSecrets'', TSlice (xt_type X ''corev1.LocalObjectReference''))]"

definition CommonSpec_DeepCopyInto :: "external_types \<Rightarrow> copier" where
  "CommonSpec_DeepCopyInto X = copyInto [(''JobImage'', ptrTo assigned), (''CABundle'', ptrTo assigned),
     (''NativeTransport'', ptrTo (RPCTransportSpec_DeepCopyInto X)), (''KeepSocket'', ptrTo assigned),
     (''ForceTCP'', ptrTo assigned), (''ExtraPodAnnotations'', mapOf), (''ConfigOverrides'', ptrTo assigned),
     (''ImagePullSecrets'', sliceOf assigned)]"

definition CommonSpec_DeepCopy :: "external_types \<Rightarrow> copier" where
  "CommonSpec_DeepCopy X = deepCopyWith (CommonSpec_DeepCopyInto X)"

definition EmbeddedPersistentVolumeClaim_type :: "external_types \<Rightarrow> gty" where
  "EmbeddedPersistentVolumeClaim_type X = TStruct [(''TypeMeta'', xt_type X ''metav1.TypeMeta''),
     (''EmbeddedObjectMetadata'', EmbeddedObjectMetadata_type X), (''Spec'', xt_type X ''corev1.PersistentVolumeClaimSpec'')]"

definition EmbeddedPersistentVolumeClaim_DeepCopyInto :: "external_types \<Rightarrow> copier" where
  "EmbeddedPersistentVolumeClaim_DeepCopyInto X = copyInto [(''TypeMeta'', assigned),
     (''EmbeddedObjectMetadata'', EmbeddedObjectMetadata_DeepCopyInto X),
     (''Spec'', xt_copy X ''corev1.PersistentVolumeClaimSpec'')]"

definition EmbeddedPersistentVolumeClaim_DeepCopy :: "external_types \<Rightarrow> copier" where
  "EmbeddedPersistentVolumeClaim_DeepCopy X = deepCopyWith (EmbeddedPersistentVolumeClaim_DeepCopyInto X)"

definition JobEnvironmentSpec_type :: "external_types \<Rightarrow> gty" where
  "JobEnvironmentSpec_type X = TStruct [(''Isolated'', TPtr TPrim), (''UserSlots'', TPtr TPrim),
     (''CRI'', TPtr (CRIJobEnvironmentSpec_type X)), (''UseArtifactBinds'', TPtr TPrim), (''DoNotSetUserId'', TPtr TPrim)]"

definition JobEnvironmentSpec_DeepCopyInto :: "external_types \<Rightarrow> copier" where
  "JobEnvironmentSpec_DeepCopyInto X = copyInto [(''Isolated'', ptrTo assigned), (''UserSlots'', ptrTo assigned),
     (''CRI'', ptrTo (CRIJobEnvironmentSpec_DeepCopyInto X)), (''UseArtifactBinds'', ptrTo assigned),
     (''DoNotSetUserId'', ptrTo assigned)]"

definition JobEnvironmentSpec_DeepCopy :: "external_types \<Rightarrow> copier" where
  "JobEnvironmentSpec_DeepCopy X = deepCopyWith (JobEnvironmentSpec_DeepCopyInto X)"

definition OauthServiceSpec_type :: "external_types \<Rightarrow> gty" where
  "OauthServiceSpec_type X = TStruct [(''Host'', TPrim), (''Port'', TPrim), (''Secure'', TPrim),
     (''UserInfo'', OauthUserInfoHandlerSpec_type X)]"

definition OauthServiceSpec_DeepCopyInto :: "external_types \<Rightarrow> copier" where
  "OauthServiceSpec_DeepCopyInto X = copyInto [(''UserInfo'', OauthUserInfoHandlerSpec_DeepCopyInto X)]"

definition OauthServiceSpec_DeepCopy :: "external_types \<Rightarrow> copier" where
  "OauthServiceSpec_DeepCopy X = deepCopyWith (OauthServiceSpec_DeepCopyInto X)"

definition Spyt_type :: "external_types \<Rightarrow> gty" where
  "Spyt_type X = TStruct [(''TypeMeta'', xt_type X ''metav1.TypeMeta''), (''ObjectMeta'', xt_type X ''metav1.ObjectMeta''),
     (''Spec'', SpytSpec_type X), (''Status'', SpytStatus_type X)]"

definition Spyt_DeepCopyInto :: "external_types \<Rightarrow> copier" where
  "Spyt_DeepCopyInto X = copyInto [(''TypeMeta'', assigned), (''ObjectMeta'', xt_copy X ''metav1.ObjectMeta''),
     (''Spec'', SpytSpec_DeepCopyInto X), (''Status'', SpytStatus_DeepCopyInto X)]"

definition Spyt_DeepCopy :: "external_types \<Rightarrow> copier" where
  "Spyt_DeepCopy X = deepCopyWith (Spyt_DeepCopyInto X)"

definition Spyt_DeepCopyObject :: "external_types \<Rightarrow> gval \<Rightarrow> (store, gval option) state" where
  "Spyt_DeepCopyObject X = deepCopyObjectWith (Spyt_DeepCopy X)"

definition UpdateStatus_type :: "external_types \<Rightarrow> gty" where
  "UpdateStatus_type X = TStruct [(''State'', TPrim), (''Components'', TSlice TPrim), (''Flow'', TPrim),
     (''Conditions'', TSlice (xt_type X ''metav1.Condition'')), (''TabletCellBundles'', TSlice (TabletCellBundleInfo_type X)),
     (''MasterMonitoringPaths'', TSlice TPrim)]"

definition UpdateStatus_DeepCopyInto :: "external_types \<Rightarrow> copier" where
  "UpdateStatus_DeepCopyInto X = copyInto [(''Components'', sliceOf assigned),
     (''Conditions'', sliceOf (xt_copy X ''metav1.Condition'')), (''TabletCellBundles'', sliceOf assigned),
     (''MasterMonitoringPaths'', sliceOf assigned)]"

definition UpdateStatus_DeepCopy :: "external_types \<Rightarrow> copier" where
  "UpdateStatus_DeepCopy X = deepCopyWith (UpdateStatus_DeepCopyInto X)"

definition BootstrapSpec_type :: "external_types \<Rightarrow> gty" where
  "BootstrapSpec_type X = TStruct [(''TabletCellBundles'', TPtr (BundlesBootstrapSpec_type X))]"

definition BootstrapSpec_DeepCopyInto :: "external_types \<Rightarrow> copier" where
  "BootstrapSpec_DeepCopyInto X = copyInto [(''TabletCellBundles'', ptrTo (BundlesBootstrapSpec_DeepCopyInto X))]"

definition BootstrapSpec_DeepCopy :: "external_types \<Rightarrow> copier" where
  "BootstrapSpec_DeepCopy X = deepCopyWith (BootstrapSpec_DeepCopyInto X)"

definition ChytList_type :: "external_types \<Rightarrow> gty" where
  "ChytList_type X = TStruct [(''TypeMeta'', xt_type X ''metav1.TypeMeta''), (''ListMeta'', xt_type X ''metav1.ListMeta''),
     (''Items'', TSlice (Chyt_type X))]"

definition ChytList_DeepCopyInto :: "external_types \<Rightarrow> copier" where
  "ChytList_DeepCopyInto X = copyInto [(''TypeMeta'', assigned), (''ListMeta'', xt_copy X ''metav1.ListMeta''),
     (''Items'', sliceOf (Chyt_DeepCopyInto X))]"

definition ChytList_DeepCopy :: "external_types \<Rightarrow> copier" where
  "ChytList_DeepCopy X = deepCopyWith (ChytList_DeepCopyInto X)"

definition ChytList_DeepCopyObject :: "external_types \<Rightarrow> gval \<Rightarrow> (store, gval option) state" where
  "ChytList_DeepCopyObject X = deepCopyObjectWith (ChytList_DeepCopy X)"

definition SpytList_type :: "external_types \<Rightarrow> gty" where
  "SpytList_type X = TStruct [(''TypeMeta'', xt_type X ''metav1.TypeMeta''), (''ListMeta'', xt_type X ''metav1.ListMeta''),
     (''Items'', TSlice (Spyt_type X))]"

definition SpytList_DeepCopyInto :: "external_types \<Rightarrow> copier" where
  "SpytList_DeepCopyInto X = copyInto [(''TypeMeta'', assigned), (''ListMeta'', xt_copy X ''metav1.ListMeta''),
     (''Items'', sliceOf (Spyt_DeepCopyInto X))]"

definition SpytList_DeepCopy :: "external_types \<Rightarrow> copier" where
  "SpytList_DeepCopy X = deepCopyWith (SpytList_DeepCopyInto X)"

definition SpytList_DeepCopyObject :: "external_types \<Rightarrow> gval \<Rightarrow> (store, gval option) state" where
  "SpytList_DeepCopyObject X = deepCopyObjectWith (SpytList_DeepCopy X)"

definition StructuredLoggerSpec_type :: "external_types \<Rightarrow> gty" where
  "StructuredLoggerSpec_type X = TStruct [(''BaseLoggerSpec'', BaseLoggerSpec_type X), (''Category'', TPrim)]"

definition StructuredLoggerSpec_DeepCopyInto :: "external_types \<Rightarrow> copier" where
  "StructuredLoggerSpec_DeepCopyInto X = copyInto [(''BaseLoggerSpec'', BaseLoggerSpec_DeepCopyInto X)]"

definition StructuredLoggerSpec_DeepCopy :: "external_types \<Rightarrow> copier" where
  "StructuredLoggerSpec_DeepCopy X = deepCopyWith (StructuredLoggerSpec_DeepCopyInto X)"

definition TextLoggerSpec_type :: "external_types \<Rightarrow> gty" where
  "TextLoggerSpec_type X = TStruct [(''BaseLoggerSpec'', BaseLoggerSpec_type X), (''WriterType'', TPrim),
     (''CategoriesFilter'', TPtr (CategoriesFilter_type X))]"

definition TextLoggerSpec_DeepCopyInto :: "external_types \<Rightarrow> copier" where
  "TextLoggerSpec_DeepCopyInto X = copyInto [(''BaseLoggerSpec'', BaseLoggerSpec_DeepCopyInto X),
     (''CategoriesFilter'', ptrTo (CategoriesFilter_DeepCopyInto X))]"

definition TextLoggerSpec_DeepCopy :: "external_types \<Rightarrow> copier" where
  "TextLoggerSpec_DeepCopy X = deepCopyWith (TextLoggerSpec_DeepCopyInto X)"

definition YtsaurusStatus_type :: "external_types \<Rightarrow> gty" where
  "YtsaurusStatus_type X = TStruct [(''State'', TPrim), (''Conditions'', TSlice (xt_type X ''metav1.Condition'')),
     (''UpdateStatus'', UpdateStatus_type X)]"

definition YtsaurusStatus_DeepCopyInto :: "external_types \<Rightarrow> copier" where
  "YtsaurusStatus_DeepCopyInto X = copyInto [(''Conditions'', sliceOf (xt_copy X ''metav1.Condition'')),
     (''UpdateStatus'', UpdateStatus_DeepCopyInto X)]"

definition YtsaurusStatus_DeepCopy :: "external_types \<Rightarrow> copier" where
  "YtsaurusStatus_DeepCopy X = deepCopyWith (YtsaurusStatus_DeepCopyInto X)"

definition InstanceSpec_type :: "external_types \<Rightarrow> gty" where
  "InstanceSpec_type X = TStruct [(''Image'', TPtr TPrim), (''EntrypointWrapper'', TSlice TPrim),
     (''Volumes'', TSlice (xt_type X ''corev1.Volume'')), (''VolumeMounts'', TSlice (xt_type X ''corev1.VolumeMount'')),
     (''ReadinessProbeParams'', TPtr (HealthcheckProbeParams_type X)), (''Resources'', xt_type X ''corev1.ResourceRequirements''),
     (''InstanceCount'', TPrim), (''MinReadyInstanceCount'', TPtr TPrim), (''Locations'', TSlice (LocationSpec_type X)),
     (''VolumeClaimTemplates'', TSlice (EmbeddedPersistentVolumeClaim_type X)), (''RuntimeClassName'', TPtr TPrim),
     (''EnableAntiAffinity'', TPtr TPrim), (''HostNetwork'', TPtr TPrim), (''MonitoringPort'', TPtr TPrim),
     (''Loggers'', TSlice (TextLoggerSpec_type X)), (''StructuredLoggers'', TSlice (StructuredLoggerSpec_type X)),
     (''Affinity'', TPtr (xt_type X ''corev1.Affinity'')), (''NodeSelector'', TMap),
     (''Tolerations'', TSlice (xt_type X ''corev1.Toleration'')), (''PodLabels'', TMap), (''PodAnnotations'', TMap),
     (''SetHostnameAsFQDN'', TPtr TPrim), (''TerminationGracePeriodSeconds'', TPtr TPrim),
     (''NativeTransport'', TPtr (RPCTransportSpec_type X))]"

definition InstanceSpec_DeepCopyInto :: "external_types \<Rightarrow> copier" where
  "InstanceSpec_DeepCopyInto X = copyInto [(''Image'', ptrTo assigned), (''EntrypointWrapper'', sliceOf assigned),
     (''Volumes'', sliceOf (xt_copy X ''corev1.Volume'')), (''VolumeMounts'', sliceOf (xt_copy X ''corev1.VolumeMount'')),
     (''ReadinessProbeParams'', ptrTo assigned), (''Resources'', xt_copy X ''corev1.ResourceRequirements''),
     (''MinReadyInstanceCount'', ptrTo assigned), (''Locations'', sliceOf (LocationSpec_DeepCopyInto X)),
     (''VolumeClaimTemplates'', sliceOf (EmbeddedPersistentVolumeClaim_DeepCopyInto X)), (''RuntimeClassName'', ptrTo assigned),
     (''EnableAntiAffinity'', ptrTo assigned), (''HostNetwork'', ptrTo assigned), (''MonitoringPort'', ptrTo assigned),
     (''Loggers'', sliceOf (TextLoggerSpec_DeepCopyInto X)), (''StructuredLoggers'', sliceOf (StructuredLoggerSpec_DeepCopyInto X)),
     (''Affinity'', ptrTo (xt_copy X ''corev1.Affinity'')), (''NodeSelector'', mapOf),
     (''Tolerations'', sliceOf (xt_copy X ''corev1.Toleration'')), (''PodLabels'', mapOf), (''PodAnnotations'', mapOf),
     (''SetHostnameAsFQDN'', ptrTo assigned), (''TerminationGracePeriodSeconds'', ptrTo assigned),
     (''NativeTransport'', ptrTo (RPCTransportSpec_DeepCopyInto X))]"

definition InstanceSpec_DeepCopy :: "external_types \<Rightarrow> copier" where
  "InstanceSpec_DeepCopy X = deepCopyWith (InstanceSpec_DeepCopyInto X)"

definition ControllerAgentsSpec_type :: "external_types \<Rightarrow> gty" where
  "ControllerAgentsSpec_type X = TStruct [(''InstanceSpec'', InstanceSpec_type X)]"

definition ControllerAgentsSpec_DeepCopyInto :: "external_types \<Rightarrow> copier" where
  "ControllerAgentsSpec_DeepCopyInto X = copyInto [(''InstanceSpec'', InstanceSpec_DeepCopyInto X)]"

definition ControllerAgentsSpec_DeepCopy :: "external_types \<Rightarrow> copier" where
  "ControllerAgentsSpec_DeepCopy X = deepCopyWith (ControllerAgentsSpec_DeepCopyInto X)"

definition DataNodesSpec_type :: "external_types \<Rightarrow> gty" where
  "DataNodesSpec_type X = TStruct [(''InstanceSpec'', InstanceSpec_type X), (''ClusterNodesSpec'', ClusterNodesSpec_type X),
     (''Name'', TPrim)]"

definition DataNodesSpec_DeepCopyInto :: "external_types \<Rightarrow> copier" where
  "DataNodesSpec_DeepCopyInto X = copyInto [(''InstanceSpec'', InstanceSpec_DeepCopyInto X),
     (''ClusterNodesSpec'', ClusterNodesSpec_DeepCopyInto X)]"

definition DataNodesSpec_DeepCopy :: "external_types \<Rightarrow> copier" where
  "DataNodesSpec_DeepCopy X = deepCopyWith (DataNodesSpec_DeepCopyInto X)"

definition DiscoverySpec_type :: "external_types \<Rightarrow> gty" where
  "DiscoverySpec_type X = TStruct [(''InstanceSpec'', InstanceSpec_type X)]"

definition DiscoverySpec_DeepCopyInto :: "external_types \<Rightarrow> copier" where
  "DiscoverySpec_DeepCopyInto X = copyInto [(''InstanceSpec'', InstanceSpec_DeepCopyInto X)]"

definition DiscoverySpec_DeepCopy :: "external_types \<Rightarrow> copier" where
  "DiscoverySpec_DeepCopy X = deepCopyWith (DiscoverySpec_DeepCopyInto X)"

definition ExecNodesSpec_type :: "external_types \<Rightarrow> gty" where
  "ExecNodesSpec_type X = TStruct [(''InstanceSpec'', InstanceSpec_type X), (''ClusterNodesSpec'', ClusterNodesSpec_type X),
     (''Name'', TPrim), (''InitContainers'', TSlice TPrim), (''Sidecars'', TSlice TPrim), (''Privileged'', TPrim),
     (''JobProxyLoggers'', TSlice (TextLoggerSpec_type X)), (''JobResources'', TPtr (xt_type X ''corev1.ResourceRequirements'')),
     (''JobEnvironment'', TPtr (JobEnvironmentSpec_type X))]"

definition ExecNodesSpec_DeepCopyInto :: "external_types \<Rightarrow> copier" where
  "ExecNodesSpec_DeepCopyInto X = copyInto [(''InstanceSpec'', InstanceSpec_DeepCopyInto X),
     (''ClusterNodesSpec'', ClusterNodesSpec_DeepCopyInto X), (''InitContainers'', sliceOf assigned),
     (''Sidecars'', sliceOf assigned), (''JobProxyLoggers'', sliceOf (TextLoggerSpec_DeepCopyInto X)),
     (''JobResources'', ptrTo (xt_copy X ''corev1.ResourceRequirements'')),
     (''JobEnvironment'', ptrTo (JobEnvironmentSpec_DeepCopyInto X))]"

definition ExecNodesSpec_DeepCopy :: "external_types \<Rightarrow> copier" where
  "ExecNodesSpec_DeepCopy X = deepCopyWith (ExecNodesSpec_DeepCopyInto X)"

definition HTTPProxiesSpec_type :: "external_types \<Rightarrow> gty" where
  "HTTPProxiesSpec_type X = TStruct [(''InstanceSpec'', InstanceSpec_type X), (''ServiceType'', xt_type X ''corev1.ServiceType''),
     (''HttpNodePort'', TPtr TPrim), (''HttpsNodePort'', TPtr TPrim), (''Role'', TPrim), (''Transport'', HTTPTransportSpec_type X)]"

definition HTTPProxiesSpec_DeepCopyInto :: "external_types \<Rightarrow> copier" where
  "HTTPProxiesSpec_DeepCopyInto X = copyInto [(''InstanceSpec'', InstanceSpec_DeepCopyInto X), (''HttpNodePort'', ptrTo assigned),
     (''HttpsNodePort'', ptrTo assigned), (''Transport'', HTTPTransportSpec_DeepCopyInto X)]"

definition HTTPProxiesSpec_DeepCopy :: "external_types \<Rightarrow> copier" where
  "HTTPProxiesSpec_DeepCopy X = deepCopyWith (HTTPProxiesSpec_DeepCopyInto X)"

definition MasterCachesSpec_type :: "external_types \<Rightarrow> gty" where
  "MasterCachesSpec_type X = TStruct [(''InstanceSpec'', InstanceSpec_type X),
     (''MasterCachesConnectionSpec'', MasterCachesConnectionSpec_type X), (''HostAddressLabel'', TPrim)]"

definition MasterCachesSpec_DeepCopyInto :: "external_types \<Rightarrow> copier" where
  "MasterCachesSpec_DeepCopyInto X = copyInto [(''InstanceSpec'', InstanceSpec_DeepCopyInto X),
     (''MasterCachesConnectionSpec'', MasterCachesConnectionSpec_DeepCopyInto X)]"

definition MasterCachesSpec_DeepCopy :: "external_types \<Rightarrow> copier" where
  "MasterCachesSpec_DeepCopy X = deepCopyWith (MasterCachesSpec_DeepCopyInto X)"

definition MastersSpec_type :: "external_types \<Rightarrow> gty" where
  "MastersSpec_type X = TStruct [(''InstanceSpec'', InstanceSpec_type X), (''MasterConnectionSpec'', MasterConnectionSpec_type X),
     (''HostAddressLabel'', TPrim), (''MaxSnapshotCountToKeep'', TPtr TPrim), (''MaxChangelogCountToKeep'', TPtr TPrim),
     (''Sidecars'', TSlice TPrim)]"

definition MastersSpec_DeepCopyInto :: "external_types \<Rightarrow> copier" where
  "MastersSpec_DeepCopyInto X = copyInto [(''InstanceSpec'', InstanceSpec_DeepCopyInto X),
     (''MasterConnectionSpec'', MasterConnectionSpec_DeepCopyInto X), (''MaxSnapshotCountToKeep'', ptrTo assigned),
     (''MaxChangelogCountToKeep'', ptrTo assigned), (''Sidecars'', sliceOf assigned)]"

definition MastersSpec_DeepCopy :: "external_types \<Rightarrow> copier" where
  "MastersSpec_DeepCopy X = deepCopyWith (MastersSpec_DeepCopyInto X)"

definition QueryTrackerSpec_type :: "external_types \<Rightarrow> gty" where
  "QueryTrackerSpec_type X = TStruct [(''InstanceSpec'', InstanceSpec_type X)]"

definition QueryTrackerSpec_DeepCopyInto :: "external_types \<Rightarrow> copier" where
  "QueryTrackerSpec_DeepCopyInto X = copyInto [(''InstanceSpec'', InstanceSpec_DeepCopyInto X)]"

definition QueryTrackerSpec_DeepCopy :: "external_types \<Rightarrow> copier" where
  "QueryTrackerSpec_DeepCopy X = deepCopyWith (QueryTrackerSpec_DeepCopyInto X)"

definition QueueAgentSpec_type :: "external_types \<Rightarrow> gty" where
  "QueueAgentSpec_type X = TStruct [(''InstanceSpec'', InstanceSpec_type X)]"

definition QueueAgentSpec_DeepCopyInto :: "external_types \<Rightarrow> copier" where
  "QueueAgentSpec_DeepCopyInto X = copyInto [(''InstanceSpec'', InstanceSpec_DeepCopyInto X)]"

definition QueueAgentSpec_DeepCopy :: "external_types \<Rightarrow> copier" where
  "QueueAgentSpec_DeepCopy X = deepCopyWith (QueueAgentSpec_DeepCopyInto X)"

definition RPCProxiesSpec_type :: "external_types \<Rightarrow> gty" where
  "RPCProxiesSpec_type X = TStruct [(''InstanceSpec'', InstanceSpec_type X),
     (''ServiceType'', TPtr (xt_type X ''corev1.ServiceType'')), (''NodePort'', TPtr TPrim), (''Role'', TPrim),
     (''Transport'', RPCTransportSpec_type X)]"

definition RPCProxiesSpec_DeepCopyInto :: "external_types \<Rightarrow> copier" where
  "RPCProxiesSpec_DeepCopyInto X = copyInto [(''InstanceSpec'', InstanceSpec_DeepCopyInto X), (''ServiceType'', ptrTo assigned),
     (''NodePort'', ptrTo assigned), (''Transport'', RPCTransportSpec_DeepCopyInto X)]"

definition RPCProxiesSpec_DeepCopy :: "external_types \<Rightarrow> copier" where
  "RPCProxiesSpec_DeepCopy X = deepCopyWith (RPCProxiesSpec_DeepCopyInto X)"

definition SchedulersSpec_type :: "external_types \<Rightarrow> gty" where
  "SchedulersSpec_type X = TStruct [(''InstanceSpec'', InstanceSpec_type X)]"

definition SchedulersSpec_DeepCopyInto :: "external_types \<Rightarrow> copier" where
  "SchedulersSpec_DeepCopyInto X = copyInto [(''InstanceSpec'', InstanceSpec_DeepCopyInto X)]"

definition SchedulersSpec_DeepCopy :: "external_types \<Rightarrow> copier" where
  "SchedulersSpec_DeepCopy X = deepCopyWith (SchedulersSpec_DeepCopyInto X)"

definition TCPProxiesSpec_type :: "external_types \<Rightarrow> gty" where
  "TCPProxiesSpec_type X = TStruct [(''InstanceSpec'', InstanceSpec_type X),
     (''ServiceType'', TPtr (xt_type X ''corev1.ServiceType'')), (''MinPort'', TPrim), (''PortCount'', TPrim), (''Role'', TPrim)]"

definition TCPProxiesSpec_DeepCopyInto :: "external_types \<Rightarrow> copier" where
  "TCPProxiesSpec_DeepCopyInto X = copyInto [(''InstanceSpec'', InstanceSpec_DeepCopyInto X), (''ServiceType'', ptrTo assigned)]"

definition TCPProxiesSpec_DeepCopy :: "external_types \<Rightarrow> copier" where
  "TCPProxiesSpec_DeepCopy X = deepCopyWith (TCPProxiesSpec_DeepCopyInto X)"

definition TabletNodesSpec_type :: "external_types \<Rightarrow> gty" where
  "TabletNodesSpec_type X = TStruct [(''InstanceSpec'', InstanceSpec_type X), (''ClusterNodesSpec'', ClusterNodesSpec_type X),
     (''Name'', TPrim)]"

definition TabletNodesSpec_DeepCopyInto :: "external_types \<Rightarrow> copier" where
  "TabletNodesSpec_DeepCopyInto X = copyInto [(''InstanceSpec'', InstanceSpec_DeepCopyInto X),
     (''ClusterNodesSpec'', ClusterNodesSpec_DeepCopyInto X)]"

definition TabletNodesSpec_DeepCopy :: "external_types \<Rightarrow> copier" where
  "TabletNodesSpec_DeepCopy X = deepCopyWith (TabletNodesSpec_DeepCopyInto X)"

definition YQLAgentSpec_type :: "external_types \<Rightarrow> gty" where
  "YQLAgentSpec_type X = TStruct [(''InstanceSpec'', InstanceSpec_type X)]"

definition YQLAgentSpec_DeepCopyInto :: "external_types \<Rightarrow> copier" where
  "YQLAgentSpec_DeepCopyInto X = copyInto [(''InstanceSpec'', InstanceSpec_DeepCopyInto X)]"

definition YQLAgentSpec_DeepCopy :: "external_types \<Rightarrow> copier" where
  "YQLAgentSpec_DeepCopy X = deepCopyWith (YQLAgentSpec_DeepCopyInto X)"

definition RemoteExecNodesSpec_type :: "external_types \<Rightarrow> gty" where
  "RemoteExecNodesSpec_type X = TStruct [(''RemoteClusterSpec'', TPtr (xt_type X ''corev1.LocalObjectReference'')),
     (''CommonSpec'', CommonSpec_type X), (''ExecNodesSpec'', ExecNodesSpec_type X)]"

definition RemoteExecNodesSpec_DeepCopyInto :: "external_types \<Rightarrow> copier" where
  "RemoteExecNodesSpec_DeepCopyInto X = copyInto [(''RemoteClusterSpec'', ptrTo assigned),
     (''CommonSpec'', CommonSpec_DeepCopyInto X), (''ExecNodesSpec'', ExecNodesSpec_DeepCopyInto X)]"

definition RemoteExecNodesSpec_DeepCopy :: "external_types \<Rightarrow> copier" where
  "RemoteExecNodesSpec_DeepCopy X = deepCopyWith (RemoteExecNodesSpec_DeepCopyInto X)"

definition RemoteYtsaurusSpec_type :: "external_types \<Rightarrow> gty" where
  "RemoteYtsaurusSpec_type X = TStruct [(''MasterConnectionSpec'', MasterConnectionSpec_type X),
     (''MasterCachesSpec'', MasterCachesSpec_type X)]"

definition RemoteYtsaurusSpec_DeepCopyInto :: "external_types \<Rightarrow> copier" where
  "RemoteYtsaurusSpec_DeepCopyInto X = copyInto [(''MasterConnectionSpec'', MasterConnectionSpec_DeepCopyInto X),
     (''MasterCachesSpec'', MasterCachesSpec_DeepCopyInto X)]"

definition RemoteYtsaurusSpec_DeepCopy :: "external_types \<Rightarrow> copier" where
  "RemoteYtsaurusSpec_DeepCopy X = deepCopyWith (RemoteYtsaurusSpec_DeepCopyInto X)"

definition YtsaurusSpec_type :: "external_types \<Rightarrow> gty" where
  "YtsaurusSpec_type X = TStruct [(''CommonSpec'', CommonSpec_type X), (''UIImage'', TPrim),
     (''AdminCredentials'', TPtr (xt_type X ''corev1.LocalObjectReference'')), (''OauthService'', TPtr (OauthServiceSpec_type X)),
     (''IsManaged'', TPrim), (''EnableFullUpdate'', TPrim), (''UpdateSelector'', TPrim),
     (''Bootstrap'', TPtr (BootstrapSpec_type X)), (''Discovery'', DiscoverySpec_type X), (''PrimaryMasters'', MastersSpec_type X),
     (''SecondaryMasters'', TSlice (MastersSpec_type X)), (''MasterCaches'', TPtr (MasterCachesSpec_type X)),
     (''HTTPProxies'', TSlice (HTTPProxiesSpec_type X)), (''RPCProxies'', TSlice (RPCProxiesSpec_type X)),
     (''TCPProxies'', TSlice (TCPProxiesSpec_type X)), (''DataNodes'', TSlice (DataNodesSpec_type X)),
     (''ExecNodes'', TSlice (ExecNodesSpec_type X)), (''Schedulers'', TPtr (SchedulersSpec_type X)),
     (''ControllerAgents'', TPtr (ControllerAgentsSpec_type X)), (''TabletNodes'', TSlice (TabletNodesSpec_type X)),
     (''StrawberryController'', TPtr (StrawberryControllerSpec_type X)),
     (''DeprecatedChytController'', TPtr (StrawberryControllerSpec_type X)), (''QueryTrackers'', TPtr (QueryTrackerSpec_type X)),
     (''Spyt'', TPtr (DeprecatedSpytSpec_type X)), (''YQLAgents'', TPtr (YQLAgentSpec_type X)),
     (''QueueAgents'', TPtr (QueueAgentSpec_type X)), (''UI'', TPtr (UISpec_type X))]"

definition YtsaurusSpec_DeepCopyInto :: "external_types \<Rightarrow> copier" where
  "YtsaurusSpec_DeepCopyInto X = copyInto [(''CommonSpec'', CommonSpec_DeepCopyInto X), (''AdminCredentials'', ptrTo assigned),
     (''OauthService'', ptrTo (OauthServiceSpec_DeepCopyInto X)), (''Bootstrap'', ptrTo (BootstrapSpec_DeepCopyInto X)),
     (''Discovery'', DiscoverySpec_DeepCopyInto X), (''PrimaryMasters'', MastersSpec_DeepCopyInto X),
     (''SecondaryMasters'', sliceOf (MastersSpec_DeepCopyInto X)), (''MasterCaches'', ptrTo (MasterCachesSpec_DeepCopyInto X)),
     (''HTTPProxies'', sliceOf (HTTPProxiesSpec_DeepCopyInto X)), (''RPCProxies'', sliceOf (RPCProxiesSpec_DeepCopyInto X)),
     (''TCPProxies'', sliceOf (TCPProxiesSpec_DeepCopyInto X)), (''DataNodes'', sliceOf (DataNodesSpec_DeepCopyInto X)),
     (''ExecNodes'', sliceOf (ExecNodesSpec_DeepCopyInto X)), (''Schedulers'', ptrTo (SchedulersSpec_DeepCopyInto X)),
     (''ControllerAgents'', ptrTo (ControllerAgentsSpec_DeepCopyInto X)),
     (''TabletNodes'', sliceOf (TabletNodesSpec_DeepCopyInto X)),
     (''StrawberryController'', ptrTo (StrawberryControllerSpec_DeepCopyInto X)),
     (''DeprecatedChytController'', ptrTo (StrawberryControllerSpec_DeepCopyInto X)),
     (''QueryTrackers'', ptrTo (QueryTrackerSpec_DeepCopyInto X)), (''Spyt'', ptrTo assigned),
     (''YQLAgents'', ptrTo (YQLAgentSpec_DeepCopyInto X)), (''QueueAgents'', ptrTo (QueueAgentSpec_DeepCopyInto X)),
     (''UI'', ptrTo (UISpec_DeepCopyInto X))]"

definition YtsaurusSpec_DeepCopy :: "external_types \<Rightarrow> copier" where
  "YtsaurusSpec_DeepCopy X = deepCopyWith (YtsaurusSpec_DeepCopyInto X)"

definition RemoteExecNodes_type :: "external_types \<Rightarrow> gty" where
  "RemoteExecNodes_type X = TStruct [(''TypeMeta'', xt_type X ''metav1.TypeMeta''),
     (''ObjectMeta'', xt_type X ''metav1.ObjectMeta''), (''Spec'', RemoteExecNodesSpec_type X),
     (''Status'', RemoteExecNodesStatus_type X)]"

definition RemoteExecNodes_DeepCopyInto :: "external_types \<Rightarrow> copier" where
  "RemoteExecNodes_DeepCopyInto X = copyInto [(''TypeMeta'', assigned), (''ObjectMeta'', xt_copy X ''metav1.ObjectMeta''),
     (''Spec'', RemoteExecNodesSpec_DeepCopyInto X), (''Status'', assigned)]"

definition RemoteExecNodes_DeepCopy :: "external_types \<Rightarrow> copier" where
  "RemoteExecNodes_DeepCopy X = deepCopyWith (RemoteExecNodes_DeepCopyInto X)"

definition RemoteExecNodes_DeepCopyObject :: "external_types \<Rightarrow> gval \<Rightarrow> (store, gval option) state" where
  "RemoteExecNodes_DeepCopyObject X = deepCopyObjectWith (RemoteExecNodes_DeepCopy X)"

definition RemoteYtsaurus_type :: "external_types \<Rightarrow> gty" where
  "RemoteYtsaurus_type X = TStruct [(''TypeMeta'', xt_type X ''metav1.TypeMeta''),
     (''ObjectMeta'', xt_type X ''metav1.ObjectMeta''), (''Spec'', RemoteYtsaurusSpec_type X),
     (''Status'', RemoteYtsaurusStatus_type X)]"

definition RemoteYtsaurus_DeepCopyInto :: "external_types \<Rightarrow> copier" where
  "RemoteYtsaurus_DeepCopyInto X = copyInto [(''TypeMeta'', assigned), (''ObjectMeta'', xt_copy X ''metav1.ObjectMeta''),
     (''Spec'', RemoteYtsaurusSpec_DeepCopyInto X), (''Status'', assigned)]"

definition RemoteYtsaurus_DeepCopy :: "external_types \<Rightarrow> copier" where
  "RemoteYtsaurus_DeepCopy X = deepCopyWith (RemoteYtsaurus_DeepCopyInto X)"

definition RemoteYtsaurus_DeepCopyObject :: "external_types \<Rightarrow> gval \<Rightarrow> (store, gval option) state" where
  "RemoteYtsaurus_DeepCopyObject X = deepCopyObjectWith (RemoteYtsaurus_DeepCopy X)"

definition Ytsaurus_type :: "external_types \<Rightarrow> gty" where
  "Ytsaurus_type X = TStruct [(''TypeMeta'', xt_type X ''metav1.TypeMeta''), (''ObjectMeta'', xt_type X ''metav1.ObjectMeta''),
     (''Spec'', YtsaurusSpec_type X), (''Status'', YtsaurusStatus_type X)]"

definition Ytsaurus_DeepCopyInto :: "external_types \<Rightarrow> copier" where
  "Ytsaurus_DeepCopyInto X = copyInto [(''TypeMeta'', assigned), (''ObjectMeta'', xt_copy X ''metav1.ObjectMeta''),
     (''Spec'', YtsaurusSpec_DeepCopyInto X), (''Status'', YtsaurusStatus_DeepCopyInto X)]"

definition Ytsaurus_DeepCopy :: "external_types \<Rightarrow> copier" where
  "Ytsaurus_DeepCopy X = deepCopyWith (Ytsaurus_DeepCopyInto X)"

definition Ytsaurus_DeepCopyObject :: "external_types \<Rightarrow> gval \<Rightarrow> (store, gval option) state" where
  "Ytsaurus_DeepCopyObject X = deepCopyObjectWith (Ytsaurus_DeepCopy X)"

definition RemoteExecNodesList_type :: "external_types \<Rightarrow> gty" where
  "RemoteExecNodesList_type X = TStruct [(''TypeMeta'', xt_type X ''metav1.TypeMeta''),
     (''ListMeta'', xt_type X ''metav1.ListMeta''), (''Items'', TSlice (RemoteExecNodes_type X))]"

definition RemoteExecNodesList_DeepCopyInto :: "external_types \<Rightarrow> copier" where
  "RemoteExecNodesList_DeepCopyInto X = copyInto [(''TypeMeta'', assigned), (''ListMeta'', xt_copy X ''metav1.ListMeta''),
     (''Items'', sliceOf (RemoteExecNodes_DeepCopyInto X))]"

definition RemoteExecNodesList_DeepCopy :: "external_types \<Rightarrow> copier" where
  "RemoteExecNodesList_DeepCopy X = deepCopyWith (RemoteExecNodesList_DeepCopyInto X)"

definition RemoteExecNodesList_DeepCopyObject :: "external_types \<Rightarrow> gval \<Rightarrow> (store, gval option) state" where
  "RemoteExecNodesList_DeepCopyObject X = deepCopyObjectWith (RemoteExecNodesList_DeepCopy X)"

definition RemoteYtsaurusList_type :: "external_types \<Rightarrow> gty" where
  "RemoteYtsaurusList_type X = TStruct [(''TypeMeta'', xt_type X ''metav1.TypeMeta''),
     (''ListMeta'', xt_type X ''metav1.ListMeta''), (''Items'', TSlice (RemoteYtsaurus_type X))]"

definition RemoteYtsaurusList_DeepCopyInto :: "external_types \<Rightarrow> copier" where
  "RemoteYtsaurusList_DeepCopyInto X = copyInto [(''TypeMeta'', assigned), (''ListMeta'', xt_copy X ''metav1.ListMeta''),
     (''Items'', sliceOf (RemoteYtsaurus_DeepCopyInto X))]"

definition RemoteYtsaurusList_DeepCopy :: "external_types \<Rightarrow> copier" where
  "RemoteYtsaurusList_DeepCopy X = deepCopyWith (RemoteYtsaurusList_DeepCopyInto X)"

definition RemoteYtsaurusList_DeepCopyObject :: "external_types \<Rightarrow> gval \<Rightarrow> (store, gval option) state" where
  "RemoteYtsaurusList_DeepCopyObject X = deepCopyObjectWith (RemoteYtsaurusList_DeepCopy X)"

definition YtsaurusList_type :: "external_types \<Rightarrow> gty" where
  "YtsaurusList_type X = TStruct [(''TypeMeta'', xt_type X ''metav1.TypeMeta''), (''ListMeta'', xt_type X ''metav1.ListMeta''),
     (''Items'', TSlice (Ytsaurus_type X))]"

definition YtsaurusList_DeepCopyInto :: "external_types \<Rightarrow> copier" where
  "YtsaurusList_DeepCopyInto X = copyInto [(''TypeMeta'', assigned), (''ListMeta'', xt_copy X ''metav1.ListMeta''),
     (''Items'', sliceOf (Ytsaurus_DeepCopyInto X))]"

definition YtsaurusList_DeepCopy :: "external_types \<Rightarrow> copier" where
  "YtsaurusList_DeepCopy X = deepCopyWith (YtsaurusList_DeepCopyInto X)"

definition YtsaurusList_DeepCopyObject :: "external_types \<Rightarrow> gval \<Rightarrow> (store, gval option) state" where
  "YtsaurusList_DeepCopyObject X = deepCopyObjectWith (YtsaurusList_DeepCopy X)"

subsection \<open>The functions copy every reference\<close>

lemma external_okD:
  assumes "external_ok X"
  shows "n \<in> set copied_types \<Longrightarrow> deep (xt_type X n) (xt_copy X n)" and "n \<in> set assigned_types \<Longrightarrow> flat (xt_type X n)"
  using assms by (auto simp: external_ok_def)

lemmas external_deep [deep_intros] = external_okD(1) [simplified copied_types_def]
lemmas external_flat = external_okD(2) [simplified assigned_types_def]

lemma flat_types:
  assumes "external_ok X"
  shows "flat (DeprecatedSpytSpec_type X)"
    and "flat (HealthcheckProbeParams_type X)"
    and "flat (RemoteExecNodesStatus_type X)"
    and "flat (RemoteYtsaurusStatus_type X)"
    and "flat (TabletCellBundleInfo_type X)"
  by (simp_all add: DeprecatedSpytSpec_type_def HealthcheckProbeParams_type_def RemoteExecNodesStatus_type_def RemoteYtsaurusStatus_type_def TabletCellBundleInfo_type_def external_flat [OF assms])

lemmas flat_parts = external_flat flat_types

lemma deep_level1 [deep_intros]:
  assumes "external_ok X"
  shows "deep (BundleBootstrapSpec_type X) (BundleBootstrapSpec_DeepCopyInto X)"
    and "deep (CRIJobEnvironmentSpec_type X) (CRIJobEnvironmentSpec_DeepCopyInto X)"
    and "deep (CategoriesFilter_type X) (CategoriesFilter_DeepCopyInto X)"
    and "deep (ChytSpec_type X) (ChytSpec_DeepCopyInto X)"
    and "deep (ChytStatus_type X) (ChytStatus_DeepCopyInto X)"
    and "deep (ClusterNodesSpec_type X) (ClusterNodesSpec_DeepCopyInto X)"
    and "deep (DeprecatedSpytSpec_type X) (DeprecatedSpytSpec_DeepCopyInto X)"
    and "deep (EmbeddedObjectMetadata_type X) (EmbeddedObjectMetadata_DeepCopyInto X)"
    and "deep (HTTPTransportSpec_type X) (HTTPTransportSpec_DeepCopyInto X)"
    and "deep (HealthcheckProbeParams_type X) (HealthcheckProbeParams_DeepCopyInto X)"
    and "deep (LocationSpec_type X) (LocationSpec_DeepCopyInto X)"
    and "deep (LogRotationPolicy_type X) (LogRotationPolicy_DeepCopyInto X)"
    and "deep (MasterCachesConnectionSpec_type X) (MasterCachesConnectionSpec_DeepCopyInto X)"
    and "deep (MasterConnectionSpec_type X) (MasterConnectionSpec_DeepCopyInto X)"
    and "deep (OauthUserInfoHandlerSpec_type X) (OauthUserInfoHandlerSpec_DeepCopyInto X)"
    and "deep (RPCTransportSpec_type X) (RPCTransportSpec_DeepCopyInto X)"
    and "deep (RemoteExecNodesStatus_type X) (RemoteExecNodesStatus_DeepCopyInto X)"
    and "deep (RemoteYtsaurusStatus_type X) (RemoteYtsaurusStatus_DeepCopyInto X)"
    and "deep (SpytSpec_type X) (SpytSpec_DeepCopyInto X)"
    and "deep (SpytStatus_type X) (SpytStatus_DeepCopyInto X)"
    and "deep (StrawberryControllerSpec_type X) (StrawberryControllerSpec_DeepCopyInto X)"
    and "deep (TabletCellBundleInfo_type X) (TabletCellBundleInfo_DeepCopyInto X)"
    and "deep (UISpec_type X) (UISpec_DeepCopyInto X)"
  unfolding BundleBootstrapSpec_type_def BundleBootstrapSpec_DeepCopyInto_def
    CRIJobEnvironmentSpec_type_def CRIJobEnvironmentSpec_DeepCopyInto_def
    CategoriesFilter_type_def CategoriesFilter_DeepCopyInto_def ChytSpec_type_def ChytSpec_DeepCopyInto_def
    ChytStatus_type_def ChytStatus_DeepCopyInto_def ClusterNodesSpec_type_def ClusterNodesSpec_DeepCopyInto_def
    DeprecatedSpytSpec_type_def DeprecatedSpytSpec_DeepCopyInto_def
    EmbeddedObjectMetadata_type_def EmbeddedObjectMetadata_DeepCopyInto_def
    HTTPTransportSpec_type_def HTTPTransportSpec_DeepCopyInto_def
    HealthcheckProbeParams_type_def HealthcheckProbeParams_DeepCopyInto_def LocationSpec_type_def LocationSpec_DeepCopyInto_def
    LogRotationPolicy_type_def LogRotationPolicy_DeepCopyInto_def
    MasterCachesConnectionSpec_type_def MasterCachesConnectionSpec_DeepCopyInto_def
    MasterConnectionSpec_type_def MasterConnectionSpec_DeepCopyInto_def
    OauthUserInfoHandlerSpec_type_def OauthUserInfoHandlerSpec_DeepCopyInto_def
    RPCTransportSpec_type_def RPCTransportSpec_DeepCopyInto_def
    RemoteExecNodesStatus_type_def RemoteExecNodesStatus_DeepCopyInto_def
    RemoteYtsaurusStatus_type_def RemoteYtsaurusStatus_DeepCopyInto_def SpytSpec_type_def SpytSpec_DeepCopyInto_def
    SpytStatus_type_def SpytStatus_DeepCopyInto_def StrawberryControllerSpec_type_def StrawberryControllerSpec_DeepCopyInto_def
    TabletCellBundleInfo_type_def TabletCellBundleInfo_DeepCopyInto_def UISpec_type_def UISpec_DeepCopyInto_def
  by (rule deep_struct; use assms in \<open>auto simp: flat_parts intro!: deep_intros\<close>)+

lemma deep_level2 [deep_intros]:
  assumes "external_ok X"
  shows "deep (BaseLoggerSpec_type X) (BaseLoggerSpec_DeepCopyInto X)"
    and "deep (BundlesBootstrapSpec_type X) (BundlesBootstrapSpec_DeepCopyInto X)"
    and "deep (Chyt_type X) (Chyt_DeepCopyInto X)"
    and "deep (CommonSpec_type X) (CommonSpec_DeepCopyInto X)"
    and "deep (EmbeddedPersistentVolumeClaim_type X) (EmbeddedPersistentVolumeClaim_DeepCopyInto X)"
    and "deep (JobEnvironmentSpec_type X) (JobEnvironmentSpec_DeepCopyInto X)"
    and "deep (OauthServiceSpec_type X) (OauthServiceSpec_DeepCopyInto X)"
    and "deep (Spyt_type X) (Spyt_DeepCopyInto X)"
    and "deep (UpdateStatus_type X) (UpdateStatus_DeepCopyInto X)"
  unfolding BaseLoggerSpec_type_def BaseLoggerSpec_DeepCopyInto_def
    BundlesBootstrapSpec_type_def BundlesBootstrapSpec_DeepCopyInto_def Chyt_type_def Chyt_DeepCopyInto_def
    CommonSpec_type_def CommonSpec_DeepCopyInto_def
    EmbeddedPersistentVolumeClaim_type_def EmbeddedPersistentVolumeClaim_DeepCopyInto_def
    JobEnvironmentSpec_type_def JobEnvironmentSpec_DeepCopyInto_def OauthServiceSpec_type_def OauthServiceSpec_DeepCopyInto_def
    Spyt_type_def Spyt_DeepCopyInto_def UpdateStatus_type_def UpdateStatus_DeepCopyInto_def
  by (rule deep_struct; use assms in \<open>auto simp: flat_parts intro!: deep_intros\<close>)+

lemma deep_level3 [deep_intros]:
  assumes "external_ok X"
  shows "deep (BootstrapSpec_type X) (BootstrapSpec_DeepCopyInto X)"
    and "deep (ChytList_type X) (ChytList_DeepCopyInto X)"
    and "deep (SpytList_type X) (SpytList_DeepCopyInto X)"
    and "deep (StructuredLoggerSpec_type X) (StructuredLoggerSpec_DeepCopyInto X)"
    and "deep (TextLoggerSpec_type X) (TextLoggerSpec_DeepCopyInto X)"
    and "deep (YtsaurusStatus_type X) (YtsaurusStatus_DeepCopyInto X)"
  unfolding BootstrapSpec_type_def BootstrapSpec_DeepCopyInto_def ChytList_type_def ChytList_DeepCopyInto_def
    SpytList_type_def SpytList_DeepCopyInto_def StructuredLoggerSpec_type_def StructuredLoggerSpec_DeepCopyInto_def
    TextLoggerSpec_type_def TextLoggerSpec_DeepCopyInto_def YtsaurusStatus_type_def YtsaurusStatus_DeepCopyInto_def
  by (rule deep_struct; use assms in \<open>auto simp: flat_parts intro!: deep_intros\<close>)+

lemma deep_level4 [deep_intros]:
  assumes "external_ok X"
  shows "deep (InstanceSpec_type X) (InstanceSpec_DeepCopyInto X)"
  unfolding InstanceSpec_type_def InstanceSpec_DeepCopyInto_def
  by (rule deep_struct; use assms in \<open>auto simp: flat_parts intro!: deep_intros\<close>)+

lemma deep_level5 [deep_intros]:
  assumes "external_ok X"
  shows "deep (ControllerAgentsSpec_type X) (ControllerAgentsSpec_DeepCopyInto X)"
    and "deep (DataNodesSpec_type X) (DataNodesSpec_DeepCopyInto X)"
    and "deep (DiscoverySpec_type X) (DiscoverySpec_DeepCopyInto X)"
    and "deep (ExecNodesSpec_type X) (ExecNodesSpec_DeepCopyInto X)"
    and "deep (HTTPProxiesSpec_type X) (HTTPProxiesSpec_DeepCopyInto X)"
    and "deep (MasterCachesSpec_type X) (MasterCachesSpec_DeepCopyInto X)"
    and "deep (MastersSpec_type X) (MastersSpec_DeepCopyInto X)"
    and "deep (QueryTrackerSpec_type X) (QueryTrackerSpec_DeepCopyInto X)"
    and "deep (QueueAgentSpec_type X) (QueueAgentSpec_DeepCopyInto X)"
    and "deep (RPCProxiesSpec_type X) (RPCProxiesSpec_DeepCopyInto X)"
    and "deep (SchedulersSpec_type X) (SchedulersSpec_DeepCopyInto X)"
    and "deep (TCPProxiesSpec_type X) (TCPProxiesSpec_DeepCopyInto X)"
    and "deep (TabletNodesSpec_type X) (TabletNodesSpec_DeepCopyInto X)"
    and "deep (YQLAgentSpec_type X) (YQLAgentSpec_DeepCopyInto X)"
  unfolding ControllerAgentsSpec_type_def ControllerAgentsSpec_DeepCopyInto_def
    DataNodesSpec_type_def DataNodesSpec_DeepCopyInto_def DiscoverySpec_type_def DiscoverySpec_DeepCopyInto_def
    ExecNodesSpec_type_def ExecNodesSpec_DeepCopyInto_def HTTPProxiesSpec_type_def HTTPProxiesSpec_DeepCopyInto_def
    MasterCachesSpec_type_def MasterCachesSpec_DeepCopyInto_def MastersSpec_type_def MastersSpec_DeepCopyInto_def
    QueryTrackerSpec_type_def QueryTrackerSpec_DeepCopyInto_def QueueAgentSpec_type_def QueueAgentSpec_DeepCopyInto_def
    RPCProxiesSpec_type_def RPCProxiesSpec_DeepCopyInto_def SchedulersSpec_type_def SchedulersSpec_DeepCopyInto_def
    TCPProxiesSpec_type_def TCPProxiesSpec_DeepCopyInto_def TabletNodesSpec_type_def TabletNodesSpec_DeepCopyInto_def
    YQLAgentSpec_type_def YQLAgentSpec_DeepCopyInto_def
  by (rule deep_struct; use assms in \<open>auto simp: flat_parts intro!: deep_intros\<close>)+

lemma deep_level6 [deep_intros]:
  assumes "external_ok X"
  shows "deep (RemoteExecNodesSpec_type X) (RemoteExecNodesSpec_DeepCopyInto X)"
    and "deep (RemoteYtsaurusSpec_type X) (RemoteYtsaurusSpec_DeepCopyInto X)"
    and "deep (YtsaurusSpec_type X) (YtsaurusSpec_DeepCopyInto X)"
  unfolding RemoteExecNodesSpec_type_def RemoteExecNodesSpec_DeepCopyInto_def
    RemoteYtsaurusSpec_type_def RemoteYtsaurusSpec_DeepCopyInto_def YtsaurusSpec_type_def YtsaurusSpec_DeepCopyInto_def
  by (rule deep_struct; use assms in \<open>auto simp: flat_parts intro!: deep_intros\<close>)+

lemma deep_level7 [deep_intros]:
  assumes "external_ok X"
  shows "deep (RemoteExecNodes_type X) (RemoteExecNodes_DeepCopyInto X)"
    and "deep (RemoteYtsaurus_type X) (RemoteYtsaurus_DeepCopyInto X)"
    and "deep (Ytsaurus_type X) (Ytsaurus_DeepCopyInto X)"
  unfolding RemoteExecNodes_type_def RemoteExecNodes_DeepCopyInto_def RemoteYtsaurus_type_def RemoteYtsaurus_DeepCopyInto_def
    Ytsaurus_type_def Ytsaurus_DeepCopyInto_def
  by (rule deep_struct; use assms in \<open>auto simp: flat_parts intro!: deep_intros\<close>)+

lemma deep_level8 [deep_intros]:
  assumes "external_ok X"
  shows "deep (RemoteExecNodesList_type X) (RemoteExecNodesList_DeepCopyInto X)"
    and "deep (RemoteYtsaurusList_type X) (RemoteYtsaurusList_DeepCopyInto X)"
    and "deep (YtsaurusList_type X) (YtsaurusList_DeepCopyInto X)"
  unfolding RemoteExecNodesList_type_def RemoteExecNodesList_DeepCopyInto_def
    RemoteYtsaurusList_type_def RemoteYtsaurusList_DeepCopyInto_def YtsaurusList_type_def YtsaurusList_DeepCopyInto_def
  by (rule deep_struct; use assms in \<open>auto simp: flat_parts intro!: deep_intros\<close>)+

text \<open>The resources, which the API machinery copies with \<open>DeepCopyObject\<close>, each with its type.\<close>

definition resource_copies :: "external_types \<Rightarrow> (gty \<times> (gval \<Rightarrow> (store, gval option) state)) list" where
  "resource_copies X = [(Chyt_type X, Chyt_DeepCopyObject X), (ChytList_type X, ChytList_DeepCopyObject X),
     (RemoteExecNodes_type X, RemoteExecNodes_DeepCopyObject X), (RemoteExecNodesList_type X, RemoteExecNodesList_DeepCopyObject X),
     (RemoteYtsaurus_type X, RemoteYtsaurus_DeepCopyObject X), (RemoteYtsaurusList_type X, RemoteYtsaurusList_DeepCopyObject X),
     (Spyt_type X, Spyt_DeepCopyObject X), (SpytList_type X, SpytList_DeepCopyObject X),
     (Ytsaurus_type X, Ytsaurus_DeepCopyObject X), (YtsaurusList_type X, YtsaurusList_DeepCopyObject X)]"

lemmas resource_defs = Chyt_DeepCopyObject_def Chyt_DeepCopy_def ChytList_DeepCopyObject_def ChytList_DeepCopy_def RemoteExecNodes_DeepCopyObject_def
  RemoteExecNodes_DeepCopy_def RemoteExecNodesList_DeepCopyObject_def RemoteExecNodesList_DeepCopy_def
  RemoteYtsaurus_DeepCopyObject_def RemoteYtsaurus_DeepCopy_def RemoteYtsaurusList_DeepCopyObject_def
  RemoteYtsaurusList_DeepCopy_def Spyt_DeepCopyObject_def Spyt_DeepCopy_def SpytList_DeepCopyObject_def SpytList_DeepCopy_def
  Ytsaurus_DeepCopyObject_def Ytsaurus_DeepCopy_def YtsaurusList_DeepCopyObject_def YtsaurusList_DeepCopy_def

lemma deep_resources:
  assumes "external_ok X" and "(t, c) \<in> set (resource_copies X)"
  obtains d where "deep (TPtr t) d" and "c = deepCopyObjectWith d"
  using assms by (auto simp: resource_copies_def resource_defs intro!: deep_deepCopyWith deep_intros)

end
