(* ===== verification/Sample.thy ===== *)
theory Sample
  imports Accepted Queries Startup DeepCopy
begin

text \<open>
  A small cluster on which the properties are evaluated: a world that stores the resource and the
  integer attributes of Cypress, an instance of the outside systems over it that satisfies the
  hypotheses of the development, a specification with one instance of the main components, and
  statuses at chosen points of an update.
\<close>

subsection \<open>The outside\<close>

record sample_world =
  sw_yts :: YtsaurusResource
  sw_ints :: "string \<Rightarrow> int"

definition cellCountPath :: "string \<Rightarrow> string" where
  "cellCountPath b = ''//sys/tablet_cell_bundles/'' @ b @ ''/@tablet_cell_count''"

definition sample_create_object :: "string \<Rightarrow> (string \<times> yval) list \<Rightarrow> bool \<Rightarrow> sample_world \<Rightarrow> error \<times> sample_world" where
  "sample_create_object t attrs ignore w = (case attrs of
       [(k, YString b)] \<Rightarrow>
         if t = ''tablet_cell'' then (None, w\<lparr>sw_ints := (sw_ints w)(cellCountPath b := sw_ints w (cellCountPath b) + 1)\<rparr>)
         else (None, w)
     | _ \<Rightarrow> (None, w))"

definition sample_k8s :: "sample_world k8s_api" where
  "sample_k8s = \<lparr>k_now = (\<lambda>_. 7), k_get_ytsaurus = (\<lambda>w. Found (sw_yts w)), k_get_statefulset = (\<lambda>_ _. NotFound),
     k_get_deployment = (\<lambda>_ _. NotFound), k_get_configmap = (\<lambda>_ _. NotFound), k_get_secret = (\<lambda>_ _. NotFound),
     k_get_service = (\<lambda>_ _. NotFound), k_get_job = (\<lambda>_ _. NotFound), k_list_pods = (\<lambda>_ _. Inr []),
     k_set_controller_reference = (\<lambda>_. None), k_create = (\<lambda>_ w. (None, w)), k_update = (\<lambda>_ w. (None, w)),
     k_delete = (\<lambda>_ _ w. (None, w)),
     k_status_update = (\<lambda>y w. (None, w\<lparr>sw_yts := (sw_yts w)\<lparr>yr_Status := yr_Status y\<rparr>\<rparr>))\<rparr>"

definition sample_masters :: "string list" where
  "sample_masters = [''ms-0'', ''ms-1'', ''ms-2'']"

definition sample_hydra :: "string \<Rightarrow> MasterHydra" where
  "sample_hydra p = \<lparr>mh_ReadOnly = True, mh_LastSnapshotReadOnly = True, mh_Active = True,
     mh_State = (if p = ''//sys/primary_masters/ms-0/orchid/monitoring/hydra'' then ''leading'' else ''following'')\<rparr>"

definition sample_yt :: "sample_world yt_api" where
  "sample_yt = \<lparr>y_new_client = (\<lambda>_ _ _. None), y_get_int = (\<lambda>p w. Inr (sw_ints w p)),
     y_get_hydra = (\<lambda>p w. Inr (sample_hydra p)),
     y_get_master = (\<lambda>p w. Inr \<lparr>mi_CellID = ''1'', mi_Addresses = sample_masters\<rparr>),
     y_get_masters = (\<lambda>p w. Inr []), y_get_map = (\<lambda>p w. Inr []), y_exists = (\<lambda>p w. Inr False),
     y_list = (\<lambda>p w. Inr (if p = ''//sys/primary_masters'' then sample_masters else [])),
     y_list_health = (\<lambda>p w. Inr [\<lparr>tbh_Name = ''default'', tbh_Health = ''good''\<rparr>]),
     y_list_cell_count = (\<lambda>p w. Inr []), y_set = (\<lambda>p v w. (None, w)), y_remove = (\<lambda>p w. (None, w)),
     y_create_object = sample_create_object, y_create_node = (\<lambda>p t a r i w. (None, w)),
     y_add_member = (\<lambda>g u w. (None, w)), y_build_master_snapshots = (\<lambda>w. (None, w))\<rparr>"

definition sample_fmt :: fmt_api where
  "sample_fmt = \<lparr>f_yson_unmarshal = (\<lambda>s. Inr (YString s)), f_yson_unmarshal_map = (\<lambda>s. Inr []),
     f_yson_marshal = (\<lambda>v. case v of YString s \<Rightarrow> Inr s | _ \<Rightarrow> Inr []),
     f_json_marshal = (\<lambda>v. case v of YString s \<Rightarrow> Inr s | _ \<Rightarrow> Inr []),
     f_toml_encode = (\<lambda>v. case v of YString s \<Rightarrow> Inr s | _ \<Rightarrow> Inr []),
     f_yaml_container = (\<lambda>s. Inr zero_container), f_sha256 = (\<lambda>s. s), f_uuid = (\<lambda>s. replicate 16 0x11),
     f_lookup_env = (\<lambda>_. Some ''cluster.local''), f_lookup_cname = (\<lambda>_. Inl ''no such host''),
     f_yson_text = (\<lambda>v. Inr []), f_yson_acl = (\<lambda>v. Inr []), f_map_order = (\<lambda>ks. ks),
     f_quantity_value = (\<lambda>q. word_of_int (- (- q div 1000000000))), f_quantity_float = (\<lambda>q. flt_of_int float64 (q div 1000000000))\<rparr>"

definition sample_ext :: "sample_world ext" where
  "sample_ext = \<lparr>x_meta = meta_ref, x_k8s = sample_k8s, x_yt = sample_yt, x_fmt = sample_fmt,
     x_rand = (\<lambda>n w. replicate n 0)\<rparr>"

subsection \<open>The resource\<close>

definition sample_instance :: InstanceSpec where
  "sample_instance = \<lparr>is_Image = None, is_EntrypointWrapper = [], is_Volumes = [], is_VolumeMounts = [],
     is_ReadinessProbeParams = None, is_Resources = zero_resources, is_InstanceCount = 3, is_MinReadyInstanceCount = None,
     is_Locations = [], is_VolumeClaimTemplates = [], is_RuntimeClassName = None, is_EnableAntiAffinity = None,
     is_HostNetwork = None, is_MonitoringPort = None, is_Loggers = [], is_StructuredLoggers = [], is_Affinity = None, is_NodeSelector = Map.empty, is_Tolerations = [],
     is_PodLabels = Map.empty, is_PodAnnotations = Map.empty, is_SetHostnameAsFQDN = None,
     is_TerminationGracePeriodSeconds = None, is_NativeTransport = None\<rparr>"

definition sample_common :: CommonSpec where
  "sample_common = \<lparr>cs_CoreImage = ''ytsaurus:1'', cs_JobImage = None, cs_CABundle = None, cs_NativeTransport = None,
     cs_EphemeralCluster = False, cs_UseIPv6 = False, cs_UseIPv4 = True, cs_KeepSocket = None, cs_ForceTCP = None,
     cs_UseShortNames = True, cs_HostNetwork = False, cs_UsePorto = False, cs_ExtraPodAnnotations = Map.empty,
     cs_ConfigOverrides = None, cs_ImagePullSecrets = []\<rparr>"

definition sample_spec :: YtsaurusSpec where
  "sample_spec = \<lparr>ys_Common = sample_common, ys_UIImage = [], ys_AdminCredentials = None, ys_OauthService = None,
     ys_IsManaged = True, ys_EnableFullUpdate = True, ys_UpdateSelector = UpdateSelectorUnspecified, ys_Bootstrap = None,
     ys_Discovery = sample_instance,
     ys_PrimaryMasters = \<lparr>ms_Instance = sample_instance, ms_Connection = \<lparr>mcs_CellTag = 1, mcs_HostAddresses = []\<rparr>,
       ms_HostAddressLabel = [], ms_MaxSnapshotCountToKeep = None, ms_MaxChangelogCountToKeep = None, ms_Sidecars = []\<rparr>,
     ys_SecondaryMasters = [], ys_MasterCaches = None,
     ys_HTTPProxies = [\<lparr>hps_Instance = sample_instance, hps_ServiceType = ''ClusterIP'', hps_HttpNodePort = None,
       hps_HttpsNodePort = None, hps_Role = ''default'', hps_Transport = \<lparr>ht_HTTPSSecret = None, ht_DisableHTTP = False\<rparr>\<rparr>],
     ys_RPCProxies = [], ys_TCPProxies = [],
     ys_DataNodes = [\<lparr>dns_Instance = sample_instance, dns_Tags = [], dns_Rack = [], dns_Name = ''default''\<rparr>],
     ys_ExecNodes = [], ys_Schedulers = Some sample_instance, ys_ControllerAgents = Some sample_instance,
     ys_TabletNodes = [\<lparr>tns_Instance = sample_instance, tns_Tags = [], tns_Rack = [], tns_Name = ''default''\<rparr>],
     ys_StrawberryController = None, ys_DeprecatedChytController = None,
     ys_QueryTrackers = None, ys_Spyt = None, ys_YQLAgents = None, ys_QueueAgents = None, ys_UI = None\<rparr>"

definition sample_resource :: "YtsaurusStatus \<Rightarrow> YtsaurusResource" where
  "sample_resource s = \<lparr>yr_Meta = zero_meta\<lparr>om_Name := ''test'', om_Namespace := ''default''\<rparr>, yr_Spec = sample_spec, yr_Status = s\<rparr>"

definition sample_start :: "YtsaurusStatus \<Rightarrow> sample_world" where
  "sample_start s = \<lparr>sw_yts = sample_resource s, sw_ints = (\<lambda>_. 0)\<rparr>"

text \<open>A cluster in an update, with these update conditions true, and the memory of its reconciliation.\<close>

definition sample_updating :: "UpdateFlow \<Rightarrow> string list option \<Rightarrow> UpdateState \<Rightarrow> string list \<Rightarrow> YtsaurusStatus" where
  "sample_updating F ns s ts = \<lparr>st_State = ClusterStateUpdating, st_Conditions = [], st_UpdateStatus =
     \<lparr>us_State = s, us_Components = ns, us_Flow = F, us_Conditions = map (\<lambda>t. mkCondition t ConditionTrue ''Update'' []) ts,
      us_TabletCellBundles = [], us_MasterMonitoringPaths = []\<rparr>\<rparr>"

definition sample_heap :: "YtsaurusStatus \<Rightarrow> sample_world heap" where
  "sample_heap s = fresh_heap (sample_resource s) (sample_start s)"

subsection \<open>The sample satisfies the hypotheses\<close>

lemmas sample_exts = sample_ext_def sample_k8s_def sample_yt_def sample_create_object_def

lemma sample_create_stored [simp]: "sw_yts (snd (sample_create_object t a i w)) = sw_yts w"
  by (simp add: sample_create_object_def split: list.split prod.split yval.split)

lemma sample_ext_ok [simp]: "ext_ok sample_ext"
  by (simp add: ext_ok_def k8s_ok_def yt_ok_def preserves_stored_def) (simp add: sample_ext_def sample_k8s_def sample_yt_def)

lemma sample_meta_ok [simp]: "meta_ok (x_meta sample_ext)"
  by (simp add: sample_ext_def meta_ok_ref)

lemma sample_cell_count: "cell_count sample_ext b w = Inr (sw_ints w (cellCountPath b))"
  by (simp add: cell_count_def cellCountPath_def sample_ext_def sample_yt_def)

lemma cellCountPath_inject [simp]: "cellCountPath a = cellCountPath b \<longleftrightarrow> a = b"
  by (simp add: cellCountPath_def)

lemma sample_cells_ok [simp]: "cells_ok sample_ext"
  by (simp add: cells_ok_def sample_cell_count) (simp add: sample_exts)

lemma sample_get [simp]: "k_get_ytsaurus (x_k8s sample_ext) w = Found (sw_yts w)"
  by (simp add: sample_ext_def sample_k8s_def)

lemma sample_start_simps [simp]: "yr_Status (sw_yts (sample_start s)) = s" "sw_ints (sample_start s) p = 0"
  by (simp_all add: sample_start_def sample_resource_def)

lemma sample_heap_simps [simp]:
  "h_yts (sample_heap s) = sample_resource s" "h_world (sample_heap s) = sample_start s" "yr_Status (sample_resource s) = s"
  by (simp_all add: sample_heap_def fresh_heap_def sample_resource_def)

lemma sample_conditions:
  "wf_conditions (map (\<lambda>t. mkCondition t ConditionTrue r m) ts) = distinct ts"
  "status_of (map (\<lambda>t. mkCondition t ConditionTrue r m) ts) t = (if t \<in> set ts then Some ConditionTrue else None)"
proof -
  show "wf_conditions (map (\<lambda>t. mkCondition t ConditionTrue r m) ts) = distinct ts"
    by (simp add: wf_conditions_def mkCondition_def comp_def)
  show "status_of (map (\<lambda>t. mkCondition t ConditionTrue r m) ts) t = (if t \<in> set ts then Some ConditionTrue else None)"
    by (induction ts) (auto simp: status_of_def mkCondition_def)
qed

lemma sample_updating_sel [simp]:
  "st_State (sample_updating F ns s ts) = ClusterStateUpdating" "us_State (st_UpdateStatus (sample_updating F ns s ts)) = s"
  "us_Flow (st_UpdateStatus (sample_updating F ns s ts)) = F" "us_Components (st_UpdateStatus (sample_updating F ns s ts)) = ns"
  by (simp_all add: sample_updating_def)

lemma sample_updating_wf: "wf_status (sample_updating F ns s ts) = distinct ts"
  by (simp add: wf_status_def sample_updating_def sample_conditions wf_conditions_def [of "[]"])

lemma sample_updating_abs:
  "abs_status (sample_updating F ns s ts) = \<lparr>ctl_State = ClusterStateUpdating, ctl_UpdateState = s, ctl_Flow = F,
     ctl_Components = ns, ctl_Conds = set ts\<rparr>"
  by (auto simp: abs_status_def sample_updating_def sample_conditions)

lemma sample_cond_inv: "distinct ts \<Longrightarrow> cond_inv sample_ext (sample_heap (sample_updating F ns s ts))"
  by (simp add: cond_inv_wf_status sample_updating_wf)

lemma sample_cond_true: "distinct ts \<Longrightarrow>
    IsUpdateStatusConditionTrue sample_ext t (sample_heap (sample_updating F ns s ts)) \<longleftrightarrow> t \<in> set ts"
  by (simp add: IsUpdateStatusConditionTrue_stored sample_cond_inv update_stored_def)
    (simp add: sample_updating_def sample_conditions)

lemma sample_getters [simp]:
  "GetClusterState (sample_heap s) = st_State s" "GetUpdateState (sample_heap s) = us_State (st_UpdateStatus s)"
  "GetUpdateFlow (sample_heap s) = us_Flow (st_UpdateStatus s)"
  "GetLocalUpdatingComponents (sample_heap s) = us_Components (st_UpdateStatus s)"
  by (simp_all add: getter_defs)

subsection \<open>Updates under way\<close>

abbreviation sample_full :: YtsaurusStatus where
  "sample_full \<equiv> sample_updating UpdateFlowFull None UpdateStateWaitingForPodsRemoval
     [ConditionHasPossibility, ConditionSafeModeEnabled, ConditionTabletCellsSaved,
      ConditionTabletCellsRemovingStarted, ConditionTabletCellsRemoved, ConditionSnaphotsSaved]"

lemma sample_full_inv: "wf_status sample_full" "cluster_inv (abs_status sample_full)"
  by (simp_all add: sample_updating_wf sample_updating_abs cluster_inv_def updating_ok_def choice_ok_def required_defs)

text \<open>A manager of no components.\<close>

definition sample_manager :: "sample_world heap ComponentManager" where
  "sample_manager = \<lparr>cm_allComponents = [], cm_queryTracker = None, cm_scheduler = None, cm_status = initial_status\<rparr>"

text \<open>A component that reports a fixed status.\<close>

definition sample_component :: "string \<Rightarrow> ComponentType \<Rightarrow> SyncStatus \<Rightarrow> sample_world heap component" where
  "sample_component name t s = \<lparr>c_GetName = name, c_GetType = t, c_IsUpdatable = True, c_Fetch = ret None, c_Sync = ret None,
     c_Status = ret (SimpleStatus s, None), c_SetReadyCondition = (\<lambda>_. ret ())\<rparr>"

text \<open>A manager that saw an exec node that needs an update.\<close>

definition sample_needs_update :: "sample_world heap ComponentManager" where
  "sample_needs_update = sample_manager\<lparr>cm_status := addStatus (sample_component ''ExecNode'' ExecNodeType SyncStatusNeedLocalUpdate)
     SyncStatusNeedLocalUpdate initial_status\<rparr>"

abbreviation sample_master_update :: YtsaurusStatus where
  "sample_master_update \<equiv> sample_updating UpdateFlowMaster (Some [''Master'']) UpdateStateWaitingForPodsCreation
     [ConditionHasPossibility, ConditionSafeModeEnabled, ConditionSnaphotsSaved]"

abbreviation sample_tablet_update :: YtsaurusStatus where
  "sample_tablet_update \<equiv> sample_updating UpdateFlowTabletNodes (Some [''TabletNode'']) UpdateStateWaitingForPodsCreation
     [ConditionHasPossibility, ConditionTabletCellsSaved, ConditionTabletCellsRemovingStarted, ConditionTabletCellsRemoved]"

lemma sample_updates_inv:
  "wf_status sample_master_update" "cluster_inv (abs_status sample_master_update)"
  "wf_status sample_tablet_update" "cluster_inv (abs_status sample_tablet_update)"
  by (simp_all add: sample_updating_wf sample_updating_abs cluster_inv_def updating_ok_def choice_ok_def required_defs)

lemma sample_stored [simp]: "stored_status sample_ext (sample_heap s) = Some s"
  by (simp add: stored_status_def)

lemma moved [simp]:
  "GetUpdateState (snd (run_state (moveTo E ms t r) h)) = t"
  "GetClusterState (snd (run_state (finishTo E ms c) h)) = c"
  by (simp_all add: getter_defs run_moveTo [OF prod.collapse [symmetric]])

lemma sample_saved [simp]:
  "snd (fst (run_state (moveTo sample_ext ms t r) h)) = None" "snd (fst (run_state (finishTo sample_ext ms c) h)) = None"
  "fst (run_state (UpdateStatus sample_ext) h) = None"
  by (simp_all add: moveTo_def finishTo_def case_prod_unfold run_saves run_UpdateStatus sample_ext_def sample_k8s_def)

text \<open>The same status with saved tablet cell bundles and monitoring paths.\<close>

definition with_saved :: "TabletCellBundleInfo list \<Rightarrow> string list \<Rightarrow> YtsaurusStatus \<Rightarrow> YtsaurusStatus" where
  "with_saved bs ps s = s\<lparr>st_UpdateStatus := (st_UpdateStatus s)\<lparr>us_TabletCellBundles := bs, us_MasterMonitoringPaths := ps\<rparr>\<rparr>"

lemma with_saved_simps [simp]:
  "st_State (with_saved bs ps s) = st_State s" "us_State (st_UpdateStatus (with_saved bs ps s)) = us_State (st_UpdateStatus s)"
  "us_TabletCellBundles (st_UpdateStatus (with_saved bs ps s)) = bs"
  "us_MasterMonitoringPaths (st_UpdateStatus (with_saved bs ps s)) = ps"
  "cond_inv E (sample_heap (with_saved bs ps s)) = cond_inv E (sample_heap s)"
  "IsUpdateStatusConditionTrue E t (sample_heap (with_saved bs ps s)) = IsUpdateStatusConditionTrue E t (sample_heap s)"
  by (simp_all add: with_saved_def cond_inv_wf_status wf_status_def IsUpdateStatusConditionTrue_def)

abbreviation sample_snapshots :: "sample_world heap" where
  "sample_snapshots \<equiv> sample_heap (with_saved [] [''//m''] (sample_updating UpdateFlowFull None UpdateStateWaitingForSnapshots
     [ConditionSnapshotsMonitoringInfoSaved, ConditionSnapshotsBuildingStarted]))"

abbreviation sample_recovery :: "sample_world heap" where
  "sample_recovery \<equiv> sample_heap (with_saved [\<lparr>tcb_Name = ''default'', tcb_TabletCellCount = 2\<rparr>] []
     (sample_updating UpdateFlowFull None UpdateStateWaitingForTabletCellsRecovery []))"

text \<open>A component of the sample cluster.\<close>

definition sample_first :: "sample_world heap component" where
  "sample_first = hd (allComponents sample_ext (sample_heap new_status))"

lemma sample_first_in: "sample_first \<in> set (allComponents sample_ext (sample_heap new_status))"
proof -
  have "count_ok sample_spec (fst (run_state (newComponents sample_ext) (sample_heap new_status)))"
    using newComponentsFor_count [of "sample_resource new_status" sample_ext]
    by (simp add: newComponents_def returns_def sample_resource_def)
  moreover have "ys_HTTPProxies sample_spec \<noteq> []" "component_count sample_spec > 0"
    by (simp_all add: sample_spec_def component_count_def)
  ultimately have "allComponents sample_ext (sample_heap new_status) \<noteq> []"
    by (auto simp: allComponents_def count_ok_def split: sum.splits)
  then show ?thesis by (simp add: sample_first_def)
qed

text \<open>A scheduler of a cluster without tablet nodes.\<close>

definition sample_scheduler :: "sample_world heap Scheduler" where
  "sample_scheduler = \<lparr>s_srv = 0, s_initUser = 0, s_initOpArchive = 1, s_secret = 0,
     s_cfgen = NewGenerator (sample_resource new_status) ''cluster.local'', s_master = sample_component ''Master'' MasterType SyncStatusReady,
     s_execNodes = [], s_tabletNodes = []\<rparr>"

definition sample_labeller :: Labeller where
  "sample_labeller = mkLabeller (sample_resource new_status) ''yt-scheduler'' ''Scheduler'' Map.empty"

text \<open>A server with one configuration file, an init job of it, and a memory that holds the server at address 0.\<close>

definition sample_server :: serverImpl where
  "sample_server = newServer sample_labeller (sample_resource new_status) sample_instance ''/usr/bin/ytserver-scheduler''
     ''ytserver-scheduler.yson'' ''sch'' ''schedulers'' (Inr ''config'') []"

definition sample_job :: InitJob where
  "sample_job = (NewInitJob sample_labeller [] ''user'' ''client.yson'' ''ytsaurus:1'' (Inr ''config''))
     \<lparr>ij_initJob := (NewJob ''job'' sample_labeller)\<lparr>r_old := zero_job\<lparr>o_Meta := zero_meta\<lparr>om_ResourceVersion := ''1''\<rparr>,
        o_Body := (o_Body zero_job)\<lparr>job_Succeeded := 1\<rparr>\<rparr>\<rparr>\<rparr>"

definition sample_memory :: "YtsaurusStatus \<Rightarrow> sample_world heap" where
  "sample_memory s = put_srv 0 sample_server (sample_heap s)"

lemma sample_memory_simps [simp]:
  "h_yts (sample_memory s) = sample_resource s" "h_world (sample_memory s) = sample_start s" "h_srv (sample_memory s) 0 = sample_server"
  "IsUpdateStatusConditionTrue E t (sample_memory s) = IsUpdateStatusConditionTrue E t (sample_heap s)"
  "cond_inv E (sample_memory s) = cond_inv E (sample_heap s)"
  by (simp_all add: sample_memory_def put_srv_def IsUpdateStatusConditionTrue_def cond_inv_def)

subsection \<open>An accepted specification\<close>

text \<open>A validator in an empty namespace, and the sample specification with the locations of masters and nodes.\<close>

definition sample_webhook :: "sample_world webhook_api" where
  "sample_webhook = \<lparr>wh_list = (\<lambda>_ _. Inr []), wh_yaml_strict = (\<lambda>s. (None, s)), wh_path_string = (\<lambda>_. [])\<rparr>"

definition sample_mount :: VolumeMount where
  "sample_mount = \<lparr>vm_Name = ''data'', vm_MountPath = ''/yt'', vm_SubPath = [], vm_ReadOnly = False, vm_MountPropagation = None\<rparr>"

definition sample_location :: "LocationType \<Rightarrow> LocationSpec" where
  "sample_location t = \<lparr>loc_LocationType = t, loc_Path = ''/yt/data'', loc_Medium = ''default'', loc_Quota = Some (10737418240 * 1000000000),
     loc_LowWatermark = None, loc_MaxTrashMilliseconds = None\<rparr>"

definition sample_located :: "LocationType list \<Rightarrow> InstanceSpec" where
  "sample_located ts = sample_instance\<lparr>is_InstanceCount := 1, is_VolumeMounts := [sample_mount], is_Locations := map sample_location ts\<rparr>"

definition sample_valid :: YtsaurusResource where
  "sample_valid = (sample_resource new_status)\<lparr>yr_Spec := sample_spec
     \<lparr>ys_PrimaryMasters := (ys_PrimaryMasters sample_spec)\<lparr>ms_Instance :=
        sample_located [LocationTypeMasterChangelogs, LocationTypeMasterSnapshots]\<rparr>,
      ys_DataNodes := [\<lparr>dns_Instance = sample_located [LocationTypeChunkStore], dns_Tags = [], dns_Rack = [], dns_Name = ''default''\<rparr>]\<rparr>\<rparr>"

lemma sample_instance_ok: "instance_ok sample_instance" "instance_ok (sample_located ts)"
  by (auto simp: instance_ok_def sample_instance_def sample_located_def sample_mount_def sample_location_def)

lemma sample_located_simps: "has_location (sample_located ts) t \<longleftrightarrow> t \<in> set ts" "is_InstanceCount (sample_located ts) = 1"
  by (auto simp: has_location_def sample_located_def sample_location_def)

lemma sample_spec_ok: "spec_ok sample_webhook (yr_Spec sample_valid)"
  by (simp add: spec_ok_def all_instances_ok masters_ok_def hosts_ok_def names_ok_def requires_ok_def sample_instance_ok
      sample_located_simps sample_valid_def sample_resource_def sample_spec_def)

lemma sample_marshal_ok: "marshal_ok sample_ext"
  by (simp add: marshal_ok_def sample_ext_def sample_fmt_def split: yval.split)

subsection \<open>A server with volumes\<close>

text \<open>A server that mounts a volume and a claim of its specification, in a cluster with a CA bundle and TLS.\<close>

definition sample_mounting :: serverImpl where
  "sample_mounting = newServerConfigured sample_labeller
     (sample_common\<lparr>cs_CABundle := Some ''ca'', cs_NativeTransport := Some \<lparr>rt_TLSSecret = Some ''tls'', rt_TLSRequired = True,
        rt_TLSInsecure = False, rt_TLSPeerAlternativeHostName = []\<rparr>\<rparr>)
     (sample_instance\<lparr>is_Volumes := [\<lparr>vol_Name = ''data'', vol_Source = EmptyDirSource None\<rparr>],
        is_VolumeMounts := [sample_mount, sample_mount\<lparr>vm_Name := ''disk'', vm_MountPath := ''/disk''\<rparr>],
        is_VolumeClaimTemplates := [\<lparr>pvc_Name = ''disk'', pvc_Labels = Map.empty, pvc_Annotations = Map.empty, pvc_Requests = Map.empty, pvc_Spec = []\<rparr>]\<rparr>)
     ''/usr/bin/ytserver-node'' ''ytserver-data-node.yson'' ''dnd'' ''data-nodes'' (Inr ''config'') []"

lemma sample_mounting_sel:
  "is_Volumes (srv_instanceSpec sample_mounting) = [\<lparr>vol_Name = ''data'', vol_Source = EmptyDirSource None\<rparr>]"
  "is_VolumeMounts (srv_instanceSpec sample_mounting) = [sample_mount, sample_mount\<lparr>vm_Name := ''disk'', vm_MountPath := ''/disk''\<rparr>]"
  "pvc_Name ` set (is_VolumeClaimTemplates (srv_instanceSpec sample_mounting)) = {''disk''}"
  "srv_caBundle sample_mounting = Some (NewCABundle ''ca'' CABundleVolumeName CABundleMountPoint)"
  "srv_tlsSecret sample_mounting = Some (NewTLSSecret ''tls'' BusSecretVolumeName BusSecretMountPoint)"
  by (simp_all add: sample_mounting_def newServerConfigured_def Let_def sample_instance_def)

subsection \<open>A release\<close>

text \<open>
  A world that stores a CHYT resource; a secret with a token exists, jobs have been removed after
  they completed. The outside systems do nothing else.
\<close>

definition sample_secret :: SecretObj where
  "sample_secret = zero_secret\<lparr>o_Meta := zero_meta\<lparr>om_ResourceVersion := ''1''\<rparr>,
     o_Body := (o_Body zero_secret)\<lparr>sec_Data := [''YT_TOKEN'' \<mapsto> ''token'']\<rparr>\<rparr>"

definition sample_chyt :: ChytResource where
  "sample_chyt = \<lparr>rel_Meta = zero_meta\<lparr>om_Name := ''ch'', om_Namespace := ''default''\<rparr>,
     rel_Spec = \<lparr>rsp_ImagePullSecrets = [], rsp_Ytsaurus = Some ''test'', rsp_Image = ''chyt:1'', rsp_MakeDefault = False\<rparr>,
     rel_Status = \<lparr>rst_Conditions = map (\<lambda>t. mkCondition t ConditionTrue ''InitJobCompleted'' [])
         [''userCHYT-chInitJobCompleted'', ''releaseCHYT-chInitJobCompleted''],
       rst_ReleaseStatus = ChytReleaseStatusUploadingIntoCypress\<rparr>\<rparr>"

definition sample_running :: YtsaurusResource where
  "sample_running = sample_resource (new_status\<lparr>st_State := ClusterStateRunning\<rparr>)"

definition sample_release :: "(ChytResource, ChytSpec, ChytReleaseStatus) release_api" where
  "sample_release = \<lparr>ra_get = Found, ra_get_ytsaurus = (\<lambda>_ _. Found sample_running),
     ra_status_update = (\<lambda>y w. (None, w\<lparr>rel_Status := rel_Status y\<rparr>))\<rparr>"

definition sample_release_ext :: "ChytResource ext" where
  "sample_release_ext = \<lparr>x_meta = meta_ref,
     x_k8s = \<lparr>k_now = (\<lambda>_. 7), k_get_ytsaurus = (\<lambda>_. Found sample_running), k_get_statefulset = (\<lambda>_ _. NotFound),
       k_get_deployment = (\<lambda>_ _. NotFound), k_get_configmap = (\<lambda>_ _. NotFound), k_get_secret = (\<lambda>_ _. Found sample_secret),
       k_get_service = (\<lambda>_ _. NotFound), k_get_job = (\<lambda>_ _. NotFound), k_list_pods = (\<lambda>_ _. Inr []),
       k_set_controller_reference = (\<lambda>_. None), k_create = (\<lambda>_ w. (None, w)), k_update = (\<lambda>_ w. (None, w)),
       k_delete = (\<lambda>_ _ w. (None, w)), k_status_update = (\<lambda>_ w. (None, w))\<rparr>,
     x_yt = \<lparr>y_new_client = (\<lambda>_ _ _. None), y_get_int = (\<lambda>_ _. Inr 0), y_get_hydra = (\<lambda>p _. Inr (sample_hydra p)),
       y_get_master = (\<lambda>_ _. Inl ''none''), y_get_masters = (\<lambda>_ _. Inr []), y_get_map = (\<lambda>_ _. Inr []),
       y_exists = (\<lambda>_ _. Inr False), y_list = (\<lambda>_ _. Inr []), y_list_health = (\<lambda>_ _. Inr []), y_list_cell_count = (\<lambda>_ _. Inr []),
       y_set = (\<lambda>_ _ w. (None, w)), y_remove = (\<lambda>_ w. (None, w)), y_create_object = (\<lambda>_ _ _ w. (None, w)),
       y_create_node = (\<lambda>_ _ _ _ _ w. (None, w)), y_add_member = (\<lambda>_ _ w. (None, w)), y_build_master_snapshots = (\<lambda>w. (None, w))\<rparr>,
     x_fmt = sample_fmt, x_rand = (\<lambda>n _. replicate n 0)\<rparr>"

lemma sample_release_ok: "release_ok sample_release sample_release_ext" "meta_ok (x_meta sample_release_ext)"
    "reads_ok sample_release_ext w" "wf_conditions (rst_Conditions (rel_Status sample_chyt))"
  by (simp_all add: release_ok_def reads_ok_def sample_release_def sample_release_ext_def meta_ok_ref)
    (simp add: sample_chyt_def wf_conditions_def mkCondition_def)

lemma sample_chyt_jobs: "job \<in> {''user'', ''release''} \<Longrightarrow>
    status_of (rst_Conditions (rel_Status sample_chyt)) (job @ ''CHYT-'' @ om_Name (rel_Meta sample_chyt) @ ''InitJobCompleted'') = Some ConditionTrue"
  by (auto simp: sample_chyt_def status_of_def mkCondition_def)

lemma sample_chyt_finishes:
  "\<exists>r'. ra_get sample_release (snd (ChytReconciler_Reconcile sample_release sample_release_ext sample_chyt)) = Found r' \<and>
     rst_ReleaseStatus (rel_Status r') = ChytReleaseStatusFinished"
  by (rule chyt_reconcile_finishes [OF sample_release_ok(1,2) _ sample_release_ok(4), where s = sample_secret and name = "''test''" and y = sample_running])
    (use sample_chyt_jobs sample_release_ok(3) in \<open>auto simp: sample_release_def sample_release_ext_def sample_chyt_def sample_running_def
      sample_resource_def sample_secret_def zero_secret_def zero_meta_def chPublicWanted_def sample_spec_def\<close>)

subsection \<open>An update that ends\<close>

text \<open>The sample answers every read, so its reconciliations enter the state machine.\<close>

lemma sample_queries_ok [simp]: "queries_ok sample_ext"
  by (simp add: queries_ok_def sample_ext_def sample_k8s_def sample_yt_def)

text \<open>
  A full update at its last stage: a reconciliation finishes it; others restore everything but the status;
  the next reconciliation clears it, and nothing happens after that.
\<close>

abbreviation sample_last :: YtsaurusStatus where
  "sample_last \<equiv> sample_updating UpdateFlowFull None UpdateStateWaitingForSafeModeDisabled [ConditionSafeModeDisabled]"

definition sample_finished :: YtsaurusStatus where
  "sample_finished = yr_Status (sw_yts (snd (Reconcile sample_ext (sample_start sample_last))))"

definition sample_run :: "nat \<Rightarrow> sample_world" where
  "sample_run i = (if i = 0 then sample_start sample_last else if i = 1 then snd (Reconcile sample_ext (sample_start sample_last))
     else if i = 2 then sample_start sample_finished else snd (Reconcile sample_ext (sample_start sample_finished)))"

lemma sample_managed: obtains cm h where "managed sample_ext (sample_start s) = Some (cm, h)"
    and "run_state (NewComponentManager sample_ext) (sample_heap s) = (Inr cm, h)"
proof -
  have r: "k_get_ytsaurus (x_k8s sample_ext) (sample_start s) = Found (sample_resource s)" by (simp add: sample_start_def)
  obtain cm h where m: "managed sample_ext (sample_start s) = Some (cm, h)"
    using managed_answers [OF sample_queries_ok r] by (auto simp: sample_resource_def sample_spec_def)
  then have "run_state (NewComponentManager sample_ext) (sample_heap s) = (Inr cm, h)"
    using r by (auto simp: managed_def sample_heap_def split: if_splits sum.splits prod.splits)
  with m that show ?thesis by blast
qed

lemma sample_handler_moves: "handler_moves sample_ext (sample_start sample_last)"
proof -
  obtain cm h where m: "managed sample_ext (sample_start sample_last) = Some (cm, h)"
      "run_state (NewComponentManager sample_ext) (sample_heap sample_last) = (Inr cm, h)"
    by (rule sample_managed)
  from NewComponentManager_keeps [OF sample_ext_ok _ m(2)]
  have k: "cond_inv sample_ext h" "control_of h = control_of (sample_heap sample_last)"
    "update_stored h ConditionSafeModeDisabled = Some ConditionTrue"
    using sample_cond_true [of "[ConditionSafeModeDisabled]" ConditionSafeModeDisabled]
    by (auto simp: sample_cond_inv IsUpdateStatusConditionTrue_stored)
  then have "GetUpdateState h = UpdateStateWaitingForSafeModeDisabled" "GetUpdateFlow h = UpdateFlowFull"
    "IsUpdateStatusConditionTrue sample_ext ConditionSafeModeDisabled h"
    by (simp_all add: control_of_def sample_updating_def IsUpdateStatusConditionTrue_stored)
  then show ?thesis
    by (simp add: handler_moves_def m handleFlow_def handleEverything_def case_prod_unfold)
      (simp add: finishTo_def case_prod_unfold)
qed

lemma sample_finished_ending: "ending (st_State sample_finished)" "wf_status sample_finished"
proof -
  have last: "st_State sample_last = ClusterStateUpdating" "wf_status sample_last"
    by (simp add: sample_updating_def) (simp add: sample_updating_wf)
  have "\<exists>c. stored_control sample_ext (snd (Reconcile sample_ext (sample_start sample_last))) = Some c \<and> forward (status_control sample_last) c"
    using Reconcile_control [OF sample_ext_ok sample_meta_ok, of "sample_start sample_last"] sample_handler_moves last by auto
  then show "ending (st_State sample_finished)"
    by (auto simp: forward_def status_control_def sample_updating_def moved_to_def flow_next_def stage_skips_def after_def
        stored_control_def sample_finished_def ending_def split: if_splits)
  show "wf_status sample_finished"
    using Reconcile_reached [OF sample_ext_ok sample_meta_ok, of "sample_start sample_last"] last
    by (simp add: reached_def sample_finished_def)
qed

lemma sample_end_saved: "end_saved sample_ext (sample_start s)"
proof -
  obtain cm h where "managed sample_ext (sample_start s) = Some (cm, h)" by (rule sample_managed)
  then show ?thesis by (simp add: end_saved_def endUpdate_def run_saves case_prod_unfold)
qed

lemma sample_run_steps: "operator_step sample_ext (sample_run i) (sample_run (Suc i))"
proof -
  have env: "yr_Status (sw_yts w') = yr_Status (sw_yts w) \<Longrightarrow> operator_step sample_ext w w'" for w w'
    using operator_step.environment [OF sample_get sample_get] by blast
  consider "i = 0" | "i = 1" | "i = 2" | "i > 2" by linarith
  then show ?thesis
    by cases (auto simp: sample_run_def operator_step.reconcile sample_finished_def intro: env)
qed

lemma sample_keeps_moving: "keeps_moving sample_ext sample_run"
proof -
  have "update_cleared (yr_Status (sw_yts (snd (Reconcile sample_ext (sample_start sample_finished)))))"
    using Reconcile_ending [OF sample_ext_ok sample_meta_ok sample_get, of "sample_start sample_finished"] sample_finished_ending sample_end_saved
    by simp
  then have rest: "stored_control sample_ext (sample_run j) = Some c \<Longrightarrow> ctl_State c = ClusterStateRunning" if "j > 2" for j c
    using that by (auto simp: sample_run_def stored_control_def status_control_def update_cleared_def)
  show ?thesis
    unfolding keeps_moving_def
  proof
    fix i :: nat
    show "\<exists>j\<ge>i. (case stored_control sample_ext (sample_run j) of
       Some c \<Rightarrow> ctl_State c \<noteq> ClusterStateRunning \<longrightarrow> sample_run (Suc j) = snd (Reconcile sample_ext (sample_run j)) \<and>
         reconcile_moves sample_ext (sample_run j)
     | None \<Rightarrow> True)"
      using rest [of "i + 3"] by (intro exI [of _ "i + 3"]) (auto split: option.splits)
  qed
qed

subsection \<open>A resource in memory\<close>

text \<open>
  External types with one pointer each, or none where the type is assigned, and a CHYT resource in a store whose
  specification names a cluster.
\<close>

definition sample_types :: external_types where
  "sample_types = \<lparr>xt_type = (\<lambda>n. if n \<in> set copied_types then TStruct [(''f'', TPtr TPrim)] else TPrim),
     xt_copy = (\<lambda>n. copyInto [(''f'', ptrTo assigned)])\<rparr>"

lemma sample_external_ok: "external_ok sample_types"
proof -
  have "deep (TStruct [(''f'', TPtr TPrim)]) (copyInto [(''f'', ptrTo assigned)])"
    by (rule deep_struct) (auto intro!: deep_intros)
  then show ?thesis by (auto simp: external_ok_def sample_types_def copied_types_def assigned_types_def)
qed

definition sample_fields :: "(string \<times> gval) list \<Rightarrow> gval" where
  "sample_fields fs = Struct (\<lambda>f. case map_of fs f of Some v \<Rightarrow> v | None \<Rightarrow> Prim (PString []))"

definition sample_store :: store where
  "sample_store = \<lparr>gs_limit = 2, gs_cell = (\<lambda>a. if a = 0 then Var (Prim (PString ''test'')) else
     Var (sample_fields
       [(''ObjectMeta'', sample_fields [(''f'', Ref None)]),
        (''Spec'', sample_fields [(''ImagePullSecrets'', Ref None), (''Ytsaurus'', Ref (Some 0))]),
        (''Status'', sample_fields [(''Conditions'', Ref None)])]))\<rparr>"

lemma sample_store_typed: "well_typed sample_store (TPtr (Chyt_type sample_types)) (Ref (Some 1))"
  by (simp add: sample_store_def Chyt_type_def ChytSpec_type_def ChytStatus_type_def sample_types_def copied_types_def sample_fields_def)

end
