(* ===== verification/Steady.thy ===== *)
theory Steady
  imports Sample
begin

text \<open>
  A cluster at rest: all objects of a small cluster are stored and as the operator wants them, its pods run and its
  init jobs have completed. Every component of it reports that it is ready.
\<close>

subsection \<open>The outside\<close>

definition ready_meta :: ObjectMeta where
  "ready_meta = zero_meta\<lparr>om_ResourceVersion := ''1''\<rparr>"

definition ready_statefulset :: StatefulSetObj where
  "ready_statefulset = \<lparr>o_Meta = ready_meta, o_Body = (o_Body zero_statefulset)\<lparr>ss_Replicas := Some 3,
     ss_PodSpec := zero_podspec\<lparr>ps_Containers := [zero_container\<lparr>ct_Image := ''ytsaurus:1''\<rparr>]\<rparr>\<rparr>\<rparr>"

definition ready_configmap :: ConfigMapObj where
  "ready_configmap = \<lparr>o_Meta = ready_meta, o_Body = \<lparr>cm_Data = (\<lambda>_. Some [])\<rparr>\<rparr>"

definition ready_service :: ServiceObj where
  "ready_service = \<lparr>o_Meta = ready_meta, o_Body = o_Body zero_service\<rparr>"

definition ready_k8s :: "sample_world k8s_api" where
  "ready_k8s = sample_k8s\<lparr>k_get_statefulset := (\<lambda>_ _. Found ready_statefulset), k_get_configmap := (\<lambda>_ _. Found ready_configmap),
     k_get_secret := (\<lambda>_ _. Found sample_secret), k_get_service := (\<lambda>_ _. Found ready_service),
     k_list_pods := (\<lambda>_ _. Inr (map (\<lambda>n. \<lparr>pod_Name = n, pod_Phase = ''Running''\<rparr>) [''0'', ''1'', ''2'']))\<rparr>"

text \<open>Every document is serialised to the empty text, which is what the stored configuration maps have.\<close>

definition ready_ext :: "sample_world ext" where
  "ready_ext = sample_ext\<lparr>x_k8s := ready_k8s, x_fmt := sample_fmt\<lparr>f_yson_marshal := (\<lambda>_. Inr [])\<rparr>\<rparr>"

lemma ready_sel [simp]:
  "x_yt ready_ext = sample_yt" "x_meta ready_ext = meta_ref" "f_yson_marshal (x_fmt ready_ext) v = Inr []"
  "k_get_statefulset (x_k8s ready_ext) n w = Found ready_statefulset" "k_get_configmap (x_k8s ready_ext) n w = Found ready_configmap"
  "k_get_secret (x_k8s ready_ext) n w = Found sample_secret" "k_get_service (x_k8s ready_ext) n w = Found ready_service"
  "k_get_job (x_k8s ready_ext) n w = NotFound" "k_get_ytsaurus (x_k8s ready_ext) w = Found (sw_yts w)"
  by (simp_all add: ready_ext_def ready_k8s_def sample_ext_def sample_k8s_def)

lemma ready_hyps: "ext_ok ready_ext" "meta_ok (x_meta ready_ext)" "queries_ok ready_ext" "marshal_ok ready_ext"
proof -
  show "ext_ok ready_ext"
    by (simp add: ext_ok_def k8s_ok_def yt_ok_def preserves_stored_def) (simp add: ready_ext_def ready_k8s_def sample_k8s_def sample_yt_def)
  show "meta_ok (x_meta ready_ext)" by (simp add: meta_ok_ref)
  show "queries_ok ready_ext" unfolding queries_ok_def by (simp add: ready_ext_def ready_k8s_def sample_k8s_def sample_ext_def sample_yt_def)
  show "marshal_ok ready_ext" unfolding marshal_ok_def by (simp add: ready_ext_def sample_fmt_def split: yval.split)
qed

subsection \<open>Servers\<close>

text \<open>A server that the stored objects match.\<close>

definition settled :: "serverImpl \<Rightarrow> bool" where
  "settled s \<longleftrightarrow> (\<forall>h :: sample_world heap. run_state (serverImpl_needUpdate ready_ext s) h = (False, h) \<and>
     run_state (configNeedsReload ready_ext s) h = (False, h) \<and> serverImpl_arePodsReady ready_ext s (h_world h)) \<and> \<not> needBuild s"

lemma ready_Fetch [simp]:
  "run_state (serverImpl_Fetch ready_ext s) h = ((None, fetched_server ready_ext (h_world h) s), h)"
  by (simp add: serverImpl_Fetch_def res_Fetch_def FetchObject_def ConfigHelper_Fetch_def fetched_server_def fetched_helper_def
      fetched_def split: option.split)

lemma fetched_idem [simp]: "fetched_server ready_ext w (fetched_server ready_ext v s) = fetched_server ready_ext w s"
  by (simp add: fetched_server_def fetched_helper_def fetched_def split: option.split)

lemma ready_stored [simp]:
  "stored_object (k_get_statefulset (x_k8s ready_ext)) n w = Some ready_statefulset"
  "stored_object (k_get_service (x_k8s ready_ext)) n w = Some ready_service"
  "stored_object (k_get_configmap (x_k8s ready_ext)) n w = Some ready_configmap"
  by (simp_all add: stored_object_def ready_statefulset_def ready_service_def ready_configmap_def ready_meta_def)

lemma ready_image [simp]: "ps_Containers (ss_PodSpec (o_Body ready_statefulset)) = [zero_container\<lparr>ct_Image := ''ytsaurus:1''\<rparr>]"
  by (simp add: ready_statefulset_def)

lemma ready_config [simp]: "stored_config ready_ext w cm file = Some []"
  by (simp add: stored_config_def ready_configmap_def)

lemma getConfig_quiet:
  assumes "ch_generators ch = [(f, \<lparr>gd_F = Inr t, gd_Fmt = ConfigFormatYson\<rparr>)]" and "om_ResourceVersion (o_Meta (ch_overridesMap ch)) = []"
  shows "run_state (getConfig E ch f) h = ((Some t, None), h)"
  using assms by (simp add: getConfig_def formatConfig_def)

lemma NeedReload_quiet:
  assumes "ch_generators ch = [(f, \<lparr>gd_F = Inr t, gd_Fmt = ConfigFormatYson\<rparr>)]" and "om_ResourceVersion (o_Meta (ch_overridesMap ch)) = []"
    and "getCurrentConfigValue ch f = Some t"
  shows "run_state (NeedReload E ch) h = ((False, None), h)"
  by (simp add: NeedReload_def getConfig_quiet [OF assms(1,2)] assms)

lemma settled_new:
  assumes "is_Image i = None" "cs_CoreImage c = ''ytsaurus:1''" "is_InstanceCount i = 3" "is_MinReadyInstanceCount i = None"
    "cs_ConfigOverrides c = None" "gen = Inr []"
  shows "settled (fetched_server ready_ext w (newServerConfigured l c i bin file ssn svn gen opts))" (is "settled ?s")
proof -
  note new = fetched_server_def fetched_helper_def newServerConfigured_def Let_def NewConfigHelper_def NewConfigMap_def assms
    NewStatefulSet_def NewHeadlessService_def NewMonitoringService_def fetched_def ready_meta_def
  have cur: "getCurrentConfigValue (srv_configHelper ?s) file = Some []"
    by (simp add: new_server_config(2) [OF refl])
  have quiet: "run_state (NeedReload ready_ext (srv_configHelper ?s)) h = ((False, None), h)" for h :: "sample_world heap"
    by (rule NeedReload_quiet [OF _ _ cur]) (simp_all add: new zero_configmap_def zero_meta_def)
  have ex: "serverImpl_exists ?s" "podsImageCorrespondsToSpec ?s"
    by (simp_all add: serverImpl_exists_def podsImageCorrespondsToSpec_def Exists_def new ready_statefulset_def ready_service_def)
  have "\<not> needBuild ?s" "serverImpl_arePodsReady ready_ext ?s v" for v
    using ex(1) by (simp_all add: needBuild_def NeedInit_def Exists_def StatefulSet_NeedSync_def serverImpl_arePodsReady_def
        StatefulSet_ArePodsReady_def StatefulSet_getPods_def)
      (simp_all add: new ready_statefulset_def ready_configmap_def ready_ext_def ready_k8s_def)
  then show ?thesis using ex quiet by (simp add: settled_def serverImpl_needUpdate_def configNeedsReload_def)
qed

subsection \<open>Status queries\<close>

text \<open>A running cluster whose init jobs have completed.\<close>

definition calm :: "sample_world heap \<Rightarrow> bool" where
  "calm h \<longleftrightarrow> cond_inv ready_ext h \<and> GetClusterState h = ClusterStateRunning \<and>
     (\<forall>t \<in> {''defaultMasterInitJobCompleted'', ''userYtsaurusClientInitJobCompleted'', initBundlesCondition}.
        status_stored h t = Some ConditionTrue)"

lemma calm_completed:
  assumes "calm h" and "t \<in> {''defaultMasterInitJobCompleted'', ''userYtsaurusClientInitJobCompleted'', initBundlesCondition}"
  shows "IsStatusConditionTrue ready_ext t h"
  using assms unfolding calm_def by (auto simp: IsStatusConditionTrue_stored)

lemma calm_blocks:
  assumes "calm h"
  shows "run_state (whenUpdating b) h = (None, h)"
    and "settled (h_srv h a) \<Longrightarrow>
      run_state (checkNeedUpdate (do { s \<leftarrow> gets (\<lambda>h. h_srv h a); serverImpl_needUpdate ready_ext s })) h = (None, h)"
    and "settled (h_srv h a) \<Longrightarrow> run_state (checkServerSync ready_ext a True m) h = (None, h)"
    and "settled (h_srv h a) \<Longrightarrow> run_state (checkPodsReady ready_ext a) h = (None, h)"
  using assms
  by (simp_all add: calm_def whenUpdating_def checkNeedUpdate_def settled_def IsReadyToUpdateClusterState_def checkServerSync_def
      LocalServerNeedSync_def checkPodsReady_def)

lemma put_job_same [simp]: "put_job a (h_job h a) h = h"
  by (simp add: put_job_def)

lemma calm_job:
  assumes "calm h" and "ij_initCompletedCondition (h_job h j) \<in> {''defaultMasterInitJobCompleted'', ''userYtsaurusClientInitJobCompleted''}"
  shows "\<exists>m. run_state (on_job j (InitJob_Sync ready_ext True)) h = ((\<lparr>cst_SyncStatus = SyncStatusReady, cst_Message = m\<rparr>, None), h)"
  using calm_completed [OF assms(1), of "ij_initCompletedCondition (h_job h j)"] assms(2)
  by (auto simp: on_obj_def InitJob_Sync_def InitJob_SyncWith_def ytsaurusConditions_def)

text \<open>\<open>ready_in c h h'\<close>: the status query of \<open>c\<close> in \<open>h\<close> reports ready and leaves \<open>h'\<close>.\<close>

definition ready_in :: "sample_world heap component \<Rightarrow> sample_world heap \<Rightarrow> sample_world heap \<Rightarrow> bool" where
  "ready_in c h h' \<longleftrightarrow> (\<exists>m. run_state (c_Status c) h = ((\<lparr>cst_SyncStatus = SyncStatusReady, cst_Message = m\<rparr>, None), h'))"

lemma checkRunning_ready:
  "ready_in c h h' \<Longrightarrow> run_state (checkRunning c e) h = (None, h')"
  by (auto simp: ready_in_def checkRunning_def IsRunningStatus_def)

lemma ready_Discovery:
  assumes "calm h" and "settled (h_srv h a)"
  shows "ready_in (Discovery ready_ext l a) h h"
  using assms by (simp add: ready_in_def Discovery_def mkComponent_def Discovery_doSync_def checkUpdating_def calm_blocks SimpleStatus_def)

lemma ready_Master:
  assumes "calm h" and "settled (h_srv h (m_srv m))" and "ij_initCompletedCondition (h_job h (m_initJob m)) = ''defaultMasterInitJobCompleted''"
  shows "ready_in (Master_component ready_ext l m) h h"
  using assms calm_job [OF assms(1), of "m_initJob m"]
  by (simp add: ready_in_def Master_component_def mkComponent_def Master_doSync_def checkUpdatingMaster_def calm_blocks scriptBlock_def)

lemma ready_HttpProxy:
  assumes "calm h" and "settled (h_srv h a)" and "ready_in m h h" and "Exists (h_http h b)"
  shows "ready_in (HttpProxy ready_ext l a b t tls m) h h"
  using assms(1,2,4) checkRunning_ready [OF assms(3)]
  by (simp add: ready_in_def HttpProxy_def mkComponent_def HttpProxy_doSync_def checkUpdating_def calm_blocks checkMaster_def SimpleStatus_def)

lemma ready_client:
  assumes "calm h" and "ready_in hp h h" and "r_old (h_sec h (yc_secret yc)) = sample_secret"
    and "ij_initCompletedCondition (h_job h (yc_initUserJob yc)) = ''userYtsaurusClientInitJobCompleted''"
  shows "ready_in (YtsaurusClient_component ready_ext l yc hp) h (h\<lparr>h_ytClient := True\<rparr>)"
proof -
  have sec: "run_state (checkSecret ready_ext (yc_secret yc) tokenData True) h = (None, h)"
    using assms(3) by (simp add: checkSecret_def StringSecret_NeedSync_def Exists_def StringSecret_GetValue_def sample_secret_def
        zero_secret_def zero_meta_def)
  have job: "run_state (checkJob ready_ext (yc_initUserJob yc) True) h = (None, h)"
    using calm_job [OF assms(1), of "yc_initUserJob yc"] assms(4) by (auto simp: checkJob_def)
  have con: "run_state (connect ready_ext yc) h = (None, h\<lparr>h_ytClient := True\<rparr>)"
    by (simp add: connect_def ready_ext_def sample_ext_def sample_fmt_def sample_yt_def)
  have "calm (h\<lparr>h_ytClient := True\<rparr>)"
    using assms(1) by (simp add: calm_def cond_inv_def GetClusterState_def status_stored_def)
  then show ?thesis
    using checkRunning_ready [OF assms(2)] sec job con
    by (simp add: ready_in_def YtsaurusClient_component_def mkComponent_def YtsaurusClient_doSync_def act_def calm_blocks(1) SimpleStatus_def)
qed

lemma ready_TabletNode:
  assumes "calm h" and "settled (h_srv h a)"
  shows "ready_in (TabletNode ready_ext l g a c b) h h"
  using assms calm_completed [OF assms(1), of initBundlesCondition]
  by (simp add: ready_in_def TabletNode_def mkComponent_def TabletNode_doSync_def checkUpdating_def calm_blocks SimpleStatus_def)

subsection \<open>The cluster\<close>

text \<open>Discovery, masters with their locations, one HTTP proxy and one group of tablet nodes.\<close>

definition ready_spec :: YtsaurusSpec where
  "ready_spec = sample_spec\<lparr>ys_PrimaryMasters := (ys_PrimaryMasters sample_spec)\<lparr>ms_Instance := sample_instance\<lparr>is_Locations :=
       [sample_location LocationTypeMasterChangelogs, sample_location LocationTypeMasterSnapshots]\<rparr>\<rparr>,
     ys_DataNodes := [], ys_Schedulers := None, ys_ControllerAgents := None\<rparr>"

definition ready_status :: YtsaurusStatus where
  "ready_status = new_status\<lparr>st_State := ClusterStateRunning, st_Conditions := map (\<lambda>t. mkCondition t ConditionTrue ''InitJobCompleted'' [])
     [''defaultMasterInitJobCompleted'', ''userYtsaurusClientInitJobCompleted'', initBundlesCondition]\<rparr>"

definition ready_resource :: YtsaurusResource where
  "ready_resource = (sample_resource ready_status)\<lparr>yr_Spec := ready_spec\<rparr>"

definition ready_world :: sample_world where
  "ready_world = \<lparr>sw_yts = ready_resource, sw_ints = (\<lambda>_. 0)\<rparr>"

lemma ready_wf: "wf_status ready_status"
  by (simp add: wf_status_def ready_status_def new_status_def wf_conditions_def mkCondition_def)

text \<open>A server that is settled as soon as it is fetched.\<close>

definition loadable :: "serverImpl \<Rightarrow> bool" where
  "loadable s \<longleftrightarrow> (\<forall>w. settled (fetched_server ready_ext w s))"

lemma finish_ready: "\<not> isl (finish ready_ext enc c) \<Longrightarrow> finish ready_ext enc c = Inr []"
  by (cases c) (simp_all add: finish_def marshallYsonConfig_def)

lemma ready_generate:
  assumes "req = DiscoveryConfig i \<or> req = HTTPProxyConfig hp \<or> req = TabletNodeConfig tn \<or> req = MasterConfig ms"
    and "\<not> isl (generate ready_ext req r g)"
  shows "generate ready_ext req r g = Inr []"
  using assms by (auto simp: generate_def Get_config_defs dest: finish_ready)

lemma loadable_new:
  assumes "cs_CoreImage (ys_Common (yr_Spec r)) = ''ytsaurus:1''" "cs_ConfigOverrides (ys_Common (yr_Spec r)) = None"
    and "is_Image i = None" "is_InstanceCount i = 3" "is_MinReadyInstanceCount i = None"
    and "req = DiscoveryConfig i1 \<or> req = HTTPProxyConfig hp \<or> req = TabletNodeConfig tn \<or> req = MasterConfig ms"
    and "\<not> isl (generate ready_ext req r g)"
  shows "loadable (newServer l r i bin file ssn svn (generate ready_ext req r g) opts)"
  unfolding loadable_def newServer_def using assms by (auto intro!: settled_new ready_generate)

text \<open>What holds of the memory throughout the queries.\<close>

definition prepared :: "sample_world heap \<Rightarrow> bool" where
  "prepared h \<longleftrightarrow> calm h \<and> loadable (h_srv h 0) \<and> loadable (h_srv h 1) \<and> loadable (h_srv h 4) \<and> loadable (h_srv h 8) \<and>
     ij_initCompletedCondition (h_job h 2) = ''defaultMasterInitJobCompleted'' \<and>
     ij_initCompletedCondition (h_job h 6) = ''userYtsaurusClientInitJobCompleted''"

definition ready_parts :: "Labeller \<Rightarrow> Labeller \<Rightarrow> Labeller \<Rightarrow> Labeller \<Rightarrow> Labeller \<Rightarrow> Generator \<Rightarrow> NodeGenerator \<Rightarrow> string \<Rightarrow>
    TLSSecret option \<Rightarrow> sample_world heap component list" where
  "ready_parts l0 l1 l2 l3 l4 g ng t tls =
     (let m = Master_component ready_ext l1 \<lparr>m_srv = 1, m_initJob = 2, m_exitReadOnlyJob = 3, m_cfgen = g\<rparr>;
          hp = HttpProxy ready_ext l2 4 5 t tls m;
          yc = YtsaurusClient_component ready_ext l3 \<lparr>yc_initUserJob = 6, yc_secret = 7, yc_cfgen = g\<rparr> hp
      in [Discovery ready_ext l0 0, m, yc, hp, TabletNode ready_ext l4 ng 8 yc True])"

lemma sample_withPort [simp]:
  "is_Image (withMonitoringPort p i) = is_Image i" "is_InstanceCount (withMonitoringPort p i) = is_InstanceCount i"
  "is_MinReadyInstanceCount (withMonitoringPort p i) = is_MinReadyInstanceCount i"
  by (simp_all add: withMonitoringPort_def split: option.split)

text \<open>Instances that the stored objects match, and what the constructors keep of the memory.\<close>

definition plain :: "InstanceSpec \<Rightarrow> bool" where
  "plain i \<longleftrightarrow> is_Image i = None \<and> is_InstanceCount i = 3 \<and> is_MinReadyInstanceCount i = None"

lemma plain_port [simp]: "plain (withMonitoringPort p i) = plain i"
  by (simp add: plain_def)

definition small :: "YtsaurusSpec \<Rightarrow> bool" where
  "small s \<longleftrightarrow> ys_Common s = sample_common \<and> plain (ys_Discovery s) \<and> plain (ms_Instance (ys_PrimaryMasters s)) \<and>
     is_Locations (ms_Instance (ys_PrimaryMasters s)) =
       [sample_location LocationTypeMasterChangelogs, sample_location LocationTypeMasterSnapshots]"

definition adds :: "sample_world heap \<Rightarrow> nat \<Rightarrow> sample_world heap \<Rightarrow> bool" where
  "adds h n h' \<longleftrightarrow> h_next h' = h_next h + n \<and> (\<forall>a < h_next h. h_srv h' a = h_srv h a \<and> h_job h' a = h_job h a) \<and>
     h_status h' = h_status h \<and> small (yr_Spec (h_yts h'))"

lemma loadable_small:
  assumes "small (yr_Spec r)" and "plain i"
    and "req = DiscoveryConfig i1 \<or> req = HTTPProxyConfig hp \<or> req = TabletNodeConfig tn \<or> req = MasterConfig ms"
    and "\<not> isl (generate ready_ext req r g)"
  shows "loadable (newServer l r i bin file ssn svn (generate ready_ext req r g) opts)"
  using assms(1,2) loadable_new [OF _ _ _ _ _ assms(3,4)] by (simp add: small_def plain_def sample_common_def)

lemma NewDiscovery_ready:
  assumes "small (yr_Spec (h_yts h))"
  shows "\<exists>l h'. run_state (NewDiscovery ready_ext g) h = (Discovery ready_ext l (h_next h), h') \<and> adds h 1 h' \<and> loadable (h_srv h' (h_next h))"
proof -
  let ?s = "(yr_Spec (h_yts h))\<lparr>ys_Discovery := withMonitoringPort DiscoveryMonitoringPort (ys_Discovery (yr_Spec (h_yts h)))\<rparr>"
  have "small ?s" "plain (ys_Discovery ?s)" using assms by (simp_all add: small_def)
  then show ?thesis
    by (simp add: NewDiscovery_def Let_def map_spec_def put_defs adds_def)
      (intro conjI exI, rule refl, rule loadable_small; simp add: generate_iff [OF ready_hyps(4)])
qed

lemma NewMaster_ready:
  assumes "small (yr_Spec (h_yts h))"
  shows "\<exists>l h'. run_state (NewMaster ready_ext g) h = (Master_component ready_ext l
      \<lparr>m_srv = h_next h, m_initJob = h_next h + 1, m_exitReadOnlyJob = h_next h + 2, m_cfgen = g\<rparr>, h') \<and> adds h 3 h' \<and>
    loadable (h_srv h' (h_next h)) \<and> ij_initCompletedCondition (h_job h' (h_next h + 1)) = ''defaultMasterInitJobCompleted''"
proof -
  let ?m = "ys_PrimaryMasters (yr_Spec (h_yts h))"
  let ?s = "(yr_Spec (h_yts h))\<lparr>ys_PrimaryMasters := ?m\<lparr>ms_Instance := withMonitoringPort MasterMonitoringPort (ms_Instance ?m)\<rparr>\<rparr>"
  have "small ?s" "plain (ms_Instance (ys_PrimaryMasters ?s))"
    "FindFirstLocation (is_Locations (ms_Instance ?m)) LocationTypeMasterChangelogs \<noteq> None"
    "FindFirstLocation (is_Locations (ms_Instance ?m)) LocationTypeMasterSnapshots \<noteq> None"
    using assms by (simp_all add: small_def sample_location_def)
  then show ?thesis
    by (simp add: NewMaster_def Let_def map_spec_def put_defs adds_def nativeJob_def NewInitJob_def mkLabeller_def)
      (intro conjI exI, rule refl, rule loadable_small; simp add: generate_iff [OF ready_hyps(4)])
qed

lemma NewHTTPProxy_ready:
  assumes "small (yr_Spec (h_yts h))" and "plain (hps_Instance sp)"
  shows "\<exists>l t tls h'. run_state (NewHTTPProxy ready_ext g m sp) h = (HttpProxy ready_ext l (h_next h) (h_next h + 1) t tls m, h') \<and>
    adds h 2 h' \<and> loadable (h_srv h' (h_next h))"
  using assms
  by (simp add: NewHTTPProxy_def Let_def put_defs adds_def)
    (intro conjI exI, rule refl, rule loadable_small; simp add: generate_iff [OF ready_hyps(4)])

lemma NewYtsaurusClient_ready:
  assumes "small (yr_Spec (h_yts h))"
  shows "\<exists>l h'. run_state (NewYtsaurusClient ready_ext g hp) h = (YtsaurusClient_component ready_ext l
      \<lparr>yc_initUserJob = h_next h, yc_secret = h_next h + 1, yc_cfgen = g\<rparr> hp, h') \<and> adds h 2 h' \<and>
    ij_initCompletedCondition (h_job h' (h_next h)) = ''userYtsaurusClientInitJobCompleted''"
  using assms
  by (simp add: NewYtsaurusClient_def Let_def put_defs adds_def nativeJob_def NewInitJob_def mkLabeller_def) (intro exI, rule refl)

lemma NewTabletNode_ready:
  assumes "small (yr_Spec (h_yts h))" and "plain (tns_Instance sp)"
  shows "\<exists>l h'. run_state (NewTabletNode ready_ext ng yc sp b) h = (TabletNode ready_ext l ng (h_next h) yc b, h') \<and>
    adds h 1 h' \<and> loadable (h_srv h' (h_next h))"
  using assms
  by (simp add: NewTabletNode_def Let_def put_defs adds_def)
    (intro conjI exI, rule refl, rule loadable_small; simp add: generate_iff [OF ready_hyps(4)])

lemma ready_small:
  "ys_HTTPProxies (yr_Spec ready_resource) = [hd (ys_HTTPProxies sample_spec)]" "ys_TabletNodes (yr_Spec ready_resource) = [hd (ys_TabletNodes sample_spec)]"
  "ys_DataNodes (yr_Spec ready_resource) = []" "ys_UI (yr_Spec ready_resource) = None" "ys_RPCProxies (yr_Spec ready_resource) = []"
  "ys_TCPProxies (yr_Spec ready_resource) = []" "ys_ExecNodes (yr_Spec ready_resource) = []" "ys_Schedulers (yr_Spec ready_resource) = None"
  "ys_ControllerAgents (yr_Spec ready_resource) = None" "ys_QueryTrackers (yr_Spec ready_resource) = None"
  "ys_QueueAgents (yr_Spec ready_resource) = None" "ys_YQLAgents (yr_Spec ready_resource) = None" "ys_MasterCaches (yr_Spec ready_resource) = None"
  "plain (hps_Instance (hd (ys_HTTPProxies sample_spec)))" "plain (tns_Instance (hd (ys_TabletNodes sample_spec)))"
  "h_next (fresh_heap ready_resource ready_world) = 0" "h_yts (fresh_heap ready_resource ready_world) = ready_resource"
  "h_status (fresh_heap ready_resource ready_world) = ready_status" "small (yr_Spec (h_yts (fresh_heap ready_resource ready_world)))"
  by (simp_all add: fresh_heap_def ready_resource_def ready_spec_def sample_spec_def small_def plain_def sample_instance_def sample_resource_def)

lemma ready_components:
  obtains cps h l0 l1 l2 l3 l4 g ng t tls where
    "run_state (newComponents ready_ext) (fresh_heap ready_resource ready_world) = (Inr cps, h)"
    "cps_all cps = ready_parts l0 l1 l2 l3 l4 g ng t tls" "prepared h"
proof -
  let ?h = "fresh_heap ready_resource ready_world" and ?g = "NewGenerator ready_resource (getClusterDomain ready_ext)"
  let ?hp = "hd (ys_HTTPProxies sample_spec)" and ?tn = "hd (ys_TabletNodes sample_spec)"
  note spec = ready_small(1-13) and pl = ready_small(14,15) and h0 = ready_small(16-19)
  obtain l0 h1 where d: "run_state (NewDiscovery ready_ext ?g) ?h = (Discovery ready_ext l0 0, h1)" "adds ?h 1 h1" "loadable (h_srv h1 0)"
    using NewDiscovery_ready [OF h0(4), of ?g] h0(1) by auto
  then have n1: "h_next h1 = 1" "small (yr_Spec (h_yts h1))" using h0(1) by (simp_all add: adds_def)
  obtain l1 h2 where m: "run_state (NewMaster ready_ext ?g) h1 =
      (Master_component ready_ext l1 \<lparr>m_srv = 1, m_initJob = 2, m_exitReadOnlyJob = 3, m_cfgen = ?g\<rparr>, h2)" "adds h1 3 h2"
      "loadable (h_srv h2 1)" "ij_initCompletedCondition (h_job h2 2) = ''defaultMasterInitJobCompleted''"
    using NewMaster_ready [OF n1(2), of ?g] n1(1) by (auto simp: numeral_eq_Suc)
  let ?m = "Master_component ready_ext l1 \<lparr>m_srv = 1, m_initJob = 2, m_exitReadOnlyJob = 3, m_cfgen = ?g\<rparr>"
  have n2: "h_next h2 = 4" "small (yr_Spec (h_yts h2))" using m(2) n1(1) by (simp_all add: adds_def)
  obtain l2 t tls h3 where hp: "run_state (NewHTTPProxy ready_ext ?g ?m ?hp) h2 = (HttpProxy ready_ext l2 4 5 t tls ?m, h3)"
      "adds h2 2 h3" "loadable (h_srv h3 4)"
    using NewHTTPProxy_ready [OF n2(2) pl(1), of ?g ?m] n2(1) by auto
  let ?p = "HttpProxy ready_ext l2 4 5 t tls ?m"
  have n3: "h_next h3 = 6" "small (yr_Spec (h_yts h3))" using hp(2) n2(1) by (simp_all add: adds_def)
  obtain l3 h4 where yc: "run_state (NewYtsaurusClient ready_ext ?g ?p) h3 =
      (YtsaurusClient_component ready_ext l3 \<lparr>yc_initUserJob = 6, yc_secret = 7, yc_cfgen = ?g\<rparr> ?p, h4)" "adds h3 2 h4"
      "ij_initCompletedCondition (h_job h4 6) = ''userYtsaurusClientInitJobCompleted''"
    using NewYtsaurusClient_ready [OF n3(2), of ?g ?p] n3(1) by auto
  let ?c = "YtsaurusClient_component ready_ext l3 \<lparr>yc_initUserJob = 6, yc_secret = 7, yc_cfgen = ?g\<rparr> ?p"
  have n4: "h_next h4 = 8" "small (yr_Spec (h_yts h4))" using yc(2) n3(1) by (simp_all add: adds_def)
  let ?ng = "NewLocalNodeGenerator (h_yts h4) (getClusterDomain ready_ext)"
  obtain l4 h5 where tn: "run_state (NewTabletNode ready_ext ?ng ?c ?tn True) h4 = (TabletNode ready_ext l4 ?ng 8 ?c True, h5)"
      "adds h4 1 h5" "loadable (h_srv h5 8)"
    using NewTabletNode_ready [OF n4(2) pl(2), of ?ng ?c True] n4(1) by auto
  obtain cps where run: "run_state (newComponents ready_ext) ?h = (Inr cps, h5)" and all: "cps_all cps = ready_parts l0 l1 l2 l3 l4 ?g ?ng t tls"
    using d(1) m(1) hp(1) yc(1) tn(1) by (simp add: newComponents_def newComponentsFor_def Let_def h0(2) spec newIf_def ready_parts_def)
  have st: "h_status h5 = ready_status" using d(2) m(2) hp(2) yc(2) tn(2) h0(3) by (simp add: adds_def)
  then have "calm h5"
    using ready_wf by (simp add: calm_def cond_inv_def meta_ok_ref wf_status_def GetClusterState_def status_stored_def)
      (simp add: ready_status_def status_of_def mkCondition_def)
  moreover have "h_srv h5 0 = h_srv h1 0" "h_srv h5 1 = h_srv h2 1" "h_srv h5 4 = h_srv h3 4" "h_job h5 2 = h_job h2 2" "h_job h5 6 = h_job h4 6"
    using m(2) hp(2) yc(2) tn(2) n1(1) n2(1) n3(1) n4(1) by (simp_all add: adds_def)
  ultimately have "prepared h5" using d(3) m(3,4) hp(3) yc(3) tn(3) by (simp add: prepared_def)
  with run all that show ?thesis by blast
qed

subsection \<open>All components are ready\<close>

text \<open>The servers at these addresses have been fetched.\<close>

definition seen :: "nat set \<Rightarrow> sample_world heap \<Rightarrow> bool" where
  "seen A h \<longleftrightarrow> prepared h \<and> (\<forall>a \<in> A. settled (h_srv h a))"

lemma seen_cong:
  assumes "seen A h" and "h_yts h' = h_yts h" and "h_srv h' = h_srv h"
    and "\<And>j. ij_initCompletedCondition (h_job h' j) = ij_initCompletedCondition (h_job h j)"
  shows "seen A h'"
  using assms by (simp add: seen_def prepared_def calm_def cond_inv_def GetClusterState_def status_stored_def)

lemma seen_calm: "seen A h \<Longrightarrow> calm h" "seen A h \<Longrightarrow> a \<in> A \<Longrightarrow> settled (h_srv h a)"
    "seen A h \<Longrightarrow> ij_initCompletedCondition (h_job h 2) = ''defaultMasterInitJobCompleted''"
    "seen A h \<Longrightarrow> ij_initCompletedCondition (h_job h 6) = ''userYtsaurusClientInitJobCompleted''"
  by (simp_all add: seen_def prepared_def)

lemma loadable_fetched [simp]: "loadable (fetched_server ready_ext w s) = loadable s"
  by (simp add: loadable_def)

lemma seen_fetch:
  assumes "seen A h" and "a \<in> {0, 1, 4, 8}"
  shows "\<exists>h'. run_state (on_srv a (serverImpl_Fetch ready_ext)) h = (None, h') \<and> seen (insert a A) h' \<and> h_http h' = h_http h \<and> h_sec h' = h_sec h"
proof -
  let ?h = "put_srv a (fetched_server ready_ext (h_world h) (h_srv h a)) h"
  have "loadable (h_srv h a)" using assms by (auto simp: seen_def prepared_def)
  then have "settled (fetched_server ready_ext (h_world h) (h_srv h a))" by (simp add: loadable_def)
  moreover have "calm ?h" using assms(1) by (simp add: seen_def prepared_def calm_def cond_inv_def GetClusterState_def status_stored_def)
  ultimately have "seen (insert a A) ?h"
    using assms by (auto simp: seen_def prepared_def put_srv_def)
  then show ?thesis by (simp add: on_obj_def put_srv_def)
qed

lemma seen_fetch_job:
  assumes "seen A h"
  shows "\<exists>h'. run_state (on_job j (InitJob_Fetch ready_ext)) h = (None, h') \<and> seen A h' \<and> h_http h' = h_http h \<and> h_sec h' = h_sec h"
  by (simp add: on_obj_def InitJob_Fetch_def res_Fetch_def FetchObject_def ConfigHelper_Fetch_def put_job_def
      split: option.split) (auto intro!: seen_cong [OF assms])

lemma seen_ready:
  assumes "seen A h"
  shows "seen A (snd (run_state (SetReadyCondition ready_ext l s) h))"
proof -
  let ?c = "\<lambda>r. mkCondition (lb_ComponentName l @ ''Ready'') r (sync_string (cst_SyncStatus s)) (cst_Message s)"
  have "calm (snd (run_state (SetStatusCondition ready_ext c) h))" if "cond_Type c = lb_ComponentName l @ ''Ready''" for c
  proof -
    have inv: "cond_inv ready_ext h" using assms by (simp add: seen_def prepared_def calm_def)
    have "t \<noteq> lb_ComponentName l @ ''Ready''" if "last t = CHR ''d''" for t
      using that by auto
    then show ?thesis
      using assms that sta.inv_set [OF inv, of c] sta.stored_other [OF inv, of _ c]
      by (auto simp: seen_def prepared_def calm_def) (simp add: SetStatusCondition_def GetClusterState_def)
  qed
  then have "calm (snd (run_state (SetStatusCondition ready_ext (?c r)) h))" for r by (simp add: mkCondition_def)
  moreover have "h_srv (snd (run_state (SetStatusCondition ready_ext c) h)) = h_srv h" "h_job (snd (run_state (SetStatusCondition ready_ext c) h)) = h_job h" for c
    by (simp_all add: SetStatusCondition_def map_status_def)
  ultimately show ?thesis using assms by (simp add: seen_def prepared_def SetReadyCondition_def Let_def)
qed

lemma seenStatuses_ready:
  assumes "run_state (c_Fetch c) h = (e, h1)" and "ready_in c h1 h2" and "c_SetReadyCondition c = SetReadyCondition ready_ext l" and "seen A h2"
  shows "\<exists>h3. seenStatuses (c # cs) h = SyncStatusReady # seenStatuses cs h3 \<and> seen A h3"
  using assms seen_ready [OF assms(4)] by (auto simp: ready_in_def)

lemma seen_fetch_http:
  assumes "seen A h"
  shows "\<exists>h'. run_state (c_Fetch (HttpProxy ready_ext l 4 5 t tls m)) h = (None, h') \<and> seen (insert 4 A) h' \<and> Exists (h_http h' 5) \<and> h_sec h' = h_sec h"
proof -
  obtain h1 where h1: "run_state (on_srv 4 (serverImpl_Fetch ready_ext)) h = (None, h1)" "seen (insert 4 A) h1" "h_sec h1 = h_sec h"
    using seen_fetch [OF assms, of 4] by auto
  then show ?thesis
    by (simp add: HttpProxy_def mkComponent_def resources_Fetch_def on_obj_def [of "\<lambda>h. h_http h 5"] res_Fetch_def FetchObject_def put_http_def)
      (auto simp: Exists_def ready_service_def ready_meta_def intro: seen_cong [OF h1(2)])
qed

lemma seen_fetch_client:
  assumes "seen A h"
  shows "\<exists>h'. run_state (c_Fetch (YtsaurusClient_component ready_ext l \<lparr>yc_initUserJob = 6, yc_secret = 7, yc_cfgen = g\<rparr>
      (HttpProxy ready_ext l' 4 5 t tls m))) h = (None, h') \<and> seen (insert 4 A) h' \<and> Exists (h_http h' 5) \<and> r_old (h_sec h' 7) = sample_secret"
proof -
  let ?h = "put_sec 7 ((h_sec h 7)\<lparr>r_old := sample_secret\<rparr>) h"
  have sec: "run_state (on_sec 7 (StringSecret_Fetch ready_ext)) h = (None, ?h)"
    by (simp add: on_obj_def res_Fetch_def FetchObject_def)
  have "seen A ?h" by (rule seen_cong [OF assms]) (simp_all add: put_sec_def)
  then obtain h1 where h1: "run_state (on_job 6 (InitJob_Fetch ready_ext)) ?h = (None, h1)" "seen A h1" "h_sec h1 = h_sec ?h"
    using seen_fetch_job by blast
  obtain h2 where h2: "run_state (c_Fetch (HttpProxy ready_ext l' 4 5 t tls m)) h1 = (None, h2)" "seen (insert 4 A) h2"
      "Exists (h_http h2 5)" "h_sec h2 = h_sec h1"
    using seen_fetch_http [OF h1(2)] by blast
  have "run_state (c_Fetch (YtsaurusClient_component ready_ext l \<lparr>yc_initUserJob = 6, yc_secret = 7, yc_cfgen = g\<rparr>
      (HttpProxy ready_ext l' 4 5 t tls m))) h = (None, h2)"
    using sec h1(1) h2(1) by (simp add: YtsaurusClient_component_def mkComponent_def [of _ _ YtsaurusClientType] resources_Fetch_def)
  then show ?thesis using h1(3) h2 by (simp add: put_sec_def)
qed

lemma seen_fetch_master:
  assumes "seen A h"
  shows "\<exists>h'. run_state (c_Fetch (Master_component ready_ext l \<lparr>m_srv = 1, m_initJob = 2, m_exitReadOnlyJob = 3, m_cfgen = g\<rparr>)) h = (None, h') \<and>
    seen (insert 1 A) h'"
proof -
  have "\<exists>h0. run_state (case ys_AdminCredentials (yr_Spec (h_yts h)) of None \<Rightarrow> ret None
      | Some name \<Rightarrow> on_obj h_admin (\<lambda>x h. h\<lparr>h_admin := x\<rparr>) (FetchObject (k_get_secret (x_k8s ready_ext)) name)) h = (None, h0) \<and> seen A h0"
    by (cases "ys_AdminCredentials (yr_Spec (h_yts h))")
      (auto simp: on_obj_def FetchObject_def assms intro!: seen_cong [OF assms])
  then obtain h0 where h0: "run_state (case ys_AdminCredentials (yr_Spec (h_yts h)) of None \<Rightarrow> ret None
      | Some name \<Rightarrow> on_obj h_admin (\<lambda>x h. h\<lparr>h_admin := x\<rparr>) (FetchObject (k_get_secret (x_k8s ready_ext)) name)) h = (None, h0)" "seen A h0"
    by blast
  obtain h1 where h1: "run_state (on_srv 1 (serverImpl_Fetch ready_ext)) h0 = (None, h1)" "seen (insert 1 A) h1"
    using seen_fetch [OF h0(2), of 1] by auto
  obtain h2 where h2: "run_state (on_job 2 (InitJob_Fetch ready_ext)) h1 = (None, h2)" "seen (insert 1 A) h2"
    using seen_fetch_job [OF h1(2)] by blast
  obtain h3 where h3: "run_state (on_job 3 (InitJob_Fetch ready_ext)) h2 = (None, h3)" "seen (insert 1 A) h3"
    using seen_fetch_job [OF h2(2)] by blast
  show ?thesis
    using h0(1) h1(1) h2(1) h3 by (simp add: Master_component_def mkComponent_def Master_Fetch_def resources_Fetch_def)
qed

text \<open>One component after the other: what the query of each leaves.\<close>

abbreviation the_master :: "Labeller \<Rightarrow> Generator \<Rightarrow> sample_world heap component" where
  "the_master l g \<equiv> Master_component ready_ext l \<lparr>m_srv = 1, m_initJob = 2, m_exitReadOnlyJob = 3, m_cfgen = g\<rparr>"

lemma ready_master: "seen A h \<Longrightarrow> 1 \<in> A \<Longrightarrow> ready_in (the_master l g) h h"
  by (intro ready_Master) (simp_all add: seen_calm)

lemma ready_proxy:
  assumes "seen A h" and "{1, 4} \<subseteq> A" and "Exists (h_http h 5)"
  shows "ready_in (HttpProxy ready_ext l 4 5 t tls (the_master l' g)) h h"
  using assms by (intro ready_HttpProxy ready_master [OF assms(1)]) (auto simp: seen_calm)

lemma step_server:
  assumes "seen A h" and "c = Discovery ready_ext l 0 \<and> a = 0 \<or> c = TabletNode ready_ext l ng 8 yc b \<and> a = 8"
  shows "\<exists>h'. seenStatuses (c # cs) h = SyncStatusReady # seenStatuses cs h' \<and> seen (insert a A) h'"
proof -
  obtain h1 where h1: "run_state (on_srv a (serverImpl_Fetch ready_ext)) h = (None, h1)" "seen (insert a A) h1"
    using seen_fetch [OF assms(1), of a] assms(2) by auto
  have "run_state (c_Fetch c) h = (None, h1)" "c_SetReadyCondition c = SetReadyCondition ready_ext l"
    using h1(1) assms(2) by (auto simp: Discovery_def TabletNode_def mkComponent_def fetchServer_def resources_Fetch_def)
  moreover have "ready_in c h1 h1"
    using assms(2) h1(2) by (auto intro!: ready_Discovery ready_TabletNode simp: seen_calm)
  ultimately show ?thesis using seenStatuses_ready h1(2) by blast
qed

lemma step_master:
  assumes "seen A h"
  shows "\<exists>h'. seenStatuses (the_master l g # cs) h = SyncStatusReady # seenStatuses cs h' \<and> seen (insert 1 A) h'"
proof -
  obtain h1 where h1: "run_state (c_Fetch (the_master l g)) h = (None, h1)" "seen (insert 1 A) h1"
    using seen_fetch_master [OF assms] by blast
  moreover have "c_SetReadyCondition (the_master l g) = SetReadyCondition ready_ext l" by (simp add: Master_component_def mkComponent_def)
  ultimately show ?thesis using seenStatuses_ready ready_master [OF h1(2)] by blast
qed

lemma step_client:
  assumes "seen A h" and "1 \<in> A"
  shows "\<exists>h'. seenStatuses (YtsaurusClient_component ready_ext l \<lparr>yc_initUserJob = 6, yc_secret = 7, yc_cfgen = g\<rparr>
      (HttpProxy ready_ext l' 4 5 t tls (the_master l'' g')) # cs) h = SyncStatusReady # seenStatuses cs h' \<and> seen (insert 4 A) h'"
    (is "\<exists>h'. seenStatuses (?c # cs) h = _ \<and> _")
proof -
  obtain h1 where h1: "run_state (c_Fetch ?c) h = (None, h1)" "seen (insert 4 A) h1" "Exists (h_http h1 5)" "r_old (h_sec h1 7) = sample_secret"
    using seen_fetch_client [OF assms(1)] by blast
  have "ready_in ?c h1 (h1\<lparr>h_ytClient := True\<rparr>)"
    using h1 assms(2) by (intro ready_client ready_proxy [OF h1(2)]) (simp_all add: seen_calm)
  moreover have "seen (insert 4 A) (h1\<lparr>h_ytClient := True\<rparr>)" by (rule seen_cong [OF h1(2)]) simp_all
  moreover have "c_SetReadyCondition ?c = SetReadyCondition ready_ext l" by (simp add: YtsaurusClient_component_def mkComponent_def)
  ultimately show ?thesis using seenStatuses_ready [OF h1(1)] by blast
qed

lemma step_proxy:
  assumes "seen A h" and "1 \<in> A"
  shows "\<exists>h'. seenStatuses (HttpProxy ready_ext l 4 5 t tls (the_master l' g) # cs) h = SyncStatusReady # seenStatuses cs h' \<and> seen (insert 4 A) h'"
    (is "\<exists>h'. seenStatuses (?p # cs) h = _ \<and> _")
proof -
  obtain h1 where h1: "run_state (c_Fetch ?p) h = (None, h1)" "seen (insert 4 A) h1" "Exists (h_http h1 5)"
    using seen_fetch_http [OF assms(1)] by blast
  moreover have "ready_in ?p h1 h1" using h1 assms(2) by (intro ready_proxy [OF h1(2)]) simp_all
  moreover have "c_SetReadyCondition ?p = SetReadyCondition ready_ext l" by (simp add: HttpProxy_def mkComponent_def)
  ultimately show ?thesis using seenStatuses_ready by blast
qed

lemma all_ready:
  assumes "prepared h"
  shows "set (seenStatuses (ready_parts l0 l1 l2 l3 l4 g ng t tls) h) = {SyncStatusReady}"
proof -
  let ?p = "HttpProxy ready_ext l2 4 5 t tls (the_master l1 g)"
  let ?c = "YtsaurusClient_component ready_ext l3 \<lparr>yc_initUserJob = 6, yc_secret = 7, yc_cfgen = g\<rparr> ?p"
  let ?t = "TabletNode ready_ext l4 ng 8 ?c True"
  have "seen {} h" using assms by (simp add: seen_def)
  then obtain h1 where s1: "seenStatuses (Discovery ready_ext l0 0 # [the_master l1 g, ?c, ?p, ?t]) h = SyncStatusReady # seenStatuses [the_master l1 g, ?c, ?p, ?t] h1"
    and h1: "seen {0} h1" using step_server [of "{}" h _ l0 0] by blast
  obtain h2 where s2: "seenStatuses [the_master l1 g, ?c, ?p, ?t] h1 = SyncStatusReady # seenStatuses [?c, ?p, ?t] h2" and h2: "seen {1, 0} h2"
    using step_master [OF h1] by blast
  obtain h3 where s3: "seenStatuses [?c, ?p, ?t] h2 = SyncStatusReady # seenStatuses [?p, ?t] h3" and h3: "seen {4, 1, 0} h3"
    using step_client [OF h2] by blast
  obtain h4 where s4: "seenStatuses [?p, ?t] h3 = SyncStatusReady # seenStatuses [?t] h4" and h4: "seen {4, 4, 1, 0} h4"
    using step_proxy [OF h3] by blast
  have s5: "seenStatuses [?t] h4 = [SyncStatusReady]"
    using step_server [OF h4 disjI2 [OF conjI [OF refl refl]], of l4 ng ?c True "[]"] by (auto simp only: seenStatuses.simps(1))
  have "seenStatuses (ready_parts l0 l1 l2 l3 l4 g ng t tls) h = replicate 5 SyncStatusReady"
    unfolding ready_parts_def Let_def s1 s2 s3 s4 s5 by (simp add: numeral_eq_Suc)
  then show ?thesis by simp
qed

text \<open>Hence a reconciliation sees all components ready.\<close>

lemma ready_seen:
  "set (seenStatuses (allComponents ready_ext (fresh_heap ready_resource ready_world))
     (snd (run_state (newComponents ready_ext) (fresh_heap ready_resource ready_world)))) = {SyncStatusReady}"
proof -
  obtain cps h l0 l1 l2 l3 l4 g ng t tls where "run_state (newComponents ready_ext) (fresh_heap ready_resource ready_world) = (Inr cps, h)"
    "cps_all cps = ready_parts l0 l1 l2 l3 l4 g ng t tls" "prepared h" by (rule ready_components)
  then show ?thesis using all_ready [of h l0 l1 l2 l3 l4 g ng t tls] by (simp add: allComponents_def)
qed

subsection \<open>One server\<close>

text \<open>A server of an image, whose stored objects are those of the cluster, and a memory.\<close>

definition sample_configured :: "string \<Rightarrow> serverImpl" where
  "sample_configured img = newServerConfigured sample_labeller sample_common (sample_instance\<lparr>is_Image := Some img\<rparr>)
     ''/usr/bin/ytserver-scheduler'' ''ytserver-scheduler.yson'' ''sch'' ''schedulers'' (Inr []) []"

definition sample_ready :: "sample_world heap" where
  "sample_ready = fresh_heap ready_resource ready_world"

end
