(* ===== verification/Defaults.thy ===== *)
theory Defaults
  imports Webhook
begin

text \<open>
  The defaults that the markers \<open>+kubebuilder:default\<close> of api/v1/ytsaurus_types.go put into the
  schema of the resource. The API server sets a field that is absent from a stored object; a field
  with \<open>omitempty\<close> is absent exactly when it has its zero value, and a field without it is always
  present, so that its marker never acts on an object sent by a Go client (the ports of the TCP
  proxies, \<open>Privileged\<close>, \<open>IsManaged\<close>, \<open>EnableFullUpdate\<close>, the flags of the common part). What the
  validating webhook and the operator see is a specification after the defaults.
\<close>

named_theorems default_defs \<open>the definitions of the defaults\<close>

definition or_default :: "string \<Rightarrow> string \<Rightarrow> string" where
  "or_default d s = (if s = [] then d else s)"

definition default_LocationSpec :: "LocationSpec \<Rightarrow> LocationSpec" where
  [default_defs]: "default_LocationSpec l = l\<lparr>loc_Medium := or_default ''default'' (loc_Medium l)\<rparr>"

definition default_BaseLoggerSpec :: "'z BaseLoggerSpec_scheme \<Rightarrow> 'z BaseLoggerSpec_scheme" where
  [default_defs]: "default_BaseLoggerSpec b = b
     \<lparr>bls_Format := (if bls_Format b = LogFormatOther [] then LogFormatPlainText else bls_Format b),
      bls_MinLogLevel := (if bls_MinLogLevel b = LogLevelOther [] then LogLevelInfo else bls_MinLogLevel b),
      bls_Compression := (if bls_Compression b = LogCompressionOther [] then LogCompressionNone else bls_Compression b)\<rparr>"

definition default_BundleBootstrapSpec :: "BundleBootstrapSpec \<Rightarrow> BundleBootstrapSpec" where
  [default_defs]: "default_BundleBootstrapSpec b = b\<lparr>bb_TabletCellCount := (if bb_TabletCellCount b = 0 then 1 else bb_TabletCellCount b)\<rparr>"

definition default_BundlesBootstrapSpec :: "BundlesBootstrapSpec \<Rightarrow> BundlesBootstrapSpec" where
  [default_defs]: "default_BundlesBootstrapSpec b = b\<lparr>bbs_Sys := map_option default_BundleBootstrapSpec (bbs_Sys b),
      bbs_Default := map_option default_BundleBootstrapSpec (bbs_Default b)\<rparr>"

definition default_OauthUserInfoHandlerSpec :: "OauthUserInfoHandlerSpec \<Rightarrow> OauthUserInfoHandlerSpec" where
  [default_defs]: "default_OauthUserInfoHandlerSpec u = u\<lparr>ouh_Endpoint := or_default ''user/info'' (ouh_Endpoint u),
      ouh_LoginField := or_default ''nickname'' (ouh_LoginField u)\<rparr>"

definition default_OauthServiceSpec :: "OauthServiceSpec \<Rightarrow> OauthServiceSpec" where
  [default_defs]: "default_OauthServiceSpec a = a\<lparr>oa_Port := (if oa_Port a = 0 then 80 else oa_Port a),
      oa_UserInfo := default_OauthUserInfoHandlerSpec (oa_UserInfo a)\<rparr>"

definition default_InstanceSpec :: "InstanceSpec \<Rightarrow> InstanceSpec" where
  [default_defs]: "default_InstanceSpec i = i\<lparr>is_Locations := map default_LocationSpec (is_Locations i),
      is_Loggers := map default_BaseLoggerSpec (is_Loggers i),
      is_StructuredLoggers := map default_BaseLoggerSpec (is_StructuredLoggers i),
      is_SetHostnameAsFQDN := (case is_SetHostnameAsFQDN i of None \<Rightarrow> Some True | Some b \<Rightarrow> Some b)\<rparr>"

definition default_MastersSpec :: "MastersSpec \<Rightarrow> MastersSpec" where
  [default_defs]: "default_MastersSpec m = m\<lparr>ms_Instance := default_InstanceSpec (ms_Instance m)\<rparr>"

definition default_HTTPProxiesSpec :: "HTTPProxiesSpec \<Rightarrow> HTTPProxiesSpec" where
  [default_defs]: "default_HTTPProxiesSpec p = p\<lparr>hps_Instance := default_InstanceSpec (hps_Instance p),
      hps_ServiceType := or_default ''NodePort'' (hps_ServiceType p), hps_Role := or_default ''default'' (hps_Role p)\<rparr>"

definition default_RPCProxiesSpec :: "RPCProxiesSpec \<Rightarrow> RPCProxiesSpec" where
  [default_defs]: "default_RPCProxiesSpec p = p\<lparr>rps_Instance := default_InstanceSpec (rps_Instance p),
      rps_Role := or_default ''default'' (rps_Role p)\<rparr>"

definition default_TCPProxiesSpec :: "TCPProxiesSpec \<Rightarrow> TCPProxiesSpec" where
  [default_defs]: "default_TCPProxiesSpec p = p\<lparr>tps_Instance := default_InstanceSpec (tps_Instance p),
      tps_Role := or_default ''default'' (tps_Role p)\<rparr>"

definition default_DataNodesSpec :: "DataNodesSpec \<Rightarrow> DataNodesSpec" where
  [default_defs]: "default_DataNodesSpec n = n\<lparr>dns_Instance := default_InstanceSpec (dns_Instance n),
      dns_Name := or_default ''default'' (dns_Name n)\<rparr>"

definition default_ExecNodesSpec :: "ExecNodesSpec \<Rightarrow> ExecNodesSpec" where
  [default_defs]: "default_ExecNodesSpec n = n\<lparr>ens_Instance := default_InstanceSpec (ens_Instance n),
      ens_Name := or_default ''default'' (ens_Name n),
      ens_JobProxyLoggers := map default_BaseLoggerSpec (ens_JobProxyLoggers n)\<rparr>"

definition default_TabletNodesSpec :: "TabletNodesSpec \<Rightarrow> TabletNodesSpec" where
  [default_defs]: "default_TabletNodesSpec n = n\<lparr>tns_Instance := default_InstanceSpec (tns_Instance n),
      tns_Name := or_default ''default'' (tns_Name n)\<rparr>"

definition default_UISpec :: "UISpec \<Rightarrow> UISpec" where
  [default_defs]: "default_UISpec u = u\<lparr>ui_ServiceType := or_default ''NodePort'' (ui_ServiceType u),
      ui_Environment := or_default ''testing'' (ui_Environment u), ui_Theme := or_default ''lavander'' (ui_Theme u)\<rparr>"

definition default_YtsaurusSpec :: "YtsaurusSpec \<Rightarrow> YtsaurusSpec" where
  [default_defs]: "default_YtsaurusSpec s = s
     \<lparr>ys_OauthService := map_option default_OauthServiceSpec (ys_OauthService s),
      ys_Bootstrap := map_option default_BundlesBootstrapSpec (ys_Bootstrap s),
      ys_Discovery := default_InstanceSpec (ys_Discovery s),
      ys_PrimaryMasters := default_MastersSpec (ys_PrimaryMasters s),
      ys_SecondaryMasters := map default_MastersSpec (ys_SecondaryMasters s),
      ys_MasterCaches := map_option (\<lambda>m. m\<lparr>mc_Instance := default_InstanceSpec (mc_Instance m)\<rparr>) (ys_MasterCaches s),
      ys_HTTPProxies := map default_HTTPProxiesSpec (ys_HTTPProxies s),
      ys_RPCProxies := map default_RPCProxiesSpec (ys_RPCProxies s),
      ys_TCPProxies := map default_TCPProxiesSpec (ys_TCPProxies s),
      ys_DataNodes := map default_DataNodesSpec (ys_DataNodes s),
      ys_ExecNodes := map default_ExecNodesSpec (ys_ExecNodes s),
      ys_Schedulers := map_option default_InstanceSpec (ys_Schedulers s),
      ys_ControllerAgents := map_option default_InstanceSpec (ys_ControllerAgents s),
      ys_TabletNodes := map default_TabletNodesSpec (ys_TabletNodes s),
      ys_QueryTrackers := map_option default_InstanceSpec (ys_QueryTrackers s),
      ys_YQLAgents := map_option default_InstanceSpec (ys_YQLAgents s),
      ys_QueueAgents := map_option default_InstanceSpec (ys_QueueAgents s),
      ys_UI := map_option default_UISpec (ys_UI s)\<rparr>"

text \<open>The states of a resource whose status was never written.\<close>

definition default_YtsaurusStatus :: "YtsaurusStatus \<Rightarrow> YtsaurusStatus" where
  "default_YtsaurusStatus s = s
     \<lparr>st_State := (if st_State s = ClusterStateOther [] then ClusterStateCreated else st_State s),
      st_UpdateStatus := (st_UpdateStatus s)\<lparr>us_State :=
        (if us_State (st_UpdateStatus s) = UpdateStateOther [] then UpdateStateNone else us_State (st_UpdateStatus s))\<rparr>\<rparr>"

subsection \<open>Defaults and validation\<close>

lemma or_default_simps [simp]: "or_default d [] = d" "or_default d (or_default d s) = or_default d s"
  "d \<noteq> [] \<Longrightarrow> or_default d s \<noteq> []"
  by (simp_all add: or_default_def)

text \<open>The API server applies the defaults at every write, the second time to no effect.\<close>

lemma default_instance_idem [simp]: "default_InstanceSpec (default_InstanceSpec i) = default_InstanceSpec i"
  by (simp add: default_defs split: option.split)

lemma default_spec_idem: "default_YtsaurusSpec (default_YtsaurusSpec s) = default_YtsaurusSpec s"
proof -
  have parts: "default_MastersSpec (default_MastersSpec m) = default_MastersSpec m"
    "default_HTTPProxiesSpec (default_HTTPProxiesSpec hp) = default_HTTPProxiesSpec hp"
    "default_RPCProxiesSpec (default_RPCProxiesSpec rp) = default_RPCProxiesSpec rp"
    "default_TCPProxiesSpec (default_TCPProxiesSpec tp) = default_TCPProxiesSpec tp"
    "default_DataNodesSpec (default_DataNodesSpec dn) = default_DataNodesSpec dn"
    "default_TabletNodesSpec (default_TabletNodesSpec tn) = default_TabletNodesSpec tn"
    "default_UISpec (default_UISpec u) = default_UISpec u"
    "default_OauthServiceSpec (default_OauthServiceSpec a) = default_OauthServiceSpec a"
    for m hp rp tp dn tn u a
    by (simp_all add: default_MastersSpec_def default_HTTPProxiesSpec_def default_RPCProxiesSpec_def default_TCPProxiesSpec_def
        default_DataNodesSpec_def default_TabletNodesSpec_def default_UISpec_def default_OauthServiceSpec_def
        default_OauthUserInfoHandlerSpec_def)
  have loggers: "default_BaseLoggerSpec (default_BaseLoggerSpec b) = default_BaseLoggerSpec b" for b :: TextLoggerSpec
    by (simp add: default_BaseLoggerSpec_def)
  have exec: "default_ExecNodesSpec (default_ExecNodesSpec en) = default_ExecNodesSpec en" for en
    by (simp add: default_ExecNodesSpec_def loggers)
  have bnd: "default_BundleBootstrapSpec (default_BundleBootstrapSpec b) = default_BundleBootstrapSpec b" for b
    by (simp add: default_BundleBootstrapSpec_def)
  have bundles: "default_BundlesBootstrapSpec (default_BundlesBootstrapSpec b) = default_BundlesBootstrapSpec b" for b
    by (simp add: default_BundlesBootstrapSpec_def bnd option.map_comp o_def)
  show ?thesis
    unfolding default_YtsaurusSpec_def by (simp add: parts exec bundles option.map_comp o_def)
qed

text \<open>The defaults touch none of the locations, mounts and flags that the validation reads.\<close>

lemma default_instance_ok [simp]: "instance_ok (default_InstanceSpec i) = instance_ok i"
  by (auto simp: instance_ok_def default_InstanceSpec_def default_LocationSpec_def)

lemma default_has_location [simp]: "has_location (default_InstanceSpec i) t = has_location i t"
  by (auto simp: has_location_def default_InstanceSpec_def default_LocationSpec_def)

lemma default_instance_fields [simp]:
  "is_InstanceCount (default_InstanceSpec i) = is_InstanceCount i" "is_HostNetwork (default_InstanceSpec i) = is_HostNetwork i"
  "is_Affinity (default_InstanceSpec i) = is_Affinity i"
  by (simp_all add: default_InstanceSpec_def)

lemma default_masters_ok [simp]: "masters_ok (default_YtsaurusSpec s) = masters_ok s"
  by (simp add: masters_ok_def hosts_ok_def default_YtsaurusSpec_def default_MastersSpec_def Let_def split: option.split)

text \<open>An empty role or name becomes the default one: one empty role makes the default proxies.\<close>

lemma default_role: "hps_Role (default_HTTPProxiesSpec p) = or_default DefaultHTTPProxyRole (hps_Role p)"
  by (simp add: default_HTTPProxiesSpec_def)

end
