(* ===== verification/Testutil.thy ===== *)
theory Testutil
  imports Defaults Accepted
begin

text \<open>
  The resources that the tests of the repository deploy: the builders of pkg/testutil. The
  environment of the process and \<open>resource.ParseQuantity\<close> are parameters; a panic is \<open>Inl\<close>. The lemmas show that a deployed
  base resource, after the defaults of the schema, is admitted by the validating webhook and that
  the operator builds all its components.
\<close>

subsection \<open>Zero values\<close>

definition zero_instance :: InstanceSpec where
  "zero_instance = \<lparr>is_Image = None, is_EntrypointWrapper = [], is_Volumes = [], is_VolumeMounts = [],
     is_ReadinessProbeParams = None, is_Resources = zero_resources, is_InstanceCount = 0, is_MinReadyInstanceCount = None,
     is_Locations = [], is_VolumeClaimTemplates = [], is_RuntimeClassName = None, is_EnableAntiAffinity = None,
     is_HostNetwork = None, is_MonitoringPort = None, is_Loggers = [], is_StructuredLoggers = [], is_Affinity = None,
     is_NodeSelector = Map.empty, is_Tolerations = [], is_PodLabels = Map.empty, is_PodAnnotations = Map.empty,
     is_SetHostnameAsFQDN = None, is_TerminationGracePeriodSeconds = None, is_NativeTransport = None\<rparr>"

definition zero_common :: CommonSpec where
  "zero_common = \<lparr>cs_CoreImage = [], cs_JobImage = None, cs_CABundle = None, cs_NativeTransport = None,
     cs_EphemeralCluster = False, cs_UseIPv6 = False, cs_UseIPv4 = False, cs_KeepSocket = None, cs_ForceTCP = None,
     cs_UseShortNames = False, cs_HostNetwork = False, cs_UsePorto = False, cs_ExtraPodAnnotations = Map.empty,
     cs_ConfigOverrides = None, cs_ImagePullSecrets = []\<rparr>"

definition zero_masters :: MastersSpec where
  "zero_masters = \<lparr>ms_Instance = zero_instance, ms_Connection = \<lparr>mcs_CellTag = 0, mcs_HostAddresses = []\<rparr>,
     ms_HostAddressLabel = [], ms_MaxSnapshotCountToKeep = None, ms_MaxChangelogCountToKeep = None, ms_Sidecars = []\<rparr>"

definition zero_http_proxies :: HTTPProxiesSpec where
  "zero_http_proxies = \<lparr>hps_Instance = zero_instance, hps_ServiceType = [], hps_HttpNodePort = None, hps_HttpsNodePort = None,
     hps_Role = [], hps_Transport = \<lparr>ht_HTTPSSecret = None, ht_DisableHTTP = False\<rparr>\<rparr>"

definition zero_rpc_proxies :: RPCProxiesSpec where
  "zero_rpc_proxies = \<lparr>rps_Instance = zero_instance, rps_ServiceType = None, rps_NodePort = None, rps_Role = [],
     rps_Transport = \<lparr>rt_TLSSecret = None, rt_TLSRequired = False, rt_TLSInsecure = False, rt_TLSPeerAlternativeHostName = []\<rparr>\<rparr>"

definition zero_exec_nodes :: ExecNodesSpec where
  "zero_exec_nodes = \<lparr>ens_Instance = zero_instance, ens_Tags = [], ens_Rack = [], ens_Name = [], ens_InitContainers = [],
     ens_Sidecars = [], ens_Privileged = False, ens_JobProxyLoggers = [], ens_JobResources = None, ens_JobEnvironment = None\<rparr>"

definition zero_spec :: YtsaurusSpec where
  "zero_spec = \<lparr>ys_Common = zero_common, ys_UIImage = [], ys_AdminCredentials = None, ys_OauthService = None,
     ys_IsManaged = False, ys_EnableFullUpdate = False, ys_UpdateSelector = UpdateSelectorUnspecified, ys_Bootstrap = None,
     ys_Discovery = zero_instance, ys_PrimaryMasters = zero_masters, ys_SecondaryMasters = [], ys_MasterCaches = None,
     ys_HTTPProxies = [], ys_RPCProxies = [], ys_TCPProxies = [], ys_DataNodes = [], ys_ExecNodes = [],
     ys_Schedulers = None, ys_ControllerAgents = None, ys_TabletNodes = [], ys_StrawberryController = None,
     ys_DeprecatedChytController = None, ys_QueryTrackers = None, ys_Spyt = None, ys_YQLAgents = None,
     ys_QueueAgents = None, ys_UI = None\<rparr>"

definition zero_status :: YtsaurusStatus where
  "zero_status = \<lparr>st_State = ClusterStateOther [], st_Conditions = [], st_UpdateStatus =
     \<lparr>us_State = UpdateStateOther [], us_Components = None, us_Flow = UpdateFlowNone, us_Conditions = [],
      us_TabletCellBundles = [], us_MasterMonitoringPaths = []\<rparr>\<rparr>"

definition named_meta :: "string \<Rightarrow> string \<Rightarrow> ObjectMeta" where
  "named_meta namespace name = zero_meta\<lparr>om_Name := name, om_Namespace := namespace\<rparr>"

subsection \<open>Ports of the environment\<close>

text \<open>
  \<open>strconv.ParseInt\<close> in base 10 for 32 bits: an optional sign, at least one digit, nothing else, and
  a value in the range of the type.
\<close>

fun parse_digits :: "nat \<Rightarrow> string \<Rightarrow> nat option" where
  "parse_digits n [] = Some n"
| "parse_digits n (c # s) =
     (let d = of_char c :: nat in if 48 \<le> d \<and> d \<le> 57 then parse_digits (10 * n + (d - 48)) s else None)"

definition parse_uint :: "string \<Rightarrow> nat option" where
  "parse_uint s = (if s = [] then None else parse_digits 0 s)"

definition ParseInt32 :: "string \<Rightarrow> int option" where
  "ParseInt32 s =
     (let neg = HasPrefix s ''-''; digits = (if neg \<or> HasPrefix s ''+'' then tl s else s) in
      case parse_uint digits of
        None \<Rightarrow> None
      | Some n \<Rightarrow>
          if neg then (if int n \<le> 2 ^ 31 then Some (- int n) else None)
          else (if int n < 2 ^ 31 then Some (int n) else None))"

definition getPortFromEnv :: "(string \<Rightarrow> string) \<Rightarrow> string \<Rightarrow> string + int32 option" where
  "getPortFromEnv env envvar =
     (let portStr = env envvar in
      if portStr \<noteq> [] then
        (case ParseInt32 portStr of
           None \<Rightarrow> Inl (''Invalid '' @ envvar @ '' value'')
         | Some port \<Rightarrow> Inr (Some (word_of_int port)))
      else Inr None)"

subsection \<open>Specifications of instances\<close>

abbreviation YtsaurusName :: string where "YtsaurusName \<equiv> ''test-ytsaurus''"
abbreviation RemoteResourceName :: string where "RemoteResourceName \<equiv> ''tst-rmt''"
abbreviation CoreImageFirst :: string where
  "CoreImageFirst \<equiv> ''ytsaurus/ytsaurus-nightly:dev-23.1-9779e0140ff73f5a786bd5362313ef9a74fcd0de''"
abbreviation CoreImageSecond :: string where
  "CoreImageSecond \<equiv> ''ytsaurus/ytsaurus-nightly:dev-23.1-28ccaedbf353b870bedafb6e881ecf386a0a3779''"
abbreviation CoreImageNextVer :: string where
  "CoreImageNextVer \<equiv> ''ytsaurus/ytsaurus-nightly:dev-23.2-9c50056eacfa4fe213798a5b9ee828ae3acb1bca''"

definition masterVolumeSize :: "(string \<Rightarrow> Quantity) \<Rightarrow> Quantity" where
  "masterVolumeSize parse = parse ''5Gi''"

definition createLoggersSpec :: "TextLoggerSpec list" where
  "createLoggersSpec = [\<lparr>bls_Name = ''info-stderr'', bls_Format = LogFormatOther [], bls_MinLogLevel = LogLevelInfo,
     bls_Compression = LogCompressionOther [], bls_UseTimestampSuffix = False, bls_RotationPolicy = None,
     tls_WriterType = LogWriterTypeStderr, tls_CategoriesFilter = None\<rparr>]"

text \<open>A location and a mount given by their two fields.\<close>

definition location_at :: "LocationType \<Rightarrow> string \<Rightarrow> LocationSpec" where
  "location_at t p = \<lparr>loc_LocationType = t, loc_Path = p, loc_Medium = [], loc_Quota = None, loc_LowWatermark = None,
     loc_MaxTrashMilliseconds = None\<rparr>"

definition mount_at :: "string \<Rightarrow> string \<Rightarrow> VolumeMount" where
  "mount_at n p = \<lparr>vm_Name = n, vm_MountPath = p, vm_SubPath = [], vm_ReadOnly = False, vm_MountPropagation = None\<rparr>"

definition master_locations :: "LocationSpec list" where
  "master_locations = [location_at LocationTypeMasterChangelogs ''/yt/master-data/master-changelogs'',
     location_at LocationTypeMasterSnapshots ''/yt/master-data/master-snapshots'']"

definition CreateExecNodeInstanceSpec :: "(string \<Rightarrow> Quantity) \<Rightarrow> InstanceSpec" where
  "CreateExecNodeInstanceSpec parse =
     (let execNodeVolumeSize = parse ''3Gi''; execNodeCPU = parse ''1''; execNodeMemory = parse ''2Gi'' in
      zero_instance\<lparr>is_InstanceCount := 1,
        is_Resources := zero_resources\<lparr>rr_Requests := [''cpu'' \<mapsto> execNodeCPU, ''memory'' \<mapsto> execNodeMemory]\<rparr>,
        is_Loggers := createLoggersSpec,
        is_Locations := [location_at LocationTypeChunkCache ''/yt/node-data/chunk-cache'',
          location_at LocationTypeSlots ''/yt/node-data/slots''],
        is_Volumes := [\<lparr>vol_Name = ''node-data'', vol_Source = EmptyDirSource (Some execNodeVolumeSize)\<rparr>],
        is_VolumeMounts := [mount_at ''node-data'' ''/yt/node-data'']\<rparr>)"

text \<open>The conversion \<open>int32(instanceCount)\<close> wraps.\<close>

definition CreateDataNodeInstanceSpec :: "(string \<Rightarrow> Quantity) \<Rightarrow> int64 \<Rightarrow> InstanceSpec" where
  "CreateDataNodeInstanceSpec parse instanceCount = zero_instance\<lparr>is_InstanceCount := ucast instanceCount,
     is_Locations := [location_at LocationTypeChunkStore ''/yt/node-data/chunk-store''],
     is_Volumes := [\<lparr>vol_Name = ''node-data'', vol_Source = EmptyDirSource (Some (masterVolumeSize parse))\<rparr>],
     is_VolumeMounts := [mount_at ''node-data'' ''/yt/node-data'']\<rparr>"

definition CreateTabletNodeSpec :: "int64 \<Rightarrow> InstanceSpec" where
  "CreateTabletNodeSpec instanceCount = zero_instance\<lparr>is_InstanceCount := ucast instanceCount, is_Loggers := createLoggersSpec\<rparr>"

definition createHTTPProxiesSpec :: "(string \<Rightarrow> string) \<Rightarrow> string + HTTPProxiesSpec" where
  "createHTTPProxiesSpec env = (case getPortFromEnv env ''E2E_HTTP_PROXY_INTERNAL_PORT'' of
       Inl e \<Rightarrow> Inl e
     | Inr port \<Rightarrow> Inr (zero_http_proxies\<lparr>hps_ServiceType := ''NodePort'',
         hps_Instance := zero_instance\<lparr>is_InstanceCount := 1\<rparr>, hps_HttpNodePort := port\<rparr>))"

definition createRPCProxiesSpec :: "(string \<Rightarrow> string) \<Rightarrow> string + RPCProxiesSpec" where
  "createRPCProxiesSpec env = (case getPortFromEnv env ''E2E_RPC_PROXY_INTERNAL_PORT'' of
       Inl e \<Rightarrow> Inl e
     | Inr port \<Rightarrow> Inr (zero_rpc_proxies\<lparr>rps_ServiceType := Some ''NodePort'',
         rps_Instance := zero_instance\<lparr>is_InstanceCount := 1\<rparr>, rps_NodePort := port\<rparr>))"

subsection \<open>The resources\<close>

text \<open>
  The claim template keeps the access modes in the text that stands for the rest of its
  specification.
\<close>

definition CreateMinimalYtsaurusResource :: "(string \<Rightarrow> Quantity) \<Rightarrow> (string \<Rightarrow> string) \<Rightarrow> string \<Rightarrow> string + YtsaurusResource" where
  "CreateMinimalYtsaurusResource parse env namespace = (case createHTTPProxiesSpec env of
       Inl e \<Rightarrow> Inl e
     | Inr hp \<Rightarrow> Inr \<lparr>yr_Meta = named_meta namespace YtsaurusName,
         yr_Spec = zero_spec
           \<lparr>ys_Common := zero_common\<lparr>cs_EphemeralCluster := True, cs_UseShortNames := True, cs_CoreImage := CoreImageFirst\<rparr>,
            ys_EnableFullUpdate := True, ys_IsManaged := True,
            ys_Discovery := zero_instance\<lparr>is_InstanceCount := 1\<rparr>,
            ys_PrimaryMasters := zero_masters
              \<lparr>ms_Connection := \<lparr>mcs_CellTag = 1, mcs_HostAddresses = []\<rparr>,
               ms_Instance := zero_instance\<lparr>is_InstanceCount := 1, is_Locations := master_locations,
                 is_VolumeClaimTemplates := [\<lparr>pvc_Name = ''master-data'', pvc_Labels = Map.empty, pvc_Annotations = Map.empty,
                   pvc_Requests = [''storage'' \<mapsto> masterVolumeSize parse], pvc_Spec = ''ReadWriteOnce''\<rparr>],
                 is_VolumeMounts := [mount_at ''master-data'' ''/yt/master-data''],
                 is_Loggers := createLoggersSpec\<rparr>\<rparr>,
            ys_HTTPProxies := [hp]\<rparr>,
         yr_Status = zero_status\<rparr>)"

text \<open>The builders that change a resource in place and return it.\<close>

definition map_spec :: "(YtsaurusSpec \<Rightarrow> YtsaurusSpec) \<Rightarrow> YtsaurusResource \<Rightarrow> YtsaurusResource" where
  "map_spec f r = r\<lparr>yr_Spec := f (yr_Spec r)\<rparr>"

definition WithDataNodesCount :: "(string \<Rightarrow> Quantity) \<Rightarrow> YtsaurusResource \<Rightarrow> int64 \<Rightarrow> YtsaurusResource" where
  "WithDataNodesCount parse r n = map_spec (\<lambda>s. s\<lparr>ys_DataNodes :=
     [\<lparr>dns_Instance = CreateDataNodeInstanceSpec parse n, dns_Tags = [], dns_Rack = [], dns_Name = []\<rparr>]\<rparr>) r"

definition WithDataNodes :: "(string \<Rightarrow> Quantity) \<Rightarrow> YtsaurusResource \<Rightarrow> YtsaurusResource" where
  "WithDataNodes parse r = WithDataNodesCount parse r 3"

definition WithTabletNodesCount :: "YtsaurusResource \<Rightarrow> int64 \<Rightarrow> YtsaurusResource" where
  "WithTabletNodesCount r n = map_spec (\<lambda>s. s\<lparr>ys_TabletNodes :=
     [\<lparr>tns_Instance = CreateTabletNodeSpec n, tns_Tags = [], tns_Rack = [], tns_Name = []\<rparr>]\<rparr>) r"

definition WithTabletNodes :: "YtsaurusResource \<Rightarrow> YtsaurusResource" where
  "WithTabletNodes r = WithTabletNodesCount r 3"

definition WithExecNodes :: "(string \<Rightarrow> Quantity) \<Rightarrow> YtsaurusResource \<Rightarrow> YtsaurusResource" where
  "WithExecNodes parse r = map_spec (\<lambda>s. s\<lparr>ys_ExecNodes := [zero_exec_nodes\<lparr>ens_Instance := CreateExecNodeInstanceSpec parse\<rparr>]\<rparr>) r"

definition WithScheduler :: "YtsaurusResource \<Rightarrow> YtsaurusResource" where
  "WithScheduler r = map_spec (\<lambda>s. s\<lparr>ys_Schedulers := Some (zero_instance\<lparr>is_InstanceCount := 1\<rparr>)\<rparr>) r"

definition WithControllerAgents :: "YtsaurusResource \<Rightarrow> YtsaurusResource" where
  "WithControllerAgents r = map_spec (\<lambda>s. s\<lparr>ys_ControllerAgents := Some (zero_instance\<lparr>is_InstanceCount := 1\<rparr>)\<rparr>) r"

definition WithBootstrap :: "YtsaurusResource \<Rightarrow> YtsaurusResource" where
  "WithBootstrap r = map_spec (\<lambda>s. s\<lparr>ys_Bootstrap := Some
     \<lparr>bbs_Sys = Some \<lparr>bb_SnapshotPrimaryMedium = Some ''default'', bb_ChangelogPrimaryMedium = Some ''default'', bb_TabletCellCount = 2\<rparr>,
      bbs_Default = Some \<lparr>bb_SnapshotPrimaryMedium = Some ''default'', bb_ChangelogPrimaryMedium = Some ''default'', bb_TabletCellCount = 2\<rparr>\<rparr>\<rparr>) r"

definition WithQueryTracker :: "YtsaurusResource \<Rightarrow> YtsaurusResource" where
  "WithQueryTracker r = map_spec (\<lambda>s. s\<lparr>ys_QueryTrackers := Some (zero_instance\<lparr>is_InstanceCount := 1\<rparr>)\<rparr>) r"

definition WithRPCProxies :: "(string \<Rightarrow> string) \<Rightarrow> YtsaurusResource \<Rightarrow> string + YtsaurusResource" where
  "WithRPCProxies env r = (case createRPCProxiesSpec env of
       Inl e \<Rightarrow> Inl e
     | Inr rp \<Rightarrow> Inr (map_spec (\<lambda>s. s\<lparr>ys_RPCProxies := [rp]\<rparr>) r))"

definition CreateBaseYtsaurusResource :: "(string \<Rightarrow> Quantity) \<Rightarrow> (string \<Rightarrow> string) \<Rightarrow> string \<Rightarrow> string + YtsaurusResource" where
  "CreateBaseYtsaurusResource parse env namespace = (case CreateMinimalYtsaurusResource parse env namespace of
       Inl e \<Rightarrow> Inl e
     | Inr r \<Rightarrow> Inr (WithExecNodes parse (WithTabletNodes (WithDataNodes parse (WithControllerAgents (WithScheduler (WithBootstrap r)))))))"

definition BuildMinimalYtsaurus :: "string \<Rightarrow> string \<Rightarrow> YtsaurusResource" where
  "BuildMinimalYtsaurus namespace name = \<lparr>yr_Meta = named_meta namespace name,
     yr_Spec = zero_spec
       \<lparr>ys_Common := zero_common\<lparr>cs_CoreImage := ''test-ytsaurus-image'', cs_UseShortNames := True\<rparr>,
        ys_IsManaged := True, ys_EnableFullUpdate := False,
        ys_Discovery := zero_instance\<lparr>is_InstanceCount := 3, is_MonitoringPort := Some DiscoveryMonitoringPort\<rparr>,
        ys_PrimaryMasters := zero_masters
          \<lparr>ms_Instance := zero_instance\<lparr>is_InstanceCount := 3, is_MonitoringPort := Some MasterMonitoringPort,
             is_Locations := master_locations\<rparr>,
           ms_Connection := \<lparr>mcs_CellTag = 1, mcs_HostAddresses = []\<rparr>\<rparr>,
        ys_HTTPProxies := [zero_http_proxies\<lparr>hps_Instance := zero_instance\<lparr>is_InstanceCount := 3\<rparr>, hps_ServiceType := ''NodePort''\<rparr>],
        ys_DataNodes := [\<lparr>dns_Instance = zero_instance\<lparr>is_InstanceCount := 5,
             is_Locations := [location_at LocationTypeChunkStore ''/yt/node-data/chunk-store'']\<rparr>,
           dns_Tags = [], dns_Rack = [], dns_Name = ''dn-1''\<rparr>]\<rparr>,
     yr_Status = zero_status\<rparr>"

subsection \<open>Reading back what is printed\<close>

lemma parse_digits_append: "parse_digits n (s @ t) = Option.bind (parse_digits n s) (\<lambda>m. parse_digits m t)"
  by (induction n s rule: parse_digits.induct) (auto simp: Let_def)

lemma parse_digits_show: "parse_digits 0 (show_nat n) = Some n"
proof (induction n rule: less_induct)
  case (less n)
  have digit: "parse_digits m [char_of (48 + k)] = Some (10 * m + k)" if "k < 10" for m k :: nat
    using that by (simp add: Let_def of_char_of)
  show ?case
  proof (cases "n < 10")
    case True
    with digit [of n 0] show ?thesis by (simp add: show_nat.simps)
  next
    case False
    with less [of "n div 10"] digit [of "n mod 10" "n div 10"] show ?thesis
      by (subst show_nat.simps) (simp add: parse_digits_append)
  qed
qed

lemma show_nat_digit: "c \<in> set (show_nat n) \<Longrightarrow> 48 \<le> (of_char c :: nat)"
  by (induction n rule: show_nat.induct) (subst (asm) (2) show_nat.simps, auto simp: of_char_of split: if_splits)

lemma ParseInt32_show: "int n < 2 ^ 31 \<Longrightarrow> ParseInt32 (show_nat n) = Some (int n)"
proof -
  assume n: "int n < 2 ^ 31"
  obtain c s where cs: "show_nat n = c # s" using show_nat_last [of n] by (cases "show_nat n") auto
  then have "48 \<le> (of_char c :: nat)" using show_nat_digit [of c n] by simp
  then have "c \<noteq> CHR ''-''" "c \<noteq> CHR ''+''" by auto
  with n parse_digits_show [of n] cs show ?thesis by (simp add: ParseInt32_def parse_uint_def)
qed

text \<open>What is read is in the range of the type, so that the conversion of the port keeps its value.\<close>

lemma ParseInt32_range: "ParseInt32 s = Some k \<Longrightarrow> - (2 ^ 31) \<le> k \<and> k < 2 ^ 31"
  by (auto simp: ParseInt32_def Let_def split: option.splits if_splits)

lemma getPortFromEnv_value:
  assumes "getPortFromEnv env v = Inr (Some p)"
  shows "ParseInt32 (env v) = Some (sint p)"
proof -
  obtain k where k: "ParseInt32 (env v) = Some k" "p = word_of_int k"
    using assms by (auto simp: getPortFromEnv_def Let_def split: option.splits if_splits)
  with ParseInt32_range [OF k(1)] show ?thesis by (simp add: signed_of_int signed_take_bit_int_eq_self)
qed

subsection \<open>What the tests deploy is admitted\<close>

lemmas builder_defs = CreateBaseYtsaurusResource_def CreateMinimalYtsaurusResource_def createHTTPProxiesSpec_def
  WithExecNodes_def WithTabletNodes_def WithTabletNodesCount_def WithDataNodes_def WithDataNodesCount_def
  WithControllerAgents_def WithScheduler_def WithBootstrap_def map_spec_def zero_spec_def zero_http_proxies_def
  zero_exec_nodes_def zero_masters_def zero_common_def

lemma deployed_status: "default_YtsaurusStatus zero_status = new_status"
  by (simp add: default_YtsaurusStatus_def zero_status_def new_status_def)

lemma built_instances_ok [simp]:
  "instance_ok zero_instance" "instance_ok (zero_instance\<lparr>is_InstanceCount := n\<rparr>)"
  "instance_ok (CreateTabletNodeSpec c)" "instance_ok (CreateDataNodeInstanceSpec parse c)" "instance_ok (CreateExecNodeInstanceSpec parse)"
  "has_location (CreateDataNodeInstanceSpec parse c) LocationTypeChunkStore"
  "has_location (CreateExecNodeInstanceSpec parse) LocationTypeChunkCache" "has_location (CreateExecNodeInstanceSpec parse) LocationTypeSlots"
  by (simp_all add: instance_ok_def has_location_def zero_instance_def CreateTabletNodeSpec_def CreateDataNodeInstanceSpec_def
      CreateExecNodeInstanceSpec_def location_at_def mount_at_def Let_def)

lemma base_resource_cases:
  obtains e where "getPortFromEnv env ''E2E_HTTP_PROXY_INTERNAL_PORT'' = Inl e" "CreateBaseYtsaurusResource parse env ns = Inl e"
  | port r where "getPortFromEnv env ''E2E_HTTP_PROXY_INTERNAL_PORT'' = Inr port" "CreateBaseYtsaurusResource parse env ns = Inr r"
  by (cases "getPortFromEnv env ''E2E_HTTP_PROXY_INTERNAL_PORT''")
    (simp_all add: CreateBaseYtsaurusResource_def CreateMinimalYtsaurusResource_def createHTTPProxiesSpec_def)

text \<open>
  The base resource leaves the role of its HTTP proxies empty: as it is written the webhook would
  reject it, with the defaults of the schema it is admitted, whatever the namespace, the sizes and the
  port.
\<close>

lemma base_fields:
  assumes "CreateBaseYtsaurusResource parse env ns = Inr r"
  shows "map hps_Role (ys_HTTPProxies (yr_Spec r)) = [[]]"
    "map hps_Instance (ys_HTTPProxies (yr_Spec r)) = [zero_instance\<lparr>is_InstanceCount := 1\<rparr>]"
    "ys_DataNodes (yr_Spec r) = [\<lparr>dns_Instance = CreateDataNodeInstanceSpec parse 3, dns_Tags = [], dns_Rack = [], dns_Name = []\<rparr>]"
    "ys_TabletNodes (yr_Spec r) = [\<lparr>tns_Instance = CreateTabletNodeSpec 3, tns_Tags = [], tns_Rack = [], tns_Name = []\<rparr>]"
    "ys_ExecNodes (yr_Spec r) = [zero_exec_nodes\<lparr>ens_Instance := CreateExecNodeInstanceSpec parse\<rparr>]"
    "ys_Schedulers (yr_Spec r) = Some (zero_instance\<lparr>is_InstanceCount := 1\<rparr>)"
    "ys_ControllerAgents (yr_Spec r) = Some (zero_instance\<lparr>is_InstanceCount := 1\<rparr>)"
    "ys_Discovery (yr_Spec r) = zero_instance\<lparr>is_InstanceCount := 1\<rparr>"
    "ys_SecondaryMasters (yr_Spec r) = []" "ys_RPCProxies (yr_Spec r) = []" "ys_TCPProxies (yr_Spec r) = []"
    "ys_QueryTrackers (yr_Spec r) = None" "ys_QueueAgents (yr_Spec r) = None" "ys_YQLAgents (yr_Spec r) = None"
    "ys_UI (yr_Spec r) = None" "ys_Spyt (yr_Spec r) = None" "ys_MasterCaches (yr_Spec r) = None"
    "ys_StrawberryController (yr_Spec r) = None" "ys_DeprecatedChytController (yr_Spec r) = None"
  using assms by (auto simp: builder_defs split: sum.splits)

lemma base_masters_ok:
  assumes "CreateBaseYtsaurusResource parse env ns = Inr r"
  shows "masters_ok (yr_Spec r)"
  using assms
  by (auto simp: builder_defs masters_ok_def hosts_ok_def instance_ok_def has_location_def master_locations_def location_at_def
      mount_at_def zero_instance_def Let_def split: sum.splits)

lemma base_admitted:
  assumes "CreateBaseYtsaurusResource parse env ns = Inr r"
  shows "spec_ok W (default_YtsaurusSpec (yr_Spec r))" "\<not> spec_ok W (yr_Spec r)"
proof -
  note f = base_fields [OF assms]
  let ?s = "default_YtsaurusSpec (yr_Spec r)"
  obtain hp where hp: "ys_HTTPProxies (yr_Spec r) = [hp]" "hps_Role hp = []" "hps_Instance hp = zero_instance\<lparr>is_InstanceCount := 1\<rparr>"
    using f(1,2) by (auto simp: map_eq_Cons_conv)
  have "list_all instance_ok (all_instances ?s)"
    by (simp add: all_instances_def present_def default_YtsaurusSpec_def default_HTTPProxiesSpec_def default_DataNodesSpec_def
        default_TabletNodesSpec_def hp f)
  moreover have "\<forall>dn \<in> set (ys_DataNodes ?s). has_location (dns_Instance dn) LocationTypeChunkStore"
    "\<forall>en \<in> set (ys_ExecNodes ?s). exec_ok W en"
    by (simp_all add: default_YtsaurusSpec_def default_DataNodesSpec_def default_ExecNodesSpec_def exec_ok_def sidecars_ok_def
        zero_exec_nodes_def f)
  moreover have "names_ok ?s" "requires_ok ?s"
    by (simp_all add: names_ok_def requires_ok_def default_YtsaurusSpec_def default_HTTPProxiesSpec_def hp f)
  ultimately show "spec_ok W ?s" using base_masters_ok [OF assms] by (simp add: spec_ok_def)
  show "\<not> spec_ok W (yr_Spec r)" by (simp add: spec_ok_def names_ok_def hp)
qed

text \<open>Once it is deployed, the operator builds every component of it.\<close>

lemma base_components:
  assumes "CreateBaseYtsaurusResource parse env ns = Inr r"
  shows "component_count (default_YtsaurusSpec (yr_Spec r)) = 9" "requested_count (default_YtsaurusSpec (yr_Spec r)) = 9"
proof -
  note f = base_fields [OF assms]
  have hp: "length (ys_HTTPProxies (yr_Spec r)) = 1" using f(1) by (metis length_map length_Cons list.size(3) One_nat_def)
  show count: "component_count (default_YtsaurusSpec (yr_Spec r)) = 9"
    by (simp add: component_count_def default_YtsaurusSpec_def hp f)
  have "ys_DeprecatedChytController (default_YtsaurusSpec (yr_Spec r)) = None" by (simp add: default_YtsaurusSpec_def f)
  with accepted_spec(4) [OF base_admitted(1) [OF assms]] count show "requested_count (default_YtsaurusSpec (yr_Spec r)) = 9" by simp
qed

lemma base_built:
  assumes "marshal_ok E" and "CreateBaseYtsaurusResource parse env ns = Inr r"
    and "yr_Spec (h_yts h) = default_YtsaurusSpec (yr_Spec r)"
  obtains cps where "fst (run_state (newComponents E) h) = Inr cps" "length (cps_all cps) = 9"
  using accepted_built [OF assms(1), where h = h] base_admitted(1) [OF assms(2)] base_components(1) [OF assms(2)] assms(3) by metis

text \<open>
  The resource of the unit tests mounts no volume for the locations of its masters: it is deployed in
  an environment without the webhook, which would reject it even with the defaults.
\<close>

lemma minimal_rejected: "\<not> spec_ok W (default_YtsaurusSpec (yr_Spec (BuildMinimalYtsaurus ns n)))"
proof -
  have "\<not> instance_ok (ms_Instance (ys_PrimaryMasters (yr_Spec (BuildMinimalYtsaurus ns n))))"
    by (auto simp: BuildMinimalYtsaurus_def instance_ok_def master_locations_def zero_masters_def zero_spec_def zero_instance_def)
  then have "\<not> masters_ok (yr_Spec (BuildMinimalYtsaurus ns n))" by (simp add: masters_ok_def Let_def)
  then show ?thesis by (simp add: spec_ok_def)
qed

end
