(* ===== verification/Canonize.thy ===== *)
theory Canonize
  imports Prelude
begin

text \<open>
  pkg/canonize, which compares the output of a test with a stored file: the differences in colour
  (colordiff.go) and the check with its files (canonize.go). The files are those of a tree of files and
  directories, in which some paths may be denied; the environment and the unified difference of
  two texts (a library) are parameters, and the messages of failures are values of a datatype.
\<close>

subsection \<open>Differences in colour\<close>

definition colorRed :: string where "colorRed = CHR 0x1B # ''[31m''"
definition colorGreen :: string where "colorGreen = CHR 0x1B # ''[32m''"
definition colorCyan :: string where "colorCyan = CHR 0x1B # ''[36m''"
definition colorReset :: string where "colorReset = CHR 0x1B # ''[0m''"

definition colorLine :: "string \<Rightarrow> string" where
  "colorLine l = (if HasPrefix l ''+'' then colorGreen @ l @ colorReset
     else if HasPrefix l ''-'' then colorRed @ l @ colorReset
     else if HasPrefix l ''@@'' then colorCyan @ l @ colorReset
     else l)"

fun addColors :: "string \<Rightarrow> string list \<Rightarrow> string" where
  "addColors coloredText [] = coloredText"
| "addColors coloredText (l # ls) = addColors (coloredText @ colorLine l @ newline) ls"

definition addColorsToDiff :: "string \<Rightarrow> string" where
  "addColorsToDiff text = addColors [] (split_char (CHR 0x0A) text)"

subsection \<open>Files\<close>

datatype os_error = NotExist | NotDirectory | IsDirectory | Denied

record files =
  fs_files :: "string gomap"
  fs_dirs :: "string list"
  fs_denied :: "string \<Rightarrow> bool"

definition is_dir :: "files \<Rightarrow> string \<Rightarrow> bool" where
  "is_dir fs p \<longleftrightarrow> p = ''.'' \<or> p = ''/'' \<or> p \<in> set (fs_dirs fs)"

text \<open>The directories above a path, and those that are files instead.\<close>

definition dirs_above :: "string \<Rightarrow> string list" where
  "dirs_above p = (let es = split_char (CHR ''/'') p in map (\<lambda>k. join ''/'' (take k es)) [1..<length es])"

definition blocked :: "files \<Rightarrow> string \<Rightarrow> bool" where
  "blocked fs p \<longleftrightarrow> list_ex (\<lambda>a. fs_files fs a \<noteq> None) (dirs_above p)"

definition filepath_Dir :: "string \<Rightarrow> string" where
  "filepath_Dir p = (case butlast (split_char (CHR ''/'') p) of [] \<Rightarrow> ''.'' | es \<Rightarrow> path_Clean (join ''/'' es @ ''/''))"

definition filepath_Join :: "string list \<Rightarrow> string" where
  "filepath_Join es = (case filter (\<lambda>e. e \<noteq> []) es of [] \<Rightarrow> [] | es' \<Rightarrow> path_Clean (join ''/'' es'))"

definition os_Stat :: "files \<Rightarrow> string \<Rightarrow> os_error option" where
  "os_Stat fs p = (if fs_denied fs p then Some Denied
     else if is_dir fs p \<or> fs_files fs p \<noteq> None then None
     else if blocked fs p then Some NotDirectory else Some NotExist)"

definition os_ReadFile :: "files \<Rightarrow> string \<Rightarrow> os_error + string" where
  "os_ReadFile fs p = (if fs_denied fs p then Inl Denied
     else if is_dir fs p then Inl IsDirectory
     else (case fs_files fs p of Some d \<Rightarrow> Inr d | None \<Rightarrow> Inl (if blocked fs p then NotDirectory else NotExist)))"

definition os_WriteFile :: "files \<Rightarrow> string \<Rightarrow> string \<Rightarrow> os_error option \<times> files" where
  "os_WriteFile fs p d = (if fs_denied fs p then (Some Denied, fs)
     else if is_dir fs p then (Some IsDirectory, fs)
     else if is_dir fs (filepath_Dir p) then (None, fs\<lparr>fs_files := (fs_files fs)(p \<mapsto> d)\<rparr>)
     else (Some (if blocked fs p then NotDirectory else NotExist), fs))"

definition os_MkdirAll :: "files \<Rightarrow> string \<Rightarrow> os_error option \<times> files" where
  "os_MkdirAll fs p = (if list_ex (fs_denied fs) (dirs_above p @ [p]) then (Some Denied, fs)
     else if blocked fs p \<or> fs_files fs p \<noteq> None then (Some NotDirectory, fs)
     else (None, fs\<lparr>fs_dirs := dirs_above p @ [p] @ fs_dirs fs\<rparr>))"

subsection \<open>The check\<close>

abbreviation envDoCanonize :: string where "envDoCanonize \<equiv> ''CANONIZE''"
abbreviation canonDirName :: string where "canonDirName \<equiv> ''canondata''"
abbreviation canonFileName :: string where "canonFileName \<equiv> ''test.canondata''"

text \<open>How a test fails: the difference is printed in colour.\<close>

datatype canon_failure = CantWrite os_error | CantRead os_error | NoCanonData string | Different string

definition getCanonFilePath :: "string \<Rightarrow> string" where
  "getCanonFilePath t = filepath_Join [canonDirName, t, canonFileName]"

definition isCanonizeNeeded :: "(string \<Rightarrow> string option) \<Rightarrow> bool" where
  "isCanonizeNeeded env \<longleftrightarrow> env envDoCanonize \<noteq> None"

definition createCanonDirsIfNeeded :: "files \<Rightarrow> string \<Rightarrow> os_error option \<times> files" where
  "createCanonDirsIfNeeded fs canonFilePath =
     (let canonDir = filepath_Dir canonFilePath; err = os_Stat fs canonDir in
      if err = Some NotExist then os_MkdirAll fs canonDir else (err, fs))"

definition writeCanonData :: "files \<Rightarrow> string \<Rightarrow> string \<Rightarrow> os_error option \<times> files" where
  "writeCanonData fs canonFilePath data = (case createCanonDirsIfNeeded fs canonFilePath of
       (Some e, fs1) \<Rightarrow> (Some e, fs1)
     | (None, fs1) \<Rightarrow> os_WriteFile fs1 canonFilePath data)"

definition readCanonData :: "files \<Rightarrow> string \<Rightarrow> canon_failure + string" where
  "readCanonData fs canonFilePath = (case os_Stat fs canonFilePath of
       Some e \<Rightarrow> Inl (if e = NotExist then NoCanonData canonFilePath else CantRead e)
     | None \<Rightarrow> (case os_ReadFile fs canonFilePath of Inl e \<Rightarrow> Inl (CantRead e) | Inr d \<Rightarrow> Inr d))"

text \<open>\<open>diff a b\<close> is the text of \<open>difflib.GetUnifiedDiffString\<close>, whose error is dropped.\<close>

definition Assert :: "(string \<Rightarrow> string option) \<Rightarrow> (string \<Rightarrow> string \<Rightarrow> string) \<Rightarrow> string \<Rightarrow> string \<Rightarrow> files \<Rightarrow>
    canon_failure option \<times> files" where
  "Assert env diff t data fs =
     (let canonFilePath = getCanonFilePath t;
          (err, fs1) = (if isCanonizeNeeded env then writeCanonData fs canonFilePath data else (None, fs)) in
      case err of
        Some e \<Rightarrow> (Some (CantWrite e), fs1)
      | None \<Rightarrow>
          (case readCanonData fs1 canonFilePath of
             Inl f \<Rightarrow> (Some f, fs1)
           | Inr canonData \<Rightarrow>
               let txt = diff canonData data in
               (if txt \<noteq> [] then Some (Different (addColorsToDiff txt)) else None, fs1)))"

subsection \<open>Facts\<close>

text \<open>Colours keep the lines: each is painted in its place, and a final line break is added.\<close>

lemma addColors_concat: "addColors acc ls = acc @ concat (map (\<lambda>l. colorLine l @ newline) ls)"
  by (induction ls arbitrary: acc) auto

lemma split_char_nonempty [simp]: "split_char d s \<noteq> []"
  by (induction s) (auto split: list.split)

lemma split_char_line: "d \<notin> set l \<Longrightarrow> split_char d (l @ d # s) = l # split_char d s"
  by (induction l) auto

lemma split_char_free: "l \<in> set (split_char d s) \<Longrightarrow> d \<notin> set l"
  by (induction s arbitrary: l) (auto split: if_splits list.splits)

lemma colorLine_free: "CHR 0x0A \<notin> set l \<Longrightarrow> CHR 0x0A \<notin> set (colorLine l)"
  by (simp add: colorLine_def colorGreen_def colorRed_def colorCyan_def colorReset_def)

lemma addColorsToDiff_lines: "split_char (CHR 0x0A) (addColorsToDiff text) = map colorLine (split_char (CHR 0x0A) text) @ [[]]"
proof -
  have "split_char (CHR 0x0A) (concat (map (\<lambda>l. colorLine l @ newline) ls)) = map colorLine ls @ [[]]"
    if "\<And>l. l \<in> set ls \<Longrightarrow> CHR 0x0A \<notin> set l" for ls
    using that by (induction ls) (simp_all add: newline_def split_char_line colorLine_free)
  then show ?thesis by (simp add: addColorsToDiff_def addColors_concat split_char_free)
qed

text \<open>What is written is read back.\<close>

lemma write_read:
  assumes "writeCanonData fs p d = (None, fs1)"
  shows "readCanonData fs1 p = Inr d" "\<not> fs_denied fs1 p"
proof -
  obtain fs0 where w: "os_WriteFile fs0 p d = (None, fs1)"
    using assms by (auto simp: writeCanonData_def split: prod.splits option.splits)
  then have "fs_files fs1 p = Some d" "\<not> fs_denied fs1 p" "\<not> is_dir fs1 p"
    by (auto simp: os_WriteFile_def is_dir_def split: if_splits)
  then show "readCanonData fs1 p = Inr d" "\<not> fs_denied fs1 p"
    by (simp_all add: readCanonData_def os_Stat_def os_ReadFile_def)
qed

text \<open>Writing succeeds in a tree that denies nothing and has no file or directory in the way.\<close>

lemma write_succeeds:
  assumes "\<And>q. \<not> fs_denied fs q" and "\<not> blocked fs (filepath_Dir p)" and "fs_files fs (filepath_Dir p) = None"
    and "\<not> is_dir fs p" and "p \<notin> set (dirs_above (filepath_Dir p))" "p \<noteq> filepath_Dir p"
  obtains fs1 where "writeCanonData fs p d = (None, fs1)"
proof (cases "is_dir fs (filepath_Dir p)")
  case True
  with assms that show ?thesis by (simp add: writeCanonData_def createCanonDirsIfNeeded_def os_Stat_def os_WriteFile_def Let_def)
next
  case False
  with assms have "createCanonDirsIfNeeded fs p = (None, fs\<lparr>fs_dirs := dirs_above (filepath_Dir p) @ [filepath_Dir p] @ fs_dirs fs\<rparr>)"
    by (simp add: createCanonDirsIfNeeded_def os_Stat_def os_MkdirAll_def list_ex_iff Let_def)
  with assms that show ?thesis by (simp add: writeCanonData_def os_WriteFile_def is_dir_def)
qed

text \<open>
  A test that was canonised passes on the same output and, on another one, fails exactly with the
  coloured difference; a test that was never canonised says so.
\<close>

lemma canonised_passes:
  assumes "env envDoCanonize \<noteq> None" "env' envDoCanonize = None" and "diff d d = []"
    and "Assert env diff t d fs = (None, fs1)"
  shows "Assert env' diff t d' fs1 = (if diff d d' = [] then None else Some (Different (addColorsToDiff (diff d d'))), fs1)"
proof -
  have "writeCanonData fs (getCanonFilePath t) d = (None, fs1)"
    using assms by (auto simp: Assert_def isCanonizeNeeded_def Let_def split: prod.splits option.splits sum.splits if_splits)
  from write_read(1) [OF this] assms(2) show ?thesis by (simp add: Assert_def isCanonizeNeeded_def)
qed

lemma not_canonised:
  assumes "env envDoCanonize = None" and "os_Stat fs (getCanonFilePath t) = Some NotExist"
  shows "Assert env diff t d fs = (Some (NoCanonData (getCanonFilePath t)), fs)"
  using assms by (simp add: Assert_def isCanonizeNeeded_def readCanonData_def)

text \<open>The files of a test of an ordinary name.\<close>

lemma canon_path_example: "getCanonFilePath ''TestA'' = ''canondata/TestA/test.canondata''"
  "filepath_Dir (getCanonFilePath ''TestA'') = ''canondata/TestA''"
  by code_simp+

end
