(* ===== verification/Spec2Isabelle.thy ===== *)
theory Spec2Isabelle
  imports Parts Steady Testutil Canonize
begin

text \<open>
  \<^bold>\<open>The program.\<close> The repository is a Kubernetes operator, written in Go, that creates, configures
  and updates YTsaurus clusters. A user describes a cluster in a resource of kind \<open>Ytsaurus\<close>; the
  controller of \<open>controllers/\<close> is called again and again with the name of the resource
  (\<open>Reconcile\<close>), compares the cluster with the description, makes one step towards it and stores
  its progress in the status of the resource. The steps are made by the components of
  \<open>pkg/components/\<close>, one per kind of server; they own Kubernetes objects (\<open>pkg/resources/\<close>),
  talk to the API server and to the status through \<open>pkg/apiproxy/\<close>, and take names, addresses and
  configuration files from \<open>pkg/ytconfig/\<close>. A full update is a long state machine (safe mode,
  tablet cells saved and removed, snapshots, pods removed and created, recovery) whose stage and whose
  achievements (the update conditions) live in the stored status, so that the operator can be stopped
  at any point.

  \<^bold>\<open>Theories and sources\<close>, in the order of the imports:
  \<^item> Prelude, GoArith: the state monad, frame rules (locale \<open>io_relation\<close>), strings, paths, stable
    sorting; Go's integer division and floating point arithmetic with its rounding.
  \<^item> Consts, Kube, Ytv1: \<open>pkg/consts/\<close>; the Kubernetes objects as records; \<open>api/v1/ytsaurus_types.go\<close>.
  \<^item> ApiProxy: \<open>pkg/apiproxy/\<close>; the record \<open>ext\<close> of everything outside of the repository.
  \<^item> Resources, ConfigHelper: \<open>pkg/resources/\<close>, \<open>pkg/labeller/\<close>, \<open>config_helper.go\<close>.
  \<^item> Component, ComponentManager: the interface of \<open>component.go\<close>, \<open>component_manager.go\<close>.
  \<^item> Ytconfig, Logging, ConfigDocs, ServerDocs, NodeDocs, Documents: \<open>pkg/ytconfig/\<close>. Names,
    addresses and identifiers; then the configuration documents: a Go struct is a record with an
    encoder (\<open>yson_\<close>, \<open>fields_\<close>) to the values of the format, a carcass and the methods that
    fill it are definitions of the source's name; Documents has the exported \<open>Get...Config\<close> methods.
  \<^item> Server, InitJob, Heap, Blocks: \<open>server.go\<close>, \<open>init_job.go\<close>, \<open>microservice.go\<close>,
    \<open>helpers.go\<close>, \<open>pods_manager.go\<close>, and the blocks shared by the \<open>doSync\<close> methods.
  \<^item> Nodes, Master, YtsaurusClient, Scheduling, Agents, Frontend: the components, one definition
    per constructor, \<open>Fetch\<close>, \<open>doSync\<close> and helper of the source file of the same name.
  \<^item> UpdateFlow, Lifecycle, Operator: \<open>controllers/sync.go\<close> and \<open>ytsaurus_controller.go\<close>;
    the abstract life cycle and the proof that the code refines it.
  \<^item> Progress, Queries: no code; runs of the operator, that updates end in them and that a cluster at rest is
    left alone; that the queries of a reconciliation succeed when reads are answered.
  \<^item> Webhook, Accepted: \<open>api/v1/ytsaurus_webhook.go\<close>; what an admitted resource guarantees to the
    construction of the components and to their documents.
  \<^item> Release, Controllers: the Chyt and Spyt resources with their components and controllers
    (\<open>chyt.go\<close>, \<open>spyt.go\<close>, \<open>chyt_sync.go\<close>, \<open>spyt_sync.go\<close> and the files beside them); remote exec nodes
    (\<open>exec_node_remote.go\<close>, \<open>remoteexecnodes_sync.go\<close>) and the maps from watched objects to requests.
  \<^item> Startup: \<open>main.go\<close>, the registrations (\<open>SetupWithManager\<close>, \<open>SetupWebhookWithManager\<close>) and the webhooks of
    Chyt and Spyt.
  \<^item> GoMemory, DeepCopy: \<open>api/v1/zz_generated.deepcopy.go\<close>. A store of cells with Go's values over it
    (pointers, slices, maps, structs), the shapes of generated copy functions, and the functions of all 62 types.
  \<^item> Defaults, Testutil, Canonize: the defaults that the markers of \<open>ytsaurus_types.go\<close> put into the schema; the resources that the
    tests deploy (\<open>pkg/testutil/builders.go\<close>, \<open>spec_builders.go\<close>), that the base one is admitted with the defaults and only
    with them; the comparison of outputs with stored files (\<open>pkg/canonize/\<close>) over a tree of files.
  \<^item> Parts: no code; which components a specification asks for, and that the constructors build exactly those.
  \<^item> Sample, Steady: concrete clusters and instances of the outside that satisfy every hypothesis; Steady has a cluster at
    rest, in which all components are shown to be ready.

  \<^bold>\<open>How the code is translated.\<close> A method is a program of the state monad over a record \<open>mem\<close>: the
  resource under reconciliation (every component holds the same pointer to it), the world, the
  events recorded, and the heap of component objects (one map per struct type, indexed by addresses,
  because components keep pointers to each other). Go errors are values of type \<open>error\<close>, a panic
  (a nil pointer, an index out of range) is a value \<open>None\<close> or \<open>Inl ''panic''\<close> of the result. A
  \<open>doSync(ctx, dry)\<close> is \<open>firstStatus blocks final\<close>: its early returns are the blocks, in the
  order of the source. All loops are structural recursions over the lists they range over; no definition
  uses fuel, and every function is total. Machine integers are words of their width.

  \<^bold>\<open>The outside.\<close> The API server, the YTsaurus client library, the serialisation packages, the clock
  and the random source are fields of the record \<open>ext\<close>, functions on an abstract world \<open>'w\<close>.
  Properties that rely on them name documented behaviour as hypotheses: \<open>meta_ok\<close> (the condition
  lists of \<open>apimachinery\<close>), \<open>ext_ok\<close> (writing another object does not touch the status of the
  resource, a successful status update stores it, a failed write stores nothing), \<open>cells_ok\<close> (creating
  a tablet cell adds one to the cell count of its bundle), \<open>marshal_ok\<close> (the serialiser accepts every
  value), \<open>release_ok\<close> (the laws of \<open>ext_ok\<close> for a resource that releases an application), \<open>queries_ok\<close> (the API
  server answers reads and the client of the cluster is created), \<open>external_ok\<close> (\<open>DeepCopyInto\<close> of the Kubernetes
  types copies deeply, and the types that are assigned have no references), \<open>keeps_moving\<close> (fairness of a run:
  while the cluster is not running, reconciliations that report no error and find what the state waits for
  come again and again). The methods of a quantity, what the webhook asks the API server and the manager of
  controller-runtime are parameters too. The theory Sample proves the hypotheses for an instance.

  \<^bold>\<open>What is shown.\<close>
  \<^item> The life of a cluster (C1-C13): the abstract machine \<open>cluster_step\<close> over (cluster state, flow, stage,
    conditions) has an invariant, every reconciliation of the modelled controller refines it, hence every
    status ever stored satisfies it; the stages are left in the order of the code, each only when its
    condition is recorded, and the end of an update clears what the update left. Under fairness every cluster
    comes to run; reconciliations get to the machine, and leave a cluster at rest alone.
  \<^item> What the conditions mean (C14-C19): a recorded condition was observed in the world.
  \<^item> Components (C20-C25): the flags of the manager, the components a specification gives rise to, that
    \<open>Sync\<close> leaves the controller's state alone and that \<open>Status\<close> only queries.
  \<^item> Shared machinery (C26-C35): conditions, copies of resources, service ports, merging of overrides, change
    detection of configurations and servers, volumes, init jobs, identifiers.
  \<^item> Resources before and beside the update flow (C36-C40): the webhook admits exactly the specifications
    that satisfy a declarative predicate, and for those every component and every document is built;
    watermarks and journal quorums in the documents; a release is finished only with its jobs.

  \<^bold>\<open>Interfaces\<close>, each a locale interpreted on the definitions of the model: \<open>io_relation\<close> (a reflexive and
  transitive relation between the states before and after a program; instances: the frame property
  \<open>keeps\<close>; \<open>comp_rel\<close>, what every component guarantees of the shared state; \<open>docs_rel\<close>, that documents can be
  built; \<open>release_rel\<close>, what a release leaves alone; \<open>extends\<close>, that a copy only allocates), \<open>condition_store\<close> (what the components rely on when they
  record progress; instances: the update conditions, the status conditions and those of a release), \<open>owned_object\<close> (a piece of the heap; one instance per struct), \<open>component_list\<close> (components
  that keep the contract, lifted to the manager; instance: the components the operator creates),
  \<open>component_property\<close> (what every constructor gives its component holds of all components of a cluster; instances: the
  contract \<open>component_ok\<close>, that status queries and fetches only read, that they are answered).

  \<^bold>\<open>Not modelled.\<close> The helper that drives a test environment and generated mocks; the set-up of the logger and of the scheme of
  types (calls of libraries only). Logging calls are omitted, and contexts are never
  cancelled. A script that a failed generator leaves unset is left out where the code would panic
  (theory InitJob); C37 shows that no generator of an admitted resource fails.
\<close>

section \<open>The life of a cluster\<close>

text \<open>
  C1. Whatever the operator does in any number of reconciliations, successful or failed half-way,
  interleaved with arbitrary changes by others that leave the status alone: a stored status that is
  in an update, at the removal of pods or at any later stage of its flow, records as true what must
  come before. In a full update: the update is possible, the safe mode is enabled, the tablet cells
  were saved and removed, the master snapshots were saved. In an update of the masters only: all but
  the tablet cells. In an update of the tablet nodes only: the possibility and the tablet cells.
\<close>

theorem update_order:
  assumes "ext_ok E" and "meta_ok (x_meta E)" and "(operator_step E)\<^sup>*\<^sup>* w w'"
    and "k_get_ytsaurus (x_k8s E) w = Found r" and "wf_status (yr_Status r)" and "cluster_inv (abs_status (yr_Status r))"
    and "k_get_ytsaurus (x_k8s E) w' = Found r'" and "st_State (yr_Status r') = ClusterStateUpdating"
    and "us_State (st_UpdateStatus (yr_Status r')) \<in>
      set (dropWhile (\<lambda>s. s \<noteq> UpdateStateWaitingForPodsRemoval) (stages (us_Flow (st_UpdateStatus (yr_Status r')))))"
    and "t \<in> (case us_Flow (st_UpdateStatus (yr_Status r')) of
        UpdateFlowFull \<Rightarrow> {ConditionHasPossibility, ConditionSafeModeEnabled, ConditionTabletCellsSaved,
          ConditionTabletCellsRemovingStarted, ConditionTabletCellsRemoved, ConditionSnaphotsSaved}
      | UpdateFlowMaster \<Rightarrow> {ConditionHasPossibility, ConditionSafeModeEnabled, ConditionSnaphotsSaved}
      | UpdateFlowTabletNodes \<Rightarrow> {ConditionHasPossibility, ConditionTabletCellsSaved,
          ConditionTabletCellsRemovingStarted, ConditionTabletCellsRemoved}
      | _ \<Rightarrow> {})"
  shows "status_of (us_Conditions (st_UpdateStatus (yr_Status r'))) t = Some ConditionTrue"
proof (rule operator_run_required [OF assms(1-8)])
  show "t \<in> set (required_conds (us_Flow (st_UpdateStatus (yr_Status r'))) (us_State (st_UpdateStatus (yr_Status r'))))"
    using assms(9,10) required_after [of "us_State (st_UpdateStatus (yr_Status r'))"]
    by (cases "us_Flow (st_UpdateStatus (yr_Status r'))") auto
qed

theorem update_order_witness:
  "status_of (us_Conditions (st_UpdateStatus sample_full)) ConditionSnaphotsSaved = Some ConditionTrue \<and>
   status_of (us_Conditions (st_UpdateStatus sample_master_update)) ConditionSafeModeEnabled = Some ConditionTrue \<and>
   status_of (us_Conditions (st_UpdateStatus sample_tablet_update)) ConditionTabletCellsRemoved = Some ConditionTrue"
proof -
  note * = update_order [OF sample_ext_ok sample_meta_ok rtranclp.rtrancl_refl]
  show ?thesis
    using * [of "sample_start sample_full" _ _ ConditionSnaphotsSaved] * [of "sample_start sample_master_update" _ _ ConditionSafeModeEnabled]
      * [of "sample_start sample_tablet_update" _ _ ConditionTabletCellsRemoved] sample_full_inv sample_updates_inv
    by (simp add: sample_updating_def)
qed

text \<open>
  C2. From the creation of the resource on, every status the operator stores satisfies the
  invariant of the life cycle: outside of updates nothing of an update is left over, and during an
  update the flow is one with a handler, the stage belongs to it and everything the earlier stages
  had to achieve is recorded.
\<close>

theorem operator_invariant:
  assumes "ext_ok E" and "meta_ok (x_meta E)" and "(operator_step E)\<^sup>*\<^sup>* w w'"
    and "k_get_ytsaurus (x_k8s E) w = Found r" and "yr_Status r = new_status"
    and "k_get_ytsaurus (x_k8s E) w' = Found r'"
  shows "cluster_inv (abs_status (yr_Status r'))"
  using operator_run_inv_from [OF assms(1-4) _ _ assms(6)] cluster_inv_new assms(5) by simp

theorem operator_invariant_witness:
  "cluster_inv (abs_status (yr_Status (sw_yts (snd (Reconcile sample_ext (snd (Reconcile sample_ext (sample_start new_status))))))))"
proof -
  have "(operator_step sample_ext)\<^sup>*\<^sup>* (sample_start new_status)
      (snd (Reconcile sample_ext (snd (Reconcile sample_ext (sample_start new_status)))))"
    by (meson operator_step.reconcile r_into_rtranclp rtranclp.rtrancl_into_rtrancl)
  from operator_invariant [OF sample_ext_ok sample_meta_ok this sample_get _ sample_get] show ?thesis by simp
qed

text \<open>
  C3. Refinement: whatever one reconciliation stores is reached from the status it found by steps
  of the abstract machine, also when a write fails or a component returns an error in the middle.
\<close>

theorem reconcile_refines:
  assumes "ext_ok E" and "meta_ok (x_meta E)" and "k_get_ytsaurus (x_k8s E) w = Found r" and "wf_status (yr_Status r)"
  shows "\<exists>r'. k_get_ytsaurus (x_k8s E) (snd (Reconcile E w)) = Found r' \<and> wf_status (yr_Status r') \<and>
    cluster_step\<^sup>*\<^sup>* (abs_status (yr_Status r)) (abs_status (yr_Status r'))"
  using Reconcile_reached [OF assms] by (auto simp: reached_def)

theorem reconcile_refines_witness:
  "\<exists>r'. k_get_ytsaurus (x_k8s sample_ext) (snd (Reconcile sample_ext (sample_start sample_full))) = Found r' \<and>
    wf_status (yr_Status r') \<and> cluster_step\<^sup>*\<^sup>* (abs_status sample_full) (abs_status (yr_Status r'))"
  using reconcile_refines [OF sample_ext_ok sample_meta_ok, of "sample_start sample_full"] sample_full_inv by simp

text \<open>
  C4. Every cluster comes to run. In an infinite run of the operator, in which others change what they like but the
  status: if reconciliations that report no error and find what the state waits for (components in order, the condition
  of the stage of an update) come again and again as long as the cluster is not stored as running, then a cluster that
  was created, is being initialised or reconfigured, is updated or whose update is being ended, of whatever flow
  and at whatever stage, is stored as running some day; and after an update nothing of it is left in the status.
\<close>

theorem cluster_comes_to_run:
  assumes "ext_ok E" and "meta_ok (x_meta E)" and "\<And>i. operator_step E (w i) (w (Suc i))"
    and "k_get_ytsaurus (x_k8s E) (w 0) = Found r" and "wf_status (yr_Status r)" and "keeps_moving E w"
    and "st_State (yr_Status r) \<in> {ClusterStateCreated, ClusterStateInitializing, ClusterStateReconfiguration, ClusterStateUpdating,
      ClusterStateUpdateFinishing, ClusterStateCancelUpdate}"
  shows "\<exists>i r'. k_get_ytsaurus (x_k8s E) (w i) = Found r' \<and> st_State (yr_Status r') = ClusterStateRunning \<and>
    (st_State (yr_Status r) \<in> {ClusterStateUpdating, ClusterStateUpdateFinishing, ClusterStateCancelUpdate} \<longrightarrow>
     st_UpdateStatus (yr_Status r') = \<lparr>us_State = UpdateStateNone, us_Components = None, us_Flow = UpdateFlowNone,
       us_Conditions = [], us_TabletCellBundles = [], us_MasterMonitoringPaths = []\<rparr>)"
  using cluster_settles [OF assms(1-6)] assms(7) by (auto simp: update_cleared_def ending_def)

theorem cluster_comes_to_run_witness:
  "\<exists>i r'. k_get_ytsaurus (x_k8s sample_ext) (sample_run i) = Found r' \<and> st_State (yr_Status r') = ClusterStateRunning \<and>
    st_UpdateStatus (yr_Status r') = \<lparr>us_State = UpdateStateNone, us_Components = None, us_Flow = UpdateFlowNone,
      us_Conditions = [], us_TabletCellBundles = [], us_MasterMonitoringPaths = []\<rparr>"
proof -
  have u: "st_State (yr_Status (sample_resource sample_last)) = ClusterStateUpdating" by (simp add: sample_updating_def)
  have "k_get_ytsaurus (x_k8s sample_ext) (sample_run 0) = Found (sample_resource sample_last)"
    "wf_status (yr_Status (sample_resource sample_last))"
    by (simp_all add: sample_run_def sample_start_def sample_updating_wf)
  from cluster_comes_to_run [OF sample_ext_ok sample_meta_ok sample_run_steps this sample_keeps_moving] u show ?thesis by simp
qed

text \<open>
  C5. A reconciliation of a managed resource with HTTP proxies always gets to the state machine: when the API server
  answers reads and the client of the cluster can be created, no component fails to be built, fetched or
  asked for its status, and the result is that of the step of the machine.
\<close>

theorem reconcile_enters_machine:
  assumes "queries_ok E" and "k_get_ytsaurus (x_k8s E) w = Found r" and "ys_IsManaged (yr_Spec r)" and "ys_HTTPProxies (yr_Spec r) \<noteq> []"
  shows "\<exists>cm h. run_state (NewComponentManager E) (fresh_heap r w) = (Inr cm, h) \<and>
    Reconcile E w = (fst (run_state (syncManaged E cm) h), h_world (snd (run_state (syncManaged E cm) h)))"
  using managed_answers [OF assms] assms(2,3)
  by (auto simp: managed_def Reconcile_def YtsaurusReconciler_Sync_def case_prod_unfold Let_def fresh_heap_def prod_eq_iff split: sum.splits)

theorem reconcile_enters_machine_witness:
  "\<exists>cm h. run_state (NewComponentManager sample_ext) (sample_heap sample_full) = (Inr cm, h) \<and>
    Reconcile sample_ext (sample_start sample_full) =
      (fst (run_state (syncManaged sample_ext cm) h), h_world (snd (run_state (syncManaged sample_ext cm) h)))"
  using reconcile_enters_machine [OF sample_queries_ok, of "sample_start sample_full" "sample_resource sample_full"]
  by (simp add: sample_heap_def sample_start_def) (simp add: sample_resource_def sample_spec_def)

section \<open>The update flows\<close>

text \<open>
  C6. The four handlers are one staged machine: on every state each does exactly what the table of
  its flow says, that is, it stays, moves the update state to the next stage, or ends the update,
  and changes nothing else of the resource.
\<close>

theorem handlers_follow_stages:
  "lands (flow_next F (observe E cm h) (GetUpdateState h)) h
     (fst (run_state (handleFlow F E cm) h)) (snd (run_state (handleFlow F E cm) h))"
  by (rule handleFlow_lands) simp

text \<open>
  An update only moves forward: a handler that changes the update state moves it to a later
  position of its flow, and positions are bounded by the number of stages, so no update cycles.
\<close>

theorem update_moves_forward:
  assumes "GetUpdateState (snd (run_state (handleFlow F E cm) h)) \<noteq> GetUpdateState h"
  shows "stage_rank F (GetUpdateState h) < stage_rank F (GetUpdateState (snd (run_state (handleFlow F E cm) h))) \<and>
    stage_rank F (GetUpdateState (snd (run_state (handleFlow F E cm) h))) \<le> Suc (length (stages F))"
proof (cases "flow_next F (observe E cm h) (GetUpdateState h)")
  case (Some tgt)
  with handleFlow_lands [of F E cm h _ "snd (run_state (handleFlow F E cm) h)"] assms
  obtain t where "tgt = ToUpdate t" "GetUpdateState (snd (run_state (handleFlow F E cm) h)) = t"
    by (cases tgt) (auto simp: lands_def GetUpdateState_def prod_eq_iff)
  with Some show ?thesis using flow_next_rank stage_rank_bound by auto
qed (use handleFlow_lands [of F E cm h] assms in \<open>auto simp: lands_def prod_eq_iff\<close>)

text \<open>
  C7. A cluster at rest is left alone. When reads are answered, a reconciliation of a managed, running cluster with HTTP
  proxies and tablet nodes that finds all its components ready changes nothing outside, reports no error and asks for no
  other reconciliation.
\<close>

theorem steady_cluster_untouched:
  assumes "ext_ok E" and "meta_ok (x_meta E)" and "queries_ok E" and "k_get_ytsaurus (x_k8s E) w = Found r" and "wf_status (yr_Status r)"
    and "st_State (yr_Status r) = ClusterStateRunning" and "ys_IsManaged (yr_Spec r)"
    and "ys_TabletNodes (yr_Spec r) \<noteq> []" and "ys_HTTPProxies (yr_Spec r) \<noteq> []"
    and "set (seenStatuses (allComponents E (fresh_heap r w)) (snd (run_state (newComponents E) (fresh_heap r w)))) \<subseteq> {SyncStatusReady}"
  shows "Reconcile E w = ((zero_result, None), w)"
  using assms by (rule steady_reconcile)

theorem steady_cluster_untouched_witness:
  "set (seenStatuses (allComponents ready_ext (fresh_heap ready_resource ready_world))
     (snd (run_state (newComponents ready_ext) (fresh_heap ready_resource ready_world)))) = {SyncStatusReady} \<and>
   Reconcile ready_ext ready_world = ((zero_result, None), ready_world)"
proof -
  have r: "k_get_ytsaurus (x_k8s ready_ext) ready_world = Found ready_resource" by (simp add: ready_world_def)
  have "yr_Status ready_resource = ready_status" by (simp add: ready_resource_def sample_resource_def)
  moreover have "st_State ready_status = ClusterStateRunning" by (simp add: ready_status_def)
  moreover have "ys_IsManaged (yr_Spec ready_resource)" by (simp add: ready_resource_def ready_spec_def sample_spec_def)
  ultimately show ?thesis
    using steady_cluster_untouched [OF ready_hyps(1-3) r] ready_wf ready_seen ready_small(1,2) by simp
qed

text \<open>
  C8. No stage is stuck: once its condition holds (or it may be skipped), the handler whose save
  succeeds has stored a status at a later stage of the flow or a finished update.
\<close>

theorem finished_stage_leaves:
  assumes "ext_ok E" and "stored_status E h \<noteq> None" and "GetUpdateState h \<in> set (stages F)"
    and "stage_done (observe E cm h) (GetUpdateState h) \<or> stage_skips (observe E cm h) (GetUpdateState h)"
    and "snd (fst (run_state (handleFlow F E cm) h)) = None"
  shows "\<exists>st. stored_status E (snd (run_state (handleFlow F E cm) h)) = Some st \<and>
    (st_State st = ClusterStateUpdateFinishing \<or> us_State (st_UpdateStatus st) \<in> set (after (stages F) (GetUpdateState h)))"
proof -
  obtain r h' where run: "run_state (handleFlow F E cm) h = ((r, None), h')" using assms(5) by (metis prod.collapse)
  note lands = handleFlow_lands [OF run] and succ = flow_next_done [OF assms(3,4)]
  from lands succ have "r \<noteq> None" by (auto simp: lands_def)
  from handleFlow_stored [OF assms(1,2) run this] lands succ run show ?thesis by (auto simp: lands_def)
qed

theorem finished_stage_leaves_witness:
  "\<exists>st. stored_status sample_ext (snd (run_state (handleFlow UpdateFlowFull sample_ext sample_manager) (sample_heap sample_full))) = Some st \<and>
    (st_State st = ClusterStateUpdateFinishing \<or>
     us_State (st_UpdateStatus st) \<in> set (after (stages UpdateFlowFull) UpdateStateWaitingForPodsRemoval))"
  using finished_stage_leaves [of sample_ext "sample_heap sample_full" UpdateFlowFull sample_manager]
  by (simp add: handleFlow_def handleEverything_def sample_cond_true stage_done_def observe_def arePodsRemoved_def sample_manager_def)

text \<open>
  C9. A full update is finished only from its last stage, with the safe mode disabled again.
\<close>

theorem full_update_finish:
  assumes "GetClusterState h = ClusterStateUpdating"
    and "GetClusterState (snd (run_state (handleFlow UpdateFlowFull E cm) h)) = ClusterStateUpdateFinishing"
  shows "GetUpdateState h = UpdateStateWaitingForSafeModeDisabled \<and>
    IsUpdateStatusConditionTrue E ConditionSafeModeDisabled h"
proof -
  let ?n = "flow_next UpdateFlowFull (observe E cm h) (GetUpdateState h)"
  have "lands ?n h (fst (run_state (handleFlow UpdateFlowFull E cm) h)) (snd (run_state (handleFlow UpdateFlowFull E cm) h))"
    by (rule handleFlow_lands) simp
  with assms have "?n = Some (ToCluster ClusterStateUpdateFinishing)"
    by (auto simp: lands_def GetClusterState_def split: option.splits target.splits)
  then show ?thesis by (auto simp: flow_next_full_finish observe_def)
qed

theorem full_update_finish_witness:
  "GetUpdateState (sample_heap (sample_updating UpdateFlowFull None UpdateStateWaitingForSafeModeDisabled [ConditionSafeModeDisabled])) =
     UpdateStateWaitingForSafeModeDisabled \<and>
   IsUpdateStatusConditionTrue sample_ext ConditionSafeModeDisabled
     (sample_heap (sample_updating UpdateFlowFull None UpdateStateWaitingForSafeModeDisabled [ConditionSafeModeDisabled]))"
  by (rule full_update_finish [of _ _ sample_manager])
    (simp_all add: handleFlow_def handleEverything_def sample_cond_true)

text \<open>
  C10. The end of an update, finished or cancelled, that reports no error has stored a running
  cluster in which nothing of the update is left: no update state, flow, names, conditions, saved
  tablet cells or monitoring paths.
\<close>

theorem end_update_clears:
  assumes "ext_ok E" and "stored_status E h \<noteq> None"
    and "GetClusterState h = ClusterStateUpdateFinishing \<or> GetClusterState h = ClusterStateCancelUpdate"
    and "snd (fst (run_state (syncManaged E cm) h)) = None"
  shows "stored_status E (snd (run_state (syncManaged E cm) h)) =
    Some ((h_status h)\<lparr>st_State := ClusterStateRunning, st_UpdateStatus :=
      \<lparr>us_State = UpdateStateNone, us_Components = None, us_Flow = UpdateFlowNone, us_Conditions = [],
       us_TabletCellBundles = [], us_MasterMonitoringPaths = []\<rparr>\<rparr>)"
proof -
  have run: "run_state (syncManaged E cm) h = run_state (endUpdate E) h" using assms(3) by (auto simp: syncManaged_def)
  obtain r h' where e: "run_state (endUpdate E) h = ((r, None), h')" using assms(4) run by (metis prod.collapse)
  from endUpdate_stored [OF assms(1,2) e] run e show ?thesis by simp
qed

theorem end_update_clears_witness:
  "stored_status sample_ext (snd (run_state (syncManaged sample_ext sample_manager)
       (sample_heap (sample_full\<lparr>st_State := ClusterStateCancelUpdate\<rparr>)))) = Some (new_status\<lparr>st_State := ClusterStateRunning\<rparr>)"
  using end_update_clears [of sample_ext "sample_heap (sample_full\<lparr>st_State := ClusterStateCancelUpdate\<rparr>)" sample_manager]
  by (simp add: syncManaged_def endUpdate_def run_saves case_prod_unfold new_status_def sample_updating_def)

text \<open>
  C11. A full update is chosen exactly when a master or a tablet node needs an update and the
  selector allows everything, or is not set while full updates are enabled.
\<close>

theorem choose_full_iff:
  "um_flow (fst (chooseUpdateFlow spec cs)) = UpdateFlowFull \<longleftrightarrow>
     (\<exists>c \<in> set cs. c_GetType c = MasterType \<or> c_GetType c = TabletNodeType) \<and>
     (ys_UpdateSelector spec = UpdateSelectorEverything \<or>
      ys_UpdateSelector spec = UpdateSelectorUnspecified \<and> ys_EnableFullUpdate spec)"
  by (cases "ys_UpdateSelector spec")
    (auto simp: chooseUpdateFlow_def Let_def collectNames_simps zero_updateMeta_def filter_empty_conv)

text \<open>
  C12. The names a chosen flow updates: a full update has no list, a master or tablet node update
  lists exactly the masters or tablet nodes that need one, and a stateless update never lists a
  component of those two types.
\<close>

theorem chosen_names:
  "case um_flow (fst (chooseUpdateFlow spec cs)) of
     UpdateFlowMaster \<Rightarrow> um_componentNames (fst (chooseUpdateFlow spec cs)) =
       Some (map c_GetName (filter (\<lambda>c. c_GetType c = MasterType) cs))
   | UpdateFlowTabletNodes \<Rightarrow> um_componentNames (fst (chooseUpdateFlow spec cs)) =
       Some (map c_GetName (filter (\<lambda>c. c_GetType c = TabletNodeType) cs))
   | UpdateFlowStateless \<Rightarrow> set (case um_componentNames (fst (chooseUpdateFlow spec cs)) of None \<Rightarrow> [] | Some ns \<Rightarrow> ns) \<subseteq>
       c_GetName ` {c \<in> set cs. c_GetType c \<noteq> MasterType \<and> c_GetType c \<noteq> TabletNodeType}
   | _ \<Rightarrow> um_componentNames (fst (chooseUpdateFlow spec cs)) = None"
  by (cases "ys_UpdateSelector spec")
    (auto simp: chooseUpdateFlow_def Let_def collectNames_simps zero_updateMeta_def getComponentNames_def filter_empty_conv)

text \<open>
  C13. What a reconciliation does with a running cluster in which components need an update, when it reports no
  error: with a component to initialise, the cluster is stored as being reconfigured; else, when the
  specification blocks the update, nothing changes at all; else the cluster is stored as updating with the chosen flow
  and names, where the flow has a handler and its list of names, if it has one, is not empty. Another reconciliation
  is asked for in all three cases.
\<close>

theorem update_starts:
  assumes "ext_ok E" and "stored_status E h \<noteq> None" and "GetClusterState h = ClusterStateRunning"
    and "needSync cm" and "needUpdate cm \<noteq> []" and "run_state (syncManaged E cm) h = ((result, None), h')"
  shows "result = requeue \<and>
    (if needInit cm then stored_status E h' = Some ((h_status h)\<lparr>st_State := ClusterStateReconfiguration\<rparr>)
     else case chooseUpdateFlow (yr_Spec (h_yts h)) (needUpdate cm) of (meta, msg) \<Rightarrow>
       if msg \<noteq> [] then h' = h
       else choice_ok (um_flow meta) (um_componentNames meta) \<and>
         stored_status E h' = Some ((h_status h)\<lparr>st_State := ClusterStateUpdating,
           st_UpdateStatus := (h_update h)\<lparr>us_Flow := um_flow meta, us_Components := um_componentNames meta\<rparr>\<rparr>))"
proof -
  obtain meta msg where ch: "chooseUpdateFlow (yr_Spec (h_yts h)) (needUpdate cm) = (meta, msg)" by fastforce
  let ?re = "map_status (\<lambda>st. st\<lparr>st_State := ClusterStateReconfiguration\<rparr>) h"
  let ?up = "map_status (\<lambda>st. st\<lparr>st_State := ClusterStateUpdating, st_UpdateStatus :=
    (st_UpdateStatus st)\<lparr>us_Flow := um_flow meta, us_Components := um_componentNames meta\<rparr>\<rparr>) h"
  consider (init) "needInit cm" | (blocked) "\<not> needInit cm" "msg \<noteq> []" | (go) "\<not> needInit cm" "msg = []" by blast
  then show ?thesis
  proof cases
    case init
    with assms(3-6) have "run_state (UpdateStatus E) ?re = (None, h')" "result = requeue"
      by (auto simp: syncManaged_def run_saves split: prod.splits)
    with UpdateStatus_stored [OF assms(1) _ this(1)] assms(2) init show ?thesis by simp
  next
    case blocked
    with assms(3-6) ch show ?thesis by (simp add: syncManaged_def)
  next
    case go
    with assms(3-6) ch have "run_state (UpdateStatus E) ?up = (None, h')" "result = requeue"
      by (auto simp: syncManaged_def run_saves split: prod.splits if_splits)
    with UpdateStatus_stored [OF assms(1) _ this(1)] assms(2) go ch chooseUpdateFlow_ok [OF ch [unfolded go(2)] assms(5)]
    show ?thesis by simp
  qed
qed

theorem update_starts_witness:
  "choice_ok UpdateFlowStateless (Some [''ExecNode'']) \<and>
   stored_status sample_ext (snd (run_state (syncManaged sample_ext sample_needs_update)
       (sample_heap (new_status\<lparr>st_State := ClusterStateRunning\<rparr>)))) =
     Some (sample_updating UpdateFlowStateless (Some [''ExecNode'']) UpdateStateNone [])"
  using update_starts [of sample_ext "sample_heap (new_status\<lparr>st_State := ClusterStateRunning\<rparr>)"
      sample_needs_update "fst (fst (run_state (syncManaged sample_ext sample_needs_update) (sample_heap (new_status\<lparr>st_State := ClusterStateRunning\<rparr>))))"]
  by (simp add: syncManaged_def run_saves case_prod_unfold new_status_def sample_updating_def needSync_def needInit_def needUpdate_def
      initial_status_def IsRunningStatus_def chooseUpdateFlow_def Let_def sample_resource_def sample_spec_def sample_component_def
      getComponentNames_def sample_needs_update_def)

section \<open>The stages that act on the running cluster\<close>

text \<open>
  C14. The possibility check answers yes exactly when all tablet cell bundles are in good health,
  no vital chunk is lost, no chunk misses its quorum, every primary master is active and leading or
  following, and exactly one of them is leading.
\<close>

theorem possibility_check_exact:
  "HandlePossibilityCheck E w = Inr (True, msg) \<longleftrightarrow> msg = ''Update is possible'' \<and>
     (\<exists>bs. y_list_health (x_yt E) ''//sys/tablet_cell_bundles'' w = Inr bs \<and> filter (\<lambda>b. tbh_Health b \<noteq> ''good'') bs = []) \<and>
     (\<exists>n. y_get_int (x_yt E) ''//sys/lost_vital_chunks/@count'' w = Inr n \<and> n \<le> 0) \<and>
     (\<exists>n. y_get_int (x_yt E) ''//sys/quorum_missing_chunks/@count'' w = Inr n \<and> n \<le> 0) \<and>
     (\<exists>as. y_list (x_yt E) ''//sys/primary_masters'' w = Inr as \<and> masters_healthy E w as)"
  unfolding HandlePossibilityCheck_True update_possible_def filter_empty_conv by auto

text \<open>
  C15. The stage of the possibility check records that the update is possible only when the check
  succeeds on the cluster as it is then.
\<close>

theorem possibility_recorded_sound:
  assumes "cond_inv E h" and "IsUpdateStatusConditionTrue E ConditionHasPossibility (snd (run_state (handlePossibility E) h))"
    and "\<not> IsUpdateStatusConditionTrue E ConditionHasPossibility h"
  shows "HandlePossibilityCheck E (h_world h) = Inr (True, ''Update is possible'')"
  using handlePossibility_sound [OF assms(1) prod.collapse [symmetric] assms(2)] assms(3) by (simp add: HandlePossibilityCheck_True)

theorem possibility_recorded_sound_witness:
  "HandlePossibilityCheck sample_ext (sample_start (sample_updating UpdateFlowFull None UpdateStatePossibilityCheck [])) =
     Inr (True, ''Update is possible'')"
proof -
  let ?h = "sample_heap (sample_updating UpdateFlowFull None UpdateStatePossibilityCheck [])"
  have "HandlePossibilityCheck sample_ext (sample_start (sample_updating UpdateFlowFull None UpdateStatePossibilityCheck [])) = Inr (True, ''Update is possible'')"
    by (simp add: HandlePossibilityCheck_def GetNotGoodTabletCellBundles_def sample_ext_def sample_yt_def sample_masters_def primaryHydra_def sample_hydra_def)
  then have "IsUpdateStatusConditionTrue sample_ext ConditionHasPossibility (snd (run_state (handlePossibility sample_ext) ?h))"
    by (simp add: handlePossibility_def case_prod_unfold sample_cond_true setDone_stored sample_cond_inv)
  from possibility_recorded_sound [OF sample_cond_inv this] show ?thesis by (simp add: sample_cond_true)
qed

text \<open>
  C16. The removal of the tablet cells is recorded only when the cluster lists no tablet cell.
\<close>

theorem cells_removed_sound:
  assumes "IsUpdateStatusConditionTrue E ConditionTabletCellsRemoved (snd (run_state (handleCellsRemoved E) h))"
    and "\<not> IsUpdateStatusConditionTrue E ConditionTabletCellsRemoved h"
  shows "y_list (x_yt E) ''//sys/tablet_cells'' (h_world h) = Inr []"
  using assms
  by (cases "y_list (x_yt E) ''//sys/tablet_cells'' (h_world h)")
    (auto simp: handleCellsRemoved_def AreTabletCellsRemoved_def split: bool.splits)

theorem cells_removed_sound_witness:
  "y_list (x_yt sample_ext) ''//sys/tablet_cells'' (sample_start (sample_updating UpdateFlowFull None UpdateStateWaitingForTabletCellsRemoved [])) = Inr []"
proof -
  let ?h = "sample_heap (sample_updating UpdateFlowFull None UpdateStateWaitingForTabletCellsRemoved [])"
  have "AreTabletCellsRemoved sample_ext (h_world ?h) = Inr True"
    by (simp add: AreTabletCellsRemoved_def sample_ext_def sample_yt_def)
  then have "IsUpdateStatusConditionTrue sample_ext ConditionTabletCellsRemoved (snd (run_state (handleCellsRemoved sample_ext) ?h))"
    by (simp add: handleCellsRemoved_def case_prod_unfold setDone_stored sample_cond_inv sample_cond_true)
  from cells_removed_sound [OF this] show ?thesis by (simp add: sample_cond_true)
qed

text \<open>
  C17. The master snapshots are recorded as saved only when every monitored master reports that
  its last snapshot was built in read-only mode.
\<close>

theorem snapshots_saved_sound:
  assumes "ext_ok E" and "cond_inv E h"
    and "IsUpdateStatusConditionTrue E ConditionSnaphotsSaved (snd (run_state (handleSnapshots E) h))"
    and "\<not> IsUpdateStatusConditionTrue E ConditionSnaphotsSaved h"
    and "p \<in> set (us_MasterMonitoringPaths (h_update (snd (run_state (handleSnapshots E) h))))"
  shows "\<exists>hydra. y_get_hydra (x_yt E) p (h_world (snd (run_state (handleSnapshots E) h))) = Inr hydra \<and> mh_LastSnapshotReadOnly hydra"
  using handleSnapshots_sound [OF assms(1,2) prod.collapse [symmetric] assms(3,4)] assms(5) by (simp add: snapshots_built_def)

theorem snapshots_saved_sound_witness:
  "\<exists>hydra. y_get_hydra (x_yt sample_ext) ''//m'' (h_world (snd (run_state (handleSnapshots sample_ext) sample_snapshots))) = Inr hydra \<and>
     mh_LastSnapshotReadOnly hydra"
proof -
  have inv: "cond_inv sample_ext sample_snapshots" by (simp add: sample_cond_inv)
  have "run_state (handleSnapshots sample_ext) sample_snapshots = ((SimpleStatus SyncStatusUpdating, None),
      snd (run_state (setDone sample_ext ConditionSnaphotsSaved ''Master snapshots were built'') sample_snapshots))"
    by (simp add: handleSnapshots_def savePaths_def startSnapshots_def sample_cond_true case_prod_unfold)
      (simp add: sample_ext_def sample_yt_def sample_hydra_def case_prod_unfold)
  with inv show ?thesis
    by (intro snapshots_saved_sound [OF sample_ext_ok inv]) (simp_all add: setDone_stored setDone_keeps sample_cond_true)
qed

text \<open>
  C18. The stage that recovers tablet cells, when it succeeds, leaves every saved bundle with exactly the larger of the
  number of cells it had before the stage and the number that was saved for it: with the saved number, if the update
  had removed the cells. The bundles are saved under different names.
\<close>

theorem recovery_restores_cells:
  assumes "cells_ok E" and "GetUpdateState h = UpdateStateWaitingForTabletCellsRecovery"
    and "\<not> IsUpdateStatusConditionTrue E ConditionTabletCellsRecovered h"
    and "snd (fst (run_state (handleUpdatingState E) h)) = None"
    and "distinct (map tcb_Name (us_TabletCellBundles (h_update h)))"
    and "b \<in> set (us_TabletCellBundles (h_update h))" and "cell_count E (tcb_Name b) (h_world h) = Inr m"
  shows "cell_count E (tcb_Name b) (h_world (snd (run_state (handleUpdatingState E) h))) = Inr (max m (tcb_TabletCellCount b))"
proof -
  obtain e h1 where run: "run_state (RecoverTableCells E (us_TabletCellBundles (h_update h))) h = (e, h1)" by fastforce
  with assms(2-4) have "e = None" "h_world (snd (run_state (handleUpdatingState E) h)) = h_world h1"
    by (auto simp: handleUpdatingState_def unlessDone_def case_prod_unfold setDone_keeps split: if_splits)
  with RecoverTableCells_count [OF assms(1) run [unfolded \<open>e = None\<close>] assms(7)] show ?thesis
    by (simp add: fold_saved_count [OF assms(5)] find_distinct [OF assms(5,6)])
qed

theorem recovery_restores_cells_witness:
  "cell_count sample_ext ''default'' (h_world (snd (run_state (handleUpdatingState sample_ext) sample_recovery))) = Inr 2"
proof -
  let ?b = "\<lparr>tcb_Name = ''default'', tcb_TabletCellCount = 2\<rparr>"
  have "fst (run_state (RecoverTableCells sample_ext [?b]) sample_recovery) = None"
    by (simp add: CreateTabletCells_def createCellsLoop.simps case_prod_unfold run_ext_write sample_exts)
  then have "snd (fst (run_state (handleUpdatingState sample_ext) sample_recovery)) = None"
    by (simp add: handleUpdatingState_def unlessDone_def sample_cond_true case_prod_unfold del: RecoverTableCells.simps)
  with recovery_restores_cells [OF sample_cells_ok, of sample_recovery ?b 0] show ?thesis
    by (simp add: sample_cond_true sample_cell_count)
qed

section \<open>The manager and the components\<close>

text \<open>
  C19. An update leaves the removal of pods only when every component it updates has recorded that
  its pods are removed.
\<close>

theorem pods_removal_gate:
  assumes "GetUpdateState h = UpdateStateWaitingForPodsRemoval"
    and "fst (fst (run_state (handleFlow F E cm) h)) \<noteq> None"
    and "c \<in> set (cm_allComponents cm)" and "IsUpdatingComponent c h"
  shows "IsUpdateStatusConditionTrue E (GetPodsRemovedCondition (c_GetName c)) h"
proof -
  have "lands (flow_next F (observe E cm h) (GetUpdateState h)) h (fst (run_state (handleFlow F E cm) h)) (snd (run_state (handleFlow F E cm) h))"
    by (rule handleFlow_lands) simp
  with assms(1,2) obtain tgt where "flow_next F (observe E cm h) UpdateStateWaitingForPodsRemoval = Some tgt"
    by (auto simp: lands_def split: option.splits)
  from flow_next_pods [OF this] assms(3,4) show ?thesis
    by (auto simp: observe_def arePodsRemoved_iff areComponentPodsRemoved_def)
qed

theorem pods_removal_gate_witness:
  "IsUpdateStatusConditionTrue sample_ext (GetPodsRemovedCondition ''ExecNode'')
     (sample_heap (sample_updating UpdateFlowStateless (Some [''ExecNode'']) UpdateStateWaitingForPodsRemoval [GetPodsRemovedCondition ''ExecNode'']))"
  using pods_removal_gate [of "sample_heap (sample_updating UpdateFlowStateless (Some [''ExecNode'']) UpdateStateWaitingForPodsRemoval
        [GetPodsRemovedCondition ''ExecNode''])" UpdateFlowStateless sample_ext
      "sample_manager\<lparr>cm_allComponents := [sample_component ''ExecNode'' ExecNodeType SyncStatusReady]\<rparr>"
      "sample_component ''ExecNode'' ExecNodeType SyncStatusReady"]
  by (simp add: handleFlow_def handleStateless_def arePodsRemoved_def areComponentPodsRemoved_def sample_cond_true
      IsUpdatingComponent_def isUpdatingNamed_def sample_component_def run_moveTo [OF prod.collapse [symmetric]])

text \<open>
  C20. What the manager reports is a function of the statuses its components had when it asked
  them, in order: work to do, initialisation needed, which components need an update, and whether
  all are ready or updating.
\<close>

theorem manager_flags:
  assumes "fst (run_state (makeManager cs q s) h) = Inr cm"
  shows "(needSync cm \<longleftrightarrow> (\<exists>x \<in> set (seenStatuses cs h). x \<noteq> SyncStatusReady)) \<and>
    (needInit cm \<longleftrightarrow> (\<exists>x \<in> set (seenStatuses cs h). x \<notin> {SyncStatusReady, SyncStatusNeedLocalUpdate})) \<and>
    needUpdate cm = map fst (filter (\<lambda>(c, x). x = SyncStatusNeedLocalUpdate) (zip cs (seenStatuses cs h))) \<and>
    (allReadyOrUpdating cm \<longleftrightarrow> set (seenStatuses cs h) \<subseteq> {SyncStatusReady, SyncStatusUpdating})"
proof -
  have "run_state (makeManager cs q s) h = (Inr cm, snd (run_state (makeManager cs q s) h))" using assms by (metis prod.collapse)
  note st = makeManager_run(4) [OF this]
  show ?thesis
    unfolding needSync_def needInit_def needUpdate_def allReadyOrUpdating_def st fold_addStatus [OF length_seenStatuses]
    by (auto simp: initial_status_def IsRunningStatus_iff)
qed

theorem manager_flags_witness:
  "needUpdate \<lparr>cm_allComponents = [sample_component ''ExecNode'' ExecNodeType SyncStatusNeedLocalUpdate], cm_queryTracker = None,
       cm_scheduler = None, cm_status = addStatus (sample_component ''ExecNode'' ExecNodeType SyncStatusNeedLocalUpdate)
         SyncStatusNeedLocalUpdate initial_status\<rparr> = [sample_component ''ExecNode'' ExecNodeType SyncStatusNeedLocalUpdate]"
  using manager_flags [of "[sample_component ''ExecNode'' ExecNodeType SyncStatusNeedLocalUpdate]" None None "sample_heap new_status"
      "\<lparr>cm_allComponents = [sample_component ''ExecNode'' ExecNodeType SyncStatusNeedLocalUpdate], cm_queryTracker = None,
       cm_scheduler = None, cm_status = addStatus (sample_component ''ExecNode'' ExecNodeType SyncStatusNeedLocalUpdate)
         SyncStatusNeedLocalUpdate initial_status\<rparr>"]
  by (simp add: makeManager_def sample_component_def SimpleStatus_def)

text \<open>
  C21. Building the components of a cluster fails only for a specification without HTTP proxies; else the components are
  those of the specification, one for one and in order. Each is of the kind of its part, and its server (or
  deployment) has the name, the instance and the image of that part, with the part's own monitoring port where none is
  given. The query tracker, the queue agent and the strawberry controller are left out without
  the schedulers or the tablet nodes they need.
\<close>

theorem components_of_spec:
  "case run_state (newComponents E) h of
     (Inl e, h') \<Rightarrow> ys_HTTPProxies (yr_Spec (h_yts h)) = []
   | (Inr cps, h') \<Rightarrow> ys_HTTPProxies (yr_Spec (h_yts h)) \<noteq> [] \<and>
       list_all2 (built_from E h') (built_parts (yr_Spec (h_yts h))) (cps_all cps)"
  using newComponentsFor_built [of h "h_yts h" E]
  by (auto simp: newComponents_def establishes_def built_ok_def split: prod.splits sum.splits)

text \<open>
  C22. No component interferes with the controller: the synchronisation of any component of a
  cluster keeps the cluster state, the update state, the flow and the names, leaves the stored
  resource to the controller, withdraws no update condition but the master's own flag, and outside
  of updates does not touch the update status.
\<close>

theorem components_respect_control:
  assumes "c \<in> set (allComponents E h0)" and "ext_ok E" and "cond_inv E h"
  shows "control_of (snd (run_state (c_Sync c) h)) = control_of h \<and> cond_inv E (snd (run_state (c_Sync c) h)) \<and>
    k_get_ytsaurus (x_k8s E) (h_world (snd (run_state (c_Sync c) h))) = k_get_ytsaurus (x_k8s E) (h_world h) \<and>
    (\<forall>t. t \<noteq> ConditionMasterExitReadOnlyPrepared \<and> IsUpdateStatusConditionTrue E t h \<longrightarrow>
       IsUpdateStatusConditionTrue E t (snd (run_state (c_Sync c) h))) \<and>
    (IsUpdating h \<or> h_update (snd (run_state (c_Sync c) h)) = h_update h)"
proof -
  have rel: "comp_rel E False h (snd (run_state (c_Sync c) h))"
    using cl.okD(2) [OF assms(1)] by (metis prod.collapse state_io_relD)
  note d = comp_relD [OF rel assms(2,3)]
  from d(1,2,4,5,7) assms(3) show ?thesis by (auto simp: IsUpdateStatusConditionTrue_stored)
qed

theorem components_respect_control_witness:
  "control_of (snd (run_state (c_Sync sample_first) (sample_heap sample_full))) = control_of (sample_heap sample_full)"
  using components_respect_control [OF sample_first_in sample_ext_ok, of "sample_heap sample_full"] by (simp add: sample_cond_inv)

text \<open>
  C23. In a cluster with tablet nodes the status query of every component is a pure observation:
  it changes neither the resource nor anything outside.
\<close>

theorem status_queries_pure:
  assumes "ys_TabletNodes (yr_Spec (h_yts h0)) \<noteq> []" and "c \<in> set (allComponents E h0)"
  shows "h_yts (snd (run_state (c_Status c) h)) = h_yts h \<and> h_world (snd (run_state (c_Status c) h)) = h_world h"
proof -
  have "dry_status c" using qt.all_components [OF _ assms(2)] assms(1) by (simp add: quiet_def)
  then show ?thesis by (simp add: dry_status_def keeps_def outer_def)
qed

theorem status_queries_pure_witness:
  "h_yts (snd (run_state (c_Status sample_first) (sample_heap sample_full))) = h_yts (sample_heap sample_full) \<and>
   h_world (snd (run_state (c_Status sample_first) (sample_heap sample_full))) = h_world (sample_heap sample_full)"
  by (rule status_queries_pure [OF _ sample_first_in]) (simp add: sample_resource_def sample_spec_def)

text \<open>
  C24. Without tablet nodes the status query of the scheduler is not pure: in the stage that
  prepares the update of the operations archive it records in the resource that the archive needs
  no update, although a query runs dry.
\<close>

theorem scheduler_status_writes:
  assumes "s_tabletNodes s = []" and "cond_inv E h" and "GetClusterState h = ClusterStateUpdating"
    and "isUpdatingNamed (lb_ComponentName l) True h" and "GetUpdateState h = UpdateStateWaitingForOpArchiveUpdatingPrepare"
  shows "IsUpdateStatusConditionTrue E ConditionNotNecessaryToUpdateOpArchive
    (snd (run_state (c_Status (Scheduler_component E l s)) h))"
proof -
  let ?c = "mkCondition ConditionNotNecessaryToUpdateOpArchive ConditionTrue ''NotNecessaryToUpdateOpArchive''
    ''Operations archive does not need to be updated''"
  have "snd (run_state (c_Status (Scheduler_component E l s)) h) = snd (run_state (SetUpdateStatusCondition E ?c) h)"
    using assms(1,3-5)
    by (simp add: Scheduler_component_def mkComponent_def Scheduler_doSync_def checkNeedUpdate_def IsReadyToUpdateClusterState_def
        checkUpdatingWith_def whenUpdating_def updateOpArchive_def needOpArchiveInit_def setUpdateDone_def case_prod_unfold)
  then show ?thesis
    using upd.stored_same [OF assms(2), of ?c] upd.inv_set [OF assms(2), of ?c]
    by (simp add: IsUpdateStatusConditionTrue_stored mkCondition_def)
qed

theorem scheduler_status_writes_witness:
  "IsUpdateStatusConditionTrue sample_ext ConditionNotNecessaryToUpdateOpArchive
     (snd (run_state (c_Status (Scheduler_component sample_ext sample_labeller sample_scheduler))
       (sample_heap (sample_updating UpdateFlowFull None UpdateStateWaitingForOpArchiveUpdatingPrepare [])))) \<and>
   \<not> IsUpdateStatusConditionTrue sample_ext ConditionNotNecessaryToUpdateOpArchive
     (sample_heap (sample_updating UpdateFlowFull None UpdateStateWaitingForOpArchiveUpdatingPrepare []))"
  by (intro conjI scheduler_status_writes)
    (simp_all add: sample_scheduler_def sample_cond_inv sample_cond_true isUpdatingNamed_def)

text \<open>
  C25. The removal of a server's pods is recorded only in the second phase: after the removal was
  started and when the server has no stateful set or no pod of it is left.
\<close>

theorem pods_removed_two_phase:
  assumes "cond_inv E h"
    and "IsUpdateStatusConditionTrue E (GetPodsRemovedCondition (lb_ComponentName l)) (snd (run_state (removePods E (serverPods E a) l) h))"
    and "\<not> IsUpdateStatusConditionTrue E (GetPodsRemovedCondition (lb_ComponentName l)) h"
  shows "isPodsRemovingStarted E l h \<and>
    (\<not> Exists (srv_statefulSet (h_srv h a)) \<or> StatefulSet_getPods E (srv_statefulSet (h_srv h a)) (h_world h) = Some [])"
proof -
  have "isPodsRemovingStarted E l h \<and> serverImpl_arePodsRemoved E (h_srv h a) (h_world h)"
    by (rule removePods_two_phase [OF assms(1) _ prod.collapse [symmetric] _ assms(2,3)])
      (auto simp: serverPods_def intro!: io_intros)
  then show ?thesis by (auto simp: serverImpl_arePodsRemoved_def StatefulSet_ArePodsRemoved_def split: if_splits option.splits)
qed

theorem pods_removed_two_phase_witness:
  "isPodsRemovingStarted sample_ext sample_labeller
     (sample_memory (sample_updating UpdateFlowFull None UpdateStateWaitingForPodsRemoval [GetPodsRemovingStartedCondition sample_labeller]))"
proof -
  let ?t = "GetPodsRemovedCondition (lb_ComponentName sample_labeller)" and ?s = "GetPodsRemovingStartedCondition sample_labeller"
  let ?h = "sample_memory (sample_updating UpdateFlowFull None UpdateStateWaitingForPodsRemoval [?s])"
  have ne: "?t \<noteq> ?s" by (simp add: GetPodsRemovedCondition_def GetPodsRemovingStartedCondition_def)
  have inv: "cond_inv sample_ext ?h" by (simp add: sample_cond_inv)
  have "serverImpl_arePodsRemoved sample_ext sample_server w" for w
    by (simp add: serverImpl_arePodsRemoved_def sample_server_def newServer_def newServerConfigured_def Let_def NewStatefulSet_def
        Exists_def zero_statefulset_def zero_meta_def)
  then have run: "snd (run_state (removePods sample_ext (serverPods sample_ext 0) sample_labeller) ?h) =
      snd (run_state (setPodsRemovedCondition sample_ext sample_labeller) ?h)"
    by (simp add: removePods_def isPodsRemovingStarted_def sample_cond_true serverPods_def case_prod_unfold)
  have "IsUpdateStatusConditionTrue sample_ext ?t (snd (run_state (setPodsRemovedCondition sample_ext sample_labeller) ?h))"
    using setDone_stored [OF inv, of ?t ?t "''Pods removed''"] by (simp add: setDone_def setPodsRemovedCondition_def)
  with run pods_removed_two_phase [OF inv, of sample_labeller 0] ne show ?thesis by (simp add: sample_cond_true)
qed

section \<open>Objects and conditions\<close>

text \<open>
  C26. Writing an update condition and asking for it: the type just written is true exactly when
  it was written as true, every other type is as before. Sorting the conditions after each write
  does not matter.
\<close>

theorem condition_roundtrip:
  assumes "cond_inv E h"
  shows "IsUpdateStatusConditionTrue E t (snd (run_state (SetUpdateStatusCondition E c) h)) \<longleftrightarrow>
    (if t = cond_Type c then cond_Status c = ConditionTrue else IsUpdateStatusConditionTrue E t h)"
  using upd.stored_set [OF assms, of c t] upd.inv_set [OF assms, of c] assms by (simp add: IsUpdateStatusConditionTrue_stored)

theorem condition_roundtrip_witness:
  "IsUpdateStatusConditionTrue sample_ext ConditionSafeModeEnabled
     (snd (run_state (SetUpdateStatusCondition sample_ext (mkCondition ConditionSafeModeEnabled ConditionTrue ''Update'' []))
       (sample_heap (sample_updating UpdateFlowFull None UpdateStateWaitingForSafeModeEnabled [ConditionHasPossibility]))))"
  using condition_roundtrip [OF sample_cond_inv, of "[ConditionHasPossibility]" ConditionSafeModeEnabled
      "mkCondition ConditionSafeModeEnabled ConditionTrue ''Update'' []" UpdateFlowFull None UpdateStateWaitingForSafeModeEnabled]
  by (simp add: mkCondition_def)

text \<open>
  C27. Copies of resources are deep: for every kind of resource and every object of it, of any contents
  and with any sharing inside, \<open>DeepCopyObject\<close> returns an object with the same data that has no memory
  in common with the original; a write through the one is not seen through the other.
\<close>

theorem copies_independent:
  assumes "external_ok X" and "(t, c) \<in> set (resource_copies X)" and "well_typed s (TPtr t) (Ref (Some a))"
  shows "\<exists>v s'. run_state (c (Ref (Some a))) s = (Some v, s') \<and> well_typed s' (TPtr t) v \<and>
    data_of s' (TPtr t) v = data_of s (TPtr t) (Ref (Some a)) \<and>
    cells_of s' (TPtr t) (Ref (Some a)) \<inter> cells_of s' (TPtr t) v = {} \<and>
    (\<forall>b d. (b \<in> cells_of s' (TPtr t) v \<longrightarrow> data_of (filled b d s') (TPtr t) (Ref (Some a)) = data_of s (TPtr t) (Ref (Some a))) \<and>
      (b \<in> cells_of s' (TPtr t) (Ref (Some a)) \<longrightarrow> data_of (filled b d s') (TPtr t) v = data_of s (TPtr t) (Ref (Some a))))"
proof -
  obtain d where d: "deep (TPtr t) d" and c: "c = deepCopyObjectWith d" using deep_resources [OF assms(1,2)] .
  obtain v s' where v: "run_state (c (Ref (Some a))) s = (Some v, s')" "run_state (d (Ref (Some a))) s = (v, s')"
      "copied s (TPtr t) (Ref (Some a)) s' v"
    using deepCopyObject_copied [OF d assms(3)] unfolding c by blast
  note ind = deep_copy_independent [OF d assms(3) v(2)]
  show ?thesis
    by (intro exI [of _ v] exI [of _ s'] conjI allI impI) (use v ind in \<open>simp_all add: copied_def\<close>)
qed

theorem copies_independent_witness:
  "\<exists>v s'. run_state (Chyt_DeepCopyObject sample_types (Ref (Some 1))) sample_store = (Some v, s') \<and>
    data_of s' (TPtr (Chyt_type sample_types)) v = data_of sample_store (TPtr (Chyt_type sample_types)) (Ref (Some 1))"
proof -
  have "(Chyt_type sample_types, Chyt_DeepCopyObject sample_types) \<in> set (resource_copies sample_types)"
    by (simp add: resource_copies_def)
  from copies_independent [OF sample_external_ok this sample_store_typed] show ?thesis by blast
qed

text \<open>
  The conditions of a resource are kept sorted: the comparison function of the code orders
  them stably by the rank of their status and then by transition time.
\<close>

theorem conditions_sorted:
  "sortConditions cs = sort_key (\<lambda>c. (slices_Index statusOrder (cond_Status c), cond_LastTransitionTime c)) cs"
  using sortConditions_sort_key [of cs] by (simp add: condition_key_def [abs_def])

text \<open>
  What synchronising an object writes: nothing when the new object has no name or cannot be
  owned, a creation when no object was fetched, else an update of exactly the fetched version. An
  error of the write is returned.
\<close>

theorem sync_object_writes:
  "(fst (run_state (SyncObject E wrap old new) h), h_world (snd (run_state (SyncObject E wrap old new) h))) =
     (let new' = new\<lparr>o_Meta := (o_Meta new)\<lparr>om_ResourceVersion := om_ResourceVersion (o_Meta old)\<rparr>\<rparr>;
          obj = (if om_ResourceVersion (o_Meta old) = [] then new else new')
      in if om_Name (o_Meta new) = []
         then (Some (''cannot sync uninitialized object, object type '' @ go_type_name (wrap old)), h_world h)
         else if k_set_controller_reference (x_k8s E) (wrap obj) \<noteq> None
         then (k_set_controller_reference (x_k8s E) (wrap obj), h_world h)
         else if om_ResourceVersion (o_Meta old) = [] then k_create (x_k8s E) (wrap new) (h_world h)
         else k_update (x_k8s E) (wrap new') (h_world h))"
  by (auto simp: SyncObject_def createAndReferenceObject_def updateObject_def run_ext_write RecordNormal_def RecordWarning_def
      Let_def prod_eq_iff split: option.splits prod.splits)

text \<open>
  C28. The ports of a TCP proxy service are exactly the numbers from the first port up to the
  32-bit sum of first port and count; where that sum wraps around to a smaller number there are no
  ports, and the loop ends in every case.
\<close>

theorem tcp_service_ports:
  "map (\<lambda>p. sint (sp_Port p)) (svc_Ports (o_Body (r_new (TCPService_Build s)))) =
     [sint (ts_minPort s)..sint (ts_minPort s + ts_portCount s) - 1]"
  by (simp add: TCPService_Build_def tcp_ports_upto)

section \<open>Configurations, servers and jobs\<close>

text \<open>
  C29. Configuration overrides: after a merge every key reads as the override, merged recursively
  where both sides are maps, and as the base configuration where there is no override.
\<close>

theorem overrides_merge:
  assumes "distinct (map fst src)"
  shows "map_of (mergeMapsRecursively dst src) k = (case map_of src k of
      None \<Rightarrow> map_of dst k
    | Some v \<Rightarrow> (case (map_of dst k, v) of
        (Some (YMap d), YMap s) \<Rightarrow> Some (YMap (mergeMapsRecursively d s))
      | _ \<Rightarrow> Some v))"
  by (auto simp: mergeMapsRecursively_lookup [OF assms] merged_value_def split: option.splits yval.splits)

theorem overrides_merge_witness:
  "map_of (mergeMapsRecursively [(''a'', YMap [(''x'', YInt 1)]), (''b'', YInt 3)] [(''a'', YMap [(''y'', YInt 2)])]) ''a'' =
     Some (YMap (mergeMapsRecursively [(''x'', YInt 1)] [(''y'', YInt 2)]))"
  using overrides_merge [of "[(''a'', YMap [(''y'', YInt 2)])]" "[(''a'', YMap [(''x'', YInt 1)]), (''b'', YInt 3)]" "''a''"] by simp

text \<open>
  C30. Once a built configuration is stored, the operator sees no change: asking again whether a
  reload is needed says no, without an error, in any memory.
\<close>

theorem stored_config_is_stable:
  assumes "snd (fst (run_state (ConfigHelper_Build E ch) h))" and "rv \<noteq> []"
  shows "fst (run_state (NeedReload E (stored_build rv (fst (fst (run_state (ConfigHelper_Build E ch) h))))) g) = (False, None)"
  using stored_build_no_reload [of E ch h _ _ rv g] assms by (metis prod.collapse)

theorem stored_config_is_stable_witness:
  "fst (run_state (NeedReload sample_ext (stored_build ''7''
     (fst (fst (run_state (ConfigHelper_Build sample_ext (srv_configHelper sample_server)) (sample_heap new_status))))))
       (sample_heap sample_full)) = (False, None)"
  by (rule stored_config_is_stable)
    (simp_all add: sample_server_def newServer_def newServerConfigured_def Let_def NewConfigHelper_def ConfigHelper_Build_def
      getConfig_def formatConfig_def sample_ext_def sample_fmt_def sample_common_def sample_spec_def sample_resource_def zero_configmap_def zero_meta_def)

text \<open>
  C31. A server that was built from the specification and fetched needs an update exactly when its stateful set, its headless
  service and its monitoring service are stored and either the first container of the stored stateful set has another
  image than the specification asks for, or the configuration can be generated and the stored one is not the generated
  text with the overrides merged into it. A stored stateful set has containers (the API server admits no other).
\<close>

theorem server_needs_update:
  assumes "run_state (serverImpl_Fetch E (newServerConfigured l c i bin file ssn svn gen opts)) h = ((None, s), h')"
    and "\<And>ss. stored_object (k_get_statefulset (x_k8s E)) ssn (h_world h) = Some ss \<Longrightarrow>
      ps_Containers (ss_PodSpec (o_Body ss)) \<noteq> []"
  shows "fst (run_state (serverImpl_needUpdate E s) h') \<longleftrightarrow>
    (\<exists>ss. stored_object (k_get_statefulset (x_k8s E)) ssn (h_world h) = Some ss \<and>
       stored_object (k_get_service (x_k8s E)) svn (h_world h) \<noteq> None \<and>
       stored_object (k_get_service (x_k8s E)) (lb_ComponentLabel l @ ''-monitoring'') (h_world h) \<noteq> None \<and>
       (ct_Image (hd (ps_Containers (ss_PodSpec (o_Body ss)))) \<noteq> (case is_Image i of Some img \<Rightarrow> img | None \<Rightarrow> cs_CoreImage c) \<or>
        (\<exists>t. wanted_config E (h_world h) (cs_ConfigOverrides c) (GetMainConfigMapName l) file gen = Some t \<and>
           stored_config E (h_world h) (GetMainConfigMapName l) file \<noteq> Some t)))"
  using assms by (rule new_server_needUpdate)

theorem server_needs_update_witness:
  "let asks = (\<lambda>img. fst (run_state (serverImpl_needUpdate ready_ext (snd (fst (run_state (serverImpl_Fetch ready_ext
     (sample_configured img)) sample_ready)))) sample_ready)) in asks ''ytsaurus:2'' \<and> \<not> asks ''ytsaurus:1''"
proof -
  have run: "run_state (serverImpl_Fetch ready_ext (sample_configured img)) sample_ready =
      ((None, snd (fst (run_state (serverImpl_Fetch ready_ext (sample_configured img)) sample_ready))), sample_ready)" for img
    by simp
  have "fst (run_state (serverImpl_needUpdate ready_ext (snd (fst (run_state (serverImpl_Fetch ready_ext
      (sample_configured img)) sample_ready)))) sample_ready) \<longleftrightarrow> ''ytsaurus:1'' \<noteq> img" for img
    by (subst server_needs_update [OF run [of img, unfolded sample_configured_def], folded sample_configured_def])
      (simp_all add: wanted_config_def sample_common_def)
  then show ?thesis by (simp add: Let_def)
qed

text \<open>
  C32. The pods of a server are well-formed, provided every volume mount of the specification names a volume or a claim
  template of the specification: every volume mount of every container, those that the operator adds included,
  names a volume of the pod or a claim template of the stateful set.
\<close>

theorem server_mounts_have_volumes:
  assumes "vm_Name ` set (is_VolumeMounts (srv_instanceSpec s)) \<subseteq>
    vol_Name ` set (is_Volumes (srv_instanceSpec s)) \<union> pvc_Name ` set (is_VolumeClaimTemplates (srv_instanceSpec s))"
    and "body = o_Body (r_new (srv_statefulSet (rebuildStatefulSet s)))"
  shows "mounts_ok (pvc_Name ` set (ss_VolumeClaimTemplates body)) (ss_PodSpec body)"
proof -
  have "\<forall>m \<in> set (is_VolumeMounts (srv_instanceSpec s)). vm_Name m \<in>
      vol_Name ` set (is_Volumes (srv_instanceSpec s)) \<union> pvc_Name ` set (is_VolumeClaimTemplates (srv_instanceSpec s))"
    using assms(1) by blast
  then show ?thesis
    unfolding assms(2) by (simp add: rebuild_statefulSet Let_def mounts_ok_adders mounts_ok_serverPodSpec)
qed

theorem server_mounts_have_volumes_witness:
  "let body = o_Body (r_new (srv_statefulSet (rebuildStatefulSet sample_mounting))) in
   mounts_ok {''disk''} (ss_PodSpec body) \<and>
   {''data'', ''disk'', CABundleVolumeName, BusSecretVolumeName} \<subseteq>
     vm_Name ` set (ct_VolumeMounts (hd (ps_Containers (ss_PodSpec body))))"
proof -
  let ?b = "o_Body (r_new (srv_statefulSet (rebuildStatefulSet sample_mounting)))"
  have "mounts_ok (pvc_Name ` set (ss_VolumeClaimTemplates ?b)) (ss_PodSpec ?b)"
    by (rule server_mounts_have_volumes [OF _ refl]) (simp add: sample_mounting_sel sample_mount_def)
  then show ?thesis
    by (simp add: rebuild_statefulSet Let_def sample_mounting_sel)
      (simp add: addTLSSecret_def onContainer0_def addCABundle_def addHostNetwork_def serverPodSpec_def Let_def sample_mounting_sel
        CABundle_AddVolume_def CABundle_AddVolumeMount_def TLSSecret_AddVolume_def TLSSecret_AddVolumeMount_def createVolumeMounts_def
        NewCABundle_def NewTLSSecret_def sample_mount_def)
qed

text \<open>
  C33. A job that has succeeded is done after one synchronisation: the completion is recorded, and
  the status query that follows reports ready.
\<close>

theorem completed_job_is_ready:
  assumes "cond_inv E h" and "Exists (ij_initJob j)" and "Job_Completed (ij_initJob j)"
  shows "cst_SyncStatus (fst (fst (fst (run_state (InitJob_Sync E True j) (snd (run_state (InitJob_Sync E False j) h)))))) = SyncStatusReady"
  using InitJob_Sync_completes [OF assms prod.collapse [symmetric]] by (simp add: InitJob_Sync_status)

theorem completed_job_is_ready_witness:
  "cst_SyncStatus (fst (fst (fst (run_state (InitJob_Sync sample_ext True sample_job)
     (snd (run_state (InitJob_Sync sample_ext False sample_job) (sample_heap sample_full))))))) = SyncStatusReady"
  by (rule completed_job_is_ready) (simp_all add: sample_cond_inv sample_job_def Exists_def Job_Completed_def word_sless_alt)

text \<open>
  C34. A job whose restart was prepared without an error does not count as completed: its
  completion is withdrawn and a status query does not report ready.
\<close>

theorem restart_withdraws_completion:
  assumes "cond_inv E h" and "fst (run_state (prepareRestart E False j) h) = None"
  shows "\<not> isRestartCompleted E j (snd (run_state (prepareRestart E False j) h)) \<and>
    cst_SyncStatus (fst (fst (fst (run_state (InitJob_Sync E True j) (snd (run_state (prepareRestart E False j) h)))))) \<noteq> SyncStatusReady"
proof -
  have "run_state (prepareRestart E False j) h = (None, snd (run_state (prepareRestart E False j) h))" using assms(2) by (metis prod.collapse)
  from prepareRestart_withdraws [OF assms(1) this] show ?thesis
    by (auto simp: InitJob_Sync_status isRestartCompleted_def IsStatusConditionTrue_stored IsStatusConditionFalse_stored)
qed

theorem restart_withdraws_completion_witness:
  "\<not> isRestartCompleted sample_ext sample_job (snd (run_state (prepareRestart sample_ext False sample_job) (sample_heap sample_full)))"
proof -
  have "fst (run_state (prepareRestart sample_ext False sample_job) (sample_heap sample_full)) = None"
    by (simp add: prepareRestart_def RemoveIfExists_def InitJob_removeIfExists_def DeleteObject_def case_prod_unfold run_ext_write
        sample_ext_def sample_k8s_def)
  from restart_withdraws_completion [OF sample_cond_inv this] show ?thesis by simp
qed

text \<open>
  C35. Master cells with different tags get different cell identifiers (the bytes of a UUID are
  sixteen).
\<close>

theorem cell_ids_unique:
  assumes "length (f_uuid (x_fmt E) ''ytsaurus-kubernetes-operator'') = 16"
  shows "generateCellID E s = generateCellID E t \<longleftrightarrow> s = t"
  by (rule generateCellID_inject [OF assms])

theorem cell_ids_unique_witness: "generateCellID sample_ext 1 = generateCellID sample_ext 2 \<longleftrightarrow> (1 :: int16) = 2"
  by (rule cell_ids_unique) (simp add: sample_ext_def sample_fmt_def)

section \<open>Accepted resources and their documents\<close>

text \<open>
  C36. The webhook admits a new resource exactly when its specification is in order (locations in
  mounts, names and roles without repetition, the components that others need, hosts and affinity
  of the masters) and no other resource lives in its namespace; an update moreover must not change the
  tag of the primary cell.
\<close>

theorem validation_exact:
  "(ValidateCreate W (AYtsaurus r) w = Inr None) = (spec_ok W (yr_Spec r) \<and> alone W r w) \<and>
   (ValidateUpdate W (AYtsaurus old) (AYtsaurus r) w = Inr None) = (spec_ok W (yr_Spec r) \<and> alone W r w \<and>
     mcs_CellTag (ms_Connection (ys_PrimaryMasters (yr_Spec old))) = mcs_CellTag (ms_Connection (ys_PrimaryMasters (yr_Spec r))))"
  by (simp add: ValidateCreate_def ValidateUpdate_def evaluateYtsaurusValidation_def Let_def validateYtsaurus_iff)

text \<open>
  C37. For a resource that the webhook admitted, and that does not ask for the deprecated CHYT controller without
  schedulers (which the webhook lets pass), the construction of the components does not panic, builds from every part of the
  specification its component, in order, and every configuration document that they ask for is built: no location
  or port is missing.
\<close>

theorem accepted_is_built:
  assumes "ValidateCreate W (AYtsaurus (h_yts h)) w = Inr None" and "marshal_ok E"
    and "ys_DeprecatedChytController (yr_Spec (h_yts h)) = None \<or> ys_Schedulers (yr_Spec (h_yts h)) \<noteq> None"
  shows "\<exists>cps h'. run_state (newComponents E) h = (Inr cps, h') \<and>
    list_all2 (built_from E h') (all_parts (yr_Spec (h_yts h))) (cps_all cps) \<and> docs_built h h'"
proof -
  have ok: "spec_ok W (yr_Spec (h_yts h))"
    using assms(1) by (simp add: ValidateCreate_def evaluateYtsaurusValidation_def Let_def validateYtsaurus_iff split: if_splits)
  obtain cps h' where run: "run_state (newComponents E) h = (Inr cps, h')" and docs: "docs_built h h'"
    using accepted_built [OF assms(2) ok] by (metis prod.collapse)
  moreover have "list_all2 (built_from E h') (built_parts (yr_Spec (h_yts h))) (cps_all cps)"
    using newComponentsFor_built [of h "h_yts h" E] run by (simp add: newComponents_def establishes_def built_ok_def)
  ultimately show ?thesis using docs accepted_parts [OF ok assms(3)] by simp
qed

theorem accepted_is_built_witness:
  "\<exists>cps h'. run_state (newComponents sample_ext) (fresh_heap sample_valid (sample_start new_status)) = (Inr cps, h') \<and>
    list_all2 (built_from sample_ext h') (all_parts (yr_Spec sample_valid)) (cps_all cps) \<and> length (cps_all cps) = 8"
proof -
  have "ValidateCreate sample_webhook (AYtsaurus sample_valid) (sample_start new_status) = Inr None"
    using sample_spec_ok by (simp add: ValidateCreate_def evaluateYtsaurusValidation_def Let_def validateYtsaurus_iff alone_def sample_webhook_def)
  moreover have yts: "h_yts (fresh_heap sample_valid (sample_start new_status)) = sample_valid" by (simp add: fresh_heap_def)
  moreover have "ys_DeprecatedChytController (yr_Spec sample_valid) = None" by (simp add: sample_valid_def sample_resource_def sample_spec_def)
  ultimately obtain cps h' where "run_state (newComponents sample_ext) (fresh_heap sample_valid (sample_start new_status)) = (Inr cps, h')"
      "list_all2 (built_from sample_ext h') (all_parts (yr_Spec sample_valid)) (cps_all cps)"
    using accepted_is_built [of sample_webhook "fresh_heap sample_valid (sample_start new_status)", OF _ sample_marshal_ok, unfolded yts]
    by blast
  moreover have "length (all_parts (yr_Spec sample_valid)) = 8"
    by (simp add: all_parts_def parts_of_def tablet_parts_def strawberry_parts_def sample_valid_def sample_resource_def sample_spec_def)
  ultimately show ?thesis by (metis list_all2_lengthD)
qed

text \<open>
  C38. The watermarks of a store location whose quota is known are ordered, when the low watermark that is given, or
  the quota where none is given, is not negative: writes are disabled at no more than half of the high
  watermark, which is no more than half of the low one. A given low watermark is used as it is; one that is not given is
  at most the quota and at most 25 GiB. The floating point arithmetic of the code is exact enough for it.
\<close>

theorem watermarks_ordered:
  assumes "findQuotaForLocation F location i = Some quota"
    and "0 \<le> sint (case loc_LowWatermark location of Some q \<Rightarrow> f_quantity_value F q | None \<Rightarrow> quota)"
    and "sl = storeLocation F i location"
  shows "0 \<le> sint (sl_DisableWritesWatermark sl) \<and>
    2 * sint (sl_DisableWritesWatermark sl) \<le> sint (sl_HighWatermark sl) \<and>
    2 * sint (sl_HighWatermark sl) \<le> sint (sl_LowWatermark sl) \<and> sl_Quota sl = quota \<and>
    (case loc_LowWatermark location of
       Some q \<Rightarrow> sl_LowWatermark sl = f_quantity_value F q
     | None \<Rightarrow> sint (sl_LowWatermark sl) \<le> min (sint quota) (25 * 2 ^ 30))"
  using assms defaultLowWatermark_bounds [of quota]
  by (auto simp: storeLocation_def Let_def int64_quot_nonneg split: option.splits)

theorem watermarks_ordered_witness:
  "sint (sl_LowWatermark (storeLocation sample_fmt sample_instance (sample_location LocationTypeChunkStore))) \<le> 10737418240 \<and>
   sl_LowWatermark (storeLocation sample_fmt sample_instance
     (sample_location LocationTypeChunkStore\<lparr>loc_LowWatermark := Some (50 * 2 ^ 30 * 1000000000)\<rparr>)) = 50 * 2 ^ 30"
proof -
  have q: "findQuotaForLocation sample_fmt (sample_location LocationTypeChunkStore) sample_instance = Some 10737418240"
    "findQuotaForLocation sample_fmt (sample_location LocationTypeChunkStore\<lparr>loc_LowWatermark := Some (50 * 2 ^ 30 * 1000000000)\<rparr>)
      sample_instance = Some 10737418240"
    by (simp_all add: findQuotaForLocation_def sample_location_def sample_fmt_def)
  from watermarks_ordered [OF q(1) _ refl] watermarks_ordered [OF q(2) _ refl] show ?thesis
    by (simp add: sample_location_def sample_fmt_def)
qed

text \<open>
  C39. Whatever the number of data nodes, the journals of the masters are configured with quorums that
  intersect: a read quorum and a write quorum together exceed the replication factor and neither
  exceeds it; and nothing is replicated more often than there are data nodes (once, if there are none).
\<close>

theorem journal_quorums_intersect:
  "let c = configureMasterServerCypressManager n m in
   cym_DefaultJournalReplicationFactor c < cym_DefaultJournalReadQuorum c + cym_DefaultJournalWriteQuorum c \<and>
   cym_DefaultJournalReadQuorum c \<le> cym_DefaultJournalReplicationFactor c \<and>
   cym_DefaultJournalWriteQuorum c \<le> cym_DefaultJournalReplicationFactor c \<and>
   max (cym_DefaultJournalReplicationFactor c) (max (cym_DefaultTableReplicationFactor c) (cym_DefaultFileReplicationFactor c)) \<le> max 1 (sint n)"
  by (simp add: configureMasterServerCypressManager_def Let_def)

section \<open>Releases\<close>

text \<open>
  C40. A CHYT release that was not finished is stored as finished only by a reconciliation that found
  its cluster running, and only with the completion of its jobs recorded: the one that creates the
  user, the one that uploads CHYT and, where a public clique was asked for, the one that starts it.
\<close>

theorem chyt_finished_sound:
  assumes "release_ok A E" and "meta_ok (x_meta E)" and "ra_get A w = Found r" and "wf_conditions (rst_Conditions (rel_Status r))"
    and "rst_ReleaseStatus (rel_Status r) \<noteq> ChytReleaseStatusFinished"
    and "ra_get A (snd (ChytReconciler_Reconcile A E w)) = Found r'" and "rst_ReleaseStatus (rel_Status r') = ChytReleaseStatusFinished"
  shows "\<exists>name y. rsp_Ytsaurus (rel_Spec r) = Some name \<and> ra_get_ytsaurus A name w = Found y \<and>
    st_State (yr_Status y) = ClusterStateRunning \<and>
    (\<forall>job \<in> set ([''user'', ''release''] @ (if chPublicWanted y r then [''ch-public''] else [])).
      status_of (rst_Conditions (rel_Status r')) (job @ ''CHYT-'' @ om_Name (rel_Meta r) @ ''InitJobCompleted'') = Some ConditionTrue)"
  by (rule chyt_reconcile_finished [OF assms])

theorem chyt_finished_sound_witness:
  "\<exists>r'. ra_get sample_release (snd (ChytReconciler_Reconcile sample_release sample_release_ext sample_chyt)) = Found r' \<and>
     status_of (rst_Conditions (rel_Status r')) ''userCHYT-chInitJobCompleted'' = Some ConditionTrue"
proof -
  obtain r' where r': "ra_get sample_release (snd (ChytReconciler_Reconcile sample_release sample_release_ext sample_chyt)) = Found r'"
      "rst_ReleaseStatus (rel_Status r') = ChytReleaseStatusFinished"
    using sample_chyt_finishes by blast
  have "ra_get sample_release sample_chyt = Found sample_chyt" "rst_ReleaseStatus (rel_Status sample_chyt) \<noteq> ChytReleaseStatusFinished"
    by (simp_all add: sample_release_def sample_chyt_def)
  from chyt_finished_sound [OF sample_release_ok(1,2) this(1) sample_release_ok(4) this(2) r'] r'(1)
  show ?thesis by (auto simp: sample_chyt_def)
qed

end
